(* ===== verification/Prelude.thy ===== *)
theory Prelude
  imports Main "HOL-Library.Word" "HOL-Library.Char_ord" "HOL-Library.List_Lexorder"
begin

text \<open>
  Shared ground of the development: the width-indexed integers, the error values and the
  state-and-error actions the Go functions are translated to, the fragment of the Go
  \<^verbatim>\<open>strings\<close> and \<^verbatim>\<open>strconv\<close> packages the sources use, and the generic lemmas
  on words, lists and actions that the component theories rely on.

  A Go function \<^verbatim>\<open>f(ctx, k, args) (T, error)\<close> that reads and writes the keeper becomes a
  function of its arguments into an action \<open>'s \<Rightarrow> (error + 'a) \<times> 's\<close>: the state is returned
  on the error path too, because a Go function that fails has kept the writes it made before.
\<close>

section \<open>Machine integers\<close>

type_synonym u64 = "64 word"
type_synonym u32 = "32 word"

text \<open>
  \<^verbatim>\<open>int64\<close> values are integers; an operation whose operands are not bounded by the code is
  followed by \<open>wrap64\<close>, Go's two's complement wrap-around.
\<close>

definition wrap64 :: "int \<Rightarrow> int" where
  "wrap64 x = (x + 2 ^ 63) mod 2 ^ 64 - 2 ^ 63"

definition u64_of_int :: "int \<Rightarrow> u64" where
  "u64_of_int x = word_of_int x"

text \<open>Go's integer division truncates towards zero.\<close>

definition go_div :: "int \<Rightarrow> int \<Rightarrow> int" where
  "go_div a b = sgn a * sgn b * (\<bar>a\<bar> div \<bar>b\<bar>)"

named_theorems u64_nat "facts that move 64-bit words to natural numbers"

lemma wrap64_id: "- (2 ^ 63) \<le> x \<Longrightarrow> x < 2 ^ 63 \<Longrightarrow> wrap64 x = x"
  by (simp add: wrap64_def)

lemma go_div_pos: "0 \<le> a \<Longrightarrow> 0 < b \<Longrightarrow> go_div a b = a div b"
  by (cases "a = 0") (auto simp: go_div_def sgn_if)

lemma unat_lt_64 [simp]: "unat (x :: u64) < 18446744073709551616"
  using unsigned_less [of x] by simp

lemma unat_add_u64: "unat (x :: u64) + unat y < 2 ^ 64 \<Longrightarrow> unat (x + y) = unat x + unat y"
  by (simp add: unat_word_ariths)

lemma unat_mult_u64: "unat (x :: u64) * unat y < 2 ^ 64 \<Longrightarrow> unat (x * y) = unat x * unat y"
  by (simp add: unat_word_ariths)

lemma unat_sub_u64: "y \<le> (x :: u64) \<Longrightarrow> unat (x - y) = unat x - unat y"
  by (rule unat_sub)

lemma u64_eq_iff_unat: "(x :: u64) = y \<longleftrightarrow> unat x = unat y"
  by (simp add: word_unat_eq_iff)

lemma unat_zero_iff: "unat (x :: u64) = 0 \<longleftrightarrow> x = 0"
  by (rule unat_eq_0)

lemma unat_of_nat_u64: "n < 2 ^ 64 \<Longrightarrow> unat (of_nat n :: u64) = n"
  by (simp add: unat_of_nat)

lemmas u64_arith = word_le_nat_alt word_less_nat_alt u64_eq_iff_unat

section \<open>Errors and actions\<close>

text \<open>
  \<open>Errorf m\<close> is \<^verbatim>\<open>fmt.Errorf(m)\<close> or \<^verbatim>\<open>errors.New(m)\<close>, \<open>Wrapf m e\<close> is
  \<^verbatim>\<open>fmt.Errorf("m: %w", e)\<close>, and \<open>Panic m\<close> is a run-time panic, which the message router
  turns into an error.
\<close>

datatype error = Errorf string | Wrapf string error | Panic string

type_synonym 'a result = "error + 'a"
type_synonym ('s, 'a) act = "'s \<Rightarrow> 'a result \<times> 's"

definition ret :: "'a \<Rightarrow> ('s, 'a) act" where
  "ret x s = (Inr x, s)"

definition fail :: "error \<Rightarrow> ('s, 'a) act" where
  "fail e s = (Inl e, s)"

definition bindA :: "('s, 'a) act \<Rightarrow> ('a \<Rightarrow> ('s, 'b) act) \<Rightarrow> ('s, 'b) act" where
  "bindA m f s = (case m s of (Inl e, s') \<Rightarrow> (Inl e, s') | (Inr x, s') \<Rightarrow> f x s')"

definition thenA :: "('s, 'a) act \<Rightarrow> ('s, 'b) act \<Rightarrow> ('s, 'b) act" where
  "thenA m n = bindA m (\<lambda>_. n)"

text \<open>\<open>err_if c m k\<close> is \<^verbatim>\<open>if c { return ..., fmt.Errorf(m) }\<close> followed by \<open>k\<close>.\<close>

definition err_if :: "bool \<Rightarrow> string \<Rightarrow> ('s, 'a) act \<Rightarrow> ('s, 'a) act" where
  "err_if c m k = (if c then fail (Errorf m) else k)"

definition lift_result :: "'a result \<Rightarrow> ('s, 'a) act" where
  "lift_result r s = (r, s)"

text \<open>\<open>lift_wrap m r\<close> is \<^verbatim>\<open>if err != nil { return ..., fmt.Errorf("m: %w", err) }\<close>.\<close>

definition wrap_error :: "string \<Rightarrow> 'a result \<Rightarrow> 'a result" where
  "wrap_error m r = (case r of Inl e \<Rightarrow> Inl (Wrapf m e) | Inr x \<Rightarrow> Inr x)"

definition lift_wrap :: "string \<Rightarrow> 'a result \<Rightarrow> ('s, 'a) act" where
  "lift_wrap m r = lift_result (wrap_error m r)"

definition gets :: "('s \<Rightarrow> 'a) \<Rightarrow> ('s, 'a) act" where
  "gets f s = (Inr (f s), s)"

definition modify :: "('s \<Rightarrow> 's) \<Rightarrow> ('s, unit) act" where
  "modify f s = (Inr (), f s)"

text \<open>\<open>attempt m\<close> runs \<open>m\<close> and hands its error to the caller as a value, as Go code does
  that inspects \<^verbatim>\<open>err\<close> and goes on.\<close>

definition attempt :: "('s, 'a) act \<Rightarrow> ('s, 'a result) act" where
  "attempt m s = (case m s of (r, s') \<Rightarrow> (Inr r, s'))"

fun forA :: "('a \<Rightarrow> ('s, unit) act) \<Rightarrow> 'a list \<Rightarrow> ('s, unit) act" where
  "forA f [] = ret ()"
| "forA f (x # xs) = bindA (f x) (\<lambda>_. forA f xs)"

fun foldA :: "('b \<Rightarrow> 'a \<Rightarrow> ('s, 'b) act) \<Rightarrow> 'b \<Rightarrow> 'a list \<Rightarrow> ('s, 'b) act" where
  "foldA f b [] = ret b"
| "foldA f b (x # xs) = bindA (f b x) (\<lambda>b'. foldA f b' xs)"

lemmas act_defs = ret_def fail_def bindA_def thenA_def err_if_def lift_result_def
  lift_wrap_def wrap_error_def gets_def modify_def attempt_def

subsection \<open>Inversion of successful runs\<close>

named_theorems act_run "what a successful run of an action says about its parts"

lemma ret_run [act_run]: "ret x s = (Inr y, t) \<longleftrightarrow> y = x \<and> t = s"
  by (auto simp: ret_def)

lemma fail_run [act_run]: "fail e s = (Inr y, t) \<longleftrightarrow> False"
  by (simp add: fail_def)

lemma bindA_run [act_run]:
  "bindA m f s = (Inr y, t) \<longleftrightarrow> (\<exists>x s1. m s = (Inr x, s1) \<and> f x s1 = (Inr y, t))"
  by (auto simp: bindA_def split: prod.splits sum.splits)

lemma thenA_run [act_run]:
  "thenA m n s = (Inr y, t) \<longleftrightarrow> (\<exists>x s1. m s = (Inr x, s1) \<and> n s1 = (Inr y, t))"
  by (simp add: thenA_def bindA_run)

lemma err_if_run [act_run]: "err_if c m k s = (Inr y, t) \<longleftrightarrow> \<not> c \<and> k s = (Inr y, t)"
  by (simp add: err_if_def fail_def)

lemma lift_result_run [act_run]: "lift_result r s = (Inr y, t) \<longleftrightarrow> r = Inr y \<and> t = s"
  by (auto simp: lift_result_def)

lemma lift_wrap_run [act_run]: "lift_wrap m r s = (Inr y, t) \<longleftrightarrow> r = Inr y \<and> t = s"
  by (auto simp: lift_wrap_def lift_result_def wrap_error_def split: sum.splits)

lemma gets_run [act_run]: "gets f s = (Inr y, t) \<longleftrightarrow> y = f s \<and> t = s"
  by (auto simp: gets_def)

lemma modify_run [act_run]: "modify f s = (Inr y, t) \<longleftrightarrow> t = f s"
  by (auto simp: modify_def)

lemma attempt_run [act_run]: "attempt m s = (Inr r, t) \<longleftrightarrow> m s = (r, t)"
  by (auto simp: attempt_def split: prod.splits)

subsection \<open>Preservation\<close>

text \<open>
  \<open>keeps P m\<close>: whatever the outcome, an action \<open>m\<close> run in a state with \<open>P\<close> ends in one.
  \<open>same f m\<close>: no run of \<open>m\<close>, successful or not, changes \<open>f\<close> of the state.
\<close>

definition keeps :: "('s \<Rightarrow> bool) \<Rightarrow> ('s, 'a) act \<Rightarrow> bool" where
  "keeps P m \<longleftrightarrow> (\<forall>s. P s \<longrightarrow> P (snd (m s)))"

definition same :: "('s \<Rightarrow> 'b) \<Rightarrow> ('s, 'a) act \<Rightarrow> bool" where
  "same f m \<longleftrightarrow> (\<forall>s. f (snd (m s)) = f s)"

named_theorems act_keeps "introduction rules for keeps and same"

lemma keepsD: "keeps P m \<Longrightarrow> P s \<Longrightarrow> m s = (r, t) \<Longrightarrow> P t"
  by (auto simp: keeps_def)

lemma sameD: "same f m \<Longrightarrow> m s = (r, t) \<Longrightarrow> f t = f s"
  unfolding same_def by (metis snd_conv)

lemma keeps_pure [act_keeps]:
  "keeps P (ret x)" "keeps P (fail e)" "keeps P (lift_result r)" "keeps P (lift_wrap m r)"
  "keeps P (gets g)"
  by (simp_all add: keeps_def act_defs)

lemma same_pure [act_keeps]:
  "same f (ret x)" "same f (fail e)" "same f (lift_result r)" "same f (lift_wrap m r)"
  "same f (gets g)"
  by (simp_all add: same_def act_defs)

lemma keeps_bindA [act_keeps]: "keeps P m \<Longrightarrow> (\<And>x. keeps P (n x)) \<Longrightarrow> keeps P (bindA m n)"
  unfolding keeps_def bindA_def
  by (auto split: prod.splits sum.splits)

lemma same_bindA [act_keeps]: "same f m \<Longrightarrow> (\<And>x. same f (n x)) \<Longrightarrow> same f (bindA m n)"
  unfolding same_def bindA_def
  by (auto split: prod.splits sum.splits) (metis snd_conv)+

lemma keeps_thenA [act_keeps]: "keeps P m \<Longrightarrow> keeps P n \<Longrightarrow> keeps P (thenA m n)"
  by (simp add: thenA_def keeps_bindA)

lemma same_thenA [act_keeps]: "same f m \<Longrightarrow> same f n \<Longrightarrow> same f (thenA m n)"
  by (simp add: thenA_def same_bindA)

lemma keeps_err_if [act_keeps]: "(\<not> c \<Longrightarrow> keeps P k) \<Longrightarrow> keeps P (err_if c m k)"
  by (simp add: err_if_def keeps_pure)

lemma same_err_if [act_keeps]: "(\<not> c \<Longrightarrow> same f k) \<Longrightarrow> same f (err_if c m k)"
  by (simp add: err_if_def same_pure)

lemma keeps_if [act_keeps]:
  "(c \<Longrightarrow> keeps P m) \<Longrightarrow> (\<not> c \<Longrightarrow> keeps P n) \<Longrightarrow> keeps P (if c then m else n)"
  by simp

lemma same_if [act_keeps]:
  "(c \<Longrightarrow> same f m) \<Longrightarrow> (\<not> c \<Longrightarrow> same f n) \<Longrightarrow> same f (if c then m else n)"
  by simp

lemma keeps_attempt [act_keeps]: "keeps P m \<Longrightarrow> keeps P (attempt m)"
  unfolding keeps_def attempt_def by (simp add: case_prod_beta)

lemma same_attempt [act_keeps]: "same f m \<Longrightarrow> same f (attempt m)"
  unfolding same_def attempt_def by (simp add: case_prod_beta)

lemma keeps_forA [act_keeps]: "(\<And>x. keeps P (g x)) \<Longrightarrow> keeps P (forA g xs)"
  by (induction xs) (auto intro: act_keeps)

lemma same_forA [act_keeps]: "(\<And>x. same f (g x)) \<Longrightarrow> same f (forA g xs)"
  by (induction xs) (auto intro: act_keeps)

lemma keeps_foldA [act_keeps]: "(\<And>b x. keeps P (g b x)) \<Longrightarrow> keeps P (foldA g b xs)"
  by (induction xs arbitrary: b) (auto intro: act_keeps)

lemma same_foldA [act_keeps]: "(\<And>b x. same f (g b x)) \<Longrightarrow> same f (foldA g b xs)"
  by (induction xs arbitrary: b) (auto intro: act_keeps)

lemma same_modify: "(\<And>s. f (g s) = f s) \<Longrightarrow> same f (modify g)"
  by (simp add: same_def modify_def)

lemma same_keeps: "same f m \<Longrightarrow> keeps (\<lambda>s. Q (f s)) m"
  by (simp add: same_def keeps_def)

lemma keeps_forA_set: "(\<And>x. x \<in> set xs \<Longrightarrow> keeps P (g x)) \<Longrightarrow> keeps P (forA g xs)"
  by (induction xs) (auto intro: act_keeps)

subsection \<open>Returned values\<close>

text \<open>\<open>gives P Q m\<close>: run in a state with \<open>P\<close>, the value \<open>m\<close> returns has \<open>Q\<close>.\<close>

definition gives :: "('s \<Rightarrow> bool) \<Rightarrow> ('a \<Rightarrow> bool) \<Rightarrow> ('s, 'a) act \<Rightarrow> bool" where
  "gives P Q m \<longleftrightarrow> (\<forall>s x t. P s \<longrightarrow> m s = (Inr x, t) \<longrightarrow> Q x)"

lemma gives_ret: "Q x \<Longrightarrow> gives P Q (ret x)"
  by (simp add: gives_def act_run)

lemma gives_bindA: "keeps P m \<Longrightarrow> (\<And>x. gives P Q (n x)) \<Longrightarrow> gives P Q (bindA m n)"
  unfolding gives_def keeps_def bindA_run by (metis snd_conv)

lemma gives_bindA_value: "keeps P m \<Longrightarrow> gives P R m \<Longrightarrow> (\<And>x. R x \<Longrightarrow> gives P Q (n x)) \<Longrightarrow> gives P Q (bindA m n)"
  unfolding gives_def keeps_def bindA_run by (metis snd_conv)

lemma keeps_bindA_value: "keeps P m \<Longrightarrow> gives P R m \<Longrightarrow> (\<And>x. R x \<Longrightarrow> keeps P (n x)) \<Longrightarrow> keeps P (bindA m n)"
  unfolding keeps_def gives_def bindA_def by (auto split: prod.split sum.split)

lemma gives_if: "(c \<Longrightarrow> gives P Q m) \<Longrightarrow> (\<not> c \<Longrightarrow> gives P Q n) \<Longrightarrow> gives P Q (if c then m else n)"
  by simp

lemma gives_foldA:
  "(\<And>b x. x \<in> set xs \<Longrightarrow> Q b \<Longrightarrow> gives P Q (g b x)) \<Longrightarrow> (\<And>b x. x \<in> set xs \<Longrightarrow> keeps P (g b x)) \<Longrightarrow> Q b \<Longrightarrow> gives P Q (foldA g b xs)"
proof (induction xs arbitrary: b)
  case (Cons x xs)
  then show ?case by (auto intro!: gives_bindA_value [of P _ Q])
qed (simp add: gives_ret)

lemma keeps_foldA_set: "(\<And>b x. x \<in> set xs \<Longrightarrow> keeps P (g b x)) \<Longrightarrow> keeps P (foldA g b xs)"
  by (induction xs arbitrary: b) (auto intro: act_keeps)

lemma if_ret_run: "(if c then ret x else m) s = (Inr y, t) \<longleftrightarrow> c \<and> y = x \<and> t = s \<or> \<not> c \<and> m s = (Inr y, t)"
  by (auto simp: act_run)

subsection \<open>Errors that are logged or wrapped\<close>

text \<open>A panic is never caught: \<open>logged\<close> turns an error into \<open>None\<close>, \<open>on_error\<close> wraps it.\<close>

definition logged :: "('s, 'a) act \<Rightarrow> ('s, 'a option) act" where
  "logged m = bindA (attempt m) (\<lambda>r. case r of Inr x \<Rightarrow> ret (Some x) | Inl (Panic p) \<Rightarrow> fail (Panic p) | Inl _ \<Rightarrow> ret None)"

definition on_error :: "string \<Rightarrow> ('s, 'a) act \<Rightarrow> ('s, 'a) act" where
  "on_error msg m = bindA (attempt m) (\<lambda>r. case r of Inr x \<Rightarrow> ret x | Inl (Panic p) \<Rightarrow> fail (Panic p) | Inl err \<Rightarrow> fail (Wrapf msg err))"

lemma logged_run [act_run]:
  "logged m s = (Inr x, t) \<longleftrightarrow> (\<exists>r. m s = (r, t) \<and> (case r of Inr y \<Rightarrow> x = Some y | Inl err \<Rightarrow> x = None \<and> (\<forall>p. err \<noteq> Panic p)))"
proof -
  obtain r t' where r: "m s = (r, t')" by fastforce
  show ?thesis by (cases r; cases "projl r") (auto simp: logged_def bindA_def attempt_def ret_def fail_def r)
qed

lemma on_error_run [act_run]: "on_error msg m s = (Inr x, t) \<longleftrightarrow> m s = (Inr x, t)"
proof -
  obtain r t' where r: "m s = (r, t')" by fastforce
  show ?thesis by (cases r; cases "projl r") (auto simp: on_error_def bindA_def attempt_def ret_def fail_def r)
qed

lemma keeps_logged [act_keeps]: "keeps P m \<Longrightarrow> keeps P (logged m)"
  unfolding logged_def by (rule keeps_bindA [OF keeps_attempt]) (auto intro: act_keeps split: sum.split error.split)

lemma same_logged [act_keeps]: "same f m \<Longrightarrow> same f (logged m)"
  unfolding logged_def by (rule same_bindA [OF same_attempt]) (auto intro: act_keeps split: sum.split error.split)

lemma same_on_error [act_keeps]: "same f m \<Longrightarrow> same f (on_error msg m)"
  unfolding on_error_def by (rule same_bindA [OF same_attempt]) (auto intro: act_keeps split: sum.split error.split)

section \<open>Strings\<close>

text \<open>
  Go strings are byte strings. Case mapping and trimming are those of the ASCII letters and
  the ASCII white space, which is all the keys, addresses, hashes and identifiers of the
  program consist of.
\<close>

definition is_space :: "char \<Rightarrow> bool" where
  "is_space c \<longleftrightarrow> c \<in> {CHR '' '', CHR 0x09, CHR 0x0A, CHR 0x0B, CHR 0x0C, CHR 0x0D}"

definition TrimSpace :: "string \<Rightarrow> string" where
  "TrimSpace s = rev (dropWhile is_space (rev (dropWhile is_space s)))"

definition upper_char :: "char \<Rightarrow> char" where
  "upper_char c = (if CHR ''a'' \<le> c \<and> c \<le> CHR ''z'' then char_of (of_char c - 32 :: nat) else c)"

definition lower_char :: "char \<Rightarrow> char" where
  "lower_char c = (if CHR ''A'' \<le> c \<and> c \<le> CHR ''Z'' then char_of (of_char c + 32 :: nat) else c)"

definition ToUpper :: "string \<Rightarrow> string" where
  "ToUpper s = map upper_char s"

definition ToLower :: "string \<Rightarrow> string" where
  "ToLower s = map lower_char s"

definition EqualFold :: "string \<Rightarrow> string \<Rightarrow> bool" where
  "EqualFold s t \<longleftrightarrow> ToLower s = ToLower t"

fun HasPrefix :: "string \<Rightarrow> string \<Rightarrow> bool" where
  "HasPrefix s [] = True"
| "HasPrefix [] (c # cs) = False"
| "HasPrefix (d # ds) (c # cs) = (d = c \<and> HasPrefix ds cs)"

definition digit_char :: "nat \<Rightarrow> char" where
  "digit_char d = char_of (48 + d)"

fun show_nat :: "nat \<Rightarrow> string" where
  "show_nat n = (if n < 10 then [digit_char n] else show_nat (n div 10) @ [digit_char (n mod 10)])"

declare show_nat.simps [simp del]

definition show_u64 :: "u64 \<Rightarrow> string" where
  "show_u64 w = show_nat (unat w)"

definition show_int :: "int \<Rightarrow> string" where
  "show_int i = (if i < 0 then CHR ''-'' # show_nat (nat (- i)) else show_nat (nat i))"

lemma HasPrefix_iff: "HasPrefix s p \<longleftrightarrow> (\<exists>r. s = p @ r)"
  by (induction s p rule: HasPrefix.induct) auto

lemma TrimSpace_no_space: "(\<And>c. c \<in> set s \<Longrightarrow> \<not> is_space c) \<Longrightarrow> TrimSpace s = s"
proof -
  assume a: "\<And>c. c \<in> set s \<Longrightarrow> \<not> is_space c"
  then have "dropWhile is_space s = s" and "dropWhile is_space (rev s) = rev s"
    by (metis dropWhile_eq_self_iff hd_in_set, metis dropWhile_eq_self_iff hd_in_set set_rev)
  then show ?thesis by (simp add: TrimSpace_def)
qed

lemma TrimSpace_idem [simp]: "TrimSpace (TrimSpace s) = TrimSpace s"
proof -
  have hd_trim: "dropWhile is_space (rev (dropWhile is_space (rev t))) = rev (dropWhile is_space (rev t))"
    if "t = [] \<or> \<not> is_space (hd t)" for t
  proof (cases "dropWhile is_space (rev t)")
    case Nil
    then show ?thesis unfolding Nil by simp
  next
    case (Cons a as)
    then obtain pre where rt: "rev t = pre @ a # as"
      by (metis takeWhile_dropWhile_id)
    then have "t = rev as @ [a] @ rev pre" by (metis append_assoc rev_append rev_rev_ident rev_singleton_conv append_Cons append_Nil)
    with that have "\<not> is_space (hd (rev as @ [a]))" by (auto simp: hd_append split: if_splits)
    with Cons show ?thesis by (cases "rev as") auto
  qed
  have "dropWhile is_space s = [] \<or> \<not> is_space (hd (dropWhile is_space s))"
    using hd_dropWhile by blast
  from hd_trim [OF this] show ?thesis
    by (simp add: TrimSpace_def dropWhile_idem)
qed

lemma TrimSpace_Nil [simp]: "TrimSpace [] = []"
  by (simp add: TrimSpace_def)

section \<open>Lists\<close>

lemma sum_list_filter_split:
  "sum_list (map f xs) = sum_list (map f (filter P xs)) + sum_list (map f (filter (\<lambda>x. \<not> P x) xs))"
  for f :: "'a \<Rightarrow> nat"
  by (induction xs) auto

lemma sum_list_le_each: "(\<And>x. x \<in> set xs \<Longrightarrow> f x \<le> g x) \<Longrightarrow> sum_list (map f xs) \<le> sum_list (map g xs)"
  for f g :: "'a \<Rightarrow> nat"
  by (rule sum_list_mono)

end
