(* ===== verification/KVMap.thy ===== *)
theory KVMap
  imports Prelude
begin

text \<open>
  The key-value store under the keeper. The Cosmos store keeps its entries ordered by key, and
  a prefix iterator returns them in that order; one prefix of the store is modelled as an
  association list in strictly ascending key order. The locale \<open>kv_store\<close> is the interface
  the keeper relies on (what a read returns after a write or a delete, what an iterator
  visits); its interpretation discharges it for the ordered list.

  The second half models the key formats of \<^verbatim>\<open>keeper/v1/keeper.go\<close> and
  \<^verbatim>\<open>keeper/v1/keeper_shielder.go\<close>: upper-cased keys and zero-padded decimal indexes, with
  the fact the latter are for: their byte order is the numeric order.
\<close>

section \<open>Ordered key-value lists\<close>

type_synonym ('k, 'v) kv = "('k \<times> 'v) list"

definition kv_get :: "('k, 'v) kv \<Rightarrow> 'k \<Rightarrow> 'v option" where
  "kv_get m k = map_of m k"

definition kv_has :: "('k, 'v) kv \<Rightarrow> 'k \<Rightarrow> bool" where
  "kv_has m k \<longleftrightarrow> kv_get m k \<noteq> None"

fun kv_set :: "'k::linorder \<Rightarrow> 'v \<Rightarrow> ('k, 'v) kv \<Rightarrow> ('k, 'v) kv" where
  "kv_set k v [] = [(k, v)]"
| "kv_set k v (e # m) =
     (if fst e < k then e # kv_set k v m else if fst e = k then (k, v) # m else (k, v) # e # m)"

definition kv_del :: "'k \<Rightarrow> ('k, 'v) kv \<Rightarrow> ('k, 'v) kv" where
  "kv_del k m = filter (\<lambda>e. fst e \<noteq> k) m"

text \<open>The values an iterator over the whole prefix visits, in order.\<close>

definition kv_values :: "('k, 'v) kv \<Rightarrow> 'v list" where
  "kv_values m = map snd m"

definition kv_ordered :: "('k::linorder, 'v) kv \<Rightarrow> bool" where
  "kv_ordered m \<longleftrightarrow> sorted_wrt (<) (map fst m)"

locale kv_store =
  fixes get :: "'m \<Rightarrow> 'k \<Rightarrow> 'v option"
    and put :: "'k \<Rightarrow> 'v \<Rightarrow> 'm \<Rightarrow> 'm"
    and del :: "'k \<Rightarrow> 'm \<Rightarrow> 'm"
    and entries :: "'m \<Rightarrow> ('k \<times> 'v) list"
    and ok :: "'m \<Rightarrow> bool"
  assumes get_put: "get (put k v m) k' = (if k' = k then Some v else get m k')"
    and get_del: "get (del k m) k' = (if k' = k then None else get m k')"
    and ok_put: "ok m \<Longrightarrow> ok (put k v m)"
    and ok_del: "ok m \<Longrightarrow> ok (del k m)"
    and entries_iff: "ok m \<Longrightarrow> (k, v) \<in> set (entries m) \<longleftrightarrow> get m k = Some v"
    and entries_distinct: "ok m \<Longrightarrow> distinct (map fst (entries m))"
begin

lemma get_put_same: "get (put k v m) k = Some v"
  by (simp add: get_put)

lemma get_put_other: "k' \<noteq> k \<Longrightarrow> get (put k v m) k' = get m k'"
  by (simp add: get_put)

lemma entries_put_set:
  assumes "ok m"
  shows "set (entries (put k v m)) = insert (k, v) {e \<in> set (entries m). fst e \<noteq> k}"
proof -
  have "(a, b) \<in> set (entries (put k v m)) \<longleftrightarrow> (a, b) \<in> insert (k, v) {e \<in> set (entries m). fst e \<noteq> k}" for a b
    using assms by (auto simp: entries_iff ok_put get_put)
  then show ?thesis by auto
qed

lemma entries_sum_put_new:
  fixes f :: "'v \<Rightarrow> 'b::comm_monoid_add"
  assumes "ok m" and "get m k = None"
  shows "sum_list (map (f \<circ> snd) (entries (put k v m))) = f v + sum_list (map (f \<circ> snd) (entries m))"
proof -
  have sum_eq: "sum_list (map (f \<circ> snd) (entries n)) = sum (f \<circ> snd) (set (entries n))" if "ok n" for n
    using entries_distinct [OF that] by (simp add: distinct_map sum_list_distinct_conv_sum_set)
  have fresh: "(k, w) \<notin> set (entries m)" for w
    using assms by (simp add: entries_iff)
  then have "{e \<in> set (entries m). fst e \<noteq> k} = set (entries m)" by auto
  then have "set (entries (put k v m)) = insert (k, v) (set (entries m))"
    using entries_put_set [OF assms(1)] by metis
  then show ?thesis
    using fresh assms by (simp add: sum_eq ok_put)
qed

lemma entries_sum_put_update:
  fixes f :: "'v \<Rightarrow> 'b::comm_monoid_add"
  assumes "ok m" and "get m k = Some u"
  shows "sum_list (map (f \<circ> snd) (entries (put k v m))) + f u
    = f v + sum_list (map (f \<circ> snd) (entries m))"
proof -
  have sum_eq: "sum_list (map (f \<circ> snd) (entries n)) = sum (f \<circ> snd) (set (entries n))" if "ok n" for n
    using entries_distinct [OF that] by (simp add: distinct_map sum_list_distinct_conv_sum_set)
  let ?R = "{e \<in> set (entries m). fst e \<noteq> k}"
  have old: "set (entries m) = insert (k, u) ?R"
    using assms by (auto simp: entries_iff)
  have "sum (f \<circ> snd) (set (entries m)) = f u + sum (f \<circ> snd) ?R"
    by (subst old) (simp add: sum.insert)
  moreover have "sum (f \<circ> snd) (set (entries (put k v m))) = f v + sum (f \<circ> snd) ?R"
    by (subst entries_put_set [OF assms(1)]) (simp add: sum.insert)
  ultimately show ?thesis
    using assms by (simp add: sum_eq ok_put ac_simps)
qed

end

lemma kv_get_set [simp]: "kv_get (kv_set k v m) k' = (if k' = k then Some v else kv_get m k')"
  by (induction m) (auto simp: kv_get_def)

lemma kv_get_del [simp]: "kv_get (kv_del k m) k' = (if k' = k then None else kv_get m k')"
  by (induction m) (auto simp: kv_get_def kv_del_def)

lemma kv_get_Nil [simp]: "kv_get [] k = None"
  by (simp add: kv_get_def)

lemma kv_has_Nil [simp]: "\<not> kv_has [] k"
  by (simp add: kv_has_def)

lemma kv_has_set [simp]: "kv_has (kv_set k v m) k' \<longleftrightarrow> k' = k \<or> kv_has m k'"
  by (simp add: kv_has_def)

lemma fst_kv_set: "fst ` set (kv_set k v m) = insert k (fst ` set m)"
  by (induction m) auto

lemma kv_ordered_Nil [simp]: "kv_ordered []"
  by (simp add: kv_ordered_def)

lemma kv_ordered_set: "kv_ordered m \<Longrightarrow> kv_ordered (kv_set k v m)"
proof (induction m)
  case Nil
  then show ?case by (simp add: kv_ordered_def)
next
  case (Cons e m)
  have keys: "set (map fst (kv_set k v m)) = insert k (set (map fst m))"
    using fst_kv_set [of k v m] by simp
  from Cons.prems have m: "kv_ordered m" and lt: "\<forall>x \<in> set (map fst m). fst e < x"
    by (auto simp: kv_ordered_def)
  show ?case
    using Cons.IH [OF m] lt Cons.prems keys
    by (auto simp: kv_ordered_def simp flip: set_map)
qed

lemma kv_ordered_del: "kv_ordered m \<Longrightarrow> kv_ordered (kv_del k m)"
  unfolding kv_ordered_def kv_del_def
  by (induction m) auto

lemma kv_ordered_distinct: "kv_ordered m \<Longrightarrow> distinct (map fst m)"
  unfolding kv_ordered_def by (simp add: strict_sorted_iff)

lemma kv_entry_iff: "kv_ordered m \<Longrightarrow> (k, v) \<in> set m \<longleftrightarrow> kv_get m k = Some v"
  unfolding kv_get_def by (rule map_of_eq_Some_iff [OF kv_ordered_distinct, symmetric])

interpretation okv: kv_store kv_get kv_set kv_del id kv_ordered
  by unfold_locales
    (auto simp: kv_ordered_set kv_ordered_del kv_entry_iff dest: kv_ordered_distinct)

lemma kv_values_mem: "kv_ordered m \<Longrightarrow> v \<in> set (kv_values m) \<longleftrightarrow> (\<exists>k. kv_get m k = Some v)"
  unfolding kv_values_def by (auto simp: image_iff kv_entry_iff [symmetric]) force

lemma kv_sum_set_new:
  fixes f :: "'v \<Rightarrow> 'b::comm_monoid_add"
  shows "kv_ordered m \<Longrightarrow> kv_get m k = None \<Longrightarrow>
    sum_list (map f (kv_values (kv_set k v m))) = f v + sum_list (map f (kv_values m))"
  using okv.entries_sum_put_new [of m k f v] by (simp add: kv_values_def)

lemma kv_sum_set_update:
  fixes f :: "'v \<Rightarrow> 'b::comm_monoid_add"
  shows "kv_ordered m \<Longrightarrow> kv_get m k = Some u \<Longrightarrow>
    sum_list (map f (kv_values (kv_set k v m))) + f u = f v + sum_list (map f (kv_values m))"
  using okv.entries_sum_put_update [of m k u f v] by (simp add: kv_values_def)

section \<open>Keys\<close>

definition GetKey :: "string \<Rightarrow> string \<Rightarrow> string list \<Rightarrow> string" where
  "GetKey pre key other = pre @ ''/'' @ ToUpper key @ concat (map ToUpper other)"

lemma GetKey_eq_iff: "GetKey p k [] = GetKey p k' [] \<longleftrightarrow> ToUpper k = ToUpper k'"
  by (simp add: GetKey_def)

text \<open>\<^verbatim>\<open>%020d\<close>: at least twenty digits, padded with zeros.\<close>

definition pad20 :: "u64 \<Rightarrow> string" where
  "pad20 w = (let s = show_u64 w in replicate (20 - length s) (CHR ''0'') @ s)"

fun fixed_digits :: "nat \<Rightarrow> nat \<Rightarrow> string" where
  "fixed_digits 0 n = []"
| "fixed_digits (Suc w) n = fixed_digits w (n div 10) @ [digit_char (n mod 10)]"

lemma length_fixed_digits [simp]: "length (fixed_digits w n) = w"
  by (induction w arbitrary: n) auto

lemma digit_char_0 [simp]: "digit_char 0 = CHR ''0''"
  by code_simp

lemma fixed_digits_zero: "fixed_digits w 0 = replicate w (CHR ''0'')"
  by (induction w) (auto simp: replicate_append_same)

lemma length_show_nat: "n < 10 ^ w \<Longrightarrow> 0 < w \<Longrightarrow> length (show_nat n) \<le> w"
proof (induction n arbitrary: w rule: show_nat.induct)
  case (1 n)
  show ?case
  proof (cases "n < 10")
    case True
    with 1 show ?thesis by (subst show_nat.simps) simp
  next
    case False
    with 1 obtain v where v: "w = Suc v" "0 < v" by (cases w; cases "w - 1") auto
    with 1 False have "length (show_nat (n div 10)) \<le> v" by simp
    with False v show ?thesis by (subst show_nat.simps) simp
  qed
qed

lemma fixed_digits_pad:
  "n < 10 ^ w \<Longrightarrow> 0 < w \<Longrightarrow>
   fixed_digits w n = replicate (w - length (show_nat n)) (CHR ''0'') @ show_nat n"
proof (induction n arbitrary: w rule: show_nat.induct)
  case (1 n)
  then obtain v where v: "w = Suc v" by (cases w) auto
  show ?case
  proof (cases "n < 10")
    case True
    then have "show_nat n = [digit_char n]" by (subst show_nat.simps) simp
    with True v show ?thesis by (simp add: fixed_digits_zero)
  next
    case False
    with 1 v have v0: "0 < v" by (cases v) auto
    with 1 False v have IH: "fixed_digits v (n div 10) =
        replicate (v - length (show_nat (n div 10))) (CHR ''0'') @ show_nat (n div 10)"
      by simp
    from False have "show_nat n = show_nat (n div 10) @ [digit_char (n mod 10)]"
      by (subst show_nat.simps) simp
    with IH v show ?thesis by simp
  qed
qed

lemma lex_snoc_less:
  fixes xs ys :: "'a::order list"
  shows "length xs = length ys \<Longrightarrow> xs @ [x] < ys @ [y] \<longleftrightarrow> xs < ys \<or> (xs = ys \<and> x < y)"
  by (induction xs ys rule: list_induct2) auto

lemma digit_char_less: "a < 10 \<Longrightarrow> b < 10 \<Longrightarrow> digit_char a < digit_char b \<longleftrightarrow> a < b"
  by (simp add: digit_char_def less_char_def of_char_of take_bit_eq_mod)

lemma digit_char_inj: "a < 10 \<Longrightarrow> b < 10 \<Longrightarrow> digit_char a = digit_char b \<longleftrightarrow> a = b"
  by (metis digit_char_less linorder_neqE_nat order_less_irrefl)

lemma eq_by_tens: "a div 10 = b div 10 \<and> a mod 10 = b mod 10 \<longleftrightarrow> a = (b :: nat)"
  by (metis div_mult_mod_eq)

lemma less_by_tens:
  "a div 10 < b div 10 \<or> (a div 10 = b div 10 \<and> a mod 10 < b mod 10) \<longleftrightarrow> a < (b :: nat)"
proof -
  have "a = 10 * (a div 10) + a mod 10" "b = 10 * (b div 10) + b mod 10" by simp_all
  moreover have "a mod 10 < 10" "b mod 10 < 10" by simp_all
  ultimately show ?thesis by linarith
qed

lemma fixed_digits_inj:
  "a < 10 ^ w \<Longrightarrow> b < 10 ^ w \<Longrightarrow> fixed_digits w a = fixed_digits w b \<longleftrightarrow> a = b"
proof (induction w arbitrary: a b)
  case (Suc w)
  then have IH: "fixed_digits w (a div 10) = fixed_digits w (b div 10) \<longleftrightarrow> a div 10 = b div 10"
    by simp
  have "fixed_digits (Suc w) a = fixed_digits (Suc w) b \<longleftrightarrow> a div 10 = b div 10 \<and> a mod 10 = b mod 10"
    by (simp add: IH digit_char_inj)
  then show ?case by (simp only: eq_by_tens)
qed simp

lemma fixed_digits_less:
  "a < 10 ^ w \<Longrightarrow> b < 10 ^ w \<Longrightarrow> fixed_digits w a < fixed_digits w b \<longleftrightarrow> a < b"
proof (induction w arbitrary: a b)
  case (Suc w)
  then have lt: "fixed_digits w (a div 10) < fixed_digits w (b div 10) \<longleftrightarrow> a div 10 < b div 10"
    and eq: "fixed_digits w (a div 10) = fixed_digits w (b div 10) \<longleftrightarrow> a div 10 = b div 10"
    by (simp_all add: fixed_digits_inj)
  have "fixed_digits (Suc w) a < fixed_digits (Suc w) b \<longleftrightarrow>
      a div 10 < b div 10 \<or> (a div 10 = b div 10 \<and> a mod 10 < b mod 10)"
    by (simp add: lex_snoc_less lt eq digit_char_less)
  then show ?case by (simp only: less_by_tens)
qed simp

lemma pad20_fixed: "pad20 w = fixed_digits 20 (unat w)"
proof -
  have "unat w < 10 ^ 20" by (rule less_trans [OF unat_lt_64]) simp
  then show ?thesis by (simp add: pad20_def show_u64_def fixed_digits_pad Let_def)
qed

lemma unat_lt_pad: "unat (w :: u64) < 10 ^ 20"
  by (rule less_trans [OF unat_lt_64]) simp

lemma length_pad20 [simp]: "length (pad20 w) = 20"
  by (simp add: pad20_fixed)

lemma pad20_less: "pad20 a < pad20 b \<longleftrightarrow> a < b"
  by (simp only: pad20_fixed fixed_digits_less unat_lt_pad word_less_nat_alt)

lemma pad20_inj [simp]: "pad20 a = pad20 b \<longleftrightarrow> a = b"
  by (simp only: pad20_fixed fixed_digits_inj unat_lt_pad word_unat_eq_iff)

end
