(* ===== verification/Common.thy ===== *)
theory Common
  imports KVMap
begin

text \<open>
  The value types of \<^verbatim>\<open>common/\<close> that the chain logic is written over: transaction ids,
  addresses, public keys, chains and the vault derivation paths, and the record \<open>env\<close> of the
  code that lies outside the repository (hashes, bech32 and Bitcoin address codecs, curve
  arithmetic, JSON decoders, the proof verifier). Every definition that needs such code takes
  the record as an argument, so the theorems hold for every implementation of it.

  An \<^verbatim>\<open>AccAddress\<close> is its byte string; \<^verbatim>\<open>Address\<close>, \<^verbatim>\<open>PubKey\<close>, \<^verbatim>\<open>TxID\<close> and
  \<^verbatim>\<open>Chain\<close> are strings, as in the source.
\<close>

type_synonym AccAddress = string
type_synonym Address = string
type_synonym PubKey = string
type_synonym TxID = string
type_synonym Chain = string

section \<open>Code outside the repository\<close>

text \<open>The address types \<^verbatim>\<open>btcutil.DecodeAddress\<close> returns; the pay-to-pubkey form carries the
  length of its script address.\<close>

datatype btc_net = MainNetParams | TestNet3Params | RegressionNetParams

datatype btc_addr = AddressPubKey nat | AddressPubKeyHash | AddressScriptHash
  | AddressWitnessPubKeyHash | AddressWitnessScriptHash | AddressTaproot | AddressOther

datatype pubkey_type = AccPub | ConsPub

text \<open>The decoded form of one entry of a list of note commitments and of the public inputs of a
  redeem proof (\<^verbatim>\<open>shielderNoteCommitment\<close>, \<^verbatim>\<open>shielderRedeemPublicInputs\<close>).\<close>

record shielderNoteCommitment =
  nc_DenominationSats :: u64
  nc_Commitment :: string

record shielderRedeemPublicInputs =
  pi_NullifierHash :: string
  pi_MerkleRoot :: string
  pi_DenominationSats :: u64
  pi_Recipient :: string
  pi_FeeSats :: u64
  pi_RecipientPolicy :: string
  pi_NodePubKey :: string
  pi_BidID :: string

record withdrawalPublicInputs =
  wi_NullifierHash :: string
  wi_MerkleRoot :: string
  wi_DenominationSats :: u64
  wi_Recipient :: string
  wi_FeeSats :: u64
  wi_RecipientField :: string
  wi_RelayerField :: string
  wi_RefundField :: string
  wi_NoteCommitment :: string

record shielderRedeemProof =
  pf_Nullifier :: string
  pf_Secret :: string
  pf_Commitment :: string
  pf_MerkleRoot :: string

text \<open>
  The hash functions, codecs and curve operations of the standard library and of third-party
  packages, and the entry points of the Rust proof engine behind its C interface
  (\<^verbatim>\<open>RecipientBindingField\<close>, \<^verbatim>\<open>ValidateWithdrawalPublic\<close>, \<^verbatim>\<open>VerifyWithdrawal\<close>,
  \<^verbatim>\<open>MerkleAppend\<close>). \<open>e_json_proof\<close> is the strict decoder of
  \<^verbatim>\<open>RejectLeakyShielderRedeemProof\<close> with the flag whether data follows; \<open>e_parse_der\<close> gives a
  parsed signature and whether its second scalar is over half the order; \<open>e_verify_sig\<close> takes
  the serialized key, the signature and the digest; \<open>e_tx_sizes\<close> gives the stripped and the
  total serialized size of a transaction from the witness lengths of its inputs and the script
  lengths of its outputs.
\<close>

text \<open>The four public inputs a bond message is checked against before it is executed.\<close>

record bondPublicInputs =
  bp_RecipientPolicy :: string
  bp_NodePubKey :: string
  bp_Recipient :: string
  bp_FeeSats :: u64

record env =
  e_sha256 :: "string \<Rightarrow> string"
  e_acc_string :: "AccAddress \<Rightarrow> string"
  e_acc_from_bech32 :: "string \<Rightarrow> AccAddress result"
  e_bech32_hrp :: "string \<Rightarrow> string option"
  e_btc_decode :: "btc_net \<Rightarrow> string \<Rightarrow> btc_addr option"
  e_pubkey_from_bech32 :: "pubkey_type \<Rightarrow> string \<Rightarrow> string result"
  e_pubkey_address :: "string \<Rightarrow> AccAddress"
  e_taproot :: "PubKey \<Rightarrow> u64 \<Rightarrow> Address result"
  e_json_note :: "string \<Rightarrow> shielderNoteCommitment result"
  e_json_notes :: "shielderNoteCommitment list \<Rightarrow> string"
  e_json_public :: "string \<Rightarrow> shielderRedeemPublicInputs result"
  e_json_bond_public :: "string \<Rightarrow> bondPublicInputs result"
  e_json_withdrawal :: "string \<Rightarrow> withdrawalPublicInputs result"
  e_json_valid :: "string \<Rightarrow> bool"
  e_json_proof :: "string \<Rightarrow> (shielderRedeemProof \<times> bool) result"
  e_recipient_binding :: "string \<Rightarrow> u64 \<Rightarrow> u64 \<Rightarrow> string result"
  e_validate_withdrawal_public :: "string \<Rightarrow> unit result"
  e_verify_withdrawal :: "string \<Rightarrow> string \<Rightarrow> unit result"
  e_append_leaf :: "string list \<Rightarrow> u64 \<Rightarrow> string \<Rightarrow> (string \<times> string list) result"
  e_parse_der :: "string \<Rightarrow> (string \<times> bool) result"
  e_verify_sig :: "string \<Rightarrow> string \<Rightarrow> string \<Rightarrow> bool"
  e_taproot_pubkey :: "PubKey \<Rightarrow> u64 \<Rightarrow> string result"
  e_hash_from_str :: "string \<Rightarrow> bool"
  e_tx_sizes :: "nat list \<Rightarrow> nat list \<Rightarrow> nat \<times> nat"

section \<open>Hexadecimal\<close>

definition hex_upper :: "nat \<Rightarrow> char" where
  "hex_upper d = (if d < 10 then char_of (48 + d) else char_of (55 + d))"

definition hex_byte :: "char \<Rightarrow> string" where
  "hex_byte c = (let n = of_char c :: nat in [hex_upper (n div 16), hex_upper (n mod 16)])"

text \<open>\<^verbatim>\<open>strings.ToUpper(hex.EncodeToString(b))\<close> and \<^verbatim>\<open>fmt.Sprintf("%X", b)\<close>.\<close>

definition EncodeUpper :: "string \<Rightarrow> string" where
  "EncodeUpper b = concat (map hex_byte b)"

definition hex_value :: "char \<Rightarrow> nat option" where
  "hex_value c = (let n = of_char c :: nat in
     if 48 \<le> n \<and> n \<le> 57 then Some (n - 48)
     else if 65 \<le> n \<and> n \<le> 70 then Some (n - 55)
     else if 97 \<le> n \<and> n \<le> 102 then Some (n - 87)
     else None)"

text \<open>\<^verbatim>\<open>hex.DecodeString\<close>.\<close>

fun DecodeString :: "string \<Rightarrow> string option" where
  "DecodeString [] = Some []"
| "DecodeString [c] = None"
| "DecodeString (c # d # cs) =
     (case (hex_value c, hex_value d, DecodeString cs) of
        (Some h, Some l, Some r) \<Rightarrow> Some (char_of (16 * h + l) # r)
      | _ \<Rightarrow> None)"

lemma hex_value_upper: "d < 16 \<Longrightarrow> hex_value (hex_upper d) = Some d"
  by (auto simp: hex_value_def hex_upper_def Let_def of_char_of take_bit_eq_mod)

lemma DecodeString_EncodeUpper: "DecodeString (EncodeUpper b) = Some b"
proof (induction b)
  case (Cons c b)
  have "of_char c < (256 :: nat)" by simp
  then have "of_char c div 16 < (16 :: nat)" "of_char c mod 16 < (16 :: nat)"
    by (simp_all add: less_mult_imp_div_less)
  with Cons show ?case
    by (simp add: EncodeUpper_def hex_byte_def Let_def hex_value_upper)
qed (simp add: EncodeUpper_def)

lemma length_EncodeUpper: "length (EncodeUpper b) = 2 * length b"
  by (induction b) (simp_all add: EncodeUpper_def hex_byte_def Let_def)

text \<open>Upper-case hexadecimal text has no space and no lower-case letter.\<close>

lemma hex_upper_plain: "d < 16 \<Longrightarrow> upper_char (hex_upper d) = hex_upper d \<and> \<not> is_space (hex_upper d)"
proof -
  assume "d < 16"
  then have h: "of_char (hex_upper d) = (if d < 10 then 48 + d else 55 + d)"
    by (simp add: hex_upper_def of_char_of take_bit_eq_mod)
  with \<open>d < 16\<close> have "(48 :: nat) \<le> of_char (hex_upper d)" "of_char (hex_upper d) < (97 :: nat)" by auto
  then show ?thesis by (auto simp: upper_char_def is_space_def less_eq_char_def)
qed

lemma EncodeUpper_plain: "c \<in> set (EncodeUpper b) \<Longrightarrow> upper_char c = c \<and> \<not> is_space c"
  by (auto simp: EncodeUpper_def hex_byte_def Let_def less_mult_imp_div_less hex_upper_plain)

lemma EncodeUpper_simps: "ToUpper (EncodeUpper b) = EncodeUpper b" "TrimSpace (EncodeUpper b) = EncodeUpper b"
  using EncodeUpper_plain by (auto simp: ToUpper_def intro: map_idI TrimSpace_no_space)

lemma EncodeUpper_Nil: "EncodeUpper b = [] \<longleftrightarrow> b = []"
  by (auto simp: EncodeUpper_def hex_byte_def Let_def)

section \<open>Transaction ids\<close>

definition is_hex_char :: "char \<Rightarrow> bool" where
  "is_hex_char c \<longleftrightarrow> hex_value c \<noteq> None"

definition is_digit :: "char \<Rightarrow> bool" where
  "is_digit c \<longleftrightarrow> CHR ''0'' \<le> c \<and> c \<le> CHR ''9''"

text \<open>\<^verbatim>\<open>^[0-9a-fA-F]{64}-[0-9]+$\<close>\<close>

definition is_cosmos_indexed :: "string \<Rightarrow> bool" where
  "is_cosmos_indexed s \<longleftrightarrow> length s > 65 \<and> list_all is_hex_char (take 64 s) \<and> s ! 64 = CHR ''-''
     \<and> list_all is_digit (drop 65 s)"

definition NewTxID :: "string \<Rightarrow> TxID result" where
  "NewTxID h =
     (if length h > 64 \<and> is_cosmos_indexed h then Inr h
      else if length h = 64 then Inr (ToUpper h)
      else if length h = 66 then
        (if HasPrefix h ''0x'' then Inr (ToUpper h) else Inl (Errorf ''txid error: must be 66 characters''))
      else if length h = 87 \<or> length h = 88 then Inr h
      else Inl (Errorf ''txid error: must be 64 characters''))"

definition TxID_IsEmpty :: "TxID \<Rightarrow> bool" where
  "TxID_IsEmpty t \<longleftrightarrow> TrimSpace t = []"

definition TxID_Equals :: "TxID \<Rightarrow> TxID \<Rightarrow> bool" where
  "TxID_Equals a b \<longleftrightarrow> EqualFold a b"

section \<open>Addresses\<close>

definition BTCChain :: Chain where "BTCChain = ''BTC''"
definition NoAddress :: Address where "NoAddress = []"
definition NoopAddress :: Address where "NoopAddress = ''noop''"
definition BondEscrowAddress :: Address where "BondEscrowAddress = ''bond_escrow''"

definition Chain_Equals :: "Chain \<Rightarrow> Chain \<Rightarrow> bool" where
  "Chain_Equals a b \<longleftrightarrow> EqualFold (ToUpper a) (ToUpper b)"

definition Chain_IsEmpty :: "Chain \<Rightarrow> bool" where
  "Chain_IsEmpty c \<longleftrightarrow> TrimSpace (ToUpper c) = []"

definition Address_Equals :: "Address \<Rightarrow> Address \<Rightarrow> bool" where
  "Address_Equals a b \<longleftrightarrow> EqualFold a b"

definition Address_IsEmpty :: "Address \<Rightarrow> bool" where
  "Address_IsEmpty a \<longleftrightarrow> TrimSpace a = []"

definition IsNoop :: "Address \<Rightarrow> bool" where
  "IsNoop a \<longleftrightarrow> Address_Equals a NoopAddress"

definition IsBondEscrow :: "Address \<Rightarrow> bool" where
  "IsBondEscrow a \<longleftrightarrow> Address_Equals a BondEscrowAddress"

definition alphaNum_char :: "char \<Rightarrow> bool" where
  "alphaNum_char c \<longleftrightarrow> c = CHR '':'' \<or> c = CHR ''_'' \<or> (CHR ''A'' \<le> c \<and> c \<le> CHR ''Z'')
     \<or> (CHR ''a'' \<le> c \<and> c \<le> CHR ''z'') \<or> is_digit c"

text \<open>The build without the \<^verbatim>\<open>mocknet\<close> tag.\<close>

definition newAddress :: "env \<Rightarrow> string \<Rightarrow> Address result" where
  "newAddress e address =
     (case e_btc_decode e MainNetParams address of
        None \<Rightarrow> Inl (Errorf ''address format not supported'')
      | Some (AddressPubKey _) \<Rightarrow> Inl (Errorf ''address format not supported'')
      | Some _ \<Rightarrow> Inr address)"

definition NewAddress :: "env \<Rightarrow> string \<Rightarrow> Address result" where
  "NewAddress e address =
     (if address = [] then Inr NoAddress
      else if EqualFold address BondEscrowAddress then Inr BondEscrowAddress
      else if EqualFold address NoopAddress then Inr NoopAddress
      else if \<not> list_all alphaNum_char address then Inl (Errorf ''address format not supported'')
      else if e_bech32_hrp e address \<noteq> None then Inr address
      else newAddress e address)"

definition IsChain :: "env \<Rightarrow> Address \<Rightarrow> Chain \<Rightarrow> bool" where
  "IsChain e addr chain =
     (if chain = BTCChain then
        (case e_bech32_hrp e addr of Some p \<Rightarrow> p = ''bc'' \<or> p = ''tb'' | None \<Rightarrow> False)
        \<or> e_btc_decode e MainNetParams addr \<noteq> None
        \<or> e_btc_decode e TestNet3Params addr \<noteq> None
        \<or> e_btc_decode e RegressionNetParams addr \<noteq> None
      else False)"

definition GetChain :: "env \<Rightarrow> Address \<Rightarrow> Chain" where
  "GetChain e addr = (if IsChain e addr BTCChain then BTCChain else [])"

section \<open>Public keys and vault paths\<close>

definition NewPubKey :: "env \<Rightarrow> string \<Rightarrow> PubKey result" where
  "NewPubKey e key =
     (if key = [] then Inr []
      else case e_pubkey_from_bech32 e AccPub key of
        Inl err \<Rightarrow> Inl (Wrapf ''not bech32 encoded pub key'' err)
      | Inr _ \<Rightarrow> Inr key)"

definition GetThorAddress :: "env \<Rightarrow> PubKey \<Rightarrow> AccAddress result" where
  "GetThorAddress e p =
     (case e_pubkey_from_bech32 e AccPub p of
        Inl err \<Rightarrow> Inl err
      | Inr pk \<Rightarrow> Inr (e_pubkey_address e pk))"

datatype VaultDepositPathType = VaultDepositPathUser | VaultDepositPathNode | VaultDepositPathOther string

definition MainVaultPathIndex :: u64 where "MainVaultPathIndex = 0"
definition DepositPathCommitmentRoot :: u64 where "DepositPathCommitmentRoot = 0"
definition depositPathSegmentMask :: u64 where "depositPathSegmentMask = 0xffffffff"
definition DepositAddressLookahead :: u64 where "DepositAddressLookahead = 4096"

definition pathTypeString :: "VaultDepositPathType \<Rightarrow> string" where
  "pathTypeString t = (case t of VaultDepositPathUser \<Rightarrow> ''user'' | VaultDepositPathNode \<Rightarrow> ''node''
     | VaultDepositPathOther s \<Rightarrow> s)"

definition VaultDepositPathIndex :: "VaultDepositPathType \<Rightarrow> u64 \<Rightarrow> u64 \<Rightarrow> u64 result" where
  "VaultDepositPathIndex pathType depositIndex commitmentIndex =
     (if depositIndex > depositPathSegmentMask then Inl (Errorf ''deposit path index out of range'')
      else if commitmentIndex \<noteq> DepositPathCommitmentRoot
        then Inl (Errorf ''vault deposit addresses only support root commitment path'')
      else case pathType of
        VaultDepositPathOther _ \<Rightarrow> Inl (Errorf ''unknown vault deposit path type'')
      | _ \<Rightarrow> Inr (depositIndex + 1))"

definition VaultDepositPath :: "VaultDepositPathType \<Rightarrow> u64 \<Rightarrow> u64 \<Rightarrow> string" where
  "VaultDepositPath pathType depositIndex commitmentIndex =
     (case VaultDepositPathIndex pathType depositIndex commitmentIndex of
        Inl _ \<Rightarrow> []
      | Inr pathIndex \<Rightarrow> ''m/86'' @ [CHR 0x27] @ ''/0'' @ [CHR 0x27] @ ''/0'' @ [CHR 0x27] @ ''/0/'' @ show_u64 pathIndex)"

definition VaultDepositLookaheadPathIndexes :: "VaultDepositPathType \<Rightarrow> u64 list result" where
  "VaultDepositLookaheadPathIndexes pathType =
     fold (\<lambda>n acc. case acc of
        Inl err \<Rightarrow> Inl err
      | Inr indexes \<Rightarrow>
          (case VaultDepositPathIndex pathType (of_nat n) DepositPathCommitmentRoot of
             Inl err \<Rightarrow> Inl err
           | Inr pathIndex \<Rightarrow> Inr (indexes @ [pathIndex])))
       [0..<unat DepositAddressLookahead] (Inr [])"

lemma VaultDepositPathIndex_ok:
  "VaultDepositPathIndex t i c = Inr p \<longleftrightarrow>
     i \<le> depositPathSegmentMask \<and> c = DepositPathCommitmentRoot
     \<and> (t = VaultDepositPathUser \<or> t = VaultDepositPathNode) \<and> p = i + 1"
  by (cases t) (auto simp: VaultDepositPathIndex_def)

lemma VaultDepositPathIndex_pos: "VaultDepositPathIndex t i c = Inr p \<Longrightarrow> p \<noteq> MainVaultPathIndex"
proof -
  assume "VaultDepositPathIndex t i c = Inr p"
  then have p: "p = i + 1" and i: "i \<le> 0xffffffff"
    by (simp_all add: VaultDepositPathIndex_ok depositPathSegmentMask_def)
  from i have "unat i \<le> 0xffffffff" by (simp add: word_le_nat_alt)
  then have "unat (i + 1) = unat i + 1" by (subst unat_add_u64) auto
  then show ?thesis by (auto simp: p MainVaultPathIndex_def)
qed

lemma VaultDepositPathIndex_inj:
  "VaultDepositPathIndex t i c = Inr p \<Longrightarrow> VaultDepositPathIndex t' i' c' = Inr p \<Longrightarrow> i = i'"
  by (simp add: VaultDepositPathIndex_ok)

lemma EqualFold_refl [simp]: "EqualFold s s"
  by (simp add: EqualFold_def)

lemma NewTxID_64: "length h = 64 \<Longrightarrow> NewTxID h = Inr (ToUpper h)"
  by (simp add: NewTxID_def)

end
