(* ===== verification/Coins.thy ===== *)
theory Coins
  imports Common
begin

text \<open>
  Assets, coins and the integer helpers of \<^verbatim>\<open>common/\<close>: \<^verbatim>\<open>asset.go\<close>, \<^verbatim>\<open>coin.go\<close>,
  \<^verbatim>\<open>gas.go\<close>, \<^verbatim>\<open>math.go\<close>, \<^verbatim>\<open>significant_figures.go\<close>, \<^verbatim>\<open>decimals.go\<close> and the share
  arithmetic of \<^verbatim>\<open>type_convert.go\<close>. A \<^verbatim>\<open>cosmos.Uint\<close> is an unbounded natural number (the
  library panics beyond 256 bits, which no sum of Bitcoin amounts reaches).
\<close>

section \<open>Assets and coins\<close>

record Asset =
  as_Chain :: Chain
  as_Symbol :: string
  as_Ticker :: string
  as_Secured :: bool

record Coin =
  co_Asset :: Asset
  co_Amount :: nat
  co_Decimals :: int

type_synonym Coins = "Coin list"

definition EmptyAsset :: Asset where
  "EmptyAsset = \<lparr>as_Chain = [], as_Symbol = [], as_Ticker = [], as_Secured = False\<rparr>"

definition BTCAsset :: Asset where
  "BTCAsset = \<lparr>as_Chain = BTCChain, as_Symbol = ''BTC'', as_Ticker = ''BTC'', as_Secured = False\<rparr>"

definition Asset_Equals :: "Asset \<Rightarrow> Asset \<Rightarrow> bool" where
  "Asset_Equals a b \<longleftrightarrow> Chain_Equals (as_Chain a) (as_Chain b)
     \<and> EqualFold (ToUpper (as_Symbol a)) (ToUpper (as_Symbol b))
     \<and> EqualFold (ToUpper (as_Ticker a)) (ToUpper (as_Ticker b))
     \<and> as_Secured a = as_Secured b"

definition Asset_IsEmpty :: "Asset \<Rightarrow> bool" where
  "Asset_IsEmpty a \<longleftrightarrow> Chain_IsEmpty (as_Chain a) \<or> TrimSpace (ToUpper (as_Symbol a)) = []
     \<or> TrimSpace (ToUpper (as_Ticker a)) = []"

definition NewCoin :: "Asset \<Rightarrow> nat \<Rightarrow> Coin" where
  "NewCoin a n = \<lparr>co_Asset = a, co_Amount = n, co_Decimals = 0\<rparr>"

definition NoCoin :: Coin where
  "NoCoin = NewCoin EmptyAsset 0"

definition Coin_IsEmpty :: "Coin \<Rightarrow> bool" where
  "Coin_IsEmpty c \<longleftrightarrow> Asset_IsEmpty (co_Asset c) \<or> co_Amount c = 0"

definition Coin_Valid :: "Coin \<Rightarrow> unit result" where
  "Coin_Valid c =
     (if Asset_IsEmpty (co_Asset c) then Inl (Errorf ''denom cannot be empty'')
      else if co_Amount c = 0 then Inl (Errorf ''amount cannot be zero'')
      else Inr ())"

definition Coin_Equals :: "Coin \<Rightarrow> Coin \<Rightarrow> bool" where
  "Coin_Equals c d \<longleftrightarrow> Asset_Equals (co_Asset c) (co_Asset d) \<and> co_Amount c = co_Amount d"

fun Coins_Valid :: "Coins \<Rightarrow> unit result" where
  "Coins_Valid [] = Inr ()"
| "Coins_Valid (c # cs) = (case Coin_Valid c of Inl e \<Rightarrow> Inl e | Inr _ \<Rightarrow> Coins_Valid cs)"

definition Coins_IsEmpty :: "Coins \<Rightarrow> bool" where
  "Coins_IsEmpty cs \<longleftrightarrow> list_all Coin_IsEmpty cs"

fun GetCoin :: "Coins \<Rightarrow> Asset \<Rightarrow> Coin" where
  "GetCoin [] a = NoCoin"
| "GetCoin (c # cs) a = (if Asset_Equals a (co_Asset c) then c else GetCoin cs a)"

definition SafeSub :: "nat \<Rightarrow> nat \<Rightarrow> nat" where
  "SafeSub a b = (if b > a then 0 else a - b)"

text \<open>The inner loop of \<^verbatim>\<open>Coins.Add\<close>: the first coin of the same asset takes the amount, and
  the coin is appended when there is none.\<close>

fun coins_add_one :: "Coins \<Rightarrow> Coin \<Rightarrow> Coins" where
  "coins_add_one [] d = [d]"
| "coins_add_one (c # cs) d =
     (if Asset_Equals (co_Asset c) (co_Asset d) then c\<lparr>co_Amount := co_Amount c + co_Amount d\<rparr> # cs
      else c # coins_add_one cs d)"

definition Coins_Add :: "Coins \<Rightarrow> Coins \<Rightarrow> Coins" where
  "Coins_Add old added = foldl coins_add_one old added"

fun coins_sub_one :: "Coins \<Rightarrow> Coin \<Rightarrow> Coins" where
  "coins_sub_one [] d = []"
| "coins_sub_one (c # cs) d =
     (if Asset_Equals (co_Asset c) (co_Asset d) then c\<lparr>co_Amount := SafeSub (co_Amount c) (co_Amount d)\<rparr> # cs
      else c # coins_sub_one cs d)"

definition Coins_SafeSub :: "Coins \<Rightarrow> Coins \<Rightarrow> Coins" where
  "Coins_SafeSub old subbed = foldl coins_sub_one old subbed"

definition Coins_Contains :: "Coins \<Rightarrow> Coin \<Rightarrow> bool" where
  "Coins_Contains cs c \<longleftrightarrow> list_ex (Coin_Equals c) cs"

definition Coins_Distinct :: "Coins \<Rightarrow> Coins" where
  "Coins_Distinct cs = foldl (\<lambda>acc c. if Coins_Contains acc c then acc else acc @ [c]) [] cs"

definition Coins_NoneEmpty :: "Coins \<Rightarrow> Coins" where
  "Coins_NoneEmpty cs = filter (\<lambda>c. \<not> Coin_IsEmpty c) cs"

definition GetGasAsset :: "Chain \<Rightarrow> Asset" where
  "GetGasAsset c = (if c = BTCChain then BTCAsset else EmptyAsset)"

definition DustThreshold :: "Chain \<Rightarrow> nat" where
  "DustThreshold c = (if c = BTCChain then 1000 else 0)"

definition One :: nat where "One = 100000000"

definition GetGasUnitsPerOne :: "Chain \<Rightarrow> nat" where
  "GetGasUnitsPerOne c = (if c = BTCChain then 100000000 else 1)"

definition NativeGasToThornado :: "Chain \<Rightarrow> nat \<Rightarrow> nat" where
  "NativeGasToThornado c native = native * One div GetGasUnitsPerOne c"

definition ThornadoToNativeGas :: "Chain \<Rightarrow> nat \<Rightarrow> nat" where
  "ThornadoToNativeGas c t = t * GetGasUnitsPerOne c div One"

text \<open>The amount of one asset in a list of coins.\<close>

definition amount_of :: "Asset \<Rightarrow> Coins \<Rightarrow> nat" where
  "amount_of a cs = sum_list (map (\<lambda>c. if Asset_Equals a (co_Asset c) then co_Amount c else 0) cs)"

text \<open>No two coins of the list are of the same asset.\<close>

fun coins_simple :: "Coins \<Rightarrow> bool" where
  "coins_simple [] = True"
| "coins_simple (c # cs) \<longleftrightarrow> list_all (\<lambda>d. \<not> Asset_Equals (co_Asset c) (co_Asset d)) cs \<and> coins_simple cs"

lemma Asset_Equals_refl [simp]: "Asset_Equals a a"
  by (simp add: Asset_Equals_def Chain_Equals_def)

lemma Asset_Equals_sym: "Asset_Equals a b \<Longrightarrow> Asset_Equals b a"
  by (simp add: Asset_Equals_def Chain_Equals_def EqualFold_def)

lemma Asset_Equals_trans: "Asset_Equals a b \<Longrightarrow> Asset_Equals b c \<Longrightarrow> Asset_Equals a c"
  by (simp add: Asset_Equals_def Chain_Equals_def EqualFold_def)

lemma Asset_Equals_cong: "Asset_Equals a b \<Longrightarrow> Asset_Equals c a \<longleftrightarrow> Asset_Equals c b"
  by (meson Asset_Equals_sym Asset_Equals_trans)

lemma amount_of_Nil [simp]: "amount_of a [] = 0"
  by (simp add: amount_of_def)

lemma amount_of_Cons [simp]:
  "amount_of a (c # cs) = (if Asset_Equals a (co_Asset c) then co_Amount c else 0) + amount_of a cs"
  by (simp add: amount_of_def)

lemma amount_add_one:
  "amount_of a (coins_add_one cs d) = amount_of a cs + (if Asset_Equals a (co_Asset d) then co_Amount d else 0)"
proof (induction cs d rule: coins_add_one.induct)
  case (2 c cs d)
  have "Asset_Equals a (co_Asset d) \<longleftrightarrow> Asset_Equals a (co_Asset c)"
    if "Asset_Equals (co_Asset c) (co_Asset d)"
    using that by (meson Asset_Equals_cong)
  with 2 show ?case by simp
qed simp

lemma amount_add: "amount_of a (Coins_Add cs ds) = amount_of a cs + amount_of a ds"
  unfolding Coins_Add_def
  by (induction ds arbitrary: cs) (simp_all add: amount_add_one)

lemma add_one_assets:
  "set (map co_Asset (coins_add_one cs d)) \<subseteq> insert (co_Asset d) (set (map co_Asset cs))"
  by (induction cs d rule: coins_add_one.induct) auto

lemma coins_simple_add_one: "coins_simple cs \<Longrightarrow> coins_simple (coins_add_one cs d)"
proof (induction cs d rule: coins_add_one.induct)
  case (2 c cs d)
  show ?case
  proof (cases "Asset_Equals (co_Asset c) (co_Asset d)")
    case False
    from 2 have "list_all (\<lambda>d. \<not> Asset_Equals (co_Asset c) (co_Asset d)) (coins_add_one cs d)"
      using False add_one_assets [of cs d] by (auto simp: list_all_iff)
    with 2 False show ?thesis by simp
  qed (use 2 in simp)
qed simp

lemma coins_simple_add: "coins_simple cs \<Longrightarrow> coins_simple (Coins_Add cs ds)"
  unfolding Coins_Add_def
  by (induction ds arbitrary: cs) (simp_all add: coins_simple_add_one)

lemma amount_of_zero: "list_all (\<lambda>d. \<not> Asset_Equals a (co_Asset d)) cs \<Longrightarrow> amount_of a cs = 0"
  by (induction cs) auto

lemma amount_sub_one:
  "coins_simple cs \<Longrightarrow> amount_of a (coins_sub_one cs d)
     = amount_of a cs - (if Asset_Equals a (co_Asset d) then co_Amount d else 0)"
proof (induction cs d rule: coins_sub_one.induct)
  case (2 c cs d)
  show ?case
  proof (cases "Asset_Equals (co_Asset c) (co_Asset d)")
    case True
    then have eq: "Asset_Equals a (co_Asset d) \<longleftrightarrow> Asset_Equals a (co_Asset c)"
      by (meson Asset_Equals_cong)
    show ?thesis
    proof (cases "Asset_Equals a (co_Asset c)")
      case ac: True
      then have "list_all (\<lambda>d. \<not> Asset_Equals a (co_Asset d)) cs"
        using 2(2) by (auto simp: list_all_iff) (meson Asset_Equals_sym Asset_Equals_trans)
      with True ac eq show ?thesis by (simp add: amount_of_zero SafeSub_def)
    qed (use True eq in simp)
  next
    case False
    moreover have "\<not> Asset_Equals a (co_Asset c) \<or> \<not> Asset_Equals a (co_Asset d)"
      using False by (meson Asset_Equals_sym Asset_Equals_trans)
    ultimately show ?thesis using 2 by auto
  qed
qed simp

lemma GetCoin_amount: "coins_simple cs \<Longrightarrow> co_Amount (GetCoin cs a) = amount_of a cs"
proof (induction cs a rule: GetCoin.induct)
  case (2 c cs a)
  show ?case
  proof (cases "Asset_Equals a (co_Asset c)")
    case True
    then have "list_all (\<lambda>d. \<not> Asset_Equals a (co_Asset d)) cs"
      using 2(2) by (auto simp: list_all_iff) (meson Asset_Equals_sym Asset_Equals_trans)
    with True show ?thesis by (simp add: amount_of_zero)
  qed (use 2 in simp)
qed (simp add: NoCoin_def NewCoin_def)

section \<open>Integer helpers\<close>

definition GetUncappedShare :: "nat \<Rightarrow> nat \<Rightarrow> nat \<Rightarrow> nat" where
  "GetUncappedShare part tot allocation =
     (if part = 0 \<or> tot = 0 \<or> allocation = 0 then 0
      else if part = tot then allocation
      else (allocation * part + tot div 2) div tot)"

definition GetSafeShare :: "nat \<Rightarrow> nat \<Rightarrow> nat \<Rightarrow> nat" where
  "GetSafeShare part tot allocation =
     GetUncappedShare (if part \<ge> tot then tot else part) tot allocation"

definition GetMedianUint :: "nat list \<Rightarrow> nat" where
  "GetMedianUint vals =
     (if vals = [] then 0
      else let s = sort vals; n = length s in
        if n mod 2 > 0 then s ! (n div 2)
        else (s ! (n div 2 - 1) + s ! (n div 2)) div 2)"

definition GetMedianInt64 :: "int list \<Rightarrow> int" where
  "GetMedianInt64 vals =
     (case vals of
        [] \<Rightarrow> 0
      | [v] \<Rightarrow> v
      | _ \<Rightarrow> let s = sort vals; n = length s in
          if n mod 2 > 0 then s ! (n div 2)
          else go_div (wrap64 (s ! (n div 2 - 1) + s ! (n div 2))) 2)"

definition WeightedMean :: "nat list \<Rightarrow> nat list \<Rightarrow> nat result" where
  "WeightedMean vals weights =
     (let totalWeight = sum_list weights in
      if totalWeight = 0 then Inl (Errorf ''total weight is zero'')
      else if length vals \<noteq> length weights then Inl (Panic ''number of values and weights do not match'')
      else Inr (sum_list (map2 (*) vals weights) div totalWeight))"

text \<open>The digit count loop of \<^verbatim>\<open>RoundSignificantFigures\<close>.\<close>

fun digit_count :: "nat \<Rightarrow> nat" where
  "digit_count n = (if n = 0 then 0 else Suc (digit_count (n div 10)))"

declare digit_count.simps [simp del]

definition RoundSignificantFigures :: "u64 \<Rightarrow> int \<Rightarrow> u64" where
  "RoundSignificantFigures number significantDigits =
     (if number = 0 then 0
      else let magnitude = int (digit_count (unat number)) in
        if magnitude \<le> significantDigits then number
        else let divisor = (10 :: u64) ^ nat (magnitude - significantDigits) in
          number div divisor * divisor)"

definition ConvertDecimals :: "int \<Rightarrow> int \<Rightarrow> int \<Rightarrow> int result" where
  "ConvertDecimals amount fromDecimals toDecimals =
     (if fromDecimals < 0 \<or> toDecimals < 0 then Inl (Errorf ''decimals must be positive'')
      else if fromDecimals = toDecimals then Inr amount
      else let diff = 10 ^ nat \<bar>fromDecimals - toDecimals\<bar> in
        if fromDecimals > toDecimals then Inr (amount div diff) else Inr (amount * diff))"

definition RoundToDecimal :: "nat \<Rightarrow> int \<Rightarrow> nat" where
  "RoundToDecimal amt dec =
     (if dec \<noteq> 0 \<and> dec < 8 then let p = 10 ^ nat (8 - dec) in amt div p * p else amt)"

lemma share_num: "p < (t :: nat) \<Longrightarrow> (a * p + t div 2) div t \<le> a"
proof -
  assume pt: "p < t"
  have "a * p + t div 2 < (a + 1) * t"
  proof -
    have "a * p \<le> a * t" using pt by (intro mult_le_mono2) simp
    moreover have "t div 2 < t" using pt by simp
    ultimately have "a * p + t div 2 < a * t + t" by linarith
    then show ?thesis by (simp add: distrib_right add.commute)
  qed
  then have "(a * p + t div 2) div t < a + 1" by (simp add: less_mult_imp_div_less)
  then show ?thesis by simp
qed

lemma GetSafeShare_le: "GetSafeShare part tot allocation \<le> allocation"
  by (auto simp: GetSafeShare_def GetUncappedShare_def intro: share_num)

lemma GetMedianUint_bounds:
  assumes "vals \<noteq> []"
  shows "Min (set vals) \<le> GetMedianUint vals \<and> GetMedianUint vals \<le> Max (set vals)"
proof -
  let ?s = "sort vals" and ?n = "length vals"
  have n: "?n \<noteq> 0" using assms by simp
  have elem: "Min (set vals) \<le> ?s ! i \<and> ?s ! i \<le> Max (set vals)" if "i < ?n" for i
  proof -
    from that have "?s ! i \<in> set ?s" by (metis length_sort nth_mem)
    then show ?thesis by simp
  qed
  have h: "?n div 2 < ?n" using n by simp
  then have h1: "?n div 2 - 1 < ?n" by simp
  from elem [OF h] elem [OF h1] assms show ?thesis
    by (auto simp: GetMedianUint_def Let_def)
qed

lemma digit_count_upper: "n < 10 ^ digit_count n"
proof (induction n rule: digit_count.induct)
  case (1 n)
  show ?case
  proof (cases "n = 0")
    case False
    with 1 have "n div 10 < 10 ^ digit_count (n div 10)" by simp
    then have "n < 10 * 10 ^ digit_count (n div 10)" by simp
    with False show ?thesis by (subst digit_count.simps) simp
  qed (simp add: digit_count.simps)
qed

lemma digit_count_lower: "0 < n \<Longrightarrow> 10 ^ (digit_count n - 1) \<le> n"
proof (induction n rule: digit_count.induct)
  case (1 n)
  show ?case
  proof (cases "n < 10")
    case True
    with 1 have "digit_count n = 1" by (simp add: digit_count.simps)
    with 1 show ?thesis by simp
  next
    case False
    with 1 have IH: "10 ^ (digit_count (n div 10) - 1) \<le> n div 10" by simp
    from False have "0 < digit_count (n div 10)" by (subst digit_count.simps) simp
    then obtain d where d: "digit_count (n div 10) = Suc d" by (cases "digit_count (n div 10)") auto
    with IH have "10 * 10 ^ d \<le> n" by simp
    with False d show ?thesis by (subst digit_count.simps) simp
  qed
qed

end
