(* ===== verification/Config.thy ===== *)
theory Config
  imports Coins
begin

text \<open>
  The configuration constants of \<^verbatim>\<open>constants/constants_v1.go\<close> (the main network has no
  overrides) and the conversion of minutes to blocks. A value stored by the nodes' votes takes
  precedence over the constant; the keeper theory holds that lookup.
\<close>

section \<open>Configuration names and their default values\<close>

datatype (plugins only: code) ConfigName =
    Chain_BlockTimeSeconds | Chain_PauseNodeMinutes | BlockSign_DoublePenaltyPoints
  | BlockSign_MissPenaltyPoints | Churn_IntervalMinutes | Churn_RetryIntervalMinutes
  | Config_OperationalVotesMin | BTC_ConfMultiplierBasisPoints | BTC_ConfirmationsMin
  | BTC_DefaultSatsPerVByte | BTC_MaxConfirmations | BTC_MaxMempoolAncestors
  | BTC_MaxSatsPerVByte | Deposit_AmountMinSats | Deposit_PowDifficultyMin
  | Deposit_PowDifficultyMax | Deposit_PowExpiryMinutes | Deposit_PowRetargetStepMax
  | Deposit_PowSamplesMin | Deposit_PowTargetPercentile | Deposit_PowTargetSeconds
  | Deposit_SweepRetryIntervalMinutes | Deposit_RefundIfForgottenDays | DoubleSign_MaxAgeMinutes
  | Halt_ChainGlobal | Halt_Churning | Halt_SigningGlobal
  | Halt_SolvencyCheck | Keygen_FailJailMinutes | Keygen_FailPenaltyPoints
  | Keygen_RetryIntervalMinutes | Keysign_FailJailMinutes | Keysign_FailPenaltyPoints
  | Keysign_PeriodMinutes | Node_BadPenaltyPointsMin | Node_BadRedline
  | Vault_BaseMembersMin | Node_BondSlotIncrementSats | Node_BondStartAmountSats
  | Node_PenaltyChurnOutThreshold | Node_MissingBlocksChurnOut | Node_MissingBlocksChurnOutMax
  | Node_MissingBlocksTrackMax | Node_SetDesired | NodeSale_AuctionExpiryMaxMinutes
  | NodeSale_AuctionExpiryMinMinutes | NodeSale_BidAmountMinSats | Observation_DelayFlexibilityMinutes
  | Observation_MissPenaltyPoints | Observation_SubmitPenaltyPoints | Shielder_FeeShareScale
  | Shielder_NoteAmountMinSats | Signer_Concurrency | TxOut_MaxAttempts
  | UTXO_MaxSpendCount | Upgrade_ProposalCountMax | Vault_MigrationIntervalMinutes
  | Vault_RetiredRecoveryAttemptsMax | Withdrawal_FeeBasisPoints | Withdrawal_BatchWindowMinutes

definition GetInt64Value :: "ConfigName \<Rightarrow> int" where
  "GetInt64Value name =
     (case name of
       Chain_BlockTimeSeconds \<Rightarrow> 6
     | Chain_PauseNodeMinutes \<Rightarrow> 72
     | BlockSign_DoublePenaltyPoints \<Rightarrow> 1000
     | BlockSign_MissPenaltyPoints \<Rightarrow> 1
     | Churn_IntervalMinutes \<Rightarrow> 4320
     | Churn_RetryIntervalMinutes \<Rightarrow> 72
     | Config_OperationalVotesMin \<Rightarrow> 3
     | BTC_ConfMultiplierBasisPoints \<Rightarrow> 10000
     | BTC_ConfirmationsMin \<Rightarrow> 1
     | BTC_DefaultSatsPerVByte \<Rightarrow> 25
     | BTC_MaxConfirmations \<Rightarrow> 0
     | BTC_MaxMempoolAncestors \<Rightarrow> 25
     | BTC_MaxSatsPerVByte \<Rightarrow> 9765
     | Deposit_AmountMinSats \<Rightarrow> 546
     | Deposit_PowDifficultyMin \<Rightarrow> 20
     | Deposit_PowDifficultyMax \<Rightarrow> 64
     | Deposit_PowExpiryMinutes \<Rightarrow> 0
     | Deposit_PowRetargetStepMax \<Rightarrow> 1
     | Deposit_PowSamplesMin \<Rightarrow> 8
     | Deposit_PowTargetPercentile \<Rightarrow> 90
     | Deposit_PowTargetSeconds \<Rightarrow> 10
     | Deposit_SweepRetryIntervalMinutes \<Rightarrow> 72
     | Deposit_RefundIfForgottenDays \<Rightarrow> 30
     | DoubleSign_MaxAgeMinutes \<Rightarrow> 3
     | Halt_ChainGlobal \<Rightarrow> 0
     | Halt_Churning \<Rightarrow> 0
     | Halt_SigningGlobal \<Rightarrow> 0
     | Halt_SolvencyCheck \<Rightarrow> 0
     | Keygen_FailJailMinutes \<Rightarrow> 432
     | Keygen_FailPenaltyPoints \<Rightarrow> 720
     | Keygen_RetryIntervalMinutes \<Rightarrow> 0
     | Keysign_FailJailMinutes \<Rightarrow> 6
     | Keysign_FailPenaltyPoints \<Rightarrow> 2
     | Keysign_PeriodMinutes \<Rightarrow> 30
     | Node_BadPenaltyPointsMin \<Rightarrow> 100
     | Node_BadRedline \<Rightarrow> 3
     | Vault_BaseMembersMin \<Rightarrow> 4
     | Node_BondSlotIncrementSats \<Rightarrow> 100000000
     | Node_BondStartAmountSats \<Rightarrow> 100000000
     | Node_PenaltyChurnOutThreshold \<Rightarrow> 100
     | Node_MissingBlocksChurnOut \<Rightarrow> 0
     | Node_MissingBlocksChurnOutMax \<Rightarrow> 0
     | Node_MissingBlocksTrackMax \<Rightarrow> 700
     | Node_SetDesired \<Rightarrow> 100
     | NodeSale_AuctionExpiryMaxMinutes \<Rightarrow> 4320
     | NodeSale_AuctionExpiryMinMinutes \<Rightarrow> 1
     | NodeSale_BidAmountMinSats \<Rightarrow> 546
     | Observation_DelayFlexibilityMinutes \<Rightarrow> 1
     | Observation_MissPenaltyPoints \<Rightarrow> 2
     | Observation_SubmitPenaltyPoints \<Rightarrow> 1
     | Shielder_FeeShareScale \<Rightarrow> 1000000000000
     | Shielder_NoteAmountMinSats \<Rightarrow> 100000
     | Signer_Concurrency \<Rightarrow> 10
     | TxOut_MaxAttempts \<Rightarrow> 0
     | UTXO_MaxSpendCount \<Rightarrow> 15
     | Upgrade_ProposalCountMax \<Rightarrow> 3
     | Vault_MigrationIntervalMinutes \<Rightarrow> 36
     | Vault_RetiredRecoveryAttemptsMax \<Rightarrow> 100
     | Withdrawal_FeeBasisPoints \<Rightarrow> 100
     | Withdrawal_BatchWindowMinutes \<Rightarrow> 10)"

definition MaxBasisPts :: u64 where "MaxBasisPts = 10000"

section \<open>Minutes and blocks\<close>

text \<open>\<^verbatim>\<open>int64\<close> arithmetic: the product with sixty and the rounding term may wrap.\<close>

definition MinutesToBlocks :: "int \<Rightarrow> int \<Rightarrow> int" where
  "MinutesToBlocks minutes blockTimeSeconds =
     (if minutes \<le> 0 then 0
      else let bt = (if blockTimeSeconds \<le> 0 then GetInt64Value Chain_BlockTimeSeconds else blockTimeSeconds);
               seconds = wrap64 (minutes * 60) in
        go_div (wrap64 (seconds + bt - 1)) bt)"

text \<open>Within the range that does not wrap, the result is the least number of blocks that lasts
  at least the given minutes.\<close>

lemma MinutesToBlocks_ceiling:
  assumes "0 < m" and "0 < bt" and "m * 60 + bt \<le> 2 ^ 63"
  shows "m * 60 \<le> MinutesToBlocks m bt * bt" and "(MinutesToBlocks m bt - 1) * bt < m * 60"
proof -
  have "wrap64 (m * 60) = m * 60" using assms by (intro wrap64_id) auto
  moreover have "wrap64 (m * 60 + bt - 1) = m * 60 + bt - 1" using assms by (intro wrap64_id) auto
  ultimately have eq: "MinutesToBlocks m bt = (m * 60 + bt - 1) div bt"
    using assms by (simp add: MinutesToBlocks_def Let_def go_div_pos)
  define x where "x = m * 60 + bt - 1"
  have "x = x div bt * bt + x mod bt" "0 \<le> x mod bt" "x mod bt < bt"
    using assms by (simp_all only: div_mult_mod_eq pos_mod_sign pos_mod_bound)
  moreover have "(x div bt - 1) * bt = x div bt * bt - bt" by (simp add: left_diff_distrib)
  ultimately have "m * 60 \<le> x div bt * bt" "(x div bt - 1) * bt < m * 60"
    unfolding x_def by linarith+
  then show "m * 60 \<le> MinutesToBlocks m bt * bt" "(MinutesToBlocks m bt - 1) * bt < m * 60"
    by (simp_all only: eq x_def)
qed

end
