(* ===== verification/Types.thy ===== *)
theory Types
  imports Config
begin

text \<open>
  The data of the chain: the records of \<^verbatim>\<open>x/thornado/types\<close> that the keeper stores, with the
  fields of the Go structs, their zero values (what a store read returns for an absent key
  before it fills in the key), their keys and their \<^verbatim>\<open>Valid\<close> methods. Each record has its
  own field prefix.
\<close>

section \<open>Status strings\<close>

definition DepositStatusAddressIssued :: string where "DepositStatusAddressIssued = ''address_issued''"
definition DepositStatusDepositObserved :: string where "DepositStatusDepositObserved = ''deposit_observed''"
definition DepositStatusDepositMatched :: string where "DepositStatusDepositMatched = ''deposit_matched''"
definition DepositStatusReturnQueued :: string where "DepositStatusReturnQueued = ''return_queued''"
definition DepositStatusReturnComplete :: string where "DepositStatusReturnComplete = ''return_complete''"
definition DepositStatusSettled :: string where "DepositStatusSettled = ''settled''"
definition DepositStatusCommitted :: string where "DepositStatusCommitted = ''committed''"
definition DepositStatusKeysignQueued :: string where "DepositStatusKeysignQueued = ''keysign_queued''"
definition DepositStatusErrata :: string where "DepositStatusErrata = ''errata''"
definition ShielderRedeemStatusAuthorized :: string where "ShielderRedeemStatusAuthorized = ''authorized''"
definition ShielderRedeemStatusSettled :: string where "ShielderRedeemStatusSettled = ''settled''"
definition DepositSettlementUser :: string where "DepositSettlementUser = ''user''"
definition DepositSettlementOperatorBond :: string where "DepositSettlementOperatorBond = ''operator_bond''"
definition DepositSettlementOperatorSale :: string where "DepositSettlementOperatorSale = ''operator_sale''"
definition DepositSettlementOperatorFee :: string where "DepositSettlementOperatorFee = ''operator_fee''"
definition NodeSlotAuctionOpen :: string where "NodeSlotAuctionOpen = ''open''"
definition NodeSlotAuctionSelected :: string where "NodeSlotAuctionSelected = ''selected''"
definition NodeSlotAuctionExpired :: string where "NodeSlotAuctionExpired = ''expired''"
definition NodeSlotAuctionSettled :: string where "NodeSlotAuctionSettled = ''settled''"
definition ShielderRedeemPolicyUserBTC :: string where "ShielderRedeemPolicyUserBTC = ''user_btc''"
definition ShielderRedeemPolicyBondEscrow :: string where "ShielderRedeemPolicyBondEscrow = ''bond_escrow''"
definition ShielderRedeemPolicyBidDeposit :: string where "ShielderRedeemPolicyBidDeposit = ''bid_deposit''"

lemmas status_defs = DepositStatusAddressIssued_def DepositStatusDepositObserved_def
  DepositStatusDepositMatched_def DepositStatusReturnQueued_def DepositStatusReturnComplete_def
  DepositStatusSettled_def DepositStatusCommitted_def DepositStatusKeysignQueued_def
  DepositStatusErrata_def ShielderRedeemStatusAuthorized_def ShielderRedeemStatusSettled_def
  DepositSettlementUser_def DepositSettlementOperatorBond_def DepositSettlementOperatorSale_def
  DepositSettlementOperatorFee_def NodeSlotAuctionOpen_def NodeSlotAuctionSelected_def
  NodeSlotAuctionExpired_def NodeSlotAuctionSettled_def ShielderRedeemPolicyUserBTC_def
  ShielderRedeemPolicyBondEscrow_def ShielderRedeemPolicyBidDeposit_def

section \<open>Deposits\<close>

record DepositSession =
  ds_Owner :: AccAddress
  ds_PowToken :: string
  ds_DepositAddress :: Address
  ds_VaultPubKey :: PubKey
  ds_DepositPathIndex :: u64
  ds_DepositPath :: string
  ds_DepositPathType :: string
  ds_DepositNonce :: u64
  ds_OperatorPubKey :: PubKey
  ds_NodePubKey :: string
  ds_AuctionID :: string
  ds_CreatedHeight :: int
  ds_ExpiresAtHeight :: int
  ds_PurgeAtHeight :: int
  ds_RefundEligibleHeight :: int
  ds_PowDurationMs :: u64
  ds_PowDifficulty :: int
  ds_Status :: string
  ds_DepositID :: TxID
  ds_InboundTxID :: TxID
  ds_SourceVout :: u32
  ds_BTCConfirmations :: int
  ds_BTCConfirmationsRequired :: int
  ds_BTCObservedHeight :: int

definition DepositSession_zero :: DepositSession where
  "DepositSession_zero = \<lparr>ds_Owner = [], ds_PowToken = [], ds_DepositAddress = [], ds_VaultPubKey = [],
     ds_DepositPathIndex = 0, ds_DepositPath = [], ds_DepositPathType = [],
     ds_DepositNonce = 0, ds_OperatorPubKey = [], ds_NodePubKey = [], ds_AuctionID = [],
     ds_CreatedHeight = 0, ds_ExpiresAtHeight = 0, ds_PurgeAtHeight = 0,
     ds_RefundEligibleHeight = 0, ds_PowDurationMs = 0, ds_PowDifficulty = 0, ds_Status = [],
     ds_DepositID = [], ds_InboundTxID = [], ds_SourceVout = 0, ds_BTCConfirmations = 0,
     ds_BTCConfirmationsRequired = 0, ds_BTCObservedHeight = 0\<rparr>"

record DepositRecord =
  dr_DepositID :: TxID
  dr_Owner :: AccAddress
  dr_AmountSats :: u64
  dr_SweepComplete :: bool
  dr_ShieldedSats :: u64
  dr_DepositAddress :: Address
  dr_ReturnAddress :: Address
  dr_VaultPubKey :: PubKey
  dr_DepositPathIndex :: u64
  dr_DepositPath :: string
  dr_DepositPathType :: string
  dr_DepositNonce :: u64
  dr_OperatorPubKey :: PubKey
  dr_NodePubKey :: string
  dr_AuctionID :: string
  dr_Settlement :: string
  dr_SellerPayoutSats :: u64
  dr_ProtocolBondSats :: u64
  dr_NodeSlot :: u64
  dr_BondConfirmed :: bool
  dr_MatchedHeight :: int
  dr_CreatedHeight :: int
  dr_ExpiresAtHeight :: int
  dr_PurgeAtHeight :: int
  dr_RefundEligibleHeight :: int
  dr_RefundQueuedHeight :: int
  dr_PowDurationMs :: u64
  dr_PowDifficulty :: int
  dr_Status :: string
  dr_InboundTxID :: TxID
  dr_SourceVout :: u32
  dr_BTCConfirmations :: int
  dr_BTCConfirmationsRequired :: int
  dr_BTCObservedHeight :: int

definition DepositRecord_zero :: DepositRecord where
  "DepositRecord_zero = \<lparr>dr_DepositID = [], dr_Owner = [], dr_AmountSats = 0, dr_SweepComplete = False,
     dr_ShieldedSats = 0, dr_DepositAddress = [], dr_ReturnAddress = [], dr_VaultPubKey = [],
     dr_DepositPathIndex = 0, dr_DepositPath = [], dr_DepositPathType = [],
     dr_DepositNonce = 0, dr_OperatorPubKey = [], dr_NodePubKey = [], dr_AuctionID = [],
     dr_Settlement = [], dr_SellerPayoutSats = 0, dr_ProtocolBondSats = 0, dr_NodeSlot = 0,
     dr_BondConfirmed = False, dr_MatchedHeight = 0, dr_CreatedHeight = 0,
     dr_ExpiresAtHeight = 0, dr_PurgeAtHeight = 0, dr_RefundEligibleHeight = 0,
     dr_RefundQueuedHeight = 0, dr_PowDurationMs = 0, dr_PowDifficulty = 0, dr_Status = [],
     dr_InboundTxID = [], dr_SourceVout = 0, dr_BTCConfirmations = 0,
     dr_BTCConfirmationsRequired = 0, dr_BTCObservedHeight = 0\<rparr>"

record DepositAddress =
  da_Address :: Address
  da_VaultPubKey :: PubKey
  da_PathIndex :: u64
  da_Path :: string
  da_PathType :: string
  da_DepositNonce :: u64
  da_Owner :: AccAddress
  da_PowToken :: string
  da_OperatorPubKey :: PubKey
  da_NodePubKey :: string
  da_AuctionID :: string
  da_CreatedHeight :: int
  da_ExpiresAtHeight :: int
  da_PurgeAtHeight :: int
  da_PowDurationMs :: u64
  da_PowDifficulty :: int

definition DepositAddress_zero :: DepositAddress where
  "DepositAddress_zero = \<lparr>da_Address = [], da_VaultPubKey = [], da_PathIndex = 0, da_Path = [], da_PathType = [],
     da_DepositNonce = 0, da_Owner = [], da_PowToken = [], da_OperatorPubKey = [],
     da_NodePubKey = [], da_AuctionID = [], da_CreatedHeight = 0, da_ExpiresAtHeight = 0,
     da_PurgeAtHeight = 0, da_PowDurationMs = 0, da_PowDifficulty = 0\<rparr>"

record DepositPowTiming =
  pt_PowToken :: string
  pt_Owner :: AccAddress
  pt_DurationMs :: u64
  pt_Difficulty :: int
  pt_CreatedHeight :: int
  pt_DepositID :: TxID
  pt_DepositAmountSats :: u64
  pt_MatchedHeight :: int
  pt_Deposited :: bool

definition DepositPowTiming_zero :: DepositPowTiming where
  "DepositPowTiming_zero = \<lparr>pt_PowToken = [], pt_Owner = [], pt_DurationMs = 0, pt_Difficulty = 0,
     pt_CreatedHeight = 0, pt_DepositID = [], pt_DepositAmountSats = 0, pt_MatchedHeight = 0,
     pt_Deposited = False\<rparr>"

record DepositPowDifficultyState =
  pd_Difficulty :: int
  pd_LastRetargetHeight :: int
  pd_SampleCount :: u64
  pd_WeightedP90Ms :: u64
  pd_UpdatedHeight :: int

definition DepositPowDifficultyState_zero :: DepositPowDifficultyState where
  "DepositPowDifficultyState_zero = \<lparr>pd_Difficulty = 0, pd_LastRetargetHeight = 0, pd_SampleCount = 0, pd_WeightedP90Ms = 0,
     pd_UpdatedHeight = 0\<rparr>"

section \<open>Bonds, auctions and the fee pool\<close>

record ShielderNodeBond =
  nb_NodePubKey :: string
  nb_OperatorPubKey :: PubKey
  nb_NodeAddress :: AccAddress
  nb_Slot :: u64
  nb_PendingSats :: u64
  nb_BondSats :: u64
  nb_FeeDebtSats :: u64
  nb_FeeShareActive :: bool
  nb_OperatorFeeBasisPoints :: u64
  nb_OperatorFeeAccruedSats :: u64
  nb_FeePerBondShare :: u64
  nb_FeePerBondShareRemainder :: u64
  nb_PendingFeeDepositID :: TxID
  nb_PendingOperatorFeeDepositID :: TxID
  nb_Bonders :: "string list"
  nb_Sold :: bool
  nb_SoldAuctionID :: string
  nb_CreatedHeight :: int
  nb_UpdatedHeight :: int

definition ShielderNodeBond_zero :: ShielderNodeBond where
  "ShielderNodeBond_zero = \<lparr>nb_NodePubKey = [], nb_OperatorPubKey = [], nb_NodeAddress = [], nb_Slot = 0,
     nb_PendingSats = 0, nb_BondSats = 0, nb_FeeDebtSats = 0, nb_FeeShareActive = False,
     nb_OperatorFeeBasisPoints = 0, nb_OperatorFeeAccruedSats = 0, nb_FeePerBondShare = 0,
     nb_FeePerBondShareRemainder = 0, nb_PendingFeeDepositID = [],
     nb_PendingOperatorFeeDepositID = [], nb_Bonders = [], nb_Sold = False,
     nb_SoldAuctionID = [], nb_CreatedHeight = 0, nb_UpdatedHeight = 0\<rparr>"

record ShielderNodeBonder =
  br_NodePubKey :: string
  br_Bonder :: AccAddress
  br_PendingSats :: u64
  br_PrincipalSats :: u64
  br_FeeDebtShare :: u64
  br_PendingFeeDepositID :: TxID
  br_SaleEntitlementID :: TxID
  br_SalePayoutSats :: u64
  br_CreatedHeight :: int
  br_UpdatedHeight :: int

definition ShielderNodeBonder_zero :: ShielderNodeBonder where
  "ShielderNodeBonder_zero = \<lparr>br_NodePubKey = [], br_Bonder = [], br_PendingSats = 0, br_PrincipalSats = 0,
     br_FeeDebtShare = 0, br_PendingFeeDepositID = [], br_SaleEntitlementID = [],
     br_SalePayoutSats = 0, br_CreatedHeight = 0, br_UpdatedHeight = 0\<rparr>"

record NodeSlotAuction =
  au_AuctionID :: string
  au_Seller :: AccAddress
  au_SellerOperatorPubKey :: PubKey
  au_SellerNodePubKey :: string
  au_Slot :: u64
  au_OriginalBondSats :: u64
  au_ReserveSats :: u64
  au_ExpiryHeight :: int
  au_SelectedBidID :: string
  au_Status :: string
  au_CreatedHeight :: int
  au_UpdatedHeight :: int

definition NodeSlotAuction_zero :: NodeSlotAuction where
  "NodeSlotAuction_zero = \<lparr>au_AuctionID = [], au_Seller = [], au_SellerOperatorPubKey = [],
     au_SellerNodePubKey = [], au_Slot = 0, au_OriginalBondSats = 0, au_ReserveSats = 0,
     au_ExpiryHeight = 0, au_SelectedBidID = [], au_Status = [], au_CreatedHeight = 0,
     au_UpdatedHeight = 0\<rparr>"

record NodeSlotBid =
  bd_BidID :: string
  bd_AuctionID :: string
  bd_Bidder :: AccAddress
  bd_OperatorPubKey :: PubKey
  bd_NodePubKey :: string
  bd_DepositAddress :: Address
  bd_DepositID :: TxID
  bd_AmountSats :: u64
  bd_Selected :: bool
  bd_Settled :: bool
  bd_CreatedHeight :: int
  bd_UpdatedHeight :: int

definition NodeSlotBid_zero :: NodeSlotBid where
  "NodeSlotBid_zero = \<lparr>bd_BidID = [], bd_AuctionID = [], bd_Bidder = [], bd_OperatorPubKey = [],
     bd_NodePubKey = [], bd_DepositAddress = [], bd_DepositID = [], bd_AmountSats = 0,
     bd_Selected = False, bd_Settled = False, bd_CreatedHeight = 0, bd_UpdatedHeight = 0\<rparr>"

record FeePool =
  fp_PendingSats :: u64
  fp_TotalSlots :: u64
  fp_FeePerSlotShare :: u64
  fp_TotalCollectedSats :: u64
  fp_TotalClaimedSats :: u64

definition FeePool_zero :: FeePool where
  "FeePool_zero = \<lparr>fp_PendingSats = 0, fp_TotalSlots = 0, fp_FeePerSlotShare = 0, fp_TotalCollectedSats = 0,
     fp_TotalClaimedSats = 0\<rparr>"

section \<open>Notes and redeems\<close>

record StoredShielderNoteRecord =
  nr_Commitment :: string
  nr_DenominationSats :: u64
  nr_CreatedHeight :: int
  nr_LeafIndex :: u64

definition StoredShielderNoteRecord_zero :: StoredShielderNoteRecord where
  "StoredShielderNoteRecord_zero = \<lparr>nr_Commitment = [], nr_DenominationSats = 0, nr_CreatedHeight = 0, nr_LeafIndex = 0\<rparr>"

record StoredShielderTreeState =
  ts_DenominationSats :: u64
  ts_NextIndex :: u64
  ts_FilledSubtrees :: "string list"
  ts_Root :: string

definition StoredShielderTreeState_zero :: StoredShielderTreeState where
  "StoredShielderTreeState_zero = \<lparr>ts_DenominationSats = 0, ts_NextIndex = 0, ts_FilledSubtrees = [], ts_Root = []\<rparr>"

record StoredShielderNullifierRecord =
  nl_NullifierHash :: string
  nl_WithdrawalID :: string
  nl_CreatedHeight :: int

definition StoredShielderNullifierRecord_zero :: StoredShielderNullifierRecord where
  "StoredShielderNullifierRecord_zero = \<lparr>nl_NullifierHash = [], nl_WithdrawalID = [], nl_CreatedHeight = 0\<rparr>"

record ShielderRedeem =
  rd_WithdrawalID :: string
  rd_NullifierHash :: string
  rd_MerkleRoot :: string
  rd_Recipient :: Address
  rd_RecipientPolicy :: string
  rd_BidID :: string
  rd_NodePubKey :: string
  rd_AmountSats :: u64
  rd_FeeSats :: u64
  rd_InHash :: TxID
  rd_OutHash :: TxID
  rd_VaultPubKey :: PubKey
  rd_RequestedHeight :: int
  rd_Status :: string

definition ShielderRedeem_zero :: ShielderRedeem where
  "ShielderRedeem_zero = \<lparr>rd_WithdrawalID = [], rd_NullifierHash = [], rd_MerkleRoot = [], rd_Recipient = [],
     rd_RecipientPolicy = [], rd_BidID = [], rd_NodePubKey = [], rd_AmountSats = 0,
     rd_FeeSats = 0, rd_InHash = [], rd_OutHash = [], rd_VaultPubKey = [],
     rd_RequestedHeight = 0, rd_Status = []\<rparr>"

section \<open>Nodes, vaults and outbound transactions\<close>

datatype NodeStatus = NodeUnknown | NodeWhiteListed | NodeStandby | NodeSelected | NodeActive | NodeDisabled

datatype NodeType = NodeTypeNode | NodeTypeVault | NodeTypeUnknown

datatype VaultStatus = InactiveVault | ActiveVault | RetiringVault | InitVault

datatype VaultType = UnknownVault | BaseVault

record PubKeySet =
  ps_Secp256k1 :: PubKey
  ps_Ed25519 :: PubKey

definition PubKeySet_zero :: PubKeySet where
  "PubKeySet_zero = \<lparr>ps_Secp256k1 = [], ps_Ed25519 = []\<rparr>"

record NodeAccount =
  na_NodeAddress :: AccAddress
  na_Status :: NodeStatus
  na_PubKeySet :: PubKeySet
  na_NodeConsPubKey :: string
  na_Bond :: nat
  na_ActiveBlockHeight :: int
  na_BondAddress :: Address
  na_StatusSince :: int
  na_SignerMembership :: "string list"
  na_RequestedToLeave :: bool
  na_ForcedToLeave :: bool
  na_LeaveScore :: u64
  na_IPAddress :: string
  na_Version :: string
  na_Type :: NodeType
  na_MissingBlocks :: u64
  na_Maintenance :: bool

definition NodeAccount_zero :: NodeAccount where
  "NodeAccount_zero = \<lparr>na_NodeAddress = [], na_Status = NodeUnknown, na_PubKeySet = PubKeySet_zero,
     na_NodeConsPubKey = [], na_Bond = 0, na_ActiveBlockHeight = 0, na_BondAddress = [],
     na_StatusSince = 0, na_SignerMembership = [], na_RequestedToLeave = False,
     na_ForcedToLeave = False, na_LeaveScore = 0, na_IPAddress = [], na_Version = [],
     na_Type = NodeTypeNode, na_MissingBlocks = 0, na_Maintenance = False\<rparr>"

record Vault =
  va_BlockHeight :: int
  va_PubKey :: PubKey
  va_Coins :: Coins
  va_Type :: VaultType
  va_Status :: VaultStatus
  va_StatusSince :: int
  va_Membership :: "string list"
  va_Chains :: "string list"
  va_InboundTxCount :: int
  va_OutboundTxCount :: int
  va_PendingTxBlockHeights :: "int list"
  va_Frozen :: "string list"
  va_PubKeyEddsa :: PubKey

definition Vault_zero :: Vault where
  "Vault_zero = \<lparr>va_BlockHeight = 0, va_PubKey = [], va_Coins = [], va_Type = UnknownVault,
     va_Status = InactiveVault, va_StatusSince = 0, va_Membership = [], va_Chains = [],
     va_InboundTxCount = 0, va_OutboundTxCount = 0, va_PendingTxBlockHeights = [],
     va_Frozen = [], va_PubKeyEddsa = []\<rparr>"

record TxOutInput =
  ti_TxId :: TxID
  ti_Vout :: u32
  ti_AmountSats :: u64
  ti_PathIndex :: u64

definition TxOutInput_zero :: TxOutInput where
  "TxOutInput_zero = \<lparr>ti_TxId = [], ti_Vout = 0, ti_AmountSats = 0, ti_PathIndex = 0\<rparr>"

record TxOutItem =
  to_Chain :: Chain
  to_ToAddress :: Address
  to_VaultPubKey :: PubKey
  to_Coin :: Coin
  to_MaxGas :: Coins
  to_GasRate :: int
  to_InHash :: TxID
  to_OutHash :: TxID
  to_ModuleName :: string
  to_Aggregator :: string
  to_AggregatorTargetAsset :: string
  to_AggregatorTargetLimit :: "nat option"
  to_VaultPubKeyEddsa :: PubKey
  to_VaultPathIndex :: u64
  to_TxType :: string
  to_OutVout :: u32
  to_SourceInputs :: "TxOutInput list"

definition TxOutItem_zero :: TxOutItem where
  "TxOutItem_zero = \<lparr>to_Chain = [], to_ToAddress = [], to_VaultPubKey = [], to_Coin = NoCoin, to_MaxGas = [],
     to_GasRate = 0, to_InHash = [], to_OutHash = [], to_ModuleName = [], to_Aggregator = [],
     to_AggregatorTargetAsset = [], to_AggregatorTargetLimit = None, to_VaultPubKeyEddsa = [],
     to_VaultPathIndex = 0, to_TxType = [], to_OutVout = 0, to_SourceInputs = []\<rparr>"

record TxOut =
  tx_Height :: int
  tx_TxArray :: "TxOutItem list"
  tx_Epoch :: u64
  tx_Status :: string
  tx_SigningLeader :: PubKey
  tx_SigningAttempt :: u64
  tx_RetryUntilHeight :: int

definition TxOut_zero :: TxOut where
  "TxOut_zero = \<lparr>tx_Height = 0, tx_TxArray = [], tx_Epoch = 0, tx_Status = [], tx_SigningLeader = [],
     tx_SigningAttempt = 0, tx_RetryUntilHeight = 0\<rparr>"

record NetworkFee =
  nf_Chain :: Chain
  nf_TransactionSize :: u64
  nf_TransactionFeeRate :: u64

definition NetworkFee_zero :: NetworkFee where
  "NetworkFee_zero = \<lparr>nf_Chain = [], nf_TransactionSize = 0, nf_TransactionFeeRate = 0\<rparr>"

section \<open>Observed transactions\<close>

record TxInput =
  in_TxID :: TxID
  in_Vout :: u32
  in_AmountSats :: u64

definition TxInput_zero :: TxInput where
  "TxInput_zero = \<lparr>in_TxID = [], in_Vout = 0, in_AmountSats = 0\<rparr>"

record Tx =
  t_ID :: TxID
  t_Chain :: Chain
  t_FromAddress :: Address
  t_ToAddress :: Address
  t_Coins :: Coins
  t_Gas :: Coins
  t_SourceVout :: u32
  t_SourceInputs :: "TxInput list"

definition Tx_zero :: Tx where
  "Tx_zero = \<lparr>t_ID = [], t_Chain = [], t_FromAddress = [], t_ToAddress = [], t_Coins = [], t_Gas = [],
     t_SourceVout = 0, t_SourceInputs = []\<rparr>"

datatype ObservedStatus = Status_incomplete | Status_done | Status_reverted

record ObservedTx =
  ob_Tx :: Tx
  ob_Status :: ObservedStatus
  ob_OutHashes :: "string list"
  ob_BlockHeight :: int
  ob_Signers :: "string list"
  ob_ObservedPubKey :: PubKey
  ob_KeysignMs :: int
  ob_FinaliseHeight :: int
  ob_Aggregator :: string
  ob_AggregatorTarget :: string
  ob_AggregatorTargetLimit :: "nat option"

definition ObservedTx_zero :: ObservedTx where
  "ObservedTx_zero = \<lparr>ob_Tx = Tx_zero, ob_Status = Status_incomplete, ob_OutHashes = [], ob_BlockHeight = 0,
     ob_Signers = [], ob_ObservedPubKey = [], ob_KeysignMs = 0, ob_FinaliseHeight = 0,
     ob_Aggregator = [], ob_AggregatorTarget = [], ob_AggregatorTargetLimit = None\<rparr>"

record ObservedTxVoter =
  vo_TxID :: TxID
  vo_Tx :: ObservedTx
  vo_Height :: int
  vo_Txs :: "ObservedTx list"
  vo_Actions :: "TxOutItem list"
  vo_OutTxs :: "Tx list"
  vo_FinalisedHeight :: int
  vo_UpdatedVault :: bool
  vo_Reverted :: bool
  vo_OutboundHeight :: int
  vo_UnfinalizedHeight :: int

definition ObservedTxVoter_zero :: ObservedTxVoter where
  "ObservedTxVoter_zero = \<lparr>vo_TxID = [], vo_Tx = ObservedTx_zero, vo_Height = 0, vo_Txs = [], vo_Actions = [],
     vo_OutTxs = [], vo_FinalisedHeight = 0, vo_UpdatedVault = False, vo_Reverted = False,
     vo_OutboundHeight = 0, vo_UnfinalizedHeight = 0\<rparr>"

record FrostKeysignMetric =
  fm_TxID :: TxID
  fm_NodeFrostTimes :: "(AccAddress \<times> int) list"

record ErrataTxVoter =
  ev_TxID :: TxID
  ev_Chain :: Chain
  ev_BlockHeight :: int
  ev_Signers :: "string list"

text \<open>The zero values are unfolded by name where a proof needs them.\<close>

lemmas zero_defs = DepositSession_zero_def DepositRecord_zero_def DepositAddress_zero_def
  DepositPowTiming_zero_def DepositPowDifficultyState_zero_def ShielderNodeBond_zero_def
  ShielderNodeBonder_zero_def NodeSlotAuction_zero_def NodeSlotBid_zero_def FeePool_zero_def
  StoredShielderNoteRecord_zero_def StoredShielderTreeState_zero_def
  StoredShielderNullifierRecord_zero_def ShielderRedeem_zero_def PubKeySet_zero_def
  NodeAccount_zero_def Vault_zero_def TxOutInput_zero_def TxOutItem_zero_def TxOut_zero_def
  NetworkFee_zero_def TxInput_zero_def Tx_zero_def ObservedTx_zero_def ObservedTxVoter_zero_def

end
