(* ===== verification/Type_Methods.thy ===== *)
theory Type_Methods
  imports Types
begin

text \<open>
  The methods of the stored types: their keys, their \<^verbatim>\<open>Valid\<close> checks
  (\<^verbatim>\<open>types/type_shielder.go\<close>), and the operations of node accounts, vaults and outbound
  blocks (\<^verbatim>\<open>types/type_node_account.go\<close>, \<^verbatim>\<open>types/type_vault.go\<close>, \<^verbatim>\<open>types/type_tx_out.go\<close>).
\<close>

text \<open>A chain of \<^verbatim>\<open>if c { return fmt.Errorf(m) }\<close> that ends in \<^verbatim>\<open>return nil\<close>.\<close>

fun checks :: "(bool \<times> string) list \<Rightarrow> unit result" where
  "checks [] = Inr ()"
| "checks ((c, m) # r) = (if c then Inl (Errorf m) else checks r)"

lemma checks_ok: "checks cs = Inr u \<longleftrightarrow> list_all (\<lambda>(c, m). \<not> c) cs"
  by (induction cs rule: checks.induct) auto

section \<open>Deposits\<close>

definition DepositSession_Key :: "env \<Rightarrow> DepositSession \<Rightarrow> string" where
  "DepositSession_Key e m = e_acc_string e (ds_Owner m)"

definition DepositSession_Valid :: "DepositSession \<Rightarrow> unit result" where
  "DepositSession_Valid m = checks
     [(ds_Owner m = [], ''missing deposit owner''),
      (TrimSpace (ds_PowToken m) = [], ''missing deposit pow token''),
      (Address_IsEmpty (ds_DepositAddress m), ''missing deposit address''),
      (ds_VaultPubKey m = [], ''missing deposit vault pubkey'')]"

definition DepositRecord_Key :: "DepositRecord \<Rightarrow> string" where
  "DepositRecord_Key m = dr_DepositID m"

definition IsNodeBond :: "DepositRecord \<Rightarrow> bool" where
  "IsNodeBond m \<longleftrightarrow> TrimSpace (dr_NodePubKey m) \<noteq> []"

definition DepositRecord_Valid :: "DepositRecord \<Rightarrow> unit result" where
  "DepositRecord_Valid m = checks
     [(TxID_IsEmpty (dr_DepositID m), ''missing deposit id''),
      (dr_Owner m = [], ''missing deposit owner''),
      (dr_AmountSats m = 0, ''missing deposit amount''),
      (dr_ShieldedSats m > dr_AmountSats m, ''shielded amount exceeds deposit amount''),
      (Address_IsEmpty (dr_DepositAddress m), ''missing deposit address''),
      (dr_VaultPubKey m = [] \<and> \<not> IsNoop (dr_DepositAddress m), ''missing deposit vault pubkey'')]"

definition DepositAddress_Key :: "DepositAddress \<Rightarrow> string" where
  "DepositAddress_Key m = da_Address m"

definition DepositAddress_Valid :: "DepositAddress \<Rightarrow> unit result" where
  "DepositAddress_Valid m = checks
     [(Address_IsEmpty (da_Address m), ''missing deposit address''),
      (da_VaultPubKey m = [], ''missing deposit address vault pubkey''),
      (da_PathIndex m = MainVaultPathIndex, ''deposit address path index cannot be zero''),
      (da_Owner m = [], ''missing deposit address owner''),
      (TrimSpace (da_PowToken m) = [], ''missing deposit address pow token'')]"

definition DepositPowTiming_Key :: "DepositPowTiming \<Rightarrow> string" where
  "DepositPowTiming_Key m = TrimSpace (pt_PowToken m)"

definition DepositPowTiming_Valid :: "DepositPowTiming \<Rightarrow> unit result" where
  "DepositPowTiming_Valid m = checks
     [(TrimSpace (pt_PowToken m) = [], ''missing deposit pow token''),
      (pt_Owner m = [], ''missing deposit pow owner''),
      (pt_Difficulty m < 0, ''invalid deposit pow difficulty'')]"

section \<open>Bonds and auctions\<close>

definition NodeSlotAuction_Key :: "NodeSlotAuction \<Rightarrow> string" where
  "NodeSlotAuction_Key m = TrimSpace (au_AuctionID m)"

definition NodeSlotAuction_Valid :: "NodeSlotAuction \<Rightarrow> unit result" where
  "NodeSlotAuction_Valid m = checks
     [(TrimSpace (au_AuctionID m) = [], ''missing node slot auction id''),
      (au_Seller m = [], ''missing node slot auction seller''),
      (au_SellerOperatorPubKey m = [], ''missing node slot auction seller operator pubkey''),
      (TrimSpace (au_SellerNodePubKey m) = [], ''missing node slot auction seller node pubkey''),
      (au_OriginalBondSats m = 0, ''missing node slot auction original bond''),
      (au_ExpiryHeight m \<le> 0, ''missing node slot auction expiry''),
      (TrimSpace (au_Status m) = [], ''missing node slot auction status'')]"

definition NodeSlotBid_Key :: "NodeSlotBid \<Rightarrow> string" where
  "NodeSlotBid_Key m = TrimSpace (bd_BidID m)"

definition NodeSlotBid_Valid :: "NodeSlotBid \<Rightarrow> unit result" where
  "NodeSlotBid_Valid m = checks
     [(TrimSpace (bd_BidID m) = [], ''missing node slot bid id''),
      (TrimSpace (bd_AuctionID m) = [], ''missing node slot bid auction id''),
      (bd_Bidder m = [], ''missing node slot bid bidder''),
      (bd_OperatorPubKey m = [], ''missing node slot bid operator pubkey''),
      (TrimSpace (bd_NodePubKey m) = [], ''missing node slot bid node pubkey'')]"

definition ShielderNodeBond_Key :: "ShielderNodeBond \<Rightarrow> string" where
  "ShielderNodeBond_Key m = TrimSpace (nb_NodePubKey m)"

definition ShielderNodeBond_Valid :: "ShielderNodeBond \<Rightarrow> unit result" where
  "ShielderNodeBond_Valid m = checks
     [(TrimSpace (nb_NodePubKey m) = [], ''missing shielder node pubkey''),
      (nb_OperatorPubKey m = [], ''missing shielder node operator pubkey''),
      (nb_NodeAddress m = [], ''missing shielder node node address'')]"

definition ShielderNodeBonderKey :: "env \<Rightarrow> string \<Rightarrow> AccAddress \<Rightarrow> string" where
  "ShielderNodeBonderKey e nodePubKey bonder = TrimSpace nodePubKey @ ''/'' @ e_acc_string e bonder"

definition ShielderNodeBonder_Key :: "env \<Rightarrow> ShielderNodeBonder \<Rightarrow> string" where
  "ShielderNodeBonder_Key e m = ShielderNodeBonderKey e (br_NodePubKey m) (br_Bonder m)"

definition ShielderNodeBonder_Valid :: "ShielderNodeBonder \<Rightarrow> unit result" where
  "ShielderNodeBonder_Valid m = checks
     [(TrimSpace (br_NodePubKey m) = [], ''missing shielder node bonder node pubkey''),
      (br_Bonder m = [], ''missing shielder node bonder address'')]"

section \<open>Notes and redeems\<close>

definition StoredShielderTreeState_Valid :: "StoredShielderTreeState \<Rightarrow> unit result" where
  "StoredShielderTreeState_Valid m = checks [(ts_DenominationSats m = 0, ''missing shielder tree denomination'')]"

definition StoredShielderNoteRecord_Key :: "StoredShielderNoteRecord \<Rightarrow> string" where
  "StoredShielderNoteRecord_Key m = TrimSpace (nr_Commitment m)"

definition StoredShielderNoteRecord_Valid :: "StoredShielderNoteRecord \<Rightarrow> unit result" where
  "StoredShielderNoteRecord_Valid m = checks
     [(TrimSpace (nr_Commitment m) = [], ''missing shielder note commitment''),
      (nr_DenominationSats m = 0, ''missing shielder note denomination'')]"

definition ShielderRedeem_Valid :: "env \<Rightarrow> ShielderRedeem \<Rightarrow> unit result" where
  "ShielderRedeem_Valid e m = checks
     [(TrimSpace (rd_WithdrawalID m) = [], ''missing shielder redeem id''),
      (TrimSpace (rd_NullifierHash m) = [], ''missing shielder nullifier hash''),
      (TrimSpace (rd_MerkleRoot m) = [], ''missing shielder merkle root''),
      (Address_IsEmpty (rd_Recipient m), ''missing shielder redeem recipient''),
      (\<not> IsBondEscrow (rd_Recipient m) \<and> \<not> Chain_Equals (GetChain e (rd_Recipient m)) BTCChain,
        ''shielder redeem recipient must be bitcoin or bond escrow''),
      (rd_AmountSats m = 0, ''missing shielder redeem amount''),
      (rd_FeeSats m \<ge> rd_AmountSats m, ''shielder redeem fee exceeds amount''),
      (TxID_IsEmpty (rd_InHash m), ''missing shielder redeem in hash''),
      (rd_VaultPubKey m = [], ''missing shielder redeem vault pubkey'')]"

section \<open>Node accounts\<close>

definition NodeAccount_UpdateStatus :: "NodeAccount \<Rightarrow> NodeStatus \<Rightarrow> int \<Rightarrow> NodeAccount" where
  "NodeAccount_UpdateStatus m status height =
     (if na_Status m = status then m
      else let m' = m\<lparr>na_Status := status, na_StatusSince := height\<rparr> in
        if status \<noteq> NodeActive then m'\<lparr>na_ActiveBlockHeight := 0\<rparr> else m')"

definition NewNodeAccount ::
  "AccAddress \<Rightarrow> NodeStatus \<Rightarrow> PubKeySet \<Rightarrow> string \<Rightarrow> nat \<Rightarrow> Address \<Rightarrow> int \<Rightarrow> NodeAccount" where
  "NewNodeAccount nodeAddress status nodePubKeySet nodeConsPubKey bond bondAddress height =
     NodeAccount_UpdateStatus
       (NodeAccount_zero\<lparr>na_NodeAddress := nodeAddress, na_PubKeySet := nodePubKeySet,
          na_NodeConsPubKey := nodeConsPubKey, na_Bond := bond, na_BondAddress := bondAddress\<rparr>)
       status height"

definition NodeAccount_IsEmpty :: "NodeAccount \<Rightarrow> bool" where
  "NodeAccount_IsEmpty m \<longleftrightarrow> na_NodeAddress m = [] \<or> na_Status m = NodeUnknown"

definition NodeAccount_Valid :: "NodeAccount \<Rightarrow> unit result" where
  "NodeAccount_Valid m = checks
     [(na_NodeAddress m = [], ''node thor address is empty''),
      (Address_IsEmpty (na_BondAddress m), ''bond address is empty''),
      (na_Status m = NodeUnknown, ''node status cannot be unknown'')]"

definition valid_pubkeys :: "env \<Rightarrow> string list \<Rightarrow> PubKey list" where
  "valid_pubkeys e pks = concat (map (\<lambda>pk. case NewPubKey e pk of Inl _ \<Rightarrow> [] | Inr p \<Rightarrow> [p]) pks)"

definition GetSignerMembership :: "env \<Rightarrow> NodeAccount \<Rightarrow> PubKey list" where
  "GetSignerMembership e m = valid_pubkeys e (na_SignerMembership m)"

definition TryAddSignerPubKey :: "env \<Rightarrow> NodeAccount \<Rightarrow> PubKey \<Rightarrow> NodeAccount" where
  "TryAddSignerPubKey e m key =
     (if key = [] \<or> key \<in> set (GetSignerMembership e m) then m
      else m\<lparr>na_SignerMembership := na_SignerMembership m @ [key]\<rparr>)"

text \<open>The last position of the key in the list of well-formed keys, or none.\<close>

fun last_index :: "'a \<Rightarrow> 'a list \<Rightarrow> nat option" where
  "last_index x [] = None"
| "last_index x (y # ys) =
     (case last_index x ys of Some i \<Rightarrow> Some (Suc i) | None \<Rightarrow> if x = y then Some 0 else None)"

definition TryRemoveSignerPubKey :: "env \<Rightarrow> NodeAccount \<Rightarrow> PubKey \<Rightarrow> NodeAccount" where
  "TryRemoveSignerPubKey e m key =
     (if key = [] then m
      else case last_index key (GetSignerMembership e m) of
        None \<Rightarrow> m
      | Some i \<Rightarrow> m\<lparr>na_SignerMembership :=
          take i (na_SignerMembership m) @ drop (Suc i) (na_SignerMembership m)\<rparr>)"

section \<open>Outbound blocks\<close>

definition TxOutTypeOut :: string where "TxOutTypeOut = ''out''"
definition TxOutTypeRefund :: string where "TxOutTypeRefund = ''refund''"
definition TxOutTypeMigrate :: string where "TxOutTypeMigrate = ''migrate''"
definition TxOutTypeSweep :: string where "TxOutTypeSweep = ''sweep''"
definition TxOutTypeConsolidate :: string where "TxOutTypeConsolidate = ''consolidate''"
definition TxOutStatusPendingBatch :: string where "TxOutStatusPendingBatch = ''pending_batch''"
definition TxOutStatusPendingSign :: string where "TxOutStatusPendingSign = ''pending_sign''"
definition TxOutStatusPendingRetry :: string where "TxOutStatusPendingRetry = ''pending_retry''"
definition TxOutStatusCancelled :: string where "TxOutStatusCancelled = ''cancelled''"
definition TxOutStatusComplete :: string where "TxOutStatusComplete = ''complete''"

lemmas txout_string_defs = TxOutTypeOut_def TxOutTypeRefund_def TxOutTypeMigrate_def
  TxOutTypeSweep_def TxOutTypeConsolidate_def TxOutStatusPendingBatch_def
  TxOutStatusPendingSign_def TxOutStatusPendingRetry_def TxOutStatusCancelled_def
  TxOutStatusComplete_def

definition NormalizeTxOutType :: "string \<Rightarrow> string" where
  "NormalizeTxOutType txType =
     (let t = ToLower (TrimSpace txType) in
      if t \<in> {TxOutTypeRefund, TxOutTypeMigrate, TxOutTypeSweep, TxOutTypeConsolidate} then t
      else TxOutTypeOut)"

definition IsBatchableTxOutType :: "string \<Rightarrow> bool" where
  "IsBatchableTxOutType t \<longleftrightarrow> NormalizeTxOutType t \<in> {TxOutTypeOut, TxOutTypeRefund}"

definition IsInternalTxOutType :: "string \<Rightarrow> bool" where
  "IsInternalTxOutType t \<longleftrightarrow> NormalizeTxOutType t \<in> {TxOutTypeSweep, TxOutTypeConsolidate, TxOutTypeMigrate}"

definition GetTxType :: "TxOutItem \<Rightarrow> string" where
  "GetTxType toi = NormalizeTxOutType (to_TxType toi)"

definition TxOutItem_Valid :: "TxOutItem \<Rightarrow> unit result" where
  "TxOutItem_Valid m =
     (case checks
        [(Chain_IsEmpty (to_Chain m), ''chain cannot be empty''),
         (TxID_IsEmpty (to_InHash m), ''In Hash cannot be empty''),
         (Address_IsEmpty (to_ToAddress m), ''To address cannot be empty''),
         (to_VaultPubKey m = [], ''vault pubkey cannot be empty''),
         (to_GasRate m = 0, ''gas rate is zero''),
         (Asset_IsEmpty (GetGasAsset (to_Chain m)), ''invalid base asset'')] of
        Inl e \<Rightarrow> Inl e
      | Inr _ \<Rightarrow> (case Coin_Valid (to_Coin m) of Inl e \<Rightarrow> Inl e | Inr _ \<Rightarrow> Coins_Valid (to_MaxGas m)))"

definition TxOutItem_Equals :: "TxOutItem \<Rightarrow> TxOutItem \<Rightarrow> bool" where
  "TxOutItem_Equals m n \<longleftrightarrow> Chain_Equals (to_Chain m) (to_Chain n)
     \<and> Address_Equals (to_ToAddress m) (to_ToAddress n)
     \<and> to_VaultPubKey m = to_VaultPubKey n \<and> Coin_Equals (to_Coin m) (to_Coin n)
     \<and> TxID_Equals (to_InHash m) (to_InHash n) \<and> to_GasRate m = to_GasRate n"

definition NewTxOut :: "int \<Rightarrow> TxOut" where
  "NewTxOut height = TxOut_zero\<lparr>tx_Height := height\<rparr>"

definition TxOut_IsEmpty :: "TxOut \<Rightarrow> bool" where
  "TxOut_IsEmpty m \<longleftrightarrow> tx_TxArray m = []"

fun TxOut_Valid_items :: "TxOutItem list \<Rightarrow> unit result" where
  "TxOut_Valid_items [] = Inr ()"
| "TxOut_Valid_items (i # is) = (case TxOutItem_Valid i of Inl e \<Rightarrow> Inl e | Inr _ \<Rightarrow> TxOut_Valid_items is)"

lemma NormalizeTxOutType_idem [simp]: "NormalizeTxOutType (NormalizeTxOutType t) = NormalizeTxOutType t"
proof -
  have fix_low: "ToLower (TrimSpace s) = s"
    if "s \<in> {TxOutTypeRefund, TxOutTypeMigrate, TxOutTypeSweep, TxOutTypeConsolidate, TxOutTypeOut}" for s
    using that
    by (auto simp: txout_string_defs ToLower_def TrimSpace_def is_space_def lower_char_def less_eq_char_def)
  show ?thesis
  proof (cases "ToLower (TrimSpace t) \<in> {TxOutTypeRefund, TxOutTypeMigrate, TxOutTypeSweep, TxOutTypeConsolidate}")
    case True
    then have "ToLower (TrimSpace (ToLower (TrimSpace t))) = ToLower (TrimSpace t)"
      by (intro fix_low) auto
    with True show ?thesis by (simp only: NormalizeTxOutType_def Let_def if_True)
  next
    case False
    have "ToLower (TrimSpace TxOutTypeOut) = TxOutTypeOut" by (rule fix_low) simp
    with False show ?thesis
      by (simp add: NormalizeTxOutType_def Let_def)
  qed
qed

section \<open>Vaults\<close>

definition NewVault :: "int \<Rightarrow> VaultStatus \<Rightarrow> VaultType \<Rightarrow> PubKey \<Rightarrow> string list \<Rightarrow> Vault" where
  "NewVault height status vtype pk chs =
     Vault_zero\<lparr>va_BlockHeight := height, va_StatusSince := height, va_PubKey := pk, va_Type := vtype,
       va_Status := status, va_Chains := chs\<rparr>"

definition Vault_IsBase :: "Vault \<Rightarrow> bool" where
  "Vault_IsBase m \<longleftrightarrow> va_Type m = BaseVault"

definition Vault_IsEmpty :: "Vault \<Rightarrow> bool" where
  "Vault_IsEmpty m \<longleftrightarrow> va_PubKey m = []"

definition GetMembership :: "env \<Rightarrow> Vault \<Rightarrow> PubKey list" where
  "GetMembership e m = valid_pubkeys e (va_Membership m)"

definition Vault_Contains :: "env \<Rightarrow> Vault \<Rightarrow> PubKey \<Rightarrow> bool" where
  "Vault_Contains e m pk \<longleftrightarrow> pk \<in> set (GetMembership e m)"

definition MembershipEquals :: "env \<Rightarrow> Vault \<Rightarrow> PubKey list \<Rightarrow> bool" where
  "MembershipEquals e m pks \<longleftrightarrow> length (va_Membership m) = length pks \<and> list_all (Vault_Contains e m) pks"

definition Vault_UpdateStatus :: "Vault \<Rightarrow> VaultStatus \<Rightarrow> int \<Rightarrow> Vault" where
  "Vault_UpdateStatus m s height = m\<lparr>va_Status := s, va_StatusSince := height\<rparr>"

definition HasFunds :: "Vault \<Rightarrow> bool" where
  "HasFunds m \<longleftrightarrow> list_ex (\<lambda>c. co_Amount c \<noteq> 0) (va_Coins m)"

definition HasFundsForChain :: "Vault \<Rightarrow> Chain \<Rightarrow> bool" where
  "HasFundsForChain m chain \<longleftrightarrow>
     list_ex (\<lambda>c. Chain_Equals (as_Chain (co_Asset c)) chain \<and> co_Amount c \<noteq> 0) (va_Coins m)"

definition CoinLength :: "Vault \<Rightarrow> nat" where
  "CoinLength m = length (filter (\<lambda>c. co_Amount c \<noteq> 0) (va_Coins m))"

fun Vault_GetCoin :: "Coins \<Rightarrow> Asset \<Rightarrow> Coin" where
  "Vault_GetCoin [] a = NewCoin a 0"
| "Vault_GetCoin (c # cs) a = (if Asset_Equals (co_Asset c) a then c else Vault_GetCoin cs a)"

definition chain_known :: "string list \<Rightarrow> Chain \<Rightarrow> bool" where
  "chain_known chs c \<longleftrightarrow> list_ex (\<lambda>d. EqualFold d ''BTC'' \<and> Chain_Equals d c) chs"

text \<open>\<^verbatim>\<open>m.Coins[i].Amount = ycoin.Amount.Add(coin.Amount)\<close> at the first coin of the asset, or the
  coin is appended and its chain is added to the list of chains.\<close>

definition addFund :: "Vault \<Rightarrow> Coin \<Rightarrow> Vault" where
  "addFund m coin =
     (if list_ex (\<lambda>y. Asset_Equals (co_Asset y) (co_Asset coin)) (va_Coins m)
      then m\<lparr>va_Coins := coins_add_one (va_Coins m) coin\<rparr>
      else let m' = (if chain_known (va_Chains m) (as_Chain (co_Asset coin)) then m
                     else m\<lparr>va_Chains := va_Chains m @ [ToUpper (as_Chain (co_Asset coin))]\<rparr>) in
        m'\<lparr>va_Coins := va_Coins m' @ [coin]\<rparr>)"

definition AddFunds :: "Vault \<Rightarrow> Coins \<Rightarrow> Vault" where
  "AddFunds m coins = foldl addFund m coins"

fun sub_first :: "Coins \<Rightarrow> Coin \<Rightarrow> Coins" where
  "sub_first [] coin = []"
| "sub_first (y # ys) coin =
     (if Asset_Equals (co_Asset coin) (co_Asset y) then y\<lparr>co_Amount := SafeSub (co_Amount y) (co_Amount coin)\<rparr> # ys
      else y # sub_first ys coin)"

definition SubFunds :: "Vault \<Rightarrow> Coins \<Rightarrow> Vault" where
  "SubFunds m coins = foldl (\<lambda>v c. v\<lparr>va_Coins := sub_first (va_Coins v) c\<rparr>) m coins"

definition DeductVaultPendingOutbounds :: "Vault \<Rightarrow> TxOutItem list \<Rightarrow> Vault" where
  "DeductVaultPendingOutbounds m items =
     foldl (\<lambda>v it.
       if to_VaultPubKey it \<noteq> va_PubKey v \<or> \<not> TxID_IsEmpty (to_OutHash it) then v
       else let gasAsset = (if Coins_IsEmpty (to_MaxGas it) then EmptyAsset
                            else co_Asset (GetCoin (to_MaxGas it) (GetGasAsset (to_Chain it))));
                gasAmount = (if Coins_IsEmpty (to_MaxGas it) then 0
                             else co_Amount (GetCoin (to_MaxGas it) (GetGasAsset (to_Chain it)))) in
         v\<lparr>va_Coins := map (\<lambda>c.
            let c1 = (if Asset_Equals (co_Asset c) (co_Asset (to_Coin it))
                      then c\<lparr>co_Amount := SafeSub (co_Amount c) (co_Amount (to_Coin it))\<rparr> else c) in
            if Asset_Equals (co_Asset c1) gasAsset
            then c1\<lparr>co_Amount := SafeSub (co_Amount c1) gasAmount\<rparr> else c1) (va_Coins v)\<rparr>)
     m items"

definition AppendPendingTxBlockHeights :: "Vault \<Rightarrow> int \<Rightarrow> int \<Rightarrow> Vault" where
  "AppendPendingTxBlockHeights m blockHeight signingPeriod =
     m\<lparr>va_PendingTxBlockHeights :=
        blockHeight # filter (\<lambda>item. blockHeight - item \<le> signingPeriod) (va_PendingTxBlockHeights m)\<rparr>"

definition RemovePendingTxBlockHeights :: "Vault \<Rightarrow> int \<Rightarrow> Vault" where
  "RemovePendingTxBlockHeights m blockHeight =
     m\<lparr>va_PendingTxBlockHeights := remove1 blockHeight (va_PendingTxBlockHeights m)\<rparr>"

definition LenPendingTxBlockHeights :: "Vault \<Rightarrow> int \<Rightarrow> int \<Rightarrow> nat" where
  "LenPendingTxBlockHeights m currentBlockHeight maxBlocks =
     length (filter (\<lambda>item. currentBlockHeight - item \<le> maxBlocks) (va_PendingTxBlockHeights m))"

definition DeriveBTCAddress :: "env \<Rightarrow> Vault \<Rightarrow> u64 \<Rightarrow> Address result" where
  "DeriveBTCAddress e m pathIndex =
     (if Vault_IsEmpty m then Inr NoAddress else e_taproot e (va_PubKey m) pathIndex)"

definition SelectByMinCoin :: "Vault list \<Rightarrow> Asset \<Rightarrow> Vault" where
  "SelectByMinCoin vs a =
     (case vs of [v] \<Rightarrow> v
      | _ \<Rightarrow> foldl (\<lambda>best v. if Vault_IsEmpty best \<or>
               co_Amount (Vault_GetCoin (va_Coins v) a) < co_Amount (Vault_GetCoin (va_Coins best) a)
             then v else best) Vault_zero vs)"

definition SelectByMaxCoin :: "Vault list \<Rightarrow> Asset \<Rightarrow> Vault" where
  "SelectByMaxCoin vs a =
     (case vs of [v] \<Rightarrow> v
      | _ \<Rightarrow> foldl (\<lambda>best v. if Vault_IsEmpty best \<or>
               co_Amount (Vault_GetCoin (va_Coins v) a) > co_Amount (Vault_GetCoin (va_Coins best) a)
             then v else best) Vault_zero vs)"

lemma amount_add_fund:
  "amount_of a (va_Coins (addFund m c)) = amount_of a (va_Coins m) + (if Asset_Equals a (co_Asset c) then co_Amount c else 0)"
proof -
  have app: "amount_of a (cs @ [c]) = amount_of a cs + (if Asset_Equals a (co_Asset c) then co_Amount c else 0)" for cs
    by (induction cs) auto
  show ?thesis by (simp add: addFund_def Let_def amount_add_one app)
qed

lemma amount_AddFunds: "amount_of a (va_Coins (AddFunds m cs)) = amount_of a (va_Coins m) + amount_of a cs"
  unfolding AddFunds_def
  by (induction cs arbitrary: m) (simp_all add: amount_add_fund)

lemma sub_first_eq: "sub_first cs c = coins_sub_one cs c"
  by (induction cs c rule: sub_first.induct) (auto dest: Asset_Equals_sym)

end
