(* ===== verification/Keeper.thy ===== *)
theory Keeper
  imports Type_Methods
begin

text \<open>
  The keeper: the state the chain persists and the accessors of \<^verbatim>\<open>x/thornado/keeper/v1\<close> over
  it. Each store prefix is one ordered key-value list (\<^verbatim>\<open>kv\<close>); the prefixes of
  \<^verbatim>\<open>keeper.go\<close> end in a slash and none is a prefix of another, so entries of different
  prefixes never meet. A key is the part of \<^verbatim>\<open>GetKey(prefix, key)\<close> after the prefix. Values are
  kept decoded: JSON and protobuf encoding of a record followed by its decoding gives the
  record back, so a read fails only where the store may hold an older layout (the leaves and
  the nullifiers). A read of an absent key returns the zero value with the key filled in
  exactly where the source does so. The block height of the context is part of the state.
\<close>

section \<open>State\<close>

text \<open>A value under the denomination prefix: a commitment, or the boolean of the former
  commitment-keyed layout. A nullifier entry: a record, or the bare withdrawal id of the former
  layout.\<close>

datatype leaf_entry = LeafCommitment string | LegacyLeaf bool

datatype nullifier_entry = NullifierRecord StoredShielderNullifierRecord | LegacyNullifier string

record kstate =
  k_height :: int
  k_config :: "ConfigName \<Rightarrow> int option"
  k_sessions :: "(string, DepositSession) kv"
  k_pow_tokens :: "(string, string) kv"
  k_pow_timings :: "(string, DepositPowTiming) kv"
  k_pow_difficulty :: "DepositPowDifficultyState option"
  k_addresses :: "(string, DepositAddress) kv"
  k_path_cursor :: "(string, u64) kv"
  k_deposits :: "(string, DepositRecord) kv"
  k_commitments :: "(string, bool) kv"
  k_notes :: "(string, StoredShielderNoteRecord) kv"
  k_leaves :: "(string, leaf_entry) kv"
  k_trees :: "(string, StoredShielderTreeState) kv"
  k_roots :: "(string, bool) kv"
  k_redeems :: "(string, ShielderRedeem) kv"
  k_outhashes :: "(string, string) kv"
  k_nullifiers :: "(string, nullifier_entry) kv"
  k_bonds :: "(string, ShielderNodeBond) kv"
  k_bonders :: "(string, ShielderNodeBonder) kv"
  k_bond_slot :: "u64 option"
  k_fee_pool :: "FeePool option"
  k_fee_pubkeys :: "(string, bool) kv"
  k_auctions :: "(string, NodeSlotAuction) kv"
  k_bids :: "(string, NodeSlotBid) kv"
  k_auction_bids :: "(string, string) kv"
  k_node_accounts :: "(string, NodeAccount) kv"
  k_penalties :: "(string, int) kv"
  k_vaults :: "(string, Vault) kv"
  k_vault_index :: "string list"
  k_vault_eddsa :: "(string, string) kv"
  k_txouts :: "(string, TxOut) kv"
  k_network_fees :: "(string, NetworkFee) kv"
  k_txin_voters :: "(string, ObservedTxVoter) kv"
  k_txout_voters :: "(string, ObservedTxVoter) kv"
  k_last_observe :: "(string, int) kv"
  k_last_chain :: "(string, int) kv"
  k_observers :: "Chain \<rightharpoonup> AccAddress list"
  k_unmatched :: "(string, int) kv"
  k_keysign_metrics :: "(string, FrostKeysignMetric) kv"
  k_keysign_latest :: "FrostKeysignMetric option"
  k_halt_signing :: "int option"
  k_out_asset_gas :: "(Asset \<times> Coins) list"
  k_gas_count :: "Asset \<rightharpoonup> int"
  k_errata_voters :: "(string, ErrataTxVoter) kv"

type_synonym 'a kact = "(kstate, 'a) act"

definition empty_kstate :: kstate where
  "empty_kstate = \<lparr>k_height = 0, k_config = (\<lambda>_. None), k_sessions = [], k_pow_tokens = [],
     k_pow_timings = [], k_pow_difficulty = None, k_addresses = [], k_path_cursor = [],
     k_deposits = [], k_commitments = [], k_notes = [], k_leaves = [], k_trees = [], k_roots = [],
     k_redeems = [], k_outhashes = [], k_nullifiers = [], k_bonds = [], k_bonders = [],
     k_bond_slot = None, k_fee_pool = None, k_fee_pubkeys = [], k_auctions = [], k_bids = [],
     k_auction_bids = [], k_node_accounts = [], k_penalties = [], k_vaults = [],
     k_vault_index = [], k_vault_eddsa = [], k_txouts = [], k_network_fees = [],
     k_txin_voters = [], k_txout_voters = [], k_last_observe = [], k_last_chain = [], k_observers = Map.empty,
     k_unmatched = [], k_keysign_metrics = [], k_keysign_latest = None, k_halt_signing = None,
     k_out_asset_gas = [], k_gas_count = Map.empty, k_errata_voters = []\<rparr>"

text \<open>The part of \<^verbatim>\<open>GetKey\<close> after the prefix; byte order and equality of full keys are those of
  this part.\<close>

definition skey :: "string \<Rightarrow> string" where
  "skey k = ToUpper k"

lemma less_append_same: "p @ a < p @ b \<longleftrightarrow> a < (b :: string)"
  by (induction p) auto

lemma GetKey_skey: "GetKey p k [] = p @ ''/'' @ skey k"
  by (simp add: GetKey_def skey_def)

lemma GetKey_less: "GetKey p k [] < GetKey p k' [] \<longleftrightarrow> skey k < skey k'"
  by (simp add: GetKey_skey less_append_same)

text \<open>\<^verbatim>\<open>getIteratorAfter\<close>: the entries whose key is greater than the cursor's.\<close>

definition kv_after :: "string \<Rightarrow> (string, 'v) kv \<Rightarrow> 'v list" where
  "kv_after cursor m =
     (if TrimSpace cursor = [] then kv_values m
      else map snd (filter (\<lambda>e. fst e > skey (TrimSpace cursor)) m))"

section \<open>Configuration\<close>

definition GetConfig :: "ConfigName \<Rightarrow> kstate \<Rightarrow> int" where
  "GetConfig key s = (case k_config s key of None \<Rightarrow> -1 | Some v \<Rightarrow> v)"

definition GetConfigInt64 :: "ConfigName \<Rightarrow> kstate \<Rightarrow> int" where
  "GetConfigInt64 key s = (let v = GetConfig key s in if v < 0 then GetInt64Value key else v)"

definition getConfigDurationBlocks :: "ConfigName \<Rightarrow> kstate \<Rightarrow> int" where
  "getConfigDurationBlocks key s = MinutesToBlocks (GetConfigInt64 key s) (GetConfigInt64 Chain_BlockTimeSeconds s)"

definition ConfigUint64 :: "ConfigName \<Rightarrow> kstate \<Rightarrow> u64" where
  "ConfigUint64 key s = u64_of_int (GetConfigInt64 key s)"

section \<open>Deposits\<close>

definition SetDepositSession :: "env \<Rightarrow> DepositSession \<Rightarrow> unit kact" where
  "SetDepositSession e session =
     thenA (lift_result (DepositSession_Valid session))
       (modify (\<lambda>s. s\<lparr>k_sessions := kv_set (skey (DepositSession_Key e session)) session (k_sessions s),
          k_pow_tokens := kv_set (skey (ds_PowToken session)) (DepositSession_Key e session) (k_pow_tokens s)\<rparr>))"

definition GetDepositSession :: "env \<Rightarrow> AccAddress \<Rightarrow> kstate \<Rightarrow> DepositSession" where
  "GetDepositSession e owner s =
     (case kv_get (k_sessions s) (skey (e_acc_string e owner)) of
        Some r \<Rightarrow> r | None \<Rightarrow> DepositSession_zero\<lparr>ds_Owner := owner\<rparr>)"

definition GetDepositSessionByPowToken :: "env \<Rightarrow> string \<Rightarrow> kstate \<Rightarrow> DepositSession result" where
  "GetDepositSessionByPowToken e powToken s =
     (case kv_get (k_pow_tokens s) (skey (TrimSpace powToken)) of
        None \<Rightarrow> Inl (Errorf ''deposit pow token not found'')
      | Some owner \<Rightarrow>
          if owner = [] then Inl (Errorf ''deposit pow token not found'')
          else case e_acc_from_bech32 e owner of
            Inl err \<Rightarrow> Inl err
          | Inr addr \<Rightarrow> Inr (GetDepositSession e addr s))"

definition SetDepositPowTiming :: "DepositPowTiming \<Rightarrow> unit kact" where
  "SetDepositPowTiming r =
     thenA (lift_result (DepositPowTiming_Valid r))
       (modify (\<lambda>s. s\<lparr>k_pow_timings := kv_set (skey (DepositPowTiming_Key r)) r (k_pow_timings s)\<rparr>))"

definition GetDepositPowTiming :: "string \<Rightarrow> kstate \<Rightarrow> DepositPowTiming" where
  "GetDepositPowTiming powToken s =
     (case kv_get (k_pow_timings s) (skey (TrimSpace powToken)) of Some r \<Rightarrow> r | None \<Rightarrow> DepositPowTiming_zero)"

definition SetDepositPowDifficultyState :: "DepositPowDifficultyState \<Rightarrow> unit kact" where
  "SetDepositPowDifficultyState st = modify (\<lambda>s. s\<lparr>k_pow_difficulty := Some st\<rparr>)"

definition GetDepositPowDifficultyState :: "kstate \<Rightarrow> DepositPowDifficultyState" where
  "GetDepositPowDifficultyState s =
     (case k_pow_difficulty s of Some r \<Rightarrow> r | None \<Rightarrow> DepositPowDifficultyState_zero)"

definition SetDepositAddress :: "DepositAddress \<Rightarrow> unit kact" where
  "SetDepositAddress r =
     thenA (lift_result (DepositAddress_Valid r))
       (modify (\<lambda>s. s\<lparr>k_addresses := kv_set (skey (DepositAddress_Key r)) r (k_addresses s)\<rparr>))"

definition GetDepositAddress :: "Address \<Rightarrow> kstate \<Rightarrow> DepositAddress" where
  "GetDepositAddress address s =
     (case kv_get (k_addresses s) (skey address) of
        Some r \<Rightarrow> r | None \<Rightarrow> DepositAddress_zero\<lparr>da_Address := address\<rparr>)"

definition DeleteDepositAddress :: "Address \<Rightarrow> unit kact" where
  "DeleteDepositAddress address =
     (if Address_IsEmpty address then ret ()
      else modify (\<lambda>s. s\<lparr>k_addresses := kv_del (skey address) (k_addresses s)\<rparr>))"

definition GetNextVaultDepositPathIndex :: "PubKey \<Rightarrow> kstate \<Rightarrow> u64 result" where
  "GetNextVaultDepositPathIndex vaultPubKey s =
     (if vaultPubKey = [] then Inl (Errorf ''missing vault pubkey'')
      else Inr (case kv_get (k_path_cursor s) (skey vaultPubKey) of None \<Rightarrow> 0 | Some i \<Rightarrow> i))"

definition SetNextVaultDepositPathIndex :: "PubKey \<Rightarrow> u64 \<Rightarrow> unit kact" where
  "SetNextVaultDepositPathIndex vaultPubKey index =
     err_if (vaultPubKey = []) ''missing vault pubkey''
       (modify (\<lambda>s. s\<lparr>k_path_cursor := kv_set (skey vaultPubKey) index (k_path_cursor s)\<rparr>))"

definition AllocateVaultDepositPathIndex :: "PubKey \<Rightarrow> VaultDepositPathType \<Rightarrow> (u64 \<times> u64) kact" where
  "AllocateVaultDepositPathIndex vaultPubKey pathType =
     bindA (bindA (gets (GetNextVaultDepositPathIndex vaultPubKey)) lift_result) (\<lambda>depositIndex.
     bindA (lift_result (VaultDepositPathIndex pathType depositIndex DepositPathCommitmentRoot)) (\<lambda>pathIndex.
     bindA (SetNextVaultDepositPathIndex vaultPubKey (depositIndex + 1)) (\<lambda>_.
     ret (depositIndex, pathIndex))))"

definition SetDepositRecord :: "DepositRecord \<Rightarrow> unit kact" where
  "SetDepositRecord deposit =
     thenA (lift_result (DepositRecord_Valid deposit))
       (modify (\<lambda>s. s\<lparr>k_deposits := kv_set (skey (DepositRecord_Key deposit)) deposit (k_deposits s)\<rparr>))"

definition GetDepositRecord :: "TxID \<Rightarrow> kstate \<Rightarrow> DepositRecord" where
  "GetDepositRecord depositID s =
     (case kv_get (k_deposits s) (skey depositID) of Some r \<Rightarrow> r | None \<Rightarrow> DepositRecord_zero)"

section \<open>Notes, trees and roots\<close>

definition SetShielderCommitment :: "string \<Rightarrow> unit kact" where
  "SetShielderCommitment commitment =
     (let c = TrimSpace commitment in
      err_if (c = []) ''missing shielder commitment''
        (modify (\<lambda>s. s\<lparr>k_commitments := kv_set (skey c) True (k_commitments s)\<rparr>)))"

definition ShielderCommitmentExists :: "string \<Rightarrow> kstate \<Rightarrow> bool" where
  "ShielderCommitmentExists commitment s \<longleftrightarrow> kv_has (k_commitments s) (skey (TrimSpace commitment))"

definition SetShielderNoteRecord :: "StoredShielderNoteRecord \<Rightarrow> unit kact" where
  "SetShielderNoteRecord r =
     thenA (lift_result (StoredShielderNoteRecord_Valid r))
       (modify (\<lambda>s. s\<lparr>k_notes := kv_set (skey (StoredShielderNoteRecord_Key r)) r (k_notes s)\<rparr>))"

definition shielderDenominationPrefix :: "u64 \<Rightarrow> string" where
  "shielderDenominationPrefix d = pad20 d @ ''/''"

definition shielderDenominationLeafKey :: "u64 \<Rightarrow> u64 \<Rightarrow> string" where
  "shielderDenominationLeafKey d i = shielderDenominationPrefix d @ pad20 i"

definition shielderTreeStateKey :: "u64 \<Rightarrow> string" where
  "shielderTreeStateKey d = pad20 d"

definition shielderMerkleRootKey :: "u64 \<Rightarrow> string \<Rightarrow> string" where
  "shielderMerkleRootKey d root = pad20 d @ ''/'' @ TrimSpace root"

definition SetShielderDenominationLeaf :: "u64 \<Rightarrow> u64 \<Rightarrow> string \<Rightarrow> unit kact" where
  "SetShielderDenominationLeaf denominationSats index commitment =
     (let c = TrimSpace commitment in
      err_if (denominationSats = 0) ''missing shielder commitment denomination''
     (err_if (c = []) ''missing shielder commitment''
        (modify (\<lambda>s. s\<lparr>k_leaves := kv_set (shielderDenominationLeafKey denominationSats index)
           (LeafCommitment c) (k_leaves s)\<rparr>))))"

text \<open>The entries of a prefix iterator.\<close>

definition kv_prefix :: "string \<Rightarrow> (string, 'v) kv \<Rightarrow> (string, 'v) kv" where
  "kv_prefix p m = filter (\<lambda>e. HasPrefix (fst e) p) m"

fun decode_leaves :: "leaf_entry list \<Rightarrow> string list result" where
  "decode_leaves [] = Inr []"
| "decode_leaves (LegacyLeaf b # es) = Inl (Errorf ''unmarshal shielder denomination leaf'')"
| "decode_leaves (LeafCommitment c # es) =
     (case decode_leaves es of Inl e \<Rightarrow> Inl e | Inr cs \<Rightarrow> Inr (c # cs))"

definition GetShielderDenominationCommitments :: "u64 \<Rightarrow> kstate \<Rightarrow> string list result" where
  "GetShielderDenominationCommitments d s =
     (if d = 0 then Inl (Errorf ''missing shielder commitment denomination'')
      else decode_leaves (kv_values (kv_prefix (shielderDenominationPrefix d) (k_leaves s))))"

definition SetShielderTreeState :: "StoredShielderTreeState \<Rightarrow> unit kact" where
  "SetShielderTreeState st =
     thenA (lift_result (StoredShielderTreeState_Valid st))
       (modify (\<lambda>s. s\<lparr>k_trees := kv_set (shielderTreeStateKey (ts_DenominationSats st)) st (k_trees s)\<rparr>))"

definition GetShielderTreeState :: "u64 \<Rightarrow> kstate \<Rightarrow> StoredShielderTreeState \<times> bool" where
  "GetShielderTreeState d s =
     (case kv_get (k_trees s) (shielderTreeStateKey d) of
        Some st \<Rightarrow> (st, True)
      | None \<Rightarrow> (StoredShielderTreeState_zero\<lparr>ts_DenominationSats := d\<rparr>, False))"

definition SetShielderMerkleRoot :: "u64 \<Rightarrow> string \<Rightarrow> unit kact" where
  "SetShielderMerkleRoot d root =
     err_if (d = 0) ''missing shielder merkle root denomination''
     (err_if (TrimSpace root = []) ''missing shielder merkle root''
       (modify (\<lambda>s. s\<lparr>k_roots := kv_set (shielderMerkleRootKey d root) True (k_roots s)\<rparr>)))"

definition ShielderMerkleRootExists :: "u64 \<Rightarrow> string \<Rightarrow> kstate \<Rightarrow> bool" where
  "ShielderMerkleRootExists d root s \<longleftrightarrow>
     d \<noteq> 0 \<and> TrimSpace root \<noteq> [] \<and> kv_has (k_roots s) (shielderMerkleRootKey d root)"

definition PurgeShielderPoolState :: "unit kact" where
  "PurgeShielderPoolState =
     modify (\<lambda>s. s\<lparr>k_commitments := [], k_notes := [], k_leaves := [], k_trees := [], k_roots := [],
       k_nullifiers := []\<rparr>)"

section \<open>Redeems and nullifiers\<close>

definition SetShielderRedeem :: "env \<Rightarrow> ShielderRedeem \<Rightarrow> unit kact" where
  "SetShielderRedeem e w =
     thenA (lift_result (ShielderRedeem_Valid e w))
       (modify (\<lambda>s. s\<lparr>k_redeems := kv_set (skey (rd_WithdrawalID w)) w (k_redeems s)\<rparr>))"

definition GetShielderRedeem :: "string \<Rightarrow> kstate \<Rightarrow> ShielderRedeem" where
  "GetShielderRedeem withdrawalID s =
     (case kv_get (k_redeems s) (skey withdrawalID) of
        Some r \<Rightarrow> r | None \<Rightarrow> ShielderRedeem_zero\<lparr>rd_WithdrawalID := withdrawalID\<rparr>)"

definition SetShielderRedeemOutHash :: "string \<Rightarrow> string \<Rightarrow> unit kact" where
  "SetShielderRedeemOutHash outHash withdrawalID =
     err_if (TrimSpace outHash = []) ''missing shielder redeem out hash''
     (err_if (TrimSpace withdrawalID = []) ''missing shielder redeem id''
       (modify (\<lambda>s. s\<lparr>k_outhashes := kv_set (skey (TrimSpace outHash)) (TrimSpace withdrawalID) (k_outhashes s)\<rparr>)))"

definition GetShielderRedeemByOutHash :: "string \<Rightarrow> kstate \<Rightarrow> ShielderRedeem \<times> bool" where
  "GetShielderRedeemByOutHash outHash s =
     (case kv_get (k_outhashes s) (skey (TrimSpace outHash)) of
        None \<Rightarrow> (ShielderRedeem_zero, False)
      | Some w \<Rightarrow> if TrimSpace w = [] then (ShielderRedeem_zero, False) else (GetShielderRedeem w s, True))"

definition DeleteShielderRedeemOutHash :: "string \<Rightarrow> unit kact" where
  "DeleteShielderRedeemOutHash outHash =
     (if TrimSpace outHash = [] then ret ()
      else modify (\<lambda>s. s\<lparr>k_outhashes := kv_del (skey (TrimSpace outHash)) (k_outhashes s)\<rparr>))"

definition getShielderNullifierRecord :: "string \<Rightarrow> kstate \<Rightarrow> StoredShielderNullifierRecord \<times> bool" where
  "getShielderNullifierRecord nullifierHash s =
     (case kv_get (k_nullifiers s) (skey (TrimSpace nullifierHash)) of
        None \<Rightarrow> (StoredShielderNullifierRecord_zero, False)
      | Some (NullifierRecord r) \<Rightarrow>
          if TrimSpace (nl_WithdrawalID r) \<noteq> [] then
            ((if TrimSpace (nl_NullifierHash r) = [] then r\<lparr>nl_NullifierHash := TrimSpace nullifierHash\<rparr> else r), True)
          else (StoredShielderNullifierRecord_zero, True)
      | Some (LegacyNullifier w) \<Rightarrow>
          if TrimSpace w = [] then (StoredShielderNullifierRecord_zero, True)
          else (StoredShielderNullifierRecord_zero\<lparr>nl_NullifierHash := TrimSpace nullifierHash,
                  nl_WithdrawalID := TrimSpace w\<rparr>, True))"

definition GetShielderRedeemByNullifier :: "string \<Rightarrow> kstate \<Rightarrow> ShielderRedeem" where
  "GetShielderRedeemByNullifier nullifierHash s =
     (case getShielderNullifierRecord (TrimSpace nullifierHash) s of
        (r, found) \<Rightarrow>
          if \<not> found \<or> TrimSpace (nl_WithdrawalID r) = [] then ShielderRedeem_zero
          else GetShielderRedeem (nl_WithdrawalID r) s)"

definition SetShielderNullifierSpent :: "string \<Rightarrow> string \<Rightarrow> unit kact" where
  "SetShielderNullifierSpent nullifierHash withdrawalID =
     err_if (TrimSpace nullifierHash = []) ''missing shielder nullifier''
     (err_if (TrimSpace withdrawalID = []) ''missing shielder redeem id''
       (modify (\<lambda>s.
          let w = GetShielderRedeem (TrimSpace withdrawalID) s;
              createdHeight = (if rd_RequestedHeight w > 0 then rd_RequestedHeight w else k_height s) in
          s\<lparr>k_nullifiers := kv_set (skey (TrimSpace nullifierHash))
              (NullifierRecord \<lparr>nl_NullifierHash = TrimSpace nullifierHash,
                 nl_WithdrawalID = TrimSpace withdrawalID, nl_CreatedHeight = createdHeight\<rparr>)
              (k_nullifiers s)\<rparr>)))"

definition ShielderNullifierSpent :: "string \<Rightarrow> kstate \<Rightarrow> bool" where
  "ShielderNullifierSpent nullifierHash s \<longleftrightarrow> kv_has (k_nullifiers s) (skey (TrimSpace nullifierHash))"

section \<open>Bonds, fee pool, auctions\<close>

definition GetNextShielderNodeBondSlot :: "kstate \<Rightarrow> u64" where
  "GetNextShielderNodeBondSlot s = (case k_bond_slot s of None \<Rightarrow> 1 | Some slot \<Rightarrow> slot)"

definition SetNextShielderNodeBondSlot :: "u64 \<Rightarrow> unit kact" where
  "SetNextShielderNodeBondSlot slot = modify (\<lambda>s. s\<lparr>k_bond_slot := Some slot\<rparr>)"

definition AllocateShielderNodeBondSlot :: "u64 kact" where
  "AllocateShielderNodeBondSlot =
     bindA (gets GetNextShielderNodeBondSlot) (\<lambda>slot.
     bindA (SetNextShielderNodeBondSlot (slot + 1)) (\<lambda>_.
     ret slot))"

definition SetShielderNodeBond :: "ShielderNodeBond \<Rightarrow> unit kact" where
  "SetShielderNodeBond bond =
     thenA (lift_result (ShielderNodeBond_Valid bond))
       (modify (\<lambda>s. s\<lparr>k_bonds := kv_set (skey (ShielderNodeBond_Key bond)) bond (k_bonds s)\<rparr>))"

definition GetShielderNodeBond :: "string \<Rightarrow> kstate \<Rightarrow> ShielderNodeBond" where
  "GetShielderNodeBond nodePubKey s =
     (case kv_get (k_bonds s) (skey (TrimSpace nodePubKey)) of Some r \<Rightarrow> r | None \<Rightarrow> ShielderNodeBond_zero)"

definition SetShielderNodeBonder :: "env \<Rightarrow> ShielderNodeBonder \<Rightarrow> unit kact" where
  "SetShielderNodeBonder e bonder =
     thenA (lift_result (ShielderNodeBonder_Valid bonder))
       (modify (\<lambda>s. s\<lparr>k_bonders := kv_set (skey (ShielderNodeBonder_Key e bonder)) bonder (k_bonders s)\<rparr>))"

definition GetShielderNodeBonder :: "env \<Rightarrow> string \<Rightarrow> AccAddress \<Rightarrow> kstate \<Rightarrow> ShielderNodeBonder" where
  "GetShielderNodeBonder e nodePubKey bonder s =
     (case kv_get (k_bonders s) (skey (ShielderNodeBonderKey e (TrimSpace nodePubKey) bonder)) of
        Some r \<Rightarrow> r
      | None \<Rightarrow> ShielderNodeBonder_zero\<lparr>br_NodePubKey := TrimSpace nodePubKey, br_Bonder := bonder\<rparr>)"

definition DeleteShielderNodeBonder :: "env \<Rightarrow> string \<Rightarrow> AccAddress \<Rightarrow> unit kact" where
  "DeleteShielderNodeBonder e nodePubKey bonder =
     modify (\<lambda>s. s\<lparr>k_bonders := kv_del (skey (ShielderNodeBonderKey e (TrimSpace nodePubKey) bonder)) (k_bonders s)\<rparr>)"

definition SetFeePool :: "FeePool \<Rightarrow> unit kact" where
  "SetFeePool pool = modify (\<lambda>s. s\<lparr>k_fee_pool := Some pool\<rparr>)"

definition GetFeePool :: "kstate \<Rightarrow> FeePool" where
  "GetFeePool s = (case k_fee_pool s of Some p \<Rightarrow> p | None \<Rightarrow> FeePool_zero)"

definition SetShielderFeeNotePubKey :: "string \<Rightarrow> unit kact" where
  "SetShielderFeeNotePubKey pubKey =
     err_if (TrimSpace pubKey = []) ''missing shielder fee note pubkey''
       (modify (\<lambda>s. s\<lparr>k_fee_pubkeys := kv_set (skey (TrimSpace pubKey)) True (k_fee_pubkeys s)\<rparr>))"

definition ShielderFeeNotePubKeyUsed :: "string \<Rightarrow> kstate \<Rightarrow> bool" where
  "ShielderFeeNotePubKeyUsed pubKey s \<longleftrightarrow>
     TrimSpace pubKey \<noteq> [] \<and> kv_has (k_fee_pubkeys s) (skey (TrimSpace pubKey))"

definition SetNodeSlotAuction :: "NodeSlotAuction \<Rightarrow> unit kact" where
  "SetNodeSlotAuction auction =
     thenA (lift_result (NodeSlotAuction_Valid auction))
       (modify (\<lambda>s. s\<lparr>k_auctions := kv_set (skey (NodeSlotAuction_Key auction)) auction (k_auctions s)\<rparr>))"

definition GetNodeSlotAuction :: "string \<Rightarrow> kstate \<Rightarrow> NodeSlotAuction" where
  "GetNodeSlotAuction auctionID s =
     (case kv_get (k_auctions s) (skey (TrimSpace auctionID)) of
        Some r \<Rightarrow> r | None \<Rightarrow> NodeSlotAuction_zero\<lparr>au_AuctionID := TrimSpace auctionID\<rparr>)"

definition SetNodeSlotBid :: "NodeSlotBid \<Rightarrow> unit kact" where
  "SetNodeSlotBid bid =
     thenA (lift_result (NodeSlotBid_Valid bid))
       (modify (\<lambda>s. s\<lparr>k_bids := kv_set (skey (NodeSlotBid_Key bid)) bid (k_bids s),
          k_auction_bids := kv_set (skey (bd_AuctionID bid) @ skey (bd_BidID bid)) (bd_BidID bid) (k_auction_bids s)\<rparr>))"

definition GetNodeSlotBid :: "string \<Rightarrow> kstate \<Rightarrow> NodeSlotBid" where
  "GetNodeSlotBid bidID s =
     (case kv_get (k_bids s) (skey (TrimSpace bidID)) of Some r \<Rightarrow> r | None \<Rightarrow> NodeSlotBid_zero)"

section \<open>Node accounts\<close>

definition GetNodeAccount :: "env \<Rightarrow> AccAddress \<Rightarrow> kstate \<Rightarrow> NodeAccount" where
  "GetNodeAccount e addr s =
     (case kv_get (k_node_accounts s) (skey (e_acc_string e addr)) of
        Some r \<Rightarrow> r
      | None \<Rightarrow> NewNodeAccount addr NodeUnknown PubKeySet_zero [] 0 [] (k_height s))"

definition GetNodeAccountByPubKey :: "env \<Rightarrow> PubKey \<Rightarrow> kstate \<Rightarrow> NodeAccount result" where
  "GetNodeAccountByPubKey e pk s =
     (case GetThorAddress e pk of Inl err \<Rightarrow> Inl err | Inr addr \<Rightarrow> Inr (GetNodeAccount e addr s))"

definition ResetNodeAccountPenaltyPoints :: "env \<Rightarrow> AccAddress \<Rightarrow> unit kact" where
  "ResetNodeAccountPenaltyPoints e addr =
     modify (\<lambda>s. s\<lparr>k_penalties := kv_del (skey (e_acc_string e addr)) (k_penalties s)\<rparr>)"

definition GetNodeAccountPenaltyPoints :: "env \<Rightarrow> AccAddress \<Rightarrow> kstate \<Rightarrow> int" where
  "GetNodeAccountPenaltyPoints e addr s =
     (case kv_get (k_penalties s) (skey (e_acc_string e addr)) of None \<Rightarrow> 0 | Some p \<Rightarrow> p)"

definition SetNodeAccountPenaltyPoints :: "env \<Rightarrow> AccAddress \<Rightarrow> int \<Rightarrow> unit kact" where
  "SetNodeAccountPenaltyPoints e addr pts =
     modify (\<lambda>s. s\<lparr>k_penalties := kv_set (skey (e_acc_string e addr)) (if pts < 0 then 0 else pts) (k_penalties s)\<rparr>)"

definition IncNodeAccountPenaltyPoints :: "env \<Rightarrow> AccAddress \<Rightarrow> int \<Rightarrow> unit kact" where
  "IncNodeAccountPenaltyPoints e addr pts =
     bindA (gets (GetNodeAccountPenaltyPoints e addr)) (\<lambda>current.
       SetNodeAccountPenaltyPoints e addr (wrap64 (current + pts)))"

definition DecNodeAccountPenaltyPoints :: "env \<Rightarrow> AccAddress \<Rightarrow> int \<Rightarrow> unit kact" where
  "DecNodeAccountPenaltyPoints e addr pts =
     bindA (gets (GetNodeAccountPenaltyPoints e addr)) (\<lambda>current.
       SetNodeAccountPenaltyPoints e addr (wrap64 (current - pts)))"

definition SetNodeAccount :: "env \<Rightarrow> NodeAccount \<Rightarrow> unit kact" where
  "SetNodeAccount e na =
     (if NodeAccount_IsEmpty na then ret ()
      else bindA (gets k_height) (\<lambda>h.
        let first = (na_Status na = NodeActive \<and> na_ActiveBlockHeight na = 0);
            na' = (if first then na\<lparr>na_ActiveBlockHeight := h\<rparr> else na) in
        thenA (if first then ResetNodeAccountPenaltyPoints e (na_NodeAddress na) else ret ())
          (modify (\<lambda>s. s\<lparr>k_node_accounts := kv_set (skey (e_acc_string e (na_NodeAddress na'))) na' (k_node_accounts s)\<rparr>))))"

definition ListNodesWithBond :: "kstate \<Rightarrow> NodeAccount list" where
  "ListNodesWithBond s = filter (\<lambda>na. na_Type na = NodeTypeNode \<and> na_Bond na \<noteq> 0) (kv_values (k_node_accounts s))"

definition ListNodesByStatus :: "NodeStatus \<Rightarrow> kstate \<Rightarrow> NodeAccount list" where
  "ListNodesByStatus status s =
     filter (\<lambda>na. na_Type na = NodeTypeNode \<and> na_Status na = status) (kv_values (k_node_accounts s))"

definition ListActiveNodes :: "kstate \<Rightarrow> NodeAccount list" where
  "ListActiveNodes s = ListNodesByStatus NodeActive s"

section \<open>Vaults\<close>

fun new_pubkeys :: "env \<Rightarrow> string list \<Rightarrow> PubKey list result" where
  "new_pubkeys e [] = Inr []"
| "new_pubkeys e (k # ks) =
     (case NewPubKey e k of
        Inl err \<Rightarrow> Inl err
      | Inr p \<Rightarrow> (case new_pubkeys e ks of Inl err \<Rightarrow> Inl err | Inr ps \<Rightarrow> Inr (p # ps)))"

definition getBaseIndex :: "env \<Rightarrow> kstate \<Rightarrow> PubKey list result" where
  "getBaseIndex e s = new_pubkeys e (k_vault_index s)"

definition getBaseEDDSAIndex :: "PubKey \<Rightarrow> kstate \<Rightarrow> PubKey" where
  "getBaseEDDSAIndex pk s = (case kv_get (k_vault_eddsa s) (skey pk) of None \<Rightarrow> [] | Some p \<Rightarrow> p)"

definition addBaseIndex :: "env \<Rightarrow> PubKey \<Rightarrow> unit kact" where
  "addBaseIndex e pubkey =
     bindA (bindA (gets (getBaseIndex e)) lift_result) (\<lambda>pks.
       if pubkey \<in> set pks then ret () else modify (\<lambda>s. s\<lparr>k_vault_index := pks @ [pubkey]\<rparr>))"

definition SetVault :: "env \<Rightarrow> Vault \<Rightarrow> unit kact" where
  "SetVault e vault =
     thenA (if Vault_IsBase vault then
              thenA (addBaseIndex e (va_PubKey vault))
                (if va_PubKeyEddsa vault \<noteq> [] then
                   modify (\<lambda>s. s\<lparr>k_vault_eddsa := kv_set (skey (va_PubKeyEddsa vault)) (va_PubKey vault) (k_vault_eddsa s)\<rparr>)
                 else ret ())
            else ret ())
       (modify (\<lambda>s. s\<lparr>k_vaults := kv_set (skey (va_PubKey vault)) vault (k_vaults s)\<rparr>))"

text \<open>\<^verbatim>\<open>GetVault\<close> follows the index from the EdDSA key to the ECDSA key. Following more links
  than the index has entries means a cycle, on which the source recurses without end.\<close>

fun getVault_rec :: "nat \<Rightarrow> PubKey \<Rightarrow> kstate \<Rightarrow> Vault result" where
  "getVault_rec 0 pk s = Inl (Panic ''stack overflow'')"
| "getVault_rec (Suc n) pk s =
     (case kv_get (k_vaults s) (skey pk) of
        Some v \<Rightarrow> Inr (v\<lparr>va_PubKey := (if va_PubKey v = [] then pk else va_PubKey v),
                        va_BlockHeight := (if va_BlockHeight v = 0 then k_height s else va_BlockHeight v)\<rparr>)
      | None \<Rightarrow>
          if getBaseEDDSAIndex pk s \<noteq> [] then getVault_rec n (getBaseEDDSAIndex pk s) s
          else Inl (Errorf ''vault not found''))"

definition GetVault :: "PubKey \<Rightarrow> kstate \<Rightarrow> Vault result" where
  "GetVault pk s = getVault_rec (Suc (length (k_vault_eddsa s))) pk s"

definition VaultExists :: "PubKey \<Rightarrow> kstate \<Rightarrow> bool" where
  "VaultExists pk s \<longleftrightarrow> kv_has (k_vaults s) (skey pk) \<or> getBaseEDDSAIndex pk s \<noteq> []"

definition RemoveFromBaseIndex :: "env \<Rightarrow> PubKey \<Rightarrow> unit kact" where
  "RemoveFromBaseIndex e pubkey =
     bindA (bindA (gets (getBaseIndex e)) lift_result) (\<lambda>pks.
       modify (\<lambda>s. s\<lparr>k_vault_index := filter (\<lambda>pk. pk \<noteq> pubkey) pks\<rparr>))"

fun get_vaults :: "PubKey list \<Rightarrow> kstate \<Rightarrow> Vault list result" where
  "get_vaults [] s = Inr []"
| "get_vaults (pk # pks) s =
     (case GetVault pk s of
        Inl err \<Rightarrow> Inl err
      | Inr v \<Rightarrow> (case get_vaults pks s of
            Inl err \<Rightarrow> Inl err
          | Inr vs \<Rightarrow> Inr (if Vault_IsBase v then v # vs else vs)))"

definition GetBaseVaults :: "env \<Rightarrow> kstate \<Rightarrow> Vault list result" where
  "GetBaseVaults e s = (case getBaseIndex e s of Inl err \<Rightarrow> Inl err | Inr pks \<Rightarrow> get_vaults pks s)"

definition GetBaseVaultsByStatus :: "env \<Rightarrow> VaultStatus \<Rightarrow> kstate \<Rightarrow> Vault list result" where
  "GetBaseVaultsByStatus e status s =
     (case GetBaseVaults e s of Inl err \<Rightarrow> Inl err | Inr vs \<Rightarrow> Inr (filter (\<lambda>v. va_Status v = status) vs))"

definition DeleteVault :: "env \<Rightarrow> PubKey \<Rightarrow> unit kact" where
  "DeleteVault e pubkey =
     bindA (gets (GetVault pubkey)) (\<lambda>r.
       case r of
         Inl err \<Rightarrow> (if err = Errorf ''vault not found'' then ret () else fail err)
       | Inr vault \<Rightarrow>
           err_if (HasFunds vault) ''unable to delete vault: it still contains funds''
           (thenA (if Vault_IsBase vault then thenA (attempt (RemoveFromBaseIndex e pubkey)) (ret ()) else ret ())
             (modify (\<lambda>s. s\<lparr>k_vaults := kv_del (skey (va_PubKey vault)) (k_vaults s)\<rparr>))))"

text \<open>\<^verbatim>\<open>currentBTCVaultAddress\<close> (\<^verbatim>\<open>shielder_flow.go\<close>): the first active base vault whose root
  address derives.\<close>

fun first_derivable :: "env \<Rightarrow> Vault list \<Rightarrow> (Vault \<times> Address) result" where
  "first_derivable e [] = Inl (Errorf ''no active shielder bitcoin vault address'')"
| "first_derivable e (v # vs) =
     (case DeriveBTCAddress e v MainVaultPathIndex of
        Inr a \<Rightarrow> if Address_IsEmpty a then first_derivable e vs else Inr (v, a)
      | Inl _ \<Rightarrow> first_derivable e vs)"

definition currentBTCVaultAddress :: "env \<Rightarrow> kstate \<Rightarrow> (Vault \<times> Address) result" where
  "currentBTCVaultAddress e s =
     (case GetBaseVaultsByStatus e ActiveVault s of
        Inl err \<Rightarrow> Inl err
      | Inr vaults \<Rightarrow>
          if vaults = [] then Inl (Errorf ''no active shielder bitcoin vault'')
          else first_derivable e vaults)"

section \<open>Outbound blocks and network fees\<close>

definition txout_key :: "int \<Rightarrow> string" where
  "txout_key height = skey (show_int height)"

definition txOutComplete :: "TxOut \<Rightarrow> bool" where
  "txOutComplete b \<longleftrightarrow> tx_TxArray b \<noteq> [] \<and> list_all (\<lambda>i. \<not> TxID_IsEmpty (to_OutHash i)) (tx_TxArray b)"

definition SetTxOut :: "TxOut \<Rightarrow> unit kact" where
  "SetTxOut blockOut =
     (if TxOut_IsEmpty blockOut then ret ()
      else let b1 = (if tx_Status blockOut = [] then blockOut\<lparr>tx_Status := TxOutStatusPendingSign\<rparr> else blockOut);
               b2 = (if txOutComplete b1 then b1\<lparr>tx_Status := TxOutStatusComplete\<rparr> else b1) in
        modify (\<lambda>s. s\<lparr>k_txouts := kv_set (txout_key (tx_Height b2)) b2 (k_txouts s)\<rparr>))"

definition GetTxOut :: "int \<Rightarrow> kstate \<Rightarrow> TxOut" where
  "GetTxOut height s =
     (case kv_get (k_txouts s) (txout_key height) of Some b \<Rightarrow> b | None \<Rightarrow> NewTxOut height)"

definition ClearTxOut :: "int \<Rightarrow> unit kact" where
  "ClearTxOut height = modify (\<lambda>s. s\<lparr>k_txouts := kv_del (txout_key height) (k_txouts s)\<rparr>)"

text \<open>The search loop of \<^verbatim>\<open>AppendTxOut\<close> over a given number of offsets.\<close>

fun free_txout :: "nat \<Rightarrow> int \<Rightarrow> kstate \<Rightarrow> TxOut option" where
  "free_txout 0 height s = None"
| "free_txout (Suc n) height s =
     (let c = GetTxOut height s in
      if TxOut_IsEmpty c \<or> tx_Status c = [] then Some c else free_txout n (height + 1) s)"

definition AppendTxOut :: "int \<Rightarrow> TxOutItem \<Rightarrow> unit kact" where
  "AppendTxOut height item =
     bindA (gets (free_txout 1000 height)) (\<lambda>b.
       case b of
         None \<Rightarrow> fail (Errorf ''fail to find empty txout slot'')
       | Some block \<Rightarrow> SetTxOut (block\<lparr>tx_Status := TxOutStatusPendingSign,
            tx_TxArray := tx_TxArray block @ [item\<lparr>to_TxType := GetTxType item\<rparr>]\<rparr>))"

definition GetTOIsValue :: "TxOutItem list \<Rightarrow> nat" where
  "GetTOIsValue tois = sum_list (map (\<lambda>i. sum_list (map co_Amount (to_Coin i # to_MaxGas i))) tois)"

definition NetworkFee_Valid :: "NetworkFee \<Rightarrow> unit result" where
  "NetworkFee_Valid m = checks
     [(Chain_IsEmpty (nf_Chain m), ''chain cannot be empty''),
      (nf_TransactionSize m = 0, ''transaction size cannot be zero or negative''),
      (nf_TransactionFeeRate m = 0, ''transaction fee rate cannot be zero'')]"

definition GetNetworkFee :: "Chain \<Rightarrow> kstate \<Rightarrow> NetworkFee" where
  "GetNetworkFee chain s =
     (case kv_get (k_network_fees s) (skey (ToUpper chain)) of
        Some r \<Rightarrow> r | None \<Rightarrow> NetworkFee_zero\<lparr>nf_Chain := chain\<rparr>)"

definition SaveNetworkFee :: "Chain \<Rightarrow> NetworkFee \<Rightarrow> unit kact" where
  "SaveNetworkFee chain fee =
     thenA (lift_result (NetworkFee_Valid fee))
       (modify (\<lambda>s. s\<lparr>k_network_fees := kv_set (skey (ToUpper chain)) fee (k_network_fees s)\<rparr>))"

definition GetObservedTxOutVoter :: "TxID \<Rightarrow> kstate \<Rightarrow> ObservedTxVoter" where
  "GetObservedTxOutVoter hash s =
     (case kv_get (k_txout_voters s) (skey hash) of
        Some r \<Rightarrow> r | None \<Rightarrow> ObservedTxVoter_zero\<lparr>vo_TxID := hash\<rparr>)"

definition GetObservedTxInVoter :: "TxID \<Rightarrow> kstate \<Rightarrow> ObservedTxVoter" where
  "GetObservedTxInVoter hash s =
     (case kv_get (k_txin_voters s) (skey hash) of
        Some r \<Rightarrow> r | None \<Rightarrow> ObservedTxVoter_zero\<lparr>vo_TxID := hash\<rparr>)"

definition SetObservedTxInVoter :: "ObservedTxVoter \<Rightarrow> unit kact" where
  "SetObservedTxInVoter tx = modify (\<lambda>s. s\<lparr>k_txin_voters := kv_set (skey (vo_TxID tx)) tx (k_txin_voters s)\<rparr>)"

definition SetObservedTxOutVoter :: "ObservedTxVoter \<Rightarrow> unit kact" where
  "SetObservedTxOutVoter tx = modify (\<lambda>s. s\<lparr>k_txout_voters := kv_set (skey (vo_TxID tx)) tx (k_txout_voters s)\<rparr>)"

end
