(* ===== verification/Keeper_Laws.thy ===== *)
theory Keeper_Laws
  imports Keeper
begin

text \<open>
  What the keeper promises its clients. The locale \<open>keyed_store\<close> is the contract of an
  accessor pair (\<^verbatim>\<open>SetX\<close> rejects an invalid record and leaves the state, \<^verbatim>\<open>GetX\<close> returns the
  record after a write and is untouched under other keys); it is interpreted on every accessor
  pair the flows use. The frame lemmas say which part of the state an accessor leaves alone:
  \<open>same f (SetX v)\<close> for every \<open>f\<close> that does not read the store of \<^verbatim>\<open>X\<close>. They are in the
  collection \<open>act_keeps\<close>, so the frame of a composed operation is found by \<^verbatim>\<open>intro\<close>.
\<close>

section \<open>Accessor pairs\<close>

locale keyed_store =
  fixes get :: "'k \<Rightarrow> 's \<Rightarrow> 'v"
    and put :: "'v \<Rightarrow> ('s, unit) act"
    and key :: "'v \<Rightarrow> 'k"
    and norm :: "'k \<Rightarrow> string"
    and valid :: "'v \<Rightarrow> unit result"
  assumes put_valid: "valid v = Inr u \<Longrightarrow>
      \<exists>t. put v s = (Inr (), t) \<and> (\<forall>k. get k t = (if norm k = norm (key v) then v else get k s))"
    and put_invalid: "valid v = Inl e \<Longrightarrow> put v s = (Inl e, s)"
begin

lemma put_run: "put v s = (Inr u, t) \<Longrightarrow> valid v = Inr () \<and> (\<forall>k. get k t = (if norm k = norm (key v) then v else get k s))"
  by (cases "valid v") (use put_valid [of v "()" s] put_invalid [of v _ s] in fastforce)+

lemma get_put: "put v s = (Inr u, t) \<Longrightarrow> get (key v) t = v"
  using put_run by fastforce

lemma get_put_other: "put v s = (r, t) \<Longrightarrow> norm k \<noteq> norm (key v) \<Longrightarrow> get k t = get k s"
  using put_valid [of v _ s] put_invalid [of v _ s] by (cases "valid v") fastforce+

lemma put_total: "valid v = Inr u \<Longrightarrow> \<exists>t. put v s = (Inr (), t)"
  using put_valid by blast

lemma put_fails: "put v s = (Inl e, t) \<Longrightarrow> t = s \<and> valid v = Inl e"
  using put_valid [of v _ s] put_invalid [of v _ s] by (cases "valid v") fastforce+

end

lemmas put_defs = thenA_def bindA_def lift_result_def modify_def

interpretation deposit_store: keyed_store GetDepositRecord SetDepositRecord dr_DepositID skey DepositRecord_Valid
  by unfold_locales
    (auto simp: GetDepositRecord_def SetDepositRecord_def DepositRecord_Key_def put_defs)

interpretation session_store: keyed_store "GetDepositSession e" "SetDepositSession e" ds_Owner
  "skey \<circ> e_acc_string e" DepositSession_Valid for e
  by unfold_locales
    (auto simp: GetDepositSession_def SetDepositSession_def DepositSession_Key_def put_defs)

interpretation address_store: keyed_store GetDepositAddress SetDepositAddress da_Address skey DepositAddress_Valid
  by unfold_locales
    (auto simp: GetDepositAddress_def SetDepositAddress_def DepositAddress_Key_def put_defs)

interpretation timing_store: keyed_store GetDepositPowTiming SetDepositPowTiming pt_PowToken
  "skey \<circ> TrimSpace" DepositPowTiming_Valid
  by unfold_locales
    (auto simp: GetDepositPowTiming_def SetDepositPowTiming_def DepositPowTiming_Key_def put_defs)

interpretation redeem_store: keyed_store GetShielderRedeem "SetShielderRedeem e" rd_WithdrawalID skey
  "ShielderRedeem_Valid e" for e
  by unfold_locales
    (auto simp: GetShielderRedeem_def SetShielderRedeem_def put_defs)

interpretation bond_store: keyed_store GetShielderNodeBond SetShielderNodeBond nb_NodePubKey
  "skey \<circ> TrimSpace" ShielderNodeBond_Valid
  by unfold_locales
    (auto simp: GetShielderNodeBond_def SetShielderNodeBond_def ShielderNodeBond_Key_def put_defs)

interpretation bonder_store: keyed_store "\<lambda>(n, b). GetShielderNodeBonder e n b" "SetShielderNodeBonder e"
  "\<lambda>v. (br_NodePubKey v, br_Bonder v)" "\<lambda>(n, b). skey (ShielderNodeBonderKey e n b)"
  ShielderNodeBonder_Valid for e
  by unfold_locales
    (auto simp: GetShielderNodeBonder_def SetShielderNodeBonder_def ShielderNodeBonder_Key_def
       ShielderNodeBonderKey_def put_defs)

interpretation auction_store: keyed_store GetNodeSlotAuction SetNodeSlotAuction au_AuctionID
  "skey \<circ> TrimSpace" NodeSlotAuction_Valid
  by unfold_locales
    (auto simp: GetNodeSlotAuction_def SetNodeSlotAuction_def NodeSlotAuction_Key_def put_defs)

interpretation bid_store: keyed_store GetNodeSlotBid SetNodeSlotBid bd_BidID "skey \<circ> TrimSpace" NodeSlotBid_Valid
  by unfold_locales
    (auto simp: GetNodeSlotBid_def SetNodeSlotBid_def NodeSlotBid_Key_def put_defs)

interpretation tree_store: keyed_store "\<lambda>d s. fst (GetShielderTreeState d s)" SetShielderTreeState
  ts_DenominationSats shielderTreeStateKey StoredShielderTreeState_Valid
  by unfold_locales
    (auto simp: GetShielderTreeState_def SetShielderTreeState_def put_defs shielderTreeStateKey_def)

interpretation fee_store: keyed_store "\<lambda>_ :: unit. GetFeePool" SetFeePool "\<lambda>_. ()" "\<lambda>_. []" "\<lambda>_. Inr ()"
  by unfold_locales (auto simp: GetFeePool_def SetFeePool_def put_defs)

section \<open>Frames\<close>

lemma same_SetDepositSession [act_keeps]:
  "(\<And>s v. f (s\<lparr>k_sessions := v\<rparr>) = f s) \<Longrightarrow> (\<And>s v. f (s\<lparr>k_pow_tokens := v\<rparr>) = f s) \<Longrightarrow> same f (SetDepositSession e x)"
  unfolding SetDepositSession_def Let_def
  by (auto intro!: act_keeps same_modify simp: )

lemma same_SetDepositPowTiming [act_keeps]:
  "(\<And>s v. f (s\<lparr>k_pow_timings := v\<rparr>) = f s) \<Longrightarrow> same f (SetDepositPowTiming x)"
  unfolding SetDepositPowTiming_def Let_def
  by (auto intro!: act_keeps same_modify split: option.splits)

lemma same_SetDepositPowDifficultyState [act_keeps]:
  "(\<And>s v. f (s\<lparr>k_pow_difficulty := v\<rparr>) = f s) \<Longrightarrow> same f (SetDepositPowDifficultyState x)"
  unfolding SetDepositPowDifficultyState_def Let_def
  by (auto intro!: act_keeps same_modify split: option.splits)

lemma same_SetDepositAddress [act_keeps]:
  "(\<And>s v. f (s\<lparr>k_addresses := v\<rparr>) = f s) \<Longrightarrow> same f (SetDepositAddress x)"
  unfolding SetDepositAddress_def Let_def
  by (auto intro!: act_keeps same_modify split: option.splits)

lemma same_DeleteDepositAddress [act_keeps]:
  "(\<And>s v. f (s\<lparr>k_addresses := v\<rparr>) = f s) \<Longrightarrow> same f (DeleteDepositAddress x)"
  unfolding DeleteDepositAddress_def Let_def
  by (auto intro!: act_keeps same_modify split: option.splits)

lemma same_SetNextVaultDepositPathIndex [act_keeps]:
  "(\<And>s v. f (s\<lparr>k_path_cursor := v\<rparr>) = f s) \<Longrightarrow> same f (SetNextVaultDepositPathIndex v i)"
  unfolding SetNextVaultDepositPathIndex_def Let_def
  by (auto intro!: act_keeps same_modify split: option.splits)

lemma same_AllocateVaultDepositPathIndex [act_keeps]:
  "(\<And>s v. f (s\<lparr>k_path_cursor := v\<rparr>) = f s) \<Longrightarrow> same f (AllocateVaultDepositPathIndex v p)"
  unfolding AllocateVaultDepositPathIndex_def SetNextVaultDepositPathIndex_def Let_def
  by (auto intro!: act_keeps same_modify split: option.splits)

lemma same_SetDepositRecord [act_keeps]:
  "(\<And>s v. f (s\<lparr>k_deposits := v\<rparr>) = f s) \<Longrightarrow> same f (SetDepositRecord x)"
  unfolding SetDepositRecord_def Let_def
  by (auto intro!: act_keeps same_modify split: option.splits)

lemma same_SetShielderCommitment [act_keeps]:
  "(\<And>s v. f (s\<lparr>k_commitments := v\<rparr>) = f s) \<Longrightarrow> same f (SetShielderCommitment x)"
  unfolding SetShielderCommitment_def Let_def
  by (auto intro!: act_keeps same_modify split: option.splits)

lemma same_SetShielderNoteRecord [act_keeps]:
  "(\<And>s v. f (s\<lparr>k_notes := v\<rparr>) = f s) \<Longrightarrow> same f (SetShielderNoteRecord x)"
  unfolding SetShielderNoteRecord_def Let_def
  by (auto intro!: act_keeps same_modify split: option.splits)

lemma same_SetShielderDenominationLeaf [act_keeps]:
  "(\<And>s v. f (s\<lparr>k_leaves := v\<rparr>) = f s) \<Longrightarrow> same f (SetShielderDenominationLeaf d i c)"
  unfolding SetShielderDenominationLeaf_def Let_def
  by (auto intro!: act_keeps same_modify split: option.splits)

lemma same_SetShielderTreeState [act_keeps]:
  "(\<And>s v. f (s\<lparr>k_trees := v\<rparr>) = f s) \<Longrightarrow> same f (SetShielderTreeState x)"
  unfolding SetShielderTreeState_def Let_def
  by (auto intro!: act_keeps same_modify split: option.splits)

lemma same_SetShielderMerkleRoot [act_keeps]:
  "(\<And>s v. f (s\<lparr>k_roots := v\<rparr>) = f s) \<Longrightarrow> same f (SetShielderMerkleRoot d r)"
  unfolding SetShielderMerkleRoot_def Let_def
  by (auto intro!: act_keeps same_modify split: option.splits)

lemma same_SetShielderRedeem [act_keeps]:
  "(\<And>s v. f (s\<lparr>k_redeems := v\<rparr>) = f s) \<Longrightarrow> same f (SetShielderRedeem e x)"
  unfolding SetShielderRedeem_def Let_def
  by (auto intro!: act_keeps same_modify split: option.splits)

lemma same_SetShielderRedeemOutHash [act_keeps]:
  "(\<And>s v. f (s\<lparr>k_outhashes := v\<rparr>) = f s) \<Longrightarrow> same f (SetShielderRedeemOutHash h w)"
  unfolding SetShielderRedeemOutHash_def Let_def
  by (auto intro!: act_keeps same_modify split: option.splits)

lemma same_DeleteShielderRedeemOutHash [act_keeps]:
  "(\<And>s v. f (s\<lparr>k_outhashes := v\<rparr>) = f s) \<Longrightarrow> same f (DeleteShielderRedeemOutHash h)"
  unfolding DeleteShielderRedeemOutHash_def Let_def
  by (auto intro!: act_keeps same_modify split: option.splits)

lemma same_SetShielderNullifierSpent [act_keeps]:
  "(\<And>s v. f (s\<lparr>k_nullifiers := v\<rparr>) = f s) \<Longrightarrow> same f (SetShielderNullifierSpent h w)"
  unfolding SetShielderNullifierSpent_def Let_def
  by (auto intro!: act_keeps same_modify split: option.splits)

lemma same_SetNextShielderNodeBondSlot [act_keeps]:
  "(\<And>s v. f (s\<lparr>k_bond_slot := v\<rparr>) = f s) \<Longrightarrow> same f (SetNextShielderNodeBondSlot x)"
  unfolding SetNextShielderNodeBondSlot_def Let_def
  by (auto intro!: act_keeps same_modify split: option.splits)

lemma same_AllocateShielderNodeBondSlot [act_keeps]:
  "(\<And>s v. f (s\<lparr>k_bond_slot := v\<rparr>) = f s) \<Longrightarrow> same f (AllocateShielderNodeBondSlot)"
  unfolding AllocateShielderNodeBondSlot_def SetNextShielderNodeBondSlot_def Let_def
  by (auto intro!: act_keeps same_modify split: option.splits)

lemma same_SetShielderNodeBond [act_keeps]:
  "(\<And>s v. f (s\<lparr>k_bonds := v\<rparr>) = f s) \<Longrightarrow> same f (SetShielderNodeBond x)"
  unfolding SetShielderNodeBond_def Let_def
  by (auto intro!: act_keeps same_modify split: option.splits)

lemma same_SetShielderNodeBonder [act_keeps]:
  "(\<And>s v. f (s\<lparr>k_bonders := v\<rparr>) = f s) \<Longrightarrow> same f (SetShielderNodeBonder e x)"
  unfolding SetShielderNodeBonder_def Let_def
  by (auto intro!: act_keeps same_modify split: option.splits)

lemma same_DeleteShielderNodeBonder [act_keeps]:
  "(\<And>s v. f (s\<lparr>k_bonders := v\<rparr>) = f s) \<Longrightarrow> same f (DeleteShielderNodeBonder e n b)"
  unfolding DeleteShielderNodeBonder_def Let_def
  by (auto intro!: act_keeps same_modify split: option.splits)

lemma same_SetFeePool [act_keeps]:
  "(\<And>s v. f (s\<lparr>k_fee_pool := v\<rparr>) = f s) \<Longrightarrow> same f (SetFeePool x)"
  unfolding SetFeePool_def Let_def
  by (auto intro!: act_keeps same_modify split: option.splits)

lemma same_SetShielderFeeNotePubKey [act_keeps]:
  "(\<And>s v. f (s\<lparr>k_fee_pubkeys := v\<rparr>) = f s) \<Longrightarrow> same f (SetShielderFeeNotePubKey x)"
  unfolding SetShielderFeeNotePubKey_def Let_def
  by (auto intro!: act_keeps same_modify split: option.splits)

lemma same_SetNodeSlotAuction [act_keeps]:
  "(\<And>s v. f (s\<lparr>k_auctions := v\<rparr>) = f s) \<Longrightarrow> same f (SetNodeSlotAuction x)"
  unfolding SetNodeSlotAuction_def Let_def
  by (auto intro!: act_keeps same_modify split: option.splits)

lemma same_SetNodeSlotBid [act_keeps]:
  "(\<And>s v. f (s\<lparr>k_bids := v\<rparr>) = f s) \<Longrightarrow> (\<And>s v. f (s\<lparr>k_auction_bids := v\<rparr>) = f s) \<Longrightarrow> same f (SetNodeSlotBid x)"
  unfolding SetNodeSlotBid_def Let_def
  by (auto intro!: act_keeps same_modify simp: )

lemma same_SetNodeAccount [act_keeps]:
  "(\<And>s v. f (s\<lparr>k_node_accounts := v\<rparr>) = f s) \<Longrightarrow> (\<And>s v. f (s\<lparr>k_penalties := v\<rparr>) = f s) \<Longrightarrow> same f (SetNodeAccount e x)"
  unfolding SetNodeAccount_def ResetNodeAccountPenaltyPoints_def Let_def
  by (auto intro!: act_keeps same_modify simp: )

lemma same_SetVault [act_keeps]:
  "(\<And>s v. f (s\<lparr>k_vaults := v\<rparr>) = f s) \<Longrightarrow> (\<And>s v. f (s\<lparr>k_vault_index := v\<rparr>) = f s) \<Longrightarrow> (\<And>s v. f (s\<lparr>k_vault_eddsa := v\<rparr>) = f s) \<Longrightarrow> same f (SetVault e x)"
  unfolding SetVault_def addBaseIndex_def Let_def
  by (auto intro!: act_keeps same_modify simp: )

lemma same_SetTxOut [act_keeps]:
  "(\<And>s v. f (s\<lparr>k_txouts := v\<rparr>) = f s) \<Longrightarrow> same f (SetTxOut x)"
  unfolding SetTxOut_def Let_def
  by (auto intro!: act_keeps same_modify split: option.splits)

lemma same_ClearTxOut [act_keeps]:
  "(\<And>s v. f (s\<lparr>k_txouts := v\<rparr>) = f s) \<Longrightarrow> same f (ClearTxOut h)"
  unfolding ClearTxOut_def Let_def
  by (auto intro!: act_keeps same_modify split: option.splits)

lemma same_AppendTxOut [act_keeps]:
  "(\<And>s v. f (s\<lparr>k_txouts := v\<rparr>) = f s) \<Longrightarrow> same f (AppendTxOut h i)"
  unfolding AppendTxOut_def SetTxOut_def Let_def
  by (auto intro!: act_keeps same_modify split: option.splits)

lemma same_SaveNetworkFee [act_keeps]:
  "(\<And>s v. f (s\<lparr>k_network_fees := v\<rparr>) = f s) \<Longrightarrow> same f (SaveNetworkFee c x)"
  unfolding SaveNetworkFee_def Let_def
  by (auto intro!: act_keeps same_modify split: option.splits)

end
