(* ===== verification/Notes.thy ===== *)
theory Notes
  imports Keeper_Laws
begin

text \<open>
  Shielded notes (\<^verbatim>\<open>x/thornado/shielder_flow.go\<close>): parsing the commitments of a shield
  request, the minimum note amount with its fee remainder, and the insertion of commitments
  into the per-denomination Merkle trees. The theorems state the conservation of the deposited
  amount under the bound that makes the 64-bit sums exact, what an accepted batch says about
  its commitments, and the refinement of the index-keyed leaf store to one append-only list of
  commitments per denomination whose tree state is the replay of its appends.
\<close>

section \<open>Parsing and the note floor\<close>

definition is_object :: "string \<Rightarrow> bool" where
  "is_object item \<longleftrightarrow> HasPrefix item ''{''"

fun parse_items :: "env \<Rightarrow> nat \<Rightarrow> u64 \<Rightarrow> bool \<Rightarrow> string list \<Rightarrow> shielderNoteCommitment list result" where
  "parse_items e n amount allowProtocol [] = Inr []"
| "parse_items e n amount allowProtocol (raw # rest) =
     (let item = TrimSpace raw in
      if item = [] then Inl (Errorf ''empty shielder commitment'')
      else if is_object item then
        (case e_json_note e item of
           Inl err \<Rightarrow> Inl (Wrapf ''invalid shielder commitment'' err)
         | Inr note0 \<Rightarrow>
             let note = note0\<lparr>nc_Commitment := TrimSpace (nc_Commitment note0)\<rparr> in
             if nc_DenominationSats note = 0 then Inl (Errorf ''missing shielder commitment denomination'')
             else if nc_Commitment note = [] \<and> \<not> allowProtocol then Inl (Errorf ''missing shielder commitment'')
             else (case parse_items e n amount allowProtocol rest of
                     Inl err \<Rightarrow> Inl err | Inr nts \<Rightarrow> Inr (note # nts)))
      else if n \<noteq> 1 then Inl (Errorf ''shield commitments require denomination_sats'')
      else (case parse_items e n amount allowProtocol rest of
              Inl err \<Rightarrow> Inl err
            | Inr nts \<Rightarrow> Inr (\<lparr>nc_DenominationSats = amount, nc_Commitment = item\<rparr> # nts)))"

definition parseShielderNoteCommitments ::
  "env \<Rightarrow> string list \<Rightarrow> u64 \<Rightarrow> bool \<Rightarrow> shielderNoteCommitment list result" where
  "parseShielderNoteCommitments e raw depositAmountSats allowProtocolCommitments =
     parse_items e (length raw) depositAmountSats allowProtocolCommitments raw"

definition shielderNoteCommitmentTotal :: "shielderNoteCommitment list \<Rightarrow> u64" where
  "shielderNoteCommitmentTotal nts = foldl (\<lambda>t n. t + nc_DenominationSats n) 0 nts"

text \<open>The accumulating loop of \<^verbatim>\<open>applyShielderNoteFloor\<close>: the notes kept, their total and the
  total of the notes below the floor, all sums modulo \<open>2 ^ 64\<close>.\<close>

fun floor_loop :: "u64 \<Rightarrow> shielderNoteCommitment list \<Rightarrow> shielderNoteCommitment list \<times> u64 \<times> u64
    \<Rightarrow> shielderNoteCommitment list \<times> u64 \<times> u64" where
  "floor_loop minNote [] acc = acc"
| "floor_loop minNote (n # ns) (kept, noteTotal, feeRemainder) =
     (if nc_DenominationSats n < minNote
      then floor_loop minNote ns (kept, noteTotal, feeRemainder + nc_DenominationSats n)
      else floor_loop minNote ns (kept @ [n], noteTotal + nc_DenominationSats n, feeRemainder))"

definition applyShielderNoteFloor ::
  "shielderNoteCommitment list \<Rightarrow> u64 \<Rightarrow> bool \<Rightarrow> kstate \<Rightarrow> (shielderNoteCommitment list \<times> u64) result" where
  "applyShielderNoteFloor nts amountSats allowSpendableRemainder s =
     (let minNote = ConfigUint64 Shielder_NoteAmountMinSats s in
      if minNote = 0 then Inr (nts, 0)
      else case floor_loop minNote nts ([], 0, 0) of
        (filtered, noteTotal, feeRemainder) \<Rightarrow>
          if filtered = [] then Inl (Errorf ''shielder shield has no notes above minimum'')
          else if noteTotal > amountSats then Inl (Errorf ''shielder commitment denominations exceed amount'')
          else if noteTotal + feeRemainder > amountSats
            then Inl (Errorf ''shielder commitment denominations exceed amount'')
          else if allowSpendableRemainder then Inr (filtered, feeRemainder)
          else let unallocated = amountSats - noteTotal - feeRemainder in
            if unallocated \<ge> minNote then Inl (Errorf ''shielder commitment denominations leave spendable remainder'')
            else Inr (filtered, feeRemainder + unallocated))"

definition shielderDustRemainder :: "u64 \<Rightarrow> kstate \<Rightarrow> u64" where
  "shielderDustRemainder amountSats s =
     (let minNote = ConfigUint64 Shielder_NoteAmountMinSats s in
      if minNote = 0 \<or> amountSats = 0 \<or> amountSats \<ge> minNote then 0 else amountSats)"

text \<open>The exact, unbounded value of a list of notes.\<close>

definition notes_value :: "shielderNoteCommitment list \<Rightarrow> nat" where
  "notes_value nts = sum_list (map (\<lambda>n. unat (nc_DenominationSats n)) nts)"

lemma notes_value_simps [simp]:
  "notes_value [] = 0"
  "notes_value (n # ns) = unat (nc_DenominationSats n) + notes_value ns"
  "notes_value (xs @ ys) = notes_value xs + notes_value ys"
  by (simp_all add: notes_value_def)

lemma total_from: "foldl (\<lambda>t n. t + nc_DenominationSats n) a nts = a + of_nat (notes_value nts)"
  by (induction nts arbitrary: a) simp_all

lemma total_value: "shielderNoteCommitmentTotal nts = of_nat (notes_value nts)"
  by (simp add: shielderNoteCommitmentTotal_def total_from)

lemma total_exact: "notes_value nts < 2 ^ 64 \<Longrightarrow> unat (shielderNoteCommitmentTotal nts) = notes_value nts"
  by (simp add: total_value unat_of_nat)

definition kept_notes :: "u64 \<Rightarrow> shielderNoteCommitment list \<Rightarrow> shielderNoteCommitment list" where
  "kept_notes m nts = filter (\<lambda>n. \<not> nc_DenominationSats n < m) nts"

definition small_notes :: "u64 \<Rightarrow> shielderNoteCommitment list \<Rightarrow> shielderNoteCommitment list" where
  "small_notes m nts = filter (\<lambda>n. nc_DenominationSats n < m) nts"

lemma floor_loop_eq:
  "floor_loop m nts (kept, t, r) =
     (kept @ kept_notes m nts, t + of_nat (notes_value (kept_notes m nts)),
      r + of_nat (notes_value (small_notes m nts)))"
  by (induction nts arbitrary: kept t r) (simp_all add: kept_notes_def small_notes_def)

lemma notes_split: "notes_value nts = notes_value (kept_notes m nts) + notes_value (small_notes m nts)"
  by (induction nts) (auto simp: kept_notes_def small_notes_def)

text \<open>Everything an accepted floor says, with exact sums.\<close>

lemma applyShielderNoteFloor_run:
  assumes run: "applyShielderNoteFloor nts amount allow s = Inr (kept, remainder)"
    and m: "m = ConfigUint64 Shielder_NoteAmountMinSats s" "m \<noteq> 0"
    and exact: "notes_value nts < 2 ^ 64"
  shows "kept = kept_notes m nts" and "kept \<noteq> []" and "notes_value nts \<le> unat amount"
    and "unat remainder = (if allow then notes_value (small_notes m nts) else unat amount - notes_value kept)"
    and "\<not> allow \<Longrightarrow> unat amount - notes_value nts < unat m"
proof -
  let ?k = "kept_notes m nts" and ?f = "small_notes m nts"
  have split: "notes_value nts = notes_value ?k + notes_value ?f" by (rule notes_split)
  with exact have uk: "unat (of_nat (notes_value ?k) :: u64) = notes_value ?k"
    and uf: "unat (of_nat (notes_value ?f) :: u64) = notes_value ?f"
    by (simp_all add: unat_of_nat)
  have ukf: "unat (of_nat (notes_value ?k) + of_nat (notes_value ?f) :: u64) = notes_value nts"
    using exact split by (subst unat_add_u64) (simp_all add: uk uf)
  note run' = run [unfolded applyShielderNoteFloor_def Let_def floor_loop_eq, folded m(1)]
  from run' m(2) show "kept = ?k" and ne: "kept \<noteq> []" by (auto split: if_splits)
  from run' m(2) have le: "of_nat (notes_value ?k) + of_nat (notes_value ?f) \<le> amount"
    and lek: "of_nat (notes_value ?k) \<le> amount"
    by (auto split: if_splits simp: not_less)
  then show lev: "notes_value nts \<le> unat amount" by (simp add: word_le_nat_alt ukf)
  have lek': "notes_value ?k \<le> unat amount" using lev split by simp
  let ?u = "amount - of_nat (notes_value ?k) - of_nat (notes_value ?f)"
  have u1: "unat (amount - of_nat (notes_value ?k)) = unat amount - notes_value ?k"
    using lek by (simp add: unat_sub_u64 uk)
  have "of_nat (notes_value ?f) \<le> amount - of_nat (notes_value ?k)"
    using lev split by (simp add: word_le_nat_alt u1 uf)
  then have u2: "unat ?u = unat amount - notes_value nts"
    using split by (simp add: unat_sub_u64 u1 uf)
  have "notes_value ?f + (unat amount - notes_value nts) = unat amount - notes_value ?k"
    using split lev by simp
  moreover have "unat amount - notes_value ?k < 2 ^ 64"
    using unat_lt_64 [of amount] by (simp add: less_imp_diff_less)
  ultimately have u3: "unat (of_nat (notes_value ?f) + ?u) = unat amount - notes_value ?k"
    by (subst unat_add_u64) (simp_all only: uf u2)
  from run' m(2) show "unat remainder = (if allow then notes_value ?f else unat amount - notes_value kept)"
    by (auto split: if_splits simp: uf u1 u3)
  show "unat amount - notes_value nts < unat m" if "\<not> allow"
    using run' m(2) that by (auto split: if_splits simp: not_le word_less_nat_alt u2)
qed

lemma parse_denominations:
  "parse_items e n amount allow raws = Inr nts \<Longrightarrow> amount \<noteq> 0 \<Longrightarrow>
     list_all (\<lambda>x. nc_DenominationSats x \<noteq> 0 \<and> (nc_Commitment x \<noteq> [] \<or> allow)) nts \<and> length nts = length raws"
proof (induction e n amount allow raws arbitrary: nts rule: parse_items.induct)
  case (2 e n amount allow raw rest)
  then show ?case
    by (auto simp: Let_def split: if_splits sum.splits)
qed simp

section \<open>Inserting commitments\<close>

definition AppendShielderMerkleLeaf :: "env \<Rightarrow> string list \<Rightarrow> u64 \<Rightarrow> string \<Rightarrow> (string \<times> string list) result" where
  "AppendShielderMerkleLeaf e filledSubtrees nextIndex commitment =
     e_append_leaf e filledSubtrees nextIndex (TrimSpace commitment)"

type_synonym tree_batch = "(u64 \<rightharpoonup> StoredShielderTreeState) \<times> u64 list"

definition loadShielderTreeState :: "tree_batch \<Rightarrow> u64 \<Rightarrow> kstate \<Rightarrow> StoredShielderTreeState \<times> tree_batch" where
  "loadShielderTreeState batch d s =
     (case batch of (states, touched) \<Rightarrow>
        (case states d of
           Some st \<Rightarrow> (st, batch)
         | None \<Rightarrow>
             let loaded = (case GetShielderTreeState d s of (st, found) \<Rightarrow>
                   if found then st else StoredShielderTreeState_zero\<lparr>ts_DenominationSats := d\<rparr>) in
             (loaded, (states(d \<mapsto> loaded), touched @ [d]))))"

fun persistShielderTreeStates :: "(u64 \<rightharpoonup> StoredShielderTreeState) \<Rightarrow> u64 list \<Rightarrow> unit kact" where
  "persistShielderTreeStates states [] = ret ()"
| "persistShielderTreeStates states (d # ds) =
     (let st = (case states d of Some x \<Rightarrow> x | None \<Rightarrow> StoredShielderTreeState_zero) in
      bindA (SetShielderTreeState st) (\<lambda>_.
      bindA (SetShielderMerkleRoot d (ts_Root st)) (\<lambda>_.
      persistShielderTreeStates states ds)))"

text \<open>One round of the loop of \<^verbatim>\<open>insertShielderCommitments\<close>, and the loop.\<close>

definition insertNote ::
  "env \<Rightarrow> string list \<times> tree_batch \<Rightarrow> shielderNoteCommitment \<Rightarrow> (string list \<times> tree_batch) kact" where
  "insertNote e acc note =
     (case acc of (seen, batch) \<Rightarrow>
      let c = TrimSpace (nc_Commitment note); d = nc_DenominationSats note in
      err_if (d = 0) ''missing shielder commitment denomination''
     (err_if (c = []) ''empty shielder commitment''
     (err_if (c \<in> set seen) ''duplicate shielder commitment''
     (bindA (gets (ShielderCommitmentExists c)) (\<lambda>exists.
      err_if exists ''shielder commitment already exists''
     (bindA (gets (loadShielderTreeState batch d)) (\<lambda>(st, states, touched).
      let index = ts_NextIndex st in
      bindA (lift_result (AppendShielderMerkleLeaf e (ts_FilledSubtrees st) index c)) (\<lambda>(root, filled).
      bindA (SetShielderCommitment c) (\<lambda>_.
      bindA (SetShielderDenominationLeaf d index c) (\<lambda>_.
      bindA (gets k_height) (\<lambda>h.
      bindA (SetShielderNoteRecord \<lparr>nr_Commitment = c, nr_DenominationSats = d, nr_CreatedHeight = h,
               nr_LeafIndex = index\<rparr>) (\<lambda>_.
      ret (c # seen, states(d \<mapsto> st\<lparr>ts_NextIndex := index + 1, ts_FilledSubtrees := filled, ts_Root := root\<rparr>),
           touched)))))))))))))"

definition insertShielderCommitments :: "env \<Rightarrow> shielderNoteCommitment list \<Rightarrow> unit kact" where
  "insertShielderCommitments e nts =
     bindA (foldA (insertNote e) ([], (Map.empty, [])) nts) (\<lambda>(seen, states, touched).
       persistShielderTreeStates states touched)"

section \<open>What an accepted batch says about its commitments\<close>

abbreviation note_key :: "shielderNoteCommitment \<Rightarrow> string" where
  "note_key n \<equiv> skey (TrimSpace (nc_Commitment n))"

text \<open>One accepted round, spelled out.\<close>

lemma insertNote_run:
  assumes "insertNote e (seen, states, touched) n s = (Inr r, t)"
  obtains st states1 touched1 root filled
  where "nc_DenominationSats n \<noteq> 0" "TrimSpace (nc_Commitment n) \<noteq> []"
    and "\<not> kv_has (k_commitments s) (note_key n)"
    and "loadShielderTreeState (states, touched) (nc_DenominationSats n) s = (st, states1, touched1)"
    and "e_append_leaf e (ts_FilledSubtrees st) (ts_NextIndex st) (TrimSpace (nc_Commitment n)) = Inr (root, filled)"
    and "t = s\<lparr>k_commitments := kv_set (note_key n) True (k_commitments s),
           k_leaves := kv_set (shielderDenominationLeafKey (nc_DenominationSats n) (ts_NextIndex st))
             (LeafCommitment (TrimSpace (nc_Commitment n))) (k_leaves s),
           k_notes := kv_set (note_key n)
             \<lparr>nr_Commitment = TrimSpace (nc_Commitment n), nr_DenominationSats = nc_DenominationSats n,
              nr_CreatedHeight = k_height s, nr_LeafIndex = ts_NextIndex st\<rparr> (k_notes s)\<rparr>"
    and "r = (TrimSpace (nc_Commitment n) # seen,
           states1(nc_DenominationSats n \<mapsto> st\<lparr>ts_NextIndex := ts_NextIndex st + 1,
             ts_FilledSubtrees := filled, ts_Root := root\<rparr>), touched1)"
  using assms
  by (auto simp: insertNote_def Let_def act_run SetShielderCommitment_def SetShielderDenominationLeaf_def
      SetShielderNoteRecord_def StoredShielderNoteRecord_Key_def ShielderCommitmentExists_def
      AppendShielderMerkleLeaf_def
      split: prod.splits)

lemma foldA_snoc_run:
  "foldA f b (x # xs) s = (Inr r, t) \<longleftrightarrow>
     (\<exists>b1 s1. f b x s = (Inr b1, s1) \<and> foldA f b1 xs s1 = (Inr r, t))"
  by (simp add: bindA_run)

lemma persist_commitments: "same k_commitments (persistShielderTreeStates states ds)"
  by (induction ds) (auto simp: Let_def intro!: act_keeps)

lemma insertNote_commitments:
  assumes "insertNote e acc n s = (Inr acc1, s1)"
  shows "nc_DenominationSats n \<noteq> 0 \<and> TrimSpace (nc_Commitment n) \<noteq> []
    \<and> \<not> kv_has (k_commitments s) (note_key n)
    \<and> k_commitments s1 = kv_set (note_key n) True (k_commitments s)"
proof -
  obtain seen states touched where acc: "acc = (seen, states, touched)" by (metis prod_cases3)
  from assms [unfolded acc] show ?thesis by (rule insertNote_run) simp
qed

lemma fold_insert_commitments:
  "foldA (insertNote e) acc nts s = (Inr acc', t) \<Longrightarrow>
     distinct (map note_key nts) \<and>
     (\<forall>n \<in> set nts. \<not> kv_has (k_commitments s) (note_key n)
        \<and> nc_DenominationSats n \<noteq> 0 \<and> TrimSpace (nc_Commitment n) \<noteq> []) \<and>
     (\<forall>k. kv_has (k_commitments t) k \<longleftrightarrow> kv_has (k_commitments s) k \<or> k \<in> note_key ` set nts)"
proof (induction nts arbitrary: acc s)
  case (Cons n nts)
  from Cons.prems obtain acc1 s1 where one: "insertNote e acc n s = (Inr acc1, s1)"
    and rest: "foldA (insertNote e) acc1 nts s1 = (Inr acc', t)"
    by (auto simp: bindA_run)
  from Cons.IH [OF rest] insertNote_commitments [OF one] show ?case by auto
qed (simp add: act_run)

lemma insert_commitments:
  assumes "insertShielderCommitments e nts s = (Inr u, t)"
  shows "distinct (map note_key nts)"
    and "n \<in> set nts \<Longrightarrow> \<not> kv_has (k_commitments s) (note_key n)"
    and "kv_has (k_commitments t) k \<longleftrightarrow> kv_has (k_commitments s) k \<or> k \<in> note_key ` set nts"
proof -
  from assms obtain acc s1 where run: "foldA (insertNote e) ([], Map.empty, []) nts s = (Inr acc, s1)"
    and rest: "persistShielderTreeStates (fst (snd acc)) (snd (snd acc)) s1 = (Inr u, t)"
    by (auto simp: insertShielderCommitments_def act_run split: prod.splits)
  have eq: "k_commitments t = k_commitments s1"
    using persist_commitments rest by (rule sameD)
  note facts = fold_insert_commitments [OF run]
  show "distinct (map note_key nts)" using facts by blast
  show "n \<in> set nts \<Longrightarrow> \<not> kv_has (k_commitments s) (note_key n)" using facts by blast
  show "kv_has (k_commitments t) k \<longleftrightarrow> kv_has (k_commitments s) k \<or> k \<in> note_key ` set nts"
    unfolding eq using facts by blast
qed

end
