(* ===== verification/Pool.thy ===== *)
theory Pool
  imports Notes
begin

text \<open>
  The commitment pool as an abstract data type: one append-only list of commitments per
  denomination. The representation relation \<open>pool_rep\<close> ties the index-keyed leaf store and the
  incremental tree states to those lists; the locale \<open>merkle_engine\<close> is what the pool relies on
  of the engine that appends a leaf, and within it the insertion of a batch is shown to refine
  the abstract append.
\<close>

section \<open>Ordered stores\<close>

lemma map_of_nth_fst: "distinct (map fst l) \<Longrightarrow> i < length l \<Longrightarrow> the (map_of l (fst (l ! i))) = snd (l ! i)"
  by (metis map_of_is_SomeI nth_mem option.sel prod.collapse)

lemma kv_eq_by_set:
  assumes "kv_ordered m" "kv_ordered n" "set m = set n"
  shows "m = n"
proof -
  from assms have d: "distinct (map fst m)" "distinct (map fst n)" by (simp_all add: kv_ordered_distinct)
  have keys: "map fst m = map fst n"
    using assms d unfolding kv_ordered_def
    by (intro sorted_distinct_set_unique) (auto simp: strict_sorted_iff)
  have same: "map_of m = map_of n" using d assms by (simp add: map_of_inject_set)
  have rebuild: "l = map (\<lambda>k. (k, the (map_of l k))) (map fst l)" if "distinct (map fst l)" for l :: "('a, 'b) kv"
    using that by (auto intro!: nth_equalityI simp: map_of_nth_fst)
  show ?thesis using rebuild [OF d(1)] rebuild [OF d(2)] keys same by metis
qed

lemma kv_ordered_filter: "kv_ordered m \<Longrightarrow> kv_ordered (filter P m)"
  unfolding kv_ordered_def by (induction m) auto

lemma leaf_key_inj [simp]:
  "shielderDenominationLeafKey d i = shielderDenominationLeafKey d' i' \<longleftrightarrow> d = d' \<and> i = i'"
  by (auto simp: shielderDenominationLeafKey_def shielderDenominationPrefix_def)

lemma leaf_key_prefix:
  "HasPrefix (shielderDenominationLeafKey d' i) (shielderDenominationPrefix d) \<longleftrightarrow> d' = d"
proof
  assume "HasPrefix (shielderDenominationLeafKey d' i) (shielderDenominationPrefix d)"
  then obtain r where r: "shielderDenominationLeafKey d' i = shielderDenominationPrefix d @ r"
    by (auto simp: HasPrefix_iff)
  from arg_cong [OF r, of "take 20"] show "d' = d"
    by (simp add: shielderDenominationLeafKey_def shielderDenominationPrefix_def)
qed (auto simp: HasPrefix_iff shielderDenominationLeafKey_def)

lemma leaf_key_less:
  "shielderDenominationLeafKey d i < shielderDenominationLeafKey d j \<longleftrightarrow> i < j"
  by (simp add: shielderDenominationLeafKey_def less_append_same pad20_less)

section \<open>The representation relation\<close>

fun replay :: "env \<Rightarrow> string \<Rightarrow> string list \<Rightarrow> u64 \<Rightarrow> string list \<Rightarrow> (string \<times> string list) result" where
  "replay e root filled i [] = Inr (root, filled)"
| "replay e root filled i (c # cs) =
     (case e_append_leaf e filled i c of Inl err \<Rightarrow> Inl err | Inr (r, f) \<Rightarrow> replay e r f (i + 1) cs)"

definition pool_rep ::
  "env \<Rightarrow> (string, leaf_entry) kv \<Rightarrow> (u64 \<Rightarrow> StoredShielderTreeState) \<Rightarrow> (u64 \<Rightarrow> string list) \<Rightarrow> bool" where
  "pool_rep e lvs T L \<longleftrightarrow>
     kv_ordered lvs \<and>
     (\<forall>k v. kv_get lvs k = Some v \<longleftrightarrow>
        (\<exists>d i. i < length (L d) \<and> k = shielderDenominationLeafKey d (of_nat i) \<and> v = LeafCommitment (L d ! i))) \<and>
     (\<forall>d. ts_DenominationSats (T d) = d \<and> length (L d) = unat (ts_NextIndex (T d)) \<and>
        replay e [] [] 0 (L d) = Inr (ts_Root (T d), ts_FilledSubtrees (T d)))"

definition tree_of :: "kstate \<Rightarrow> u64 \<Rightarrow> StoredShielderTreeState" where
  "tree_of s d = fst (GetShielderTreeState d s)"

definition pool_ok :: "env \<Rightarrow> kstate \<Rightarrow> (u64 \<Rightarrow> string list) \<Rightarrow> bool" where
  "pool_ok e s L \<longleftrightarrow> pool_rep e (k_leaves s) (tree_of s) L"

text \<open>The tree states a batch works on: its own copies over the stored ones.\<close>

definition batch_tree :: "(u64 \<rightharpoonup> StoredShielderTreeState) \<Rightarrow> kstate \<Rightarrow> u64 \<Rightarrow> StoredShielderTreeState" where
  "batch_tree states s d = (case states d of Some st \<Rightarrow> st | None \<Rightarrow> tree_of s d)"

definition append_notes :: "(u64 \<Rightarrow> string list) \<Rightarrow> shielderNoteCommitment list \<Rightarrow> u64 \<Rightarrow> string list" where
  "append_notes L nts d =
     L d @ map (\<lambda>n. TrimSpace (nc_Commitment n)) (filter (\<lambda>n. nc_DenominationSats n = d) nts)"

lemma pool_ok_empty: "pool_ok e empty_kstate (\<lambda>_. [])"
  by (simp add: pool_ok_def pool_rep_def tree_of_def GetShielderTreeState_def empty_kstate_def zero_defs)

lemma replay_snoc:
  "replay e root filled i (cs @ [c]) =
     (case replay e root filled i cs of
        Inl err \<Rightarrow> Inl err
      | Inr (r, f) \<Rightarrow> (case e_append_leaf e f (i + of_nat (length cs)) c of Inl err \<Rightarrow> Inl err | Inr rf \<Rightarrow> Inr rf))"
  by (induction cs arbitrary: root filled i) (auto simp: algebra_simps split: sum.splits)

lemma pool_commitments:
  assumes ok: "pool_ok e s L" and d: "d \<noteq> 0"
  shows "GetShielderDenominationCommitments d s = Inr (L d)"
proof -
  let ?lvs = "k_leaves s" and ?p = "shielderDenominationPrefix d"
  let ?es = "map (\<lambda>i. (shielderDenominationLeafKey d (of_nat i), LeafCommitment (L d ! i))) [0..<length (L d)]"
  from ok have ord: "kv_ordered ?lvs"
    and get: "\<And>k v. kv_get ?lvs k = Some v \<longleftrightarrow>
        (\<exists>d i. i < length (L d) \<and> k = shielderDenominationLeafKey d (of_nat i) \<and> v = LeafCommitment (L d ! i))"
    and len: "length (L d) = unat (ts_NextIndex (tree_of s d))"
    by (auto simp: pool_ok_def pool_rep_def)
  have small: "length (L d) \<le> 2 ^ 64" using len unat_lt_64 [of "ts_NextIndex (tree_of s d)"] by (simp add: less_imp_le)
  have "of_nat i < (of_nat j :: u64)" if "i < j" "j < length (L d)" for i j
    using that small by (simp add: word_less_nat_alt unat_of_nat)
  then have "kv_ordered ?es"
    by (simp add: kv_ordered_def sorted_wrt_map sorted_wrt_iff_nth_less leaf_key_less)
  moreover have "kv_ordered (kv_prefix ?p ?lvs)" unfolding kv_prefix_def using ord by (rule kv_ordered_filter)
  moreover have "set (kv_prefix ?p ?lvs) = set ?es"
  proof (intro set_eqI iffI)
    fix x assume "x \<in> set (kv_prefix ?p ?lvs)"
    then have "HasPrefix (fst x) ?p" and "kv_get ?lvs (fst x) = Some (snd x)"
      using kv_entry_iff [OF ord, of "fst x" "snd x"] by (auto simp: kv_prefix_def)
    then show "x \<in> set ?es" unfolding get
      by (cases x) (auto simp: leaf_key_prefix)
  next
    fix x assume "x \<in> set ?es"
    then obtain i where i: "i < length (L d)" "x = (shielderDenominationLeafKey d (of_nat i), LeafCommitment (L d ! i))"
      by auto
    then have "kv_get ?lvs (fst x) = Some (snd x)" unfolding get by auto
    with i show "x \<in> set (kv_prefix ?p ?lvs)"
      using kv_entry_iff [OF ord, of "fst x" "snd x"] by (simp add: kv_prefix_def leaf_key_prefix)
  qed
  ultimately have eq: "kv_prefix ?p ?lvs = ?es" by (intro kv_eq_by_set)
  have dec: "decode_leaves (map LeafCommitment cs) = Inr cs" for cs by (induction cs) auto
  have "kv_values ?es = map LeafCommitment (L d)"
    by (simp add: kv_values_def comp_def map_nth flip: map_map [of LeafCommitment "\<lambda>i. L d ! i", unfolded comp_def])
  then show ?thesis using d by (simp add: GetShielderDenominationCommitments_def eq dec)
qed

section \<open>One accepted note\<close>

text \<open>
  The contract of the engine behind \<^verbatim>\<open>AppendShielderMerkleLeaf\<close>: the trees have depth 20, so an
  append beyond \<open>2 ^ 20\<close> leaves is refused. It is what keeps the leaf index from wrapping.
\<close>

locale merkle_engine =
  fixes e :: env
  assumes append_bounded: "e_append_leaf e filled i c = Inr r \<Longrightarrow> unat i < 2 ^ 20"

definition batch_ok :: "(u64 \<rightharpoonup> StoredShielderTreeState) \<Rightarrow> u64 list \<Rightarrow> bool" where
  "batch_ok states touched \<longleftrightarrow> dom states = set touched"

lemma load_cases:
  "loadShielderTreeState (states, touched) d s =
     (case states d of Some st \<Rightarrow> (st, states, touched)
      | None \<Rightarrow> (tree_of s d, states(d \<mapsto> tree_of s d), touched @ [d]))"
  by (auto simp: loadShielderTreeState_def tree_of_def GetShielderTreeState_def Let_def split: option.splits)

lemma load_batch:
  assumes "loadShielderTreeState (states, touched) d s = (st, states1, touched1)" "batch_ok states touched"
  shows "st = batch_tree states s d"
    and "states1(d \<mapsto> st') = states(d \<mapsto> st')" and "set touched1 = insert d (set touched)"
  using assms by (auto simp: load_cases batch_ok_def batch_tree_def split: option.splits)

lemma tree_of_cong: "k_trees s = k_trees t \<Longrightarrow> tree_of s = tree_of t"
  by (simp add: tree_of_def GetShielderTreeState_def fun_eq_iff)

lemma pool_rep_append:
  assumes rep: "pool_rep e lvs T L"
    and app: "e_append_leaf e (ts_FilledSubtrees (T d)) (ts_NextIndex (T d)) c = Inr (root, filled)"
    and bound: "unat (ts_NextIndex (T d)) < 2 ^ 20"
  shows "pool_rep e (kv_set (shielderDenominationLeafKey d (ts_NextIndex (T d))) (LeafCommitment c) lvs)
    (T(d := (T d)\<lparr>ts_NextIndex := ts_NextIndex (T d) + 1, ts_FilledSubtrees := filled, ts_Root := root\<rparr>))
    (L(d := L d @ [c]))"
proof -
  let ?i = "ts_NextIndex (T d)"
  from rep have ord: "kv_ordered lvs"
    and get: "\<And>k v. kv_get lvs k = Some v \<longleftrightarrow>
        (\<exists>d i. i < length (L d) \<and> k = shielderDenominationLeafKey d (of_nat i) \<and> v = LeafCommitment (L d ! i))"
    and tr: "\<And>d. ts_DenominationSats (T d) = d \<and> length (L d) = unat (ts_NextIndex (T d)) \<and>
        replay e [] [] 0 (L d) = Inr (ts_Root (T d), ts_FilledSubtrees (T d))"
    unfolding pool_rep_def by blast+
  have idx: "of_nat (length (L d)) = ?i" using tr [of d] by simp
  have eq: "of_nat j = ?i \<longleftrightarrow> j = length (L d)" if "j < Suc (length (L d))" for j
    using that tr [of d] bound by (auto simp: u64_eq_iff_unat unat_of_nat)
  have "unat (?i + 1) = Suc (unat ?i)" using bound by (subst unat_add_u64) simp_all
  moreover have "replay e [] [] 0 (L d @ [c]) = Inr (root, filled)"
    using tr [of d] app idx by (simp add: replay_snoc)
  moreover have "kv_get (kv_set (shielderDenominationLeafKey d ?i) (LeafCommitment c) lvs) k = Some v \<longleftrightarrow>
      (\<exists>d' i. i < length ((L(d := L d @ [c])) d') \<and> k = shielderDenominationLeafKey d' (of_nat i) \<and>
        v = LeafCommitment ((L(d := L d @ [c])) d' ! i))" (is "?l \<longleftrightarrow> (\<exists>d' i. ?r d' i)") for k v
  proof (cases "k = shielderDenominationLeafKey d ?i")
    case True
    have "?r d' i \<longleftrightarrow> d' = d \<and> i = length (L d) \<and> v = LeafCommitment c" for d' i
      using True eq [of i] idx by (auto simp: nth_append)
    with True show ?thesis by auto
  next
    case False
    have "?r d' i \<longleftrightarrow> i < length (L d') \<and> k = shielderDenominationLeafKey d' (of_nat i) \<and> v = LeafCommitment (L d' ! i)" for d' i
      using False idx by (auto simp: nth_append less_Suc_eq)
    with False show ?thesis by (simp add: get)
  qed
  ultimately show ?thesis using kv_ordered_set [OF ord] tr by (simp add: pool_rep_def)
qed

text \<open>One appended leaf, whichever loop appends it: the tree state of the denomination is the
  batch's own copy or the stored one, the leaf goes under its next index.\<close>

definition note_step :: "env \<Rightarrow> shielderNoteCommitment \<Rightarrow> tree_batch \<Rightarrow> kstate \<Rightarrow> tree_batch \<Rightarrow> kstate \<Rightarrow> bool" where
  "note_step e n b s b' t \<longleftrightarrow>
     (\<exists>st states1 touched1 root filled.
        loadShielderTreeState b (nc_DenominationSats n) s = (st, states1, touched1) \<and>
        e_append_leaf e (ts_FilledSubtrees st) (ts_NextIndex st) (TrimSpace (nc_Commitment n)) = Inr (root, filled) \<and>
        k_trees t = k_trees s \<and> k_roots t = k_roots s \<and>
        k_leaves t = kv_set (shielderDenominationLeafKey (nc_DenominationSats n) (ts_NextIndex st))
          (LeafCommitment (TrimSpace (nc_Commitment n))) (k_leaves s) \<and>
        b' = (states1(nc_DenominationSats n \<mapsto> st\<lparr>ts_NextIndex := ts_NextIndex st + 1,
             ts_FilledSubtrees := filled, ts_Root := root\<rparr>), touched1))"

lemma insertNote_step: "insertNote e (seen, b) n s = (Inr (seen', b'), t) \<Longrightarrow> note_step e n b s b' t"
  by (cases b, simp, erule insertNote_run) (auto simp: note_step_def)

lemma note_step_touched:
  assumes "note_step e n (states, touched) s (states', touched') t" and "batch_ok states touched"
  shows "set touched' = insert (nc_DenominationSats n) (set touched)" and "batch_ok states' touched'"
proof -
  from assms(1) obtain st states1 st' where ld: "loadShielderTreeState (states, touched) (nc_DenominationSats n) s = (st, states1, touched')"
    and r: "states' = states1(nc_DenominationSats n \<mapsto> st')" unfolding note_step_def by auto
  note load = load_batch [OF ld assms(2)]
  show "set touched' = insert (nc_DenominationSats n) (set touched)" by (rule load(3))
  show "batch_ok states' touched'" unfolding r load(2) using load(3) assms(2) by (simp add: batch_ok_def)
qed

context merkle_engine
begin

lemma note_step_rep:
  assumes run: "note_step e n (states, touched) s (states', touched') t"
    and rep: "pool_rep e (k_leaves s) (batch_tree states s) L" and ok: "batch_ok states touched"
  shows "pool_rep e (k_leaves t) (batch_tree states' t) (append_notes L [n])"
proof -
  let ?d = "nc_DenominationSats n" and ?c = "TrimSpace (nc_Commitment n)"
  from run obtain st states1 touched1 root filled
    where ld: "loadShielderTreeState (states, touched) ?d s = (st, states1, touched1)"
      and app: "e_append_leaf e (ts_FilledSubtrees st) (ts_NextIndex st) ?c = Inr (root, filled)"
      and t: "k_trees t = k_trees s"
        "k_leaves t = kv_set (shielderDenominationLeafKey ?d (ts_NextIndex st)) (LeafCommitment ?c) (k_leaves s)"
      and r: "states' = states1(?d \<mapsto> st\<lparr>ts_NextIndex := ts_NextIndex st + 1,
             ts_FilledSubtrees := filled, ts_Root := root\<rparr>)"
    unfolding note_step_def by auto
  note load = load_batch [OF ld ok]
  have L: "append_notes L [n] = L(?d := L ?d @ [?c])" by (auto simp: append_notes_def)
  have T: "batch_tree states' t = (batch_tree states s)(?d := st\<lparr>ts_NextIndex := ts_NextIndex st + 1,
             ts_FilledSubtrees := filled, ts_Root := root\<rparr>)"
    unfolding r load(2) using tree_of_cong [OF t(1)] by (simp add: batch_tree_def fun_eq_iff split: option.split)
  show ?thesis
    unfolding L T t(2) using pool_rep_append [OF rep] app append_bounded [OF app] by (simp add: load(1))
qed

text \<open>A loop whose every round appends one leaf.\<close>

lemma fold_step_rep:
  assumes step: "\<And>seen b x s seen' b' t. g (seen, b) x s = (Inr (seen', b'), t) \<Longrightarrow> note_step e (nt x) b s b' t"
  shows "foldA g (seen, states, touched) xs s = (Inr (seen', states', touched'), t) \<Longrightarrow>
   pool_rep e (k_leaves s) (batch_tree states s) L \<Longrightarrow> batch_ok states touched \<Longrightarrow>
   pool_rep e (k_leaves t) (batch_tree states' t) (append_notes L (map nt xs)) \<and> batch_ok states' touched'
   \<and> set touched \<union> nc_DenominationSats ` set (map nt xs) \<subseteq> set touched' \<and> k_roots t = k_roots s"
proof (induction xs arbitrary: seen states touched s L)
  case Nil
  then show ?case by (simp add: act_run append_notes_def)
next
  case (Cons x xs)
  from Cons.prems(1) obtain seen1 states1 touched1 s1
    where one: "g (seen, states, touched) x s = (Inr (seen1, states1, touched1), s1)"
      and rest: "foldA g (seen1, states1, touched1) xs s1 = (Inr (seen', states', touched'), t)"
    by (auto simp: bindA_run)
  note st = step [OF one]
  have "append_notes (append_notes L [nt x]) (map nt xs) = append_notes L (map nt (x # xs))"
    by (auto simp: append_notes_def)
  moreover have "k_roots s1 = k_roots s" using st by (auto simp: note_step_def)
  ultimately show ?case
    using Cons.IH [OF rest note_step_rep [OF st Cons.prems(2,3)] note_step_touched(2) [OF st Cons.prems(3)]]
      note_step_touched(1) [OF st Cons.prems(3)] by auto
qed

end

section \<open>Persisting a batch\<close>

lemma persist_trees:
  "persistShielderTreeStates states ds s = (Inr u, t) \<Longrightarrow> set ds \<subseteq> dom states \<Longrightarrow>
   (\<And>d st. states d = Some st \<Longrightarrow> ts_DenominationSats st = d) \<Longrightarrow>
   k_leaves t = k_leaves s \<and>
   (\<forall>d. tree_of t d = (if d \<in> set ds then the (states d) else tree_of s d)) \<and>
   (\<forall>d \<in> set ds. ShielderMerkleRootExists d (ts_Root (the (states d))) t) \<and>
   (\<forall>k. kv_has (k_roots s) k \<longrightarrow> kv_has (k_roots t) k)"
proof (induction ds arbitrary: s)
  case Nil
  then show ?case by (simp add: act_run)
next
  case (Cons d ds)
  from Cons.prems(2) obtain st where st: "states d = Some st" by auto
  with Cons.prems(3) have d: "ts_DenominationSats st = d" by simp
  from Cons.prems(1) st obtain s1 s2
    where w: "SetShielderTreeState st s = (Inr (), s1)"
      and r: "SetShielderMerkleRoot d (ts_Root st) s1 = (Inr (), s2)"
      and rest: "persistShielderTreeStates states ds s2 = (Inr u, t)"
    by (auto simp: act_run)
  from w have s1: "s1 = s\<lparr>k_trees := kv_set (shielderTreeStateKey d) st (k_trees s)\<rparr>"
    by (auto simp: SetShielderTreeState_def act_run d)
  from r have s2: "s2 = s1\<lparr>k_roots := kv_set (shielderMerkleRootKey d (ts_Root st)) True (k_roots s1)\<rparr>"
      and ne: "d \<noteq> 0" "TrimSpace (ts_Root st) \<noteq> []"
    by (auto simp: SetShielderMerkleRoot_def act_run)
  have tr: "tree_of s2 d' = (if d' = d then st else tree_of s d')" for d'
    by (auto simp: s1 s2 tree_of_def GetShielderTreeState_def shielderTreeStateKey_def)
  from Cons.IH [OF rest _ Cons.prems(3)] Cons.prems(2) tr ne st show ?case
    by (auto simp: s1 s2 ShielderMerkleRootExists_def)
qed

section \<open>The insertion of a batch refines the abstract append\<close>

context merkle_engine
begin

lemma batch_refines:
  assumes step: "\<And>seen b x s seen' b' t. g (seen, b) x s = (Inr (seen', b'), t) \<Longrightarrow> note_step e (nt x) b s b' t"
    and run: "bindA (foldA g ([], Map.empty, []) xs) (\<lambda>(seen, states, touched). persistShielderTreeStates states touched) s
      = (Inr u, t)" and ok: "pool_ok e s L"
  shows "pool_ok e t (append_notes L (map nt xs))"
    and "n \<in> set (map nt xs) \<Longrightarrow> ShielderMerkleRootExists (nc_DenominationSats n) (ts_Root (tree_of t (nc_DenominationSats n))) t"
    and "kv_has (k_roots s) k \<Longrightarrow> kv_has (k_roots t) k"
proof -
  from run obtain seen states touched s1
    where fold: "foldA g ([], Map.empty, []) xs s = (Inr (seen, states, touched), s1)"
      and rest: "persistShielderTreeStates states touched s1 = (Inr u, t)"
    by (auto simp: act_run split: prod.splits)
  have e0: "batch_tree Map.empty s = tree_of s" by (simp add: batch_tree_def fun_eq_iff)
  have "pool_rep e (k_leaves s1) (batch_tree states s1) (append_notes L (map nt xs)) \<and> batch_ok states touched
      \<and> set [] \<union> nc_DenominationSats ` set (map nt xs) \<subseteq> set touched \<and> k_roots s1 = k_roots s"
    by (rule fold_step_rep [OF step fold]) (use ok in \<open>simp_all add: pool_ok_def e0 batch_ok_def\<close>)
  then have rep: "pool_rep e (k_leaves s1) (batch_tree states s1) (append_notes L (map nt xs))"
    and bok: "batch_ok states touched" and tch: "nc_DenominationSats ` set (map nt xs) \<subseteq> set touched"
    and roots: "k_roots s1 = k_roots s" by auto
  have den: "ts_DenominationSats st = d" if "states d = Some st" for d st
  proof -
    from rep have "ts_DenominationSats (batch_tree states s1 d) = d" by (simp add: pool_rep_def)
    with that show ?thesis by (simp add: batch_tree_def)
  qed
  have per: "k_leaves t = k_leaves s1 \<and>
     (\<forall>d. tree_of t d = (if d \<in> set touched then the (states d) else tree_of s1 d)) \<and>
     (\<forall>d \<in> set touched. ShielderMerkleRootExists d (ts_Root (the (states d))) t) \<and>
     (\<forall>k. kv_has (k_roots s1) k \<longrightarrow> kv_has (k_roots t) k)"
    using bok den by (intro persist_trees [OF rest]) (auto simp: batch_ok_def)
  have bt: "tree_of t = batch_tree states s1"
    using per bok by (auto simp: batch_tree_def batch_ok_def fun_eq_iff split: option.splits)
  show "pool_ok e t (append_notes L (map nt xs))" using rep per by (simp add: pool_ok_def bt)
  show "ShielderMerkleRootExists (nc_DenominationSats n) (ts_Root (tree_of t (nc_DenominationSats n))) t"
    if "n \<in> set (map nt xs)" using per tch that by (metis image_subset_iff)
  show "kv_has (k_roots s) k \<Longrightarrow> kv_has (k_roots t) k" using per roots by simp
qed

lemma insert_refines:
  assumes run: "insertShielderCommitments e nts s = (Inr u, t)" and ok: "pool_ok e s L"
  shows "pool_ok e t (append_notes L nts)"
    and "n \<in> set nts \<Longrightarrow> ShielderMerkleRootExists (nc_DenominationSats n) (ts_Root (tree_of t (nc_DenominationSats n))) t"
    and "kv_has (k_roots s) k \<Longrightarrow> kv_has (k_roots t) k"
  using batch_refines [of "insertNote e" "\<lambda>n. n", OF insertNote_step run [unfolded insertShielderCommitments_def] ok] by simp_all

end

end
