(* ===== verification/Fees.thy ===== *)
theory Fees
  imports Pool
begin

text \<open>
  Fees (\<^verbatim>\<open>x/thornado/shielder_flow.go\<close>): the withdrawal fee, the fee pool that accrues per node
  slot, the split of a slot's share between the operator and the bonders, and the claim that
  turns accrued fees into shielded notes. The 128-bit product and division of \<^verbatim>\<open>math/bits\<close> and
  the truncating \<^verbatim>\<open>big.Int.Uint64\<close> are modelled on the words they return.
\<close>

section \<open>Withdrawal fee\<close>

definition Mul64 :: "u64 \<Rightarrow> u64 \<Rightarrow> u64 \<times> u64" where
  "Mul64 x y = (let p = unat x * unat y in (of_nat (p div 2 ^ 64), of_nat (p mod 2 ^ 64)))"

definition Div64 :: "u64 \<Rightarrow> u64 \<Rightarrow> u64 \<Rightarrow> (u64 \<times> u64) result" where
  "Div64 hi lo y =
     (if y = 0 then Inl (Panic ''integer divide by zero'')
      else if y \<le> hi then Inl (Panic ''integer overflow'')
      else let d = unat hi * 2 ^ 64 + unat lo in Inr (of_nat (d div unat y), of_nat (d mod unat y)))"

definition withdrawalFeeSatsForBp :: "u64 \<Rightarrow> u64 \<Rightarrow> u64 result" where
  "withdrawalFeeSatsForBp amountSats feeBp =
     (case Mul64 amountSats feeBp of (hi, lo) \<Rightarrow>
      (case Div64 0 hi 10000 of
         Inl e \<Rightarrow> Inl e
       | Inr (q1, r1) \<Rightarrow>
           (case Div64 r1 lo 10000 of
              Inl e \<Rightarrow> Inl e
            | Inr (q0, _) \<Rightarrow> Inr (push_bit 32 (push_bit 32 q1) + q0))))"

definition withdrawalFeeBp :: "kstate \<Rightarrow> u64" where
  "withdrawalFeeBp s = ConfigUint64 Withdrawal_FeeBasisPoints s"

definition withdrawalFeeSats :: "u64 \<Rightarrow> kstate \<Rightarrow> u64 result" where
  "withdrawalFeeSats amountSats s = withdrawalFeeSatsForBp amountSats (withdrawalFeeBp s)"

section \<open>The fee pool\<close>

definition setDistributedFeePool :: "FeePool \<Rightarrow> unit kact" where
  "setDistributedFeePool pool =
     bindA (gets (ConfigUint64 Shielder_NoteAmountMinSats)) (\<lambda>minNote.
     if fp_PendingSats pool \<noteq> 0 \<and> fp_TotalSlots pool \<noteq> 0 then
       if minNote \<noteq> 0 \<and> fp_PendingSats pool < minNote * fp_TotalSlots pool then SetFeePool pool
       else
         let increment = fp_PendingSats pool div fp_TotalSlots pool in
         if increment \<noteq> 0 then
           let distributed = increment * fp_TotalSlots pool in
           SetFeePool (pool\<lparr>fp_FeePerSlotShare := fp_FeePerSlotShare pool + increment,
             fp_PendingSats := fp_PendingSats pool - distributed\<rparr>)
         else SetFeePool pool
     else SetFeePool pool)"

definition addWithdrawalFee :: "u64 \<Rightarrow> unit kact" where
  "addWithdrawalFee amountSats =
     (if amountSats = 0 then ret ()
      else bindA (gets GetFeePool) (\<lambda>pool.
        setDistributedFeePool (pool\<lparr>fp_PendingSats := fp_PendingSats pool + amountSats,
          fp_TotalCollectedSats := fp_TotalCollectedSats pool + amountSats\<rparr>)))"

definition distributeFeePool :: "FeePool kact" where
  "distributeFeePool =
     bindA (gets GetFeePool) (\<lambda>pool.
     bindA (setDistributedFeePool pool) (\<lambda>_. gets GetFeePool))"

section \<open>A node's share\<close>

definition feeShareScale :: "kstate \<Rightarrow> u64" where
  "feeShareScale s = (let scale = ConfigUint64 Shielder_FeeShareScale s in if scale = 0 then 1 else scale)"

definition operatorCut :: "ShielderNodeBond \<Rightarrow> FeePool \<Rightarrow> u64" where
  "operatorCut bond pool =
     (fp_FeePerSlotShare pool - nb_FeeDebtSats bond) * nb_OperatorFeeBasisPoints bond div 10000"

definition bonderCut :: "ShielderNodeBond \<Rightarrow> FeePool \<Rightarrow> u64" where
  "bonderCut bond pool = (fp_FeePerSlotShare pool - nb_FeeDebtSats bond) - operatorCut bond pool"

definition settleNodeFeeShare :: "ShielderNodeBond \<Rightarrow> FeePool \<Rightarrow> kstate \<Rightarrow> ShielderNodeBond" where
  "settleNodeFeeShare bond pool s =
     (if \<not> nb_FeeShareActive bond \<or> fp_FeePerSlotShare pool \<le> nb_FeeDebtSats bond then bond
      else
        let oc = operatorCut bond pool; bc = bonderCut bond pool;
            bond1 = (if nb_BondSats bond \<noteq> 0 \<and> bc \<noteq> 0 then
              let scaled = unat bc * unat (feeShareScale s) + unat (nb_FeePerBondShareRemainder bond);
                  divisor = unat (nb_BondSats bond)
              in bond\<lparr>nb_FeePerBondShare := nb_FeePerBondShare bond + of_nat (scaled div divisor),
                     nb_FeePerBondShareRemainder := of_nat (scaled mod divisor)\<rparr>
              else bond)
        in bond1\<lparr>nb_OperatorFeeAccruedSats := nb_OperatorFeeAccruedSats bond1 + oc,
                 nb_FeeDebtSats := fp_FeePerSlotShare pool, nb_UpdatedHeight := k_height s\<rparr>)"

definition nodeBonderClaimableSats :: "ShielderNodeBond \<Rightarrow> ShielderNodeBonder \<Rightarrow> kstate \<Rightarrow> u64" where
  "nodeBonderClaimableSats bond bonder s =
     (if br_PrincipalSats bonder = 0 \<or> nb_FeePerBondShare bond \<le> br_FeeDebtShare bonder then 0
      else of_nat (unat (br_PrincipalSats bonder) * unat (nb_FeePerBondShare bond - br_FeeDebtShare bonder)
             div unat (feeShareScale s)))"

definition weightedFeeDebtShare :: "u64 \<Rightarrow> u64 \<Rightarrow> u64 \<Rightarrow> u64 \<Rightarrow> u64" where
  "weightedFeeDebtShare existingPrincipal existingDebtShare addedPrincipal addedDebtShare =
     (let totalPrincipal = existingPrincipal + addedPrincipal in
      if totalPrincipal = 0 then addedDebtShare
      else of_nat ((unat existingPrincipal * unat existingDebtShare + unat addedPrincipal * unat addedDebtShare)
             div unat totalPrincipal))"

definition nodeBondOperatorAddress :: "env \<Rightarrow> ShielderNodeBond \<Rightarrow> AccAddress result" where
  "nodeBondOperatorAddress e bond = GetThorAddress e (nb_OperatorPubKey bond)"

definition MaxNodeOperatorFeeBasisPoints :: u64 where
  "MaxNodeOperatorFeeBasisPoints = 10000"

definition SetNodeOperatorFeeBasisPoints :: "env \<Rightarrow> AccAddress \<Rightarrow> string \<Rightarrow> u64 \<Rightarrow> ShielderNodeBond kact" where
  "SetNodeOperatorFeeBasisPoints e signer nodePubKey feeBasisPoints =
     err_if (signer = []) ''missing node operator signer''
    (err_if (feeBasisPoints > MaxNodeOperatorFeeBasisPoints) ''node operator fee basis points must be <= max''
    (bindA (gets (GetShielderNodeBond nodePubKey)) (\<lambda>bond.
     err_if (TrimSpace (nb_NodePubKey bond) = []) ''shielder node bond not found''
    (bindA (lift_wrap ''invalid node operator address'' (nodeBondOperatorAddress e bond)) (\<lambda>operatorAddress.
     err_if (signer \<noteq> operatorAddress) ''node operator signer mismatch''
    (bindA distributeFeePool (\<lambda>pool.
     bindA (gets (settleNodeFeeShare bond pool)) (\<lambda>bond1.
     bindA (gets k_height) (\<lambda>h.
     let bond2 = bond1\<lparr>nb_OperatorFeeBasisPoints := feeBasisPoints, nb_UpdatedHeight := h\<rparr> in
     bindA (SetShielderNodeBond bond2) (\<lambda>_. ret bond2))))))))))"

section \<open>Claiming fees into notes\<close>

definition join :: "string \<Rightarrow> string list \<Rightarrow> string" where
  "join sep parts = (case parts of [] \<Rightarrow> [] | p # ps \<Rightarrow> p @ concat (map (\<lambda>q. sep @ q) ps))"

definition shielderFeeDepositID :: "env \<Rightarrow> string \<Rightarrow> AccAddress \<Rightarrow> u64 \<Rightarrow> int \<Rightarrow> TxID result" where
  "shielderFeeDepositID e nodePubKey owner accrued height =
     NewTxID (EncodeUpper (e_sha256 e (''thornado:fee-shield:v1|'' @ nodePubKey @ ''|'' @ e_acc_string e owner
       @ ''|'' @ show_u64 accrued @ ''|'' @ show_int height)))"

fun fee_note_pubkeys :: "string list \<Rightarrow> string list \<Rightarrow> string list result" where
  "fee_note_pubkeys [] result = Inr result"
| "fee_note_pubkeys (item # rest) result =
     (let pubKey = TrimSpace item in
      if pubKey = [] then Inl (Errorf ''missing shielder fee note pubkey'')
      else if DecodeString pubKey = None \<or> length pubKey \<noteq> 66 then Inl (Errorf ''invalid shielder fee note pubkey'')
      else if pubKey \<in> set result then Inl (Errorf ''duplicate shielder fee note pubkey'')
      else fee_note_pubkeys rest (result @ [pubKey]))"

definition parseShielderFeeNotePubKeys :: "string list \<Rightarrow> nat \<Rightarrow> string list result" where
  "parseShielderFeeNotePubKeys raw expected =
     (if length raw \<noteq> expected then Inl (Errorf ''shielder fee note pubkey count mismatch'')
      else fee_note_pubkeys raw [])"

definition shielderFeeClaimPayload ::
  "env \<Rightarrow> string \<Rightarrow> AccAddress \<Rightarrow> u64 \<Rightarrow> u64 \<Rightarrow> shielderNoteCommitment list \<Rightarrow> string list \<Rightarrow> string" where
  "shielderFeeClaimPayload e nodePubKey owner accrued feePerSlotShare nts notePubKeys =
     e_sha256 e (join ''|'' ([''thornado:fee-claim:v1'', nodePubKey, e_acc_string e owner,
       show_u64 accrued, show_u64 feePerSlotShare] @
       map (\<lambda>(note, pk). show_u64 (nc_DenominationSats note) @ '':'' @ nc_Commitment note @ '':'' @ TrimSpace pk)
         (zip nts notePubKeys)))"

definition secp256k1_order :: nat where
  "secp256k1_order = 0xFFFFFFFFFFFFFFFFFFFFFFFFFFFFFFFEBAAEDCE6AF48A03BBFD25E8CD0364141"

definition be_value :: "string \<Rightarrow> nat" where
  "be_value b = foldl (\<lambda>v c. v * 256 + of_char c) 0 b"

definition verifySecp256K1SignaturePayload :: "env \<Rightarrow> PubKey \<Rightarrow> string \<Rightarrow> string \<Rightarrow> unit result" where
  "verifySecp256K1SignaturePayload e pk sig payload =
     (if length sig \<noteq> 64 then Inl (Errorf ''invalid secp256k1 signature length'')
      else if be_value (take 32 sig) \<ge> secp256k1_order \<or> be_value (drop 32 sig) \<ge> secp256k1_order
        then Inl (Errorf ''signature scalar out of range'')
      else if be_value (drop 32 sig) > secp256k1_order div 2 then Inl (Errorf ''high-S signature rejected'')
      else case e_pubkey_from_bech32 e AccPub pk of
        Inl err \<Rightarrow> Inl (Wrapf ''fail to get secp256k1 pubkey'' err)
      | Inr spk \<Rightarrow> if e_verify_sig e spk sig payload then Inr () else Inl (Errorf ''signature verification failed''))"

text \<open>One round of the insertion loop of \<^verbatim>\<open>ShieldShielderFees\<close>.\<close>

definition insertFeeNote ::
  "env \<Rightarrow> string list \<times> tree_batch \<Rightarrow> shielderNoteCommitment \<times> string \<Rightarrow> (string list \<times> tree_batch) kact" where
  "insertFeeNote e acc notePk =
     (case acc of (seen, batch) \<Rightarrow> case notePk of (note, pk) \<Rightarrow>
      let c = nc_Commitment note; d = nc_DenominationSats note in
      err_if (c = []) ''empty shielder fee commitment''
     (err_if (c \<in> set seen) ''duplicate shielder fee commitment''
     (bindA (gets (ShielderCommitmentExists c)) (\<lambda>exists.
      err_if exists ''shielder fee commitment already exists''
     (bindA (gets (ShielderFeeNotePubKeyUsed pk)) (\<lambda>used.
      err_if used ''shielder fee note pubkey already used''
     (bindA (gets (loadShielderTreeState batch d)) (\<lambda>(st, states, touched).
      let index = ts_NextIndex st in
      bindA (lift_result (AppendShielderMerkleLeaf e (ts_FilledSubtrees st) index c)) (\<lambda>(root, filled).
      bindA (SetShielderCommitment c) (\<lambda>_.
      bindA (SetShielderDenominationLeaf d index c) (\<lambda>_.
      bindA (SetShielderFeeNotePubKey pk) (\<lambda>_.
      bindA (gets k_height) (\<lambda>h.
      bindA (SetShielderNoteRecord \<lparr>nr_Commitment = c, nr_DenominationSats = d, nr_CreatedHeight = h,
               nr_LeafIndex = index\<rparr>) (\<lambda>_.
      ret (c # seen, states(d \<mapsto> st\<lparr>ts_NextIndex := index + 1, ts_FilledSubtrees := filled, ts_Root := root\<rparr>),
           touched)))))))))))))))"

definition insertFeeNotes :: "env \<Rightarrow> (shielderNoteCommitment \<times> string) list \<Rightarrow> unit kact" where
  "insertFeeNotes e nps =
     bindA (foldA (insertFeeNote e) ([], (Map.empty, [])) nps) (\<lambda>(seen, states, touched).
       persistShielderTreeStates states touched)"

text \<open>
  The claim up to the deposit it amounts to: the settled bond, the pool, the bonder, the two
  parts of the claim. The state-changing part of it is the distribution of the pool.
\<close>

definition feeClaim ::
  "env \<Rightarrow> AccAddress \<Rightarrow> string \<Rightarrow> (ShielderNodeBond \<times> FeePool \<times> ShielderNodeBonder \<times> bool \<times> u64 \<times> u64) kact" where
  "feeClaim e owner nodePubKey =
     bindA (gets (GetShielderNodeBond nodePubKey)) (\<lambda>bond0.
     err_if (nb_NodePubKey bond0 = [] \<or> \<not> nb_FeeShareActive bond0) ''shielder node has no confirmed bond''
    (bindA distributeFeePool (\<lambda>pool.
     bindA (gets (settleNodeFeeShare bond0 pool)) (\<lambda>bond.
     bindA (lift_wrap ''invalid node operator address'' (nodeBondOperatorAddress e bond)) (\<lambda>operatorAddress.
     bindA (gets (GetShielderNodeBonder e nodePubKey owner)) (\<lambda>bonder.
     let isBonder = (br_Bonder bonder \<noteq> [] \<and> br_PrincipalSats bonder \<noteq> 0);
         isOperator = (owner = operatorAddress) in
     err_if (\<not> isBonder \<and> \<not> isOperator) ''shielder fee owner mismatch''
    (err_if (isBonder \<and> \<not> TxID_IsEmpty (br_PendingFeeDepositID bonder))
       ''shielder bonder fee settlement already pending shield''
    (err_if (isOperator \<and> \<not> TxID_IsEmpty (nb_PendingOperatorFeeDepositID bond))
       ''shielder operator fee settlement already pending shield''
    (bindA (gets (nodeBonderClaimableSats bond bonder)) (\<lambda>claimable.
     let bonderClaimSats = (if isBonder then claimable else 0);
         operatorClaimSats = (if isOperator then nb_OperatorFeeAccruedSats bond else 0);
         claimSats = bonderClaimSats + operatorClaimSats in
     err_if (claimSats = 0) ''no shielder fees claimable''
    (err_if (fp_TotalClaimedSats pool > fp_TotalCollectedSats pool
        \<or> claimSats > fp_TotalCollectedSats pool - fp_TotalClaimedSats pool)
       ''shielder fee claim exceeds available fees''
     (ret (bond, pool, bonder, isOperator, bonderClaimSats, operatorClaimSats)))))))))))))"

definition ShieldShielderFees ::
  "env \<Rightarrow> AccAddress \<Rightarrow> string \<Rightarrow> string \<Rightarrow> string list \<Rightarrow> string list \<Rightarrow> DepositRecord kact" where
  "ShieldShielderFees e owner nodePubKey operatorSignature commitments feeNotePubKeys =
     err_if (owner = []) ''missing shielder fee owner''
    (err_if (commitments = []) ''missing shielder fee commitments''
    (bindA (feeClaim e owner nodePubKey) (\<lambda>(bond, pool, bonder, isOperator, bonderClaimSats, operatorClaimSats).
     bindA (gets k_height) (\<lambda>h.
     bindA (lift_result (shielderFeeDepositID e nodePubKey owner (fp_FeePerSlotShare pool) h)) (\<lambda>depositID.
     let amount = bonderClaimSats + operatorClaimSats in
     bindA (lift_result (parseShielderNoteCommitments e commitments amount False)) (\<lambda>nts0.
     bindA (gets (applyShielderNoteFloor nts0 amount False)) (\<lambda>r.
     bindA (lift_result r) (\<lambda>(nts, floorRemainder).
     let claimSats = (if floorRemainder > 0 then amount - floorRemainder else amount) in
     bindA (lift_result (parseShielderFeeNotePubKeys feeNotePubKeys (length nts))) (\<lambda>notePubKeys.
     err_if (shielderNoteCommitmentTotal nts \<noteq> claimSats)
       ''shielder fee commitment denominations do not match claim amount''
    (bindA (if operatorSignature \<noteq> [] \<and> isOperator
            then lift_wrap ''invalid shielder fee operator signature''
              (verifySecp256K1SignaturePayload e (nb_OperatorPubKey bond) operatorSignature
                (shielderFeeClaimPayload e nodePubKey owner (fp_FeePerSlotShare pool) (fp_FeePerSlotShare pool) nts notePubKeys))
            else err_if (operatorSignature \<noteq> [] \<and> \<not> isOperator)
              ''bonder fee claims must not include an operator signature'' (ret ())) (\<lambda>_.
     bindA (insertFeeNotes e (zip nts notePubKeys)) (\<lambda>_.
     bindA (if bonderClaimSats \<noteq> 0
            then SetShielderNodeBonder e (bonder\<lparr>br_FeeDebtShare := nb_FeePerBondShare bond, br_UpdatedHeight := h\<rparr>)
            else ret ()) (\<lambda>_.
     let bond1 = bond\<lparr>nb_OperatorFeeAccruedSats := nb_OperatorFeeAccruedSats bond - operatorClaimSats,
           nb_UpdatedHeight := h\<rparr>;
         deposit = DepositRecord_zero\<lparr>dr_DepositID := depositID, dr_Owner := owner, dr_AmountSats := claimSats,
           dr_DepositAddress := NoopAddress, dr_MatchedHeight := h, dr_Status := DepositStatusCommitted,
           dr_Settlement := DepositSettlementOperatorFee\<rparr> in
     bindA (SetDepositRecord deposit) (\<lambda>_.
     bindA (SetShielderNodeBond bond1) (\<lambda>_.
     bindA (SetFeePool (pool\<lparr>fp_TotalClaimedSats := fp_TotalClaimedSats pool + claimSats\<rparr>)) (\<lambda>_.
     bindA (if floorRemainder > 0 then addWithdrawalFee floorRemainder else ret ()) (\<lambda>_.
     ret deposit)))))))))))))))))"

section \<open>The withdrawal fee is exact\<close>

lemma long_division:
  fixes p m y :: nat
  assumes "y \<noteq> 0"
  shows "p div y = (p div m div y) * m + ((p div m mod y) * m + p mod m) div y"
proof -
  let ?hi = "p div m"
  have "p = (?hi div y * y + ?hi mod y) * m + p mod m" by simp
  moreover have "(?hi div y * y + ?hi mod y) * m + p mod m = (?hi mod y * m + p mod m) + (?hi div y * m) * y"
    by (simp only: add_mult_distrib add_mult_distrib2 mult_ac add_ac)
  ultimately have "p = (?hi mod y * m + p mod m) + (?hi div y * m) * y" by (rule trans)
  then have "p div y = ((?hi mod y * m + p mod m) + (?hi div y * m) * y) div y" by simp
  also have "\<dots> = ?hi div y * m + (?hi mod y * m + p mod m) div y" using assms by simp
  finally show ?thesis .
qed

lemma withdrawalFee_value:
  "withdrawalFeeSatsForBp a bp = Inr (of_nat (unat a * unat bp div 10000))"
proof -
  let ?p = "unat a * unat bp"
  let ?hi = "?p div 2 ^ 64" and ?lo = "?p mod 2 ^ 64"
  have "?p < 2 ^ 64 * 2 ^ 64"
    using unat_lt_64 [of a] unat_lt_64 [of bp] by (intro mult_strict_mono') simp_all
  then have hi: "unat (of_nat ?hi :: u64) = ?hi" by (simp add: unat_of_nat less_mult_imp_div_less)
  have lo: "unat (of_nat ?lo :: u64) = ?lo" by (simp add: unat_of_nat)
  have ten: "unat (10000 :: u64) = 10000" by simp
  have r1: "unat (of_nat (?hi mod 10000) :: u64) = ?hi mod 10000"
    by (rule unat_of_nat_u64) (rule less_trans [OF mod_less_divisor], simp_all)
  have small: "of_nat (?hi mod 10000) < (10000 :: u64)" unfolding word_less_nat_alt r1 ten by simp
  have d1: "Div64 0 (of_nat ?hi) 10000 = Inr (of_nat (?hi div 10000), of_nat (?hi mod 10000))"
    using hi by (simp add: Div64_def Let_def del: of_nat_mult)
  have d0: "\<exists>r. Div64 (of_nat (?hi mod 10000)) (of_nat ?lo) 10000
      = Inr (of_nat ((?hi mod 10000 * 2 ^ 64 + ?lo) div 10000), r)"
    unfolding Div64_def Let_def r1 lo using small by simp
  have q1: "push_bit 32 (push_bit 32 (x :: u64)) = 0" for x
    by (rule bit_word_eqI) (simp add: bit_simps)
  have "?p div 10000 = ?hi div 10000 * 2 ^ 64 + (?hi mod 10000 * 2 ^ 64 + ?lo) div 10000"
    by (rule long_division) simp
  then have "of_nat (?p div 10000) = (of_nat (?hi div 10000) * 2 ^ 64 + of_nat ((?hi mod 10000 * 2 ^ 64 + ?lo) div 10000) :: u64)"
    by (simp only: of_nat_add of_nat_mult of_nat_numeral of_nat_power)
  moreover have "(2 ^ 64 :: u64) = 0" unfolding exp_eq_zero_iff by simp
  ultimately have eq: "of_nat (?p div 10000) = (of_nat ((?hi mod 10000 * 2 ^ 64 + ?lo) div 10000) :: u64)"
    by (simp only: mult_zero_right add_0)
  show ?thesis
    using d1 d0 by (auto simp: withdrawalFeeSatsForBp_def Mul64_def Let_def q1 eq simp del: of_nat_mult)
qed

lemma withdrawalFee_exact:
  assumes "unat bp \<le> 10000"
  shows "\<exists>fee. withdrawalFeeSatsForBp a bp = Inr fee \<and> unat fee = unat a * unat bp div 10000 \<and> fee \<le> a"
proof -
  have "unat a * unat bp \<le> unat a * 10000" using assms by simp
  then have le: "unat a * unat bp div 10000 \<le> unat a"
    by (metis div_le_mono nonzero_mult_div_cancel_right zero_neq_numeral)
  then have "unat (of_nat (unat a * unat bp div 10000) :: u64) = unat a * unat bp div 10000"
    by (intro unat_of_nat_u64 le_less_trans [OF le]) simp
  with le show ?thesis unfolding withdrawalFee_value by (auto simp: word_le_nat_alt simp del: of_nat_mult)
qed

section \<open>The fee pool conserves what it collects\<close>

text \<open>What is in the pool, exactly: pending, plus the share of every slot.\<close>

definition pool_value :: "FeePool \<Rightarrow> nat" where
  "pool_value p = unat (fp_PendingSats p) + unat (fp_TotalSlots p) * unat (fp_FeePerSlotShare p)"

lemma setDistributed_total: "\<exists>p'. setDistributedFeePool p s = (Inr (), s\<lparr>k_fee_pool := Some p'\<rparr>)"
  by (auto simp: setDistributedFeePool_def bindA_def gets_def SetFeePool_def modify_def Let_def)

lemma setDistributed_run:
  assumes "setDistributedFeePool p s = (Inr u, t)"
    and noovf: "unat (fp_FeePerSlotShare p) + unat (fp_PendingSats p) < 2 ^ 64"
  shows "pool_value (GetFeePool t) = pool_value p"
    and "fp_TotalSlots (GetFeePool t) = fp_TotalSlots p"
    and "fp_TotalCollectedSats (GetFeePool t) = fp_TotalCollectedSats p"
    and "fp_TotalClaimedSats (GetFeePool t) = fp_TotalClaimedSats p"
    and "t = s\<lparr>k_fee_pool := Some (GetFeePool t)\<rparr>"
proof -
  let ?P = "unat (fp_PendingSats p)" and ?S = "unat (fp_TotalSlots p)" and ?F = "unat (fp_FeePerSlotShare p)"
  let ?i = "fp_PendingSats p div fp_TotalSlots p"
  let ?p1 = "p\<lparr>fp_FeePerSlotShare := fp_FeePerSlotShare p + ?i, fp_PendingSats := fp_PendingSats p - ?i * fp_TotalSlots p\<rparr>"
  have i: "unat ?i = ?P div ?S" by (simp add: unat_div)
  have prod: "unat (?i * fp_TotalSlots p) = ?P div ?S * ?S"
    by (subst unat_mult_u64) (auto simp: i intro: le_less_trans [OF div_times_less_eq_dividend])
  have pend: "unat (fp_PendingSats p - ?i * fp_TotalSlots p) = ?P mod ?S"
    by (subst unat_sub_u64) (auto simp: word_le_nat_alt prod minus_div_mult_eq_mod)
  have share: "unat (fp_FeePerSlotShare p + ?i) = ?F + ?P div ?S"
    using noovf by (subst unat_add_u64) (auto simp: i intro: le_less_trans [OF add_left_mono [OF div_le_dividend]])
  have v: "pool_value ?p1 = pool_value p"
    by (simp add: pool_value_def pend share) (simp add: distrib_left mult.commute)
  from assms(1) have "GetFeePool t \<in> {p, ?p1} \<and> t = s\<lparr>k_fee_pool := Some (GetFeePool t)\<rparr>"
    by (auto simp: setDistributedFeePool_def act_run SetFeePool_def GetFeePool_def Let_def split: if_splits)
  with v show "pool_value (GetFeePool t) = pool_value p"
    and "fp_TotalSlots (GetFeePool t) = fp_TotalSlots p"
    and "fp_TotalCollectedSats (GetFeePool t) = fp_TotalCollectedSats p"
    and "fp_TotalClaimedSats (GetFeePool t) = fp_TotalClaimedSats p"
    and "t = s\<lparr>k_fee_pool := Some (GetFeePool t)\<rparr>"
    by auto
qed

lemma addWithdrawalFee_run:
  assumes run: "addWithdrawalFee a s = (Inr u, t)" and p: "p = GetFeePool s"
    and noovf: "unat (fp_FeePerSlotShare p) + unat (fp_PendingSats p) + unat a < 2 ^ 64"
      "unat (fp_TotalCollectedSats p) + unat a < 2 ^ 64"
  shows "pool_value (GetFeePool t) = pool_value p + unat a"
    and "unat (fp_TotalCollectedSats (GetFeePool t)) = unat (fp_TotalCollectedSats p) + unat a"
    and "fp_TotalClaimedSats (GetFeePool t) = fp_TotalClaimedSats p"
proof -
  let ?q = "p\<lparr>fp_PendingSats := fp_PendingSats p + a, fp_TotalCollectedSats := fp_TotalCollectedSats p + a\<rparr>"
  have pend: "unat (fp_PendingSats p + a) = unat (fp_PendingSats p) + unat a"
    using noovf(1) by (intro unat_add_u64) simp
  have coll: "unat (fp_TotalCollectedSats p + a) = unat (fp_TotalCollectedSats p) + unat a"
    using noovf(2) by (intro unat_add_u64) simp
  consider "a = 0" "t = s" | "setDistributedFeePool ?q s = (Inr u, t)"
    using run by (auto simp: addWithdrawalFee_def act_run p split: if_splits)
  then have "pool_value (GetFeePool t) = pool_value p + unat a
    \<and> unat (fp_TotalCollectedSats (GetFeePool t)) = unat (fp_TotalCollectedSats p) + unat a
    \<and> fp_TotalClaimedSats (GetFeePool t) = fp_TotalClaimedSats p"
  proof cases
    case 2
    have "unat (fp_FeePerSlotShare ?q) + unat (fp_PendingSats ?q) < 2 ^ 64" using noovf(1) pend by simp
    note d = setDistributed_run [OF 2 this]
    show ?thesis using d(1,3,4) by (simp add: pool_value_def pend coll)
  qed (simp add: p)
  then show "pool_value (GetFeePool t) = pool_value p + unat a"
    and "unat (fp_TotalCollectedSats (GetFeePool t)) = unat (fp_TotalCollectedSats p) + unat a"
    and "fp_TotalClaimedSats (GetFeePool t) = fp_TotalClaimedSats p" by auto
qed

section \<open>The split of a slot's share\<close>

lemma unat_of_nat_le: "unat (of_nat n :: u64) \<le> n"
  by (simp add: unat_of_nat)

definition gross_share :: "ShielderNodeBond \<Rightarrow> FeePool \<Rightarrow> nat" where
  "gross_share bond pool = unat (fp_FeePerSlotShare pool) - unat (nb_FeeDebtSats bond)"

definition operator_share :: "ShielderNodeBond \<Rightarrow> FeePool \<Rightarrow> nat" where
  "operator_share bond pool = gross_share bond pool * unat (nb_OperatorFeeBasisPoints bond) div 10000"

text \<open>What the per-unit share of a bond is worth in units of \<open>1 / scale\<close> sats, remainder included.\<close>

definition bond_share_value :: "ShielderNodeBond \<Rightarrow> nat" where
  "bond_share_value b = unat (nb_BondSats b) * unat (nb_FeePerBondShare b) + unat (nb_FeePerBondShareRemainder b)"

lemma cuts_exact:
  assumes le: "nb_FeeDebtSats bond \<le> fp_FeePerSlotShare pool"
    and bp: "unat (nb_OperatorFeeBasisPoints bond) \<le> 10000"
    and noovf: "gross_share bond pool * unat (nb_OperatorFeeBasisPoints bond) < 2 ^ 64"
  shows "unat (operatorCut bond pool) = operator_share bond pool"
    and "unat (bonderCut bond pool) = gross_share bond pool - operator_share bond pool"
    and "operator_share bond pool \<le> gross_share bond pool"
proof -
  have g: "unat (fp_FeePerSlotShare pool - nb_FeeDebtSats bond) = gross_share bond pool"
    using le by (simp add: gross_share_def unat_sub_u64)
  have p: "unat ((fp_FeePerSlotShare pool - nb_FeeDebtSats bond) * nb_OperatorFeeBasisPoints bond)
      = gross_share bond pool * unat (nb_OperatorFeeBasisPoints bond)"
    using noovf by (subst unat_mult_u64) (simp_all add: g)
  show oc: "unat (operatorCut bond pool) = operator_share bond pool"
    by (simp add: operatorCut_def operator_share_def unat_div p)
  have "gross_share bond pool * unat (nb_OperatorFeeBasisPoints bond) \<le> gross_share bond pool * 10000"
    using bp by simp
  then show le2: "operator_share bond pool \<le> gross_share bond pool"
    unfolding operator_share_def by (metis div_le_mono nonzero_mult_div_cancel_right zero_neq_numeral)
  have "operatorCut bond pool \<le> fp_FeePerSlotShare pool - nb_FeeDebtSats bond"
    using le2 by (simp add: word_le_nat_alt oc g)
  then show "unat (bonderCut bond pool) = gross_share bond pool - operator_share bond pool"
    by (simp add: bonderCut_def unat_sub_u64 g oc)
qed

text \<open>The side conditions under which the 64-bit accumulators of a bond do not wrap.\<close>

definition settle_fits :: "ShielderNodeBond \<Rightarrow> FeePool \<Rightarrow> kstate \<Rightarrow> bool" where
  "settle_fits bond pool s \<longleftrightarrow>
     unat (nb_OperatorFeeBasisPoints bond) \<le> 10000 \<and>
     gross_share bond pool * unat (nb_OperatorFeeBasisPoints bond) < 2 ^ 64 \<and>
     unat (nb_OperatorFeeAccruedSats bond) + gross_share bond pool < 2 ^ 64 \<and>
     unat (nb_FeePerBondShare bond) + (gross_share bond pool * unat (feeShareScale s)
       + unat (nb_FeePerBondShareRemainder bond)) div unat (nb_BondSats bond) < 2 ^ 64"

lemma settle_exact:
  assumes act: "nb_FeeShareActive bond" "nb_FeeDebtSats bond < fp_FeePerSlotShare pool" "nb_BondSats bond \<noteq> 0"
    and fits: "settle_fits bond pool s"
  defines "b \<equiv> settleNodeFeeShare bond pool s"
  shows "unat (nb_OperatorFeeAccruedSats b) = unat (nb_OperatorFeeAccruedSats bond) + operator_share bond pool"
    and "bond_share_value b = bond_share_value bond
      + (gross_share bond pool - operator_share bond pool) * unat (feeShareScale s)"
    and "nb_FeeDebtSats b = fp_FeePerSlotShare pool" and "nb_BondSats b = nb_BondSats bond"
    and "nb_FeePerBondShare bond \<le> nb_FeePerBondShare b"
proof -
  let ?bc = "gross_share bond pool - operator_share bond pool"
  let ?D = "unat (nb_BondSats bond)"
  let ?sc = "?bc * unat (feeShareScale s) + unat (nb_FeePerBondShareRemainder bond)"
  from fits act(2) have oc: "unat (operatorCut bond pool) = operator_share bond pool"
    and bc: "unat (bonderCut bond pool) = ?bc" and ole: "operator_share bond pool \<le> gross_share bond pool"
    using cuts_exact [of bond pool] by (auto simp: settle_fits_def)
  have D: "0 < ?D" using act(3) by (simp add: unat_gt_0)
  have "?sc \<le> gross_share bond pool * unat (feeShareScale s) + unat (nb_FeePerBondShareRemainder bond)"
    by (simp add: mult_le_mono1)
  then have q: "unat (nb_FeePerBondShare bond) + ?sc div ?D < 2 ^ 64"
    using fits unfolding settle_fits_def by (meson add_left_mono div_le_mono le_less_trans)
  then have uq: "unat (of_nat (?sc div ?D) :: u64) = ?sc div ?D" by (intro unat_of_nat_u64) simp
  have share: "unat (nb_FeePerBondShare bond + of_nat (?sc div ?D)) = unat (nb_FeePerBondShare bond) + ?sc div ?D"
    using q by (subst unat_add_u64) (simp_all add: uq)
  have rm: "unat (of_nat (?sc mod ?D) :: u64) = ?sc mod ?D"
    by (intro unat_of_nat_u64 less_trans [OF mod_less_divisor [OF D]]) simp
  have b: "b = (if bonderCut bond pool \<noteq> 0 then bond\<lparr>nb_FeePerBondShare := nb_FeePerBondShare bond + of_nat (?sc div ?D),
        nb_FeePerBondShareRemainder := of_nat (?sc mod ?D)\<rparr> else bond)
      \<lparr>nb_OperatorFeeAccruedSats := nb_OperatorFeeAccruedSats bond + operatorCut bond pool,
       nb_FeeDebtSats := fp_FeePerSlotShare pool, nb_UpdatedHeight := k_height s\<rparr>"
    using act by (simp add: b_def settleNodeFeeShare_def bc Let_def not_le)
  have "unat (nb_OperatorFeeAccruedSats bond) + operator_share bond pool < 2 ^ 64"
    using fits ole unfolding settle_fits_def by linarith
  then show "unat (nb_OperatorFeeAccruedSats b) = unat (nb_OperatorFeeAccruedSats bond) + operator_share bond pool"
    by (simp add: b unat_add_u64 oc)
  show "bond_share_value b = bond_share_value bond + ?bc * unat (feeShareScale s)"
  proof (cases "bonderCut bond pool = 0")
    case True
    then show ?thesis using bc by (simp add: b bond_share_value_def)
  next
    case False
    have "bond_share_value b = ?D * unat (nb_FeePerBondShare bond) + (?D * (?sc div ?D) + ?sc mod ?D)"
      using False by (simp add: b bond_share_value_def share rm distrib_left)
    also have "\<dots> = ?D * unat (nb_FeePerBondShare bond) + ?sc" by (simp only: mult_div_mod_eq)
    finally show ?thesis by (simp add: bond_share_value_def)
  qed
  show "nb_FeeDebtSats b = fp_FeePerSlotShare pool" "nb_BondSats b = nb_BondSats bond" by (simp_all add: b)
  show "nb_FeePerBondShare bond \<le> nb_FeePerBondShare b" by (simp add: b word_le_nat_alt share)
qed

lemma claimable_le:
  "unat (nodeBonderClaimableSats bond bonder s) * unat (feeShareScale s)
     \<le> unat (br_PrincipalSats bonder) * (unat (nb_FeePerBondShare bond) - unat (br_FeeDebtShare bonder))"
proof (cases "br_PrincipalSats bonder = 0 \<or> nb_FeePerBondShare bond \<le> br_FeeDebtShare bonder")
  case False
  let ?x = "unat (br_PrincipalSats bonder) * unat (nb_FeePerBondShare bond - br_FeeDebtShare bonder)"
  have "unat (nodeBonderClaimableSats bond bonder s) \<le> ?x div unat (feeShareScale s)"
    using False unat_of_nat_le [of "?x div unat (feeShareScale s)"] by (simp add: nodeBonderClaimableSats_def)
  then have "unat (nodeBonderClaimableSats bond bonder s) * unat (feeShareScale s)
      \<le> ?x div unat (feeShareScale s) * unat (feeShareScale s)" by (rule mult_le_mono1)
  also have "\<dots> \<le> ?x" by (rule div_times_less_eq_dividend)
  finally show ?thesis using False by (simp add: unat_sub_u64 not_le less_imp_le)
qed (simp add: nodeBonderClaimableSats_def)

text \<open>Together the bonders of a node cannot claim more than the settlement credited them.\<close>

lemma claims_bounded:
  assumes act: "nb_FeeShareActive bond" "nb_FeeDebtSats bond < fp_FeePerSlotShare pool" "nb_BondSats bond \<noteq> 0"
    and fits: "settle_fits bond pool s"
    and debts: "\<forall>x \<in> set bs. br_FeeDebtShare x = nb_FeePerBondShare bond"
    and principals: "sum_list (map (\<lambda>x. unat (br_PrincipalSats x)) bs) \<le> unat (nb_BondSats bond)"
  shows "sum_list (map (\<lambda>x. unat (nodeBonderClaimableSats (settleNodeFeeShare bond pool s) x s)) bs) * unat (feeShareScale s)
    \<le> (gross_share bond pool - operator_share bond pool) * unat (feeShareScale s)
      + unat (nb_FeePerBondShareRemainder bond)"
proof -
  let ?b = "settleNodeFeeShare bond pool s" and ?k = "unat (feeShareScale s)"
  let ?\<delta> = "unat (nb_FeePerBondShare ?b) - unat (nb_FeePerBondShare bond)"
  have "sum_list (map (\<lambda>x. unat (nodeBonderClaimableSats ?b x s)) bs) * ?k
      = sum_list (map (\<lambda>x. unat (nodeBonderClaimableSats ?b x s) * ?k) bs)"
    by (simp add: sum_list_mult_const)
  also have "\<dots> \<le> sum_list (map (\<lambda>x. unat (br_PrincipalSats x) * ?\<delta>) bs)"
    using claimable_le [of ?b _ s] debts by (intro sum_list_le_each) metis
  also have "\<dots> = sum_list (map (\<lambda>x. unat (br_PrincipalSats x)) bs) * ?\<delta>" by (simp add: sum_list_mult_const)
  also have "\<dots> \<le> unat (nb_BondSats bond) * ?\<delta>" using principals by (rule mult_le_mono1)
  also have "\<dots> \<le> (gross_share bond pool - operator_share bond pool) * ?k + unat (nb_FeePerBondShareRemainder bond)"
    using settle_exact(2,4,5) [OF act fits] by (simp add: bond_share_value_def right_diff_distrib' word_le_nat_alt)
  finally show ?thesis .
qed

lemma weighted_debt_bounds:
  assumes tot: "unat p1 + unat p2 < 2 ^ 64" "p1 \<noteq> 0 \<or> p2 \<noteq> 0"
  shows "min d1 d2 \<le> weightedFeeDebtShare p1 d1 p2 d2" and "weightedFeeDebtShare p1 d1 p2 d2 \<le> max d1 d2"
    and "(unat p1 + unat p2) * unat (weightedFeeDebtShare p1 d1 p2 d2) \<le> unat p1 * unat d1 + unat p2 * unat d2"
    and "unat p1 * unat d1 + unat p2 * unat d2 < (unat p1 + unat p2) * (unat (weightedFeeDebtShare p1 d1 p2 d2) + 1)"
proof -
  let ?P = "unat p1 + unat p2" and ?X = "unat p1 * unat d1 + unat p2 * unat d2"
  let ?hi = "max (unat d1) (unat d2)" and ?lo = "min (unat d1) (unat d2)"
  have P: "unat (p1 + p2) = ?P" using tot(1) by (rule unat_add_u64)
  have P0: "0 < ?P" using tot(2) by (auto simp: unat_gt_0)
  have "?X \<le> unat p1 * ?hi + unat p2 * ?hi" by (intro add_mono mult_left_mono) auto
  then have X: "?X \<le> ?hi * ?P" by (simp add: algebra_simps)
  have "unat p1 * ?lo + unat p2 * ?lo \<le> ?X" by (intro add_mono mult_left_mono) auto
  then have Y: "?lo * ?P \<le> ?X" by (simp add: algebra_simps)
  have hi: "?X div ?P \<le> ?hi" using div_le_mono [OF X, of ?P] P0 by (auto split: if_splits)
  have lo: "?lo \<le> ?X div ?P" using div_le_mono [OF Y, of ?P] P0 by (auto split: if_splits)
  have "?hi < 2 ^ 64" using unat_lt_64 [of d1] unat_lt_64 [of d2] by simp
  then have "unat (of_nat (?X div ?P) :: u64) = ?X div ?P" using hi by (intro unat_of_nat_u64) linarith
  moreover have "p1 + p2 \<noteq> 0" using P P0 by (metis less_irrefl unat_0)
  ultimately have w: "unat (weightedFeeDebtShare p1 d1 p2 d2) = ?X div ?P"
    by (simp add: weightedFeeDebtShare_def P Let_def)
  show "min d1 d2 \<le> weightedFeeDebtShare p1 d1 p2 d2" "weightedFeeDebtShare p1 d1 p2 d2 \<le> max d1 d2"
    using hi lo by (auto simp: word_le_nat_alt w min_def max_def split: if_splits)
  show "?P * unat (weightedFeeDebtShare p1 d1 p2 d2) \<le> ?X" unfolding w by (rule times_div_less_eq_dividend)
  show "?X < ?P * (unat (weightedFeeDebtShare p1 d1 p2 d2) + 1)"
    unfolding w using P0 dividend_less_times_div [of ?P ?X] by (simp add: add.commute)
qed

section \<open>The accounting of a claim\<close>

lemma setDistributed_frame:
  assumes "setDistributedFeePool p s = (Inr u, t)"
  shows "fp_TotalSlots (GetFeePool t) = fp_TotalSlots p"
    and "fp_TotalCollectedSats (GetFeePool t) = fp_TotalCollectedSats p"
    and "fp_TotalClaimedSats (GetFeePool t) = fp_TotalClaimedSats p"
    and "t = s\<lparr>k_fee_pool := Some (GetFeePool t)\<rparr>"
  using assms
  by (auto simp: setDistributedFeePool_def act_run SetFeePool_def GetFeePool_def Let_def split: if_splits)

lemma addWithdrawalFee_frame:
  assumes "addWithdrawalFee a s = (Inr u, t)"
  shows "fp_TotalCollectedSats (GetFeePool t) = fp_TotalCollectedSats (GetFeePool s) + a"
    and "fp_TotalClaimedSats (GetFeePool t) = fp_TotalClaimedSats (GetFeePool s)"
    and "fp_TotalSlots (GetFeePool t) = fp_TotalSlots (GetFeePool s)"
proof -
  let ?p = "GetFeePool s"
  consider "a = 0" "t = s" | v where "setDistributedFeePool (?p\<lparr>fp_PendingSats := fp_PendingSats ?p + a,
      fp_TotalCollectedSats := fp_TotalCollectedSats ?p + a\<rparr>) s = (Inr v, t)"
    using assms by (auto simp: addWithdrawalFee_def act_run split: if_splits)
  then have "fp_TotalCollectedSats (GetFeePool t) = fp_TotalCollectedSats ?p + a
    \<and> fp_TotalClaimedSats (GetFeePool t) = fp_TotalClaimedSats ?p \<and> fp_TotalSlots (GetFeePool t) = fp_TotalSlots ?p"
    by cases (simp_all add: setDistributed_frame(1-3))
  then show "fp_TotalCollectedSats (GetFeePool t) = fp_TotalCollectedSats ?p + a"
    and "fp_TotalClaimedSats (GetFeePool t) = fp_TotalClaimedSats ?p"
    and "fp_TotalSlots (GetFeePool t) = fp_TotalSlots ?p" by auto
qed

lemma same_setDistributed [act_keeps]:
  "(\<And>s x. f (s\<lparr>k_fee_pool := x\<rparr>) = f s) \<Longrightarrow> same f (setDistributedFeePool p)"
  by (auto simp: setDistributedFeePool_def SetFeePool_def Let_def intro!: act_keeps same_modify)

lemma same_addWithdrawalFee [act_keeps]:
  "(\<And>s x. f (s\<lparr>k_fee_pool := x\<rparr>) = f s) \<Longrightarrow> same f (addWithdrawalFee a)"
  by (auto simp: addWithdrawalFee_def intro!: act_keeps)

lemma distributeFeePool_run:
  assumes "distributeFeePool s = (Inr p, t)"
  shows "p = GetFeePool t" and "fp_TotalSlots p = fp_TotalSlots (GetFeePool s)"
    and "fp_TotalCollectedSats p = fp_TotalCollectedSats (GetFeePool s)"
    and "fp_TotalClaimedSats p = fp_TotalClaimedSats (GetFeePool s)"
    and "t = s\<lparr>k_fee_pool := Some p\<rparr>"
proof -
  from assms obtain v where "setDistributedFeePool (GetFeePool s) s = (Inr v, t)" and p: "p = GetFeePool t"
    by (auto simp: distributeFeePool_def act_run)
  note d = setDistributed_frame [OF this(1), folded p]
  from p d show "p = GetFeePool t" and "fp_TotalSlots p = fp_TotalSlots (GetFeePool s)"
    and "fp_TotalCollectedSats p = fp_TotalCollectedSats (GetFeePool s)"
    and "fp_TotalClaimedSats p = fp_TotalClaimedSats (GetFeePool s)"
    and "t = s\<lparr>k_fee_pool := Some p\<rparr>" by auto
qed

lemma feeClaim_run:
  assumes "feeClaim e owner n s = (Inr (bond, pool, bonder, isOp, bc, oc), t)"
  shows "pool = GetFeePool t" and "fp_TotalCollectedSats pool = fp_TotalCollectedSats (GetFeePool s)"
    and "fp_TotalClaimedSats pool = fp_TotalClaimedSats (GetFeePool s)"
    and "t = s\<lparr>k_fee_pool := Some pool\<rparr>" and "bc + oc \<noteq> 0"
    and "fp_TotalClaimedSats pool \<le> fp_TotalCollectedSats pool"
    and "bc + oc \<le> fp_TotalCollectedSats pool - fp_TotalClaimedSats pool"
proof -
  from assms have d: "distributeFeePool s = (Inr pool, t)" and ne: "bc + oc \<noteq> 0"
    and le: "fp_TotalClaimedSats pool \<le> fp_TotalCollectedSats pool"
      "bc + oc \<le> fp_TotalCollectedSats pool - fp_TotalClaimedSats pool"
    unfolding feeClaim_def Let_def by (clarsimp simp: act_run not_less)+
  note r = distributeFeePool_run [OF d]
  show "pool = GetFeePool t" "fp_TotalCollectedSats pool = fp_TotalCollectedSats (GetFeePool s)"
    "fp_TotalClaimedSats pool = fp_TotalClaimedSats (GetFeePool s)" "t = s\<lparr>k_fee_pool := Some pool\<rparr>"
    by (rule r)+
  show "bc + oc \<noteq> 0" "fp_TotalClaimedSats pool \<le> fp_TotalCollectedSats pool"
    "bc + oc \<le> fp_TotalCollectedSats pool - fp_TotalClaimedSats pool" by (rule ne le)+
qed

text \<open>The remainder the floor returns is what the kept notes leave of the amount, also in the
  64-bit sums of the code.\<close>

lemma floor_remainder_words:
  assumes "applyShielderNoteFloor nts amount False s = Inr (kept, r)"
    and "ConfigUint64 Shielder_NoteAmountMinSats s \<noteq> 0"
  shows "r = amount - shielderNoteCommitmentTotal kept" and "shielderNoteCommitmentTotal kept \<le> amount"
  using assms
  by (auto simp: applyShielderNoteFloor_def floor_loop_eq total_value Let_def split: if_splits)

lemma floor_accounted:
  assumes "applyShielderNoteFloor nts amount False s = Inr (kept, r)"
    and "shielderNoteCommitmentTotal kept = (if r > 0 then amount - r else amount)"
  shows "shielderNoteCommitmentTotal kept = amount - r" and "shielderNoteCommitmentTotal kept \<le> amount"
proof -
  have "shielderNoteCommitmentTotal kept = amount - r \<and> shielderNoteCommitmentTotal kept \<le> amount"
  proof (cases "ConfigUint64 Shielder_NoteAmountMinSats s = 0")
    case True
    then have "r = 0" using assms(1) by (simp add: applyShielderNoteFloor_def)
    then show ?thesis using assms(2) by simp
  next
    case False
    from floor_remainder_words [OF assms(1) False] show ?thesis by simp
  qed
  then show "shielderNoteCommitmentTotal kept = amount - r" and "shielderNoteCommitmentTotal kept \<le> amount" by auto
qed

lemma insertFeeNote_keeps_pool: "same k_fee_pool (insertFeeNote e acc np)"
  by (auto simp: insertFeeNote_def Let_def SetShielderFeeNotePubKey_def SetShielderCommitment_def
      SetShielderDenominationLeaf_def SetShielderNoteRecord_def intro!: act_keeps same_modify split: prod.split)

lemma persist_keeps_pool: "same k_fee_pool (persistShielderTreeStates states ds)"
  by (induction ds) (auto simp: Let_def intro!: act_keeps)

lemma insertFeeNotes_keeps_pool: "same k_fee_pool (insertFeeNotes e nps)"
  by (auto simp: insertFeeNotes_def intro!: act_keeps insertFeeNote_keeps_pool persist_keeps_pool split: prod.split)

lemma GetFeePool_same: "k_fee_pool t = k_fee_pool s \<Longrightarrow> GetFeePool t = GetFeePool s"
  by (simp add: GetFeePool_def)

lemma ShieldShielderFees_run:
  assumes run: "ShieldShielderFees e owner n sig cs pks s = (Inr dep, t)"
  obtains amount nts r s1
  where "amount \<le> fp_TotalCollectedSats (GetFeePool s) - fp_TotalClaimedSats (GetFeePool s)"
    and "fp_TotalClaimedSats (GetFeePool s) \<le> fp_TotalCollectedSats (GetFeePool s)"
    and "shielderNoteCommitmentTotal nts = amount - r" "shielderNoteCommitmentTotal nts \<le> amount"
    and "dr_AmountSats dep = amount - r"
    and "fp_TotalClaimedSats (GetFeePool t) = fp_TotalClaimedSats (GetFeePool s) + (amount - r)"
    and "fp_TotalCollectedSats (GetFeePool t) = fp_TotalCollectedSats (GetFeePool s) + r"
proof -
  from run obtain bond pool bonder isOp bc oc s1 nts0 nts r s4 u where
      claim: "feeClaim e owner n s = (Inr (bond, pool, bonder, isOp, bc, oc), s1)"
    and fl: "applyShielderNoteFloor nts0 (bc + oc) False s1 = Inr (nts, r)"
    and tot: "shielderNoteCommitmentTotal nts = (if r > 0 then bc + oc - r else bc + oc)"
    and dep: "dr_AmountSats dep = (if r > 0 then bc + oc - r else bc + oc)"
    and rest: "(if r > 0 then addWithdrawalFee r else ret ())
       (s4\<lparr>k_fee_pool := Some (pool\<lparr>fp_TotalClaimedSats := fp_TotalClaimedSats pool + (if r > 0 then bc + oc - r else bc + oc)\<rparr>)\<rparr>) = (Inr u, t)"
    unfolding ShieldShielderFees_def Let_def by (clarsimp simp: act_run SetFeePool_def split: prod.splits)
  note c = feeClaim_run [OF claim]
  note acc = floor_accounted [OF fl tot]
  have amt: "(if r > 0 then bc + oc - r else bc + oc) = bc + oc - r" by (simp add: word_gt_0)
  let ?s5 = "s4\<lparr>k_fee_pool := Some (pool\<lparr>fp_TotalClaimedSats := fp_TotalClaimedSats pool + (bc + oc - r)\<rparr>)\<rparr>"
  have s5: "GetFeePool ?s5 = pool\<lparr>fp_TotalClaimedSats := fp_TotalClaimedSats pool + (bc + oc - r)\<rparr>"
    by (simp add: GetFeePool_def)
  have fee: "(if r > 0 then addWithdrawalFee r else ret ()) ?s5 = (Inr u, t)" using rest unfolding amt .
  have fin: "fp_TotalClaimedSats (GetFeePool t) = fp_TotalClaimedSats (GetFeePool ?s5)
      \<and> fp_TotalCollectedSats (GetFeePool t) = fp_TotalCollectedSats (GetFeePool ?s5) + r"
    using fee addWithdrawalFee_frame(1,2) [of r ?s5 u t] by (auto simp: act_run word_gt_0 split: if_splits)
  show ?thesis
    by (rule that [of "bc + oc" nts r]) (use c(2,3,6,7) acc dep amt fin s5 in \<open>simp_all\<close>)
qed

section \<open>The notes of a claim refine the abstract append\<close>

lemma insertFeeNote_step:
  "insertFeeNote e (seen, b) np s = (Inr (seen', b'), t) \<Longrightarrow> note_step e (fst np) b s b' t"
  by (auto simp: insertFeeNote_def Let_def act_run SetShielderCommitment_def SetShielderDenominationLeaf_def
      SetShielderFeeNotePubKey_def SetShielderNoteRecord_def AppendShielderMerkleLeaf_def note_step_def
      split: prod.splits)

context merkle_engine
begin

lemma insertFee_refines:
  assumes run: "insertFeeNotes e nps s = (Inr u, t)" and ok: "pool_ok e s L"
  shows "pool_ok e t (append_notes L (map fst nps))"
    and "kv_has (k_roots s) k \<Longrightarrow> kv_has (k_roots t) k"
  using batch_refines [of "insertFeeNote e" fst, OF insertFeeNote_step run [unfolded insertFeeNotes_def] ok] by simp_all

end

end
