(* ===== verification/Batching.thy ===== *)
theory Batching
  imports Fees
begin

text \<open>
  Bitcoin outbound batching (\<^verbatim>\<open>x/thornado/btc_gas.go\<close>): which block an outbound joins, which
  items of a block form one transaction, which unspent outputs fund it, what fee it pays and
  how that fee is split. A transaction is described by its source inputs, the items it pays
  and the gas; its serialized size is a parameter of the environment. \<^verbatim>\<open>cosmos.Uint\<close> is
  unbounded here, and its conversion to \<^verbatim>\<open>uint64\<close> panics out of range.
\<close>

section \<open>Amounts\<close>

definition Uint64 :: "nat \<Rightarrow> u64 result" where
  "Uint64 n = (if n < 2 ^ 64 then Inr (of_nat n) else Inl (Panic ''Uint64() out of bound''))"

definition DefaultCoinDecimals :: int where "DefaultCoinDecimals = 8"

definition btcGasRateFromKeeper :: "kstate \<Rightarrow> int result" where
  "btcGasRateFromKeeper s =
     (let networkFee = GetNetworkFee BTCChain s in
      case NetworkFee_Valid networkFee of
        Inl err \<Rightarrow> Inl (Wrapf ''invalid bitcoin network fee'' err)
      | Inr _ \<Rightarrow>
          if unat (nf_TransactionFeeRate networkFee) > 2 ^ 63 - 1 then Inl (Errorf ''bitcoin gas rate exceeds int64'')
          else Inr (uint (nf_TransactionFeeRate networkFee)))"

definition btcGasCoinFromNativeSats :: "u64 \<Rightarrow> Coin" where
  "btcGasCoinFromNativeSats sats =
     (NewCoin BTCAsset (NativeGasToThornado BTCChain (unat sats)))\<lparr>co_Decimals := DefaultCoinDecimals\<rparr>"

fun inputs_amount :: "TxOutInput list \<Rightarrow> u64 \<Rightarrow> TxOutInput list \<Rightarrow> nat" where
  "inputs_amount all tot [] = unat tot"
| "inputs_amount all tot (i # is) =
     (if unat (- 1 - tot) < unat (ti_AmountSats i)
      then unat tot + sum_list (map (\<lambda>j. unat (ti_AmountSats j)) all)
      else inputs_amount all (tot + ti_AmountSats i) is)"

definition btcSourceInputsAmount :: "TxOutInput list \<Rightarrow> nat" where
  "btcSourceInputsAmount inputs = inputs_amount inputs 0 inputs"

definition btcSplitGasCoin :: "Coin \<Rightarrow> nat \<Rightarrow> Coin list result" where
  "btcSplitGasCoin gas parts =
     (if parts \<le> 1 then Inr [gas]
      else case Uint64 (co_Amount gas) of
        Inl err \<Rightarrow> Inl err
      | Inr totalAmount \<Rightarrow>
          let base = totalAmount div of_nat parts; remainder = totalAmount mod of_nat parts in
          Inr (map (\<lambda>i. (NewCoin (co_Asset gas) (unat (if of_nat i < remainder then base + 1 else base)))
            \<lparr>co_Decimals := co_Decimals gas\<rparr>) [0..<parts]))"

section \<open>Kinds of items\<close>

definition btcMaxBatchRecipients :: nat where "btcMaxBatchRecipients = 9"
definition btcMaxBatchVins :: nat where "btcMaxBatchVins = 64"

definition btcEpochBatchItem :: "TxOutItem \<Rightarrow> bool" where
  "btcEpochBatchItem item \<longleftrightarrow>
     Chain_Equals (to_Chain item) BTCChain \<and>
     (let ty = NormalizeTxOutType (GetTxType item) in
      if ty \<in> {TxOutTypeOut, TxOutTypeRefund, TxOutTypeMigrate, TxOutTypeConsolidate}
        then to_VaultPathIndex item = MainVaultPathIndex
      else if ty = TxOutTypeSweep then to_VaultPathIndex item \<noteq> MainVaultPathIndex
      else False)"

definition btcPinnedSourceInputs :: "TxOutItem \<Rightarrow> bool" where
  "btcPinnedSourceInputs item \<longleftrightarrow>
     \<not> TxID_IsEmpty (to_InHash item) \<and>
     list_ex (\<lambda>i. TxID_Equals (ti_TxId i) (to_InHash item)) (to_SourceInputs item)"

definition btcBatchVinOnlyItem :: "TxOutItem \<Rightarrow> bool" where
  "btcBatchVinOnlyItem item \<longleftrightarrow>
     btcEpochBatchItem item \<and>
     (let ty = NormalizeTxOutType (GetTxType item) in
      ty = TxOutTypeSweep \<or> ty = TxOutTypeMigrate \<and> btcPinnedSourceInputs item)"

definition btcBatchRemainderItem :: "TxOutItem \<Rightarrow> bool" where
  "btcBatchRemainderItem item \<longleftrightarrow>
     btcEpochBatchItem item \<and> \<not> btcBatchVinOnlyItem item \<and> IsInternalTxOutType (to_TxType item)"

definition vin_count :: "TxOutItem list \<Rightarrow> nat" where
  "vin_count items = length (filter btcBatchVinOnlyItem items)"

definition vout_count :: "TxOutItem list \<Rightarrow> nat" where
  "vout_count items = length (filter (\<lambda>i. \<not> btcBatchVinOnlyItem i) items)"

definition remainder_count :: "TxOutItem list \<Rightarrow> nat" where
  "remainder_count items = length (filter (\<lambda>i. \<not> btcBatchVinOnlyItem i \<and> btcBatchRemainderItem i) items)"

definition btcBatchHasRoom :: "TxOut \<Rightarrow> TxOutItem \<Rightarrow> bool" where
  "btcBatchHasRoom txOut incoming \<longleftrightarrow>
     (if btcBatchVinOnlyItem incoming then vin_count (tx_TxArray txOut) < btcMaxBatchVins
      else if btcBatchRemainderItem incoming
        then remainder_count (tx_TxArray txOut) = 0 \<and> vout_count (tx_TxArray txOut) < btcMaxBatchRecipients
      else vout_count (tx_TxArray txOut) < btcMaxBatchRecipients)"

definition txOutBatchVault :: "TxOut \<Rightarrow> PubKey option" where
  "txOutBatchVault txOut =
     (case tx_TxArray txOut of
        [] \<Rightarrow> None
      | first # _ \<Rightarrow>
          let vault = to_VaultPubKey first in
          if vault = [] then None
          else if list_all (\<lambda>i. btcEpochBatchItem i \<and> to_VaultPubKey i = vault) (tx_TxArray txOut) then Some vault
          else None)"

definition btcBatchableTxOut :: "TxOutItem \<Rightarrow> bool" where
  "btcBatchableTxOut item \<longleftrightarrow>
     Chain_Equals (to_Chain item) BTCChain \<and> to_VaultPathIndex item = MainVaultPathIndex \<and> IsBatchableTxOutType (to_TxType item)"

text \<open>The two ways \<^verbatim>\<open>btcTxOutInputsEqual\<close> matches: exact keys on long lists, folded ids on short
  ones, each element of the second list used once.\<close>

definition btcTxOutInputKey :: "TxOutInput \<Rightarrow> TxID \<times> u32 \<times> u64" where
  "btcTxOutInputKey i = (ti_TxId i, ti_Vout i, ti_AmountSats i)"

fun match_all :: "('a \<Rightarrow> 'b \<Rightarrow> bool) \<Rightarrow> 'a list \<Rightarrow> 'b list \<Rightarrow> bool" where
  "match_all eq [] rights = True"
| "match_all eq (l # ls) rights =
     (case dropWhile (\<lambda>r. \<not> eq l r) rights of
        [] \<Rightarrow> False
      | _ # after \<Rightarrow> match_all eq ls (takeWhile (\<lambda>r. \<not> eq l r) rights @ after))"

definition btcTxOutInputsEqual :: "TxOutInput list \<Rightarrow> TxOutInput list \<Rightarrow> bool" where
  "btcTxOutInputsEqual a b \<longleftrightarrow>
     length a = length b \<and>
     (if length a > 8 then match_all (\<lambda>x y. btcTxOutInputKey x = btcTxOutInputKey y) b a
      else match_all (\<lambda>x y. TxID_Equals (ti_TxId x) (ti_TxId y) \<and> ti_Vout x = ti_Vout y \<and> ti_AmountSats x = ti_AmountSats y) a b)"

definition btcPinnedSourceInputsCompatible :: "TxOutItem \<Rightarrow> TxOutItem \<Rightarrow> bool" where
  "btcPinnedSourceInputsCompatible a b \<longleftrightarrow>
     (\<not> btcPinnedSourceInputs a \<and> \<not> btcPinnedSourceInputs b) \<or>
     (btcPinnedSourceInputs a \<and> btcPinnedSourceInputs b \<and> btcTxOutInputsEqual (to_SourceInputs a) (to_SourceInputs b))"

definition btcSameBatchSource :: "TxOutItem \<Rightarrow> TxOutItem \<Rightarrow> bool" where
  "btcSameBatchSource a b \<longleftrightarrow>
     btcBatchableTxOut a \<and> btcBatchableTxOut b \<and> Chain_Equals (to_Chain a) (to_Chain b) \<and>
     to_VaultPubKey a = to_VaultPubKey b \<and> to_VaultPathIndex a = to_VaultPathIndex b \<and>
     btcPinnedSourceInputsCompatible a b"

definition btcTxOutItemNeedsExactRefresh :: "TxOut \<Rightarrow> TxOutItem \<Rightarrow> bool" where
  "btcTxOutItemNeedsExactRefresh txOut item \<longleftrightarrow>
     TxID_IsEmpty (to_OutHash item) \<and> Chain_Equals (to_Chain item) BTCChain \<and>
     (tx_Status txOut = TxOutStatusPendingBatch \<or> to_SourceInputs item = [] \<or> Coins_IsEmpty (to_MaxGas item) \<or> to_GasRate item = 0)"

section \<open>Transaction size and gas\<close>

definition btcTaprootKeyspendWitnessLen :: nat where "btcTaprootKeyspendWitnessLen = 65"

definition btcOutputScript :: "env \<Rightarrow> btc_net \<Rightarrow> Address \<Rightarrow> nat result" where
  "btcOutputScript e net addr =
     (case e_btc_decode e net addr of
        None \<Rightarrow> Inl (Errorf ''fail to decode bitcoin address'')
      | Some a \<Rightarrow>
          (case a of
             AddressPubKeyHash \<Rightarrow> Inr 25 | AddressScriptHash \<Rightarrow> Inr 23 | AddressWitnessPubKeyHash \<Rightarrow> Inr 22
           | AddressWitnessScriptHash \<Rightarrow> Inr 34 | AddressTaproot \<Rightarrow> Inr 34 | AddressPubKey n \<Rightarrow> Inr (n + 2)
           | AddressOther \<Rightarrow> Inl (Errorf ''unsupported bitcoin address type'')))"

definition btcVaultOutputScript :: "env \<Rightarrow> PubKey \<Rightarrow> u64 \<Rightarrow> nat result" where
  "btcVaultOutputScript e pubKey pathIndex =
     (case e_taproot_pubkey e pubKey pathIndex of Inl err \<Rightarrow> Inl err | Inr key \<Rightarrow> Inr (2 + length key))"

fun collectR :: "('a \<Rightarrow> 'b result) \<Rightarrow> 'a list \<Rightarrow> 'b list result" where
  "collectR f [] = Inr []"
| "collectR f (x # xs) =
     (case f x of Inl err \<Rightarrow> Inl err
      | Inr y \<Rightarrow> (case collectR f xs of Inl err \<Rightarrow> Inl err | Inr ys \<Rightarrow> Inr (y # ys)))"

text \<open>\<^verbatim>\<open>CurrentChainNetwork\<close> is mainnet.\<close>

definition btcEstimatedVSize :: "env \<Rightarrow> PubKey \<Rightarrow> u64 \<Rightarrow> Address list \<Rightarrow> TxOutInput list \<Rightarrow> bool \<Rightarrow> nat result" where
  "btcEstimatedVSize e vaultPubKey vaultPathIndex outputAddrs inputs hasChange =
     (if inputs = [] then Inl (Errorf ''cannot estimate bitcoin tx size without source inputs'')
      else if list_ex (\<lambda>i. \<not> e_hash_from_str e (ti_TxId i)) inputs then Inl (Errorf ''invalid bitcoin source input txid'')
      else case collectR (btcOutputScript e MainNetParams) outputAddrs of
        Inl err \<Rightarrow> Inl err
      | Inr scripts \<Rightarrow>
          (case (if hasChange then (case btcVaultOutputScript e vaultPubKey vaultPathIndex of
                   Inl err \<Rightarrow> Inl err | Inr n \<Rightarrow> Inr (scripts @ [n])) else Inr scripts) of
             Inl err \<Rightarrow> Inl err
           | Inr outs \<Rightarrow>
               (case e_tx_sizes e (map (\<lambda>_. btcTaprootKeyspendWitnessLen) inputs) outs of
                  (stripped, whole) \<Rightarrow> Inr ((stripped * 3 + whole + 3) div 4))))"

definition btcExactGasCoin :: "env \<Rightarrow> PubKey \<Rightarrow> u64 \<Rightarrow> Address list \<Rightarrow> TxOutInput list \<Rightarrow> int \<Rightarrow> bool \<Rightarrow> Coin result" where
  "btcExactGasCoin e vaultPubKey vaultPathIndex outputAddrs inputs gasRate hasChange =
     (if gasRate \<le> 0 then Inl (Errorf ''invalid bitcoin gas rate'')
      else case btcEstimatedVSize e vaultPubKey vaultPathIndex outputAddrs inputs hasChange of
        Inl err \<Rightarrow> Inl err
      | Inr vSize \<Rightarrow> Inr (btcGasCoinFromNativeSats (u64_of_int gasRate * of_nat vSize)))"

section \<open>Unspent outputs of a vault\<close>

definition btcSourceInputKey :: "TxID \<Rightarrow> u32 \<Rightarrow> string" where
  "btcSourceInputKey txID vout = ToLower txID @ '':'' @ show_nat (unat vout)"

record btcSourceCandidate =
  sc_input :: TxOutInput
  sc_height :: int

definition btcObservedOutboundChangeAmount :: "Tx \<Rightarrow> u64 result" where
  "btcObservedOutboundChangeAmount tx =
     (let sourceTotal = foldl (\<lambda>t i. t + in_AmountSats i) 0 (t_SourceInputs tx) in
      if sourceTotal = 0 then Inr 0
      else case Uint64 (co_Amount (GetCoin (t_Coins tx) BTCAsset)) of
        Inl err \<Rightarrow> Inl err
      | Inr btcCoin \<Rightarrow>
          (case Uint64 (co_Amount (GetCoin (t_Gas tx) BTCAsset)) of
             Inl err \<Rightarrow> Inl err
           | Inr btcGas \<Rightarrow> Inr (if sourceTotal \<le> btcCoin + btcGas then 0 else sourceTotal - btcCoin - btcGas)))"

text \<open>The search for the first unused output index; a set of \<open>n\<close> indices is left after at most
  \<open>n + 1\<close> steps.\<close>

fun next_vout :: "nat \<Rightarrow> u32 list \<Rightarrow> u32 \<Rightarrow> u32" where
  "next_vout 0 used vout = vout"
| "next_vout (Suc n) used vout = (if vout \<in> set used then next_vout n used (vout + 1) else vout)"

definition nextBTCChangeVout :: "u32 list \<Rightarrow> u32" where
  "nextBTCChangeVout used = next_vout (Suc (length used)) used 0"

definition txOutsAscending :: "int \<Rightarrow> bool \<Rightarrow> kstate \<Rightarrow> TxOut list" where
  "txOutsAscending maxHeight includeMax s =
     sort_key tx_Height (filter (\<lambda>b. \<not> (tx_Height b > maxHeight \<or> (\<not> includeMax \<and> tx_Height b = maxHeight)))
       (kv_values (k_txouts s)))"

text \<open>The three maps the collection builds: candidates by key, spent keys, and the used output
  indices of each outbound hash.\<close>

record btc_scan =
  bs_candidates :: "(string \<times> btcSourceCandidate) list"
  bs_spent :: "string list"
  bs_used :: "(string \<times> u32) list"

definition addCandidate :: "string \<Rightarrow> btcSourceCandidate \<Rightarrow> btc_scan \<Rightarrow> btc_scan" where
  "addCandidate key c b =
     (if map_of (bs_candidates b) key \<noteq> None then b else b\<lparr>bs_candidates := bs_candidates b @ [(key, c)]\<rparr>)"

definition markSpentBTCSourceInputs :: "TxInput list \<Rightarrow> btc_scan \<Rightarrow> btc_scan" where
  "markSpentBTCSourceInputs inputs b =
     b\<lparr>bs_spent := map (\<lambda>i. btcSourceInputKey (in_TxID i) (in_Vout i)) inputs @ bs_spent b\<rparr>"

fun foldR :: "('b \<Rightarrow> 'a \<Rightarrow> 'b result) \<Rightarrow> 'b \<Rightarrow> 'a list \<Rightarrow> 'b result" where
  "foldR f b [] = Inr b"
| "foldR f b (x # xs) = (case f b x of Inl err \<Rightarrow> Inl err | Inr b' \<Rightarrow> foldR f b' xs)"

definition markTxOutItem :: "Vault \<Rightarrow> int \<Rightarrow> kstate \<Rightarrow> int \<Rightarrow> TxOutItem \<Rightarrow> btc_scan \<Rightarrow> btc_scan" where
  "markTxOutItem vault ignoreTxOutHeight s height item b0 =
     (let samePendingBatch = (height = ignoreTxOutHeight \<and> TxID_IsEmpty (to_OutHash item)
            \<and> Chain_Equals (to_Chain item) BTCChain \<and> to_VaultPubKey item = va_PubKey vault \<and> btcEpochBatchItem item);
          b1 = (if Chain_Equals (to_Chain item) BTCChain \<and> to_SourceInputs item \<noteq> [] \<and> \<not> samePendingBatch
            then b0\<lparr>bs_spent := map (\<lambda>i. btcSourceInputKey (ti_TxId i) (ti_Vout i)) (to_SourceInputs item) @ bs_spent b0\<rparr>
            else b0)
      in if \<not> TxID_IsEmpty (to_OutHash item) then
           let bu = (if \<not> btcBatchVinOnlyItem item
                 then b1\<lparr>bs_used := (ToLower (to_OutHash item), to_OutVout item) # bs_used b1\<rparr> else b1);
               voter = GetObservedTxOutVoter (to_OutHash item) s
           in foldl (\<lambda>b o'. markSpentBTCSourceInputs (t_SourceInputs (ob_Tx o')) b)
                (markSpentBTCSourceInputs (t_SourceInputs (ob_Tx (vo_Tx voter))) bu) (vo_Txs voter)
         else b1)"

definition scanTxOutItem :: "Vault \<Rightarrow> Address \<Rightarrow> int \<Rightarrow> kstate \<Rightarrow> int \<Rightarrow> btc_scan \<Rightarrow> TxOutItem \<Rightarrow> btc_scan result" where
  "scanTxOutItem vault sourceAddr ignoreTxOutHeight s height b0 item =
     (let b2 = markTxOutItem vault ignoreTxOutHeight s height item b0
      in if TxID_IsEmpty (to_OutHash item) \<or> \<not> Chain_Equals (to_Chain item) BTCChain
           \<or> \<not> Asset_Equals (co_Asset (to_Coin item)) BTCAsset \<or> \<not> Address_Equals (to_ToAddress item) sourceAddr
           \<or> co_Amount (to_Coin item) = 0
         then Inr b2
         else let key = btcSourceInputKey (to_OutHash item) (to_OutVout item) in
           if map_of (bs_candidates b2) key \<noteq> None then Inr b2
           else case Uint64 (co_Amount (to_Coin item)) of
             Inl err \<Rightarrow> Inl err
           | Inr amount \<Rightarrow> Inr (addCandidate key \<lparr>sc_input = \<lparr>ti_TxId = to_OutHash item, ti_Vout = to_OutVout item,
               ti_AmountSats = amount, ti_PathIndex = 0\<rparr>, sc_height = height\<rparr> b2))"

definition scanTxOutBlock :: "Vault \<Rightarrow> Address \<Rightarrow> int \<Rightarrow> kstate \<Rightarrow> btc_scan \<Rightarrow> TxOut \<Rightarrow> btc_scan result" where
  "scanTxOutBlock vault sourceAddr ignore s b blk =
     foldR (scanTxOutItem vault sourceAddr ignore s (tx_Height blk)) b (tx_TxArray blk)"

definition scanObservedOut :: "Vault \<Rightarrow> Address \<Rightarrow> btc_scan \<Rightarrow> ObservedTx \<Rightarrow> btc_scan result" where
  "scanObservedOut vault sourceAddr b0 observed =
     (let tx = ob_Tx observed in
      if \<not> Chain_Equals (t_Chain tx) BTCChain \<or> ob_ObservedPubKey observed \<noteq> va_PubKey vault then Inr b0
      else let b1 = markSpentBTCSourceInputs (t_SourceInputs tx) b0 in
      if t_SourceInputs tx = [] \<or> TxID_IsEmpty (t_ID tx) then Inr b1
      else case (if Address_Equals (t_ToAddress tx) sourceAddr then Uint64 (co_Amount (GetCoin (t_Coins tx) BTCAsset))
                 else btcObservedOutboundChangeAmount tx) of
        Inl err \<Rightarrow> Inl err
      | Inr amount \<Rightarrow>
          if amount = 0 then Inr b1
          else let vout = nextBTCChangeVout (map snd (filter (\<lambda>e. fst e = ToLower (t_ID tx)) (bs_used b1))) in
            Inr (addCandidate (btcSourceInputKey (t_ID tx) vout) \<lparr>sc_input = \<lparr>ti_TxId = t_ID tx, ti_Vout = vout,
              ti_AmountSats = amount, ti_PathIndex = 0\<rparr>, sc_height = ob_BlockHeight observed\<rparr> b1))"

definition scanVoterOut :: "Vault \<Rightarrow> Address \<Rightarrow> btc_scan \<Rightarrow> ObservedTxVoter \<Rightarrow> btc_scan result" where
  "scanVoterOut vault sourceAddr b voter = foldR (scanObservedOut vault sourceAddr) b (vo_Txs voter)"

definition scanVoterIn :: "Address \<Rightarrow> btc_scan \<Rightarrow> ObservedTxVoter \<Rightarrow> btc_scan result" where
  "scanVoterIn sourceAddr b voter =
     (let tx = ob_Tx (vo_Tx voter) in
      if \<not> Chain_Equals (t_Chain tx) BTCChain \<or> \<not> Address_Equals (t_ToAddress tx) sourceAddr \<or> TxID_IsEmpty (t_ID tx) then Inr b
      else let coin = GetCoin (t_Coins tx) BTCAsset in
      if Coin_IsEmpty coin \<or> co_Amount coin = 0 then Inr b
      else let key = btcSourceInputKey (t_ID tx) (t_SourceVout tx) in
      if map_of (bs_candidates b) key \<noteq> None then Inr b
      else case Uint64 (co_Amount coin) of
        Inl err \<Rightarrow> Inl err
      | Inr amount \<Rightarrow> Inr (addCandidate key \<lparr>sc_input = \<lparr>ti_TxId = t_ID tx, ti_Vout = t_SourceVout tx,
          ti_AmountSats = amount, ti_PathIndex = 0\<rparr>, sc_height = vo_Height voter\<rparr> b))"

text \<open>Largest amount first, then the older, then the smaller key: three stable sorts.\<close>

definition sortCandidates :: "(string \<times> btcSourceCandidate) list \<Rightarrow> btcSourceCandidate list" where
  "sortCandidates cs =
     sort_key (\<lambda>c. - uint (ti_AmountSats (sc_input c)))
      (sort_key sc_height
        (sort_key (\<lambda>c. btcSourceInputKey (ti_TxId (sc_input c)) (ti_Vout (sc_input c))) (map snd cs)))"

definition btcVaultSourceCandidates :: "Vault \<Rightarrow> Address \<Rightarrow> int \<Rightarrow> kstate \<Rightarrow> btcSourceCandidate list result" where
  "btcVaultSourceCandidates vault sourceAddr ignoreTxOutHeight s =
     (case foldR (scanTxOutBlock vault sourceAddr ignoreTxOutHeight s) \<lparr>bs_candidates = [], bs_spent = [], bs_used = []\<rparr>
             (txOutsAscending (k_height s) True s) of
        Inl err \<Rightarrow> Inl err
      | Inr b1 \<Rightarrow>
     (case foldR (scanVoterOut vault sourceAddr) b1 (kv_values (k_txout_voters s)) of
        Inl err \<Rightarrow> Inl err
      | Inr b2 \<Rightarrow>
     (case foldR (scanVoterIn sourceAddr) b2 (kv_values (k_txin_voters s)) of
        Inl err \<Rightarrow> Inl err
      | Inr b3 \<Rightarrow>
          Inr (sortCandidates (filter (\<lambda>(key, c). key \<notin> set (bs_spent b3) \<and> ti_AmountSats (sc_input c) \<noteq> 0)
            (bs_candidates b3))))))"

text \<open>The selection loop: inputs so far and their 64-bit total.\<close>

fun select_inputs :: "nat \<Rightarrow> nat \<Rightarrow> TxOutInput list \<times> u64 \<Rightarrow> btcSourceCandidate list \<Rightarrow> TxOutInput list \<times> u64" where
  "select_inputs maxInputs required acc [] = acc"
| "select_inputs maxInputs required (inputs, tot) (c # cs) =
     (if length inputs \<ge> maxInputs then (inputs, tot)
      else let inputs1 = inputs @ [sc_input c]; tot1 = tot + ti_AmountSats (sc_input c) in
        if unat tot1 \<ge> required then (inputs1, tot1) else select_inputs maxInputs required (inputs1, tot1) cs)"

definition btcSelectVaultSourceInputs :: "Vault \<Rightarrow> Address \<Rightarrow> nat \<Rightarrow> int \<Rightarrow> kstate \<Rightarrow> TxOutInput list result" where
  "btcSelectVaultSourceInputs vault sourceAddr required ignoreTxOutHeight s =
     (case btcVaultSourceCandidates vault sourceAddr ignoreTxOutHeight s of
        Inl err \<Rightarrow> Inl err
      | Inr candidates \<Rightarrow>
          let m = GetConfigInt64 UTXO_MaxSpendCount s; maxInputs = (if m < 1 then 1 else nat m) in
          (case select_inputs maxInputs required ([], 0) candidates of
             (inputs, tot) \<Rightarrow> Inr (if unat tot < required then [] else inputs)))"

fun select_for_outputs ::
  "nat \<Rightarrow> env \<Rightarrow> Vault \<Rightarrow> u64 \<Rightarrow> Address \<Rightarrow> Address list \<Rightarrow> nat \<Rightarrow> int \<Rightarrow> int \<Rightarrow> bool \<Rightarrow> nat \<Rightarrow> TxOutInput list \<Rightarrow> kstate
    \<Rightarrow> TxOutInput list result" where
  "select_for_outputs 0 e vault pathIndex sourceAddr outputAddrs outputAmount gasRate ignore hasChange required selected s =
     (if btcSourceInputsAmount selected < required then Inl (Errorf ''insufficient bitcoin source inputs for vault'')
      else Inr selected)"
| "select_for_outputs (Suc n) e vault pathIndex sourceAddr outputAddrs outputAmount gasRate ignore hasChange required prev s =
     (case btcSelectVaultSourceInputs vault sourceAddr required ignore s of
        Inl err \<Rightarrow> Inl err
      | Inr selected \<Rightarrow>
          if selected = [] then Inl (Errorf ''no bitcoin source inputs available for vault'')
          else case btcExactGasCoin e (va_PubKey vault) pathIndex outputAddrs selected gasRate hasChange of
            Inl err \<Rightarrow> Inl err
          | Inr maxGasCoin \<Rightarrow>
              let nextRequired = outputAmount + co_Amount maxGasCoin in
              if nextRequired = required then Inr selected
              else if btcSourceInputsAmount selected \<ge> nextRequired then Inr selected
              else select_for_outputs n e vault pathIndex sourceAddr outputAddrs outputAmount gasRate ignore hasChange
                nextRequired selected s)"

definition selectBTCVaultSourceInputsForOutputs ::
  "env \<Rightarrow> Vault \<Rightarrow> u64 \<Rightarrow> Address \<Rightarrow> Address list \<Rightarrow> nat \<Rightarrow> int \<Rightarrow> int \<Rightarrow> bool \<Rightarrow> kstate \<Rightarrow> TxOutInput list result" where
  "selectBTCVaultSourceInputsForOutputs e vault vaultPathIndex sourceAddr outputAddrs outputAmount gasRate ignoreTxOutHeight hasChange s =
     select_for_outputs 3 e vault vaultPathIndex sourceAddr outputAddrs outputAmount gasRate ignoreTxOutHeight hasChange
       outputAmount [] s"

section \<open>Refreshing a block\<close>

definition btcItemPinnedInputs :: "TxOutItem \<Rightarrow> TxOutInput list" where
  "btcItemPinnedInputs item =
     (let stamp = map (\<lambda>i. i\<lparr>ti_PathIndex := to_VaultPathIndex item\<rparr>) in
      if to_VaultPathIndex item \<noteq> MainVaultPathIndex then
        let byPath = filter (\<lambda>i. ti_PathIndex i = to_VaultPathIndex item) (to_SourceInputs item);
            stamped = list_ex (\<lambda>i. ti_PathIndex i \<noteq> MainVaultPathIndex) (to_SourceInputs item) in
        if byPath \<noteq> [] then byPath
        else if \<not> stamped then stamp (to_SourceInputs item)
        else []
      else
        let all_pins = filter (\<lambda>i. TxID_Equals (ti_TxId i) (to_InHash item)) (to_SourceInputs item);
            byPath = filter (\<lambda>i. ti_PathIndex i = to_VaultPathIndex item) all_pins in
        if byPath \<noteq> [] then byPath else stamp all_pins)"

text \<open>The union of the pins of a group, in order, each output once.\<close>

fun add_pins :: "TxOutInput list \<Rightarrow> TxOutInput list \<Rightarrow> TxOutInput list" where
  "add_pins pins [] = pins"
| "add_pins pins (p # ps) =
     (if btcSourceInputKey (ti_TxId p) (ti_Vout p) \<in> set (map (\<lambda>q. btcSourceInputKey (ti_TxId q) (ti_Vout q)) pins)
      then add_pins pins ps else add_pins (pins @ [p]) ps)"

definition group_pins :: "TxOutItem list \<Rightarrow> TxOutInput list result" where
  "group_pins items =
     foldR (\<lambda>pins item.
       let vinOnly = btcBatchVinOnlyItem item in
       if \<not> vinOnly \<and> \<not> btcPinnedSourceInputs item then Inr pins
       else let itemPins = btcItemPinnedInputs item in
         if itemPins = [] then
           (if vinOnly then Inl (Errorf ''bitcoin vin-only txout item has no pinned source input'') else Inr pins)
         else Inr (add_pins pins itemPins)) [] items"

text \<open>The passes over gas and root inputs of \<^verbatim>\<open>refreshBTCEpochBatchGroup\<close>.\<close>

fun epoch_union ::
  "nat \<Rightarrow> env \<Rightarrow> Vault \<Rightarrow> Address \<Rightarrow> Address list \<Rightarrow> int \<Rightarrow> bool \<Rightarrow> int \<Rightarrow> nat \<Rightarrow> nat \<Rightarrow> TxOutInput list \<Rightarrow> TxOutInput list \<Rightarrow> kstate
    \<Rightarrow> TxOutInput list result" where
  "epoch_union 0 e vault rootAddr outputAddrs gasRate hasRemainder height fixedTotal needed pins uni s = Inr uni"
| "epoch_union (Suc n) e vault rootAddr outputAddrs gasRate hasRemainder height fixedTotal needed pins uni s =
     (case (if uni = [] then Inr (btcGasCoinFromNativeSats 0)
            else btcExactGasCoin e (va_PubKey vault) MainVaultPathIndex outputAddrs uni gasRate (\<not> hasRemainder)) of
        Inl err \<Rightarrow> Inl err
      | Inr maxGasCoin \<Rightarrow>
          let required = needed + co_Amount maxGasCoin; pinnedValue = btcSourceInputsAmount pins in
          if btcSourceInputsAmount uni \<ge> required then Inr uni
          else let shortfall = required - min pinnedValue required in
            (case btcSelectVaultSourceInputs vault rootAddr shortfall height s of
               Inl err \<Rightarrow> Inl err
             | Inr rootInputs \<Rightarrow>
                 if rootInputs = [] then
                   (if hasRemainder \<and> pinnedValue > fixedTotal + co_Amount maxGasCoin then Inr pins
                    else Inl (Errorf ''no bitcoin source inputs available for vault epoch batch''))
                 else let uni1 = pins @ rootInputs in
                   if length uni1 > btcMaxBatchVins then Inl (Errorf ''bitcoin epoch batch needs too many vins'')
                   else epoch_union n e vault rootAddr outputAddrs gasRate hasRemainder height fixedTotal needed pins uni1 s))"

text \<open>The items of a batch, updated by position: \<^verbatim>\<open>for i, idx := range group\<close>.\<close>

fun assign_group :: "TxOutItem list \<Rightarrow> TxOutInput list \<Rightarrow> int \<Rightarrow> nat list \<Rightarrow> Coin list \<Rightarrow> TxOutItem list" where
  "assign_group items inputs gasRate (idx # is) (c # cs) =
     assign_group (items[idx := (items ! idx)\<lparr>to_SourceInputs := inputs, to_MaxGas := [c], to_GasRate := gasRate\<rparr>])
       inputs gasRate is cs"
| "assign_group items inputs gasRate _ _ = items"

definition set_coins :: "TxOutItem list \<Rightarrow> nat list \<Rightarrow> nat \<Rightarrow> TxOutItem list" where
  "set_coins items idxs amount =
     foldl (\<lambda>its idx. its[idx := (its ! idx)\<lparr>to_Coin := NewCoin BTCAsset amount\<rparr>]) items idxs"

text \<open>The last part of \<^verbatim>\<open>refreshBTCEpochBatchGroup\<close>, once the inputs are chosen.\<close>

definition finishBTCEpochBatch ::
  "env \<Rightarrow> TxOut \<Rightarrow> nat list \<Rightarrow> Vault \<Rightarrow> int \<Rightarrow> Address list \<Rightarrow> nat \<Rightarrow> nat list \<Rightarrow> nat list \<Rightarrow> TxOutInput list \<Rightarrow> TxOut result" where
  "finishBTCEpochBatch e txOut grp vault gasRate outputAddrs fixedTotal vinOnly remainders uni =
     (if uni = [] then Inl (Errorf ''missing bitcoin source inputs for txout'')
      else case btcExactGasCoin e (va_PubKey vault) MainVaultPathIndex outputAddrs uni gasRate (remainders = []) of
        Inl err \<Rightarrow> Inl err
      | Inr maxGasCoin \<Rightarrow>
      let unionValue = btcSourceInputsAmount uni; spendTotal = fixedTotal + co_Amount maxGasCoin in
      if unionValue < spendTotal then Inl (Errorf ''insufficient bitcoin epoch batch inputs'')
      else if remainders \<noteq> [] \<and> unionValue - spendTotal \<le> DustThreshold BTCChain
        then Inl (Errorf ''bitcoin epoch batch remainder is dust'')
      else
      let items1 = set_coins (tx_TxArray txOut) remainders (unionValue - spendTotal);
          items2 = set_coins items1 vinOnly 0 in
      (case btcSplitGasCoin maxGasCoin (length grp) of
         Inl err \<Rightarrow> Inl err
       | Inr gasShares \<Rightarrow> Inr (txOut\<lparr>tx_TxArray := assign_group items2 uni gasRate grp gasShares\<rparr>)))"

definition refreshBTCEpochBatchGroup :: "env \<Rightarrow> TxOut \<Rightarrow> nat list \<Rightarrow> kstate \<Rightarrow> TxOut result" where
  "refreshBTCEpochBatchGroup e txOut grp s =
     (let items = tx_TxArray txOut; at = (\<lambda>idx. items ! idx); first = at (hd grp) in
      case GetVault (to_VaultPubKey first) s of
        Inl err \<Rightarrow> Inl (Wrapf ''fail to get bitcoin txout vault'' err)
      | Inr vault \<Rightarrow>
      if va_PubKey vault = [] then Inl (Errorf ''missing bitcoin txout vault'')
      else case e_taproot e (va_PubKey vault) MainVaultPathIndex of
        Inl err \<Rightarrow> Inl err
      | Inr rootAddr \<Rightarrow>
      (case btcGasRateFromKeeper s of
        Inl err \<Rightarrow> Inl err
      | Inr gasRate \<Rightarrow>
      if list_ex (\<lambda>idx. \<not> Asset_Equals (co_Asset (to_Coin (at idx))) BTCAsset) grp
        then Inl (Errorf ''bitcoin txout item is not BTC'')
      else
      let vinOnly = filter (\<lambda>idx. btcBatchVinOnlyItem (at idx)) grp;
          remainders = filter (\<lambda>idx. \<not> btcBatchVinOnlyItem (at idx) \<and> btcBatchRemainderItem (at idx)) grp;
          vouts = filter (\<lambda>idx. \<not> btcBatchVinOnlyItem (at idx) \<and> \<not> btcBatchRemainderItem (at idx)) grp in
      if length remainders > 1 then Inl (Errorf ''bitcoin epoch batch has several remainder items'')
      else case group_pins (map at grp) of
        Inl err \<Rightarrow> Inl err
      | Inr pins \<Rightarrow>
      let outputAddrs = map (\<lambda>idx. to_ToAddress (at idx)) (vouts @ remainders);
          fixedTotal = sum_list (map (\<lambda>idx. co_Amount (to_Coin (at idx))) vouts);
          remainderTarget = sum_list (map (\<lambda>idx. co_Amount (to_Coin (at idx))) remainders);
          hasRemainder = (remainders \<noteq> []) in
      (case epoch_union 3 e vault rootAddr outputAddrs gasRate hasRemainder (tx_Height txOut) fixedTotal
              (fixedTotal + remainderTarget) pins pins s of
        Inl err \<Rightarrow> Inl err
      | Inr uni \<Rightarrow> finishBTCEpochBatch e txOut grp vault gasRate outputAddrs fixedTotal vinOnly remainders uni)))"

definition refreshBTCLegacyTxOutGroup :: "env \<Rightarrow> TxOut \<Rightarrow> nat list \<Rightarrow> kstate \<Rightarrow> TxOut result" where
  "refreshBTCLegacyTxOutGroup e txOut grp s =
     (let items = tx_TxArray txOut; at = (\<lambda>idx. items ! idx); first = at (hd grp) in
      case GetVault (to_VaultPubKey first) s of
        Inl err \<Rightarrow> Inl (Wrapf ''fail to get bitcoin txout vault'' err)
      | Inr vault \<Rightarrow>
      if va_PubKey vault = [] then Inl (Errorf ''missing bitcoin txout vault'')
      else case e_taproot e (to_VaultPubKey first) (to_VaultPathIndex first) of
        Inl err \<Rightarrow> Inl err
      | Inr sourceAddr \<Rightarrow>
      (case btcGasRateFromKeeper s of
        Inl err \<Rightarrow> Inl err
      | Inr gasRate \<Rightarrow>
      if list_ex (\<lambda>idx. \<not> Asset_Equals (co_Asset (to_Coin (at idx))) BTCAsset) grp
        then Inl (Errorf ''bitcoin txout item is not BTC'')
      else
      let outputAddrs = map (\<lambda>idx. to_ToAddress (at idx)) grp;
          totalOutput = sum_list (map (\<lambda>idx. co_Amount (to_Coin (at idx))) grp);
          internal = IsInternalTxOutType (to_TxType first) in
      (case (if to_SourceInputs first = []
             then selectBTCVaultSourceInputsForOutputs e vault (to_VaultPathIndex first) sourceAddr outputAddrs totalOutput
               gasRate (tx_Height txOut) (\<not> internal) s
             else Inr (to_SourceInputs first)) of
        Inl err \<Rightarrow> Inl err
      | Inr inputs \<Rightarrow>
      if inputs = [] then Inl (Errorf ''missing bitcoin source inputs for txout'')
      else case btcExactGasCoin e (to_VaultPubKey first) (to_VaultPathIndex first) outputAddrs inputs gasRate (\<not> internal) of
        Inl err \<Rightarrow> Inl err
      | Inr maxGasCoin \<Rightarrow>
      if internal \<and> btcSourceInputsAmount inputs \<le> co_Amount maxGasCoin
        then Inl (Errorf ''bitcoin internal txout source inputs cannot cover gas'')
      else
      let items1 = (if internal then set_coins items [hd grp] (btcSourceInputsAmount inputs - co_Amount maxGasCoin) else items) in
      (case btcSplitGasCoin maxGasCoin (length grp) of
         Inl err \<Rightarrow> Inl err
       | Inr gasShares \<Rightarrow> Inr (txOut\<lparr>tx_TxArray := assign_group items1 inputs gasRate grp gasShares\<rparr>)))))"

definition refreshBTCExactTxOutGroup :: "env \<Rightarrow> TxOut \<Rightarrow> nat list \<Rightarrow> kstate \<Rightarrow> TxOut result" where
  "refreshBTCExactTxOutGroup e txOut grp s =
     (if grp = [] then Inr txOut
      else if tx_Status txOut = TxOutStatusPendingBatch \<and> btcEpochBatchItem (tx_TxArray txOut ! hd grp)
        then refreshBTCEpochBatchGroup e txOut grp s
      else refreshBTCLegacyTxOutGroup e txOut grp s)"

definition refresh_group :: "TxOut \<Rightarrow> nat list \<Rightarrow> nat \<Rightarrow> nat list" where
  "refresh_group txOut handled i =
     (let item = tx_TxArray txOut ! i; later = [Suc i..<length (tx_TxArray txOut)] in
      i # (if tx_Status txOut = TxOutStatusPendingBatch \<and> btcEpochBatchItem item then
             filter (\<lambda>j. let other = tx_TxArray txOut ! j in j \<notin> set handled \<and> btcEpochBatchItem other
               \<and> to_VaultPubKey other = to_VaultPubKey item \<and> TxID_IsEmpty (to_OutHash other)) later
           else if btcBatchableTxOut item then
             filter (\<lambda>j. j \<notin> set handled \<and> btcSameBatchSource item (tx_TxArray txOut ! j)
               \<and> TxID_IsEmpty (to_OutHash (tx_TxArray txOut ! j))) later
           else []))"

text \<open>The loop over the items; a failing group leaves the groups before it refreshed, as the Go code
  updates the block in place.\<close>

fun refresh_items :: "env \<Rightarrow> nat list \<Rightarrow> nat list \<Rightarrow> TxOut \<Rightarrow> kstate \<Rightarrow> unit result \<times> TxOut" where
  "refresh_items e handled [] txOut s = (Inr (), txOut)"
| "refresh_items e handled (i # is) txOut s =
     (if i \<in> set handled \<or> \<not> btcTxOutItemNeedsExactRefresh txOut (tx_TxArray txOut ! i)
      then refresh_items e handled is txOut s
      else let grp = refresh_group txOut handled i in
        case refreshBTCExactTxOutGroup e txOut grp s of
          Inl err \<Rightarrow> (Inl err, txOut)
        | Inr txOut1 \<Rightarrow> refresh_items e (grp @ handled) is txOut1 s)"

definition refreshBTCExactTxOutBlock :: "env \<Rightarrow> TxOut \<Rightarrow> kstate \<Rightarrow> unit result \<times> TxOut" where
  "refreshBTCExactTxOutBlock e txOut s = refresh_items e [] [0..<length (tx_TxArray txOut)] txOut s"

definition refreshBTCExactTxOut :: "env \<Rightarrow> int \<Rightarrow> unit kact" where
  "refreshBTCExactTxOut e height =
     bindA (gets (GetTxOut height)) (\<lambda>txOut.
     if TxOut_IsEmpty txOut then ret ()
     else bindA (gets (refreshBTCExactTxOutBlock e txOut)) (\<lambda>(r, txOut1).
       bindA (lift_result r) (\<lambda>_. SetTxOut txOut1)))"

section \<open>Queueing an outbound\<close>

fun next_empty :: "nat \<Rightarrow> int \<Rightarrow> kstate \<Rightarrow> int result" where
  "next_empty 0 height s = Inl (Errorf ''fail to find empty txout height'')"
| "next_empty (Suc n) height s =
     (let block = GetTxOut height s in
      if TxOut_IsEmpty block \<or> tx_Status block = [] then Inr height else next_empty n (height + 1) s)"

definition nextEmptyTxOutHeight :: "int \<Rightarrow> kstate \<Rightarrow> int result" where
  "nextEmptyTxOutHeight start s = next_empty 1000 start s"

text \<open>One step of the scan for an open batch: the best block so far and the next epoch number.\<close>

definition scanBatch :: "PubKey \<Rightarrow> TxOutItem \<Rightarrow> int \<Rightarrow> TxOut option \<times> u64 \<Rightarrow> TxOut \<Rightarrow> TxOut option \<times> u64" where
  "scanBatch vault incoming height acc txOut =
     (case acc of (best, nextEpoch) \<Rightarrow>
      if txOutBatchVault txOut \<noteq> Some vault then acc
      else let epoch1 = (if tx_Epoch txOut + 1 > nextEpoch then tx_Epoch txOut + 1 else nextEpoch) in
      if tx_Status txOut \<noteq> TxOutStatusPendingBatch \<or> tx_Height txOut \<le> height \<or> \<not> btcBatchHasRoom txOut incoming
        then (best, epoch1)
      else (case best of
              None \<Rightarrow> (Some txOut, epoch1)
            | Some b \<Rightarrow> ((if tx_Height txOut < tx_Height b then Some txOut else best), epoch1)))"

definition btcVaultBatchTxOut :: "TxOutItem \<Rightarrow> kstate \<Rightarrow> TxOut result" where
  "btcVaultBatchTxOut incoming s =
     (case foldl (scanBatch (to_VaultPubKey incoming) incoming (k_height s)) (None, 0) (kv_values (k_txouts s)) of
        (Some b, _) \<Rightarrow> Inr b
      | (None, nextEpoch) \<Rightarrow>
          let w = MinutesToBlocks (GetConfigInt64 Withdrawal_BatchWindowMinutes s) (GetConfigInt64 Chain_BlockTimeSeconds s);
              windowBlocks = (if w < 0 then 0 else w) in
          (case nextEmptyTxOutHeight (wrap64 (k_height s + windowBlocks)) s of
             Inl err \<Rightarrow> Inl err
           | Inr height \<Rightarrow> Inr ((GetTxOut height s)\<lparr>tx_Epoch := nextEpoch, tx_Status := TxOutStatusPendingBatch\<rparr>)))"

definition txOutCanAppendImmediateBTCItem :: "TxOut \<Rightarrow> bool" where
  "txOutCanAppendImmediateBTCItem txOut \<longleftrightarrow> TxOut_IsEmpty txOut \<or> tx_Status txOut = []"

text \<open>Going on after an error that is only logged; a panic is not an error.\<close>

definition after_log :: "'b result \<Rightarrow> ('s, 'a) act \<Rightarrow> ('s, 'a) act" where
  "after_log r k = (case r of Inl (Panic m) \<Rightarrow> fail (Panic m) | _ \<Rightarrow> k)"

definition appendBTCExactTxOut :: "env \<Rightarrow> int \<Rightarrow> TxOutItem \<Rightarrow> unit kact" where
  "appendBTCExactTxOut e height item0 =
     (let item = item0\<lparr>to_TxType := GetTxType item0\<rparr> in
      if btcEpochBatchItem item then
        err_if (to_VaultPubKey item = []) ''fail to batch bitcoin txout: empty vault pubkey''
       (bindA (gets (btcVaultBatchTxOut item)) (\<lambda>r. bindA (lift_result r) (\<lambda>block.
        bindA (gets (refreshBTCExactTxOutBlock e (block\<lparr>tx_TxArray := tx_TxArray block @ [item]\<rparr>))) (\<lambda>(r1, block1).
        after_log r1 (SetTxOut block1)))))
      else
        bindA (gets (free_txout 1000 height)) (\<lambda>b.
        case b of
          None \<Rightarrow> fail (Errorf ''fail to find bitcoin immediate txout slot'')
        | Some block0 \<Rightarrow>
            let block = (if tx_Status block0 = [] then block0\<lparr>tx_Status := TxOutStatusPendingSign\<rparr> else block0) in
            bindA (gets (refreshBTCExactTxOutBlock e (block\<lparr>tx_TxArray := tx_TxArray block @ [item]\<rparr>))) (\<lambda>(r, block1).
            bindA (lift_result r) (\<lambda>_. SetTxOut block1))))"

lemma after_log_run: "after_log r k s = (Inr y, t) \<Longrightarrow> k s = (Inr y, t)"
  by (auto simp: after_log_def fail_def split: sum.splits error.splits)

lemma same_after_log [act_keeps]: "same f k \<Longrightarrow> same f (after_log r k)"
  by (auto simp: after_log_def intro: act_keeps split: sum.split error.split)

section \<open>Amounts: the gas split and the input total\<close>

lemma sum_split_up_to:
  fixes b r n :: nat
  shows "r \<le> n \<Longrightarrow> sum_list (map (\<lambda>i. if i < r then b + 1 else b) [0..<n]) = b * n + r"
proof (induction n)
  case (Suc n)
  show ?case
  proof (cases "r = Suc n")
    case True
    have "sum_list (map (\<lambda>i. if i < r then b + 1 else b) [0..<Suc n]) = sum_list (map (\<lambda>i. b + 1) [0..<Suc n])"
      by (intro arg_cong [where f = sum_list] map_cong) (auto simp: True)
    then show ?thesis by (simp add: True sum_list_triv)
  next
    case False
    with Suc show ?thesis by simp
  qed
qed simp

lemma split_amounts:
  assumes "btcSplitGasCoin gas parts = Inr cs" and "1 < parts" and "parts < 2 ^ 64"
  shows "map co_Amount cs = map (\<lambda>i. if i < co_Amount gas mod parts then co_Amount gas div parts + 1 else co_Amount gas div parts) [0..<parts]"
proof -
  have fit: "co_Amount gas < 2 ^ 64" using assms by (auto simp: btcSplitGasCoin_def Uint64_def split: if_splits)
  define g where "g = (of_nat (co_Amount gas) :: u64)"
  have g: "unat g = co_Amount gas" using fit by (simp add: g_def unat_of_nat take_bit_nat_eq_self)
  have p: "unat (of_nat parts :: u64) = parts" using assms(3) by (simp add: unat_of_nat take_bit_nat_eq_self)
  have r: "unat (g mod of_nat parts) = co_Amount gas mod parts" by (simp add: unat_mod_distrib g p)
  have b: "unat (g div of_nat parts) = co_Amount gas div parts" by (simp add: unat_div_distrib g p)
  have "co_Amount gas div parts * 2 < 2 ^ 64"
    using fit assms(2) div_le_mono2 [of 2 parts "co_Amount gas"] by linarith
  then have s: "unat (g div of_nat parts + 1) = co_Amount gas div parts + 1"
    using unat_add_lem [of "g div of_nat parts" 1] by (simp add: b)
  have lt: "of_nat i < g mod of_nat parts \<longleftrightarrow> i < co_Amount gas mod parts" if "i < parts" for i
  proof -
    have "unat (of_nat i :: u64) = i" using that assms(3) by (simp add: unat_of_nat take_bit_nat_eq_self)
    then show ?thesis by (simp add: word_less_nat_alt r)
  qed
  show ?thesis using assms fit
    by (auto simp: btcSplitGasCoin_def Uint64_def NewCoin_def Let_def comp_def s b lt g_def [symmetric] not_le)
qed

theorem split_sums:
  assumes "btcSplitGasCoin gas parts = Inr cs" and "parts < 2 ^ 64"
  shows "sum_list (map co_Amount cs) = co_Amount gas \<and> length cs = max 1 parts"
proof (cases "parts \<le> 1")
  case True then show ?thesis using assms by (auto simp: btcSplitGasCoin_def)
next
  case False
  have "length cs = parts" using arg_cong [OF split_amounts [OF assms(1) _ assms(2)], of length] False by simp
  moreover have "sum_list (map co_Amount cs) = co_Amount gas div parts * parts + co_Amount gas mod parts"
    using False by (subst split_amounts [OF assms(1) _ assms(2)]) (simp_all add: sum_split_up_to less_imp_le)
  ultimately show ?thesis using False by simp
qed

lemma unat_room: "unat (- 1 - w) = 2 ^ 64 - 1 - unat (w :: u64)"
proof -
  have "unat (- 1 :: u64) = 2 ^ 64 - 1" by (simp add: unsigned_minus_1_eq_mask mask_eq_exp_minus_1)
  moreover have "w \<le> - 1" by simp
  ultimately show ?thesis by (simp only: unat_sub_u64)
qed

lemma inputs_amount_run:
  "inputs_amount all tot is =
     (if unat tot + sum_list (map (\<lambda>i. unat (ti_AmountSats i)) is) < 2 ^ 64
      then unat tot + sum_list (map (\<lambda>i. unat (ti_AmountSats i)) is)
      else inputs_amount all tot is)"
proof (induction "is" arbitrary: tot)
  case (Cons i xs)
  note m = unat_room [of tot]
  have "unat (tot + ti_AmountSats i) = unat tot + unat (ti_AmountSats i)"
    if "unat tot + unat (ti_AmountSats i) < 2 ^ 64"
    using that unat_add_lem [of tot "ti_AmountSats i"] by simp
  then show ?case using Cons [of "tot + ti_AmountSats i"] by (auto simp: m)
qed simp

lemma inputs_amount_over:
  assumes "unat tot + sum_list (map (\<lambda>i. unat (ti_AmountSats i)) is) \<ge> 2 ^ 64"
  shows "\<exists>pre x post. is = pre @ x # post \<and>
    inputs_amount all tot is = unat tot + sum_list (map (\<lambda>i. unat (ti_AmountSats i)) pre)
      + sum_list (map (\<lambda>i. unat (ti_AmountSats i)) all)"
  using assms
proof (induction "is" arbitrary: tot)
  case Nil then show ?case using unat_lt_64 [of tot] by simp
next
  case (Cons i xs)
  note m = unat_room [of tot]
  show ?case
  proof (cases "unat tot + unat (ti_AmountSats i) < 2 ^ 64")
    case True
    then have u: "unat (tot + ti_AmountSats i) = unat tot + unat (ti_AmountSats i)"
      using unat_add_lem [of tot "ti_AmountSats i"] by simp
    obtain pre x post where "xs = pre @ x # post" and
      "inputs_amount all (tot + ti_AmountSats i) xs = unat (tot + ti_AmountSats i)
         + sum_list (map (\<lambda>i. unat (ti_AmountSats i)) pre) + sum_list (map (\<lambda>i. unat (ti_AmountSats i)) all)"
      using Cons.IH [of "tot + ti_AmountSats i"] Cons.prems by (auto simp: u)
    then show ?thesis using True by (intro exI [of _ "i # pre"] exI [of _ x] exI [of _ post]) (auto simp: m u)
  next
    case False
    then have "inputs_amount all tot (i # xs) = unat tot + sum_list (map (\<lambda>i. unat (ti_AmountSats i)) all)"
      by (simp add: m) (use unat_lt_64 [of tot] in linarith)
    then have "i # xs = [] @ i # xs \<and> inputs_amount all tot (i # xs) = unat tot
      + sum_list (map (\<lambda>i. unat (ti_AmountSats i)) []) + sum_list (map (\<lambda>i. unat (ti_AmountSats i)) all)" by simp
    then show ?thesis by blast
  qed
qed

definition inputs_total :: "TxOutInput list \<Rightarrow> nat" where
  "inputs_total inputs = sum_list (map (\<lambda>i. unat (ti_AmountSats i)) inputs)"

theorem source_amount_exact: "inputs_total inputs < 2 ^ 64 \<Longrightarrow> btcSourceInputsAmount inputs = inputs_total inputs"
  using inputs_amount_run [of inputs 0 inputs] by (simp add: btcSourceInputsAmount_def inputs_total_def)

theorem source_amount_over:
  assumes "inputs_total inputs \<ge> 2 ^ 64"
  shows "\<exists>pre post. inputs = pre @ post \<and> post \<noteq> [] \<and> btcSourceInputsAmount inputs = inputs_total pre + inputs_total inputs"
  using inputs_amount_over [of 0 inputs inputs] assms by (auto simp: btcSourceInputsAmount_def inputs_total_def)

section \<open>Change outputs, batch capacity and input selection\<close>

lemma next_vout_scan:
  assumes "unat vout + n < 2 ^ 32"
  shows "(\<forall>v. unat vout \<le> unat v \<and> unat v < unat (next_vout n used vout) \<longrightarrow> v \<in> set used) \<and>
    unat vout \<le> unat (next_vout n used vout) \<and> unat (next_vout n used vout) \<le> unat vout + n \<and>
    (next_vout n used vout \<in> set used \<longrightarrow> unat (next_vout n used vout) = unat vout + n)"
  using assms
proof (induction n arbitrary: vout)
  case (Suc n)
  have u: "unat (vout + 1) = unat vout + 1" using Suc.prems unat_add_lem [of vout 1] by simp
  show ?case
  proof (cases "vout \<in> set used")
    case True
    let ?w = "next_vout n used (vout + 1)"
    have lt: "unat (vout + 1) + n < 2 ^ 32" using Suc.prems by (simp only: u)
    have IH: "\<forall>v. unat vout + 1 \<le> unat v \<and> unat v < unat ?w \<longrightarrow> v \<in> set used"
      "unat vout + 1 \<le> unat ?w" "unat ?w \<le> unat vout + 1 + n" "?w \<in> set used \<longrightarrow> unat ?w = unat vout + 1 + n"
      using Suc.IH [OF lt, unfolded u] by blast+
    have "v \<in> set used" if "unat vout \<le> unat v" "unat v < unat ?w" for v
    proof (cases "unat v = unat vout")
      case True then show ?thesis using \<open>vout \<in> set used\<close> by (metis word_unat_eq_iff)
    next
      case False then show ?thesis using that IH(1) by simp
    qed
    then have 1: "\<forall>v. unat vout \<le> unat v \<and> unat v < unat ?w \<longrightarrow> v \<in> set used" by blast
    have 2: "unat vout \<le> unat ?w" "unat ?w \<le> unat vout + Suc n" using IH(2,3) by linarith+
    have 3: "?w \<in> set used \<longrightarrow> unat ?w = unat vout + Suc n" using IH(4) by linarith
    have "next_vout (Suc n) used vout = ?w" using True by simp
    then show ?thesis using 1 2 3 by metis
  qed auto
qed auto

theorem change_vout_least:
  assumes "length used < 2 ^ 31"
  shows "nextBTCChangeVout used \<notin> set used \<and> (\<forall>v < nextBTCChangeVout used. v \<in> set used)"
proof -
  let ?n = "Suc (length used)"
  define w where "w = nextBTCChangeVout used"
  have lt: "unat (0 :: u32) + ?n < 2 ^ 32" using assms by simp
  have run: "(\<forall>v. unat v < unat w \<longrightarrow> v \<in> set used) \<and> (w \<in> set used \<longrightarrow> unat w = ?n)"
    using next_vout_scan [OF lt, of used, unfolded unat_0 add_0] unfolding w_def nextBTCChangeVout_def by blast
  have "w \<notin> set used"
  proof
    assume "w \<in> set used"
    then have v: "unat w = ?n" using run by blast
    have "unat ` {x :: u32. unat x < ?n} = {..<?n}"
    proof (intro set_eqI iffI)
      fix i assume "i \<in> {..<?n}"
      then have "unat (of_nat i :: u32) = i" using assms by (simp add: unat_of_nat)
      then show "i \<in> unat ` {x :: u32. unat x < ?n}"
        using \<open>i \<in> {..<?n}\<close> by (intro image_eqI [of _ _ "of_nat i"]) simp_all
    qed auto
    moreover have "{x :: u32. unat x < ?n} \<subseteq> set used" using run v by auto
    ultimately have "card {..<?n} \<le> card (unat ` set used)" by (metis card_mono finite_imageI finite_set image_mono)
    also have "\<dots> \<le> length used" using card_image_le [of "set used" unat] card_length [of used] by simp
    finally show False by simp
  qed
  then show ?thesis using run unfolding w_def [symmetric] word_less_nat_alt by blast
qed

definition batch_fits :: "TxOutItem list \<Rightarrow> bool" where
  "batch_fits items \<longleftrightarrow> vout_count items \<le> btcMaxBatchRecipients \<and> vin_count items \<le> btcMaxBatchVins \<and> remainder_count items \<le> 1"

lemma room_keeps_fit:
  "batch_fits (tx_TxArray b) \<Longrightarrow> btcBatchHasRoom b item \<Longrightarrow> batch_fits (tx_TxArray b @ [item])"
  by (auto simp: batch_fits_def btcBatchHasRoom_def vout_count_def vin_count_def remainder_count_def split: if_splits)

lemma scan_open:
  assumes "foldl (scanBatch v item h) (best, n) bs = (Some b, n')"
    and "\<And>c. best = Some c \<Longrightarrow> btcBatchHasRoom c item \<and> tx_Status c = TxOutStatusPendingBatch \<and> h < tx_Height c \<and> txOutBatchVault c = Some v \<and> c \<in> S"
    and "set bs \<subseteq> S"
  shows "btcBatchHasRoom b item \<and> tx_Status b = TxOutStatusPendingBatch \<and> h < tx_Height b \<and> txOutBatchVault b = Some v \<and> b \<in> S"
  using assms
proof (induction bs arbitrary: best n)
  case (Cons c cs)
  obtain best1 n1 where step: "scanBatch v item h (best, n) c = (best1, n1)" by fastforce
  have "btcBatchHasRoom d item \<and> tx_Status d = TxOutStatusPendingBatch \<and> h < tx_Height d \<and> txOutBatchVault d = Some v \<and> d \<in> S"
    if "best1 = Some d" for d
    using step that Cons.prems(2,3) by (auto simp: scanBatch_def Let_def split: if_splits option.splits)
  then show ?case using Cons.IH [of best1 n1] Cons.prems step by simp
qed simp

lemma select_inputs_run:
  assumes "select_inputs m required (acc, tot) cs = (inputs, tot')"
    and "inputs_total acc + inputs_total (map sc_input cs) < 2 ^ 64" and "unat tot = inputs_total acc"
  shows "\<exists>k. inputs = acc @ map sc_input (take k cs) \<and> unat tot' = inputs_total inputs
    \<and> (length acc \<le> m \<longrightarrow> length inputs \<le> m)
    \<and> (inputs = acc \<or> inputs_total (butlast inputs) < required \<or> inputs = acc @ map sc_input (take 1 cs))"
  using assms
proof (induction cs arbitrary: acc tot)
  case Nil then show ?case by (intro exI [of _ 0]) simp
next
  case (Cons c cs)
  let ?tot1 = "tot + ti_AmountSats (sc_input c)" let ?acc1 = "acc @ [sc_input c]"
  have fit: "inputs_total ?acc1 + inputs_total (map sc_input cs) < 2 ^ 64"
    using Cons.prems(2) by (simp add: inputs_total_def)
  have u: "unat ?tot1 = inputs_total ?acc1"
    using fit Cons.prems(3) unat_add_u64 [of tot "ti_AmountSats (sc_input c)"] by (simp add: inputs_total_def)
  consider "length acc \<ge> m" | "length acc < m" "unat ?tot1 \<ge> required" | "length acc < m" "unat ?tot1 < required" by linarith
  then show ?case
  proof cases
    case 1 then show ?thesis using Cons.prems by (intro exI [of _ 0]) (simp add: Let_def)
  next
    case 2 then show ?thesis using Cons.prems u by (intro exI [of _ 1]) (auto simp: Let_def)
  next
    case 3
    then have r: "select_inputs m required (?acc1, ?tot1) cs = (inputs, tot')" using Cons.prems(1) by (simp add: Let_def)
    obtain k where k: "inputs = ?acc1 @ map sc_input (take k cs)" "unat tot' = inputs_total inputs"
      "length inputs \<le> m" "inputs = ?acc1 \<or> inputs_total (butlast inputs) < required \<or> inputs = ?acc1 @ map sc_input (take 1 cs)"
      using Cons.IH [OF r fit u] 3(1) by (metis Suc_leI length_append_singleton)
    have "inputs_total (butlast inputs) < required \<or> inputs = ?acc1"
      using k(4) 3 u by (cases cs) (auto simp: butlast_append)
    then show ?thesis using k by (intro exI [of _ "Suc k"]) auto
  qed
qed

section \<open>The value of a batch\<close>

lemma nth_assign_other: "i \<notin> set idxs \<Longrightarrow> assign_group items inp g idxs cs ! i = items ! i"
  by (induction items inp g idxs cs rule: assign_group.induct) auto

lemma length_assign [simp]: "length (assign_group items inp g idxs cs) = length items"
  by (induction items inp g idxs cs rule: assign_group.induct) auto

lemma nth_assign_coin: "to_Coin (assign_group items inp g idxs cs ! i) = to_Coin (items ! i)"
proof (induction items inp g idxs cs rule: assign_group.induct)
  case (1 items inp g idx idxs c cs)
  then show ?case by (cases "i = idx"; cases "i < length items") (simp_all add: list_update_beyond)
qed simp_all

lemma nth_assign_group:
  assumes "distinct idxs" and "\<forall>i \<in> set idxs. i < length items" and "length cs = length idxs" and "n < length idxs"
  shows "assign_group items inp g idxs cs ! (idxs ! n)
    = (items ! (idxs ! n))\<lparr>to_SourceInputs := inp, to_MaxGas := [cs ! n], to_GasRate := g\<rparr>"
  using assms
proof (induction items inp g idxs cs arbitrary: n rule: assign_group.induct)
  case (1 items inp g idx idxs c cs)
  show ?case
  proof (cases n)
    case 0 then show ?thesis using 1 by (simp add: nth_assign_other)
  next
    case (Suc m)
    then have "idxs ! m \<noteq> idx" using 1(2,5) by (auto simp: in_set_conv_nth)
    then show ?thesis using 1(1) [of m] 1(2-5) Suc by simp
  qed
qed auto

lemma nth_set_coins:
  "i < length items \<Longrightarrow> set_coins items idxs v ! i
     = (if i \<in> set idxs then (items ! i)\<lparr>to_Coin := NewCoin BTCAsset v\<rparr> else items ! i)"
proof (induction idxs arbitrary: items)
  case (Cons j js)
  have "set_coins items (j # js) v = set_coins (items[j := (items ! j)\<lparr>to_Coin := NewCoin BTCAsset v\<rparr>]) js v"
    by (simp add: set_coins_def)
  then show ?case using Cons.IH [of "items[j := (items ! j)\<lparr>to_Coin := NewCoin BTCAsset v\<rparr>]"] Cons.prems
    by (cases "i = j") auto
qed (simp add: set_coins_def)

lemma length_set_coins [simp]: "length (set_coins items idxs v) = length items"
  by (induction idxs arbitrary: items) (simp_all add: set_coins_def)

definition amount_at :: "TxOutItem list \<Rightarrow> nat \<Rightarrow> nat" where
  "amount_at items i = co_Amount (to_Coin (items ! i))"

definition fixed_of :: "TxOutItem list \<Rightarrow> nat list \<Rightarrow> nat list" where
  "fixed_of items grp = filter (\<lambda>i. \<not> btcBatchVinOnlyItem (items ! i) \<and> \<not> btcBatchRemainderItem (items ! i)) grp"

definition remainders_of :: "TxOutItem list \<Rightarrow> nat list \<Rightarrow> nat list" where
  "remainders_of items grp = filter (\<lambda>i. btcBatchRemainderItem (items ! i)) grp"

definition vins_of :: "TxOutItem list \<Rightarrow> nat list \<Rightarrow> nat list" where
  "vins_of items grp = filter (\<lambda>i. btcBatchVinOnlyItem (items ! i)) grp"

text \<open>What refreshing an epoch batch leaves in the block: the same inputs on every item, the fee
  shares, the outputs as requested, the remainder item with what is left.\<close>

lemma epoch_refresh_finish:
  assumes "refreshBTCEpochBatchGroup e txOut grp s = Inr txOut'"
  obtains vault gasRate uni where
    "finishBTCEpochBatch e txOut grp vault gasRate
       (map (\<lambda>i. to_ToAddress (tx_TxArray txOut ! i)) (fixed_of (tx_TxArray txOut) grp @ remainders_of (tx_TxArray txOut) grp))
       (sum_list (map (amount_at (tx_TxArray txOut)) (fixed_of (tx_TxArray txOut) grp)))
       (vins_of (tx_TxArray txOut) grp) (remainders_of (tx_TxArray txOut) grp) uni = Inr txOut'"
    "length (remainders_of (tx_TxArray txOut) grp) \<le> 1"
proof -
  have rem: "(\<not> btcBatchVinOnlyItem i \<and> btcBatchRemainderItem i) = btcBatchRemainderItem i" for i
    by (auto simp: btcBatchRemainderItem_def)
  have amt: "(\<lambda>idx. co_Amount (to_Coin (items ! idx))) = amount_at items" for items
    by (simp add: fun_eq_iff amount_at_def)
  show ?thesis using assms that
    unfolding refreshBTCEpochBatchGroup_def Let_def rem fixed_of_def [symmetric] remainders_of_def [symmetric]
      vins_of_def [symmetric] amt
    by (simp split: sum.splits if_splits)
qed

lemma finish_run:
  assumes "finishBTCEpochBatch e txOut grp vault gasRate addrs fixedTotal vinOnly remainders uni = Inr txOut'"
  obtains gas shares where
    "uni \<noteq> []" "btcExactGasCoin e (va_PubKey vault) MainVaultPathIndex addrs uni gasRate (remainders = []) = Inr gas"
    "btcSplitGasCoin gas (length grp) = Inr shares"
    "fixedTotal + co_Amount gas \<le> btcSourceInputsAmount uni"
    "tx_TxArray txOut' = assign_group (set_coins (set_coins (tx_TxArray txOut) remainders
       (btcSourceInputsAmount uni - (fixedTotal + co_Amount gas))) vinOnly 0) uni gasRate grp shares"
  using assms unfolding finishBTCEpochBatch_def Let_def
  by (auto simp: not_less split: sum.splits if_splits)

lemma sum_group_parts:
  fixes f :: "nat \<Rightarrow> nat"
  shows "sum_list (map f grp) = sum_list (map f (fixed_of items grp)) + sum_list (map f (remainders_of items grp))
    + sum_list (map f (vins_of items grp))"
  by (induction grp) (auto simp: fixed_of_def remainders_of_def vins_of_def btcBatchRemainderItem_def)

lemma parts_disjoint:
  "i \<in> set (fixed_of items grp) \<Longrightarrow> i \<notin> set (remainders_of items grp) \<and> i \<notin> set (vins_of items grp)"
  "i \<in> set (remainders_of items grp) \<Longrightarrow> i \<notin> set (vins_of items grp)"
  "set (fixed_of items grp) \<union> set (remainders_of items grp) \<union> set (vins_of items grp) \<subseteq> set grp"
  by (auto simp: fixed_of_def remainders_of_def vins_of_def btcBatchRemainderItem_def)

lemma sum_list_const: "(\<And>i. i \<in> set xs \<Longrightarrow> f i = (c :: nat)) \<Longrightarrow> sum_list (map f xs) = length xs * c"
  by (induction xs) auto

lemma amounts_after:
  assumes "\<forall>i \<in> set grp. i < length items"
    and "items' = assign_group (set_coins (set_coins items (remainders_of items grp) v) (vins_of items grp) 0) uni g grp shares"
  shows "sum_list (map (amount_at items') grp)
    = sum_list (map (amount_at items) (fixed_of items grp)) + length (remainders_of items grp) * v"
    and "i \<in> set (fixed_of items grp) \<Longrightarrow> amount_at items' i = amount_at items i"
proof -
  have at: "amount_at items' i = (if i \<in> set (vins_of items grp) then 0
      else if i \<in> set (remainders_of items grp) then v else amount_at items i)" if "i \<in> set grp" for i
    using assms that by (simp add: amount_at_def nth_assign_coin nth_set_coins NewCoin_def)
  have fixed: "amount_at items' i = amount_at items i" if "i \<in> set (fixed_of items grp)" for i
    using that at [of i] parts_disjoint(1) [of i items grp] parts_disjoint(3) [of items grp] by auto
  have "sum_list (map (amount_at items') (fixed_of items grp)) = sum_list (map (amount_at items) (fixed_of items grp))"
    by (intro arg_cong [where f = sum_list] map_cong refl fixed)
  moreover have "sum_list (map (amount_at items') (remainders_of items grp)) = length (remainders_of items grp) * v"
  proof (rule sum_list_const)
    fix i assume "i \<in> set (remainders_of items grp)"
    then show "amount_at items' i = v" using at [of i] parts_disjoint(2) [of i items grp] parts_disjoint(3) [of items grp] by auto
  qed
  moreover have "sum_list (map (amount_at items') (vins_of items grp)) = length (vins_of items grp) * 0"
  proof (rule sum_list_const)
    fix i assume "i \<in> set (vins_of items grp)"
    then show "amount_at items' i = 0" using at parts_disjoint(3) [of items grp] by auto
  qed
  ultimately show "sum_list (map (amount_at items') grp)
    = sum_list (map (amount_at items) (fixed_of items grp)) + length (remainders_of items grp) * v"
    by (simp add: sum_group_parts [of _ grp items])
  show "i \<in> set (fixed_of items grp) \<Longrightarrow> amount_at items' i = amount_at items i" by (rule fixed)
qed

definition gas_at :: "TxOutItem list \<Rightarrow> nat \<Rightarrow> nat" where
  "gas_at items i = sum_list (map co_Amount (to_MaxGas (items ! i)))"

lemma gas_after:
  assumes "distinct grp" and "\<forall>i \<in> set grp. i < length items" and "length shares = length grp"
  shows "sum_list (map (gas_at (assign_group items uni g grp shares)) grp) = sum_list (map co_Amount shares)"
proof -
  have "map (gas_at (assign_group items uni g grp shares)) grp = map co_Amount shares"
    using assms by (intro nth_equalityI) (simp_all add: gas_at_def nth_assign_group)
  then show ?thesis by simp
qed

lemma source_after:
  assumes "distinct grp" and "\<forall>i \<in> set grp. i < length items" and "length shares = length grp" and "i \<in> set grp"
  shows "to_SourceInputs (assign_group items uni g grp shares ! i) = uni"
  using assms nth_assign_group [of grp items shares _ uni g] by (auto simp: in_set_conv_nth)

theorem batch_value:
  assumes run: "refreshBTCEpochBatchGroup e txOut grp s = Inr txOut'"
    and grp: "distinct grp" "grp \<noteq> []" "\<forall>i \<in> set grp. i < length (tx_TxArray txOut)" "length grp < 2 ^ 64"
  shows "\<exists>inputs. inputs \<noteq> [] \<and> (\<forall>i \<in> set grp. to_SourceInputs (tx_TxArray txOut' ! i) = inputs)
    \<and> sum_list (map (amount_at (tx_TxArray txOut')) grp) + sum_list (map (gas_at (tx_TxArray txOut')) grp)
        \<le> btcSourceInputsAmount inputs
    \<and> (remainders_of (tx_TxArray txOut) grp \<noteq> [] \<longrightarrow>
        sum_list (map (amount_at (tx_TxArray txOut')) grp) + sum_list (map (gas_at (tx_TxArray txOut')) grp)
          = btcSourceInputsAmount inputs)
    \<and> (\<forall>i \<in> set (fixed_of (tx_TxArray txOut) grp). amount_at (tx_TxArray txOut') i = amount_at (tx_TxArray txOut) i)"
proof -
  let ?it = "tx_TxArray txOut" let ?fixed = "sum_list (map (amount_at ?it) (fixed_of ?it grp))"
  obtain vault g uni where fin: "finishBTCEpochBatch e txOut grp vault g
       (map (\<lambda>i. to_ToAddress (?it ! i)) (fixed_of ?it grp @ remainders_of ?it grp))
       ?fixed (vins_of ?it grp) (remainders_of ?it grp) uni = Inr txOut'"
    and one: "length (remainders_of ?it grp) \<le> 1"
    by (rule epoch_refresh_finish [OF run])
  obtain gas shares where uni: "uni \<noteq> []" and split: "btcSplitGasCoin gas (length grp) = Inr shares"
    and pay: "?fixed + co_Amount gas \<le> btcSourceInputsAmount uni"
    and items: "tx_TxArray txOut' = assign_group (set_coins (set_coins ?it (remainders_of ?it grp)
       (btcSourceInputsAmount uni - (?fixed + co_Amount gas))) (vins_of ?it grp) 0) uni g grp shares"
    by (rule finish_run [OF fin])
  have shares: "length shares = length grp" "sum_list (map co_Amount shares) = co_Amount gas"
    using split_sums [OF split grp(4)] grp(2) by (simp_all add: Suc_leI)
  note after = amounts_after [OF grp(3) items]
  have gas: "sum_list (map (gas_at (tx_TxArray txOut')) grp) = co_Amount gas"
    using gas_after [OF grp(1) _ shares(1)] grp(3) by (simp add: items shares)
  have src: "\<forall>i \<in> set grp. to_SourceInputs (tx_TxArray txOut' ! i) = uni"
    using source_after [OF grp(1) _ shares(1)] grp(3) by (simp add: items)
  have "length (remainders_of ?it grp) = 0 \<or> length (remainders_of ?it grp) = 1" using one by linarith
  then show ?thesis using uni src after gas pay by (intro exI [of _ uni]) auto
qed

text \<open>The vins of a batch: the cap is checked only when root outputs are added to the pins.\<close>

theorem pins_uncapped:
  assumes "btcExactGasCoin e (va_PubKey vault) MainVaultPathIndex addrs pins gasRate (\<not> rem) = Inr gas"
    and "needed + co_Amount gas \<le> btcSourceInputsAmount pins" and "pins \<noteq> []"
  shows "epoch_union 3 e vault rootAddr addrs gasRate rem height fixedTotal needed pins pins s = Inr pins"
  using assms by (simp add: eval_nat_numeral Let_def)

section \<open>The block an outbound joins\<close>

lemma GetTxOut_cases: "GetTxOut h s \<in> set (kv_values (k_txouts s)) \<or> tx_TxArray (GetTxOut h s) = []"
  by (auto simp: GetTxOut_def kv_get_def kv_values_def NewTxOut_def TxOut_zero_def split: option.splits dest!: map_of_SomeD intro: rev_image_eqI)

lemma next_empty_run: "next_empty n h s = Inr h' \<Longrightarrow> TxOut_IsEmpty (GetTxOut h' s) \<or> tx_Status (GetTxOut h' s) = []"
  by (induction n h s rule: next_empty.induct) (auto simp: Let_def split: if_splits)

definition blocks_fit :: "kstate \<Rightarrow> bool" where
  "blocks_fit s \<longleftrightarrow> list_all (\<lambda>b. (tx_Status b = TxOutStatusPendingBatch \<longrightarrow> batch_fits (tx_TxArray b))
     \<and> (tx_Status b = [] \<longrightarrow> tx_TxArray b = [])) (kv_values (k_txouts s))"

theorem batch_block_fits:
  assumes fit: "blocks_fit s" and run: "btcVaultBatchTxOut item s = Inr b"
  shows "batch_fits (tx_TxArray b @ [item]) \<and> tx_Status b = TxOutStatusPendingBatch
    \<and> (tx_TxArray b = [] \<or> txOutBatchVault b = Some (to_VaultPubKey item) \<and> k_height s < tx_Height b)"
proof -
  obtain best n where scan: "foldl (scanBatch (to_VaultPubKey item) item (k_height s)) (None, 0) (kv_values (k_txouts s)) = (best, n)"
    by fastforce
  show ?thesis
  proof (cases best)
    case (Some c)
    then have "b = c" using run scan by (simp add: btcVaultBatchTxOut_def)
    then show ?thesis using scan_open [OF scan [unfolded Some], of "set (kv_values (k_txouts s))"] fit
      by (auto simp: blocks_fit_def list_all_iff intro: room_keeps_fit)
  next
    case None
    obtain h' where e: "TxOut_IsEmpty (GetTxOut h' s) \<or> tx_Status (GetTxOut h' s) = []"
      and b: "b = (GetTxOut h' s)\<lparr>tx_Epoch := n, tx_Status := TxOutStatusPendingBatch\<rparr>"
      using run scan None
      by (auto simp: btcVaultBatchTxOut_def nextEmptyTxOutHeight_def Let_def split: sum.splits dest!: next_empty_run)
    have "tx_TxArray (GetTxOut h' s) = []"
      using e GetTxOut_cases [of h' s] fit by (auto simp: TxOut_IsEmpty_def blocks_fit_def list_all_iff)
    then show ?thesis by (simp add: b batch_fits_def vout_count_def vin_count_def remainder_count_def
      btcMaxBatchRecipients_def btcMaxBatchVins_def)
  qed
qed

section \<open>No output is chosen twice\<close>

definition input_key :: "TxOutInput \<Rightarrow> string" where
  "input_key i = btcSourceInputKey (ti_TxId i) (ti_Vout i)"

definition keyed :: "btc_scan \<Rightarrow> bool" where
  "keyed b \<longleftrightarrow> (\<forall>(k, c) \<in> set (bs_candidates b). k = input_key (sc_input c)) \<and> distinct (map fst (bs_candidates b))"

definition grows :: "btc_scan \<Rightarrow> btc_scan \<Rightarrow> bool" where
  "grows b b' \<longleftrightarrow> set (bs_spent b) \<subseteq> set (bs_spent b') \<and> (keyed b \<longrightarrow> keyed b')"

lemma grows_refl: "grows b b" by (simp add: grows_def)

lemma grows_trans: "grows a b \<Longrightarrow> grows b c \<Longrightarrow> grows a c" by (auto simp: grows_def)

lemma foldR_grows:
  assumes "\<And>b x b'. f b x = Inr b' \<Longrightarrow> grows b b'" and "foldR f b xs = Inr b'"
  shows "grows b b'"
  using assms(2)
proof (induction xs arbitrary: b)
  case Nil then show ?case by (simp add: grows_refl)
next
  case (Cons x xs)
  then obtain b1 where "f b x = Inr b1" and "foldR f b1 xs = Inr b'" by (auto split: sum.splits)
  then show ?case using Cons.IH assms(1) grows_trans by blast
qed

lemma foldR_visits:
  assumes grow: "\<And>b x b'. f b x = Inr b' \<Longrightarrow> grows b b'" and run: "foldR f b xs = Inr b'" and "x \<in> set xs"
    and new: "\<And>b b'. f b x = Inr b' \<Longrightarrow> key \<in> set (bs_spent b')"
  shows "key \<in> set (bs_spent b')"
  using run \<open>x \<in> set xs\<close>
proof (induction xs arbitrary: b)
  case (Cons y ys)
  then obtain b1 where step: "f b y = Inr b1" and rest: "foldR f b1 ys = Inr b'" by (auto split: sum.splits)
  show ?case
  proof (cases "x = y")
    case True
    have "grows b1 b'" by (rule foldR_grows [of f, OF _ rest]) (rule grow)
    then show ?thesis using new step True by (auto simp: grows_def)
  next
    case False then show ?thesis using Cons rest by auto
  qed
qed simp

lemma grows_add: "k = input_key (sc_input c) \<Longrightarrow> grows b (addCandidate k c b)"
  by (auto simp: grows_def addCandidate_def keyed_def map_of_eq_None_iff)

lemma grows_mark: "grows b (markSpentBTCSourceInputs is b)"
  by (auto simp: grows_def markSpentBTCSourceInputs_def keyed_def)

lemma grows_marks: "grows b (foldl (\<lambda>b o'. markSpentBTCSourceInputs (t_SourceInputs (ob_Tx o')) b) b os)"
  by (induction os arbitrary: b) (auto intro: grows_refl grows_trans grows_mark)

definition same_batch :: "Vault \<Rightarrow> int \<Rightarrow> int \<Rightarrow> TxOutItem \<Rightarrow> bool" where
  "same_batch vault ignore height item \<longleftrightarrow> height = ignore \<and> TxID_IsEmpty (to_OutHash item)
     \<and> Chain_Equals (to_Chain item) BTCChain \<and> to_VaultPubKey item = va_PubKey vault \<and> btcEpochBatchItem item"

lemma markTxOutItem_split:
  obtains b1 b2 where "grows b0 b1" "markTxOutItem vault ignore s height item b0 = b2" "grows b1 b2"
    "Chain_Equals (to_Chain item) BTCChain \<Longrightarrow> \<not> same_batch vault ignore height item
       \<Longrightarrow> input_key ` set (to_SourceInputs item) \<subseteq> set (bs_spent b1)"
proof -
  define b1 where "b1 = (if Chain_Equals (to_Chain item) BTCChain \<and> to_SourceInputs item \<noteq> [] \<and> \<not> same_batch vault ignore height item
    then b0\<lparr>bs_spent := map (\<lambda>i. btcSourceInputKey (ti_TxId i) (ti_Vout i)) (to_SourceInputs item) @ bs_spent b0\<rparr> else b0)"
  have g1: "grows b0 b1" by (auto simp: b1_def grows_def keyed_def)
  have u: "grows b1 (if \<not> btcBatchVinOnlyItem item then b1\<lparr>bs_used := u\<rparr> else b1)" for u
    by (auto simp: grows_def keyed_def)
  have "grows b1 (markTxOutItem vault ignore s height item b0)"
    unfolding markTxOutItem_def Let_def same_batch_def [symmetric] b1_def [symmetric]
    by (simp only: if_split) (blast intro: grows_refl grows_trans [OF grows_trans [OF u grows_mark] grows_marks])
  moreover have "input_key ` set (to_SourceInputs item) \<subseteq> set (bs_spent b1)"
    if "Chain_Equals (to_Chain item) BTCChain" "\<not> same_batch vault ignore height item"
    using that by (auto simp: b1_def input_key_def)
  ultimately show ?thesis using that g1 by blast
qed

lemma scanTxOutItem_grows:
  assumes "scanTxOutItem vault addr ignore s height b item = Inr b'"
  shows "grows (markTxOutItem vault ignore s height item b) b'"
  using assms unfolding scanTxOutItem_def Let_def
  by (auto split: if_splits sum.splits simp: input_key_def intro: grows_refl grows_add)

lemma scanTxOutItem_run:
  assumes "scanTxOutItem vault addr ignore s height b item = Inr b'"
  shows "grows b b'" and "Chain_Equals (to_Chain item) BTCChain \<Longrightarrow> \<not> same_batch vault ignore height item
    \<Longrightarrow> i \<in> set (to_SourceInputs item) \<Longrightarrow> input_key i \<in> set (bs_spent b')"
proof -
  obtain b1 b2 where m: "grows b b1" "markTxOutItem vault ignore s height item b = b2" "grows b1 b2"
    "Chain_Equals (to_Chain item) BTCChain \<Longrightarrow> \<not> same_batch vault ignore height item
       \<Longrightarrow> input_key ` set (to_SourceInputs item) \<subseteq> set (bs_spent b1)"
    using markTxOutItem_split [of b vault ignore s height item] by blast
  have g: "grows b1 b'" using scanTxOutItem_grows [OF assms] m(2,3) grows_trans by blast
  then show "grows b b'" using m(1) grows_trans by blast
  show "input_key i \<in> set (bs_spent b')"
    if "Chain_Equals (to_Chain item) BTCChain" "\<not> same_batch vault ignore height item" "i \<in> set (to_SourceInputs item)"
    using m(4) [OF that(1,2)] that(3) g by (auto simp: grows_def)
qed

lemma scanVoterOut_grows: "scanVoterOut vault addr b voter = Inr b' \<Longrightarrow> grows b b'"
  unfolding scanVoterOut_def
proof (erule foldR_grows [rotated])
  fix b o' b' assume "scanObservedOut vault addr b o' = Inr b'"
  then show "grows b b'" unfolding scanObservedOut_def Let_def
    by (auto split: if_splits sum.splits simp: input_key_def intro: grows_refl grows_mark grows_trans [OF grows_mark grows_add])
qed

lemma scanVoterIn_grows: "scanVoterIn addr b voter = Inr b' \<Longrightarrow> grows b b'"
  unfolding scanVoterIn_def Let_def
  by (auto split: if_splits sum.splits simp: input_key_def intro: grows_refl grows_add)

lemma distinct_map_sort: "distinct (map f (sort_key g xs)) \<longleftrightarrow> distinct (map f xs)"
  by (simp add: distinct_map)

text \<open>The outputs that items queued up to the current block spend, other than those of the batch that
  is being refreshed.\<close>

definition taken_inputs :: "Vault \<Rightarrow> int \<Rightarrow> kstate \<Rightarrow> string set" where
  "taken_inputs vault ignore s = {input_key i | i item blk.
     blk \<in> set (kv_values (k_txouts s)) \<and> tx_Height blk \<le> k_height s \<and> item \<in> set (tx_TxArray blk) \<and>
     Chain_Equals (to_Chain item) BTCChain \<and> \<not> same_batch vault ignore (tx_Height blk) item \<and> i \<in> set (to_SourceInputs item)}"

lemma scanTxOutBlock_run:
  assumes "scanTxOutBlock vault addr ignore s b blk = Inr b'"
  shows "grows b b'"
    and "item \<in> set (tx_TxArray blk) \<Longrightarrow> Chain_Equals (to_Chain item) BTCChain \<Longrightarrow> \<not> same_batch vault ignore (tx_Height blk) item \<Longrightarrow>
      i \<in> set (to_SourceInputs item) \<Longrightarrow> input_key i \<in> set (bs_spent b')"
proof -
  show "grows b b'" using assms unfolding scanTxOutBlock_def by (rule foldR_grows [rotated]) (rule scanTxOutItem_run)
  assume item: "item \<in> set (tx_TxArray blk)" and rest: "Chain_Equals (to_Chain item) BTCChain"
    "\<not> same_batch vault ignore (tx_Height blk) item" "i \<in> set (to_SourceInputs item)"
  show "input_key i \<in> set (bs_spent b')"
  proof (rule foldR_visits [OF _ assms [unfolded scanTxOutBlock_def] item])
    show "grows a a'" if "scanTxOutItem vault addr ignore s (tx_Height blk) a x = Inr a'" for a x a'
      using that by (rule scanTxOutItem_run(1))
    show "input_key i \<in> set (bs_spent a')" if "scanTxOutItem vault addr ignore s (tx_Height blk) a item = Inr a'" for a a'
      using that rest by (rule scanTxOutItem_run(2))
  qed
qed

lemma candidates_scan:
  assumes "btcVaultSourceCandidates vault addr ignore s = Inr cs"
  obtains b where "keyed b" "taken_inputs vault ignore s \<subseteq> set (bs_spent b)"
    "cs = sortCandidates (filter (\<lambda>(key, c). key \<notin> set (bs_spent b) \<and> ti_AmountSats (sc_input c) \<noteq> 0) (bs_candidates b))"
proof -
  let ?b0 = "\<lparr>bs_candidates = [], bs_spent = [], bs_used = []\<rparr>"
  obtain b1 b2 b3 where r1: "foldR (scanTxOutBlock vault addr ignore s) ?b0 (txOutsAscending (k_height s) True s) = Inr b1"
    and r2: "foldR (scanVoterOut vault addr) b1 (kv_values (k_txout_voters s)) = Inr b2"
    and r3: "foldR (scanVoterIn addr) b2 (kv_values (k_txin_voters s)) = Inr b3"
    and cs: "cs = sortCandidates (filter (\<lambda>(key, c). key \<notin> set (bs_spent b3) \<and> ti_AmountSats (sc_input c) \<noteq> 0) (bs_candidates b3))"
    using assms by (auto simp: btcVaultSourceCandidates_def split: sum.splits)
  have g1: "grows ?b0 b1" by (rule foldR_grows [OF scanTxOutBlock_run(1) r1])
  have g2: "grows b1 b2" by (rule foldR_grows [OF scanVoterOut_grows r2])
  have g3: "grows b2 b3" by (rule foldR_grows [OF scanVoterIn_grows r3])
  have "taken_inputs vault ignore s \<subseteq> set (bs_spent b1)"
  proof
    fix x assume "x \<in> taken_inputs vault ignore s"
    then obtain i item blk where x: "x = input_key i" and b0: "blk \<in> set (kv_values (k_txouts s))" "tx_Height blk \<le> k_height s"
      and it: "item \<in> set (tx_TxArray blk)" "Chain_Equals (to_Chain item) BTCChain" "\<not> same_batch vault ignore (tx_Height blk) item"
        "i \<in> set (to_SourceInputs item)"
      unfolding taken_inputs_def by blast
    from b0 have blk: "blk \<in> set (txOutsAscending (k_height s) True s)" by (simp add: txOutsAscending_def)
    show "x \<in> set (bs_spent b1)" unfolding x
      by (rule foldR_visits [OF _ r1 blk], rule scanTxOutBlock_run(1), assumption) (rule scanTxOutBlock_run(2) [OF _ it])
  qed
  then have "taken_inputs vault ignore s \<subseteq> set (bs_spent b3)" using g2 g3 by (auto simp: grows_def)
  moreover have "keyed b3" using g1 g2 g3 by (auto simp: grows_def keyed_def)
  ultimately show thesis using cs that by blast
qed

lemma candidates_unspent:
  assumes "btcVaultSourceCandidates vault addr ignore s = Inr cs"
  shows "input_key ` sc_input ` set cs \<inter> taken_inputs vault ignore s = {}" and "distinct (map (input_key \<circ> sc_input) cs)"
proof -
  obtain b where keyed: "keyed b" and taken: "taken_inputs vault ignore s \<subseteq> set (bs_spent b)"
    and cs: "cs = sortCandidates (filter (\<lambda>(key, c). key \<notin> set (bs_spent b) \<and> ti_AmountSats (sc_input c) \<noteq> 0) (bs_candidates b))"
    using assms by (rule candidates_scan)
  show "input_key ` sc_input ` set cs \<inter> taken_inputs vault ignore s = {}"
    using taken keyed by (auto simp: cs sortCandidates_def keyed_def)
  have "map (input_key \<circ> sc_input \<circ> snd) (bs_candidates b) = map fst (bs_candidates b)"
    using keyed by (auto simp: keyed_def)
  then have "distinct (map (input_key \<circ> sc_input \<circ> snd) (bs_candidates b))" using keyed by (metis keyed_def)
  then have "distinct (map (input_key \<circ> sc_input \<circ> snd) (filter (\<lambda>(key, c). key \<notin> set (bs_spent b)
      \<and> ti_AmountSats (sc_input c) \<noteq> 0) (bs_candidates b)))" by (rule distinct_map_filter)
  then show "distinct (map (input_key \<circ> sc_input) cs)"
    by (simp only: cs sortCandidates_def distinct_map_sort map_map)
qed

theorem selection_covers:
  assumes run: "btcSelectVaultSourceInputs vault addr required ignore s = Inr inputs" and "inputs \<noteq> []"
    and cs: "btcVaultSourceCandidates vault addr ignore s = Inr cs" and fit: "inputs_total (map sc_input cs) < 2 ^ 64"
  shows "(\<exists>k. inputs = map sc_input (take k cs)) \<and> required \<le> inputs_total inputs
    \<and> int (length inputs) \<le> max 1 (GetConfigInt64 UTXO_MaxSpendCount s)
    \<and> (length inputs = 1 \<or> inputs_total (butlast inputs) < required)"
proof -
  define m where "m = (if GetConfigInt64 UTXO_MaxSpendCount s < 1 then 1 else nat (GetConfigInt64 UTXO_MaxSpendCount s))"
  obtain ins tot where sel: "select_inputs m required ([], 0) cs = (ins, tot)" by fastforce
  have ins: "inputs = ins" "required \<le> unat tot"
    using run cs sel \<open>inputs \<noteq> []\<close> by (auto simp: btcSelectVaultSourceInputs_def m_def Let_def split: if_splits)
  have nil: "unat (0 :: u64) = inputs_total []" "inputs_total [] + inputs_total (map sc_input cs) < 2 ^ 64"
    using fit by (simp_all add: inputs_total_def)
  obtain k where k: "ins = map sc_input (take k cs)" "unat tot = inputs_total ins" "length ins \<le> m"
    "ins = [] \<or> inputs_total (butlast ins) < required \<or> ins = map sc_input (take 1 cs)"
    using select_inputs_run [OF sel nil(2,1), simplified append_Nil list.size le0 simp_thms] by blast
  have "ins = map sc_input (take 1 cs) \<Longrightarrow> length ins = 1" using ins(1) \<open>inputs \<noteq> []\<close> by (cases cs) auto
  moreover have "int (length ins) \<le> max 1 (GetConfigInt64 UTXO_MaxSpendCount s)"
    using k(3) by (auto simp: m_def max_def split: if_splits)
  ultimately show ?thesis using k ins \<open>inputs \<noteq> []\<close> by metis
qed

end
