(* ===== verification/Bonds.thy ===== *)
theory Bonds
  imports Fees
begin

text \<open>
  Node bonds (\<^verbatim>\<open>x/thornado/shielder_flow.go\<close>): a pending bond is recorded for a node and one of
  its bonders, and confirmed once the slot's requirement is met, which activates the fee share
  of the slot, moves the pending amounts of the bonders to their principals and updates the
  node account.
\<close>

section \<open>Recording a pending bond\<close>

definition appendUniqueString :: "string list \<Rightarrow> string \<Rightarrow> string list" where
  "appendUniqueString values v =
     (let value = TrimSpace v in
      if value = [] then values else if value \<in> set values then values else values @ [value])"

definition recordPendingShielderNodeBond :: "env \<Rightarrow> DepositSession \<Rightarrow> u64 \<Rightarrow> u64 kact" where
  "recordPendingShielderNodeBond e session amountSats =
     (let nodePubKey = TrimSpace (ds_NodePubKey session); owner = ds_Owner session in
      if nodePubKey = [] then ret 0 else
      err_if (owner = []) ''missing node bonder''
     (bindA (lift_wrap ''invalid node pubkey'' (e_pubkey_from_bech32 e ConsPub nodePubKey)) (\<lambda>_.
      bindA (lift_wrap ''invalid shielder operator pubkey address'' (GetThorAddress e (ds_OperatorPubKey session)))
        (\<lambda>nodeAddress.
      bindA (gets (GetShielderNodeBond nodePubKey)) (\<lambda>bond0.
      bindA (gets k_height) (\<lambda>h.
      bindA (if nb_NodeAddress bond0 = [] then
               err_if (owner \<noteq> nodeAddress) ''first node bonder must be the operator''
              (bindA AllocateShielderNodeBondSlot (\<lambda>slot.
               ret (ShielderNodeBond_zero\<lparr>nb_NodePubKey := nodePubKey, nb_OperatorPubKey := ds_OperatorPubKey session,
                 nb_NodeAddress := nodeAddress, nb_Slot := slot, nb_Bonders := [e_acc_string e owner],
                 nb_CreatedHeight := h\<rparr>)))
             else err_if (nb_NodeAddress bond0 \<noteq> nodeAddress) ''node pubkey node address changed''
              (err_if (nb_OperatorPubKey bond0 \<noteq> ds_OperatorPubKey session) ''node bond operator pubkey mismatch''
              (ret bond0))) (\<lambda>bond.
      bindA (gets (GetShielderNodeBonder e nodePubKey owner)) (\<lambda>bonder0.
      let fresh = (br_Bonder bonder0 = []);
          bonder = (if fresh then ShielderNodeBonder_zero\<lparr>br_NodePubKey := nodePubKey, br_Bonder := owner,
            br_FeeDebtShare := nb_FeePerBondShare bond, br_CreatedHeight := h, br_UpdatedHeight := h\<rparr> else bonder0);
          bond1 = (if fresh then bond\<lparr>nb_Bonders := appendUniqueString (nb_Bonders bond) (e_acc_string e owner)\<rparr> else bond);
          bond2 = bond1\<lparr>nb_PendingSats := nb_PendingSats bond1 + amountSats, nb_UpdatedHeight := h\<rparr> in
      bindA (SetShielderNodeBonder e (bonder\<lparr>br_PendingSats := br_PendingSats bonder + amountSats,
               br_UpdatedHeight := h\<rparr>)) (\<lambda>_.
      bindA (SetShielderNodeBond bond2) (\<lambda>_.
      ret (nb_Slot bond2)))))))))))"

section \<open>Confirming it\<close>

definition shielderBondRequiredSats :: "u64 \<Rightarrow> kstate \<Rightarrow> u64" where
  "shielderBondRequiredSats slot s =
     ConfigUint64 Node_BondStartAmountSats s + slot * ConfigUint64 Node_BondSlotIncrementSats s"

text \<open>One round of \<^verbatim>\<open>activatePendingNodeBonders\<close>.\<close>

definition activateBonder :: "env \<Rightarrow> ShielderNodeBond \<Rightarrow> string \<Rightarrow> unit kact" where
  "activateBonder e bond bonderAddress =
     bindA (lift_result (e_acc_from_bech32 e bonderAddress)) (\<lambda>addr.
     bindA (gets (GetShielderNodeBonder e (nb_NodePubKey bond) addr)) (\<lambda>bonder.
     bindA (gets k_height) (\<lambda>h.
     if br_PendingSats bonder = 0 then ret ()
     else SetShielderNodeBonder e (bonder\<lparr>br_PrincipalSats := br_PrincipalSats bonder + br_PendingSats bonder,
       br_PendingSats := 0, br_FeeDebtShare := nb_FeePerBondShare bond, br_UpdatedHeight := h\<rparr>))))"

definition activatePendingNodeBonders :: "env \<Rightarrow> ShielderNodeBond \<Rightarrow> unit kact" where
  "activatePendingNodeBonders e bond = forA (activateBonder e bond) (nb_Bonders bond)"

definition activatePendingNodeBonder :: "env \<Rightarrow> ShielderNodeBond \<Rightarrow> AccAddress \<Rightarrow> u64 \<Rightarrow> unit kact" where
  "activatePendingNodeBonder e bond owner amountSats =
     bindA (gets (GetShielderNodeBonder e (nb_NodePubKey bond) owner)) (\<lambda>bonder.
     bindA (gets k_height) (\<lambda>h.
     err_if (br_Bonder bonder = []) ''node bonder not found''
    (err_if (br_PendingSats bonder < amountSats) ''node bonder pending bond underflow''
     (SetShielderNodeBonder e (bonder\<lparr>
        br_FeeDebtShare := weightedFeeDebtShare (br_PrincipalSats bonder) (br_FeeDebtShare bonder) amountSats
          (nb_FeePerBondShare bond),
        br_PrincipalSats := br_PrincipalSats bonder + amountSats,
        br_PendingSats := br_PendingSats bonder - amountSats, br_UpdatedHeight := h\<rparr>)))))"

definition confirmNodeAccount :: "env \<Rightarrow> ShielderNodeBond \<Rightarrow> string \<Rightarrow> unit kact" where
  "confirmNodeAccount e bond nodePubKey =
     bindA (gets (GetNodeAccount e (nb_NodeAddress bond))) (\<lambda>nodeAccount0.
     bindA (lift_wrap ''invalid shielder operator address'' (GetThorAddress e (nb_OperatorPubKey bond))) (\<lambda>operatorAddress.
     bindA (lift_wrap ''invalid shielder operator address'' (NewAddress e (e_acc_string e operatorAddress)))
       (\<lambda>operatorCommonAddress.
     bindA (gets k_height) (\<lambda>h.
     let nodeAccount = (if NodeAccount_IsEmpty nodeAccount0
           then NewNodeAccount (nb_NodeAddress bond) NodeWhiteListed PubKeySet_zero nodePubKey 0 operatorCommonAddress h
           else nodeAccount0) in
     SetNodeAccount e (nodeAccount\<lparr>na_NodeConsPubKey := nodePubKey, na_BondAddress := operatorCommonAddress,
       na_Bond := unat (nb_BondSats bond)\<rparr>)))))"

definition confirmShielderNodeBond :: "env \<Rightarrow> DepositRecord \<Rightarrow> unit kact" where
  "confirmShielderNodeBond e deposit =
     (if \<not> IsNodeBond deposit then ret () else
      bindA (gets (GetShielderNodeBond (dr_NodePubKey deposit))) (\<lambda>bond0.
      bindA (gets k_height) (\<lambda>h.
      err_if (nb_NodeAddress bond0 = []) ''shielder node bond not found''
     (err_if (nb_PendingSats bond0 < dr_AmountSats deposit) ''shielder node pending bond underflow''
     (bindA (gets (shielderBondRequiredSats (nb_Slot bond0))) (\<lambda>requiredSats.
      if \<not> nb_FeeShareActive bond0 \<and> nb_BondSats bond0 + nb_PendingSats bond0 < requiredSats
      then SetShielderNodeBond (bond0\<lparr>nb_UpdatedHeight := h\<rparr>)
      else
      bindA distributeFeePool (\<lambda>pool.
      bindA (gets (settleNodeFeeShare bond0 pool)) (\<lambda>bond1.
      bindA (if \<not> nb_FeeShareActive bond1
             then let bond2 = bond1\<lparr>nb_PendingSats := 0\<rparr> in
               thenA (activatePendingNodeBonders e bond2) (ret (bond2, nb_PendingSats bond1))
             else let bond2 = bond1\<lparr>nb_PendingSats := nb_PendingSats bond1 - dr_AmountSats deposit\<rparr> in
               thenA (activatePendingNodeBonder e bond2 (dr_Owner deposit) (dr_AmountSats deposit))
                 (ret (bond2, dr_AmountSats deposit))) (\<lambda>(bond2, confirmedSats).
      let bond3 = bond2\<lparr>nb_BondSats := nb_BondSats bond2 + confirmedSats\<rparr>;
          bond4 = (if \<not> nb_FeeShareActive bond3
            then bond3\<lparr>nb_FeeShareActive := True, nb_FeeDebtSats := fp_FeePerSlotShare pool\<rparr> else bond3);
          pool1 = (if \<not> nb_FeeShareActive bond3 then pool\<lparr>fp_TotalSlots := fp_TotalSlots pool + 1\<rparr> else pool);
          bond5 = bond4\<lparr>nb_UpdatedHeight := h\<rparr> in
      bindA (confirmNodeAccount e bond5 (dr_NodePubKey deposit)) (\<lambda>_.
      bindA (SetShielderNodeBond bond5) (\<lambda>_.
      SetFeePool pool1)))))))))))"

definition confirmBondFromNoteSpend :: "env \<Rightarrow> AccAddress \<Rightarrow> string \<Rightarrow> PubKey \<Rightarrow> u64 \<Rightarrow> ShielderNodeBond kact" where
  "confirmBondFromNoteSpend e owner nodePubKey operator amountSats =
     bindA (recordPendingShielderNodeBond e (DepositSession_zero\<lparr>ds_Owner := owner, ds_OperatorPubKey := operator,
       ds_NodePubKey := nodePubKey\<rparr>) amountSats) (\<lambda>nodeSlot.
     bindA (confirmShielderNodeBond e (DepositRecord_zero\<lparr>dr_Owner := owner, dr_AmountSats := amountSats,
       dr_OperatorPubKey := operator, dr_NodePubKey := nodePubKey, dr_NodeSlot := nodeSlot,
       dr_Settlement := DepositSettlementOperatorBond\<rparr>)) (\<lambda>_.
     gets (GetShielderNodeBond nodePubKey)))"

text \<open>
  The bonders of a node, by height of creation. \<^verbatim>\<open>sort.Slice\<close> is an insertion sort on short
  slices and does not promise the order of equal heights on long ones; the model keeps the
  order of the store.
\<close>

definition getNodeBonders :: "string \<Rightarrow> kstate \<Rightarrow> ShielderNodeBonder list" where
  "getNodeBonders nodePubKey s =
     sort_key br_CreatedHeight (filter (\<lambda>b. br_NodePubKey b = TrimSpace nodePubKey) (kv_values (k_bonders s)))"

section \<open>What a settlement leaves alone\<close>

lemma settle_fields [simp]:
  "nb_BondSats (settleNodeFeeShare b p s) = nb_BondSats b"
  "nb_PendingSats (settleNodeFeeShare b p s) = nb_PendingSats b"
  "nb_FeeShareActive (settleNodeFeeShare b p s) = nb_FeeShareActive b"
  "nb_NodePubKey (settleNodeFeeShare b p s) = nb_NodePubKey b"
  "nb_NodeAddress (settleNodeFeeShare b p s) = nb_NodeAddress b"
  "nb_OperatorPubKey (settleNodeFeeShare b p s) = nb_OperatorPubKey b"
  "nb_Slot (settleNodeFeeShare b p s) = nb_Slot b"
  "nb_Bonders (settleNodeFeeShare b p s) = nb_Bonders b"
  by (simp_all add: settleNodeFeeShare_def Let_def)

lemma same_distribute [act_keeps]:
  "(\<And>s x. f (s\<lparr>k_fee_pool := x\<rparr>) = f s) \<Longrightarrow> same f distributeFeePool"
  by (auto simp: distributeFeePool_def intro!: act_keeps)

lemma same_activate [act_keeps]:
  "(\<And>s x. f (s\<lparr>k_bonders := x\<rparr>) = f s) \<Longrightarrow> same f (activateBonder e b a)"
  "(\<And>s x. f (s\<lparr>k_bonders := x\<rparr>) = f s) \<Longrightarrow> same f (activatePendingNodeBonders e b)"
  "(\<And>s x. f (s\<lparr>k_bonders := x\<rparr>) = f s) \<Longrightarrow> same f (activatePendingNodeBonder e b o' amt)"
  by (auto simp: activateBonder_def activatePendingNodeBonders_def activatePendingNodeBonder_def intro!: act_keeps)

lemma same_confirmNodeAccount [act_keeps]:
  "(\<And>s x. f (s\<lparr>k_node_accounts := x\<rparr>) = f s) \<Longrightarrow> (\<And>s x. f (s\<lparr>k_penalties := x\<rparr>) = f s) \<Longrightarrow>
   same f (confirmNodeAccount e b n)"
  by (auto simp: confirmNodeAccount_def Let_def intro!: act_keeps)

section \<open>Confirming conserves the bond\<close>

lemma GetBond_cong: "k_bonds s = k_bonds t \<Longrightarrow> GetShielderNodeBond n s = GetShielderNodeBond n t"
  by (simp add: GetShielderNodeBond_def)

lemma SetBond_get:
  "SetShielderNodeBond b s = (Inr u, t) \<Longrightarrow> skey (TrimSpace (nb_NodePubKey b)) = skey (TrimSpace n) \<Longrightarrow> GetShielderNodeBond n t = b"
  by (auto simp: SetShielderNodeBond_def act_run GetShielderNodeBond_def ShielderNodeBond_Key_def)

text \<open>The bond a successful confirmation stores, and the pool.\<close>

lemma confirm_run:
  assumes run: "confirmShielderNodeBond e d s = (Inr u, t)" and n: "IsNodeBond d"
    and b: "b = GetShielderNodeBond (dr_NodePubKey d) s" and key: "skey (TrimSpace (nb_NodePubKey b)) = skey (TrimSpace (dr_NodePubKey d))"
  shows "nb_NodeAddress b \<noteq> []" and "dr_AmountSats d \<le> nb_PendingSats b"
    and "\<not> nb_FeeShareActive b \<and> nb_BondSats b + nb_PendingSats b < shielderBondRequiredSats (nb_Slot b) s
      \<and> GetShielderNodeBond (dr_NodePubKey d) t = b\<lparr>nb_UpdatedHeight := k_height s\<rparr> \<and> GetFeePool t = GetFeePool s
    \<or> (nb_FeeShareActive b \<or> shielderBondRequiredSats (nb_Slot b) s \<le> nb_BondSats b + nb_PendingSats b)
      \<and> (\<exists>b'. GetShielderNodeBond (dr_NodePubKey d) t = b' \<and> nb_FeeShareActive b'
         \<and> nb_BondSats b' = nb_BondSats b + (if nb_FeeShareActive b then dr_AmountSats d else nb_PendingSats b)
         \<and> nb_PendingSats b' = (if nb_FeeShareActive b then nb_PendingSats b - dr_AmountSats d else 0)
         \<and> nb_Slot b' = nb_Slot b \<and> nb_NodeAddress b' = nb_NodeAddress b \<and> nb_Bonders b' = nb_Bonders b
         \<and> fp_TotalSlots (GetFeePool t) = fp_TotalSlots (GetFeePool s) + (if nb_FeeShareActive b then 0 else 1))"
    (is "?wait \<or> ?go")
proof -
  from run n show "nb_NodeAddress b \<noteq> []" "dr_AmountSats d \<le> nb_PendingSats b"
    by (auto simp: confirmShielderNodeBond_def act_run b not_less)
  show "?wait \<or> ?go"
  proof (cases "\<not> nb_FeeShareActive b \<and> nb_BondSats b + nb_PendingSats b < shielderBondRequiredSats (nb_Slot b) s")
    case True
    then have w: "SetShielderNodeBond (b\<lparr>nb_UpdatedHeight := k_height s\<rparr>) s = (Inr u, t)"
      using run n by (simp add: confirmShielderNodeBond_def act_run flip: b)
    have "GetShielderNodeBond (dr_NodePubKey d) t = b\<lparr>nb_UpdatedHeight := k_height s\<rparr>"
      using w by (rule SetBond_get) (simp add: key)
    moreover have "GetFeePool t = GetFeePool s"
      using w by (auto simp: SetShielderNodeBond_def act_run GetFeePool_def)
    ultimately show ?thesis using True by blast
  next
    case False
    from run n False obtain pool s1 b2 c s2 s3 s4 b5 where
        dist: "distributeFeePool s = (Inr pool, s1)"
      and b2: "b2 = (settleNodeFeeShare b pool s1)\<lparr>nb_PendingSats := (if nb_FeeShareActive b then nb_PendingSats b - dr_AmountSats d else 0)\<rparr>"
      and c: "c = (if nb_FeeShareActive b then dr_AmountSats d else nb_PendingSats b)"
      and b5: "b5 = (let b3 = b2\<lparr>nb_BondSats := nb_BondSats b2 + c\<rparr> in
          (if \<not> nb_FeeShareActive b3 then b3\<lparr>nb_FeeShareActive := True, nb_FeeDebtSats := fp_FeePerSlotShare pool\<rparr> else b3)
          \<lparr>nb_UpdatedHeight := k_height s\<rparr>)"
      and w: "SetShielderNodeBond b5 s3 = (Inr (), s4)"
      and t: "t = s4\<lparr>k_fee_pool := Some (if \<not> nb_FeeShareActive b then pool\<lparr>fp_TotalSlots := fp_TotalSlots pool + 1\<rparr> else pool)\<rparr>"
      by (auto simp: confirmShielderNodeBond_def act_run Let_def SetFeePool_def simp flip: b split: if_splits)
    have g4: "GetShielderNodeBond (dr_NodePubKey d) s4 = b5"
      using w by (rule SetBond_get) (simp add: b5 b2 key Let_def)
    have "GetShielderNodeBond (dr_NodePubKey d) t = b5"
      using g4 by (simp add: t GetShielderNodeBond_def)
    moreover have "fp_TotalSlots (GetFeePool t) = fp_TotalSlots (GetFeePool s) + (if nb_FeeShareActive b then 0 else 1)"
      using distributeFeePool_run(2) [OF dist] by (simp add: t GetFeePool_def)
    ultimately show ?thesis using False by (auto simp: b5 b2 c Let_def not_less)
  qed
qed

section \<open>Recording a bond\<close>

text \<open>A bond read under a key is the zero value or carries that key and a node address.\<close>

definition bonds_ok :: "kstate \<Rightarrow> bool" where
  "bonds_ok s \<longleftrightarrow>
     (\<forall>k b. kv_get (k_bonds s) k = Some b \<longrightarrow> skey (TrimSpace (nb_NodePubKey b)) = k \<and> nb_NodeAddress b \<noteq> [])"

lemma ShielderNodeBond_ValidD: "ShielderNodeBond_Valid b = Inr u \<Longrightarrow> nb_NodeAddress b \<noteq> []"
  by (auto simp: ShielderNodeBond_Valid_def split: if_splits)

lemma bonds_ok_Set: "keeps bonds_ok (SetShielderNodeBond b)"
  unfolding keeps_def
  by (auto simp: SetShielderNodeBond_def thenA_def bindA_def lift_result_def modify_def bonds_ok_def
      ShielderNodeBond_Key_def split: sum.splits dest: ShielderNodeBond_ValidD)

lemma record_run:
  assumes run: "recordPendingShielderNodeBond e ses amt s = (Inr slot, t)" and n: "TrimSpace (ds_NodePubKey ses) \<noteq> []"
    and b: "b = GetShielderNodeBond (ds_NodePubKey ses) s" and ok: "bonds_ok s"
  obtains b' where "GetShielderNodeBond (ds_NodePubKey ses) t = b'"
    and "nb_PendingSats b' = nb_PendingSats b + amt" "nb_BondSats b' = nb_BondSats b"
    and "nb_NodeAddress b' \<noteq> []" "nb_Slot b' = slot"
    and "skey (TrimSpace (nb_NodePubKey b')) = skey (TrimSpace (ds_NodePubKey ses))"
    and "nb_NodeAddress b \<noteq> [] \<Longrightarrow> slot = nb_Slot b \<and> k_bond_slot t = k_bond_slot s"
    and "nb_NodeAddress b = [] \<Longrightarrow> slot = GetNextShielderNodeBondSlot s \<and> k_bond_slot t = Some (slot + 1)"
    and "nb_FeeShareActive b' = nb_FeeShareActive b"
proof -
  let ?n = "TrimSpace (ds_NodePubKey ses)"
  have bn: "GetShielderNodeBond ?n s = b" by (simp add: b GetShielderNodeBond_def)
  have z: "nb_NodeAddress b = [] \<Longrightarrow> b = ShielderNodeBond_zero" using ok
    by (auto simp: b GetShielderNodeBond_def bonds_ok_def split: option.splits)
  have "\<exists>b2 s2. SetShielderNodeBond b2 s2 = (Inr (), t) \<and> slot = nb_Slot b2 \<and>
      nb_PendingSats b2 = nb_PendingSats b + amt \<and> nb_BondSats b2 = nb_BondSats b \<and>
      nb_FeeShareActive b2 = nb_FeeShareActive b \<and>
      (if nb_NodeAddress b = [] then nb_NodePubKey b2 = ?n \<and> slot = GetNextShielderNodeBondSlot s
         \<and> k_bond_slot s2 = Some (slot + 1)
       else nb_NodePubKey b2 = nb_NodePubKey b \<and> slot = nb_Slot b \<and> k_bond_slot s2 = k_bond_slot s)"
  proof (cases "nb_NodeAddress b = []")
    case True
    with run n z show ?thesis unfolding recordPendingShielderNodeBond_def Let_def
      apply (clarsimp simp: act_run bn SetShielderNodeBonder_def AllocateShielderNodeBondSlot_def
          SetNextShielderNodeBondSlot_def)
      apply (intro exI conjI, assumption)
      apply (simp_all add: zero_defs)
      done
  next
    case False
    with run n show ?thesis unfolding recordPendingShielderNodeBond_def Let_def
      apply (clarsimp simp: act_run bn SetShielderNodeBonder_def)
      apply (intro exI conjI, assumption)
      apply simp_all
      done
  qed
  then obtain b2 s2 where w: "SetShielderNodeBond b2 s2 = (Inr (), t)" and slot: "slot = nb_Slot b2"
    and b2: "nb_PendingSats b2 = nb_PendingSats b + amt" "nb_BondSats b2 = nb_BondSats b"
      "nb_FeeShareActive b2 = nb_FeeShareActive b"
    and new: "nb_NodeAddress b = [] \<Longrightarrow> nb_NodePubKey b2 = ?n \<and> slot = GetNextShielderNodeBondSlot s \<and> k_bond_slot s2 = Some (slot + 1)"
    and old: "nb_NodeAddress b \<noteq> [] \<Longrightarrow> nb_NodePubKey b2 = nb_NodePubKey b \<and> slot = nb_Slot b \<and> k_bond_slot s2 = k_bond_slot s"
    by (auto split: if_splits)
  from w have t: "t = s2\<lparr>k_bonds := kv_set (skey (TrimSpace (nb_NodePubKey b2))) b2 (k_bonds s2)\<rparr>"
    and valid: "nb_NodeAddress b2 \<noteq> []"
    by (auto simp: SetShielderNodeBond_def act_run ShielderNodeBond_Key_def dest: ShielderNodeBond_ValidD)
  have key: "skey (TrimSpace (nb_NodePubKey b2)) = skey ?n"
    using new old ok n
    by (cases "nb_NodeAddress b = []") (auto simp: b GetShielderNodeBond_def bonds_ok_def ShielderNodeBond_zero_def split: option.splits)
  show ?thesis
  proof (rule that [of b2])
    show "GetShielderNodeBond (ds_NodePubKey ses) t = b2" by (simp add: t GetShielderNodeBond_def key)
  qed (use new old b2 slot valid key in \<open>auto simp: t\<close>)
qed

lemma second_bonder_unlisted:
  assumes run: "recordPendingShielderNodeBond e ses amt s = (Inr slot, t)" and n: "TrimSpace (ds_NodePubKey ses) \<noteq> []"
    and ok: "bonds_ok s" and old: "nb_NodeAddress (GetShielderNodeBond (ds_NodePubKey ses) s) \<noteq> []"
    and fresh: "kv_get (k_bonders s) (skey (ShielderNodeBonderKey e (TrimSpace (ds_NodePubKey ses)) (ds_Owner ses))) = None"
  shows "nb_Bonders (GetShielderNodeBond (ds_NodePubKey ses) t) = nb_Bonders (GetShielderNodeBond (ds_NodePubKey ses) s)"
proof -
  let ?n = "TrimSpace (ds_NodePubKey ses)" and ?b = "GetShielderNodeBond (ds_NodePubKey ses) s"
  have bn: "GetShielderNodeBond ?n s = ?b" by (simp add: GetShielderNodeBond_def)
  have own: "br_Bonder (GetShielderNodeBonder e ?n (ds_Owner ses) s) = ds_Owner ses"
    using fresh by (simp add: GetShielderNodeBonder_def)
  have "\<exists>b2 s2. SetShielderNodeBond b2 s2 = (Inr (), t) \<and> nb_Bonders b2 = nb_Bonders ?b \<and> nb_NodePubKey b2 = nb_NodePubKey ?b"
    using run n old unfolding recordPendingShielderNodeBond_def Let_def
    apply (clarsimp simp: act_run bn own SetShielderNodeBonder_def)
    apply (intro exI conjI, assumption)
    apply simp_all
    done
  then obtain b2 s2 where nb: "nb_Bonders b2 = nb_Bonders ?b" "nb_NodePubKey b2 = nb_NodePubKey ?b"
    and w: "SetShielderNodeBond b2 s2 = (Inr (), t)" by blast
  have "skey (TrimSpace (nb_NodePubKey ?b)) = skey ?n"
    using ok old by (auto simp: GetShielderNodeBond_def bonds_ok_def ShielderNodeBond_zero_def split: option.splits)
  with w nb show ?thesis
    by (auto simp: SetShielderNodeBond_def act_run ShielderNodeBond_Key_def GetShielderNodeBond_def)
qed

lemma same_record: "same (shielderBondRequiredSats slot) (recordPendingShielderNodeBond e ses amt)"
  by (auto simp: recordPendingShielderNodeBond_def Let_def shielderBondRequiredSats_def ConfigUint64_def
      GetConfigInt64_def GetConfig_def intro!: act_keeps)

text \<open>The whole spend: what was pending or bonded, plus the notes, is pending or bonded, and the
  fee share is active only with the required bond.\<close>

lemma bond_spend_run:
  assumes run: "confirmBondFromNoteSpend e owner n oper amt s = (Inr r, t)" and n: "TrimSpace n \<noteq> []"
    and ok: "bonds_ok s" and b: "b = GetShielderNodeBond n s"
  shows "r = GetShielderNodeBond n t"
    and "nb_BondSats r + nb_PendingSats r = nb_BondSats b + nb_PendingSats b + amt"
    and "nb_FeeShareActive b \<Longrightarrow> nb_BondSats r = nb_BondSats b + amt"
    and "\<not> nb_FeeShareActive b \<Longrightarrow> nb_FeeShareActive r \<Longrightarrow>
      shielderBondRequiredSats (nb_Slot r) s \<le> nb_BondSats r"
proof -
  let ?ses = "DepositSession_zero\<lparr>ds_Owner := owner, ds_OperatorPubKey := oper, ds_NodePubKey := n\<rparr>"
  from run obtain slot s1 v where rec: "recordPendingShielderNodeBond e ?ses amt s = (Inr slot, s1)"
    and con: "confirmShielderNodeBond e (DepositRecord_zero\<lparr>dr_Owner := owner, dr_AmountSats := amt,
       dr_OperatorPubKey := oper, dr_NodePubKey := n, dr_NodeSlot := slot,
       dr_Settlement := DepositSettlementOperatorBond\<rparr>) s1 = (Inr v, t)"
    and r: "r = GetShielderNodeBond n t"
    by (auto simp: confirmBondFromNoteSpend_def act_run)
  obtain b1 where b1: "GetShielderNodeBond n s1 = b1" "nb_PendingSats b1 = nb_PendingSats b + amt"
      "nb_BondSats b1 = nb_BondSats b" "skey (TrimSpace (nb_NodePubKey b1)) = skey (TrimSpace n)"
      "nb_FeeShareActive b1 = nb_FeeShareActive b"
    using record_run [OF rec _ _ ok, of b] n b by (auto simp: DepositSession_zero_def)
  have cfg: "shielderBondRequiredSats slot' s1 = shielderBondRequiredSats slot' s" for slot'
    using same_record rec by (rule sameD)
  note c = confirm_run(3) [OF con, of b1]
  from c b1 n show "nb_BondSats r + nb_PendingSats r = nb_BondSats b + nb_PendingSats b + amt"
    by (auto simp: r IsNodeBond_def DepositRecord_zero_def)
  from c b1 n show "nb_FeeShareActive b \<Longrightarrow> nb_BondSats r = nb_BondSats b + amt"
    by (auto simp: r IsNodeBond_def DepositRecord_zero_def)
  from c b1 n cfg show "\<not> nb_FeeShareActive b \<Longrightarrow> nb_FeeShareActive r \<Longrightarrow>
      shielderBondRequiredSats (nb_Slot r) s \<le> nb_BondSats r"
    by (auto simp: r IsNodeBond_def DepositRecord_zero_def)
  show "r = GetShielderNodeBond n t" by (rule r)
qed

end
