(* ===== verification/Merkle.thy ===== *)
theory Merkle
  imports Pool
begin

text \<open>
  The Merkle engine behind \<^verbatim>\<open>AppendShielderMerkleLeaf\<close>, which is Rust code of the same
  repository (\<^verbatim>\<open>crates/thornado-shielder\<close>): field elements and their decimal and hexadecimal
  forms, the MiMC sponge, the incremental append, the full recompute and the inclusion path.
  The reference is the textbook tree: \<open>node_ref l j\<close> is the \<open>j\<close>-th node of level \<open>l\<close> over the
  leaves padded with zeros. The incremental append, the recompute and the path verification are
  shown to agree with it, and the engine is shown to satisfy the contract \<open>merkle_engine\<close> the
  pool relies on. Keccak, which seeds the round constants, is a parameter.
\<close>

section \<open>Field elements\<close>

type_synonym fr = nat

definition fr_modulus :: nat where
  "fr_modulus = 21888242871839275222246405745257275088548364400416034343698204186575808495617"

definition fr_add :: "fr \<Rightarrow> fr \<Rightarrow> fr" where
  "fr_add x y = (x + y) mod fr_modulus"

definition fr_mul :: "fr \<Rightarrow> fr \<Rightarrow> fr" where
  "fr_mul x y = (x * y) mod fr_modulus"

definition digit_value :: "char \<Rightarrow> nat option" where
  "digit_value c = (let n = of_char c :: nat in if 48 \<le> n \<and> n \<le> 57 then Some (n - 48) else None)"

fun decimal_value :: "nat \<Rightarrow> string \<Rightarrow> nat option" where
  "decimal_value v [] = Some v"
| "decimal_value v (c # cs) =
     (case digit_value c of None \<Rightarrow> None | Some d \<Rightarrow> decimal_value (v * 10 + d) cs)"

definition fr_from_decimal :: "string \<Rightarrow> fr option" where
  "fr_from_decimal decimal =
     (let trimmed = TrimSpace decimal in
      if trimmed = [] then None
      else case decimal_value 0 trimmed of None \<Rightarrow> None | Some v \<Rightarrow> Some (v mod fr_modulus))"

definition fr_to_decimal :: "fr \<Rightarrow> string" where
  "fr_to_decimal v = show_nat v"

fun le_value :: "string \<Rightarrow> nat" where
  "le_value [] = 0"
| "le_value (c # cs) = of_char c + 256 * le_value cs"

definition fr_from_le_bytes :: "string \<Rightarrow> fr" where
  "fr_from_le_bytes bytes = le_value (take 32 bytes) mod fr_modulus"

definition fr_from_be_bytes :: "string \<Rightarrow> fr" where
  "fr_from_be_bytes bytes = foldl (\<lambda>v c. v * 256 + of_char c) 0 bytes mod fr_modulus"

fun trim_0x :: "string \<Rightarrow> string" where
  "trim_0x (c # d # cs) = (if c = CHR ''0'' \<and> d = CHR ''x'' then trim_0x cs else c # d # cs)"
| "trim_0x cs = cs"

definition fr_from_field_hex :: "string \<Rightarrow> fr option" where
  "fr_from_field_hex hex_str =
     (let trimmed = trim_0x (TrimSpace hex_str) in
      if trimmed = [] then Some 0
      else map_option fr_from_le_bytes (DecodeString trimmed))"

lemma fr_modulus_pos: "0 < fr_modulus"
  by (simp add: fr_modulus_def)

lemma digit_value_char: "d < 10 \<Longrightarrow> digit_value (digit_char d) = Some d"
  by (simp add: digit_value_def digit_char_def Let_def of_char_of take_bit_eq_mod)

lemma decimal_value_append:
  "decimal_value v (xs @ ys) = (case decimal_value v xs of None \<Rightarrow> None | Some w \<Rightarrow> decimal_value w ys)"
  by (induction xs arbitrary: v) (auto split: option.splits)

lemma decimal_value_show: "decimal_value 0 (show_nat n) = Some n"
proof (induction n rule: show_nat.induct)
  case (1 n)
  show ?case
  proof (cases "n < 10")
    case True
    then show ?thesis by (subst show_nat.simps) (simp add: digit_value_char)
  next
    case False
    with 1 show ?thesis by (subst show_nat.simps) (simp add: decimal_value_append digit_value_char)
  qed
qed

lemma digit_not_space: "d < 10 \<Longrightarrow> \<not> is_space (digit_char d)"
  by (auto simp: is_space_def digit_char_def of_char_of take_bit_eq_mod dest!: arg_cong [where f = "of_char :: char \<Rightarrow> nat"])

lemma show_nat_digits: "c \<in> set (show_nat n) \<Longrightarrow> \<exists>d < 10. c = digit_char d"
proof (induction n rule: show_nat.induct)
  case (1 n)
  have last: "\<exists>d < 10. digit_char (n mod 10) = digit_char d" by (rule exI [of _ "n mod 10"]) simp
  from 1 show ?case by (subst (asm) (2) show_nat.simps) (use last in \<open>auto split: if_splits\<close>)
qed

lemma show_nat_nonempty [simp]: "show_nat n \<noteq> []"
  by (subst show_nat.simps) simp

lemma TrimSpace_show [simp]: "TrimSpace (show_nat n) = show_nat n"
  by (rule TrimSpace_no_space) (use show_nat_digits digit_not_space in blast)

lemma fr_decimal_roundtrip: "v < fr_modulus \<Longrightarrow> fr_from_decimal (fr_to_decimal v) = Some v"
  by (simp add: fr_from_decimal_def fr_to_decimal_def decimal_value_show Let_def)

section \<open>The hash\<close>

definition NROUNDS :: nat where "NROUNDS = 220"

primrec digests :: "(string \<Rightarrow> string) \<Rightarrow> nat \<Rightarrow> string" where
  "digests k 0 = k ''mimcsponge''"
| "digests k (Suc i) = k (digests k i)"

definition round_constant :: "(string \<Rightarrow> string) \<Rightarrow> nat \<Rightarrow> fr" where
  "round_constant k i = (if i = 0 \<or> i = NROUNDS - 1 then 0 else fr_from_be_bytes (digests k i))"

definition sponge_round :: "(string \<Rightarrow> string) \<Rightarrow> fr \<Rightarrow> fr \<times> fr \<Rightarrow> nat \<Rightarrow> fr \<times> fr" where
  "sponge_round k key st i =
     (case st of (xl, xr) \<Rightarrow>
      let t = (if i = 0 then fr_add xl key else fr_add (fr_add xl key) (round_constant k i));
          t5 = fr_mul (fr_mul (fr_mul t t) (fr_mul t t)) t
      in if i < NROUNDS - 1 then (fr_add xr t5, xl) else (xl, fr_add xr t5))"

definition sponge_hash :: "(string \<Rightarrow> string) \<Rightarrow> fr \<Rightarrow> fr \<Rightarrow> fr \<Rightarrow> fr \<times> fr" where
  "sponge_hash k xl xr key = foldl (sponge_round k key) (xl, xr) [0..<NROUNDS]"

text \<open>\<^verbatim>\<open>multi_hash\<close> with one output: the absorbing loop.\<close>

definition multi_hash :: "(string \<Rightarrow> string) \<Rightarrow> fr list \<Rightarrow> fr \<Rightarrow> fr" where
  "multi_hash k vs key = fst (foldl (\<lambda>(r, c) v. sponge_hash k (fr_add r v) c key) (0, 0) vs)"

definition hash_left_right :: "(string \<Rightarrow> string) \<Rightarrow> fr \<Rightarrow> fr \<Rightarrow> fr" where
  "hash_left_right k left right = multi_hash k [left, right] 0"

lemma sponge_round_range:
  "fst st < fr_modulus \<Longrightarrow> snd st < fr_modulus \<Longrightarrow>
   fst (sponge_round k key st i) < fr_modulus \<and> snd (sponge_round k key st i) < fr_modulus"
  by (auto simp: sponge_round_def Let_def fr_add_def fr_modulus_pos split: prod.splits)

lemma sponge_rounds_range:
  "fst st < fr_modulus \<Longrightarrow> snd st < fr_modulus \<Longrightarrow>
   fst (foldl (sponge_round k key) st is) < fr_modulus \<and> snd (foldl (sponge_round k key) st is) < fr_modulus"
  by (induction "is" arbitrary: st) (auto simp: sponge_round_range)

lemma sponge_hash_range:
  "xl < fr_modulus \<Longrightarrow> xr < fr_modulus \<Longrightarrow>
   fst (sponge_hash k xl xr key) < fr_modulus \<and> snd (sponge_hash k xl xr key) < fr_modulus"
  unfolding sponge_hash_def by (rule sponge_rounds_range) simp_all

lemma hash_left_right_range: "hash_left_right k x y < fr_modulus"
proof -
  obtain r c where rc: "sponge_hash k (fr_add 0 x) 0 0 = (r, c)" by fastforce
  have "fr_add 0 x < fr_modulus" by (simp add: fr_add_def fr_modulus_pos)
  from sponge_hash_range [OF this fr_modulus_pos, of k 0] rc have "c < fr_modulus" by simp
  moreover have "fr_add r y < fr_modulus" by (simp add: fr_add_def fr_modulus_pos)
  ultimately have "fst (sponge_hash k (fr_add r y) c 0) < fr_modulus" using sponge_hash_range by blast
  then show ?thesis by (simp add: hash_left_right_def multi_hash_def rc)
qed

section \<open>The incremental tree\<close>

definition MERKLE_TREE_DEPTH :: nat where "MERKLE_TREE_DEPTH = 20"

primrec zero_subtree :: "(string \<Rightarrow> string) \<Rightarrow> nat \<Rightarrow> fr" where
  "zero_subtree k 0 = 0"
| "zero_subtree k (Suc l) = hash_left_right k (zero_subtree k l) (zero_subtree k l)"

text \<open>The loop over the levels, from level \<open>l\<close> up: the node reached and the filled subtrees.\<close>

fun append_levels :: "(string \<Rightarrow> string) \<Rightarrow> nat \<Rightarrow> fr list \<Rightarrow> nat \<Rightarrow> fr \<Rightarrow> fr \<times> fr list" where
  "append_levels k l [] i current = (current, [])"
| "append_levels k l (f # fs) i current =
     (if even i
      then (case append_levels k (Suc l) fs (i div 2) (hash_left_right k current (zero_subtree k l)) of
              (r, fs') \<Rightarrow> (r, current # fs'))
      else (case append_levels k (Suc l) fs (i div 2) (hash_left_right k f current) of
              (r, fs') \<Rightarrow> (r, f # fs')))"

definition InvalidProof :: error where
  "InvalidProof = Errorf ''invalid proof''"

definition append_leaf :: "(string \<Rightarrow> string) \<Rightarrow> fr list \<Rightarrow> nat \<Rightarrow> fr \<Rightarrow> (fr \<times> fr list) result" where
  "append_leaf k filled next_index leaf =
     (if length filled \<noteq> MERKLE_TREE_DEPTH then Inl InvalidProof
      else if next_index \<ge> 2 ^ MERKLE_TREE_DEPTH then Inl InvalidProof
      else Inr (append_levels k 0 filled next_index leaf))"

definition incremental_root :: "(string \<Rightarrow> string) \<Rightarrow> fr list \<Rightarrow> fr result" where
  "incremental_root k leaves =
     (if length leaves > 2 ^ MERKLE_TREE_DEPTH then Inl InvalidProof
      else Inr (fst (foldl (\<lambda>(root, filled) (index, leaf). append_levels k 0 filled index leaf)
        (zero_subtree k MERKLE_TREE_DEPTH, replicate MERKLE_TREE_DEPTH 0)
        (zip [0..<length leaves] leaves))))"

section \<open>The reference tree\<close>

definition leaf_at :: "fr list \<Rightarrow> nat \<Rightarrow> fr" where
  "leaf_at leaves i = (if i < length leaves then leaves ! i else 0)"

fun node_ref :: "(string \<Rightarrow> string) \<Rightarrow> fr list \<Rightarrow> nat \<Rightarrow> nat \<Rightarrow> fr" where
  "node_ref k leaves 0 j = leaf_at leaves j"
| "node_ref k leaves (Suc l) j = hash_left_right k (node_ref k leaves l (2 * j)) (node_ref k leaves l (2 * j + 1))"

definition merkle_root :: "(string \<Rightarrow> string) \<Rightarrow> fr list \<Rightarrow> fr" where
  "merkle_root k leaves = node_ref k leaves MERKLE_TREE_DEPTH 0"

lemma node_ref_zero: "length leaves \<le> j * 2 ^ l \<Longrightarrow> node_ref k leaves l j = zero_subtree k l"
  by (induction l arbitrary: j) (auto simp: leaf_at_def algebra_simps)

lemma node_ref_prefix: "(j + 1) * 2 ^ l \<le> length leaves \<Longrightarrow> node_ref k (leaves @ xs) l j = node_ref k leaves l j"
proof (induction l arbitrary: j)
  case 0
  then show ?case by (simp add: leaf_at_def nth_append)
next
  case (Suc l)
  then have "(2 * j + 1) * 2 ^ l \<le> length leaves" "(2 * j + 1 + 1) * 2 ^ l \<le> length leaves"
    by (auto simp: algebra_simps)
  with Suc.IH show ?case by simp
qed

text \<open>What the filled subtrees of a tree with these leaves hold, from level \<open>l\<close> up: under an odd
  number of complete subtrees, the last of them.\<close>

definition filled_ok :: "(string \<Rightarrow> string) \<Rightarrow> fr list \<Rightarrow> nat \<Rightarrow> fr list \<Rightarrow> bool" where
  "filled_ok k leaves l fs \<longleftrightarrow>
     (\<forall>m < length fs. odd (length leaves div 2 ^ (l + m)) \<longrightarrow>
        fs ! m = node_ref k leaves (l + m) (length leaves div 2 ^ (l + m) - 1))"

lemma filled_ok_Cons:
  "filled_ok k leaves l (f # fs) \<longleftrightarrow>
     (odd (length leaves div 2 ^ l) \<longrightarrow> f = node_ref k leaves l (length leaves div 2 ^ l - 1)) \<and>
     filled_ok k leaves (Suc l) fs"
  by (auto simp: filled_ok_def All_less_Suc2)

lemma div_Suc_cases: "Suc n div 2 ^ l = n div 2 ^ l \<or> Suc n div 2 ^ l = Suc (n div 2 ^ l)"
  by (simp add: div_Suc)

lemma append_levels_ref:
  assumes "n = length leaves" "filled_ok k leaves l fs"
  shows "append_levels k l fs (n div 2 ^ l) (node_ref k (leaves @ [x]) l (n div 2 ^ l)) = (r, fs') \<Longrightarrow>
    r = node_ref k (leaves @ [x]) (l + length fs) (n div 2 ^ (l + length fs)) \<and>
    length fs' = length fs \<and> filled_ok k (leaves @ [x]) l fs'"
  using assms
proof (induction fs arbitrary: l r fs')
  case Nil
  then show ?case by (simp add: filled_ok_def)
next
  case (Cons f fs)
  let ?i = "n div 2 ^ l" and ?c = "node_ref k (leaves @ [x]) l (n div 2 ^ l)"
  have half: "?i div 2 = n div 2 ^ Suc l" by (simp add: div_mult2_eq [symmetric] mult.commute)
  from Cons.prems(3) have rest: "filled_ok k leaves (Suc l) fs"
    and f: "odd ?i \<Longrightarrow> f = node_ref k leaves l (?i - 1)" using Cons.prems(2) by (auto simp: filled_ok_Cons)
  have mult: "?i * 2 ^ l \<le> n" by simp
  show ?case
  proof (cases "even ?i")
    case True
    have "n < (?i + 1) * 2 ^ l" using div_less_iff_less_mult [of "2 ^ l" n "?i + 1"] by simp
    then have z: "node_ref k (leaves @ [x]) l (?i + 1) = zero_subtree k l"
      using Cons.prems(2) by (intro node_ref_zero) simp
    have "2 * (n div 2 ^ Suc l) = ?i" unfolding half [symmetric] using True by simp
    then have up: "hash_left_right k ?c (zero_subtree k l) = node_ref k (leaves @ [x]) (Suc l) (n div 2 ^ Suc l)"
      using z by (simp del: power_Suc)
    from Cons.prems(1) True obtain fs1 where a: "append_levels k (Suc l) fs (n div 2 ^ Suc l)
        (node_ref k (leaves @ [x]) (Suc l) (n div 2 ^ Suc l)) = (r, fs1)" and fs': "fs' = ?c # fs1"
      by (auto simp: up half split: prod.splits)
    have "odd (Suc n div 2 ^ l) \<Longrightarrow> Suc n div 2 ^ l - 1 = ?i" using True div_Suc_cases [of n l] by auto
    with Cons.IH [OF a Cons.prems(2) rest] Cons.prems(2) show ?thesis by (auto simp: fs' filled_ok_Cons)
  next
    case False
    then have i: "2 * (n div 2 ^ Suc l) = ?i - 1" "?i - 1 + 1 = ?i" unfolding half [symmetric] by simp_all
    have p: "node_ref k (leaves @ [x]) l (?i - 1) = f"
      using f [OF False] mult Cons.prems(2) False by (subst node_ref_prefix) (auto simp: odd_pos)
    have up: "hash_left_right k f ?c = node_ref k (leaves @ [x]) (Suc l) (n div 2 ^ Suc l)"
      using p i by (simp only: node_ref.simps)
    from Cons.prems(1) False obtain fs1 where a: "append_levels k (Suc l) fs (n div 2 ^ Suc l)
        (node_ref k (leaves @ [x]) (Suc l) (n div 2 ^ Suc l)) = (r, fs1)" and fs': "fs' = f # fs1"
      by (auto simp: up half split: prod.splits)
    have "odd (Suc n div 2 ^ l) \<Longrightarrow> Suc n div 2 ^ l - 1 = ?i - 1" using False div_Suc_cases [of n l] by auto
    with Cons.IH [OF a Cons.prems(2) rest] Cons.prems(2) p show ?thesis by (auto simp: fs' filled_ok_Cons)
  qed
qed

lemma append_leaf_ref:
  assumes "append_leaf k filled (length leaves) x = Inr (root, filled')" "filled_ok k leaves 0 filled"
  shows "root = merkle_root k (leaves @ [x])" and "filled_ok k (leaves @ [x]) 0 filled'"
    and "length filled' = MERKLE_TREE_DEPTH"
proof -
  from assms(1) have len: "length filled = MERKLE_TREE_DEPTH" "length leaves < 2 ^ MERKLE_TREE_DEPTH"
    and run: "append_levels k 0 filled (length leaves) x = (root, filled')"
    by (auto simp: append_leaf_def split: if_splits)
  have "append_levels k 0 filled (length leaves div 2 ^ 0)
      (node_ref k (leaves @ [x]) 0 (length leaves div 2 ^ 0)) = (root, filled')"
    using run by (simp add: leaf_at_def)
  from append_levels_ref [OF refl assms(2) this] len
  show "root = merkle_root k (leaves @ [x])" and "filled_ok k (leaves @ [x]) 0 filled'"
    and "length filled' = MERKLE_TREE_DEPTH"
    by (auto simp: merkle_root_def)
qed

lemma append_leaf_total:
  "length filled = MERKLE_TREE_DEPTH \<Longrightarrow> i < 2 ^ MERKLE_TREE_DEPTH \<Longrightarrow> \<exists>r. append_leaf k filled i x = Inr r"
  by (simp add: append_leaf_def)

lemma filled_ok_empty: "filled_ok k [] 0 fs"
  by (simp add: filled_ok_def)

text \<open>The full recompute.\<close>

lemma zip_index_snoc: "zip [0..<length (xs @ [x])] (xs @ [x]) = zip [0..<length xs] xs @ [(length xs, x)]"
  by simp

lemma recompute_ref:
  assumes "length leaves \<le> 2 ^ MERKLE_TREE_DEPTH"
  shows "case foldl (\<lambda>(root, filled) (index, leaf). append_levels k 0 filled index leaf)
        (zero_subtree k MERKLE_TREE_DEPTH, replicate MERKLE_TREE_DEPTH 0) (zip [0..<length leaves] leaves) of
      (root, filled) \<Rightarrow> root = merkle_root k leaves \<and> filled_ok k leaves 0 filled \<and> length filled = MERKLE_TREE_DEPTH"
  using assms
proof (induction leaves rule: rev_induct)
  case Nil
  show ?case by (simp add: merkle_root_def node_ref_zero filled_ok_empty)
next
  case (snoc x xs)
  obtain root filled where st: "foldl (\<lambda>(root, filled) (index, leaf). append_levels k 0 filled index leaf)
        (zero_subtree k MERKLE_TREE_DEPTH, replicate MERKLE_TREE_DEPTH 0) (zip [0..<length xs] xs) = (root, filled)"
    by fastforce
  obtain r fs where step: "append_levels k 0 filled (length xs) x = (r, fs)" by fastforce
  from snoc st have ok: "filled_ok k xs 0 filled" "length filled = MERKLE_TREE_DEPTH" by auto
  have "append_leaf k filled (length xs) x = Inr (r, fs)"
    using snoc.prems ok(2) step by (simp add: append_leaf_def)
  from append_leaf_ref [OF this ok(1)] show ?case
    unfolding zip_index_snoc foldl_append st by (simp add: step)
qed

lemma incremental_root_ref:
  "length leaves \<le> 2 ^ MERKLE_TREE_DEPTH \<Longrightarrow> incremental_root k leaves = Inr (merkle_root k leaves)"
  using recompute_ref [of leaves k] by (auto simp: incremental_root_def split: prod.splits)

section \<open>The append request\<close>

fun parse_filled :: "string list \<Rightarrow> fr list option" where
  "parse_filled [] = Some []"
| "parse_filled (x # xs) =
     (case fr_from_decimal x of None \<Rightarrow> None
      | Some v \<Rightarrow> (case parse_filled xs of None \<Rightarrow> None | Some vs \<Rightarrow> Some (v # vs)))"

definition merkle_append :: "(string \<Rightarrow> string) \<Rightarrow> string list \<Rightarrow> u64 \<Rightarrow> string \<Rightarrow> (string \<times> string list) result" where
  "merkle_append k filled_subtrees next_index leaf =
     (case (if filled_subtrees = [] then Inr (replicate MERKLE_TREE_DEPTH 0)
            else if length filled_subtrees \<noteq> MERKLE_TREE_DEPTH then Inl InvalidProof
            else case parse_filled filled_subtrees of None \<Rightarrow> Inl InvalidProof | Some fs \<Rightarrow> Inr fs) of
        Inl err \<Rightarrow> Inl err
      | Inr filled \<Rightarrow>
          (case fr_from_field_hex leaf of
             None \<Rightarrow> Inl InvalidProof
           | Some v \<Rightarrow>
               (case append_leaf k filled (unat next_index) v of
                  Inl err \<Rightarrow> Inl err
                | Inr (root, new_filled) \<Rightarrow> Inr (fr_to_decimal root, map fr_to_decimal new_filled))))"

lemma parse_filled_show: "list_all (\<lambda>v. v < fr_modulus) vs \<Longrightarrow> parse_filled (map fr_to_decimal vs) = Some vs"
  by (induction vs) (auto simp: fr_decimal_roundtrip)

lemma append_levels_range:
  "append_levels k l fs i c = (r, fs') \<Longrightarrow> list_all (\<lambda>v. v < fr_modulus) fs \<Longrightarrow> c < fr_modulus \<Longrightarrow>
   list_all (\<lambda>v. v < fr_modulus) fs'"
  by (induction k l fs i c arbitrary: r fs' rule: append_levels.induct)
    (auto split: if_splits prod.splits simp: hash_left_right_range)

lemma fr_from_field_hex_range: "fr_from_field_hex s = Some v \<Longrightarrow> v < fr_modulus"
  by (auto simp: fr_from_field_hex_def fr_from_le_bytes_def fr_modulus_pos Let_def split: if_splits)

definition leaf_value :: "string \<Rightarrow> fr" where
  "leaf_value c = (case fr_from_field_hex c of Some v \<Rightarrow> v | None \<Rightarrow> 0)"

text \<open>The stored decimal form of the filled subtrees of a tree: absent before the first leaf.\<close>

definition stored_ok :: "(string \<Rightarrow> string) \<Rightarrow> string list \<Rightarrow> string list \<Rightarrow> bool" where
  "stored_ok k cs ss \<longleftrightarrow>
     (\<exists>fs. list_all (\<lambda>v. v < fr_modulus) fs \<and> length fs = MERKLE_TREE_DEPTH \<and>
        filled_ok k (map leaf_value cs) 0 fs \<and> (ss = map fr_to_decimal fs \<or> ss = [] \<and> cs = [] \<and> fs = replicate MERKLE_TREE_DEPTH 0))"

lemma merkle_append_ref:
  assumes run: "merkle_append k ss (of_nat (length cs)) c = Inr (root, ss')" and ok: "stored_ok k cs ss"
    and len: "length cs < 2 ^ 64"
  shows "root = fr_to_decimal (merkle_root k (map leaf_value (cs @ [c])))" and "stored_ok k (cs @ [c]) ss'"
    and "length cs < 2 ^ MERKLE_TREE_DEPTH"
proof -
  from ok obtain fs where fs: "list_all (\<lambda>v. v < fr_modulus) fs" "length fs = MERKLE_TREE_DEPTH"
      "filled_ok k (map leaf_value cs) 0 fs" "ss = map fr_to_decimal fs \<or> ss = [] \<and> cs = [] \<and> fs = replicate MERKLE_TREE_DEPTH 0"
    by (auto simp: stored_ok_def)
  have ne: "fs \<noteq> []" using fs(2) by (auto simp: MERKLE_TREE_DEPTH_def)
  have idx: "unat (of_nat (length cs) :: u64) = length cs" using len by (simp add: unat_of_nat)
  from run fs(2,4) ne obtain v r fs' where v: "fr_from_field_hex c = Some v"
    and app: "append_leaf k fs (length (map leaf_value cs)) v = Inr (r, fs')"
    and out: "root = fr_to_decimal r" "ss' = map fr_to_decimal fs'"
    using parse_filled_show [OF fs(1)]
    by (auto simp: merkle_append_def idx split: option.splits sum.splits)
  have lv: "leaf_value c = v" by (simp add: leaf_value_def v)
  note ref = append_leaf_ref [OF app fs(3)]
  show "root = fr_to_decimal (merkle_root k (map leaf_value (cs @ [c])))" using ref(1) out lv by simp
  have "list_all (\<lambda>v. v < fr_modulus) fs'"
    using app append_levels_range [OF _ fs(1) fr_from_field_hex_range [OF v]]
    by (auto simp: append_leaf_def split: if_splits)
  with ref(2,3) out lv show "stored_ok k (cs @ [c]) ss'" by (auto simp: stored_ok_def)
  show "length cs < 2 ^ MERKLE_TREE_DEPTH" using app by (simp add: append_leaf_def split: if_splits)
qed

section \<open>The engine of the pool\<close>

lemma merkle_append_bounded: "merkle_append k fs i c = Inr r \<Longrightarrow> unat i < 2 ^ 20"
  by (auto simp: merkle_append_def append_leaf_def MERKLE_TREE_DEPTH_def split: if_splits sum.splits option.splits)

interpretation mimc: merkle_engine "e\<lparr>e_append_leaf := merkle_append k\<rparr>" for e k
  by unfold_locales (auto dest: merkle_append_bounded)

lemma replay_ref:
  assumes "e_append_leaf e = merkle_append k" "length cs < 2 ^ 64"
  shows "replay e [] [] 0 cs = Inr (root, ss) \<Longrightarrow>
    stored_ok k cs ss \<and> (cs \<noteq> [] \<longrightarrow> root = fr_to_decimal (merkle_root k (map leaf_value cs)))"
  using assms(2)
proof (induction cs arbitrary: root ss rule: rev_induct)
  case Nil
  then show ?case
    by (auto simp: stored_ok_def filled_ok_empty fr_modulus_pos list_all_iff intro!: exI [of _ "replicate MERKLE_TREE_DEPTH 0"])
next
  case (snoc c cs)
  from snoc.prems(1) obtain r f where pre: "replay e [] [] 0 cs = Inr (r, f)"
    and app: "merkle_append k f (of_nat (length cs)) c = Inr (root, ss)"
    by (auto simp: replay_snoc assms(1) split: sum.splits)
  have len: "length cs < 2 ^ 64" using snoc.prems(2) by simp
  from snoc.IH [OF pre len] have "stored_ok k cs f" by blast
  from merkle_append_ref [OF app this len] show ?case by simp
qed

text \<open>The stored root of a denomination is the root of the textbook tree over its commitments.\<close>

lemma pool_root_ref:
  assumes "pool_ok (e\<lparr>e_append_leaf := merkle_append k\<rparr>) s L" "L d \<noteq> []"
  shows "ts_Root (tree_of s d) = fr_to_decimal (merkle_root k (map leaf_value (L d)))"
proof -
  let ?e = "e\<lparr>e_append_leaf := merkle_append k\<rparr>"
  from assms(1) have rep: "replay ?e [] [] 0 (L d) = Inr (ts_Root (tree_of s d), ts_FilledSubtrees (tree_of s d))"
    and len: "length (L d) = unat (ts_NextIndex (tree_of s d))"
    by (simp_all add: pool_ok_def pool_rep_def)
  have "length (L d) < 2 ^ 64" using len by simp
  from replay_ref [OF _ this rep, of k] assms(2) show ?thesis by simp
qed

section \<open>Inclusion paths\<close>

text \<open>The pairing loop of \<^verbatim>\<open>merkle_path\<close>: the nodes of the next level.\<close>

fun next_level :: "(string \<Rightarrow> string) \<Rightarrow> nat \<Rightarrow> fr list \<Rightarrow> fr list" where
  "next_level k l [] = []"
| "next_level k l [x] = [hash_left_right k x (zero_subtree k l)]"
| "next_level k l (x # y # zs) = hash_left_right k x y # next_level k l zs"

text \<open>\<^verbatim>\<open>level_nodes.get(j).unwrap_or(zero_subtree(level))\<close>\<close>

definition get_or_zero :: "(string \<Rightarrow> string) \<Rightarrow> nat \<Rightarrow> fr list \<Rightarrow> nat \<Rightarrow> fr" where
  "get_or_zero k l nodes j = (if j < length nodes then nodes ! j else zero_subtree k l)"

definition sibling_index :: "nat \<Rightarrow> nat" where
  "sibling_index i = (if even i then i + 1 else i - 1)"

text \<open>The levels of \<^verbatim>\<open>merkle_path\<close> from level \<open>l\<close>, \<open>n\<close> of them: siblings and directions.\<close>

fun path_levels :: "(string \<Rightarrow> string) \<Rightarrow> nat \<Rightarrow> nat \<Rightarrow> fr list \<Rightarrow> nat \<Rightarrow> (string \<times> nat) list" where
  "path_levels k 0 l nodes i = []"
| "path_levels k (Suc n) l nodes i =
     ((fr_to_decimal (get_or_zero k l nodes (sibling_index i)), i mod 2) # path_levels k n (Suc l) (next_level k l nodes) (i div 2))"

definition merkle_path :: "(string \<Rightarrow> string) \<Rightarrow> fr list \<Rightarrow> nat \<Rightarrow> (string \<times> nat) list result" where
  "merkle_path k leaves target_index =
     (if target_index \<ge> length leaves then Inl InvalidProof
      else Inr (path_levels k MERKLE_TREE_DEPTH 0 leaves target_index))"

fun climb :: "(string \<Rightarrow> string) \<Rightarrow> fr \<Rightarrow> (string \<times> nat) list \<Rightarrow> fr option" where
  "climb k current [] = Some current"
| "climb k current ((sibling_raw, direction) # rest) =
     (case fr_from_decimal sibling_raw of
        None \<Rightarrow> None
      | Some sibling \<Rightarrow>
          climb k (if direction = 0 then hash_left_right k current sibling else hash_left_right k sibling current) rest)"

definition verify_merkle_path :: "(string \<Rightarrow> string) \<Rightarrow> string \<Rightarrow> string \<Rightarrow> (string \<times> nat) list \<Rightarrow> unit result" where
  "verify_merkle_path k root_hex leaf_hex path =
     (case fr_from_field_hex root_hex of None \<Rightarrow> Inl InvalidProof | Some root \<Rightarrow>
     (case fr_from_field_hex leaf_hex of None \<Rightarrow> Inl InvalidProof | Some leaf \<Rightarrow>
      if length path \<noteq> MERKLE_TREE_DEPTH then Inl InvalidProof
      else case climb k leaf path of None \<Rightarrow> Inl InvalidProof | Some c \<Rightarrow>
        if c \<noteq> root then Inl InvalidProof else Inr ()))"

definition level_ok :: "(string \<Rightarrow> string) \<Rightarrow> fr list \<Rightarrow> nat \<Rightarrow> fr list \<Rightarrow> bool" where
  "level_ok k leaves l nodes \<longleftrightarrow>
     (\<forall>j. get_or_zero k l nodes j = node_ref k leaves l j)"

lemma get_or_zero_Cons:
  "get_or_zero k l (x # xs) 0 = x" "get_or_zero k l (x # xs) (Suc j) = get_or_zero k l xs j"
  "get_or_zero k l [] j = zero_subtree k l"
  by (simp_all add: get_or_zero_def)

lemma next_level_nth:
  "get_or_zero k (Suc l) (next_level k l nodes) j =
   hash_left_right k (get_or_zero k l nodes (2 * j)) (get_or_zero k l nodes (2 * j + 1))"
proof (induction k l nodes arbitrary: j rule: next_level.induct)
  case (2 k l x)
  then show ?case by (cases j) (simp_all add: get_or_zero_Cons)
next
  case (3 k l x y zs)
  then show ?case by (cases j) (simp_all add: get_or_zero_Cons)
qed (simp add: get_or_zero_Cons)

lemma level_ok_next: "level_ok k leaves l nodes \<Longrightarrow> level_ok k leaves (Suc l) (next_level k l nodes)"
  by (simp add: level_ok_def next_level_nth)

lemma node_ref_range: "list_all (\<lambda>v. v < fr_modulus) leaves \<Longrightarrow> node_ref k leaves l j < fr_modulus"
  by (cases l) (auto simp: leaf_at_def list_all_length fr_modulus_pos hash_left_right_range)

lemma climb_path:
  "level_ok k leaves l nodes \<Longrightarrow> list_all (\<lambda>v. v < fr_modulus) leaves \<Longrightarrow>
   climb k (node_ref k leaves l i) (path_levels k n l nodes i) = Some (node_ref k leaves (l + n) (i div 2 ^ n))"
proof (induction n arbitrary: l nodes i)
  case (Suc n)
  let ?p = "node_ref k leaves (Suc l) (i div 2)"
  from Suc.prems(1) have sib: "get_or_zero k l nodes (sibling_index i) = node_ref k leaves l (sibling_index i)"
    unfolding level_ok_def by blast
  have up: "(if i mod 2 = 0 then hash_left_right k (node_ref k leaves l i) (node_ref k leaves l (sibling_index i))
       else hash_left_right k (node_ref k leaves l (sibling_index i)) (node_ref k leaves l i)) = ?p"
    by (cases "even i") (auto simp: sibling_index_def)
  have "climb k (node_ref k leaves l i) (path_levels k (Suc n) l nodes i)
      = climb k ?p (path_levels k n (Suc l) (next_level k l nodes) (i div 2))"
    using up by (simp add: Let_def sib fr_decimal_roundtrip node_ref_range [OF Suc.prems(2)])
  also have "\<dots> = Some (node_ref k leaves (Suc l + n) (i div 2 div 2 ^ n))"
    using level_ok_next [OF Suc.prems(1)] Suc.prems(2) by (rule Suc.IH)
  finally show ?case by (simp add: div_mult2_eq)
qed simp

lemma length_path_levels [simp]: "length (path_levels k n l nodes i) = n"
  by (induction n arbitrary: l nodes i) (simp_all add: Let_def)

lemma merkle_path_verifies:
  assumes path: "merkle_path k leaves i = Inr p" and range: "list_all (\<lambda>v. v < fr_modulus) leaves"
    and cap: "length leaves \<le> 2 ^ MERKLE_TREE_DEPTH"
    and leaf: "fr_from_field_hex leaf_hex = Some (leaves ! i)"
    and root: "fr_from_field_hex root_hex = Some (merkle_root k leaves)"
  shows "verify_merkle_path k root_hex leaf_hex p = Inr ()"
proof -
  from path have i: "i < length leaves" and p: "p = path_levels k MERKLE_TREE_DEPTH 0 leaves i"
    by (auto simp: merkle_path_def split: if_splits)
  have "level_ok k leaves 0 leaves" by (simp add: level_ok_def get_or_zero_def leaf_at_def)
  from climb_path [OF this range, of i MERKLE_TREE_DEPTH] i cap
  have "climb k (leaves ! i) p = Some (merkle_root k leaves)"
    by (simp add: p leaf_at_def merkle_root_def)
  then show ?thesis by (simp add: verify_merkle_path_def leaf root p)
qed

section \<open>The hexadecimal form\<close>

definition hex_lower :: "nat \<Rightarrow> char" where
  "hex_lower d = (if d < 10 then char_of (48 + d) else char_of (87 + d))"

fun to_bytes_le :: "nat \<Rightarrow> nat \<Rightarrow> nat list" where
  "to_bytes_le 0 v = []"
| "to_bytes_le (Suc n) v = v mod 256 # to_bytes_le n (v div 256)"

definition fr_to_hex :: "fr \<Rightarrow> string" where
  "fr_to_hex value = concat (map (\<lambda>b. [hex_lower (b div 16), hex_lower (b mod 16)]) (to_bytes_le 32 value))"

lemma of_char_hex_lower: "d < 16 \<Longrightarrow> of_char (hex_lower d) = (if d < 10 then 48 + d else 87 + d :: nat)"
  by (simp add: hex_lower_def of_char_of take_bit_eq_mod)

lemma hex_value_lower: "d < 16 \<Longrightarrow> hex_value (hex_lower d) = Some d"
  by (auto simp: hex_value_def of_char_hex_lower Let_def)

lemma hex_lower_plain: "d < 16 \<Longrightarrow> \<not> is_space (hex_lower d) \<and> hex_lower d \<noteq> CHR ''x''"
proof -
  assume d: "d < 16"
  have "(48 :: nat) \<le> of_char (hex_lower d)" "of_char (hex_lower d) < (103 :: nat)"
    using of_char_hex_lower [OF d] d by auto
  then show ?thesis by (auto simp: is_space_def)
qed

lemma bytes_le_range: "b \<in> set (to_bytes_le n v) \<Longrightarrow> b < 256"
  by (induction n v rule: to_bytes_le.induct) auto

lemma decode_bytes_le:
  "DecodeString (concat (map (\<lambda>b. [hex_lower (b div 16), hex_lower (b mod 16)]) (to_bytes_le n v)))
     = Some (map char_of (to_bytes_le n v))"
  by (induction n v rule: to_bytes_le.induct) (simp_all add: hex_value_lower less_mult_imp_div_less)

lemma le_value_bytes: "le_value (map char_of (to_bytes_le n v)) = v mod 256 ^ n"
proof (induction n v rule: to_bytes_le.induct)
  case (2 n v)
  have "v mod 256 ^ Suc n = v mod 256 + 256 * (v div 256 mod 256 ^ n)" by (simp add: mod_mult2_eq)
  then show ?case using 2 by (simp add: of_char_of take_bit_eq_mod)
qed simp

lemma fr_hex_roundtrip:
  assumes "v < fr_modulus"
  shows "fr_from_field_hex (fr_to_hex v) = Some v"
proof -
  have len: "length (to_bytes_le n w) = n" for n w by (induction n w rule: to_bytes_le.induct) simp_all
  have plain: "\<not> is_space c \<and> c \<noteq> CHR ''x''" if "c \<in> set (fr_to_hex v)" for c
    using that bytes_le_range by (auto simp: fr_to_hex_def less_mult_imp_div_less hex_lower_plain)
  have space: "TrimSpace (fr_to_hex v) = fr_to_hex v" using plain by (intro TrimSpace_no_space) blast
  have trim: "trim_0x (fr_to_hex v) = fr_to_hex v" using plain by (cases "fr_to_hex v" rule: trim_0x.cases) auto
  have "length (fr_to_hex v) = 64" by (simp add: fr_to_hex_def length_concat comp_def sum_list_triv len)
  then have ne: "fr_to_hex v \<noteq> []" by auto
  have "v < 256 ^ 32" using assms by (simp add: fr_modulus_def)
  then have "fr_from_le_bytes (map char_of (to_bytes_le 32 v)) = v"
    using assms by (simp add: fr_from_le_bytes_def len le_value_bytes)
  then show ?thesis unfolding fr_from_field_hex_def space Let_def trim using ne
    by (simp add: fr_to_hex_def decode_bytes_le)
qed

end
