(* ===== verification/Redeem.thy ===== *)
theory Redeem
  imports Bonds Merkle
begin

text \<open>
  Redeeming shielded notes (\<^verbatim>\<open>x/thornado/shielder_flow.go\<close>, \<^verbatim>\<open>x/thornado/shielder.go\<close>,
  \<^verbatim>\<open>go-wrappers/shielder/public.go\<close>): the checks of the public inputs, the policies of a
  redeem, its authorization, which spends the nullifier, and the two ways a redeem ends inside
  the chain (a node bond and a deposit on a bid).
\<close>

section \<open>Public inputs\<close>

text \<open>\<^verbatim>\<open>new(big.Int).SetString(s, 10)\<close>: an optional sign and decimal digits.\<close>

definition SetString10 :: "string \<Rightarrow> int option" where
  "SetString10 s =
     (case s of
        [] \<Rightarrow> None
      | c # cs \<Rightarrow>
          if c = CHR ''+'' \<or> c = CHR ''-'' then
            (if cs = [] then None
             else map_option (\<lambda>v. if c = CHR ''-'' then - int v else int v) (decimal_value 0 cs))
          else map_option int (decimal_value 0 s))"

lemma decimal_plain:
  "decimal_value v n = Some w \<Longrightarrow> c \<in> set n \<Longrightarrow> \<not> is_space c \<and> c \<noteq> CHR ''+'' \<and> c \<noteq> CHR ''-''"
proof (induction v n arbitrary: w rule: decimal_value.induct)
  case (2 v x xs)
  then show ?case by (auto split: option.splits) (auto simp: is_space_def digit_value_def split: if_splits)
qed simp

lemma SetString10_decimal: "decimal_value 0 n = Some v \<Longrightarrow> n \<noteq> [] \<Longrightarrow> SetString10 n = Some (int v)"
  using decimal_plain [of 0 n v] by (cases n) (auto simp: SetString10_def)

definition bn254ScalarFieldModulus :: int where
  "bn254ScalarFieldModulus = 21888242871839275222246405745257275088548364400416034343698204186575808495617"

definition validateFieldElementInRange :: "string \<Rightarrow> string \<Rightarrow> unit result" where
  "validateFieldElementInRange label value =
     (let trimmed = TrimSpace value in
      if trimmed = [] then Inr ()
      else case SetString10 trimmed of
        None \<Rightarrow> Inl (Errorf ''shielder field is not a decimal field element'')
      | Some v \<Rightarrow>
          if v < 0 then Inl (Errorf ''shielder field must be non-negative'')
          else if v \<ge> bn254ScalarFieldModulus then Inl (Errorf ''shielder field is out of range for the scalar field'')
          else Inr ())"

definition validateZeroBindingField :: "string \<Rightarrow> string \<Rightarrow> unit result" where
  "validateZeroBindingField label value =
     (let trimmed = TrimSpace value in
      if trimmed = [] \<or> trimmed = ''0'' then Inr () else Inl (Errorf ''shielder field must be zero''))"

text \<open>Go's \<^verbatim>\<open>if err := f(); err != nil { return err }\<close> between pure checks.\<close>

definition seqR :: "unit result \<Rightarrow> 'a result \<Rightarrow> 'a result" where
  "seqR a b = (case a of Inl err \<Rightarrow> Inl err | Inr _ \<Rightarrow> b)"

definition ValidateRedeemPublicJSON :: "env \<Rightarrow> string \<Rightarrow> unit result" where
  "ValidateRedeemPublicJSON e publicJSON =
     (case e_json_withdrawal e publicJSON of
        Inl err \<Rightarrow> Inl (Wrapf ''invalid shielder public inputs'' err)
      | Inr public \<Rightarrow>
          seqR (checks
            [(TrimSpace (wi_NullifierHash public) = [], ''missing shielder nullifier hash''),
             (TrimSpace (wi_MerkleRoot public) = [], ''missing shielder merkle root''),
             (wi_DenominationSats public = 0, ''missing shielder denomination''),
             (wi_FeeSats public \<ge> wi_DenominationSats public, ''shielder fee exceeds denomination''),
             (TrimSpace (wi_Recipient public) = [], ''missing shielder redeem recipient''),
             (TrimSpace (wi_NoteCommitment public) \<noteq> [], ''shielder public inputs must not carry note commitment'')])
         (seqR (validateFieldElementInRange ''nullifier_hash'' (wi_NullifierHash public))
         (seqR (validateFieldElementInRange ''merkle_root'' (wi_MerkleRoot public))
         (seqR (validateFieldElementInRange ''recipient'' (wi_RecipientField public))
         (seqR (validateFieldElementInRange ''relayer'' (wi_RelayerField public))
         (seqR (validateFieldElementInRange ''refund'' (wi_RefundField public))
         (seqR (validateZeroBindingField ''relayer'' (wi_RelayerField public))
         (seqR (validateZeroBindingField ''refund'' (wi_RefundField public))
         (case e_recipient_binding e (TrimSpace (wi_Recipient public)) (wi_FeeSats public) (wi_DenominationSats public) of
            Inl err \<Rightarrow> Inl (Wrapf ''invalid shielder recipient binding'' err)
          | Inr expected \<Rightarrow>
              let provided = TrimSpace (wi_RecipientField public) in
              if provided \<noteq> [] \<and> provided \<noteq> expected then Inl (Errorf ''shielder recipient field mismatch'')
              else e_validate_withdrawal_public e publicJSON)))))))))"

definition VerifyShielderRedeemJSON :: "env \<Rightarrow> string \<Rightarrow> string \<Rightarrow> unit result" where
  "VerifyShielderRedeemJSON e proofJSON publicJSON =
     (if \<not> e_json_valid e proofJSON then Inl (Errorf ''invalid shielder proof json'')
      else if \<not> e_json_valid e publicJSON then Inl (Errorf ''invalid shielder public input json'')
      else seqR (ValidateRedeemPublicJSON e publicJSON) (e_verify_withdrawal e proofJSON publicJSON))"

definition RejectLeakyShielderRedeemProof :: "env \<Rightarrow> string \<Rightarrow> unit result" where
  "RejectLeakyShielderRedeemProof e proofJSON =
     (case e_json_proof e proofJSON of
        Inl err \<Rightarrow> Inl (Wrapf ''shielder proof carries unexpected fields'' err)
      | Inr (proof, trailing) \<Rightarrow>
          if trailing then Inl (Errorf ''shielder proof carries trailing data'')
          else if TrimSpace (pf_Nullifier proof) \<noteq> [] \<or> TrimSpace (pf_Secret proof) \<noteq> []
              \<or> TrimSpace (pf_Commitment proof) \<noteq> []
            then Inl (Errorf ''shielder proof carries private note material'')
          else Inr ())"

definition parseShielderRedeemPublicInputs :: "env \<Rightarrow> string \<Rightarrow> shielderRedeemPublicInputs result" where
  "parseShielderRedeemPublicInputs e raw =
     seqR (ValidateRedeemPublicJSON e raw)
       (case e_json_public e raw of
          Inl err \<Rightarrow> Inl (Wrapf ''invalid shielder public inputs'' err)
        | Inr p \<Rightarrow> Inr p)"

section \<open>Policies\<close>

definition normalizeShielderRedeemPolicy :: "string \<Rightarrow> string" where
  "normalizeShielderRedeemPolicy policy =
     (let p = TrimSpace policy in if p = [] then ShielderRedeemPolicyUserBTC else p)"

definition openNodeSlotBidForRedeem :: "string \<Rightarrow> Address \<Rightarrow> kstate \<Rightarrow> NodeSlotBid result" where
  "openNodeSlotBidForRedeem bidID recipient s =
     (if \<not> IsBondEscrow recipient then Inl (Errorf ''bid deposit redeem recipient must be bond_escrow'')
      else let bid = GetNodeSlotBid (TrimSpace bidID) s in
      if bd_BidID bid = [] \<or> bd_Settled bid then Inl (Errorf ''node slot bid is not open for deposit'')
      else let auction = GetNodeSlotAuction (bd_AuctionID bid) s in
      if au_AuctionID auction = [] \<or> au_Status auction \<noteq> NodeSlotAuctionOpen
        then Inl (Errorf ''node slot auction is not open'')
      else if au_ExpiryHeight auction \<le> k_height s then Inl (Errorf ''node slot auction expired'')
      else Inr bid)"

definition shielderRedeemRecipient :: "env \<Rightarrow> shielderRedeemPublicInputs \<Rightarrow> string \<Rightarrow> Address result" where
  "shielderRedeemRecipient e publicInputs policy =
     (case NewAddress e (pi_Recipient publicInputs) of
        Inl err \<Rightarrow> Inl (Wrapf ''invalid shielder redeem recipient'' err)
      | Inr recipient \<Rightarrow>
          if policy = ShielderRedeemPolicyBondEscrow then
            (if \<not> IsBondEscrow recipient then Inl (Errorf ''bond redeem recipient must be bond_escrow'') else Inr recipient)
          else if policy = ShielderRedeemPolicyUserBTC then
            (if \<not> Chain_Equals (GetChain e recipient) BTCChain
             then Inl (Errorf ''shielder redeem recipient must be bitcoin'') else Inr recipient)
          else if policy = ShielderRedeemPolicyBidDeposit then
            (if \<not> IsBondEscrow recipient then Inl (Errorf ''bid deposit redeem recipient must be bond_escrow'')
             else Inr recipient)
          else Inl (Errorf ''unknown shielder redeem policy''))"

definition validateShielderRedeemPolicy :: "env \<Rightarrow> string \<Rightarrow> shielderRedeemPublicInputs \<Rightarrow> kstate \<Rightarrow> unit result" where
  "validateShielderRedeemPolicy e policy publicInputs s =
     (if policy = ShielderRedeemPolicyBondEscrow then
        (if pi_FeeSats publicInputs \<noteq> 0 then Inl (Errorf ''bond escrow redeems must not pay withdrawal fee'')
         else if TrimSpace (pi_NodePubKey publicInputs) = [] then Inl (Errorf ''bond escrow redeems require node pubkey'')
         else case e_pubkey_from_bech32 e ConsPub (pi_NodePubKey publicInputs) of
           Inl err \<Rightarrow> Inl (Wrapf ''invalid bond node pubkey'' err)
         | Inr _ \<Rightarrow> Inr ())
      else if policy = ShielderRedeemPolicyBidDeposit then
        (if pi_FeeSats publicInputs \<noteq> 0 then Inl (Errorf ''bid deposit redeems must not pay withdrawal fee'')
         else let bidID = TrimSpace (pi_BidID publicInputs) in
         if bidID = [] then Inl (Errorf ''bid deposit redeems require bid id'')
         else case NewAddress e (pi_Recipient publicInputs) of
           Inl err \<Rightarrow> Inl err
         | Inr recipient \<Rightarrow>
             (case openNodeSlotBidForRedeem bidID recipient s of Inl err \<Rightarrow> Inl err | Inr _ \<Rightarrow> Inr ()))
      else if policy = ShielderRedeemPolicyUserBTC then
        (if TrimSpace (pi_BidID publicInputs) \<noteq> [] \<or> TrimSpace (pi_NodePubKey publicInputs) \<noteq> []
         then Inl (Errorf ''user btc redeems must not bind bid or node pubkey'') else Inr ())
      else Inl (Errorf ''unknown shielder redeem policy''))"

definition validateShielderRedeemPublicFee :: "string \<Rightarrow> shielderRedeemPublicInputs \<Rightarrow> unit result" where
  "validateShielderRedeemPublicFee policy publicInputs =
     (if (policy = ShielderRedeemPolicyBondEscrow \<or> policy = ShielderRedeemPolicyBidDeposit) \<and> pi_FeeSats publicInputs \<noteq> 0
      then Inl (Errorf ''redeems must not pay withdrawal fee'') else Inr ())"

definition shielderRedeemFeeSats :: "string \<Rightarrow> u64 \<Rightarrow> kstate \<Rightarrow> u64 result" where
  "shielderRedeemFeeSats policy amountSats s =
     (if policy = ShielderRedeemPolicyUserBTC then withdrawalFeeSats amountSats s else Inr 0)"

definition shielderRedeemID :: "env \<Rightarrow> string list \<Rightarrow> string" where
  "shielderRedeemID e parts = EncodeUpper (e_sha256 e (join ''|'' parts))"

section \<open>Authorization\<close>

record ShielderRedeemRequest =
  rq_Proof :: string
  rq_Public :: string

definition AuthorizeShielderRedeem :: "env \<Rightarrow> ShielderRedeemRequest \<Rightarrow> ShielderRedeem kact" where
  "AuthorizeShielderRedeem e req =
     bindA (lift_result (parseShielderRedeemPublicInputs e (rq_Public req))) (\<lambda>publicInputs.
     let policy = normalizeShielderRedeemPolicy (pi_RecipientPolicy publicInputs) in
     bindA (gets (validateShielderRedeemPolicy e policy publicInputs)) (\<lambda>r. bindA (lift_result r) (\<lambda>_.
     bindA (lift_result (validateShielderRedeemPublicFee policy publicInputs)) (\<lambda>_.
     bindA (lift_result (RejectLeakyShielderRedeemProof e (rq_Proof req))) (\<lambda>_.
     bindA (lift_result (VerifyShielderRedeemJSON e (rq_Proof req) (rq_Public req))) (\<lambda>_.
     bindA (gets (ShielderNullifierSpent (pi_NullifierHash publicInputs))) (\<lambda>spent.
     err_if spent ''shielder nullifier already spent''
    (bindA (gets (ShielderMerkleRootExists (pi_DenominationSats publicInputs) (pi_MerkleRoot publicInputs))) (\<lambda>known.
     err_if (\<not> known) ''unknown shielder merkle root''
    (bindA (lift_result (shielderRedeemRecipient e publicInputs policy)) (\<lambda>recipient.
     bindA (gets (currentBTCVaultAddress e)) (\<lambda>rv. bindA (lift_result rv) (\<lambda>(vault, _).
     let withdrawalID = shielderRedeemID e [pi_NullifierHash publicInputs, recipient, policy] in
     bindA (lift_result (NewTxID withdrawalID)) (\<lambda>inHash.
     bindA (gets (shielderRedeemFeeSats policy (pi_DenominationSats publicInputs))) (\<lambda>rf. bindA (lift_result rf) (\<lambda>fee.
     bindA (gets k_height) (\<lambda>h.
     let withdrawal = \<lparr>rd_WithdrawalID = withdrawalID, rd_NullifierHash = pi_NullifierHash publicInputs,
           rd_MerkleRoot = pi_MerkleRoot publicInputs, rd_Recipient = recipient, rd_RecipientPolicy = policy,
           rd_BidID = TrimSpace (pi_BidID publicInputs), rd_NodePubKey = TrimSpace (pi_NodePubKey publicInputs),
           rd_AmountSats = pi_DenominationSats publicInputs, rd_FeeSats = fee, rd_InHash = inHash, rd_OutHash = [],
           rd_VaultPubKey = va_PubKey vault, rd_RequestedHeight = h, rd_Status = ShielderRedeemStatusAuthorized\<rparr> in
     bindA (lift_result (ShielderRedeem_Valid e withdrawal)) (\<lambda>_.
     bindA (SetShielderRedeem e withdrawal) (\<lambda>_.
     bindA (SetShielderNullifierSpent (rd_NullifierHash withdrawal) (rd_WithdrawalID withdrawal)) (\<lambda>_.
     ret withdrawal))))))))))))))))))))"

definition BondFromShieldedNotes ::
  "env \<Rightarrow> AccAddress \<Rightarrow> string \<Rightarrow> string \<Rightarrow> ShielderRedeemRequest \<Rightarrow> ShielderNodeBond kact" where
  "BondFromShieldedNotes e owner nodePubKey0 operatorPubKey req =
     err_if (owner = []) ''missing bond owner''
    (let nodePubKey = TrimSpace nodePubKey0 in
     err_if (nodePubKey = []) ''missing node pubkey''
    (bindA (lift_wrap ''invalid operator pubkey'' (NewPubKey e operatorPubKey)) (\<lambda>operator.
     bindA (lift_result (parseShielderRedeemPublicInputs e (rq_Public req))) (\<lambda>publicInputs.
     err_if (normalizeShielderRedeemPolicy (pi_RecipientPolicy publicInputs) \<noteq> ShielderRedeemPolicyBondEscrow)
       ''bond notes require bond_escrow recipient policy''
    (err_if (TrimSpace (pi_NodePubKey publicInputs) \<noteq> nodePubKey) ''bond node pubkey mismatch''
    (err_if (pi_FeeSats publicInputs \<noteq> 0) ''bond notes must not pay withdrawal fee''
    (bindA (AuthorizeShielderRedeem e req) (\<lambda>withdrawal.
     confirmBondFromNoteSpend e owner nodePubKey operator (rd_AmountSats withdrawal)))))))))"

definition FinalizeBidDepositFromNoteSpend :: "env \<Rightarrow> ShielderRedeem \<Rightarrow> ShielderRedeem kact" where
  "FinalizeBidDepositFromNoteSpend e authorization =
     bindA (lift_result (ShielderRedeem_Valid e authorization)) (\<lambda>_.
     err_if (normalizeShielderRedeemPolicy (rd_RecipientPolicy authorization) \<noteq> ShielderRedeemPolicyBidDeposit)
       ''shielder redeem is not a bid deposit''
    (err_if (rd_FeeSats authorization \<noteq> 0) ''bid deposits must not pay withdrawal fee''
    (bindA (gets (openNodeSlotBidForRedeem (rd_BidID authorization) (rd_Recipient authorization))) (\<lambda>r.
     bindA (lift_result r) (\<lambda>bid.
     bindA (gets k_height) (\<lambda>h.
     bindA (SetNodeSlotBid (bid\<lparr>bd_AmountSats := bd_AmountSats bid + rd_AmountSats authorization, bd_UpdatedHeight := h\<rparr>)) (\<lambda>_.
     let settled = authorization\<lparr>rd_Status := ShielderRedeemStatusSettled\<rparr> in
     bindA (SetShielderRedeem e settled) (\<lambda>_. ret settled))))))))"

section \<open>What an authorization says\<close>

lemma seqR_Inr [simp]: "seqR a b = Inr x \<longleftrightarrow> (\<exists>u. a = Inr u) \<and> b = Inr x"
  by (auto simp: seqR_def split: sum.splits)

lemma SetNullifier_run:
  assumes "SetShielderNullifierSpent n wid s = (Inr u, t)"
  obtains r where "t = s\<lparr>k_nullifiers := kv_set (skey (TrimSpace n)) r (k_nullifiers s)\<rparr>"
  using assms unfolding SetShielderNullifierSpent_def by (simp add: act_run Let_def)

definition redeem_checked :: "env \<Rightarrow> ShielderRedeemRequest \<Rightarrow> shielderRedeemPublicInputs \<Rightarrow> ShielderRedeem \<Rightarrow> kstate \<Rightarrow> bool" where
  "redeem_checked e req pin w s \<longleftrightarrow>
     parseShielderRedeemPublicInputs e (rq_Public req) = Inr pin \<and>
     VerifyShielderRedeemJSON e (rq_Proof req) (rq_Public req) = Inr () \<and>
     \<not> ShielderNullifierSpent (pi_NullifierHash pin) s \<and>
     ShielderMerkleRootExists (pi_DenominationSats pin) (pi_MerkleRoot pin) s \<and>
     rd_NullifierHash w = pi_NullifierHash pin \<and> rd_AmountSats w = pi_DenominationSats pin \<and>
     rd_MerkleRoot w = pi_MerkleRoot pin \<and> rd_Status w = ShielderRedeemStatusAuthorized \<and>
     rd_RecipientPolicy w = normalizeShielderRedeemPolicy (pi_RecipientPolicy pin) \<and>
     shielderRedeemFeeSats (rd_RecipientPolicy w) (rd_AmountSats w) s = Inr (rd_FeeSats w) \<and>
     shielderRedeemRecipient e pin (rd_RecipientPolicy w) = Inr (rd_Recipient w) \<and>
     ShielderRedeem_Valid e w = Inr ()"

lemma authorize_inv:
  assumes "AuthorizeShielderRedeem e req s = (Inr w, t)"
  shows "\<exists>pin s1. SetShielderRedeem e w s = (Inr (), s1) \<and>
    SetShielderNullifierSpent (rd_NullifierHash w) (rd_WithdrawalID w) s1 = (Inr (), t) \<and> redeem_checked e req pin w s"
  using assms unfolding AuthorizeShielderRedeem_def Let_def
  by (clarsimp simp: act_run) (simp add: redeem_checked_def)

lemma authorize_run:
  assumes "AuthorizeShielderRedeem e req s = (Inr w, t)"
  obtains pin r where "redeem_checked e req pin w s"
    and "t = s\<lparr>k_redeems := kv_set (skey (rd_WithdrawalID w)) w (k_redeems s),
      k_nullifiers := kv_set (skey (TrimSpace (rd_NullifierHash w))) r (k_nullifiers s)\<rparr>"
proof -
  from authorize_inv [OF assms] obtain pin s1 where a: "SetShielderRedeem e w s = (Inr (), s1)"
    and n: "SetShielderNullifierSpent (rd_NullifierHash w) (rd_WithdrawalID w) s1 = (Inr (), t)"
    and c: "redeem_checked e req pin w s" by blast
  from n obtain r where "t = s1\<lparr>k_nullifiers := kv_set (skey (TrimSpace (rd_NullifierHash w))) r (k_nullifiers s1)\<rparr>"
    by (rule SetNullifier_run)
  with a c show ?thesis by (intro that) (auto simp: SetShielderRedeem_def act_run)
qed

lemma spent_mono_authorize: "ShielderNullifierSpent n s \<Longrightarrow> AuthorizeShielderRedeem e req s = (Inr w, t) \<Longrightarrow> ShielderNullifierSpent n t"
  by (erule authorize_run) (simp add: ShielderNullifierSpent_def)

lemma authorize_spends:
  assumes "AuthorizeShielderRedeem e req s = (Inr w, t)"
  shows "\<not> ShielderNullifierSpent (rd_NullifierHash w) s" and "ShielderNullifierSpent (rd_NullifierHash w) t"
  using assms by (auto elim!: authorize_run simp: ShielderNullifierSpent_def redeem_checked_def)

lemma authorize_frame:
  assumes "AuthorizeShielderRedeem e req s = (Inr w, t)"
  shows "k_roots t = k_roots s" "k_commitments t = k_commitments s" "k_fee_pool t = k_fee_pool s"
    "k_bonds t = k_bonds s" "k_deposits t = k_deposits s" "k_config t = k_config s"
  using assms by (rule authorize_run, simp)+

lemma authorized_fee:
  assumes "AuthorizeShielderRedeem e req s = (Inr w, t)" and "unat (withdrawalFeeBp s) \<le> 10000"
  shows "unat (rd_FeeSats w) = (if rd_RecipientPolicy w = ShielderRedeemPolicyUserBTC
      then unat (rd_AmountSats w) * unat (withdrawalFeeBp s) div 10000 else 0)"
    and "rd_FeeSats w < rd_AmountSats w"
proof -
  from assms(1) have fee: "shielderRedeemFeeSats (rd_RecipientPolicy w) (rd_AmountSats w) s = Inr (rd_FeeSats w)"
    and v: "ShielderRedeem_Valid e w = Inr ()" by (auto elim!: authorize_run simp: redeem_checked_def)
  show "unat (rd_FeeSats w) = (if rd_RecipientPolicy w = ShielderRedeemPolicyUserBTC
      then unat (rd_AmountSats w) * unat (withdrawalFeeBp s) div 10000 else 0)"
    using fee withdrawalFee_exact [OF assms(2), of "rd_AmountSats w"]
    by (auto simp: shielderRedeemFeeSats_def withdrawalFeeSats_def split: if_splits)
  show "rd_FeeSats w < rd_AmountSats w" using v by (auto simp: ShielderRedeem_Valid_def not_le split: if_splits)
qed

end
