(* ===== verification/Withdraw.thy ===== *)
theory Withdraw
  imports Batching Redeem
begin

text \<open>
  Paying out a redeemed note (\<^verbatim>\<open>x/thornado/withdrawal_flow.go\<close> and \<^verbatim>\<open>FinalizeShielderRedeem\<close> of
  \<^verbatim>\<open>shielder_flow.go\<close>): the outbound for the amount less the fee is queued, the fee is booked once,
  and the redeem moves from authorized to queued.
\<close>

definition BaseName :: string where "BaseName = ''base''"

definition queueAuthorizedWithdrawalTxOut :: "env \<Rightarrow> ShielderRedeem \<Rightarrow> bool \<Rightarrow> ShielderRedeem kact" where
  "queueAuthorizedWithdrawalTxOut e authorization bookFee =
     bindA (lift_result (ShielderRedeem_Valid e authorization)) (\<lambda>_.
     err_if (rd_Status authorization \<noteq> ShielderRedeemStatusAuthorized) ''shielder redeem is not authorized''
    (bindA (gets (withdrawalFeeSats (rd_AmountSats authorization))) (\<lambda>rf. bindA (lift_result rf) (\<lambda>feeSats.
     err_if (rd_AmountSats authorization \<le> feeSats) ''withdrawal fee exceeds amount''
    (let authorization1 = authorization\<lparr>rd_FeeSats := feeSats\<rparr>;
         amount = rd_AmountSats authorization1 - rd_FeeSats authorization1 in
     bindA (gets btcGasRateFromKeeper) (\<lambda>rg. bindA (lift_result rg) (\<lambda>gasRate.
     let item = TxOutItem_zero\<lparr>to_Chain := BTCChain, to_ToAddress := rd_Recipient authorization1,
           to_VaultPubKey := rd_VaultPubKey authorization1, to_Coin := NewCoin BTCAsset (unat amount),
           to_GasRate := gasRate, to_InHash := rd_InHash authorization1, to_ModuleName := BaseName,
           to_TxType := TxOutTypeOut\<rparr> in
     bindA (gets k_height) (\<lambda>h.
     bindA (appendBTCExactTxOut e h item) (\<lambda>_.
     bindA (if bookFee then addWithdrawalFee (rd_FeeSats authorization1) else ret ()) (\<lambda>_.
     let authorization2 = authorization1\<lparr>rd_Status := DepositStatusKeysignQueued\<rparr> in
     bindA (SetShielderRedeem e authorization2) (\<lambda>_. ret authorization2)))))))))))"

definition QueueAuthorizedWithdrawalTxOut :: "env \<Rightarrow> ShielderRedeem \<Rightarrow> ShielderRedeem kact" where
  "QueueAuthorizedWithdrawalTxOut e authorization = queueAuthorizedWithdrawalTxOut e authorization True"

definition ReQueueAuthorizedWithdrawalTxOut :: "env \<Rightarrow> ShielderRedeem \<Rightarrow> ShielderRedeem kact" where
  "ReQueueAuthorizedWithdrawalTxOut e authorization = queueAuthorizedWithdrawalTxOut e authorization False"

definition FinalizeShielderRedeem :: "env \<Rightarrow> ShielderRedeem \<Rightarrow> ShielderRedeem kact" where
  "FinalizeShielderRedeem e authorization =
     (let policy = normalizeShielderRedeemPolicy (rd_RecipientPolicy authorization) in
      if policy = ShielderRedeemPolicyBondEscrow
        then fail (Errorf ''bond escrow redeems finalize via MsgBondFromNotes'')
      else if policy = ShielderRedeemPolicyBidDeposit then FinalizeBidDepositFromNoteSpend e authorization
      else if policy = ShielderRedeemPolicyUserBTC then QueueAuthorizedWithdrawalTxOut e authorization
      else fail (Errorf ''unknown shielder redeem policy''))"

section \<open>Refreshing never changes a payment\<close>

text \<open>What an outbound promises: who is paid from which vault for which inbound, and, for
  withdrawals and refunds, how much. The amount of an internal item is what the batch leaves.\<close>

definition payment :: "TxOutItem \<Rightarrow> Address \<times> PubKey \<times> Chain \<times> TxID \<times> TxID \<times> string \<times> u64 \<times> Coin option" where
  "payment i = (to_ToAddress i, to_VaultPubKey i, to_Chain i, to_InHash i, to_OutHash i, to_TxType i, to_VaultPathIndex i,
     (if IsBatchableTxOutType (to_TxType i) then Some (to_Coin i) else None))"

lemma map_update_same: "(i < length xs \<Longrightarrow> f y = f (xs ! i)) \<Longrightarrow> map f (xs[i := y]) = map f xs"
  by (cases "i < length xs") (simp_all add: map_update list_update_beyond, metis list_update_id map_update)

lemma payment_assign [simp]: "map payment (assign_group items inp g idxs cs) = map payment items"
  by (induction items inp g idxs cs rule: assign_group.induct) (simp_all add: map_update_same payment_def)

lemma payment_set_coins:
  "(\<And>i. i \<in> set idxs \<Longrightarrow> i < length items \<Longrightarrow> \<not> IsBatchableTxOutType (to_TxType (items ! i))) \<Longrightarrow>
   map payment (set_coins items idxs v) = map payment items"
proof (induction idxs arbitrary: items)
  case (Cons j js)
  let ?items = "items[j := (items ! j)\<lparr>to_Coin := NewCoin BTCAsset v\<rparr>]"
  have "set_coins items (j # js) v = set_coins ?items js v" by (simp add: set_coins_def)
  moreover have "map payment (set_coins ?items js v) = map payment ?items"
  proof (rule Cons.IH)
    fix i assume "i \<in> set js" and "i < length ?items"
    then show "\<not> IsBatchableTxOutType (to_TxType (?items ! i))" using Cons.prems by (cases "i = j") auto
  qed
  moreover have "map payment ?items = map payment items"
    by (rule map_update_same) (use Cons.prems [of j] in \<open>simp add: payment_def\<close>)
  ultimately show ?case by simp
qed (simp add: set_coins_def)

lemma types_distinct:
  "TxOutTypeSweep \<noteq> TxOutTypeOut" "TxOutTypeSweep \<noteq> TxOutTypeRefund" "TxOutTypeMigrate \<noteq> TxOutTypeOut"
  "TxOutTypeMigrate \<noteq> TxOutTypeRefund" "TxOutTypeConsolidate \<noteq> TxOutTypeOut" "TxOutTypeConsolidate \<noteq> TxOutTypeRefund"
  by (simp_all add: txout_string_defs)

lemma not_batchable:
  "btcBatchVinOnlyItem i \<Longrightarrow> \<not> IsBatchableTxOutType (to_TxType i)"
  "btcBatchRemainderItem i \<Longrightarrow> \<not> IsBatchableTxOutType (to_TxType i)"
  "IsInternalTxOutType ty \<Longrightarrow> \<not> IsBatchableTxOutType ty"
  by (auto simp: btcBatchVinOnlyItem_def btcBatchRemainderItem_def IsInternalTxOutType_def IsBatchableTxOutType_def
      GetTxType_def Let_def types_distinct types_distinct [symmetric])

lemma refresh_epoch_payment:
  assumes "refreshBTCEpochBatchGroup e txOut grp s = Inr txOut'"
  shows "map payment (tx_TxArray txOut') = map payment (tx_TxArray txOut)
    \<and> tx_Height txOut' = tx_Height txOut \<and> tx_Status txOut' = tx_Status txOut"
proof -
  obtain vault g uni where fin: "finishBTCEpochBatch e txOut grp vault g
       (map (\<lambda>i. to_ToAddress (tx_TxArray txOut ! i)) (fixed_of (tx_TxArray txOut) grp @ remainders_of (tx_TxArray txOut) grp))
       (sum_list (map (amount_at (tx_TxArray txOut)) (fixed_of (tx_TxArray txOut) grp)))
       (vins_of (tx_TxArray txOut) grp) (remainders_of (tx_TxArray txOut) grp) uni = Inr txOut'"
    by (rule epoch_refresh_finish [OF assms])
  have rem: "map payment (set_coins (tx_TxArray txOut) (remainders_of (tx_TxArray txOut) grp) v) = map payment (tx_TxArray txOut)" for v
    by (rule payment_set_coins) (auto simp: remainders_of_def not_batchable)
  have vins: "map payment (set_coins (set_coins (tx_TxArray txOut) (remainders_of (tx_TxArray txOut) grp) v)
      (vins_of (tx_TxArray txOut) grp) 0) = map payment (tx_TxArray txOut)" for v
  proof (rule trans [OF payment_set_coins rem])
    fix i assume "i \<in> set (vins_of (tx_TxArray txOut) grp)"
      and "i < length (set_coins (tx_TxArray txOut) (remainders_of (tx_TxArray txOut) grp) v)"
    then show "\<not> IsBatchableTxOutType (to_TxType (set_coins (tx_TxArray txOut) (remainders_of (tx_TxArray txOut) grp) v ! i))"
      by (auto simp: nth_set_coins vins_of_def dest: not_batchable)
  qed
  have "map payment (tx_TxArray txOut') = map payment (tx_TxArray txOut)"
    by (rule finish_run [OF fin]) (simp add: vins)
  moreover have "tx_Height txOut' = tx_Height txOut \<and> tx_Status txOut' = tx_Status txOut"
    using fin by (auto simp: finishBTCEpochBatch_def Let_def split: if_splits sum.splits)
  ultimately show ?thesis by simp
qed

lemma refresh_legacy_payment:
  assumes "refreshBTCLegacyTxOutGroup e txOut grp s = Inr txOut'"
  shows "map payment (tx_TxArray txOut') = map payment (tx_TxArray txOut)
    \<and> tx_Height txOut' = tx_Height txOut \<and> tx_Status txOut' = tx_Status txOut"
proof -
  have "map payment (set_coins (tx_TxArray txOut) [hd grp] v) = map payment (tx_TxArray txOut)"
    if "IsInternalTxOutType (to_TxType (tx_TxArray txOut ! hd grp))" for v
    using that by (intro payment_set_coins) (auto dest: not_batchable)
  then show ?thesis using assms unfolding refreshBTCLegacyTxOutGroup_def Let_def
    by (simp split: sum.splits if_splits) auto
qed

lemma refresh_items_payment:
  "refresh_items e handled is txOut s = (r, txOut') \<Longrightarrow> map payment (tx_TxArray txOut') = map payment (tx_TxArray txOut)
    \<and> tx_Height txOut' = tx_Height txOut \<and> tx_Status txOut' = tx_Status txOut"
proof (induction e handled "is" txOut s rule: refresh_items.induct)
  case (2 e handled i "is" txOut s)
  have grp: "map payment (tx_TxArray b) = map payment (tx_TxArray txOut) \<and> tx_Height b = tx_Height txOut \<and> tx_Status b = tx_Status txOut"
    if "refreshBTCExactTxOutGroup e txOut g s = Inr b" for g b
    using that refresh_epoch_payment refresh_legacy_payment by (auto simp: refreshBTCExactTxOutGroup_def split: if_splits)
  show ?case
  proof (cases "i \<in> set handled \<or> \<not> btcTxOutItemNeedsExactRefresh txOut (tx_TxArray txOut ! i)")
    case True then show ?thesis using 2(1) 2(3) by simp
  next
    case False
    then show ?thesis using 2(2) [OF False refl] 2(3) grp
      by (cases "refreshBTCExactTxOutGroup e txOut (refresh_group txOut handled i) s") (auto simp: Let_def)
  qed
qed simp

section \<open>Queueing adds one payment\<close>

text \<open>The block store: ordered, each block under the key of its height.\<close>

definition txouts_ok :: "kstate \<Rightarrow> bool" where
  "txouts_ok s \<longleftrightarrow> kv_ordered (k_txouts s) \<and>
     (\<forall>k b. kv_get (k_txouts s) k = Some b \<longrightarrow> k = txout_key (tx_Height b))"

lemma txouts_stored: "txouts_ok s \<Longrightarrow> b \<in> set (kv_values (k_txouts s)) \<Longrightarrow> GetTxOut (tx_Height b) s = b"
  by (auto simp: txouts_ok_def kv_values_mem GetTxOut_def)

lemma GetTxOut_key: "txouts_ok s \<Longrightarrow> txout_key (tx_Height (GetTxOut h s)) = txout_key h"
  by (auto simp: txouts_ok_def GetTxOut_def NewTxOut_def split: option.splits)

lemma GetTxOut_cong: "txout_key h = txout_key h' \<Longrightarrow> kv_get (k_txouts s) (txout_key h) = Some b \<Longrightarrow> GetTxOut h' s = b"
  by (simp add: GetTxOut_def)

lemma batch_block_stored:
  assumes ok: "txouts_ok s" and run: "btcVaultBatchTxOut item s = Inr b"
  shows "tx_TxArray (GetTxOut (tx_Height b) s) = tx_TxArray b \<or> tx_TxArray b = []
    \<and> tx_TxArray (GetTxOut (tx_Height b) s) = []"
proof -
  obtain best n where scan: "foldl (scanBatch (to_VaultPubKey item) item (k_height s)) (None, 0) (kv_values (k_txouts s)) = (best, n)"
    by fastforce
  show ?thesis
  proof (cases best)
    case (Some c)
    then have "b = c" using run scan by (simp add: btcVaultBatchTxOut_def)
    moreover have "c \<in> set (kv_values (k_txouts s))"
      using scan_open [OF scan [unfolded Some], of "set (kv_values (k_txouts s))"] by auto
    ultimately show ?thesis using txouts_stored [OF ok] by simp
  next
    case None
    then obtain h where b: "b = (GetTxOut h s)\<lparr>tx_Epoch := n, tx_Status := TxOutStatusPendingBatch\<rparr>"
      using run scan by (auto simp: btcVaultBatchTxOut_def Let_def split: sum.splits)
    have "GetTxOut (tx_Height (GetTxOut h s)) s = GetTxOut h s \<or> tx_TxArray (GetTxOut h s) = []
        \<and> tx_TxArray (GetTxOut (tx_Height (GetTxOut h s)) s) = []"
      using GetTxOut_key [OF ok, of h]
      by (auto simp: GetTxOut_def NewTxOut_def TxOut_zero_def split: option.splits)
    then show ?thesis using b by auto
  qed
qed

lemma free_txout_run: "free_txout n h s = Some b \<Longrightarrow> \<exists>h'. b = GetTxOut h' s"
  by (induction n h s rule: free_txout.induct) (auto simp: Let_def split: if_splits)

lemma SetTxOut_run:
  assumes "SetTxOut b s = (Inr u, t)" and "tx_TxArray b \<noteq> []"
  obtains b' where "t = s\<lparr>k_txouts := kv_set (txout_key (tx_Height b)) b' (k_txouts s)\<rparr>"
    "tx_TxArray b' = tx_TxArray b" "tx_Height b' = tx_Height b"
  using assms by (auto simp: SetTxOut_def TxOut_IsEmpty_def Let_def act_run intro: that split: if_splits)

text \<open>A successful append stores one block that holds the payments it had and the new one.\<close>

definition queued :: "TxOutItem \<Rightarrow> kstate \<Rightarrow> kstate \<Rightarrow> bool" where
  "queued item s t \<longleftrightarrow> (\<exists>b. t = s\<lparr>k_txouts := kv_set (txout_key (tx_Height b)) b (k_txouts s)\<rparr> \<and>
     map payment (tx_TxArray b) = map payment (tx_TxArray (GetTxOut (tx_Height b) s)) @ [payment (item\<lparr>to_TxType := GetTxType item\<rparr>)])"

lemma queuedI:
  assumes "refresh_items e [] is (blk\<lparr>tx_TxArray := tx_TxArray blk @ [item\<lparr>to_TxType := GetTxType item\<rparr>]\<rparr>) s = (r, b1)"
    and "SetTxOut b1 s = (Inr u, t)" and "tx_TxArray (GetTxOut (tx_Height blk) s) = tx_TxArray blk"
  shows "queued item s t"
proof -
  have p: "map payment (tx_TxArray b1) = map payment (tx_TxArray blk) @ [payment (item\<lparr>to_TxType := GetTxType item\<rparr>)]"
    and h: "tx_Height b1 = tx_Height blk" using refresh_items_payment [OF assms(1)] by simp_all
  have "tx_TxArray b1 \<noteq> []" using p by (metis append_is_Nil_conv list.map_disc_iff not_Cons_self2)
  then obtain b' where b': "t = s\<lparr>k_txouts := kv_set (txout_key (tx_Height b1)) b' (k_txouts s)\<rparr>"
    "tx_TxArray b' = tx_TxArray b1" "tx_Height b' = tx_Height b1" by (rule SetTxOut_run [OF assms(2)])
  show ?thesis unfolding queued_def using b' p h assms(3) by (intro exI [of _ b']) simp
qed

lemma append_queued:
  assumes run: "appendBTCExactTxOut e h item s = (Inr u, t)" and ok: "txouts_ok s"
  shows "queued item s t"
proof (cases "btcEpochBatchItem (item\<lparr>to_TxType := GetTxType item\<rparr>)")
  case True
  then obtain blk r b1 where blk: "btcVaultBatchTxOut (item\<lparr>to_TxType := GetTxType item\<rparr>) s = Inr blk"
    and ref: "refreshBTCExactTxOutBlock e (blk\<lparr>tx_TxArray := tx_TxArray blk @ [item\<lparr>to_TxType := GetTxType item\<rparr>]\<rparr>) s = (r, b1)"
    and set: "SetTxOut b1 s = (Inr u, t)"
    using run by (clarsimp simp: appendBTCExactTxOut_def Let_def act_run split: prod.splits)
      (metis after_log_run surj_pair)
  have "tx_TxArray (GetTxOut (tx_Height blk) s) = tx_TxArray blk" using batch_block_stored [OF ok blk] by auto
  then show ?thesis using queuedI [OF _ set] ref by (auto simp: refreshBTCExactTxOutBlock_def)
next
  case False
  define blk where "blk = (\<lambda>blk0 :: TxOut. if tx_Status blk0 = [] then blk0\<lparr>tx_Status := TxOutStatusPendingSign\<rparr> else blk0)"
  have eq: "(if tx_Status b = [] then b\<lparr>tx_Status := TxOutStatusPendingSign\<rparr> else b) = blk b" for b by (simp add: blk_def)
  have same: "tx_TxArray (blk b) = tx_TxArray b" "tx_Height (blk b) = tx_Height b" for b by (simp_all add: blk_def)
  have "\<exists>blk0 b1. free_txout 1000 h s = Some blk0 \<and>
      refreshBTCExactTxOutBlock e ((blk blk0)\<lparr>tx_TxArray := tx_TxArray (blk blk0) @ [item\<lparr>to_TxType := GetTxType item\<rparr>]\<rparr>) s = (Inr (), b1)
      \<and> SetTxOut b1 s = (Inr u, t)"
    using run False unfolding appendBTCExactTxOut_def Let_def
    by (cases "free_txout 1000 h s") (auto simp: act_run case_prod_beta eq simp del: free_txout.simps, metis prod.collapse)
  then obtain blk0 b1 where free: "free_txout 1000 h s = Some blk0"
    and ref: "refreshBTCExactTxOutBlock e ((blk blk0)\<lparr>tx_TxArray := tx_TxArray (blk blk0) @ [item\<lparr>to_TxType := GetTxType item\<rparr>]\<rparr>) s = (Inr (), b1)"
    and set: "SetTxOut b1 s = (Inr u, t)" by blast
  obtain h' where h': "blk0 = GetTxOut h' s" using free_txout_run [OF free] by blast
  have "tx_TxArray (GetTxOut (tx_Height blk0) s) = tx_TxArray blk0"
    unfolding h' using GetTxOut_key [OF ok, of h'] by (auto simp: GetTxOut_def NewTxOut_def TxOut_zero_def split: option.splits)
  then have "tx_TxArray (GetTxOut (tx_Height (blk blk0)) s) = tx_TxArray (blk blk0)" by (simp add: same)
  then show ?thesis using queuedI [OF _ set] ref by (auto simp: refreshBTCExactTxOutBlock_def)
qed

lemma queued_ok: "queued item s t \<Longrightarrow> txouts_ok s \<Longrightarrow> txouts_ok t"
  by (auto simp: queued_def txouts_ok_def kv_ordered_set split: if_splits)

section \<open>A batch always finds a block\<close>

definition decimal :: "string \<Rightarrow> nat" where
  "decimal cs = foldl (\<lambda>v c. v * 10 + (of_char c - 48)) 0 cs"

lemma decimal_show_nat: "decimal (show_nat n) = n"
proof (induction n rule: show_nat.induct)
  case (1 n)
  have d: "of_char (digit_char k) = 48 + k" if "k < 10" for k :: nat using that by (simp add: digit_char_def of_char_of)
  show ?case
  proof (cases "n < 10")
    case True then show ?thesis using d by (subst show_nat.simps) (simp add: decimal_def)
  next
    case False
    then have "foldl (\<lambda>v c. v * 10 + (of_char c - 48)) 0 (show_nat (n div 10)) = n div 10" using 1 by (simp add: decimal_def)
    with False show ?thesis by (subst show_nat.simps) (simp add: decimal_def d)
  qed
qed

lemma ToUpper_show_nat: "ToUpper (show_nat n) = show_nat n"
proof (induction n rule: show_nat.induct)
  case (1 n)
  have d: "upper_char (digit_char k) = digit_char k" if "k < 10" for k :: nat
  proof -
    have "of_char (digit_char k) = 48 + k" using that by (simp add: digit_char_def of_char_of)
    then show ?thesis using that by (simp add: upper_char_def less_eq_char_def)
  qed
  with 1 show ?case by (cases "n < 10"; subst (1 2) show_nat.simps) (simp_all add: ToUpper_def)
qed

lemma txout_key_inj: "0 \<le> h \<Longrightarrow> 0 \<le> h' \<Longrightarrow> txout_key h = txout_key h' \<longleftrightarrow> h = h'"
  unfolding txout_key_def skey_def show_int_def
  by (simp add: ToUpper_show_nat) (metis decimal_show_nat eq_nat_nat_iff)

lemma next_empty_full: "next_empty n h s = Inl err \<Longrightarrow> i < n \<Longrightarrow> kv_get (k_txouts s) (txout_key (h + int i)) \<noteq> None"
proof (induction n arbitrary: h i)
  case (Suc n)
  then have b: "\<not> TxOut_IsEmpty (GetTxOut h s)" "next_empty n (h + 1) s = Inl err" by (auto simp: Let_def split: if_splits)
  show ?case
  proof (cases i)
    case 0
    then show ?thesis using b(1) by (auto simp: GetTxOut_def NewTxOut_def TxOut_IsEmpty_def zero_defs split: option.splits)
  next
    case (Suc j)
    then have "h + int i = h + 1 + int j" "j < n" using Suc.prems(2) by simp_all
    then show ?thesis using Suc.IH [OF b(2), of j] by (simp only: simp_thms)
  qed
qed simp

lemma next_empty_found:
  assumes "length (k_txouts s) < n" "0 \<le> h"
  shows "\<exists>h'. next_empty n h s = Inr h'"
proof (cases "next_empty n h s")
  case (Inl err)
  have sub: "(\<lambda>i. txout_key (h + int i)) ` {..<n} \<subseteq> fst ` set (k_txouts s)"
    using next_empty_full [OF Inl] by (auto simp: kv_get_def map_of_eq_None_iff)
  have "inj_on (\<lambda>i. txout_key (h + int i)) {..<n}" using assms(2) by (auto simp: inj_on_def txout_key_inj)
  then have "card ((\<lambda>i. txout_key (h + int i)) ` {..<n}) = n" by (simp add: card_image)
  then have "n \<le> card (fst ` set (k_txouts s))" using card_mono [OF _ sub] by simp
  also have "\<dots> \<le> length (k_txouts s)" using card_image_le card_length le_trans by blast
  finally show ?thesis using assms(1) by simp
qed simp

lemma batch_block_found:
  assumes "length (k_txouts s) < 1000" "0 \<le> k_height s" "k_height s + max 0 w < 2 ^ 63"
    and w: "w = MinutesToBlocks (GetConfigInt64 Withdrawal_BatchWindowMinutes s) (GetConfigInt64 Chain_BlockTimeSeconds s)"
  shows "\<exists>b. btcVaultBatchTxOut item s = Inr b"
proof -
  define w' where "w' = (if w < 0 then 0 else w)"
  have "wrap64 (k_height s + w') = k_height s + w'" using assms(2,3) by (intro wrap64_id) (auto simp: w'_def)
  then have "\<exists>h'. nextEmptyTxOutHeight (wrap64 (k_height s + w')) s = Inr h'"
    unfolding nextEmptyTxOutHeight_def using assms(1,2) by (intro next_empty_found) (auto simp: w'_def)
  then show ?thesis by (auto simp: btcVaultBatchTxOut_def Let_def w [symmetric] w'_def [symmetric] split: prod.split option.split)
qed

section \<open>Paying out a redeem\<close>

definition withdrawal_item :: "ShielderRedeem \<Rightarrow> int \<Rightarrow> TxOutItem" where
  "withdrawal_item w gasRate = TxOutItem_zero\<lparr>to_Chain := BTCChain, to_ToAddress := rd_Recipient w,
     to_VaultPubKey := rd_VaultPubKey w, to_Coin := NewCoin BTCAsset (unat (rd_AmountSats w - rd_FeeSats w)),
     to_GasRate := gasRate, to_InHash := rd_InHash w, to_ModuleName := BaseName, to_TxType := TxOutTypeOut\<rparr>"

lemma queue_run:
  assumes "queueAuthorizedWithdrawalTxOut e a book s = (Inr w, t)"
  obtains fee gasRate s1 s2 where "rd_Status a = ShielderRedeemStatusAuthorized"
    and "withdrawalFeeSats (rd_AmountSats a) s = Inr fee" "fee < rd_AmountSats a"
    and "w = a\<lparr>rd_FeeSats := fee, rd_Status := DepositStatusKeysignQueued\<rparr>"
    and "appendBTCExactTxOut e (k_height s) (withdrawal_item (a\<lparr>rd_FeeSats := fee\<rparr>) gasRate) s = (Inr (), s1)"
    and "(if book then addWithdrawalFee fee else ret ()) s1 = (Inr (), s2)"
    and "t = s2\<lparr>k_redeems := kv_set (skey (rd_WithdrawalID a)) w (k_redeems s2)\<rparr>"
  using assms unfolding queueAuthorizedWithdrawalTxOut_def Let_def
  by (clarsimp simp: act_run withdrawal_item_def SetShielderRedeem_def not_le cong: if_cong)

text \<open>Queueing a withdrawal adds its one payment, books its fee once and marks the redeem, and
  touches nothing else of the state.\<close>

lemma queue_pays:
  assumes run: "queueAuthorizedWithdrawalTxOut e a book s = (Inr w, t)" and ok: "txouts_ok s"
    and bp: "unat (withdrawalFeeBp s) \<le> 10000"
  shows "rd_Status a = ShielderRedeemStatusAuthorized" and "rd_Status w = DepositStatusKeysignQueued"
    and "unat (rd_FeeSats w) = unat (rd_AmountSats a) * unat (withdrawalFeeBp s) div 10000"
    and "\<exists>gasRate s1. queued (withdrawal_item w gasRate) s s1 \<and> k_txouts t = k_txouts s1"
    and "fp_TotalCollectedSats (GetFeePool t) = fp_TotalCollectedSats (GetFeePool s) + (if book then rd_FeeSats w else 0)"
    and "GetShielderRedeem (rd_WithdrawalID a) t = w" and "k_nullifiers t = k_nullifiers s"
proof -
  obtain fee gasRate s1 s2 where st: "rd_Status a = ShielderRedeemStatusAuthorized"
    and fee: "withdrawalFeeSats (rd_AmountSats a) s = Inr fee"
    and w: "w = a\<lparr>rd_FeeSats := fee, rd_Status := DepositStatusKeysignQueued\<rparr>"
    and app: "appendBTCExactTxOut e (k_height s) (withdrawal_item (a\<lparr>rd_FeeSats := fee\<rparr>) gasRate) s = (Inr (), s1)"
    and add: "(if book then addWithdrawalFee fee else ret ()) s1 = (Inr (), s2)"
    and t: "t = s2\<lparr>k_redeems := kv_set (skey (rd_WithdrawalID a)) w (k_redeems s2)\<rparr>"
    by (rule queue_run [OF run])
  have q: "queued (withdrawal_item w gasRate) s s1"
    using append_queued [OF app ok] by (simp add: w withdrawal_item_def)
  then have s1: "GetFeePool s1 = GetFeePool s" "k_nullifiers s1 = k_nullifiers s"
    by (auto simp: queued_def GetFeePool_def)
  have "same k_txouts (if book then addWithdrawalFee fee else ret ())"
    "same k_nullifiers (if book then addWithdrawalFee fee else ret ())" by (auto intro!: act_keeps)
  from sameD [OF this(1) add] sameD [OF this(2) add] have s2: "k_txouts s2 = k_txouts s1" "k_nullifiers s2 = k_nullifiers s1" by auto
  show "rd_Status a = ShielderRedeemStatusAuthorized" by (rule st)
  show "rd_Status w = DepositStatusKeysignQueued" by (simp add: w)
  show "unat (rd_FeeSats w) = unat (rd_AmountSats a) * unat (withdrawalFeeBp s) div 10000"
    using fee withdrawalFee_exact [OF bp, of "rd_AmountSats a"] by (auto simp: w withdrawalFeeSats_def)
  show "\<exists>gasRate s1. queued (withdrawal_item w gasRate) s s1 \<and> k_txouts t = k_txouts s1" using q s2 t by auto
  show "fp_TotalCollectedSats (GetFeePool t) = fp_TotalCollectedSats (GetFeePool s) + (if book then rd_FeeSats w else 0)"
    using add addWithdrawalFee_frame(1) [of fee s1 "()" s2] s1
    by (auto simp: t w GetFeePool_def act_run split: if_splits)
  show "GetShielderRedeem (rd_WithdrawalID a) t = w" by (simp add: t GetShielderRedeem_def)
  show "k_nullifiers t = k_nullifiers s" by (simp add: t s2 s1)
qed

end
