(* ===== verification/Shield.thy ===== *)
theory Shield
  imports Fees
begin

text \<open>
  Shielding a deposit (\<^verbatim>\<open>x/thornado/shielder_flow.go\<close>): a matched or settled deposit is turned
  into notes of the pool, the part below the note minimum going to the fee pool; and the
  authorization that ties the notes to the key the deposit was made for.
\<close>

section \<open>Authorization\<close>

definition AccAddressFromCompressedSecp256k1 :: "env \<Rightarrow> string \<Rightarrow> AccAddress result" where
  "AccAddressFromCompressedSecp256k1 e pubkeyHex =
     (case DecodeString (TrimSpace pubkeyHex) of
        None \<Rightarrow> Inl (Errorf ''invalid secp256k1 pubkey'')
      | Some raw0 \<Rightarrow>
          let raw = (if length raw0 = 32 then CHR 0x02 # raw0 else raw0) in
          if length raw \<noteq> 33 then Inl (Errorf ''invalid secp256k1 pubkey length'')
          else if hd raw \<noteq> CHR 0x02 \<and> hd raw \<noteq> CHR 0x03 then Inl (Errorf ''invalid compressed secp256k1 pubkey prefix'')
          else Inr (e_pubkey_address e raw))"

definition secpPubkeyCandidates :: "string \<Rightarrow> string list result" where
  "secpPubkeyCandidates pubkeyHex =
     (case DecodeString (TrimSpace pubkeyHex) of
        None \<Rightarrow> Inl (Errorf ''encoding/hex: invalid'')
      | Some raw \<Rightarrow>
          if length raw = 33 then Inr [raw]
          else if length raw = 32 then Inr [CHR 0x02 # raw, CHR 0x03 # raw]
          else Inl (Errorf ''invalid secp256k1 pubkey length''))"

text \<open>Eight bytes, most significant first.\<close>

definition be64 :: "nat \<Rightarrow> string" where
  "be64 n = map (\<lambda>i. char_of (n div 256 ^ (7 - i) mod 256)) [0..<8]"

definition hashLengthPrefixedParts :: "env \<Rightarrow> string list \<Rightarrow> string" where
  "hashLengthPrefixedParts e parts = e_sha256 e (concat (map (\<lambda>p. be64 (length p) @ p) parts))"

fun parse_notes :: "env \<Rightarrow> string list \<Rightarrow> shielderNoteCommitment list result" where
  "parse_notes e [] = Inr []"
| "parse_notes e (raw # rest) =
     (case e_json_note e (TrimSpace raw) of
        Inl err \<Rightarrow> Inl (Wrapf ''invalid shielder commitment'' err)
      | Inr note \<Rightarrow>
          (case parse_notes e rest of
             Inl err \<Rightarrow> Inl err
           | Inr ns \<Rightarrow> Inr (note\<lparr>nc_Commitment := TrimSpace (nc_Commitment note)\<rparr> # ns)))"

definition idCandidates :: "string \<Rightarrow> string list" where
  "idCandidates trimmedID =
     [trimmedID] @ (if ToUpper trimmedID \<noteq> trimmedID then [ToUpper trimmedID] else [])
       @ (if ToLower trimmedID \<noteq> trimmedID then [ToLower trimmedID] else [])"

definition shieldDigest :: "env \<Rightarrow> string \<Rightarrow> string \<Rightarrow> u64 \<Rightarrow> string \<Rightarrow> string" where
  "shieldDigest e depositPubkey idCandidate amountSats commitmentsJSON =
     hashLengthPrefixedParts e [''thornado-shielder-v1'', ''shield-authorization'', TrimSpace depositPubkey,
       idCandidate, show_u64 amountSats, commitmentsJSON]"

definition VerifyShieldAuthorization :: "env \<Rightarrow> string \<Rightarrow> string \<Rightarrow> string \<Rightarrow> u64 \<Rightarrow> string list \<Rightarrow> unit result" where
  "VerifyShieldAuthorization e depositPubkey signatureHex depositID amountSats commitments =
     (case parse_notes e commitments of
        Inl err \<Rightarrow> Inl err
      | Inr nts \<Rightarrow>
     (case secpPubkeyCandidates (TrimSpace depositPubkey) of
        Inl _ \<Rightarrow> Inl (Errorf ''invalid deposit pubkey'')
      | Inr rawPubkey \<Rightarrow>
     (case DecodeString (TrimSpace signatureHex) of
        None \<Rightarrow> Inl (Errorf ''invalid shield authorization signature'')
      | Some rawSig \<Rightarrow>
     (case e_parse_der e rawSig of
        Inl err \<Rightarrow> Inl (Wrapf ''invalid shield authorization signature'' err)
      | Inr (signature, overHalfOrder) \<Rightarrow>
          if overHalfOrder then Inl (Errorf ''high-S signature rejected'')
          else if list_ex (\<lambda>idc. list_ex (\<lambda>candidate.
                 e_verify_sig e candidate signature (shieldDigest e depositPubkey idc amountSats (e_json_notes e nts)))
                 rawPubkey) (idCandidates (TrimSpace depositID))
            then Inr ()
          else Inl (Errorf ''shield authorization signature verification failed'')))))"

section \<open>Shielding\<close>

text \<open>\<^verbatim>\<open>ShieldUserDepositIntoPool\<close> after the switch over the status.\<close>

definition shieldUserNotes :: "env \<Rightarrow> DepositRecord \<Rightarrow> string list \<Rightarrow> DepositRecord kact" where
  "shieldUserNotes e deposit commitments =
     err_if (commitments = []) ''missing shield note commitments''
    (err_if (dr_ShieldedSats deposit > dr_AmountSats deposit) ''deposit shielded amount exceeds deposit amount''
    (let availableSats = dr_AmountSats deposit - dr_ShieldedSats deposit in
     err_if (availableSats = 0) ''deposit already fully shielded''
    (bindA (lift_result (parseShielderNoteCommitments e commitments availableSats False)) (\<lambda>nts0.
     bindA (gets (applyShielderNoteFloor nts0 availableSats False)) (\<lambda>r. bindA (lift_result r) (\<lambda>(nts, floorRemainder).
     bindA (if floorRemainder > 0 then addWithdrawalFee floorRemainder else ret ()) (\<lambda>_.
     let available1 = (if floorRemainder > 0 then availableSats - floorRemainder else availableSats) in
     err_if (shielderNoteCommitmentTotal nts \<noteq> available1) ''shield note denominations must match deposit amount''
    (bindA (insertShielderCommitments e nts) (\<lambda>_.
     let deposit1 = deposit\<lparr>dr_ShieldedSats := dr_ShieldedSats deposit + (available1 + floorRemainder),
           dr_Status := DepositStatusCommitted\<rparr> in
     bindA (SetDepositRecord deposit1) (\<lambda>_. ret deposit1))))))))))"

definition ShieldUserDepositIntoPool :: "env \<Rightarrow> DepositRecord \<Rightarrow> string list \<Rightarrow> DepositRecord kact" where
  "ShieldUserDepositIntoPool e deposit0 commitments =
     err_if (TxID_IsEmpty (dr_DepositID deposit0)) ''missing deposit id''
    (err_if (IsNodeBond deposit0 \<or> dr_AuctionID deposit0 \<noteq> []) ''only user deposits shield into the privacy pool''
    (bindA (if dr_Status deposit0 = DepositStatusDepositMatched
            then ret (deposit0\<lparr>dr_Settlement := DepositSettlementUser\<rparr>)
            else if dr_Status deposit0 = DepositStatusSettled
            then err_if (dr_Settlement deposit0 \<noteq> DepositSettlementUser \<or> dr_ShieldedSats deposit0 \<noteq> 0)
                   ''duplicate deposit settlement'' (ret deposit0)
            else if dr_Status deposit0 = DepositStatusCommitted then fail (Errorf ''deposit already shielded'')
            else fail (Errorf ''deposit is not matched'')) (\<lambda>deposit.
     shieldUserNotes e deposit commitments)))"

text \<open>\<^verbatim>\<open>PostShielderShield\<close> after the switch over the status.\<close>

definition postShieldNotes :: "env \<Rightarrow> DepositRecord \<Rightarrow> string list \<Rightarrow> DepositRecord kact" where
  "postShieldNotes e deposit commitments =
     err_if (dr_ShieldedSats deposit > dr_AmountSats deposit) ''deposit shielded amount exceeds deposit amount''
    (let availableSats = dr_AmountSats deposit - dr_ShieldedSats deposit in
     err_if (availableSats = 0) ''deposit already fully shielded''
    (bindA (lift_result (parseShielderNoteCommitments e commitments availableSats False)) (\<lambda>nts0.
     bindA (gets (applyShielderNoteFloor nts0 availableSats False)) (\<lambda>r. bindA (lift_result r) (\<lambda>(nts, floorRemainder).
     bindA (if floorRemainder > 0 then addWithdrawalFee floorRemainder else ret ()) (\<lambda>_.
     let available1 = (if floorRemainder > 0 then availableSats - floorRemainder else availableSats);
         tot = shielderNoteCommitmentTotal nts in
     err_if (tot = 0) ''missing shielder commitment amount''
    (err_if (tot \<noteq> available1) ''shielder commitment denominations must match deposit amount''
    (let deposit1 = deposit\<lparr>dr_ShieldedSats := dr_ShieldedSats deposit + (tot + floorRemainder),
           dr_Status := DepositStatusCommitted\<rparr> in
     bindA (SetDepositRecord deposit1) (\<lambda>_.
     bindA (insertShielderCommitments e nts) (\<lambda>_. ret deposit1))))))))))"

definition PostShielderShield :: "env \<Rightarrow> AccAddress \<Rightarrow> TxID \<Rightarrow> string list \<Rightarrow> DepositRecord kact" where
  "PostShielderShield e owner depositID commitments =
     err_if (owner = []) ''missing deposit owner''
    (err_if (commitments = []) ''missing shielder commitments''
    (bindA (gets (GetDepositRecord depositID)) (\<lambda>deposit.
     err_if (TxID_IsEmpty (dr_DepositID deposit)) ''deposit not found''
    (err_if (dr_Owner deposit \<noteq> owner) ''deposit owner mismatch''
    (if dr_Status deposit = DepositStatusDepositMatched then
       err_if (IsNodeBond deposit) ''node bonds activate via MsgBondFromNotes from shielded notes''
         (ShieldUserDepositIntoPool e (deposit\<lparr>dr_Settlement := DepositSettlementUser\<rparr>) commitments)
     else if dr_Status deposit = DepositStatusSettled \<and> dr_Settlement deposit = DepositSettlementUser then
       ShieldUserDepositIntoPool e deposit commitments
     else if dr_Status deposit = DepositStatusSettled \<and> dr_Settlement deposit = DepositSettlementOperatorBond then
       fail (Errorf ''node bonds activate via MsgBondFromNotes from shielded notes'')
     else if dr_Status deposit = DepositStatusSettled \<and> (dr_Settlement deposit = [] \<or> dr_ShieldedSats deposit \<noteq> 0) then
       fail (Errorf ''duplicate deposit settlement'')
     else if dr_Status deposit = DepositStatusCommitted then fail (Errorf ''deposit already shielded'')
     else if dr_Status deposit \<noteq> DepositStatusSettled then fail (Errorf ''deposit is not matched'')
     else postShieldNotes e deposit commitments)))))"

section \<open>What an accepted shield says\<close>

lemma same_insert [act_keeps]:
  assumes "\<And>s x. f (s\<lparr>k_commitments := x\<rparr>) = f s" "\<And>s x. f (s\<lparr>k_leaves := x\<rparr>) = f s"
    "\<And>s x. f (s\<lparr>k_notes := x\<rparr>) = f s" "\<And>s x. f (s\<lparr>k_trees := x\<rparr>) = f s" "\<And>s x. f (s\<lparr>k_roots := x\<rparr>) = f s"
  shows "same f (insertShielderCommitments e nts)"
proof -
  have n: "same f (insertNote e acc n)" for acc n
    using assms by (auto simp: insertNote_def Let_def intro!: act_keeps split: prod.split)
  have p: "same f (persistShielderTreeStates states ds)" for states ds
    using assms by (induction ds) (auto simp: Let_def intro!: act_keeps)
  show ?thesis by (auto simp: insertShielderCommitments_def intro!: act_keeps n p split: prod.split)
qed

text \<open>The accounting both shield paths share: a deposit \<open>d\<close> read in \<open>s\<close> became \<open>d'\<close> in \<open>t\<close>, with
  the notes \<open>nts\<close> inserted and \<open>r\<close> paid to the fee pool.\<close>

definition shielded_by :: "env \<Rightarrow> string list \<Rightarrow> DepositRecord \<Rightarrow> DepositRecord \<Rightarrow> shielderNoteCommitment list \<Rightarrow> u64 \<Rightarrow> kstate \<Rightarrow> kstate \<Rightarrow> bool" where
  "shielded_by e cs d d' nts r s t \<longleftrightarrow>
     (\<exists>nts0. parseShielderNoteCommitments e cs (dr_AmountSats d - dr_ShieldedSats d) False = Inr nts0 \<and>
        applyShielderNoteFloor nts0 (dr_AmountSats d - dr_ShieldedSats d) False s = Inr (nts, r)) \<and>
     dr_ShieldedSats d \<le> dr_AmountSats d \<and>
     shielderNoteCommitmentTotal nts = dr_AmountSats d - dr_ShieldedSats d - r \<and>
     shielderNoteCommitmentTotal nts \<le> dr_AmountSats d - dr_ShieldedSats d \<and>
     dr_DepositID d' = dr_DepositID d \<and> dr_AmountSats d' = dr_AmountSats d \<and>
     dr_ShieldedSats d' = dr_AmountSats d \<and> dr_Status d' = DepositStatusCommitted \<and>
     (\<exists>s1 s2. k_commitments s1 = k_commitments s \<and> k_trees s1 = k_trees s \<and> insertShielderCommitments e nts s1 = (Inr (), s2)
        \<and> k_commitments t = k_commitments s2 \<and> k_trees t = k_trees s2) \<and>
     k_deposits t = kv_set (skey (dr_DepositID d)) d' (k_deposits s) \<and>
     fp_TotalClaimedSats (GetFeePool t) = fp_TotalClaimedSats (GetFeePool s) \<and>
     fp_TotalCollectedSats (GetFeePool t) = fp_TotalCollectedSats (GetFeePool s) + r"

lemma fee_step:
  assumes "(if r > 0 then addWithdrawalFee r else ret ()) s = (Inr u, t)"
  shows "fp_TotalCollectedSats (GetFeePool t) = fp_TotalCollectedSats (GetFeePool s) + r"
    and "k_commitments t = k_commitments s" "k_trees t = k_trees s" "k_deposits t = k_deposits s"
    and "fp_TotalClaimedSats (GetFeePool t) = fp_TotalClaimedSats (GetFeePool s)"
proof -
  have "same (\<lambda>s. (k_commitments s, k_trees s, k_deposits s)) (if r > 0 then addWithdrawalFee r else ret ())" by (auto intro!: act_keeps)
  from sameD [OF this assms] show "k_commitments t = k_commitments s" "k_trees t = k_trees s" "k_deposits t = k_deposits s" by simp_all
  show "fp_TotalClaimedSats (GetFeePool t) = fp_TotalClaimedSats (GetFeePool s)"
    using assms addWithdrawalFee_frame(2) [of r s u t] by (auto simp: act_run split: if_splits)
  show "fp_TotalCollectedSats (GetFeePool t) = fp_TotalCollectedSats (GetFeePool s) + r"
    using assms addWithdrawalFee_frame(1) [of r s u t] by (auto simp: act_run word_gt_0 split: if_splits)
qed

lemma SetDeposit_run:
  assumes "SetDepositRecord d s = (Inr u, t)"
  shows "t = s\<lparr>k_deposits := kv_set (skey (dr_DepositID d)) d (k_deposits s)\<rparr>"
  using assms by (auto simp: SetDepositRecord_def act_run DepositRecord_Key_def)

lemma insert_keeps_pool:
  "insertShielderCommitments e nts s = (Inr u, t) \<Longrightarrow> GetFeePool t = GetFeePool s \<and> k_deposits t = k_deposits s"
proof -
  assume run: "insertShielderCommitments e nts s = (Inr u, t)"
  have "same k_fee_pool (insertShielderCommitments e nts)" "same k_deposits (insertShielderCommitments e nts)"
    by (auto intro!: act_keeps)
  from sameD [OF this(1) run] sameD [OF this(2) run] show ?thesis by (simp add: GetFeePool_def)
qed

lemma ShieldUser_run:
  assumes run: "ShieldUserDepositIntoPool e d cs s = (Inr d', t)"
  shows "\<exists>nts r. shielded_by e cs d d' nts r s t"
proof -
  let ?av = "dr_AmountSats d - dr_ShieldedSats d"
  from run obtain d1 where d1: "d1 = d\<lparr>dr_Settlement := DepositSettlementUser\<rparr> \<or> d1 = d"
    and rest: "shieldUserNotes e d1 cs s = (Inr d', t)"
    unfolding ShieldUserDepositIntoPool_def by (auto simp: act_run split: if_splits)
  from rest obtain nts0 nts r s1 s2 u v where
      le: "dr_ShieldedSats d1 \<le> dr_AmountSats d1"
    and parse: "parseShielderNoteCommitments e cs (dr_AmountSats d1 - dr_ShieldedSats d1) False = Inr nts0"
    and fl: "applyShielderNoteFloor nts0 (dr_AmountSats d1 - dr_ShieldedSats d1) False s = Inr (nts, r)"
    and fee: "(if r > 0 then addWithdrawalFee r else ret ()) s = (Inr u, s1)"
    and tot: "shielderNoteCommitmentTotal nts = (if r > 0 then dr_AmountSats d1 - dr_ShieldedSats d1 - r else dr_AmountSats d1 - dr_ShieldedSats d1)"
    and ins: "insertShielderCommitments e nts s1 = (Inr (), s2)"
    and set: "SetDepositRecord d' s2 = (Inr v, t)"
    and d': "d' = d1\<lparr>dr_ShieldedSats := dr_ShieldedSats d1 + ((if r > 0 then dr_AmountSats d1 - dr_ShieldedSats d1 - r
        else dr_AmountSats d1 - dr_ShieldedSats d1) + r), dr_Status := DepositStatusCommitted\<rparr>"
    unfolding shieldUserNotes_def Let_def
    by (clarsimp simp: act_run not_less)
  have d1': "dr_AmountSats d1 = dr_AmountSats d" "dr_ShieldedSats d1 = dr_ShieldedSats d" "dr_DepositID d1 = dr_DepositID d"
    using d1 by auto
  have "(if r > 0 then ?av - r else ?av) + r = ?av" by (simp add: word_gt_0)
  then have full: "dr_ShieldedSats d' = dr_AmountSats d" by (simp add: d' d1' word_gt_0)
  note f = floor_accounted [OF fl tot]
  have key: "dr_DepositID d' = dr_DepositID d" by (simp add: d' d1')
  show ?thesis
    unfolding shielded_by_def
    using parse fl f le full fee_step [OF fee] ins insert_keeps_pool [OF ins] SetDeposit_run [OF set]
    by (intro exI [of _ nts] exI [of _ r]) (auto simp: d1' key d' GetFeePool_def)
qed

lemma postShieldNotes_run:
  assumes run: "postShieldNotes e d cs s = (Inr d', t)"
  shows "\<exists>nts r. shielded_by e cs d d' nts r s t"
proof -
  let ?av = "dr_AmountSats d - dr_ShieldedSats d"
  from run obtain nts0 nts r s1 s2 u v where
      le: "dr_ShieldedSats d \<le> dr_AmountSats d"
    and parse: "parseShielderNoteCommitments e cs ?av False = Inr nts0"
    and fl: "applyShielderNoteFloor nts0 ?av False s = Inr (nts, r)"
    and fee: "(if r > 0 then addWithdrawalFee r else ret ()) s = (Inr u, s1)"
    and tot: "shielderNoteCommitmentTotal nts = (if r > 0 then ?av - r else ?av)"
    and set: "SetDepositRecord d' s1 = (Inr v, s2)"
    and ins: "insertShielderCommitments e nts s2 = (Inr (), t)"
    and d': "d' = d\<lparr>dr_ShieldedSats := dr_ShieldedSats d + ((if r > 0 then ?av - r else ?av) + r),
        dr_Status := DepositStatusCommitted\<rparr>"
    unfolding postShieldNotes_def Let_def
    by (clarsimp simp: act_run not_less)
  have full: "dr_ShieldedSats d' = dr_AmountSats d" by (simp add: d' word_gt_0)
  note f = floor_accounted [OF fl tot]
  have key: "dr_DepositID d' = dr_DepositID d" by (simp add: d')
  have s2: "s2 = s1\<lparr>k_deposits := kv_set (skey (dr_DepositID d)) d' (k_deposits s1)\<rparr>"
    using SetDeposit_run [OF set] by (simp add: key)
  have w: "\<exists>a b. k_commitments a = k_commitments s \<and> k_trees a = k_trees s \<and> insertShielderCommitments e nts a = (Inr (), b)
      \<and> k_commitments t = k_commitments b \<and> k_trees t = k_trees b"
    by (rule exI [of _ s2], rule exI [of _ t]) (use ins fee_step(2,3) [OF fee] in \<open>simp add: s2\<close>)
  have p: "GetFeePool t = GetFeePool s1" "k_deposits t = kv_set (skey (dr_DepositID d)) d' (k_deposits s)"
    using insert_keeps_pool [OF ins] fee_step(4) [OF fee] by (simp_all add: s2 GetFeePool_def)
  show ?thesis
    unfolding shielded_by_def using parse fl f le full fee_step(1,5) [OF fee] w p
    by (intro exI [of _ nts] exI [of _ r]) (simp add: d')
qed

lemma PostShield_run:
  assumes run: "PostShielderShield e owner did cs s = (Inr d', t)"
  defines "d \<equiv> GetDepositRecord did s"
  shows "\<exists>nts r. shielded_by e cs d d' nts r s t" and "dr_Owner d = owner"
    and "dr_Status d = DepositStatusDepositMatched \<or> dr_Status d = DepositStatusSettled"
proof -
  let ?d1 = "d\<lparr>dr_Settlement := DepositSettlementUser\<rparr>"
  from run have st: "dr_Owner d = owner \<and> (dr_Status d = DepositStatusDepositMatched \<or> dr_Status d = DepositStatusSettled)"
    and c: "ShieldUserDepositIntoPool e ?d1 cs s = (Inr d', t) \<or> ShieldUserDepositIntoPool e d cs s = (Inr d', t)
      \<or> postShieldNotes e d cs s = (Inr d', t)"
    unfolding PostShielderShield_def by (auto simp: act_run d_def split: if_splits)
  have "shielded_by e cs ?d1 d' nts r s t = shielded_by e cs d d' nts r s t" for nts r
    by (simp add: shielded_by_def)
  with c show "\<exists>nts r. shielded_by e cs d d' nts r s t"
    using ShieldUser_run [of e ?d1 cs s d' t] ShieldUser_run [of e d cs s d' t] postShieldNotes_run [of e d cs s d' t]
    by auto
  from st show "dr_Owner d = owner" "dr_Status d = DepositStatusDepositMatched \<or> dr_Status d = DepositStatusSettled" by auto
qed

text \<open>A committed deposit is not shielded again.\<close>

lemma PostShield_committed:
  "dr_Status (GetDepositRecord did s) = DepositStatusCommitted \<Longrightarrow> \<exists>err. PostShielderShield e owner did cs s = (Inl err, s)"
  by (auto simp: PostShielderShield_def act_defs status_defs)

end
