(* ===== verification/Auctions.thy ===== *)
theory Auctions
  imports Redeem Shield
begin

text \<open>
  Node slot auctions (\<^verbatim>\<open>x/thornado/shielder_flow.go\<close>): an operator offers a bonded slot, bidders
  fund bids from shielded notes, the seller selects one; the sale moves the slot and the bond
  to the bidder and pays the old bonders in proportion to their principals, as entitlements
  that are then shielded.
\<close>

section \<open>Identifiers\<close>

definition nodeSlotAuctionID :: "env \<Rightarrow> string \<Rightarrow> u64 \<Rightarrow> int \<Rightarrow> string" where
  "nodeSlotAuctionID e nodePubKey slot height =
     EncodeUpper (e_sha256 e (''thornado:node-slot-auction:v1|'' @ nodePubKey @ ''|'' @ show_u64 slot @ ''|'' @ show_int height))"

definition nodeSlotBidIDForNode :: "env \<Rightarrow> string \<Rightarrow> AccAddress \<Rightarrow> string \<Rightarrow> string" where
  "nodeSlotBidIDForNode e auctionID bidder nodePubKey =
     EncodeUpper (e_sha256 e (''thornado:node-slot-bid:v2|'' @ auctionID @ ''|'' @ e_acc_string e bidder @ ''|'' @ TrimSpace nodePubKey))"

definition nodeSlotSaleEntitlementID :: "env \<Rightarrow> string \<Rightarrow> string \<Rightarrow> AccAddress \<Rightarrow> TxID result" where
  "nodeSlotSaleEntitlementID e auctionID bidID owner =
     NewTxID (EncodeUpper (e_sha256 e (''thornado:node-sale-entitlement:v2|'' @ TrimSpace auctionID @ ''|'' @ TrimSpace bidID
       @ ''|'' @ e_acc_string e owner)))"

section \<open>Opening an auction\<close>

fun auction_conflict :: "string \<Rightarrow> int \<Rightarrow> NodeSlotAuction list \<Rightarrow> unit result" where
  "auction_conflict nodePubKey height [] = Inr ()"
| "auction_conflict nodePubKey height (auction # rest) =
     (if au_SellerNodePubKey auction \<noteq> nodePubKey then auction_conflict nodePubKey height rest
      else if au_Status auction = NodeSlotAuctionOpen \<and> au_ExpiryHeight auction > height
        then Inl (Errorf ''node slot auction already open'')
      else if au_Status auction = NodeSlotAuctionSelected then Inl (Errorf ''node slot auction already selected'')
      else auction_conflict nodePubKey height rest)"

definition validateNodeSlotAuctionCreate :: "env \<Rightarrow> AccAddress \<Rightarrow> string \<Rightarrow> int \<Rightarrow> ShielderNodeBond kact" where
  "validateNodeSlotAuctionCreate e seller nodePubKey expiryHeight =
     bindA (gets k_height) (\<lambda>h.
     err_if (seller = []) ''missing node slot auction seller''
    (err_if (expiryHeight \<le> h) ''node slot auction expiry must be in the future''
    (let duration = wrap64 (expiryHeight - h) in
     bindA (gets (getConfigDurationBlocks NodeSale_AuctionExpiryMinMinutes)) (\<lambda>minExpiry.
     err_if (minExpiry > 0 \<and> duration < minExpiry) ''node slot auction expiry below minimum''
    (bindA (gets (getConfigDurationBlocks NodeSale_AuctionExpiryMaxMinutes)) (\<lambda>maxExpiry.
     err_if (maxExpiry > 0 \<and> duration > maxExpiry) ''node slot auction expiry above maximum''
    (bindA (gets (GetShielderNodeBond nodePubKey)) (\<lambda>bond.
     err_if (nb_NodePubKey bond = [] \<or> nb_BondSats bond = 0 \<or> \<not> nb_FeeShareActive bond \<or> nb_Sold bond)
       ''node has no active bonded slot''
    (bindA (lift_wrap ''invalid node slot auction operator'' (GetThorAddress e (nb_OperatorPubKey bond))) (\<lambda>operatorAddress.
     err_if (operatorAddress \<noteq> seller) ''node slot auction seller mismatch''
    (bindA (gets (GetNodeAccount e (nb_NodeAddress bond))) (\<lambda>nodeAccount.
     err_if (na_Status nodeAccount \<noteq> NodeStandby) ''node slot must be standby before auction''
    (bindA (gets (\<lambda>s. auction_conflict nodePubKey h (kv_values (k_auctions s)))) (\<lambda>r. bindA (lift_result r) (\<lambda>_.
     ret bond)))))))))))))))"

definition CreateNodeSlotAuction :: "env \<Rightarrow> AccAddress \<Rightarrow> string \<Rightarrow> u64 \<Rightarrow> int \<Rightarrow> NodeSlotAuction kact" where
  "CreateNodeSlotAuction e seller nodePubKey reserveSats expiryHeight =
     bindA (validateNodeSlotAuctionCreate e seller nodePubKey expiryHeight) (\<lambda>bond.
     bindA (gets k_height) (\<lambda>h.
     let auction = \<lparr>au_AuctionID = nodeSlotAuctionID e nodePubKey (nb_Slot bond) h, au_Seller = seller,
           au_SellerOperatorPubKey = nb_OperatorPubKey bond, au_SellerNodePubKey = nb_NodePubKey bond,
           au_Slot = nb_Slot bond, au_OriginalBondSats = nb_BondSats bond, au_ReserveSats = reserveSats,
           au_ExpiryHeight = expiryHeight, au_SelectedBidID = [], au_Status = NodeSlotAuctionOpen,
           au_CreatedHeight = h, au_UpdatedHeight = h\<rparr> in
     bindA (SetNodeSlotAuction auction) (\<lambda>_. ret auction)))"

section \<open>Bids\<close>

definition CreateNodeSlotBid :: "env \<Rightarrow> AccAddress \<Rightarrow> string \<Rightarrow> string \<Rightarrow> string \<Rightarrow> NodeSlotBid kact" where
  "CreateNodeSlotBid e bidder auctionID operatorPubKey0 nodePubKey0 =
     err_if (bidder = []) ''missing node slot bidder''
    (bindA (gets (GetNodeSlotAuction (TrimSpace auctionID))) (\<lambda>auction.
     bindA (gets k_height) (\<lambda>h.
     err_if (au_AuctionID auction = [] \<or> au_Status auction \<noteq> NodeSlotAuctionOpen) ''node slot auction is not open''
    (err_if (au_ExpiryHeight auction \<le> h) ''node slot auction expired''
    (let nodePubKey = TrimSpace nodePubKey0 in
     bindA (lift_wrap ''invalid bidder operator pubkey'' (NewPubKey e (TrimSpace operatorPubKey0))) (\<lambda>operator.
     bindA (lift_wrap ''invalid bidder node pubkey'' (e_pubkey_from_bech32 e ConsPub nodePubKey)) (\<lambda>_.
     let bidID = nodeSlotBidIDForNode e (au_AuctionID auction) bidder nodePubKey in
     bindA (gets (GetNodeSlotBid bidID)) (\<lambda>existing.
     if bd_BidID existing \<noteq> [] then ret existing
     else let bid = NodeSlotBid_zero\<lparr>bd_BidID := bidID, bd_AuctionID := au_AuctionID auction, bd_Bidder := bidder,
            bd_OperatorPubKey := operator, bd_NodePubKey := nodePubKey, bd_DepositAddress := BondEscrowAddress,
            bd_CreatedHeight := h, bd_UpdatedHeight := h\<rparr> in
       bindA (SetNodeSlotBid bid) (\<lambda>_. ret bid)))))))))"

definition validateNodeSlotBidSelection :: "AccAddress \<Rightarrow> string \<Rightarrow> string \<Rightarrow> (NodeSlotAuction \<times> NodeSlotBid) kact" where
  "validateNodeSlotBidSelection seller auctionID bidID =
     bindA (gets (GetNodeSlotAuction auctionID)) (\<lambda>auction.
     bindA (gets k_height) (\<lambda>h.
     err_if (au_AuctionID auction = [] \<or> au_Status auction \<noteq> NodeSlotAuctionOpen) ''node slot auction is not open''
    (err_if (au_Seller auction \<noteq> seller) ''node slot auction seller mismatch''
    (if au_ExpiryHeight auction \<le> h then
       bindA (attempt (SetNodeSlotAuction (auction\<lparr>au_Status := NodeSlotAuctionExpired, au_UpdatedHeight := h\<rparr>))) (\<lambda>_.
       fail (Errorf ''node slot auction expired''))
     else
     bindA (gets (GetNodeSlotBid bidID)) (\<lambda>bid.
     err_if (bd_BidID bid = [] \<or> bd_AuctionID bid \<noteq> au_AuctionID auction) ''node slot bid not found for auction''
    (err_if (bd_AmountSats bid = 0) ''node slot bid deposit not matched''
    (bindA (gets (ConfigUint64 NodeSale_BidAmountMinSats)) (\<lambda>minBid.
     err_if (bd_AmountSats bid < minBid) ''node slot bid below minimum''
    (err_if (bd_AmountSats bid < au_ReserveSats auction) ''node slot bid below reserve''
    (err_if (\<not> TxID_IsEmpty (bd_DepositID bid)) ''legacy node slot bid deposits are not supported''
     (ret (auction, bid))))))))))))"

section \<open>The sale\<close>

definition transferNodeSlotSaleBond :: "env \<Rightarrow> NodeSlotAuction \<Rightarrow> NodeSlotBid \<Rightarrow> u64 \<Rightarrow> unit kact" where
  "transferNodeSlotSaleBond e auction bid newBondSats =
     bindA (lift_wrap ''invalid winning node pubkey'' (e_pubkey_from_bech32 e ConsPub (bd_NodePubKey bid))) (\<lambda>_.
     bindA (lift_wrap ''invalid winning operator pubkey address'' (GetThorAddress e (bd_OperatorPubKey bid))) (\<lambda>newNodeAddress.
     bindA (gets (GetShielderNodeBond (au_SellerNodePubKey auction))) (\<lambda>oldBond0.
     bindA (gets k_height) (\<lambda>h.
     err_if (nb_NodePubKey oldBond0 = [] \<or> nb_Slot oldBond0 \<noteq> au_Slot auction) ''seller bond does not match auction slot''
    (let oldBond = oldBond0\<lparr>nb_Sold := True, nb_SoldAuctionID := au_AuctionID auction, nb_FeeShareActive := False,
           nb_BondSats := 0, nb_PendingSats := 0, nb_UpdatedHeight := h\<rparr>;
         oldNodeAddress = nb_NodeAddress oldBond in
     bindA (gets (GetNodeAccount e oldNodeAddress)) (\<lambda>oldNodeAccount0.
     let leaves = (\<not> NodeAccount_IsEmpty oldNodeAccount0 \<and> oldNodeAddress \<noteq> newNodeAddress);
         oldNodeAccount = (if leaves then NodeAccount_UpdateStatus (oldNodeAccount0\<lparr>na_Bond := 0\<rparr>) NodeWhiteListed h
           else oldNodeAccount0) in
     bindA distributeFeePool (\<lambda>pool.
     let newBond = ShielderNodeBond_zero\<lparr>nb_NodePubKey := bd_NodePubKey bid, nb_OperatorPubKey := bd_OperatorPubKey bid,
           nb_NodeAddress := newNodeAddress, nb_Slot := au_Slot auction, nb_BondSats := newBondSats,
           nb_Bonders := [e_acc_string e (bd_Bidder bid)], nb_CreatedHeight := h, nb_UpdatedHeight := h,
           nb_FeeShareActive := True, nb_FeeDebtSats := fp_FeePerSlotShare pool\<rparr>;
         newBonder = ShielderNodeBonder_zero\<lparr>br_NodePubKey := bd_NodePubKey bid, br_Bonder := bd_Bidder bid,
           br_PrincipalSats := newBondSats, br_FeeDebtShare := nb_FeePerBondShare newBond,
           br_CreatedHeight := h, br_UpdatedHeight := h\<rparr> in
     bindA (lift_wrap ''invalid bidder operator address'' (NewAddress e (e_acc_string e newNodeAddress)))
       (\<lambda>operatorCommonAddress.
     bindA (gets (GetNodeAccount e newNodeAddress)) (\<lambda>nodeAccount0.
     let nodeAccount1 = (if NodeAccount_IsEmpty nodeAccount0
           then NewNodeAccount newNodeAddress NodeStandby PubKeySet_zero (bd_NodePubKey bid) 0 operatorCommonAddress h
           else nodeAccount0);
         nodeAccount = NodeAccount_UpdateStatus (nodeAccount1\<lparr>na_NodeConsPubKey := bd_NodePubKey bid,
           na_BondAddress := operatorCommonAddress, na_Bond := unat (nb_BondSats newBond)\<rparr>) NodeStandby h in
     bindA (SetShielderNodeBond oldBond) (\<lambda>_.
     bindA (SetShielderNodeBond newBond) (\<lambda>_.
     bindA (SetShielderNodeBonder e newBonder) (\<lambda>_.
     bindA (SetNodeAccount e nodeAccount) (\<lambda>_.
     bindA (if leaves then SetNodeAccount e oldNodeAccount else ret ()) (\<lambda>_.
     SetFeePool pool))))))))))))))"

text \<open>The payout of one bonder: the proportional share in 64-bit arithmetic, the rest for the
  last principal, never more than what remains.\<close>

definition salePayout :: "u64 \<Rightarrow> u64 \<Rightarrow> u64 \<Rightarrow> u64 \<Rightarrow> u64 \<Rightarrow> u64" where
  "salePayout recoverable bondSats prin remainingPrincipal remaining =
     (let p0 = (if remainingPrincipal \<noteq> 0 then recoverable * prin div bondSats else 0);
          p1 = (if remainingPrincipal - prin = 0 then remaining else p0)
      in if p1 > remaining then remaining else p1)"

text \<open>One round of the payout loop of \<^verbatim>\<open>settleNodeSlotSale\<close>.\<close>

definition paySaleBonder ::
  "env \<Rightarrow> NodeSlotAuction \<Rightarrow> NodeSlotBid \<Rightarrow> PubKey \<Rightarrow> u64 \<Rightarrow> u64 \<Rightarrow> u64 \<Rightarrow> u64 \<times> u64 \<Rightarrow> ShielderNodeBonder \<Rightarrow> (u64 \<times> u64) kact" where
  "paySaleBonder e auction bid vaultPubKey recoverable bondSats protocolBondSats acc bonder =
     (case acc of (remaining, remainingPrincipal) \<Rightarrow>
      if br_PrincipalSats bonder = 0 then ret acc else
      let payout = salePayout recoverable bondSats (br_PrincipalSats bonder) remainingPrincipal remaining;
          acc1 = (remaining - payout, remainingPrincipal - br_PrincipalSats bonder) in
      bindA (gets k_height) (\<lambda>h.
      let bonder1 = bonder\<lparr>br_PrincipalSats := 0, br_SalePayoutSats := payout, br_UpdatedHeight := h\<rparr> in
      if payout = 0 then bindA (SetShielderNodeBonder e bonder1) (\<lambda>_. ret acc1)
      else
      bindA (lift_result (nodeSlotSaleEntitlementID e (au_AuctionID auction) (bd_BidID bid) (br_Bonder bonder))) (\<lambda>entitlementID.
      bindA (SetDepositRecord (DepositRecord_zero\<lparr>dr_DepositID := entitlementID, dr_Owner := br_Bonder bonder,
        dr_AmountSats := payout, dr_DepositAddress := NoopAddress, dr_VaultPubKey := vaultPubKey,
        dr_Settlement := DepositSettlementOperatorSale, dr_SellerPayoutSats := payout, dr_ProtocolBondSats := protocolBondSats,
        dr_NodeSlot := au_Slot auction, dr_BondConfirmed := True, dr_MatchedHeight := h, dr_CreatedHeight := h,
        dr_Status := DepositStatusSettled, dr_OperatorPubKey := au_SellerOperatorPubKey auction,
        dr_NodePubKey := au_SellerNodePubKey auction, dr_AuctionID := au_AuctionID auction\<rparr>)) (\<lambda>_.
      bindA (SetShielderNodeBonder e (bonder1\<lparr>br_SaleEntitlementID := entitlementID\<rparr>)) (\<lambda>_.
      ret acc1)))))"

definition settleNodeSlotSale :: "env \<Rightarrow> NodeSlotAuction \<Rightarrow> NodeSlotBid \<Rightarrow> unit kact" where
  "settleNodeSlotSale e auction bid =
     err_if (bd_AmountSats bid = 0) ''node slot bid has no shielded amount''
    (bindA (gets (GetShielderNodeBond (au_SellerNodePubKey auction))) (\<lambda>oldBond.
     err_if (nb_NodePubKey oldBond = [] \<or> nb_BondSats oldBond = 0) ''seller bond does not match auction slot''
    (let recoverable = (if bd_AmountSats bid < nb_BondSats oldBond then bd_AmountSats bid else nb_BondSats oldBond);
         protocol0 = bd_AmountSats bid - recoverable in
     bindA (gets (shielderDustRemainder protocol0)) (\<lambda>dust.
     bindA (if dust > 0 then addWithdrawalFee dust else ret ()) (\<lambda>_.
     let protocolBondSats = protocol0 - dust in
     bindA (transferNodeSlotSaleBond e auction bid (bd_AmountSats bid)) (\<lambda>_.
     bindA (gets (currentBTCVaultAddress e)) (\<lambda>rv. bindA (lift_result rv) (\<lambda>(vault, _).
     bindA (gets (getNodeBonders (au_SellerNodePubKey auction))) (\<lambda>bonders.
     bindA (foldA (paySaleBonder e auction bid (va_PubKey vault) recoverable (nb_BondSats oldBond) protocolBondSats)
       (recoverable, nb_BondSats oldBond) bonders) (\<lambda>_. ret ()))))))))))"

definition SelectNodeSlotBid :: "env \<Rightarrow> AccAddress \<Rightarrow> string \<Rightarrow> string \<Rightarrow> (NodeSlotAuction \<times> NodeSlotBid) kact" where
  "SelectNodeSlotBid e seller auctionID bidID =
     bindA (validateNodeSlotBidSelection seller auctionID bidID) (\<lambda>(auction0, bid0).
     bindA (gets k_height) (\<lambda>h.
     let auction = auction0\<lparr>au_SelectedBidID := bd_BidID bid0, au_Status := NodeSlotAuctionSettled, au_UpdatedHeight := h\<rparr>;
         bid = bid0\<lparr>bd_Selected := True, bd_Settled := True, bd_UpdatedHeight := h\<rparr> in
     bindA (settleNodeSlotSale e auction bid) (\<lambda>_.
     bindA (SetNodeSlotAuction auction) (\<lambda>_.
     bindA (SetNodeSlotBid bid) (\<lambda>_. ret (auction, bid))))))"

section \<open>Shielding an entitlement\<close>

definition validateNodeSlotSaleEntitlementShield ::
  "env \<Rightarrow> AccAddress \<Rightarrow> string \<Rightarrow> string \<Rightarrow> string list \<Rightarrow> kstate \<Rightarrow> (NodeSlotAuction \<times> NodeSlotBid \<times> DepositRecord) result" where
  "validateNodeSlotSaleEntitlementShield e seller auctionID bidID sellerCommitments s =
     (let auction = GetNodeSlotAuction auctionID s; bid = GetNodeSlotBid bidID s in
      if au_AuctionID auction = [] \<or> au_Status auction \<noteq> NodeSlotAuctionSettled \<or> au_SelectedBidID auction \<noteq> TrimSpace bidID
        then Inl (Errorf ''node slot auction sale is not settled'')
      else if bd_BidID bid = [] then Inl (Errorf ''node slot bid not found'')
      else case nodeSlotSaleEntitlementID e (au_AuctionID auction) (bd_BidID bid) seller of
        Inl err \<Rightarrow> Inl err
      | Inr entitlementID \<Rightarrow>
          let deposit = GetDepositRecord entitlementID s in
          if TxID_IsEmpty (dr_DepositID deposit) \<or> dr_Status deposit \<noteq> DepositStatusSettled
              \<or> dr_Settlement deposit \<noteq> DepositSettlementOperatorSale
            then Inl (Errorf ''node sale entitlement is not shieldable'')
          else if dr_Owner deposit \<noteq> seller then Inl (Errorf ''node sale entitlement owner mismatch'')
          else case parseShielderNoteCommitments e sellerCommitments (dr_AmountSats deposit) False of
            Inl err \<Rightarrow> Inl err
          | Inr nts \<Rightarrow>
              (case applyShielderNoteFloor nts (dr_AmountSats deposit) False s of
                 Inl err \<Rightarrow> Inl err
               | Inr _ \<Rightarrow> Inr (auction, bid, deposit)))"

definition ShieldNodeSlotSaleEntitlement ::
  "env \<Rightarrow> AccAddress \<Rightarrow> string \<Rightarrow> string \<Rightarrow> string \<Rightarrow> string \<Rightarrow> string list \<Rightarrow> DepositRecord kact" where
  "ShieldNodeSlotSaleEntitlement e seller auctionID bidID depositPubkey signature sellerCommitments =
     bindA (gets (validateNodeSlotSaleEntitlementShield e seller auctionID bidID sellerCommitments)) (\<lambda>r0.
     bindA (lift_result r0) (\<lambda>(auction, bid, deposit).
     err_if (au_SelectedBidID auction \<noteq> bd_BidID bid) ''node slot auction selected bid mismatch''
    (err_if (dr_AmountSats deposit = 0) ''node sale has no seller payout''
    (bindA (lift_result (parseShielderNoteCommitments e sellerCommitments (dr_AmountSats deposit) False)) (\<lambda>nts0.
     bindA (lift_result (VerifyShieldAuthorization e depositPubkey signature depositPubkey (shielderNoteCommitmentTotal nts0)
       sellerCommitments)) (\<lambda>_.
     bindA (gets (applyShielderNoteFloor nts0 (dr_AmountSats deposit) False)) (\<lambda>r. bindA (lift_result r) (\<lambda>(nts, floorRemainder).
     let deposit1 = (if floorRemainder > 0 then deposit\<lparr>dr_AmountSats := dr_AmountSats deposit - floorRemainder,
           dr_SellerPayoutSats := dr_SellerPayoutSats deposit - floorRemainder\<rparr> else deposit) in
     bindA (if floorRemainder > 0 then addWithdrawalFee floorRemainder else ret ()) (\<lambda>_.
     err_if (shielderNoteCommitmentTotal nts \<noteq> dr_AmountSats deposit1) ''node sale seller commitments do not match payout amount''
    (bindA (insertShielderCommitments e nts) (\<lambda>_.
     let deposit2 = deposit1\<lparr>dr_Status := DepositStatusCommitted\<rparr> in
     bindA (SetDepositRecord deposit2) (\<lambda>_. ret deposit2))))))))))))"

section \<open>The payouts of a sale\<close>

text \<open>The payouts alone, in the order of the bonders with a principal.\<close>

fun salePayouts :: "u64 \<Rightarrow> u64 \<Rightarrow> u64 \<times> u64 \<Rightarrow> u64 list \<Rightarrow> u64 list" where
  "salePayouts rec bond acc [] = []"
| "salePayouts rec bond (remaining, remainingPrincipal) (p # ps) =
     (let x = salePayout rec bond p remainingPrincipal remaining in
      x # salePayouts rec bond (remaining - x, remainingPrincipal - p) ps)"

definition principals :: "ShielderNodeBonder list \<Rightarrow> u64 list" where
  "principals bs = filter (\<lambda>p. p \<noteq> 0) (map br_PrincipalSats bs)"

lemma salePayout_le: "salePayout rec bond p rp remaining \<le> remaining"
  by (simp add: salePayout_def Let_def not_less)

lemma salePayout_exact:
  assumes fits: "unat rec * unat bond < 2 ^ 64" and bond: "bond \<noteq> 0" and p: "p \<le> rp" "p \<noteq> 0" and rp: "rp \<le> bond"
    and inv: "unat rec * unat rp \<le> unat bond * unat remaining"
  shows "unat rec * unat p div unat bond \<le> unat (salePayout rec bond p rp remaining)"
    and "unat rec * unat (rp - p) \<le> unat bond * unat (remaining - salePayout rec bond p rp remaining)"
    and "rp = p \<Longrightarrow> salePayout rec bond p rp remaining = remaining"
proof -
  let ?sh = "rec * p div bond"
  have B: "0 < unat bond" using bond by (simp add: unat_gt_0)
  have "unat rec * unat p \<le> unat rec * unat bond" using p rp by (simp add: word_le_nat_alt)
  then have m: "unat (rec * p) = unat rec * unat p" by (intro unat_mult_u64 le_less_trans [OF _ fits])
  then have sh: "unat ?sh = unat rec * unat p div unat bond" by (simp add: unat_div)
  have "unat rec * unat p \<le> unat rec * unat rp" using p by (simp add: word_le_nat_alt)
  then have "unat rec * unat p \<le> unat bond * unat remaining" using inv by (rule le_trans)
  then have "unat rec * unat p div unat bond \<le> unat bond * unat remaining div unat bond" by (rule div_le_mono)
  then have shle: "unat ?sh \<le> unat remaining" using B by (simp add: sh)
  have rp0: "rp \<noteq> 0" using p by auto
  have val: "salePayout rec bond p rp remaining = (if rp - p = 0 then remaining else ?sh)"
    using shle rp0 by (auto simp: salePayout_def Let_def word_less_nat_alt not_less)
  show "salePayout rec bond p rp remaining = remaining" if "rp = p" using val that by simp
  show "unat rec * unat p div unat bond \<le> unat (salePayout rec bond p rp remaining)"
    using shle by (simp add: val sh)
  show "unat rec * unat (rp - p) \<le> unat bond * unat (remaining - salePayout rec bond p rp remaining)"
  proof (cases "rp - p = 0")
    case False
    have "unat bond * (unat rec * unat p div unat bond) \<le> unat rec * unat p" by (rule times_div_less_eq_dividend)
    moreover have "unat (remaining - ?sh) = unat remaining - unat ?sh"
      using shle by (intro unat_sub_u64) (simp add: word_le_nat_alt)
    ultimately show ?thesis using False inv p(1)
      by (simp add: val sh unat_sub_u64 diff_mult_distrib2 diff_le_mono le_trans [OF diff_le_mono diff_le_mono2])
  qed (simp add: val)
qed

lemma sub_sum:
  "sum_list (map unat (p # ps)) = unat rp \<Longrightarrow> p \<le> rp \<and> sum_list (map unat ps) = unat (rp - (p :: u64))"
  by (auto simp: word_le_nat_alt unat_sub_u64)

text \<open>With principals that add up to the bond, the payouts add up to the recoverable amount, and no
  bonder gets less than the proportional share.\<close>

lemma salePayouts_exact:
  assumes fits: "unat rec * unat bond < 2 ^ 64" and bond: "bond \<noteq> 0"
  shows "sum_list (map unat ps) = unat rp \<Longrightarrow> 0 \<notin> set ps \<Longrightarrow> rp \<le> bond \<Longrightarrow>
    unat rec * unat rp \<le> unat bond * unat remaining \<Longrightarrow>
    (ps \<noteq> [] \<longrightarrow> sum_list (map unat (salePayouts rec bond (remaining, rp) ps)) = unat remaining) \<and>
    list_all2 (\<lambda>p x. unat rec * unat p div unat bond \<le> unat x) ps (salePayouts rec bond (remaining, rp) ps)"
proof (induction ps arbitrary: rp remaining)
  case (Cons p ps)
  let ?x = "salePayout rec bond p rp remaining"
  from Cons.prems(1) have p: "p \<le> rp" and s: "sum_list (map unat ps) = unat (rp - p)" using sub_sum [of p ps rp] by auto
  from Cons.prems(2) have p0: "p \<noteq> 0" by auto
  note ex = salePayout_exact [OF fits bond p p0 Cons.prems(3,4)]
  have rpb: "rp - p \<le> bond" using Cons.prems(3) p by (simp add: word_le_nat_alt unat_sub_u64)
  have le: "unat ?x \<le> unat remaining" using salePayout_le [of rec bond p rp remaining] by (simp add: word_le_nat_alt)
  have rest: "unat (remaining - ?x) = unat remaining - unat ?x" by (intro unat_sub_u64 salePayout_le)
  from Cons.IH [OF s _ rpb ex(2)] Cons.prems(2) have ih:
    "ps \<noteq> [] \<longrightarrow> sum_list (map unat (salePayouts rec bond (remaining - ?x, rp - p) ps)) = unat (remaining - ?x)"
    "list_all2 (\<lambda>p x. unat rec * unat p div unat bond \<le> unat x) ps (salePayouts rec bond (remaining - ?x, rp - p) ps)"
    by auto
  have "ps = [] \<Longrightarrow> ?x = remaining"
  proof -
    assume "ps = []"
    then have "rp = p" using Cons.prems(1) by (simp add: u64_eq_iff_unat)
    then show ?thesis by (rule ex(3))
  qed
  with ih ex(1) le rest show ?case by (cases "ps = []") (simp_all add: Let_def)
qed simp

lemma paySaleBonder_acc:
  assumes "paySaleBonder e au bi v rec bond prot (rem, rp) b s = (Inr acc, t)"
  shows "acc = (if br_PrincipalSats b = 0 then (rem, rp)
    else (rem - salePayout rec bond (br_PrincipalSats b) rp rem, rp - br_PrincipalSats b))"
  using assms by (auto simp: paySaleBonder_def act_run Let_def split: if_splits)

lemma sale_loop_acc:
  "foldA (paySaleBonder e au bi v rec bond prot) (rem, rp) bs s = (Inr acc, t) \<Longrightarrow>
   fst acc = rem - sum_list (salePayouts rec bond (rem, rp) (principals bs))"
proof (induction bs arbitrary: rem rp s)
  case Nil
  then show ?case by (simp add: act_run principals_def)
next
  case (Cons b bs)
  then obtain acc1 s1 where one: "paySaleBonder e au bi v rec bond prot (rem, rp) b s = (Inr acc1, s1)"
    and rest: "foldA (paySaleBonder e au bi v rec bond prot) acc1 bs s1 = (Inr acc, t)"
    by (auto simp: bindA_run)
  note a = paySaleBonder_acc [OF one]
  show ?case
  proof (cases "br_PrincipalSats b = 0")
    case True
    with Cons.IH rest a show ?thesis by (simp add: principals_def)
  next
    case False
    let ?x = "salePayout rec bond (br_PrincipalSats b) rp rem"
    from rest a False have "fst acc = rem - ?x - sum_list (salePayouts rec bond (rem - ?x, rp - br_PrincipalSats b) (principals bs))"
      by (intro Cons.IH) simp
    with False show ?thesis by (simp add: principals_def Let_def)
  qed
qed

section \<open>The life of an auction\<close>

lemma auction_conflict_free:
  "auction_conflict n h as = Inr u \<Longrightarrow> a \<in> set as \<Longrightarrow> au_SellerNodePubKey a = n \<Longrightarrow>
   au_Status a \<noteq> NodeSlotAuctionSelected \<and> \<not> (au_Status a = NodeSlotAuctionOpen \<and> au_ExpiryHeight a > h)"
  by (induction n h as rule: auction_conflict.induct) (auto split: if_splits)

lemma create_auction_run:
  assumes run: "CreateNodeSlotAuction e seller n reserve expiry s = (Inr a, t)"
  shows "au_Status a = NodeSlotAuctionOpen" and "k_height s < expiry" and "au_ExpiryHeight a = expiry"
    and "kv_get (k_auctions t) (skey (TrimSpace (au_AuctionID a))) = Some a"
    and "x \<in> set (kv_values (k_auctions s)) \<Longrightarrow> au_SellerNodePubKey x = n \<Longrightarrow>
      \<not> (au_Status x = NodeSlotAuctionOpen \<and> au_ExpiryHeight x > k_height s)"
    and "nb_FeeShareActive (GetShielderNodeBond n s)" and "\<not> nb_Sold (GetShielderNodeBond n s)"
    and "au_OriginalBondSats a = nb_BondSats (GetShielderNodeBond n s)"
proof -
  from run obtain u where
      st: "au_Status a = NodeSlotAuctionOpen" "au_ExpiryHeight a = expiry" "k_height s < expiry"
        "kv_get (k_auctions t) (skey (TrimSpace (au_AuctionID a))) = Some a"
        "nb_FeeShareActive (GetShielderNodeBond n s)" "\<not> nb_Sold (GetShielderNodeBond n s)"
        "au_OriginalBondSats a = nb_BondSats (GetShielderNodeBond n s)"
    and free: "auction_conflict n (k_height s) (kv_values (k_auctions s)) = Inr u"
    unfolding CreateNodeSlotAuction_def validateNodeSlotAuctionCreate_def Let_def
    by (clarsimp simp: act_run SetNodeSlotAuction_def NodeSlotAuction_Key_def not_le)
  show "au_Status a = NodeSlotAuctionOpen" "k_height s < expiry" "au_ExpiryHeight a = expiry"
    "kv_get (k_auctions t) (skey (TrimSpace (au_AuctionID a))) = Some a"
    "nb_FeeShareActive (GetShielderNodeBond n s)" "\<not> nb_Sold (GetShielderNodeBond n s)"
    "au_OriginalBondSats a = nb_BondSats (GetShielderNodeBond n s)" by (fact st)+
  show "x \<in> set (kv_values (k_auctions s)) \<Longrightarrow> au_SellerNodePubKey x = n \<Longrightarrow>
      \<not> (au_Status x = NodeSlotAuctionOpen \<and> au_ExpiryHeight x > k_height s)"
    using auction_conflict_free [OF free] by blast
qed

lemma select_validated:
  assumes "validateNodeSlotBidSelection seller aid bid s = (Inr (a, b), t)"
  shows "t = s" and "a = GetNodeSlotAuction aid s" and "b = GetNodeSlotBid bid s"
    and "au_Status a = NodeSlotAuctionOpen" and "au_Seller a = seller" and "k_height s < au_ExpiryHeight a"
    and "bd_AuctionID b = au_AuctionID a" and "au_ReserveSats a \<le> bd_AmountSats b"
    and "ConfigUint64 NodeSale_BidAmountMinSats s \<le> bd_AmountSats b" and "bd_AmountSats b \<noteq> 0"
  using assms unfolding validateNodeSlotBidSelection_def
  by (auto simp: act_run attempt_def not_le not_less split: if_splits)

lemma select_run:
  assumes run: "SelectNodeSlotBid e seller aid bid s = (Inr (a, b), t)"
    and key: "skey (TrimSpace (au_AuctionID (GetNodeSlotAuction aid s))) = skey (TrimSpace aid)"
  shows "au_Status (GetNodeSlotAuction aid s) = NodeSlotAuctionOpen" and "au_Seller (GetNodeSlotAuction aid s) = seller"
    and "k_height s < au_ExpiryHeight (GetNodeSlotAuction aid s)"
    and "au_ReserveSats (GetNodeSlotAuction aid s) \<le> bd_AmountSats b"
    and "au_Status (GetNodeSlotAuction aid t) = NodeSlotAuctionSettled"
    and "au_SelectedBidID (GetNodeSlotAuction aid t) = bd_BidID b" and "bd_Settled b"
proof -
  from run obtain a0 b0 s1 s2 s3 where v: "validateNodeSlotBidSelection seller aid bid s = (Inr (a0, b0), s1)"
    and a: "a = a0\<lparr>au_SelectedBidID := bd_BidID b0, au_Status := NodeSlotAuctionSettled, au_UpdatedHeight := k_height s1\<rparr>"
    and b: "b = b0\<lparr>bd_Selected := True, bd_Settled := True, bd_UpdatedHeight := k_height s1\<rparr>"
    and seta: "SetNodeSlotAuction a s2 = (Inr (), s3)" and setb: "SetNodeSlotBid b s3 = (Inr (), t)"
    unfolding SelectNodeSlotBid_def Let_def by (clarsimp simp: act_run)
  note f = select_validated [OF v]
  show "au_Status (GetNodeSlotAuction aid s) = NodeSlotAuctionOpen" "au_Seller (GetNodeSlotAuction aid s) = seller"
    "k_height s < au_ExpiryHeight (GetNodeSlotAuction aid s)"
    using f by auto
  show "au_ReserveSats (GetNodeSlotAuction aid s) \<le> bd_AmountSats b" using f b by auto
  have "same k_auctions (SetNodeSlotBid b)" by (auto intro!: act_keeps)
  from sameD [OF this setb] have "k_auctions t = k_auctions s3" .
  moreover have "kv_get (k_auctions s3) (skey (TrimSpace (au_AuctionID a))) = Some a"
    using seta by (auto simp: SetNodeSlotAuction_def act_run NodeSlotAuction_Key_def)
  ultimately have "GetNodeSlotAuction aid t = a"
    using key f(2) by (simp add: GetNodeSlotAuction_def a)
  then show "au_Status (GetNodeSlotAuction aid t) = NodeSlotAuctionSettled"
    "au_SelectedBidID (GetNodeSlotAuction aid t) = bd_BidID b" by (simp_all add: a b)
  show "bd_Settled b" by (simp add: b)
qed

lemma select_closed:
  "au_Status (GetNodeSlotAuction aid s) \<noteq> NodeSlotAuctionOpen \<Longrightarrow>
   \<exists>err. SelectNodeSlotBid e seller aid bid s = (Inl err, s)"
  by (auto simp: SelectNodeSlotBid_def validateNodeSlotBidSelection_def act_defs)

section \<open>The slot moves with the sale\<close>

lemma transfer_run:
  assumes run: "transferNodeSlotSaleBond e a b amt s = (Inr u, t)"
    and key: "skey (TrimSpace (nb_NodePubKey (GetShielderNodeBond (au_SellerNodePubKey a) s))) = skey (TrimSpace (au_SellerNodePubKey a))"
  shows "nb_BondSats (GetShielderNodeBond (bd_NodePubKey b) t) = amt"
    and "nb_FeeShareActive (GetShielderNodeBond (bd_NodePubKey b) t)"
    and "nb_Slot (GetShielderNodeBond (bd_NodePubKey b) t) = au_Slot a"
    and "fp_TotalSlots (GetFeePool t) = fp_TotalSlots (GetFeePool s)"
    and "fp_TotalCollectedSats (GetFeePool t) = fp_TotalCollectedSats (GetFeePool s)"
    and "skey (TrimSpace (bd_NodePubKey b)) \<noteq> skey (TrimSpace (au_SellerNodePubKey a)) \<Longrightarrow>
      nb_Sold (GetShielderNodeBond (au_SellerNodePubKey a) t) \<and>
      \<not> nb_FeeShareActive (GetShielderNodeBond (au_SellerNodePubKey a) t) \<and>
      nb_BondSats (GetShielderNodeBond (au_SellerNodePubKey a) t) = 0"
proof -
  let ?old = "GetShielderNodeBond (au_SellerNodePubKey a) s"
  let ?oldBond = "\<lambda>h. ?old\<lparr>nb_Sold := True, nb_SoldAuctionID := au_AuctionID a, nb_FeeShareActive := False,
           nb_BondSats := 0, nb_PendingSats := 0, nb_UpdatedHeight := h\<rparr>"
  from run obtain pool s1 s2 s3 s4 s5 s6 nb br na ob lv oa where
      dist: "distributeFeePool s = (Inr pool, s1)"
    and w1: "SetShielderNodeBond ob s1 = (Inr (), s2)" and ob: "ob = ?oldBond (k_height s)"
    and w2: "SetShielderNodeBond nb s2 = (Inr (), s3)" and w3: "SetShielderNodeBonder e br s3 = (Inr (), s4)"
    and w4: "SetNodeAccount e na s4 = (Inr (), s5)" and w5: "(if lv then SetNodeAccount e oa else ret ()) s5 = (Inr (), s6)"
    and t: "t = s6\<lparr>k_fee_pool := Some pool\<rparr>"
    and nb: "nb_NodePubKey nb = bd_NodePubKey b" "nb_BondSats nb = amt" "nb_FeeShareActive nb" "nb_Slot nb = au_Slot a"
    unfolding transferNodeSlotSaleBond_def Let_def
    by (clarsimp simp: act_run SetFeePool_def)
  have "same k_bonds (SetShielderNodeBonder e br)" "same k_bonds (SetNodeAccount e na)"
    "same k_bonds (if lv then SetNodeAccount e oa else ret ())" by (auto intro!: act_keeps)
  from sameD [OF this(1) w3] sameD [OF this(2) w4] sameD [OF this(3) w5] have bonds: "k_bonds t = k_bonds s3" by (simp add: t)
  have b3: "k_bonds s3 = kv_set (skey (TrimSpace (bd_NodePubKey b))) nb (k_bonds s2)"
    using w2 nb by (auto simp: SetShielderNodeBond_def act_run ShielderNodeBond_Key_def)
  have b2: "k_bonds s2 = kv_set (skey (TrimSpace (au_SellerNodePubKey a))) ob (k_bonds s1)"
    using w1 key by (auto simp: SetShielderNodeBond_def act_run ShielderNodeBond_Key_def ob)
  have new: "GetShielderNodeBond (bd_NodePubKey b) t = nb" by (simp add: GetShielderNodeBond_def bonds b3)
  with nb show "nb_BondSats (GetShielderNodeBond (bd_NodePubKey b) t) = amt"
    "nb_FeeShareActive (GetShielderNodeBond (bd_NodePubKey b) t)"
    "nb_Slot (GetShielderNodeBond (bd_NodePubKey b) t) = au_Slot a" by simp_all
  show "fp_TotalSlots (GetFeePool t) = fp_TotalSlots (GetFeePool s)"
    "fp_TotalCollectedSats (GetFeePool t) = fp_TotalCollectedSats (GetFeePool s)"
    using distributeFeePool_run(2,3) [OF dist] by (simp_all add: t GetFeePool_def)
  show "skey (TrimSpace (bd_NodePubKey b)) \<noteq> skey (TrimSpace (au_SellerNodePubKey a)) \<Longrightarrow>
      nb_Sold (GetShielderNodeBond (au_SellerNodePubKey a) t) \<and>
      \<not> nb_FeeShareActive (GetShielderNodeBond (au_SellerNodePubKey a) t) \<and>
      nb_BondSats (GetShielderNodeBond (au_SellerNodePubKey a) t) = 0"
    by (simp add: GetShielderNodeBond_def bonds b3 b2 ob)
qed

text \<open>The accounting of a settled sale: the dust of the surplus is booked as a fee, and the new bond
  is still the whole bid.\<close>

lemma same_paySaleBonder [act_keeps]:
  "(\<And>s x. f (s\<lparr>k_bonders := x\<rparr>) = f s) \<Longrightarrow> (\<And>s x. f (s\<lparr>k_deposits := x\<rparr>) = f s) \<Longrightarrow>
   same f (paySaleBonder e au bi v rec bond prot acc b)"
  by (auto simp: paySaleBonder_def Let_def intro!: act_keeps split: prod.split)

lemma settle_value:
  assumes run: "settleNodeSlotSale e a b s = (Inr u, t)"
    and key: "skey (TrimSpace (nb_NodePubKey (GetShielderNodeBond (au_SellerNodePubKey a) s))) = skey (TrimSpace (au_SellerNodePubKey a))"
    and moves: "skey (TrimSpace (bd_NodePubKey b)) \<noteq> skey (TrimSpace (au_SellerNodePubKey a))"
  defines "old \<equiv> GetShielderNodeBond (au_SellerNodePubKey a) s"
  shows "nb_BondSats (GetShielderNodeBond (bd_NodePubKey b) t) = bd_AmountSats b"
    and "nb_BondSats (GetShielderNodeBond (au_SellerNodePubKey a) t) = 0"
    and "nb_Sold (GetShielderNodeBond (au_SellerNodePubKey a) t)"
    and "fp_TotalCollectedSats (GetFeePool t) = fp_TotalCollectedSats (GetFeePool s)
      + shielderDustRemainder (bd_AmountSats b - min (bd_AmountSats b) (nb_BondSats old)) s"
proof -
  let ?rec = "if bd_AmountSats b < nb_BondSats old then bd_AmountSats b else nb_BondSats old"
  have min: "?rec = min (bd_AmountSats b) (nb_BondSats old)" by (auto simp: min_def)
  let ?r = "shielderDustRemainder (bd_AmountSats b - ?rec) s"
  from run obtain s1 s2 v bs acc where
      fee: "(if ?r > 0 then addWithdrawalFee ?r else ret ()) s = (Inr (), s1)"
    and tr: "transferNodeSlotSaleBond e a b (bd_AmountSats b) s1 = (Inr (), s2)"
    and pay: "foldA (paySaleBonder e a b v ?rec (nb_BondSats old) (bd_AmountSats b - ?rec - ?r)) (?rec, nb_BondSats old) bs s2 = (Inr acc, t)"
    unfolding settleNodeSlotSale_def Let_def by (clarsimp simp: act_run old_def [symmetric] split: prod.splits)
  have "same k_bonds (if ?r > 0 then addWithdrawalFee ?r else ret ())" by (auto intro!: act_keeps)
  from sameD [OF this fee] have "k_bonds s1 = k_bonds s" .
  then have old1: "GetShielderNodeBond (au_SellerNodePubKey a) s1 = old" unfolding old_def by (rule GetBond_cong)
  note tr' = transfer_run [OF tr, unfolded old1, OF key [folded old_def]]
  have "same (\<lambda>s. (k_bonds s, k_fee_pool s)) (foldA (paySaleBonder e a b v ?rec (nb_BondSats old) (bd_AmountSats b - ?rec - ?r))
      (?rec, nb_BondSats old) bs)"
    by (auto intro!: act_keeps)
  from sameD [OF this pay] have f: "k_bonds t = k_bonds s2" "k_fee_pool t = k_fee_pool s2" by simp_all
  have g: "GetShielderNodeBond n t = GetShielderNodeBond n s2" for n using f(1) by (rule GetBond_cong)
  have p: "GetFeePool t = GetFeePool s2" by (simp add: GetFeePool_def f)
  from tr'(1,6) moves g show "nb_BondSats (GetShielderNodeBond (bd_NodePubKey b) t) = bd_AmountSats b"
    "nb_BondSats (GetShielderNodeBond (au_SellerNodePubKey a) t) = 0" "nb_Sold (GetShielderNodeBond (au_SellerNodePubKey a) t)" by auto
  show "fp_TotalCollectedSats (GetFeePool t) = fp_TotalCollectedSats (GetFeePool s)
      + shielderDustRemainder (bd_AmountSats b - min (bd_AmountSats b) (nb_BondSats old)) s"
    using fee_step(1) [OF fee] tr'(5) p unfolding min by simp
qed

end
