(* ===== verification/Messages.thy ===== *)
theory Messages
  imports Withdraw Shield Auctions
begin

text \<open>
  The messages users and node operators send (\<^verbatim>\<open>types/msg_shielder.go\<close>) and their handlers
  (\<^verbatim>\<open>msg_server.go\<close>): the stateless checks, then the flow of the component. A handler that returns an
  error leaves no trace: the transaction's writes are discarded.
\<close>

section \<open>The messages and their stateless checks\<close>

record MsgShielderShield =
  ms_Commitments :: "string list"
  ms_DepositPubkey :: string
  ms_Signature :: string
  ms_DepositId :: string

record MsgShielderRedeem =
  mr_Proof :: string
  mr_Public :: string

record MsgShielderShieldFees =
  mf_NodePubKey :: string
  mf_OperatorSignature :: string
  mf_Commitments :: "string list"
  mf_FeeNotePubKeys :: "string list"
  mf_Signer :: AccAddress

record MsgNodeOperatorFeeSet =
  mo_NodePubKey :: string
  mo_OperatorFeeBasisPoints :: u64
  mo_Signer :: AccAddress

record MsgNodeSlotAuctionCreate =
  mc_NodePubKey :: string
  mc_ReserveSats :: u64
  mc_ExpiryHeight :: int
  mc_Signer :: AccAddress

record MsgNodeSlotAuctionBidCreate =
  mb_AuctionId :: string
  mb_OperatorPubKey :: string
  mb_NodePubKey :: string
  mb_Signer :: AccAddress

record MsgNodeSlotAuctionSelectBid =
  mx_AuctionId :: string
  mx_BidId :: string
  mx_Signer :: AccAddress

record MsgNodeSaleShield =
  ml_AuctionId :: string
  ml_BidId :: string
  ml_Commitments :: "string list"
  ml_DepositPubkey :: string
  ml_Signature :: string
  ml_Signer :: AccAddress

record MsgBondFromNotes =
  mn_NodePubKey :: string
  mn_OperatorPubKey :: string
  mn_Proof :: string
  mn_Public :: string
  mn_Signer :: AccAddress

definition MaxShielderCommitments :: nat where "MaxShielderCommitments = 128"
definition MaxShielderCommitmentLength :: nat where "MaxShielderCommitmentLength = 512"
definition MaxShielderProofJSONLength :: nat where "MaxShielderProofJSONLength = 64 * 1024"
definition MaxShielderPublicJSONLength :: nat where "MaxShielderPublicJSONLength = 4 * 1024"
definition MaxShieldSignatureHexLength :: nat where "MaxShieldSignatureHexLength = 160"
definition MaxShielderOperatorSignatureBytes :: nat where "MaxShielderOperatorSignatureBytes = 64"
definition MaxShielderIDLength :: nat where "MaxShielderIDLength = 128"

definition validateCompressedSecpPubkey :: "string \<Rightarrow> unit result" where
  "validateCompressedSecpPubkey value =
     (case DecodeString (TrimSpace value) of
        None \<Rightarrow> Inl (Errorf ''expected hex pubkey'')
      | Some raw \<Rightarrow>
          if length raw = 32 then Inr ()
          else if length raw = 33 \<and> (raw ! 0 = CHR 0x02 \<or> raw ! 0 = CHR 0x03) then Inr ()
          else if length raw = 33 then Inl (Errorf ''expected compressed secp256k1 prefix'')
          else Inl (Errorf ''expected 32-byte x-only or 33-byte compressed pubkey''))"

fun check_commitments :: "string list \<Rightarrow> string list \<Rightarrow> unit result" where
  "check_commitments seen [] = Inr ()"
| "check_commitments seen (c0 # cs) =
     (let c = TrimSpace c0 in
      if c = [] then Inl (Errorf ''empty commitment'')
      else if length c > MaxShielderCommitmentLength then Inl (Errorf ''commitment too long'')
      else if c \<in> set seen then Inl (Errorf ''duplicate commitment'')
      else check_commitments (c # seen) cs)"

definition validateShielderCommitmentList :: "string list \<Rightarrow> unit result" where
  "validateShielderCommitmentList commitments =
     (if length commitments > MaxShielderCommitments then Inl (Errorf ''too many commitments'')
      else check_commitments [] commitments)"

definition validateShielderRedeemJSON :: "string \<Rightarrow> string \<Rightarrow> unit result" where
  "validateShielderRedeemJSON proof public =
     (if proof = [] then Inl (Errorf ''missing shielder proof json'')
      else if public = [] then Inl (Errorf ''missing shielder public json'')
      else if length proof > MaxShielderProofJSONLength then Inl (Errorf ''shielder proof json too large'')
      else if length public > MaxShielderPublicJSONLength then Inl (Errorf ''shielder public json too large'')
      else Inr ())"

definition normalizeBondPublicPolicy :: "string \<Rightarrow> string" where
  "normalizeBondPublicPolicy policy =
     (if TrimSpace policy = [] \<or> TrimSpace policy = ShielderRedeemPolicyUserBTC then ShielderRedeemPolicyUserBTC
      else TrimSpace policy)"

definition wrapR :: "string \<Rightarrow> 'a result \<Rightarrow> unit result" where
  "wrapR m r = (case r of Inl err \<Rightarrow> Inl (Wrapf m err) | Inr _ \<Rightarrow> Inr ())"

definition assertR :: "bool \<Rightarrow> string \<Rightarrow> unit result" where
  "assertR c m = (if c then Inr () else Inl (Errorf m))"

definition MsgShielderShield_ValidateBasic :: "MsgShielderShield \<Rightarrow> unit result" where
  "MsgShielderShield_ValidateBasic m =
     seqR (assertR (TrimSpace (ms_DepositPubkey m) \<noteq> []) ''missing deposit pubkey'')
    (seqR (assertR (ms_Commitments m \<noteq> []) ''missing shielder commitments'')
    (seqR (validateShielderCommitmentList (ms_Commitments m))
    (seqR (wrapR ''invalid deposit pubkey'' (validateCompressedSecpPubkey (ms_DepositPubkey m)))
    (seqR (assertR (length (TrimSpace (ms_Signature m)) \<le> MaxShieldSignatureHexLength) ''shield authorization signature too long'')
    (seqR (assertR (DecodeString (TrimSpace (ms_Signature m)) \<noteq> None) ''invalid shield authorization signature'')
    (assertR (TrimSpace (ms_DepositId m) \<noteq> []) ''missing deposit id''))))))"

definition MsgShielderRedeem_ValidateBasic :: "env \<Rightarrow> MsgShielderRedeem \<Rightarrow> unit result" where
  "MsgShielderRedeem_ValidateBasic e m =
     seqR (validateShielderRedeemJSON (mr_Proof m) (mr_Public m))
    (seqR (assertR (e_json_valid e (mr_Proof m)) ''invalid shielder proof json'')
    (seqR (assertR (e_json_valid e (mr_Public m)) ''invalid shielder public json'')
    (ValidateRedeemPublicJSON e (mr_Public m))))"

fun check_note_pubkeys :: "string list \<Rightarrow> string list \<Rightarrow> unit result" where
  "check_note_pubkeys seen [] = Inr ()"
| "check_note_pubkeys seen (k0 # ks) =
     (let k = TrimSpace k0 in
      if k = [] then Inl (Errorf ''missing shielder fee note pubkey'')
      else if DecodeString k = None \<or> length k \<noteq> 66 then Inl (Errorf ''invalid shielder fee note pubkey'')
      else if k \<in> set seen then Inl (Errorf ''duplicate shielder fee note pubkey'')
      else check_note_pubkeys (k # seen) ks)"

definition MsgShielderShieldFees_ValidateBasic :: "env \<Rightarrow> MsgShielderShieldFees \<Rightarrow> unit result" where
  "MsgShielderShieldFees_ValidateBasic e m =
     seqR (assertR (mf_Signer m \<noteq> []) ''invalid address'')
    (seqR (wrapR ''invalid node pubkey'' (e_pubkey_from_bech32 e ConsPub (mf_NodePubKey m)))
    (seqR (assertR (length (mf_OperatorSignature m) \<le> MaxShielderOperatorSignatureBytes) ''shielder fee operator signature too long'')
    (seqR (assertR (mf_Commitments m \<noteq> []) ''missing shielder fee commitments'')
    (seqR (assertR (length (mf_FeeNotePubKeys m) = length (mf_Commitments m)) ''shielder fee note pubkey count mismatch'')
    (seqR (validateShielderCommitmentList (mf_Commitments m))
    (check_note_pubkeys [] (mf_FeeNotePubKeys m)))))))"

definition MsgNodeOperatorFeeSet_ValidateBasic :: "env \<Rightarrow> MsgNodeOperatorFeeSet \<Rightarrow> unit result" where
  "MsgNodeOperatorFeeSet_ValidateBasic e m =
     seqR (assertR (mo_Signer m \<noteq> []) ''invalid address'')
    (seqR (wrapR ''invalid node pubkey'' (e_pubkey_from_bech32 e ConsPub (mo_NodePubKey m)))
    (assertR (mo_OperatorFeeBasisPoints m \<le> MaxNodeOperatorFeeBasisPoints) ''node operator fee basis points must be <= max''))"

definition MsgNodeSlotAuctionCreate_ValidateBasic :: "env \<Rightarrow> MsgNodeSlotAuctionCreate \<Rightarrow> unit result" where
  "MsgNodeSlotAuctionCreate_ValidateBasic e m =
     seqR (assertR (mc_Signer m \<noteq> []) ''invalid address'')
    (seqR (wrapR ''invalid seller node pubkey'' (e_pubkey_from_bech32 e ConsPub (mc_NodePubKey m)))
    (assertR (mc_ExpiryHeight m > 0) ''missing node slot auction expiry''))"

definition check_id :: "string \<Rightarrow> string \<Rightarrow> unit result" where
  "check_id what did =
     seqR (assertR (TrimSpace did \<noteq> []) (''missing '' @ what))
       (assertR (length (TrimSpace did) \<le> MaxShielderIDLength) (what @ '' too long''))"

definition MsgNodeSlotAuctionBidCreate_ValidateBasic :: "env \<Rightarrow> MsgNodeSlotAuctionBidCreate \<Rightarrow> unit result" where
  "MsgNodeSlotAuctionBidCreate_ValidateBasic e m =
     seqR (assertR (mb_Signer m \<noteq> []) ''invalid address'')
    (seqR (check_id ''node slot auction id'' (mb_AuctionId m))
    (seqR (wrapR ''invalid bidder operator pubkey'' (NewPubKey e (mb_OperatorPubKey m)))
    (wrapR ''invalid bidder node pubkey'' (e_pubkey_from_bech32 e ConsPub (mb_NodePubKey m)))))"

definition MsgNodeSlotAuctionSelectBid_ValidateBasic :: "MsgNodeSlotAuctionSelectBid \<Rightarrow> unit result" where
  "MsgNodeSlotAuctionSelectBid_ValidateBasic m =
     seqR (assertR (mx_Signer m \<noteq> []) ''invalid address'')
    (seqR (check_id ''node slot auction id'' (mx_AuctionId m))
    (check_id ''node slot bid id'' (mx_BidId m)))"

definition MsgNodeSaleShield_ValidateBasic :: "MsgNodeSaleShield \<Rightarrow> unit result" where
  "MsgNodeSaleShield_ValidateBasic m =
     seqR (assertR (ml_Signer m \<noteq> []) ''invalid address'')
    (seqR (check_id ''node slot auction id'' (ml_AuctionId m))
    (seqR (check_id ''node slot bid id'' (ml_BidId m))
    (seqR (assertR (ml_Commitments m \<noteq> []) ''missing node slot seller commitments'')
    (seqR (validateShielderCommitmentList (ml_Commitments m))
    (seqR (wrapR ''invalid deposit pubkey'' (validateCompressedSecpPubkey (ml_DepositPubkey m)))
    (seqR (assertR (length (TrimSpace (ml_Signature m)) \<le> MaxShieldSignatureHexLength)
       ''node sale shield authorization signature too long'')
    (assertR (DecodeString (TrimSpace (ml_Signature m)) \<noteq> None) ''invalid node sale shield authorization signature'')))))))"

definition MsgBondFromNotes_ValidateBasic :: "env \<Rightarrow> MsgBondFromNotes \<Rightarrow> unit result" where
  "MsgBondFromNotes_ValidateBasic e m =
     seqR (assertR (TrimSpace (mn_NodePubKey m) \<noteq> []) ''missing node pubkey'')
    (seqR (wrapR ''invalid node pubkey'' (e_pubkey_from_bech32 e ConsPub (mn_NodePubKey m)))
    (seqR (assertR (TrimSpace (mn_OperatorPubKey m) \<noteq> []) ''missing operator pubkey'')
    (seqR (wrapR ''invalid operator pubkey'' (NewPubKey e (mn_OperatorPubKey m)))
    (seqR (assertR (mn_Signer m \<noteq> []) ''missing bond signer'')
    (seqR (validateShielderRedeemJSON (mn_Proof m) (mn_Public m))
    (seqR (assertR (e_json_valid e (mn_Proof m) \<and> e_json_valid e (mn_Public m)) ''invalid bond proof or public json'')
    (case e_json_bond_public e (mn_Public m) of
       Inl err \<Rightarrow> Inl (Wrapf ''invalid bond public json'' err)
     | Inr publicInputs \<Rightarrow>
         seqR (assertR (normalizeBondPublicPolicy (bp_RecipientPolicy publicInputs) = ShielderRedeemPolicyBondEscrow)
           ''bond notes require bond_escrow recipient policy'')
        (seqR (assertR (TrimSpace (bp_NodePubKey publicInputs) = TrimSpace (mn_NodePubKey m)) ''bond public node pubkey mismatch'')
        (seqR (assertR (TrimSpace (bp_Recipient publicInputs) = BondEscrowAddress) ''bond notes require bond_escrow recipient'')
        (seqR (assertR (bp_FeeSats publicInputs = 0) ''bond notes must not pay withdrawal fee'')
        (ValidateRedeemPublicJSON e (mn_Public m))))))))))))"

section \<open>The handlers\<close>

definition msgServer_ShielderShield :: "env \<Rightarrow> MsgShielderShield \<Rightarrow> string kact" where
  "msgServer_ShielderShield e msg =
     bindA (lift_result (MsgShielderShield_ValidateBasic msg)) (\<lambda>_.
     bindA (lift_result (AccAddressFromCompressedSecp256k1 e (ms_DepositPubkey msg))) (\<lambda>owner.
     bindA (lift_result (NewTxID (TrimSpace (ms_DepositId msg)))) (\<lambda>depositID.
     bindA (gets (GetDepositRecord depositID)) (\<lambda>deposit.
     err_if (TxID_IsEmpty (dr_DepositID deposit)) ''deposit not found''
    (err_if (dr_Owner deposit \<noteq> owner) ''deposit owner mismatch''
    (bindA (lift_result (parseShielderNoteCommitments e (ms_Commitments msg) (dr_AmountSats deposit) (IsNodeBond deposit))) (\<lambda>noteCommitments.
     let amountSats = shielderNoteCommitmentTotal noteCommitments in
     err_if (amountSats = 0) ''missing shielder commitment amount''
    (bindA (lift_result (VerifyShieldAuthorization e (ms_DepositPubkey msg) (ms_Signature msg) (TrimSpace (ms_DepositId msg))
       amountSats (ms_Commitments msg))) (\<lambda>_.
     bindA (PostShielderShield e owner depositID (ms_Commitments msg)) (\<lambda>deposit1.
     ret (dr_Status deposit1)))))))))))"

definition msgServer_ShielderRedeem :: "env \<Rightarrow> MsgShielderRedeem \<Rightarrow> (string \<times> string) kact" where
  "msgServer_ShielderRedeem e msg =
     bindA (lift_result (MsgShielderRedeem_ValidateBasic e msg)) (\<lambda>_.
     bindA (AuthorizeShielderRedeem e \<lparr>rq_Proof = mr_Proof msg, rq_Public = mr_Public msg\<rparr>) (\<lambda>authorization.
     bindA (FinalizeShielderRedeem e authorization) (\<lambda>withdrawal.
     ret (rd_WithdrawalID withdrawal, rd_Status withdrawal))))"

definition msgServer_BondFromNotes :: "env \<Rightarrow> MsgBondFromNotes \<Rightarrow> (u64 \<times> u64 \<times> string) kact" where
  "msgServer_BondFromNotes e msg =
     bindA (lift_result (MsgBondFromNotes_ValidateBasic e msg)) (\<lambda>_.
     bindA (BondFromShieldedNotes e (mn_Signer msg) (mn_NodePubKey msg) (mn_OperatorPubKey msg)
       \<lparr>rq_Proof = mn_Proof msg, rq_Public = mn_Public msg\<rparr>) (\<lambda>bond.
     ret (nb_BondSats bond, nb_Slot bond, if nb_BondSats bond = 0 then ''pending'' else ''Standby'')))"

definition msgServer_ShielderShieldFees :: "env \<Rightarrow> MsgShielderShieldFees \<Rightarrow> (TxID \<times> u64 \<times> string) kact" where
  "msgServer_ShielderShieldFees e msg =
     bindA (lift_result (MsgShielderShieldFees_ValidateBasic e msg)) (\<lambda>_.
     bindA (ShieldShielderFees e (mf_Signer msg) (mf_NodePubKey msg) (mf_OperatorSignature msg) (mf_Commitments msg)
       (mf_FeeNotePubKeys msg)) (\<lambda>deposit.
     ret (dr_DepositID deposit, dr_AmountSats deposit, dr_Status deposit)))"

definition msgServer_NodeOperatorFeeSet :: "env \<Rightarrow> MsgNodeOperatorFeeSet \<Rightarrow> unit kact" where
  "msgServer_NodeOperatorFeeSet e msg =
     bindA (lift_result (MsgNodeOperatorFeeSet_ValidateBasic e msg)) (\<lambda>_.
     bindA (SetNodeOperatorFeeBasisPoints e (mo_Signer msg) (mo_NodePubKey msg) (mo_OperatorFeeBasisPoints msg)) (\<lambda>_. ret ()))"

definition msgServer_NodeSlotAuctionCreate :: "env \<Rightarrow> MsgNodeSlotAuctionCreate \<Rightarrow> string kact" where
  "msgServer_NodeSlotAuctionCreate e msg =
     bindA (lift_result (MsgNodeSlotAuctionCreate_ValidateBasic e msg)) (\<lambda>_.
     bindA (CreateNodeSlotAuction e (mc_Signer msg) (mc_NodePubKey msg) (mc_ReserveSats msg) (mc_ExpiryHeight msg)) (\<lambda>auction.
     ret (au_AuctionID auction)))"

definition msgServer_NodeSlotAuctionBidCreate :: "env \<Rightarrow> MsgNodeSlotAuctionBidCreate \<Rightarrow> string kact" where
  "msgServer_NodeSlotAuctionBidCreate e msg =
     bindA (lift_result (MsgNodeSlotAuctionBidCreate_ValidateBasic e msg)) (\<lambda>_.
     bindA (CreateNodeSlotBid e (mb_Signer msg) (mb_AuctionId msg) (mb_OperatorPubKey msg) (mb_NodePubKey msg)) (\<lambda>bid.
     ret (bd_BidID bid)))"

definition msgServer_NodeSlotAuctionSelectBid :: "env \<Rightarrow> MsgNodeSlotAuctionSelectBid \<Rightarrow> unit kact" where
  "msgServer_NodeSlotAuctionSelectBid e msg =
     bindA (lift_result (MsgNodeSlotAuctionSelectBid_ValidateBasic msg)) (\<lambda>_.
     bindA (SelectNodeSlotBid e (mx_Signer msg) (mx_AuctionId msg) (mx_BidId msg)) (\<lambda>_. ret ()))"

definition msgServer_NodeSaleShield :: "env \<Rightarrow> MsgNodeSaleShield \<Rightarrow> string kact" where
  "msgServer_NodeSaleShield e msg =
     bindA (lift_result (MsgNodeSaleShield_ValidateBasic msg)) (\<lambda>_.
     bindA (ShieldNodeSlotSaleEntitlement e (ml_Signer msg) (ml_AuctionId msg) (ml_BidId msg) (ml_DepositPubkey msg)
       (ml_Signature msg) (ml_Commitments msg)) (\<lambda>deposit. ret (dr_Status deposit)))"

section \<open>The transition system\<close>

datatype msg =
    ShielderShield MsgShielderShield
  | ShielderRedeemMsg MsgShielderRedeem
  | BondFromNotes MsgBondFromNotes
  | ShielderShieldFees MsgShielderShieldFees
  | NodeOperatorFeeSet MsgNodeOperatorFeeSet
  | NodeSlotAuctionCreate MsgNodeSlotAuctionCreate
  | NodeSlotAuctionBidCreate MsgNodeSlotAuctionBidCreate
  | NodeSlotAuctionSelectBid MsgNodeSlotAuctionSelectBid
  | NodeSaleShield MsgNodeSaleShield

definition discard :: "'a kact \<Rightarrow> unit kact" where
  "discard m = bindA m (\<lambda>_. ret ())"

primrec handle :: "env \<Rightarrow> msg \<Rightarrow> unit kact" where
  "handle e (ShielderShield m) = discard (msgServer_ShielderShield e m)"
| "handle e (ShielderRedeemMsg m) = discard (msgServer_ShielderRedeem e m)"
| "handle e (BondFromNotes m) = discard (msgServer_BondFromNotes e m)"
| "handle e (ShielderShieldFees m) = discard (msgServer_ShielderShieldFees e m)"
| "handle e (NodeOperatorFeeSet m) = discard (msgServer_NodeOperatorFeeSet e m)"
| "handle e (NodeSlotAuctionCreate m) = discard (msgServer_NodeSlotAuctionCreate e m)"
| "handle e (NodeSlotAuctionBidCreate m) = discard (msgServer_NodeSlotAuctionBidCreate e m)"
| "handle e (NodeSlotAuctionSelectBid m) = discard (msgServer_NodeSlotAuctionSelectBid e m)"
| "handle e (NodeSaleShield m) = discard (msgServer_NodeSaleShield e m)"

text \<open>One transition: a message whose handler succeeds commits its writes, a message whose handler
  fails commits nothing, a block ends.\<close>

inductive step :: "env \<Rightarrow> kstate \<Rightarrow> kstate \<Rightarrow> bool" for e where
  commit: "handle e m s = (Inr (), t) \<Longrightarrow> step e s t"
| abort: "handle e m s = (Inl err, t) \<Longrightarrow> step e s s"
| block: "step e s (s\<lparr>k_height := k_height s + 1\<rparr>)"

inductive_cases stepE: "step e s t"

inductive reachable :: "env \<Rightarrow> kstate \<Rightarrow> kstate \<Rightarrow> bool" for e s where
  start: "reachable e s s"
| trans: "reachable e s t \<Longrightarrow> step e t u \<Longrightarrow> reachable e s u"

text \<open>What a successful transition preserves: the handler may leave intermediate states when it
  fails, but those are never committed.\<close>

definition commits :: "('s \<Rightarrow> bool) \<Rightarrow> ('s, 'a) act \<Rightarrow> bool" where
  "commits P m \<longleftrightarrow> (\<forall>s x t. P s \<longrightarrow> m s = (Inr x, t) \<longrightarrow> P t)"

named_theorems act_commits

lemma commitsD: "commits P m \<Longrightarrow> P s \<Longrightarrow> m s = (Inr x, t) \<Longrightarrow> P t"
  by (auto simp: commits_def)

definition determines :: "('s \<Rightarrow> 'b) \<Rightarrow> ('s \<Rightarrow> bool) \<Rightarrow> bool" where
  "determines f P \<longleftrightarrow> (\<forall>s t. f s = f t \<longrightarrow> P s = P t)"

lemma commits_same: "determines f P \<Longrightarrow> same f m \<Longrightarrow> commits P m"
  unfolding commits_def determines_def using sameD by metis

lemma commits_keeps: "keeps P m \<Longrightarrow> commits P m"
  unfolding commits_def using keepsD by metis

lemma commits_pure [act_commits]:
  "commits P (ret x)" "commits P (fail e)" "commits P (lift_result r)" "commits P (lift_wrap m r)" "commits P (gets g)"
  by (auto intro: commits_keeps act_keeps)

lemma commits_bindA [act_commits]: "commits P m \<Longrightarrow> (\<And>x. commits P (n x)) \<Longrightarrow> commits P (bindA m n)"
  unfolding commits_def bindA_run by metis

lemma commits_err_if [act_commits]: "commits P k \<Longrightarrow> commits P (err_if c m k)"
  by (auto simp: commits_def err_if_run)

lemma commits_if [act_commits]: "commits P m \<Longrightarrow> commits P n \<Longrightarrow> commits P (if c then m else n)"
  by simp

lemma commits_case_prod [act_commits]: "(\<And>a b. commits P (g a b)) \<Longrightarrow> commits P (case x of (a, b) \<Rightarrow> g a b)"
  by (simp split: prod.split)

lemma commits_after_log [act_commits]: "commits P k \<Longrightarrow> commits P (after_log r k)"
  by (auto simp: commits_def dest: after_log_run)

lemma commits_discard [act_commits]: "commits P m \<Longrightarrow> commits P (discard m)"
  by (simp add: discard_def act_commits)

lemma commits_foldA: "(\<And>b x. commits P (g b x)) \<Longrightarrow> commits P (foldA g b xs)"
  by (induction xs arbitrary: b) (auto intro: act_commits)

lemma reachable_keeps:
  assumes "reachable e s t" and "P s" and "\<And>m. commits P (handle e m)" and "\<And>s h. P s \<Longrightarrow> P (s\<lparr>k_height := h\<rparr>)"
  shows "P t"
  using assms(1,2)
proof (induction rule: reachable.induct)
  case (trans t u)
  from trans.hyps(2) show ?case
    by (rule stepE) (use trans assms(3,4) in \<open>auto dest: commitsD\<close>)
qed

end
