(* ===== verification/Ledger.thy ===== *)
theory Ledger
  imports Messages Merkle "HOL-Library.Sublist"
begin

text \<open>
  Invariants of the ledger along every sequence of messages and blocks: spent nullifiers stay spent
  and no nullifier is spent twice, known Merkle roots stay known, the commitment lists only grow and
  remain what the stored trees represent, the stores stay well-formed. The frame of a handler is
  stated for any observation of the state that does not read the stores the handler writes; the
  locales name those stores.
\<close>

section \<open>What each handler leaves alone\<close>

lemmas handler_defs = msgServer_ShielderShield_def msgServer_ShielderRedeem_def msgServer_BondFromNotes_def
  msgServer_ShielderShieldFees_def msgServer_NodeOperatorFeeSet_def msgServer_NodeSlotAuctionCreate_def
  msgServer_NodeSlotAuctionBidCreate_def msgServer_NodeSlotAuctionSelectBid_def msgServer_NodeSaleShield_def
  BondFromShieldedNotes_def Let_def

lemma same_fee_notes [act_keeps]:
  assumes "\<And>s x. f (s\<lparr>k_commitments := x\<rparr>) = f s" "\<And>s x. f (s\<lparr>k_leaves := x\<rparr>) = f s" "\<And>s x. f (s\<lparr>k_notes := x\<rparr>) = f s"
    "\<And>s x. f (s\<lparr>k_trees := x\<rparr>) = f s" "\<And>s x. f (s\<lparr>k_roots := x\<rparr>) = f s" "\<And>s x. f (s\<lparr>k_fee_pubkeys := x\<rparr>) = f s"
  shows "same f (insertFeeNotes e nps)"
proof -
  have n: "same f (insertFeeNote e acc np)" for acc np
    by (auto simp: insertFeeNote_def Let_def intro!: act_keeps assms split: prod.split)
  have p: "same f (persistShielderTreeStates states ds)" for states ds
    by (induction ds) (auto simp: Let_def intro!: act_keeps assms)
  show ?thesis by (auto simp: insertFeeNotes_def intro!: act_keeps n p split: prod.split)
qed

text \<open>An observation that reads none of the stores written outside the commitment pool and the
  nullifiers.\<close>

locale outside_accounts =
  fixes f :: "kstate \<Rightarrow> 'b"
  assumes reads: "f (s\<lparr>k_bonds := b1\<rparr>) = f s" "f (s\<lparr>k_bonders := b2\<rparr>) = f s" "f (s\<lparr>k_fee_pool := b3\<rparr>) = f s"
    "f (s\<lparr>k_node_accounts := b4\<rparr>) = f s" "f (s\<lparr>k_penalties := b5\<rparr>) = f s" "f (s\<lparr>k_bond_slot := b6\<rparr>) = f s"
    "f (s\<lparr>k_deposits := b7\<rparr>) = f s" "f (s\<lparr>k_auctions := b8\<rparr>) = f s" "f (s\<lparr>k_bids := b9\<rparr>) = f s"
    "f (s\<lparr>k_auction_bids := b10\<rparr>) = f s" "f (s\<lparr>k_redeems := b11\<rparr>) = f s"
begin

lemma same_bonds:
  "same f (recordPendingShielderNodeBond e ses amt)" "same f (confirmShielderNodeBond e d)"
  "same f (SetNodeOperatorFeeBasisPoints e owner n bp)" "same f (transferNodeSlotSaleBond e a b amt)"
  unfolding recordPendingShielderNodeBond_def confirmShielderNodeBond_def SetNodeOperatorFeeBasisPoints_def
    transferNodeSlotSaleBond_def Let_def
  by (auto intro!: act_keeps reads)

lemma same_spend: "same f (confirmBondFromNoteSpend e owner n oper amt)"
  unfolding confirmBondFromNoteSpend_def by (auto intro!: act_keeps same_bonds)

lemma same_auctions:
  "same f (CreateNodeSlotAuction e seller n reserve expiry)" "same f (CreateNodeSlotBid e bidder a op n)"
  "same f (validateNodeSlotBidSelection seller a b)" "same f (paySaleBonder e au bi v rec bond prot acc bonder)"
  unfolding CreateNodeSlotAuction_def validateNodeSlotAuctionCreate_def CreateNodeSlotBid_def
    validateNodeSlotBidSelection_def paySaleBonder_def Let_def
  by (auto intro!: act_keeps reads split: prod.split)

lemma same_settle: "same f (settleNodeSlotSale e au bi)"
  unfolding settleNodeSlotSale_def Let_def by (auto intro!: act_keeps reads same_bonds same_auctions split: prod.split)

lemma same_select: "same f (SelectNodeSlotBid e seller a b)"
  unfolding SelectNodeSlotBid_def Let_def by (auto intro!: act_keeps reads same_auctions same_settle split: prod.split)

lemma same_claim: "same f (feeClaim e owner n)"
  unfolding feeClaim_def Let_def by (auto intro!: act_keeps reads)

end

text \<open>One that does not read the outbound queue either.\<close>

locale outside_queue = outside_accounts f for f :: "kstate \<Rightarrow> 'b" +
  assumes queue_reads: "f (s\<lparr>k_txouts := q1\<rparr>) = f s"
begin

lemma same_append: "same f (appendBTCExactTxOut e h item)"
  unfolding appendBTCExactTxOut_def Let_def by (auto intro!: act_keeps reads queue_reads split: prod.split option.split)

lemma same_finalize: "same f (FinalizeShielderRedeem e a)"
  unfolding FinalizeShielderRedeem_def FinalizeBidDepositFromNoteSpend_def QueueAuthorizedWithdrawalTxOut_def
    queueAuthorizedWithdrawalTxOut_def Let_def
  by (auto intro!: act_keeps reads queue_reads same_append)

end

text \<open>One that does not read the commitment pool.\<close>

locale outside_pool = outside_accounts f for f :: "kstate \<Rightarrow> 'b" +
  assumes pool_reads: "f (s\<lparr>k_commitments := c1\<rparr>) = f s" "f (s\<lparr>k_leaves := c2\<rparr>) = f s" "f (s\<lparr>k_notes := c3\<rparr>) = f s"
    "f (s\<lparr>k_trees := c4\<rparr>) = f s" "f (s\<lparr>k_roots := c5\<rparr>) = f s" "f (s\<lparr>k_fee_pubkeys := c6\<rparr>) = f s"
begin

lemma same_shield: "same f (PostShielderShield e owner did cs)"
  unfolding PostShielderShield_def ShieldUserDepositIntoPool_def shieldUserNotes_def postShieldNotes_def Let_def
  by (auto intro!: act_keeps reads pool_reads split: prod.split)

lemma same_entitlement: "same f (ShieldNodeSlotSaleEntitlement e seller a b pk sig cs)"
  unfolding ShieldNodeSlotSaleEntitlement_def Let_def by (auto intro!: act_keeps reads pool_reads split: prod.split)

lemma same_fees: "same f (ShieldShielderFees e owner n sig cs pks)"
  unfolding ShieldShielderFees_def Let_def
  by (auto intro!: act_keeps reads pool_reads same_claim split: prod.split)

text \<open>Every handler but the authorization of a redeem and its payment leaves the observation alone.\<close>

lemma commits_handle:
  assumes P: "determines f P" and auth: "\<And>req. commits P (AuthorizeShielderRedeem e req)"
    and fin: "\<And>a. commits P (FinalizeShielderRedeem e a)"
  shows "commits P (handle e m)"
proof -
  note leaf = same_shield same_spend same_fees same_bonds same_auctions same_select same_entitlement
  note by_frame = leaf [THEN commits_same [OF P]]
  show ?thesis
    by (cases m; simp add: handler_defs)
    (intro act_commits auth fin by_frame)+
qed

end

interpretation nullifiers: outside_pool k_nullifiers
  by unfold_locales simp_all

interpretation nullifiers_queue: outside_queue k_nullifiers
  by unfold_locales simp_all

interpretation settings: outside_pool k_config
  by unfold_locales simp_all

interpretation settings_queue: outside_queue k_config
  by unfold_locales simp_all

interpretation queue: outside_pool k_txouts
  by unfold_locales simp_all

interpretation trees: outside_queue "\<lambda>s. (k_leaves s, k_trees s, k_roots s)"
  by unfold_locales simp_all

section \<open>No nullifier is spent twice\<close>

text \<open>The nullifier a message spends.\<close>

definition nullifier_of :: "env \<Rightarrow> msg \<Rightarrow> string option" where
  "nullifier_of e m =
     (let spent = (\<lambda>pub. case parseShielderRedeemPublicInputs e pub of Inl _ \<Rightarrow> None | Inr p \<Rightarrow> Some (pi_NullifierHash p)) in
      case m of ShielderRedeemMsg r \<Rightarrow> spent (mr_Public r) | BondFromNotes b \<Rightarrow> spent (mn_Public b) | _ \<Rightarrow> None)"

lemma spent_determined: "determines k_nullifiers (ShielderNullifierSpent n)"
  by (simp add: determines_def ShielderNullifierSpent_def)

lemma spent_stays: "commits (ShielderNullifierSpent n) (handle e m)"
proof (rule nullifiers.commits_handle [OF spent_determined])
  show "commits (ShielderNullifierSpent n) (AuthorizeShielderRedeem e req)" for req
    using spent_mono_authorize by (auto simp: commits_def)
  show "commits (ShielderNullifierSpent n) (FinalizeShielderRedeem e a)" for a
    by (rule commits_same [OF spent_determined nullifiers_queue.same_finalize])
qed

lemma handle_authorizes:
  assumes "handle e m s = (Inr (), t)" and "nullifier_of e m = Some n"
  obtains req w s1 where "AuthorizeShielderRedeem e req s = (Inr w, s1)" "rd_NullifierHash w = n" "k_nullifiers t = k_nullifiers s1"
proof -
  have hash: "rd_NullifierHash w = n"
    if "parseShielderRedeemPublicInputs e (rq_Public req) = Inr p" "pi_NullifierHash p = n"
      "AuthorizeShielderRedeem e req s = (Inr w, s1)" for req w s1 p
    using that by (auto elim!: authorize_run simp: redeem_checked_def)
  consider (redeem) r where "m = ShielderRedeemMsg r" | (bond) b where "m = BondFromNotes b"
    using assms(2) by (cases m) (auto simp: nullifier_of_def Let_def)
  then show ?thesis
  proof cases
    case redeem
    from assms(1) obtain w s1 w' where a: "AuthorizeShielderRedeem e \<lparr>rq_Proof = mr_Proof r, rq_Public = mr_Public r\<rparr> s = (Inr w, s1)"
      and f: "FinalizeShielderRedeem e w s1 = (Inr w', t)"
      by (auto simp: redeem msgServer_ShielderRedeem_def discard_def act_run)
    have "rd_NullifierHash w = n"
      using assms(2) hash [OF _ _ a] by (auto simp: redeem nullifier_of_def Let_def split: sum.splits)
    then show ?thesis using sameD [OF nullifiers_queue.same_finalize f] by (rule that [OF a])
  next
    case bond
    from assms(1) obtain w s1 x oper where a: "AuthorizeShielderRedeem e \<lparr>rq_Proof = mn_Proof b, rq_Public = mn_Public b\<rparr> s = (Inr w, s1)"
      and f: "confirmBondFromNoteSpend e (mn_Signer b) (TrimSpace (mn_NodePubKey b)) oper (rd_AmountSats w) s1 = (Inr x, t)"
      by (auto simp: bond msgServer_BondFromNotes_def BondFromShieldedNotes_def discard_def act_run Let_def)
    have "rd_NullifierHash w = n"
      using assms(2) hash [OF _ _ a] by (auto simp: bond nullifier_of_def Let_def split: sum.splits)
    then show ?thesis using sameD [OF nullifiers.same_spend f] by (rule that [OF a])
  qed
qed

lemma handle_spends:
  assumes "handle e m s = (Inr (), t)" and "nullifier_of e m = Some n"
  shows "\<not> ShielderNullifierSpent n s" and "ShielderNullifierSpent n t"
  using assms by (auto elim!: handle_authorizes dest: authorize_spends simp: ShielderNullifierSpent_def)

lemma spent_reachable:
  assumes "reachable e s t" and "ShielderNullifierSpent n s"
  shows "ShielderNullifierSpent n t"
  using assms by (rule reachable_keeps) (rule spent_stays, simp add: ShielderNullifierSpent_def)

lemma spent_key: "skey (TrimSpace n) = skey (TrimSpace n') \<Longrightarrow> ShielderNullifierSpent n s = ShielderNullifierSpent n' s"
  by (simp add: ShielderNullifierSpent_def)

section \<open>The outbound queue\<close>

lemma append_ok: "commits txouts_ok (appendBTCExactTxOut e h item)"
  unfolding commits_def using append_queued queued_ok by blast

lemma txouts_determined: "determines k_txouts txouts_ok"
  by (simp add: determines_def txouts_ok_def)

lemma txouts_ok_commits: "commits txouts_ok (handle e m)"
proof (rule queue.commits_handle [OF txouts_determined])
  show "commits txouts_ok (AuthorizeShielderRedeem e req)" for req
    unfolding commits_def by (auto elim!: authorize_run simp: txouts_ok_def)
  have sets: "commits txouts_ok (SetNodeSlotBid b)" "commits txouts_ok (addWithdrawalFee a)" "commits txouts_ok (SetShielderRedeem e w)" for a b w
    by (intro commits_same [OF txouts_determined]; auto intro!: act_keeps)+
  show "commits txouts_ok (FinalizeShielderRedeem e a)" for a
    unfolding FinalizeShielderRedeem_def FinalizeBidDepositFromNoteSpend_def QueueAuthorizedWithdrawalTxOut_def
      queueAuthorizedWithdrawalTxOut_def Let_def
    by (intro act_commits append_ok sets)+
qed

section \<open>The bonds\<close>

lemma bonds_ok_same: "same k_bonds m \<Longrightarrow> keeps bonds_ok m"
  using same_keeps [of k_bonds m "\<lambda>x. \<forall>k b. kv_get x k = Some b \<longrightarrow> skey (TrimSpace (nb_NodePubKey b)) = k \<and> nb_NodeAddress b \<noteq> []"]
  by (simp add: bonds_ok_def [abs_def])

lemma bonds_ok_ops:
  "keeps bonds_ok (recordPendingShielderNodeBond e ses amt)" "keeps bonds_ok (confirmShielderNodeBond e d)"
  "keeps bonds_ok (SetNodeOperatorFeeBasisPoints e owner n bp)" "keeps bonds_ok (transferNodeSlotSaleBond e a b amt)"
  unfolding recordPendingShielderNodeBond_def confirmShielderNodeBond_def SetNodeOperatorFeeBasisPoints_def
    transferNodeSlotSaleBond_def Let_def
  by (auto intro!: act_keeps bonds_ok_Set intro: bonds_ok_same split: prod.split)

lemma bonds_ok_spend: "keeps bonds_ok (confirmBondFromNoteSpend e owner n oper amt)"
  unfolding confirmBondFromNoteSpend_def by (auto intro!: act_keeps bonds_ok_ops)

lemma bonds_ok_select: "keeps bonds_ok (SelectNodeSlotBid e seller a b)"
proof -
  have v: "keeps bonds_ok (validateNodeSlotBidSelection seller a b)"
    by (rule bonds_ok_same) (auto simp: validateNodeSlotBidSelection_def intro!: act_keeps)
  have p: "keeps bonds_ok (paySaleBonder e au bi v rec bond prot acc bonder)" for au bi v rec bond prot acc bonder
    by (rule bonds_ok_same) (auto simp: paySaleBonder_def Let_def intro!: act_keeps split: prod.split)
  have w: "keeps bonds_ok (addWithdrawalFee d)" "keeps bonds_ok (SetNodeSlotAuction au)" "keeps bonds_ok (SetNodeSlotBid bi)" for d au bi
    by (auto intro!: act_keeps bonds_ok_same)
  show ?thesis unfolding SelectNodeSlotBid_def settleNodeSlotSale_def Let_def
    by (auto intro!: act_keeps bonds_ok_ops v p w split: prod.split)
qed

lemma bonds_ok_fees: "keeps bonds_ok (ShieldShielderFees e owner n sig cs pks)"
proof -
  have f: "keeps bonds_ok (insertFeeNotes e nps)" "keeps bonds_ok (feeClaim e owner n)" "keeps bonds_ok (addWithdrawalFee r)"
    "keeps bonds_ok (SetShielderNodeBonder e b)" "keeps bonds_ok (SetDepositRecord d)" "keeps bonds_ok (SetFeePool p)" for nps r b d p
    by (auto intro!: act_keeps bonds_ok_same split: prod.split
        simp: feeClaim_def Let_def)
  show ?thesis unfolding ShieldShielderFees_def Let_def
    by (auto intro!: act_keeps bonds_ok_Set f split: prod.split)
qed

text \<open>The invariant along every run. The handlers that write no bond are framed, the others keep it.\<close>

lemma bonds_ok_commits: "commits bonds_ok (handle e m)"
proof -
  have a: "commits bonds_ok (AuthorizeShielderRedeem e req)" for req
    unfolding commits_def by (auto elim!: authorize_run simp: bonds_ok_def)
  have f: "commits bonds_ok (FinalizeShielderRedeem e w)" for w
    unfolding FinalizeShielderRedeem_def FinalizeBidDepositFromNoteSpend_def QueueAuthorizedWithdrawalTxOut_def
      queueAuthorizedWithdrawalTxOut_def appendBTCExactTxOut_def Let_def
    by (intro commits_keeps bonds_ok_same) (auto intro!: act_keeps split: prod.split option.split)
  have p: "commits bonds_ok (PostShielderShield e owner did cs)" for owner did cs
    unfolding PostShielderShield_def ShieldUserDepositIntoPool_def shieldUserNotes_def postShieldNotes_def Let_def
    by (intro commits_keeps bonds_ok_same) (auto intro!: act_keeps split: prod.split)
  have n: "commits bonds_ok (ShieldNodeSlotSaleEntitlement e seller au b pk sig cs)" for seller au b pk sig cs
    unfolding ShieldNodeSlotSaleEntitlement_def Let_def
    by (intro commits_keeps bonds_ok_same) (auto intro!: act_keeps split: prod.split)
  have c: "commits bonds_ok (CreateNodeSlotAuction e seller no reserve expiry)"
    "commits bonds_ok (CreateNodeSlotBid e bidder au op no)" for seller no reserve expiry bidder au op
    unfolding CreateNodeSlotAuction_def validateNodeSlotAuctionCreate_def CreateNodeSlotBid_def Let_def
    by (intro commits_keeps bonds_ok_same; auto intro!: act_keeps)+
  note k = bonds_ok_ops(3) [THEN commits_keeps] bonds_ok_spend [THEN commits_keeps] bonds_ok_select [THEN commits_keeps]
    bonds_ok_fees [THEN commits_keeps]
  show ?thesis
    by (cases m; simp add: handler_defs) (intro act_commits a f p n c k)+
qed

section \<open>The commitment pool only grows\<close>

definition grown :: "env \<Rightarrow> kstate \<Rightarrow> (u64 \<Rightarrow> string list) \<Rightarrow> kstate \<Rightarrow> bool" where
  "grown e s0 L t \<longleftrightarrow> (\<exists>L'. pool_ok e t L' \<and> (\<forall>d. prefix (L d) (L' d))) \<and>
     (\<forall>k. kv_has (k_roots s0) k \<longrightarrow> kv_has (k_roots t) k)"

abbreviation pool_state :: "kstate \<Rightarrow> (string, leaf_entry) kv \<times> (string, StoredShielderTreeState) kv \<times> (string, bool) kv" where
  "pool_state s \<equiv> (k_leaves s, k_trees s, k_roots s)"

lemma grown_determined: "determines pool_state (grown e s0 L)"
  unfolding determines_def
proof (intro allI impI)
  fix s t :: kstate assume "pool_state s = pool_state t"
  then show "grown e s0 L s = grown e s0 L t" using tree_of_cong [of s t] by (simp add: grown_def pool_ok_def)
qed

lemma grown_height: "grown e s0 L (s\<lparr>k_height := h\<rparr>) = grown e s0 L s"
  using grown_determined [unfolded determines_def, rule_format, of "s\<lparr>k_height := h\<rparr>" s] by simp

lemma prefix_append_notes: "prefix (L d) (append_notes L nts d)"
  by (simp add: append_notes_def)

context merkle_engine
begin

lemma grown_insert:
  "commits (grown e s0 L) (insertShielderCommitments e nts)" "commits (grown e s0 L) (insertFeeNotes e nps)"
  unfolding commits_def grown_def
  using insert_refines(1,3) insertFee_refines prefix_append_notes by (meson prefix_order.trans)+

lemma grown_commits: "commits (grown e s0 L) (handle e m)"
proof -
  note keep = commits_same [OF grown_determined]
  have a: "commits (grown e s0 L) (AuthorizeShielderRedeem e req)" for req
    unfolding commits_def
  proof (intro allI impI)
    fix s w t assume "grown e s0 L s" and "AuthorizeShielderRedeem e req s = (Inr w, t)"
    moreover from this(2) have "pool_state s = pool_state t" by (auto elim!: authorize_run)
    ultimately show "grown e s0 L t" using grown_determined unfolding determines_def by blast
  qed
  have w: "commits (grown e s0 L) (SetDepositRecord d)" "commits (grown e s0 L) (addWithdrawalFee r)"
    "commits (grown e s0 L) (SetShielderNodeBonder e br)" "commits (grown e s0 L) (SetShielderNodeBond b)"
    "commits (grown e s0 L) (SetFeePool p)" for d r br b p
    by (rule keep, auto intro!: act_keeps)+
  have p: "commits (grown e s0 L) (PostShielderShield e owner did cs)"
    "commits (grown e s0 L) (ShieldNodeSlotSaleEntitlement e seller au bi pk sig cs)"
    "commits (grown e s0 L) (ShieldShielderFees e owner no sig cs pks)" for owner did cs seller au bi pk sig no pks
    unfolding PostShielderShield_def ShieldUserDepositIntoPool_def shieldUserNotes_def postShieldNotes_def
      ShieldNodeSlotSaleEntitlement_def ShieldShielderFees_def Let_def
    by (intro act_commits grown_insert w trees.same_claim [THEN keep])+
  note leaf = trees.same_finalize trees.same_spend trees.same_bonds trees.same_auctions trees.same_select
  show ?thesis
    by (cases m; simp add: handler_defs) (intro act_commits a p leaf [THEN keep])+
qed

lemma grown_reachable:
  assumes "reachable e s t" and "pool_ok e s L"
  shows "grown e s L t"
proof -
  have "grown e s L s" using assms(2) by (auto simp: grown_def)
  with assms(1) show ?thesis
    by (rule reachable_keeps [OF _ _ grown_commits]) (simp add: grown_height)
qed

end

section \<open>Well-formed stores along every run\<close>

definition ledger_ok :: "kstate \<Rightarrow> bool" where
  "ledger_ok s \<longleftrightarrow> bonds_ok s \<and> txouts_ok s"

lemma ledger_ok_empty: "ledger_ok empty_kstate"
  by (simp add: ledger_ok_def bonds_ok_def txouts_ok_def empty_kstate_def)

lemma ledger_ok_commits: "commits ledger_ok (handle e m)"
  using bonds_ok_commits txouts_ok_commits unfolding commits_def ledger_ok_def by blast

lemma ledger_ok_reachable: "reachable e s t \<Longrightarrow> ledger_ok s \<Longrightarrow> ledger_ok t"
  by (erule (1) reachable_keeps) (rule ledger_ok_commits, simp add: ledger_ok_def bonds_ok_def txouts_ok_def)

lemma config_reachable: "reachable e s t \<Longrightarrow> k_config t = k_config s"
proof (erule reachable_keeps)
  have det: "determines k_config (\<lambda>t. k_config t = k_config s)" by (simp add: determines_def)
  show "commits (\<lambda>t. k_config t = k_config s) (handle e m)" for m
  proof (rule settings.commits_handle [OF det])
    show "commits (\<lambda>t. k_config t = k_config s) (AuthorizeShielderRedeem e req)" for req
      unfolding commits_def by (auto elim!: authorize_run)
    show "commits (\<lambda>t. k_config t = k_config s) (FinalizeShielderRedeem e a)" for a
      by (rule commits_same [OF det settings_queue.same_finalize])
  qed
qed simp_all

end
