(* ===== verification/Pow.thy ===== *)
theory Pow
  imports Fees "HOL-Library.Multiset"
begin

text \<open>
  The proof of work that admits a deposit request (\<^verbatim>\<open>x/thornado/shielder_flow.go\<close>): the check of a
  token against the difficulty, and the retargeting of the difficulty from the durations of the
  deposits that followed.
\<close>

section \<open>Checking a token\<close>

definition currentDepositPowDifficulty :: "kstate \<Rightarrow> int" where
  "currentDepositPowDifficulty s =
     (let st = GetDepositPowDifficultyState s in
      if pd_Difficulty st > 0 then pd_Difficulty st else GetConfigInt64 Deposit_PowDifficultyMin s)"

text \<open>The bits of a digest from the most significant one of the first byte, and the loop that counts
  leading zeros.\<close>

definition digest_bits :: "string \<Rightarrow> bool list" where
  "digest_bits bytes = concat (map (\<lambda>c. map (\<lambda>i. bit (of_char c :: nat) i) [7, 6, 5, 4, 3, 2, 1, 0]) bytes)"

fun pow_scan :: "int \<Rightarrow> int \<Rightarrow> bool list \<Rightarrow> unit result" where
  "pow_scan difficulty zeros [] = Inr ()"
| "pow_scan difficulty zeros (b # bs) =
     (if b then (if zeros \<ge> difficulty then Inr () else Inl (Errorf ''deposit pow token below difficulty''))
      else if zeros + 1 \<ge> difficulty then Inr () else pow_scan difficulty (zeros + 1) bs)"

definition validateDepositPowToken :: "env \<Rightarrow> AccAddress \<Rightarrow> string \<Rightarrow> kstate \<Rightarrow> unit result" where
  "validateDepositPowToken e owner powToken s =
     (let difficulty = currentDepositPowDifficulty s in
      if difficulty \<le> 0 then Inr ()
      else if difficulty > 256 then Inl (Errorf ''deposit pow difficulty too high'')
      else pow_scan difficulty 0 (digest_bits (e_sha256 e (e_acc_string e owner @ '':'' @ powToken))))"

section \<open>Retargeting\<close>

record depositPowRetargetSample =
  sa_durationMs :: u64
  sa_weightSats :: u64

definition depositPowRetargetSamples :: "int \<Rightarrow> kstate \<Rightarrow> depositPowRetargetSample list \<times> u64" where
  "depositPowRetargetSamples sinceHeight s =
     (let records = filter (\<lambda>r. \<not> (\<not> pt_Deposited r \<or> pt_MatchedHeight r \<le> sinceHeight \<or> pt_DurationMs r = 0
            \<or> pt_DepositAmountSats r = 0)) (kv_values (k_pow_timings s)) in
      (map (\<lambda>r. \<lparr>sa_durationMs = pt_DurationMs r, sa_weightSats = pt_DepositAmountSats r\<rparr>) records,
       foldl (\<lambda>t r. t + pt_DepositAmountSats r) 0 records))"

text \<open>The loop over the sorted samples; with no sample left the last one counts.\<close>

fun percentile_scan :: "u64 \<Rightarrow> u64 \<Rightarrow> u64 \<Rightarrow> depositPowRetargetSample list \<Rightarrow> u64" where
  "percentile_scan targetWeight seen lastMs [] = lastMs"
| "percentile_scan targetWeight seen lastMs (x # xs) =
     (if seen + sa_weightSats x \<ge> targetWeight then sa_durationMs x
      else percentile_scan targetWeight (seen + sa_weightSats x) (sa_durationMs x) xs)"

definition weightedPowPercentile :: "depositPowRetargetSample list \<Rightarrow> u64 \<Rightarrow> u64 \<Rightarrow> u64" where
  "weightedPowPercentile samples totalWeight percentile =
     (if samples = [] \<or> totalWeight = 0 then 0
      else percentile_scan ((totalWeight * percentile + 99) div 100) 0 0 (sort_key sa_durationMs samples))"

text \<open>The two loops of \<^verbatim>\<open>retargetPowDifficulty\<close>, which count at most the given number of steps.\<close>

fun raise_steps :: "nat \<Rightarrow> u64 \<Rightarrow> u64 \<Rightarrow> nat" where
  "raise_steps 0 adjusted targetMs = 0"
| "raise_steps (Suc n) adjusted targetMs =
     (if adjusted * 2 < targetMs then Suc (raise_steps n (adjusted * 2) targetMs) else 0)"

fun lower_steps :: "nat \<Rightarrow> u64 \<Rightarrow> u64 \<Rightarrow> nat" where
  "lower_steps 0 adjusted targetMs = 0"
| "lower_steps (Suc n) adjusted targetMs =
     (if adjusted > targetMs * 2 then Suc (lower_steps n (adjusted div 2) targetMs) else 0)"

definition retargetPowDifficulty :: "int \<Rightarrow> u64 \<Rightarrow> u64 \<Rightarrow> int \<Rightarrow> int" where
  "retargetPowDifficulty current observedMs targetMs maxStep0 =
     (if current \<le> 0 \<or> observedMs = 0 \<or> targetMs = 0 then current
      else let maxStep = (if maxStep0 \<le> 0 then 1 else maxStep0) in
        if observedMs * 2 < targetMs then wrap64 (current + int (raise_steps (nat maxStep) observedMs targetMs))
        else if observedMs > targetMs * 2 then wrap64 (current - int (lower_steps (nat maxStep) observedMs targetMs))
        else current)"

definition RetargetDepositPowDifficulty :: "unit kact" where
  "RetargetDepositPowDifficulty =
     bindA (gets GetDepositPowDifficultyState) (\<lambda>state0.
     bindA (gets (GetConfigInt64 Deposit_PowDifficultyMin)) (\<lambda>minDifficulty.
     let state1 = (if pd_Difficulty state0 \<le> 0 then state0\<lparr>pd_Difficulty := minDifficulty\<rparr> else state0) in
     bindA (gets (depositPowRetargetSamples (pd_LastRetargetHeight state1))) (\<lambda>(samples, totalWeight).
     bindA (gets (ConfigUint64 Deposit_PowSamplesMin)) (\<lambda>minSamples.
     bindA (gets k_height) (\<lambda>h.
     if of_nat (length samples) < minSamples \<or> totalWeight = 0 then
       SetDepositPowDifficultyState (state1\<lparr>pd_LastRetargetHeight := h, pd_SampleCount := of_nat (length samples), pd_UpdatedHeight := h\<rparr>)
     else
       bindA (gets (GetConfigInt64 Deposit_PowTargetPercentile)) (\<lambda>percentile0.
       let percentile = (if percentile0 \<le> 0 \<or> percentile0 > 100 then 90 else percentile0) in
       bindA (gets (ConfigUint64 Deposit_PowTargetSeconds)) (\<lambda>targetSeconds.
       let targetMs = (if targetSeconds * 1000 = 0 then 10000 else targetSeconds * 1000);
           p90 = weightedPowPercentile samples totalWeight (u64_of_int percentile) in
       bindA (gets (GetConfigInt64 Deposit_PowRetargetStepMax)) (\<lambda>maxStep.
       bindA (gets (GetConfigInt64 Deposit_PowDifficultyMax)) (\<lambda>maxDifficulty.
       let next0 = retargetPowDifficulty (pd_Difficulty state1) p90 targetMs maxStep;
           next1 = (if next0 < minDifficulty then minDifficulty else next0);
           next = (if maxDifficulty > 0 \<and> next1 > maxDifficulty then maxDifficulty else next1) in
       SetDepositPowDifficultyState (state1\<lparr>pd_Difficulty := next, pd_LastRetargetHeight := h,
         pd_SampleCount := of_nat (length samples), pd_WeightedP90Ms := p90, pd_UpdatedHeight := h\<rparr>))))))))))"

section \<open>The check is a bound on the digest\<close>

lemma pow_scan_zeros:
  "zeros < difficulty \<Longrightarrow> pow_scan difficulty zeros bs = Inr () \<longleftrightarrow> list_all Not (take (nat (difficulty - zeros)) bs)"
proof (induction bs arbitrary: zeros)
  case (Cons b bs)
  then have "nat (difficulty - zeros) = Suc (nat (difficulty - (zeros + 1)))" by simp
  with Cons show ?case by (cases "difficulty \<le> zeros + 1") auto
qed simp

definition bits_value :: "bool list \<Rightarrow> nat" where
  "bits_value bs = foldl (\<lambda>v b. v * 2 + of_bool b) 0 bs"

lemma foldl_bits: "foldl (\<lambda>v b. v * 2 + of_bool b) v bs = v * 2 ^ length bs + bits_value bs"
proof (induction bs arbitrary: v)
  case (Cons b bs)
  show ?case using Cons [of "v * 2 + of_bool b"] Cons [of "of_bool b"] by (simp add: bits_value_def algebra_simps)
qed (simp add: bits_value_def)

lemma bits_value_Cons: "bits_value (b # bs) = of_bool b * 2 ^ length bs + bits_value bs"
  using foldl_bits [of "of_bool b" bs] by (simp add: bits_value_def)

lemma bits_value_less: "bits_value bs < 2 ^ length bs"
  by (induction bs) (auto simp: bits_value_Cons bits_value_def [of "[]"])

lemma bits_value_bound: "k \<le> length bs \<Longrightarrow> bits_value bs < 2 ^ (length bs - k) \<longleftrightarrow> list_all Not (take k bs)"
proof (induction bs arbitrary: k)
  case (Cons b bs)
  show ?case
  proof (cases k)
    case 0 then show ?thesis using bits_value_less [of "b # bs"] by simp
  next
    case (Suc j)
    have "(2 :: nat) ^ (length bs - j) \<le> 2 ^ length bs" by (intro power_increasing) auto
    then have "\<not> 2 ^ length bs + bits_value bs < 2 ^ (length bs - j)" by linarith
    then show ?thesis using Cons Suc by (cases b) (simp_all add: bits_value_Cons)
  qed
qed (simp add: bits_value_def)

lemma byte_bits:
  "foldl (\<lambda>v b. v * 2 + of_bool b) (v :: nat) (map (\<lambda>i. bit (of_char c :: nat) i) [7, 6, 5, 4, 3, 2, 1, 0]) = v * 256 + of_char c"
proof -
  have "bit (of_char c :: nat) 7 = digit7 c" "bit (of_char c :: nat) 6 = digit6 c" "bit (of_char c :: nat) 5 = digit5 c"
    "bit (of_char c :: nat) 4 = digit4 c" "bit (of_char c :: nat) 3 = digit3 c" "bit (of_char c :: nat) 2 = digit2 c"
    "bit (of_char c :: nat) 1 = digit1 c" "bit (of_char c :: nat) 0 = digit0 c"
    unfolding of_char_def bit_horner_sum_bit_iff by simp_all
  then have "map (\<lambda>i. bit (of_char c :: nat) i) [7, 6, 5, 4, 3, 2, 1, 0]
      = [digit7 c, digit6 c, digit5 c, digit4 c, digit3 c, digit2 c, digit1 c, digit0 c]" by (simp only: list.map)
  then show ?thesis by (simp only: foldl.simps) (simp add: of_char_def)
qed

lemma digest_value: "bits_value (digest_bits bytes) = be_value bytes"
proof -
  have "foldl (\<lambda>v b. v * 2 + of_bool b) v (digest_bits bytes) = foldl (\<lambda>v c. v * 256 + of_char c) v bytes" for v :: nat
  proof (induction bytes arbitrary: v)
    case (Cons c bytes)
    have "digest_bits (c # bytes) = map (\<lambda>i. bit (of_char c :: nat) i) [7, 6, 5, 4, 3, 2, 1, 0] @ digest_bits bytes"
      by (simp only: digest_bits_def list.map concat.simps)
    with Cons show ?case by (simp only: foldl_append byte_bits foldl.simps)
  qed (simp add: digest_bits_def)
  then show ?thesis by (simp add: bits_value_def be_value_def)
qed

lemma length_digest_bits: "length (digest_bits bytes) = 8 * length bytes"
  by (induction bytes) (simp_all add: digest_bits_def)

lemma pow_token_bound:
  assumes "0 < currentDepositPowDifficulty s" "currentDepositPowDifficulty s \<le> 256" "\<And>x. length (e_sha256 e x) = 32"
  shows "validateDepositPowToken e owner token s = Inr () \<longleftrightarrow>
    be_value (e_sha256 e (e_acc_string e owner @ '':'' @ token)) < 2 ^ nat (256 - currentDepositPowDifficulty s)"
proof -
  let ?d = "currentDepositPowDifficulty s" and ?h = "e_sha256 e (e_acc_string e owner @ '':'' @ token)"
  have "length (digest_bits ?h) - nat ?d = nat (256 - ?d)" "nat ?d \<le> length (digest_bits ?h)"
    using assms by (auto simp: length_digest_bits)
  then show ?thesis
    using assms(1,2) bits_value_bound [of "nat ?d" "digest_bits ?h"]
    by (simp add: validateDepositPowToken_def Let_def pow_scan_zeros digest_value)
qed

section \<open>The percentile\<close>

definition weight_where :: "(u64 \<Rightarrow> bool) \<Rightarrow> depositPowRetargetSample list \<Rightarrow> nat" where
  "weight_where P xs = sum_list (map (\<lambda>x. unat (sa_weightSats x)) (filter (\<lambda>x. P (sa_durationMs x)) xs))"

lemma weight_where_append [simp]: "weight_where P (xs @ ys) = weight_where P xs + weight_where P ys"
  by (simp add: weight_where_def)

lemma weight_where_simps [simp]:
  "weight_where P [] = 0" "weight_where P (x # xs) = (if P (sa_durationMs x) then unat (sa_weightSats x) else 0) + weight_where P xs"
  by (simp_all add: weight_where_def)

lemma weight_where_all: "(\<And>x. x \<in> set xs \<Longrightarrow> P (sa_durationMs x)) \<Longrightarrow> weight_where P xs = weight_where (\<lambda>_. True) xs"
  by (simp add: weight_where_def)

lemma weight_where_none: "(\<And>x. x \<in> set xs \<Longrightarrow> \<not> P (sa_durationMs x)) \<Longrightarrow> weight_where P xs = 0"
  by (simp add: weight_where_def)

lemma weight_where_le: "weight_where P xs \<le> weight_where (\<lambda>_. True) xs"
  by (induction xs) (simp_all add: weight_where_def)

lemma weight_where_sort: "weight_where P (sort_key f xs) = weight_where P xs"
proof -
  let ?g = "\<lambda>x. unat (sa_weightSats x)"
  have "mset (map ?g (filter (\<lambda>x. P (sa_durationMs x)) (sort_key f xs))) = mset (map ?g (filter (\<lambda>x. P (sa_durationMs x)) xs))"
    by (simp add: mset_filter)
  from arg_cong [OF this, of sum_mset] show ?thesis unfolding weight_where_def sum_mset_sum_list .
qed

lemma percentile_scan_run:
  "sorted (map sa_durationMs (pre @ xs)) \<Longrightarrow> unat seen = weight_where (\<lambda>_. True) pre \<Longrightarrow>
   weight_where (\<lambda>_. True) (pre @ xs) < 2 ^ 64 \<Longrightarrow> unat seen < unat target \<Longrightarrow> unat target \<le> weight_where (\<lambda>_. True) (pre @ xs) \<Longrightarrow>
   d = percentile_scan target seen l xs \<Longrightarrow>
   d \<in> sa_durationMs ` set xs \<and> unat target \<le> weight_where (\<lambda>t. t \<le> d) (pre @ xs) \<and> weight_where (\<lambda>t. t < d) (pre @ xs) < unat target"
proof (induction xs arbitrary: pre seen l)
  case (Cons x xs)
  have sum: "unat (seen + sa_weightSats x) = unat seen + unat (sa_weightSats x)"
    using Cons.prems(2,3) by (intro unat_add_u64) simp
  show ?case
  proof (cases "seen + sa_weightSats x \<ge> target")
    case True
    then have d: "d = sa_durationMs x" using Cons.prems(6) by simp
    have before: "\<And>y. y \<in> set pre \<Longrightarrow> sa_durationMs y \<le> d" and after: "\<And>y. y \<in> set xs \<Longrightarrow> d \<le> sa_durationMs y"
      using Cons.prems(1) by (auto simp: sorted_append d)
    have "weight_where (\<lambda>t. t \<le> d) pre = unat seen" using weight_where_all [of pre "\<lambda>t. t \<le> d"] before Cons.prems(2) by simp
    moreover have "weight_where (\<lambda>t. t < d) xs = 0" using after by (auto intro!: weight_where_none simp: leD)
    moreover have "weight_where (\<lambda>t. t < d) pre \<le> unat seen" using weight_where_le Cons.prems(2) by metis
    moreover have "unat target \<le> unat seen + unat (sa_weightSats x)" using True sum by (simp add: word_le_nat_alt)
    ultimately show ?thesis using Cons.prems(4) by (simp add: d)
  next
    case False
    then have "d \<in> sa_durationMs ` set xs \<and> unat target \<le> weight_where (\<lambda>t. t \<le> d) ((pre @ [x]) @ xs) \<and>
        weight_where (\<lambda>t. t < d) ((pre @ [x]) @ xs) < unat target"
      using Cons.prems sum by (intro Cons.IH) (simp_all add: word_le_nat_alt not_le)
    then show ?thesis by simp
  qed
qed simp

lemma percentile_split:
  assumes sum: "weight_where (\<lambda>_. True) xs = unat tot" "0 < unat tot" and pct: "0 < unat p" "unat p \<le> 100"
    and fits: "unat tot * unat p + 99 < 2 ^ 64"
  defines "d \<equiv> weightedPowPercentile xs tot p"
  shows "d \<in> sa_durationMs ` set xs" and "unat tot * unat p \<le> 100 * weight_where (\<lambda>t. t \<le> d) xs"
    and "100 * weight_where (\<lambda>t. t < d) xs < unat tot * unat p"
proof -
  let ?target = "(tot * p + 99) div 100" and ?x = "unat tot * unat p" and ?s = "sort_key sa_durationMs xs"
  have "unat (tot * p) = ?x" using fits by (intro unat_mult_u64) simp
  then have t: "unat ?target = (?x + 99) div 100" using fits by (simp add: unat_div unat_add_u64)
  have ne: "xs \<noteq> []" using sum by (auto simp: weight_where_def)
  have d: "d = percentile_scan ?target 0 0 ?s" using ne sum(2) by (auto simp: d_def weightedPowPercentile_def)
  have "1 \<le> ?x" using sum(2) pct(1) by (simp add: Suc_le_eq)
  moreover have "?x \<le> unat tot * 100" using pct(2) by simp
  ultimately have lt: "0 < (?x + 99) div 100" "(?x + 99) div 100 \<le> unat tot" by linarith+
  have w: "weight_where P ?s = weight_where P xs" for P by (rule weight_where_sort)
  have "unat tot < 2 ^ 64" using unat_lt_64 [of tot] by simp
  then have "d \<in> sa_durationMs ` set ?s \<and> unat ?target \<le> weight_where (\<lambda>t. t \<le> d) ([] @ ?s) \<and> weight_where (\<lambda>t. t < d) ([] @ ?s) < unat ?target"
    using lt t w sum by (intro percentile_scan_run [OF _ _ _ _ _ d]) simp_all
  then have r: "d \<in> sa_durationMs ` set xs" "(?x + 99) div 100 \<le> weight_where (\<lambda>t. t \<le> d) xs" "weight_where (\<lambda>t. t < d) xs < (?x + 99) div 100"
    unfolding t append_Nil w by simp_all
  show "d \<in> sa_durationMs ` set xs" by (rule r)
  show "?x \<le> 100 * weight_where (\<lambda>t. t \<le> d) xs" using r(2) by linarith
  show "100 * weight_where (\<lambda>t. t < d) xs < ?x" using r(3) by linarith
qed

section \<open>The difficulty moves by bounded steps\<close>

lemma raise_steps_le: "raise_steps n a target \<le> n"
  by (induction n a target rule: raise_steps.induct) auto

lemma lower_steps_le: "lower_steps n a target \<le> n"
  by (induction n a target rule: lower_steps.induct) auto

lemma retarget_step:
  assumes "0 < c" "c + max 1 m < 2 ^ 63"
  shows "\<bar>retargetPowDifficulty c obs target m - c\<bar> \<le> max 1 m"
    and "unat obs * 2 < unat target \<Longrightarrow> c \<le> retargetPowDifficulty c obs target m"
    and "unat obs * 2 < 2 ^ 64 \<Longrightarrow> unat target * 2 < unat obs \<Longrightarrow> retargetPowDifficulty c obs target m \<le> c"
proof -
  define k where "k = (if m \<le> 0 then 1 else m)"
  have k: "int (nat k) = max 1 m" by (auto simp: k_def max_def)
  have up: "int (raise_steps (nat k) obs target) \<le> max 1 m" and dn: "int (lower_steps (nat k) obs target) \<le> max 1 m"
    using raise_steps_le [of "nat k" obs target] lower_steps_le [of "nat k" obs target] k by linarith+
  then have w: "wrap64 (c + int (raise_steps (nat k) obs target)) = c + int (raise_steps (nat k) obs target)"
    "wrap64 (c - int (lower_steps (nat k) obs target)) = c - int (lower_steps (nat k) obs target)"
    using assms by (auto intro!: wrap64_id)
  note r = retargetPowDifficulty_def [of c obs target m, unfolded Let_def, folded k_def, unfolded w]
  show "\<bar>retargetPowDifficulty c obs target m - c\<bar> \<le> max 1 m" using up dn unfolding r by (auto split: if_splits)
  have "unat obs * 2 < unat target \<Longrightarrow> obs * 2 < target"
  proof -
    assume o: "unat obs * 2 < unat target"
    have "unat obs * 2 < 18446744073709551616" using o unat_lt_64 [of target] by linarith
    then have "unat obs * unat (2 :: u64) < 2 ^ 64" by simp
    from unat_mult_u64 [OF this] o show ?thesis by (simp add: word_less_nat_alt)
  qed
  then show "unat obs * 2 < unat target \<Longrightarrow> c \<le> retargetPowDifficulty c obs target m" unfolding r by auto
  have "unat obs * 2 < 2 ^ 64 \<Longrightarrow> unat target * 2 < unat obs \<Longrightarrow> \<not> obs * 2 < target"
    using unat_lt_64 [of obs] unat_mult_u64 [of obs 2] by (simp add: word_less_nat_alt)
  then show "unat obs * 2 < 2 ^ 64 \<Longrightarrow> unat target * 2 < unat obs \<Longrightarrow> retargetPowDifficulty c obs target m \<le> c"
    unfolding r by auto
qed

lemma retarget_state:
  fixes s defines "mn \<equiv> GetConfigInt64 Deposit_PowDifficultyMin s" and "mx \<equiv> GetConfigInt64 Deposit_PowDifficultyMax s"
    and "c \<equiv> currentDepositPowDifficulty s"
  obtains d where "RetargetDepositPowDifficulty s = (Inr (), s\<lparr>k_pow_difficulty := Some d\<rparr>)" "pd_LastRetargetHeight d = k_height s"
    "pd_Difficulty d = c"
  | d obs target n where "RetargetDepositPowDifficulty s = (Inr (), s\<lparr>k_pow_difficulty := Some d\<rparr>)" "pd_LastRetargetHeight d = k_height s"
    "n = retargetPowDifficulty c obs target (GetConfigInt64 Deposit_PowRetargetStepMax s)"
    "pd_Difficulty d = (if mx > 0 \<and> (if n < mn then mn else n) > mx then mx else if n < mn then mn else n)"
proof -
  let ?d0 = "GetDepositPowDifficultyState s"
  obtain xs w where xs: "depositPowRetargetSamples (pd_LastRetargetHeight ?d0) s = (xs, w)" by fastforce
  have c: "c = (if pd_Difficulty ?d0 \<le> 0 then mn else pd_Difficulty ?d0)"
    by (simp add: c_def currentDepositPowDifficulty_def Let_def mn_def)
  note defs = RetargetDepositPowDifficulty_def act_defs Let_def SetDepositPowDifficultyState_def mn_def mx_def
  show thesis
  proof (cases "of_nat (length xs) < ConfigUint64 Deposit_PowSamplesMin s \<or> w = 0")
    case True
    show thesis
      by (rule that(1) [of "(if pd_Difficulty ?d0 \<le> 0 then ?d0\<lparr>pd_Difficulty := mn\<rparr> else ?d0)\<lparr>pd_LastRetargetHeight := k_height s,
          pd_SampleCount := of_nat (length xs), pd_UpdatedHeight := k_height s\<rparr>"])
        (use True xs c in \<open>simp_all add: defs\<close>)
  next
    case False
    let ?p = "GetConfigInt64 Deposit_PowTargetPercentile s" and ?ts = "ConfigUint64 Deposit_PowTargetSeconds s * 1000"
    let ?obs = "weightedPowPercentile xs w (u64_of_int (if ?p \<le> 0 \<or> ?p > 100 then 90 else ?p))"
      and ?target = "if ?ts = 0 then 10000 else ?ts"
    let ?n = "retargetPowDifficulty c ?obs ?target (GetConfigInt64 Deposit_PowRetargetStepMax s)"
    show thesis
      by (rule that(2) [of "?d0\<lparr>pd_Difficulty := (if mx > 0 \<and> (if ?n < mn then mn else ?n) > mx then mx else if ?n < mn then mn else ?n),
          pd_LastRetargetHeight := k_height s, pd_SampleCount := of_nat (length xs), pd_WeightedP90Ms := ?obs,
          pd_UpdatedHeight := k_height s\<rparr>" ?n ?obs ?target])
        (use False xs c in \<open>simp_all add: defs\<close>)
  qed
qed

lemma retarget_run:
  assumes run: "RetargetDepositPowDifficulty s = (Inr u, t)"
    and cfg: "0 < GetConfigInt64 Deposit_PowDifficultyMin s"
      "GetConfigInt64 Deposit_PowDifficultyMax s + max 1 (GetConfigInt64 Deposit_PowRetargetStepMax s) < 2 ^ 63"
    and cur: "GetConfigInt64 Deposit_PowDifficultyMin s \<le> currentDepositPowDifficulty s"
      "currentDepositPowDifficulty s \<le> GetConfigInt64 Deposit_PowDifficultyMax s"
  shows "GetConfigInt64 Deposit_PowDifficultyMin s \<le> currentDepositPowDifficulty t"
    and "currentDepositPowDifficulty t \<le> GetConfigInt64 Deposit_PowDifficultyMax s"
    and "\<bar>currentDepositPowDifficulty t - currentDepositPowDifficulty s\<bar> \<le> max 1 (GetConfigInt64 Deposit_PowRetargetStepMax s)"
    and "pd_LastRetargetHeight (GetDepositPowDifficultyState t) = k_height s"
proof -
  let ?mn = "GetConfigInt64 Deposit_PowDifficultyMin s" and ?mx = "GetConfigInt64 Deposit_PowDifficultyMax s"
  let ?c = "currentDepositPowDifficulty s" and ?st = "max 1 (GetConfigInt64 Deposit_PowRetargetStepMax s)"
  have step: "\<bar>retargetPowDifficulty ?c obs target (GetConfigInt64 Deposit_PowRetargetStepMax s) - ?c\<bar> \<le> ?st" for obs target
    using cfg cur by (intro retarget_step(1)) linarith+
  have "\<exists>d. t = s\<lparr>k_pow_difficulty := Some d\<rparr> \<and> pd_LastRetargetHeight d = k_height s \<and>
      ?mn \<le> pd_Difficulty d \<and> pd_Difficulty d \<le> ?mx \<and> \<bar>pd_Difficulty d - ?c\<bar> \<le> ?st"
  proof (cases s rule: retarget_state)
    case (1 d) then show ?thesis using run cur by auto
  next
    case (2 d obs target n)
    then have "?mn \<le> pd_Difficulty d \<and> pd_Difficulty d \<le> ?mx \<and> \<bar>pd_Difficulty d - ?c\<bar> \<le> ?st"
      using step [of obs target] cur cfg(1) by (simp split: if_splits)
    with 2 run show ?thesis by auto
  qed
  then obtain d where t: "t = s\<lparr>k_pow_difficulty := Some d\<rparr>" and h: "pd_LastRetargetHeight d = k_height s"
    and d': "?mn \<le> pd_Difficulty d" "pd_Difficulty d \<le> ?mx" "\<bar>pd_Difficulty d - ?c\<bar> \<le> ?st" by blast
  have "currentDepositPowDifficulty t = pd_Difficulty d"
    using d' cfg(1) by (simp add: t currentDepositPowDifficulty_def GetDepositPowDifficultyState_def Let_def)
  with d' show "?mn \<le> currentDepositPowDifficulty t" "currentDepositPowDifficulty t \<le> ?mx"
    "\<bar>currentDepositPowDifficulty t - ?c\<bar> \<le> ?st" by simp_all
  show "pd_LastRetargetHeight (GetDepositPowDifficultyState t) = k_height s" by (simp add: t h GetDepositPowDifficultyState_def)
qed

end
