(* ===== verification/Deposits.thy ===== *)
theory Deposits
  imports Pow Withdraw
begin

text \<open>
  Deposits (\<^verbatim>\<open>x/thornado/deposit_flow.go\<close>): issuing a deposit address for a proof of work, matching an
  observed Bitcoin payment, sweeping it into the current vault, returning what arrived after the address
  expired, and purging old addresses.
\<close>

section \<open>Churns and expiry\<close>

definition getLastChurnHeight :: "env \<Rightarrow> kstate \<Rightarrow> int" where
  "getLastChurnHeight e s =
     (case GetBaseVaultsByStatus e ActiveVault s of
        Inl _ \<Rightarrow> 0
      | Inr vaults \<Rightarrow> foldl (\<lambda>l v. if va_StatusSince v > l then va_StatusSince v else l) 0 vaults)"

text \<open>Heights and intervals stay far below \<open>2 ^ 63\<close>: the sums of this section do not wrap.\<close>

function next_after :: "int \<Rightarrow> int \<Rightarrow> int \<Rightarrow> int" where
  "next_after interval height nxt = (if 0 < interval \<and> nxt \<le> height then next_after interval height (nxt + interval) else nxt)"
  by auto
termination by (relation "measure (\<lambda>(interval, height, nxt). nat (height + 1 - nxt))") auto

declare next_after.simps [simp del]

definition nextChurnHeightAfter :: "env \<Rightarrow> int \<Rightarrow> kstate \<Rightarrow> int" where
  "nextChurnHeightAfter e height s =
     (let interval = getConfigDurationBlocks Churn_IntervalMinutes s in
      if interval \<le> 0 then 0 else next_after interval height (getLastChurnHeight e s + interval))"

definition nextDepositAddressExpiryHeight :: "env \<Rightarrow> kstate \<Rightarrow> int" where
  "nextDepositAddressExpiryHeight e s = nextChurnHeightAfter e (k_height s) s"

definition depositAddressPurgeHeight :: "int \<Rightarrow> kstate \<Rightarrow> int" where
  "depositAddressPurgeHeight createdHeight s =
     (let days = GetConfigInt64 Deposit_RefundIfForgottenDays s in
      if days \<le> 0 then 0
      else let blocks = MinutesToBlocks (wrap64 (days * 24 * 60)) (GetConfigInt64 Chain_BlockTimeSeconds s) in
        if blocks \<le> 0 then 0 else createdHeight + blocks)"

definition depositRefundEligibleHeight :: "env \<Rightarrow> int \<Rightarrow> kstate \<Rightarrow> int" where
  "depositRefundEligibleHeight e expiresAtHeight s =
     (if expiresAtHeight > k_height s then nextChurnHeightAfter e expiresAtHeight s else nextChurnHeightAfter e (k_height s) s)"

definition vaultPubKeyNoLongerActive :: "env \<Rightarrow> PubKey \<Rightarrow> kstate \<Rightarrow> bool" where
  "vaultPubKeyNoLongerActive e pubKey s \<longleftrightarrow>
     pubKey \<noteq> [] \<and>
     (case GetBaseVaultsByStatus e ActiveVault s of
        Inl _ \<Rightarrow> False
      | Inr activeVaults \<Rightarrow> activeVaults \<noteq> [] \<and> list_all (\<lambda>v. va_PubKey v \<noteq> pubKey) activeVaults)"

section \<open>Issuing an address\<close>

definition RegisterDepositPowToken :: "env \<Rightarrow> AccAddress \<Rightarrow> string \<Rightarrow> u64 \<Rightarrow> DepositSession kact" where
  "RegisterDepositPowToken e owner powToken0 powDurationMs =
     err_if (owner = []) ''missing deposit owner''
    (let powToken = TrimSpace powToken0 in
     err_if (powToken = []) ''missing deposit pow token''
    (bindA (gets currentDepositPowDifficulty) (\<lambda>powDifficulty.
     bindA (gets (validateDepositPowToken e owner powToken)) (\<lambda>v. bindA (lift_result v) (\<lambda>_.
     bindA (gets k_height) (\<lambda>h.
     bindA (gets (GetDepositSessionByPowToken e powToken)) (\<lambda>r.
     bindA (gets (getConfigDurationBlocks Deposit_PowExpiryMinutes)) (\<lambda>expiry.
     err_if (case r of Inl _ \<Rightarrow> False | Inr existing \<Rightarrow> \<not> Address_IsEmpty (ds_DepositAddress existing) \<and>
         (expiry \<le> 0 \<or> wrap64 (ds_CreatedHeight existing + expiry) \<ge> h)) ''deposit pow token already used''
    (bindA (gets (currentBTCVaultAddress e)) (\<lambda>rv. bindA (lift_result rv) (\<lambda>(vault, _).
     bindA (AllocateVaultDepositPathIndex (va_PubKey vault) VaultDepositPathUser) (\<lambda>(depositNonce, pathIndex).
     bindA (lift_result (DeriveBTCAddress e vault pathIndex)) (\<lambda>address.
     bindA (gets (nextDepositAddressExpiryHeight e)) (\<lambda>expiresAtHeight.
     bindA (gets (depositAddressPurgeHeight h)) (\<lambda>purgeAtHeight.
     let path = VaultDepositPath VaultDepositPathUser depositNonce DepositPathCommitmentRoot;
         session = DepositSession_zero\<lparr>ds_Owner := owner, ds_PowToken := powToken, ds_DepositAddress := address,
           ds_VaultPubKey := va_PubKey vault, ds_DepositPathIndex := pathIndex, ds_DepositPath := path,
           ds_DepositPathType := pathTypeString VaultDepositPathUser, ds_DepositNonce := depositNonce, ds_CreatedHeight := h,
           ds_ExpiresAtHeight := expiresAtHeight, ds_PurgeAtHeight := purgeAtHeight, ds_PowDurationMs := powDurationMs,
           ds_PowDifficulty := powDifficulty, ds_Status := DepositStatusAddressIssued\<rparr>;
         mapping = DepositAddress_zero\<lparr>da_Address := address, da_VaultPubKey := va_PubKey vault, da_PathIndex := pathIndex,
           da_Path := path, da_PathType := pathTypeString VaultDepositPathUser, da_DepositNonce := depositNonce, da_Owner := owner,
           da_PowToken := powToken, da_CreatedHeight := h, da_ExpiresAtHeight := expiresAtHeight, da_PurgeAtHeight := purgeAtHeight,
           da_PowDurationMs := powDurationMs, da_PowDifficulty := powDifficulty\<rparr> in
     bindA (SetDepositAddress mapping) (\<lambda>_.
     bindA (SetDepositPowTiming (DepositPowTiming_zero\<lparr>pt_PowToken := powToken, pt_Owner := owner, pt_DurationMs := powDurationMs,
       pt_Difficulty := powDifficulty, pt_CreatedHeight := h\<rparr>)) (\<lambda>_.
     bindA (SetDepositSession e session) (\<lambda>_. ret session))))))))))))))))))"

section \<open>Sweeping a deposit\<close>

definition GetGasDetails :: "Chain \<Rightarrow> kstate \<Rightarrow> (Coin \<times> int) result" where
  "GetGasDetails chain s =
     (let networkFee = GetNetworkFee chain s in
      case NetworkFee_Valid networkFee of
        Inl err \<Rightarrow> Inl (Wrapf ''network fee for chain is invalid'' err)
      | Inr _ \<Rightarrow>
          let rate0 = unat (nf_TransactionFeeRate networkFee);
              gasRate = (if Chain_Equals chain BTCChain then rate0 else rate0 * 3 div 2);
              maxGasAmount = gasRate * unat (nf_TransactionSize networkFee);
              maxGasAmount1e8 = RoundToDecimal (maxGasAmount * One div GetGasUnitsPerOne chain) DefaultCoinDecimals in
          (case Uint64 gasRate of
             Inl err \<Rightarrow> Inl err
           | Inr rate \<Rightarrow> Inr ((NewCoin (GetGasAsset chain) maxGasAmount1e8)\<lparr>co_Decimals := DefaultCoinDecimals\<rparr>, sint rate)))"

definition GetMaxGas :: "Chain \<Rightarrow> kstate \<Rightarrow> Coin result" where
  "GetMaxGas chain s = (case GetGasDetails chain s of Inl err \<Rightarrow> Inl err | Inr (c, _) \<Rightarrow> Inr c)"

definition queueVaultPathSweepWithInHash :: "env \<Rightarrow> ObservedTx \<Rightarrow> PubKey \<Rightarrow> u64 \<Rightarrow> TxID \<Rightarrow> unit kact" where
  "queueVaultPathSweepWithInHash e tx sourcePubKey pathIndex inHash =
     err_if (sourcePubKey = []) ''missing sweep vault pubkey''
    (err_if (TxID_IsEmpty inHash) ''missing sweep in hash''
    (let coin = GetCoin (t_Coins (ob_Tx tx)) BTCAsset in
     err_if (Coin_IsEmpty coin \<or> co_Amount coin = 0) ''missing sweep bitcoin amount''
    (bindA (gets (currentBTCVaultAddress e)) (\<lambda>rv. bindA (lift_result rv) (\<lambda>(currentVault, currentRoot).
     bindA (lift_result (e_taproot e sourcePubKey pathIndex)) (\<lambda>sourceAddr.
     if sourcePubKey = va_PubKey currentVault \<and> pathIndex = MainVaultPathIndex \<and> Address_Equals (t_ToAddress (ob_Tx tx)) currentRoot
     then ret ()
     else
     bindA (gets (GetMaxGas BTCChain)) (\<lambda>rg. bindA (lift_wrap ''fail to get bitcoin sweep max gas'' rg) (\<lambda>maxGasCoin.
     err_if (co_Amount maxGasCoin \<noteq> 0 \<and> co_Amount coin \<le> co_Amount maxGasCoin) ''sweep amount is not enough to pay gas''
    (let amount = co_Amount coin - co_Amount maxGasCoin in
     bindA (gets (GetConfigInt64 BTC_DefaultSatsPerVByte)) (\<lambda>defaultRate.
     bindA (gets (GetNetworkFee BTCChain)) (\<lambda>nf.
     bindA (lift_result (Uint64 (co_Amount coin))) (\<lambda>amountSats.
     let gasRate = (if nf_TransactionFeeRate nf > 0 then sint (nf_TransactionFeeRate nf) else defaultRate);
         item = TxOutItem_zero\<lparr>to_Chain := BTCChain, to_ToAddress := currentRoot, to_VaultPubKey := sourcePubKey,
           to_Coin := NewCoin BTCAsset amount, to_MaxGas := [maxGasCoin], to_GasRate := gasRate, to_InHash := inHash,
           to_ModuleName := BaseName, to_VaultPathIndex := pathIndex,
           to_TxType := (if pathIndex = MainVaultPathIndex then TxOutTypeMigrate else TxOutTypeSweep),
           to_SourceInputs := [\<lparr>ti_TxId = t_ID (ob_Tx tx), ti_Vout = t_SourceVout (ob_Tx tx), ti_AmountSats = amountSats,
             ti_PathIndex = pathIndex\<rparr>]\<rparr> in
     bindA (gets k_height) (\<lambda>h. appendBTCExactTxOut e h item)))))))))))))"

definition queueVaultPathSweep :: "env \<Rightarrow> ObservedTx \<Rightarrow> PubKey \<Rightarrow> u64 \<Rightarrow> unit kact" where
  "queueVaultPathSweep e tx sourcePubKey pathIndex = queueVaultPathSweepWithInHash e tx sourcePubKey pathIndex (t_ID (ob_Tx tx))"

section \<open>Matching an observed payment\<close>

definition BTCOutpointScopedTxID :: "env \<Rightarrow> Tx \<Rightarrow> TxID" where
  "BTCOutpointScopedTxID e tx =
     (if \<not> Chain_Equals (t_Chain tx) BTCChain \<or> TxID_IsEmpty (t_ID tx) \<or> t_SourceVout tx = 0 then t_ID tx
      else case NewTxID (EncodeUpper (e_sha256 e (''thornado:btc-outpoint:'' @ t_ID tx @ '':'' @ show_nat (unat (t_SourceVout tx))))) of
        Inl _ \<Rightarrow> t_ID tx
      | Inr i \<Rightarrow> i)"

definition findDepositRecordByInboundOutpoint :: "TxID \<Rightarrow> u32 \<Rightarrow> Address \<Rightarrow> kstate \<Rightarrow> DepositRecord option" where
  "findDepositRecordByInboundOutpoint inboundTxID sourceVout depositAddress s =
     (if TxID_IsEmpty inboundTxID then None
      else find (\<lambda>d. TxID_Equals (if TxID_IsEmpty (dr_InboundTxID d) then dr_DepositID d else dr_InboundTxID d) inboundTxID \<and>
          dr_SourceVout d = sourceVout \<and> (Address_IsEmpty depositAddress \<or> Address_Equals (dr_DepositAddress d) depositAddress))
        (kv_values (k_deposits s)))"

definition depositConfirmationProgress :: "bool \<Rightarrow> int \<Rightarrow> int \<Rightarrow> int" where
  "depositConfirmationProgress finalised blockHeight required =
     (let current = (if finalised then required else if blockHeight > 0 then 1 else 0) in
      if current > required then required else current)"

definition depositMatchedAfterAddressExpiry :: "env \<Rightarrow> DepositRecord \<Rightarrow> kstate \<Rightarrow> bool" where
  "depositMatchedAfterAddressExpiry e d s \<longleftrightarrow>
     dr_ExpiresAtHeight d > 0 \<and> dr_MatchedHeight d > 0 \<and> dr_MatchedHeight d \<ge> dr_ExpiresAtHeight d \<and>
     vaultPubKeyNoLongerActive e (dr_VaultPubKey d) s"

text \<open>The record \<^verbatim>\<open>MatchCoreDeposit\<close> builds for a payment that passed the guards.\<close>

definition newMatchedDeposit :: "env \<Rightarrow> ObservedTx \<Rightarrow> DepositAddress \<Rightarrow> u64 \<Rightarrow> kstate \<Rightarrow> DepositRecord" where
  "newMatchedDeposit e observed mapping amount s =
     (let tx = ob_Tx observed; confirmations = GetConfigInt64 BTC_ConfirmationsMin s;
          confirmationRequired = (if confirmations \<le> 0 then 1 else confirmations);
          deposit = DepositRecord_zero\<lparr>dr_DepositID := BTCOutpointScopedTxID e tx, dr_Owner := da_Owner mapping, dr_AmountSats := amount,
            dr_DepositAddress := t_ToAddress tx, dr_ReturnAddress := t_FromAddress tx, dr_VaultPubKey := da_VaultPubKey mapping,
            dr_DepositPathIndex := da_PathIndex mapping, dr_DepositPath := da_Path mapping, dr_DepositPathType := da_PathType mapping,
            dr_DepositNonce := da_DepositNonce mapping, dr_OperatorPubKey := da_OperatorPubKey mapping,
            dr_NodePubKey := da_NodePubKey mapping, dr_AuctionID := da_AuctionID mapping, dr_MatchedHeight := k_height s,
            dr_CreatedHeight := da_CreatedHeight mapping, dr_ExpiresAtHeight := da_ExpiresAtHeight mapping,
            dr_PurgeAtHeight := da_PurgeAtHeight mapping, dr_PowDurationMs := da_PowDurationMs mapping,
            dr_PowDifficulty := da_PowDifficulty mapping, dr_Status := DepositStatusDepositMatched, dr_InboundTxID := t_ID tx,
            dr_SourceVout := t_SourceVout tx, dr_BTCConfirmations := confirmationRequired,
            dr_BTCConfirmationsRequired := confirmationRequired, dr_BTCObservedHeight := ob_BlockHeight observed\<rparr> in
      if depositMatchedAfterAddressExpiry e deposit s
      then deposit\<lparr>dr_RefundEligibleHeight := depositRefundEligibleHeight e (da_ExpiresAtHeight mapping) s\<rparr> else deposit)"

text \<open>What \<^verbatim>\<open>MatchCoreDeposit\<close> writes beside the record: the timing of the proof of work and the owner's session.\<close>

definition noteMatchedDeposit :: "env \<Rightarrow> Tx \<Rightarrow> DepositAddress \<Rightarrow> DepositRecord \<Rightarrow> unit kact" where
  "noteMatchedDeposit e tx mapping deposit =
      bindA (gets (GetDepositPowTiming (da_PowToken mapping))) (\<lambda>timing.
      bindA (if pt_PowToken timing \<noteq> [] then SetDepositPowTiming (timing\<lparr>pt_DepositID := dr_DepositID deposit,
          pt_DepositAmountSats := dr_AmountSats deposit, pt_MatchedHeight := dr_MatchedHeight deposit, pt_Deposited := True\<rparr>)
        else ret ()) (\<lambda>_.
      bindA (gets (GetDepositSession e (da_Owner mapping))) (\<lambda>session.
      if Address_Equals (t_ToAddress tx) (ds_DepositAddress session) then SetDepositSession e (session\<lparr>ds_RefundEligibleHeight :=
            dr_RefundEligibleHeight deposit, ds_Status := DepositStatusDepositMatched, ds_DepositID := dr_DepositID deposit,
            ds_InboundTxID := t_ID tx, ds_SourceVout := t_SourceVout tx, ds_BTCConfirmations := dr_BTCConfirmations deposit,
            ds_BTCConfirmationsRequired := dr_BTCConfirmationsRequired deposit, ds_BTCObservedHeight := dr_BTCObservedHeight deposit\<rparr>)
        else ret ())))"

definition MatchCoreDeposit :: "env \<Rightarrow> ObservedTx \<Rightarrow> DepositRecord kact" where
  "MatchCoreDeposit e observed =
     (let tx = ob_Tx observed; coin = GetCoin (t_Coins tx) BTCAsset in
      err_if (TxID_IsEmpty (t_ID tx)) ''missing deposit tx id''
     (err_if (\<not> Chain_Equals (t_Chain tx) BTCChain) ''deposit must be bitcoin''
     (err_if (Coin_IsEmpty coin \<or> co_Amount coin = 0) ''missing bitcoin deposit amount''
     (bindA (gets (GetDepositAddress (t_ToAddress tx))) (\<lambda>mapping.
      bindA (gets k_height) (\<lambda>h.
      err_if (da_VaultPubKey mapping = []) ''deposit address not registered''
     (err_if (da_PurgeAtHeight mapping > 0 \<and> h \<ge> da_PurgeAtHeight mapping) ''deposit address purged''
     (bindA (gets (findDepositRecordByInboundOutpoint (t_ID tx) (t_SourceVout tx) (t_ToAddress tx))) (\<lambda>found.
      err_if (case found of Some existing \<Rightarrow> \<not> TxID_IsEmpty (dr_DepositID existing) | None \<Rightarrow> False) ''deposit outpoint already matched''
     (let depositID = BTCOutpointScopedTxID e tx in
      bindA (gets (GetDepositRecord depositID)) (\<lambda>existing.
      err_if (\<not> TxID_IsEmpty (dr_DepositID existing)) ''deposit tx already matched''
     (bindA (lift_result (Uint64 (co_Amount coin))) (\<lambda>amount.
      bindA (gets (ConfigUint64 Deposit_AmountMinSats)) (\<lambda>minDeposit.
      err_if (amount < minDeposit) ''deposit below dust threshold''
     (bindA (gets (newMatchedDeposit e observed mapping amount)) (\<lambda>deposit.
      bindA (SetDepositRecord deposit) (\<lambda>_.
      bindA (noteMatchedDeposit e tx mapping deposit) (\<lambda>_.
      bindA (queueVaultPathSweepWithInHash e observed (da_VaultPubKey mapping) (da_PathIndex mapping) depositID) (\<lambda>_.
      ret deposit)))))))))))))))))))"

definition RecordDepositObservation :: "env \<Rightarrow> ObservedTx \<Rightarrow> bool \<Rightarrow> unit kact" where
  "RecordDepositObservation e observed finalised =
     (let tx = ob_Tx observed in
      if \<not> Chain_Equals (t_Chain tx) BTCChain \<or> TxID_IsEmpty (t_ID tx) \<or> Address_IsEmpty (t_ToAddress tx) then ret ()
      else bindA (gets (GetDepositAddress (t_ToAddress tx))) (\<lambda>mapping.
      if da_VaultPubKey mapping = [] then ret ()
      else bindA (gets (GetConfigInt64 BTC_ConfirmationsMin)) (\<lambda>confirmations.
      let required0 = (if \<not> finalised \<and> ob_BlockHeight observed > 0 \<and> ob_FinaliseHeight observed \<ge> ob_BlockHeight observed
            then wrap64 (ob_FinaliseHeight observed - ob_BlockHeight observed + 1) else 0);
          required1 = (if required0 \<le> 0 then confirmations else required0);
          required = (if required1 \<le> 0 then 1 else required1) in
      bindA (gets (GetDepositSession e (da_Owner mapping))) (\<lambda>session.
      bindA (if Address_Equals (t_ToAddress tx) (ds_DepositAddress session) then
          let sessionRequired = (if ds_BTCConfirmationsRequired session > 0 then ds_BTCConfirmationsRequired session else required);
              session1 = session\<lparr>ds_InboundTxID := t_ID tx, ds_SourceVout := t_SourceVout tx,
                ds_BTCConfirmations := depositConfirmationProgress finalised (ob_BlockHeight observed) sessionRequired,
                ds_BTCConfirmationsRequired := sessionRequired, ds_BTCObservedHeight := ob_BlockHeight observed\<rparr> in
          SetDepositSession e (if \<not> finalised \<and> ds_Status session1 = DepositStatusAddressIssued
            then session1\<lparr>ds_Status := DepositStatusDepositObserved\<rparr> else session1)
        else ret ()) (\<lambda>_.
      bindA (gets (findDepositRecordByInboundOutpoint (t_ID tx) (t_SourceVout tx) (t_ToAddress tx))) (\<lambda>found.
      case found of
        None \<Rightarrow> ret ()
      | Some deposit \<Rightarrow>
          if TxID_IsEmpty (dr_DepositID deposit) then ret ()
          else let depositRequired = (if dr_BTCConfirmationsRequired deposit > 0 then dr_BTCConfirmationsRequired deposit else required) in
            SetDepositRecord (deposit\<lparr>dr_InboundTxID := t_ID tx, dr_SourceVout := t_SourceVout tx,
              dr_BTCConfirmations := depositConfirmationProgress finalised (ob_BlockHeight observed) depositRequired,
              dr_BTCConfirmationsRequired := depositRequired, dr_BTCObservedHeight := ob_BlockHeight observed\<rparr>)))))))"

section \<open>Purging queued items\<close>

definition purged_item :: "TxID \<Rightarrow> string list \<Rightarrow> TxOutItem \<Rightarrow> bool" where
  "purged_item depositID txTypes item \<longleftrightarrow> TxID_Equals (to_InHash item) depositID \<and> GetTxType item \<in> set txTypes"

definition purgeTxOutItemsForDeposit :: "TxID \<Rightarrow> string list \<Rightarrow> unit kact" where
  "purgeTxOutItemsForDeposit depositID txTypes =
     bindA (gets (\<lambda>s. filter (\<lambda>b. list_ex (purged_item depositID txTypes) (tx_TxArray b)) (kv_values (k_txouts s)))) (\<lambda>changed.
     let filtered = map (\<lambda>b. b\<lparr>tx_TxArray := filter (\<lambda>i. \<not> purged_item depositID txTypes i) (tx_TxArray b)\<rparr>) changed in
     bindA (forA (\<lambda>b. ClearTxOut (tx_Height b)) (filter (\<lambda>b. tx_TxArray b = []) filtered)) (\<lambda>_.
     forA SetTxOut (filter (\<lambda>b. tx_TxArray b \<noteq> []) filtered)))"

definition purgeRefundTxOutItems :: "TxID \<Rightarrow> unit kact" where
  "purgeRefundTxOutItems depositID = purgeTxOutItemsForDeposit depositID [TxOutTypeRefund]"

definition purgeRefundTxOutItemExactHeight :: "int \<Rightarrow> TxID \<Rightarrow> bool kact" where
  "purgeRefundTxOutItemExactHeight height depositID =
     bindA (gets (GetTxOut height)) (\<lambda>txOut.
     if \<not> list_ex (purged_item depositID [TxOutTypeRefund]) (tx_TxArray txOut) then ret False
     else let txOut1 = txOut\<lparr>tx_TxArray := filter (\<lambda>i. \<not> purged_item depositID [TxOutTypeRefund] i) (tx_TxArray txOut)\<rparr> in
       bindA (if tx_TxArray txOut1 = [] then ClearTxOut height else SetTxOut txOut1) (\<lambda>_. ret True))"

text \<open>The loops over heights stop at the first block that changed; the purge of a block returns no error.\<close>

fun purge_heights :: "TxID \<Rightarrow> int list \<Rightarrow> bool kact" where
  "purge_heights depositID [] = ret False"
| "purge_heights depositID (h # hs) =
     (if h \<le> 0 then purge_heights depositID hs
      else bindA (purgeRefundTxOutItemExactHeight h depositID) (\<lambda>changed. if changed then ret True else purge_heights depositID hs))"

definition purgeRefundTxOutItemAtHeight :: "int \<Rightarrow> TxID \<Rightarrow> bool kact" where
  "purgeRefundTxOutItemAtHeight height depositID =
     (if height \<le> 0 \<or> TxID_IsEmpty depositID then ret False else purge_heights depositID [height - 100..height + 100])"

definition purgeLegacyRefundTxOutForDeposit :: "DepositRecord \<Rightarrow> bool kact" where
  "purgeLegacyRefundTxOutForDeposit deposit =
     (if TxID_IsEmpty (dr_DepositID deposit) then ret False
      else let start0 = wrap64 (dr_RefundEligibleHeight deposit - 200);
               start1 = (if start0 < dr_MatchedHeight deposit then dr_MatchedHeight deposit else start0);
               start = (if start1 < 1 then 1 else start1) in
        bindA (gets k_height) (\<lambda>h. purge_heights (dr_DepositID deposit) [start..h]))"

definition purgeRefundTxOutItemsForAddress :: "Address \<Rightarrow> unit kact" where
  "purgeRefundTxOutItemsForAddress address =
     bindA (gets (\<lambda>s. map dr_DepositID (filter (\<lambda>d. \<not> (TxID_IsEmpty (dr_DepositID d) \<or> \<not> Address_Equals (dr_DepositAddress d) address))
       (kv_values (k_deposits s))))) (\<lambda>depositIDs.
     forA purgeRefundTxOutItems depositIDs)"

definition purgeExpiredDepositAddresses :: "env \<Rightarrow> unit kact" where
  "purgeExpiredDepositAddresses e =
     bindA (gets (\<lambda>s. filter (\<lambda>m. \<not> (da_PurgeAtHeight m \<le> 0 \<or> da_PurgeAtHeight m > k_height s) \<and>
         vaultPubKeyNoLongerActive e (da_VaultPubKey m) s) (kv_values (k_addresses s)))) (\<lambda>expired.
     forA (\<lambda>m. bindA (logged (DeleteDepositAddress (da_Address m))) (\<lambda>_.
       bindA (logged (purgeRefundTxOutItemsForAddress (da_Address m))) (\<lambda>_. ret ()))) expired)"

section \<open>Returning a deposit\<close>

definition depositDirectBaseVaultReturn :: "env \<Rightarrow> DepositRecord \<Rightarrow> kstate \<Rightarrow> bool" where
  "depositDirectBaseVaultReturn e d s \<longleftrightarrow>
     \<not> (TxID_IsEmpty (dr_DepositID d) \<or> dr_VaultPubKey d = [] \<or> Address_IsEmpty (dr_DepositAddress d) \<or>
        Address_IsEmpty (dr_ReturnAddress d) \<or> dr_DepositPathIndex d \<noteq> MainVaultPathIndex \<or> \<not> dr_SweepComplete d \<or>
        dr_RefundEligibleHeight d \<le> 0) \<and>
     (case GetVault (dr_VaultPubKey d) s of
        Inl _ \<Rightarrow> False
      | Inr vault \<Rightarrow> va_PubKey vault \<noteq> [] \<and> Vault_IsBase vault \<and>
          (case e_taproot e (dr_VaultPubKey d) MainVaultPathIndex of
             Inl _ \<Rightarrow> False | Inr rootAddr \<Rightarrow> Address_Equals (dr_DepositAddress d) rootAddr))"

definition depositRequiresReturn :: "env \<Rightarrow> DepositRecord \<Rightarrow> kstate \<Rightarrow> bool" where
  "depositRequiresReturn e d s \<longleftrightarrow> depositMatchedAfterAddressExpiry e d s \<or> depositDirectBaseVaultReturn e d s"

definition depositRefundTxOutSigned :: "TxID \<Rightarrow> kstate \<Rightarrow> bool" where
  "depositRefundTxOutSigned depositID s \<longleftrightarrow>
     \<not> TxID_IsEmpty depositID \<and>
     list_ex (\<lambda>b. list_ex (\<lambda>i. TxID_Equals (to_InHash i) depositID \<and> GetTxType i = TxOutTypeRefund \<and> \<not> TxID_IsEmpty (to_OutHash i))
       (tx_TxArray b)) (kv_values (k_txouts s))"

definition txOutHasCompletedDepositSweep :: "TxOut \<Rightarrow> DepositRecord \<Rightarrow> bool" where
  "txOutHasCompletedDepositSweep txOut d \<longleftrightarrow>
     list_ex (\<lambda>i. TxID_Equals (to_InHash i) (dr_DepositID d) \<and> GetTxType i = TxOutTypeSweep \<and> to_VaultPubKey i = dr_VaultPubKey d \<and>
       to_VaultPathIndex i = dr_DepositPathIndex d \<and> \<not> TxID_IsEmpty (to_OutHash i)) (tx_TxArray txOut)"

definition txOutHasCompletedDepositSweepAtOrAfterMatchedHeight :: "DepositRecord \<Rightarrow> kstate \<Rightarrow> bool" where
  "txOutHasCompletedDepositSweepAtOrAfterMatchedHeight d s \<longleftrightarrow>
     \<not> (dr_MatchedHeight d \<le> 0 \<or> dr_MatchedHeight d > k_height s) \<and>
     list_ex (\<lambda>b. \<not> (tx_Height b < dr_MatchedHeight d \<or> tx_Height b > k_height s) \<and> txOutHasCompletedDepositSweep b d) (kv_values (k_txouts s))"

definition depositSweepCompleted :: "DepositRecord \<Rightarrow> kstate \<Rightarrow> bool" where
  "depositSweepCompleted d s \<longleftrightarrow>
     \<not> TxID_IsEmpty (dr_DepositID d) \<and>
     (dr_SweepComplete d \<or> dr_DepositPathIndex d = MainVaultPathIndex \<or>
      dr_MatchedHeight d > 0 \<and> txOutHasCompletedDepositSweepAtOrAfterMatchedHeight d s)"

definition markDepositSweepComplete :: "TxOutItem \<Rightarrow> unit kact" where
  "markDepositSweepComplete item =
     (if to_TxType item \<noteq> TxOutTypeSweep \<or> TxID_IsEmpty (to_InHash item) then ret ()
      else bindA (gets (GetDepositRecord (to_InHash item))) (\<lambda>deposit.
        if TxID_IsEmpty (dr_DepositID deposit) \<or> dr_VaultPubKey deposit \<noteq> to_VaultPubKey item
            \<or> dr_DepositPathIndex deposit \<noteq> to_VaultPathIndex item then ret ()
        else bindA (logged (SetDepositRecord (deposit\<lparr>dr_SweepComplete := True\<rparr>))) (\<lambda>_. ret ())))"

definition queueDepositReturnFromVault :: "env \<Rightarrow> DepositRecord \<Rightarrow> Vault \<Rightarrow> TxOutInput list \<Rightarrow> unit kact" where
  "queueDepositReturnFromVault e deposit vault sourceInputs =
     err_if (TxID_IsEmpty (dr_DepositID deposit)) ''missing deposit id''
    (err_if (Address_IsEmpty (dr_ReturnAddress deposit)) ''missing deposit return address''
    (bindA (gets (withdrawalFeeSats (dr_AmountSats deposit))) (\<lambda>rf. bindA (lift_result rf) (\<lambda>feeSats.
     if feeSats \<ge> dr_AmountSats deposit then addWithdrawalFee (dr_AmountSats deposit)
     else
     bindA (gets btcGasRateFromKeeper) (\<lambda>rg. bindA (lift_result rg) (\<lambda>gasRate.
     bindA (gets k_height) (\<lambda>h.
     bindA (on_error ''fail to queue deposit return txout'' (appendBTCExactTxOut e h
       (TxOutItem_zero\<lparr>to_Chain := BTCChain, to_ToAddress := dr_ReturnAddress deposit, to_VaultPubKey := va_PubKey vault,
          to_VaultPathIndex := MainVaultPathIndex, to_Coin := NewCoin BTCAsset (unat (dr_AmountSats deposit - feeSats)),
          to_GasRate := gasRate, to_InHash := dr_DepositID deposit, to_ModuleName := BaseName, to_TxType := TxOutTypeRefund,
          to_SourceInputs := sourceInputs\<rparr>))) (\<lambda>_.
     addWithdrawalFee feeSats))))))))"

definition queueExpiredDepositReturn :: "env \<Rightarrow> DepositRecord \<Rightarrow> unit kact" where
  "queueExpiredDepositReturn e deposit =
     bindA (gets (currentBTCVaultAddress e)) (\<lambda>rv. bindA (lift_wrap ''fail to get base vault for deposit return'' rv) (\<lambda>(vault, _).
     queueDepositReturnFromVault e deposit vault []))"

definition queueDirectBaseVaultDepositReturn :: "env \<Rightarrow> ObservedTx \<Rightarrow> Vault \<Rightarrow> unit kact" where
  "queueDirectBaseVaultDepositReturn e observed vault =
     (let tx = ob_Tx observed; coin = GetCoin (t_Coins tx) BTCAsset in
      err_if (Coin_IsEmpty coin \<or> co_Amount coin = 0) ''missing bitcoin direct deposit amount''
     (err_if (Address_IsEmpty (t_FromAddress tx)) ''missing bitcoin direct deposit return address''
     (bindA (gets (GetDepositRecord (t_ID tx))) (\<lambda>existing.
      err_if (\<not> TxID_IsEmpty (dr_DepositID existing)) ''deposit tx already matched''
     (bindA (lift_result (Uint64 (co_Amount coin))) (\<lambda>amount.
      bindA (gets k_height) (\<lambda>h.
      let deposit = DepositRecord_zero\<lparr>dr_DepositID := t_ID tx, dr_Owner := t_FromAddress tx, dr_AmountSats := amount,
            dr_DepositAddress := t_ToAddress tx, dr_ReturnAddress := t_FromAddress tx, dr_VaultPubKey := va_PubKey vault,
            dr_DepositPathIndex := MainVaultPathIndex, dr_MatchedHeight := h, dr_CreatedHeight := h, dr_ExpiresAtHeight := h,
            dr_Status := DepositStatusDepositMatched, dr_InboundTxID := t_ID tx, dr_SourceVout := t_SourceVout tx,
            dr_BTCConfirmations := 1, dr_BTCConfirmationsRequired := 1, dr_BTCObservedHeight := ob_BlockHeight observed,
            dr_RefundEligibleHeight := h, dr_SweepComplete := True\<rparr> in
      bindA (queueDepositReturnFromVault e deposit vault [\<lparr>ti_TxId = t_ID tx, ti_Vout = t_SourceVout tx, ti_AmountSats = amount,
        ti_PathIndex = 0\<rparr>]) (\<lambda>_.
      SetDepositRecord (deposit\<lparr>dr_Status := DepositStatusReturnQueued, dr_RefundQueuedHeight := h\<rparr>)))))))))"

text \<open>One round of the first loop of \<^verbatim>\<open>ProcessExpiredDepositAddressReturns\<close>: the deposits to return so far,
  and the deposit added when it is due.\<close>

definition expiredDeposit :: "env \<Rightarrow> DepositRecord \<Rightarrow> DepositRecord option kact" where
  "expiredDeposit e d =
     (if dr_Status d \<noteq> DepositStatusDepositMatched then ret None
      else bindA (gets (depositSweepCompleted d)) (\<lambda>swept0.
      bindA (if \<not> swept0 then bindA (logged (purgeLegacyRefundTxOutForDeposit d)) (\<lambda>_. ret ()) else ret ()) (\<lambda>_.
      if dr_Settlement d \<noteq> [] then ret None
      else bindA (gets (depositMatchedAfterAddressExpiry e d)) (\<lambda>late.
      if \<not> late then ret None
      else bindA (gets k_height) (\<lambda>h.
      if dr_RefundEligibleHeight d \<le> 0 \<or> dr_RefundEligibleHeight d > h then ret None
      else bindA (gets (depositSweepCompleted d)) (\<lambda>swept. ret (if swept then Some d else None)))))))"

definition checkExpiredDeposit :: "env \<Rightarrow> DepositRecord list \<Rightarrow> DepositRecord \<Rightarrow> DepositRecord list kact" where
  "checkExpiredDeposit e expired d =
     (let due = (\<lambda>d. bindA (expiredDeposit e d) (\<lambda>r. ret (case r of None \<Rightarrow> expired | Some x \<Rightarrow> expired @ [x]))) in
      if dr_Status d = DepositStatusErrata then
        bindA (logged (purgeTxOutItemsForDeposit (dr_DepositID d) [TxOutTypeSweep, TxOutTypeRefund])) (\<lambda>_. ret expired)
      else bindA (gets (depositRequiresReturn e d)) (\<lambda>requires.
      if dr_Status d = DepositStatusReturnQueued \<and> \<not> requires then
        bindA (gets (depositRefundTxOutSigned (dr_DepositID d))) (\<lambda>signed.
        if signed then ret expired
        else bindA (logged (purgeRefundTxOutItems (dr_DepositID d))) (\<lambda>r.
        if r = None then ret expired
        else bindA (logged (SetDepositRecord (d\<lparr>dr_Status := DepositStatusDepositMatched, dr_RefundEligibleHeight := 0,
          dr_RefundQueuedHeight := 0\<rparr>))) (\<lambda>_. ret expired)))
      else bindA (gets (depositSweepCompleted d)) (\<lambda>swept.
      if dr_Status d = DepositStatusReturnQueued \<and> \<not> swept then
        bindA (logged (purgeRefundTxOutItemAtHeight (dr_RefundQueuedHeight d) (dr_DepositID d))) (\<lambda>r.
        if r = None then ret expired
        else let d1 = d\<lparr>dr_Status := DepositStatusDepositMatched, dr_RefundQueuedHeight := 0\<rparr> in
          bindA (logged (SetDepositRecord d1)) (\<lambda>_. due d1))
      else due d)))"

definition returnExpiredDeposit :: "env \<Rightarrow> DepositRecord \<Rightarrow> unit kact" where
  "returnExpiredDeposit e d =
     bindA (logged (queueExpiredDepositReturn e d)) (\<lambda>r.
     if r = None then ret ()
     else bindA (gets k_height) (\<lambda>h.
       bindA (logged (SetDepositRecord (d\<lparr>dr_Status := DepositStatusReturnQueued, dr_RefundQueuedHeight := h\<rparr>))) (\<lambda>_. ret ())))"

definition ProcessExpiredDepositAddressReturns :: "env \<Rightarrow> unit kact" where
  "ProcessExpiredDepositAddressReturns e =
     bindA (gets (\<lambda>s. kv_values (k_deposits s))) (\<lambda>deposits.
     bindA (foldA (checkExpiredDeposit e) [] deposits) (\<lambda>expired.
     forA (returnExpiredDeposit e) expired))"

section \<open>The next churn\<close>

lemma next_after_run:
  "0 < interval \<Longrightarrow> height < next_after interval height nxt \<and> (\<exists>k :: nat. next_after interval height nxt = nxt + int k * interval \<and>
     (k \<noteq> 0 \<longrightarrow> next_after interval height nxt - interval \<le> height))"
proof (induction interval height nxt rule: next_after.induct)
  case (1 interval height nxt)
  show ?case
  proof (cases "nxt \<le> height")
    case True
    let ?n = "next_after interval height (nxt + interval)"
    have n: "next_after interval height nxt = ?n" using 1(2) True by (subst next_after.simps) simp
    from 1(1) [OF conjI [OF 1(2) True] 1(2)] obtain k where lt: "height < ?n" and k: "?n = nxt + interval + int k * interval"
      "k \<noteq> 0 \<longrightarrow> ?n - interval \<le> height" by blast
    have "?n = nxt + int (Suc k) * interval" using k(1) by (simp add: algebra_simps)
    moreover have "?n - interval \<le> height" using k True by (cases "k = 0") auto
    ultimately show ?thesis using lt unfolding n by (intro conjI exI [of _ "Suc k"]) auto
  next
    case False
    then have "next_after interval height nxt = nxt" by (subst next_after.simps) simp
    with False show ?thesis by (intro conjI exI [of _ 0]) auto
  qed
qed

lemma next_churn:
  assumes "0 < getConfigDurationBlocks Churn_IntervalMinutes s" "getLastChurnHeight e s \<le> height"
  defines "i \<equiv> getConfigDurationBlocks Churn_IntervalMinutes s"
  shows "height < nextChurnHeightAfter e height s" and "nextChurnHeightAfter e height s \<le> height + i"
    and "(nextChurnHeightAfter e height s - getLastChurnHeight e s) mod i = 0"
proof -
  let ?n = "next_after i height (getLastChurnHeight e s + i)"
  have n: "nextChurnHeightAfter e height s = ?n" using assms(1) by (simp add: nextChurnHeightAfter_def i_def Let_def)
  from next_after_run [of i height "getLastChurnHeight e s + i"] assms(1) obtain k :: nat where
    k: "height < ?n" "?n = getLastChurnHeight e s + i + int k * i" "k \<noteq> 0 \<longrightarrow> ?n - i \<le> height" by (auto simp: i_def)
  from k(1) show "height < nextChurnHeightAfter e height s" by (simp add: n)
  show "nextChurnHeightAfter e height s \<le> height + i" using k assms(2) unfolding n by (cases "k = 0") auto
  have "?n - getLastChurnHeight e s = (int k + 1) * i" using k(2) by (simp add: algebra_simps)
  then show "(nextChurnHeightAfter e height s - getLastChurnHeight e s) mod i = 0" by (simp add: n)
qed

end
