(* ===== verification/Deposit_Laws.thy ===== *)
theory Deposit_Laws
  imports Deposits Shield
begin

text \<open>
  What the deposit flow promises: a matched payment is recorded once, for the amount that arrived, and
  its sweep is queued; a return pays the deposit less the fee that is booked; the return pass touches
  only deposits that arrived late and were not shielded.
\<close>

section \<open>Frames\<close>

lemma same_appendBTCExactTxOut [act_keeps]:
  "(\<And>s v. f (s\<lparr>k_txouts := v\<rparr>) = f s) \<Longrightarrow> same f (appendBTCExactTxOut e h item)"
  unfolding appendBTCExactTxOut_def Let_def by (auto intro!: act_keeps split: prod.split option.split)

lemma same_queueVaultPathSweepWithInHash [act_keeps]:
  "(\<And>s v. f (s\<lparr>k_txouts := v\<rparr>) = f s) \<Longrightarrow> same f (queueVaultPathSweepWithInHash e tx pk i inHash)"
  unfolding queueVaultPathSweepWithInHash_def Let_def by (auto intro!: act_keeps)

lemma same_purgeTxOutItems [act_keeps]:
  "(\<And>s v. f (s\<lparr>k_txouts := v\<rparr>) = f s) \<Longrightarrow> same f (purgeTxOutItemsForDeposit i ts)"
  unfolding purgeTxOutItemsForDeposit_def Let_def by (auto intro!: act_keeps)

lemma same_purge_heights [act_keeps]:
  "(\<And>s v. f (s\<lparr>k_txouts := v\<rparr>) = f s) \<Longrightarrow> same f (purge_heights i hs)"
  by (induction hs) (auto simp: purgeRefundTxOutItemExactHeight_def Let_def intro!: act_keeps)

lemma same_queueDepositReturn [act_keeps]:
  "(\<And>s v. f (s\<lparr>k_txouts := v\<rparr>) = f s) \<Longrightarrow> (\<And>s v. f (s\<lparr>k_fee_pool := v\<rparr>) = f s) \<Longrightarrow> same f (queueDepositReturnFromVault e d v ins)"
  unfolding queueDepositReturnFromVault_def Let_def by (auto intro!: act_keeps)

section \<open>A payment is matched once\<close>

lemma Uint64_run: "Uint64 n = Inr x \<Longrightarrow> unat x = n"
  by (auto simp: Uint64_def unat_of_nat_u64 split: if_splits)

text \<open>The sweep of a path: the whole amount moves, less the gas that is set aside for it.\<close>

definition path_sweep_item :: "Tx \<Rightarrow> PubKey \<Rightarrow> u64 \<Rightarrow> TxID \<Rightarrow> Address \<Rightarrow> nat \<Rightarrow> Coin \<Rightarrow> int \<Rightarrow> u64 \<Rightarrow> TxOutItem" where
  "path_sweep_item tx pk i inHash root amt gas rate sats = TxOutItem_zero\<lparr>to_Chain := BTCChain, to_ToAddress := root, to_VaultPubKey := pk,
     to_Coin := NewCoin BTCAsset (amt - co_Amount gas), to_MaxGas := [gas], to_GasRate := rate, to_InHash := inHash,
     to_ModuleName := BaseName, to_VaultPathIndex := i,
     to_TxType := (if i = MainVaultPathIndex then TxOutTypeMigrate else TxOutTypeSweep),
     to_SourceInputs := [\<lparr>ti_TxId = t_ID tx, ti_Vout = t_SourceVout tx, ti_AmountSats = sats, ti_PathIndex = i\<rparr>]\<rparr>"

lemma sweep_run:
  assumes run: "queueVaultPathSweepWithInHash e obs pk i inHash s = (Inr u, t)" and ok: "txouts_ok s"
  defines "amt \<equiv> co_Amount (GetCoin (t_Coins (ob_Tx obs)) BTCAsset)"
  shows "t = s \<and> i = MainVaultPathIndex \<or>
    (\<exists>item. queued item s t \<and> to_InHash item = inHash \<and> to_VaultPubKey item = pk \<and> to_VaultPathIndex item = i \<and>
      co_Amount (to_Coin item) + sum_list (map co_Amount (to_MaxGas item)) = amt \<and>
      map (\<lambda>x. unat (ti_AmountSats x)) (to_SourceInputs item) = [amt])"
proof -
  have "t = s \<and> i = MainVaultPathIndex \<or> (\<exists>root gas rate sats.
     appendBTCExactTxOut e (k_height s) (path_sweep_item (ob_Tx obs) pk i inHash root amt gas rate sats) s = (Inr u, t) \<and>
     (co_Amount gas = 0 \<or> co_Amount gas < amt) \<and> Uint64 amt = Inr sats)"
    using run unfolding queueVaultPathSweepWithInHash_def Let_def amt_def path_sweep_item_def
    by (simp add: act_run if_ret_run not_le split_paired_Ex split del: if_split)
      (elim conjE exE disjE; ((rule disjI1, intro conjI; assumption) | (rule disjI2, intro exI conjI, assumption, simp, assumption)))
  then show ?thesis
  proof (rule disjE; elim exE conjE)
    fix root gas rate sats
    let ?item = "path_sweep_item (ob_Tx obs) pk i inHash root amt gas rate sats"
    assume a: "appendBTCExactTxOut e (k_height s) ?item s = (Inr u, t)" "Uint64 amt = Inr sats"
      and gas: "co_Amount gas = 0 \<or> co_Amount gas < amt"
    have "queued ?item s t" by (rule append_queued [OF a(1) ok])
    moreover have "to_InHash ?item = inHash" "to_VaultPubKey ?item = pk" "to_VaultPathIndex ?item = i"
      "co_Amount (to_Coin ?item) = amt - co_Amount gas" "to_MaxGas ?item = [gas]"
      "map (\<lambda>x. unat (ti_AmountSats x)) (to_SourceInputs ?item) = [unat sats]"
      by (simp_all add: path_sweep_item_def NewCoin_def)
    moreover have "amt - co_Amount gas + co_Amount gas = amt" using gas by auto
    ultimately have "\<exists>item. queued item s t \<and> to_InHash item = inHash \<and> to_VaultPubKey item = pk \<and> to_VaultPathIndex item = i \<and>
        co_Amount (to_Coin item) + sum_list (map co_Amount (to_MaxGas item)) = amt \<and>
        map (\<lambda>x. unat (ti_AmountSats x)) (to_SourceInputs item) = [amt]"
      by (intro exI [of _ ?item] conjI) (simp_all only: Uint64_run [OF a(2)] list.map sum_list.Cons sum_list.Nil add_0_right)
    then show ?thesis by blast
  qed simp
qed

lemma newMatched_fields:
  fixes e obs m a s defines "d \<equiv> newMatchedDeposit e obs m a s"
  shows "dr_DepositID d = BTCOutpointScopedTxID e (ob_Tx obs)" "dr_AmountSats d = a" "dr_Owner d = da_Owner m"
    "dr_VaultPubKey d = da_VaultPubKey m" "dr_DepositPathIndex d = da_PathIndex m" "dr_Status d = DepositStatusDepositMatched"
    "dr_ReturnAddress d = t_FromAddress (ob_Tx obs)" "dr_ShieldedSats d = 0"
  by (simp_all add: d_def newMatchedDeposit_def Let_def DepositRecord_zero_def)

lemma same_noteMatchedDeposit [act_keeps]:
  "(\<And>s v. f (s\<lparr>k_pow_timings := v\<rparr>) = f s) \<Longrightarrow> (\<And>s v. f (s\<lparr>k_sessions := v\<rparr>) = f s) \<Longrightarrow> (\<And>s v. f (s\<lparr>k_pow_tokens := v\<rparr>) = f s) \<Longrightarrow>
   same f (noteMatchedDeposit e tx m d)"
  unfolding noteMatchedDeposit_def by (auto intro!: act_keeps)

lemma match_run:
  assumes "MatchCoreDeposit e obs s = (Inr d, t)"
  defines "m \<equiv> GetDepositAddress (t_ToAddress (ob_Tx obs)) s"
  obtains a s1 s2 where "d = newMatchedDeposit e obs m a s" "Uint64 (co_Amount (GetCoin (t_Coins (ob_Tx obs)) BTCAsset)) = Inr a"
    "\<not> a < ConfigUint64 Deposit_AmountMinSats s" "TxID_IsEmpty (dr_DepositID (GetDepositRecord (dr_DepositID d) s))"
    "SetDepositRecord d s = (Inr (), s1)" "noteMatchedDeposit e (ob_Tx obs) m d s1 = (Inr (), s2)"
    "queueVaultPathSweepWithInHash e obs (dr_VaultPubKey d) (dr_DepositPathIndex d) (dr_DepositID d) s2 = (Inr (), t)"
  using assms(1) unfolding MatchCoreDeposit_def Let_def m_def
  by (auto simp: act_run newMatched_fields split del: if_split)

text \<open>The match stores the record under an id that had none, for the amount that arrived; the payment
  of the sweep is queued for that amount, and nothing is queued when the funds are in place.\<close>

lemma match_records:
  assumes run: "MatchCoreDeposit e obs s = (Inr d, t)" and ok: "txouts_ok s"
  defines "amt \<equiv> co_Amount (GetCoin (t_Coins (ob_Tx obs)) BTCAsset)" and "m \<equiv> GetDepositAddress (t_ToAddress (ob_Tx obs)) s"
  shows "unat (dr_AmountSats d) = amt" and "ConfigUint64 Deposit_AmountMinSats s \<le> dr_AmountSats d"
    and "dr_Owner d = da_Owner m" "dr_Status d = DepositStatusDepositMatched" "dr_ShieldedSats d = 0"
    and "dr_DepositID d = BTCOutpointScopedTxID e (ob_Tx obs)"
    and "TxID_IsEmpty (dr_DepositID (GetDepositRecord (dr_DepositID d) s))"
    and "GetDepositRecord i t = (if skey i = skey (dr_DepositID d) then d else GetDepositRecord i s)"
    and "k_txouts t = k_txouts s \<and> da_PathIndex m = MainVaultPathIndex \<or>
      (\<exists>item s2. k_txouts s2 = k_txouts s \<and> queued item s2 t \<and> to_InHash item = dr_DepositID d \<and>
        to_VaultPubKey item = da_VaultPubKey m \<and> to_VaultPathIndex item = da_PathIndex m \<and>
        co_Amount (to_Coin item) + sum_list (map co_Amount (to_MaxGas item)) = amt)"
proof -
  obtain a s1 s2 where d: "d = newMatchedDeposit e obs m a s" and a: "Uint64 amt = Inr a" "\<not> a < ConfigUint64 Deposit_AmountMinSats s"
    and fresh: "TxID_IsEmpty (dr_DepositID (GetDepositRecord (dr_DepositID d) s))" and set: "SetDepositRecord d s = (Inr (), s1)"
    and note1: "noteMatchedDeposit e (ob_Tx obs) m d s1 = (Inr (), s2)"
    and sweep: "queueVaultPathSweepWithInHash e obs (dr_VaultPubKey d) (dr_DepositPathIndex d) (dr_DepositID d) s2 = (Inr (), t)"
    using match_run [OF run] unfolding amt_def m_def by blast
  note f = newMatched_fields [of e obs m a s, folded d]
  have "same k_txouts (SetDepositRecord d)" "same k_txouts (noteMatchedDeposit e (ob_Tx obs) m d)" by (auto intro!: act_keeps)
  from sameD [OF this(1) set] sameD [OF this(2) note1] have q: "k_txouts s2 = k_txouts s" by simp
  then have ok2: "txouts_ok s2" using ok by (simp add: txouts_ok_def)
  have "same k_deposits (noteMatchedDeposit e (ob_Tx obs) m d)"
    "same k_deposits (queueVaultPathSweepWithInHash e obs (dr_VaultPubKey d) (dr_DepositPathIndex d) (dr_DepositID d))" by (auto intro!: act_keeps)
  from sameD [OF this(1) note1] sameD [OF this(2) sweep] have "GetDepositRecord i t = GetDepositRecord i s1" by (simp add: GetDepositRecord_def)
  then show "GetDepositRecord i t = (if skey i = skey (dr_DepositID d) then d else GetDepositRecord i s)"
    using deposit_store.put_run [OF set] by simp
  show "unat (dr_AmountSats d) = amt" using Uint64_run [OF a(1)] by (simp add: f)
  show "ConfigUint64 Deposit_AmountMinSats s \<le> dr_AmountSats d" using a(2) by (simp add: f not_less)
  show "dr_Owner d = da_Owner m" "dr_Status d = DepositStatusDepositMatched" "dr_ShieldedSats d = 0"
    "dr_DepositID d = BTCOutpointScopedTxID e (ob_Tx obs)" by (simp_all add: f)
  show "TxID_IsEmpty (dr_DepositID (GetDepositRecord (dr_DepositID d) s))" by (rule fresh)
  show "k_txouts t = k_txouts s \<and> da_PathIndex m = MainVaultPathIndex \<or>
      (\<exists>item s2. k_txouts s2 = k_txouts s \<and> queued item s2 t \<and> to_InHash item = dr_DepositID d \<and>
        to_VaultPubKey item = da_VaultPubKey m \<and> to_VaultPathIndex item = da_PathIndex m \<and>
        co_Amount (to_Coin item) + sum_list (map co_Amount (to_MaxGas item)) = amt)"
    using sweep_run [OF sweep ok2] q unfolding f amt_def by auto
qed

lemma match_valid: "MatchCoreDeposit e obs s = (Inr d, t) \<Longrightarrow> \<not> TxID_IsEmpty (dr_DepositID d)"
  by (erule match_run) (drule deposit_store.put_run, simp add: DepositRecord_Valid_def checks_ok del: checks.simps)

text \<open>An outpoint whose id has a record is refused, and nothing is written.\<close>

lemma match_refused:
  assumes "\<not> TxID_IsEmpty (dr_DepositID (GetDepositRecord (BTCOutpointScopedTxID e (ob_Tx obs)) s))"
  shows "\<exists>err. MatchCoreDeposit e obs s = (Inl err, s)"
  using assms by (auto simp: MatchCoreDeposit_def act_defs Let_def)

section \<open>A return pays the deposit less the fee\<close>

lemma return_run:
  assumes run: "queueDepositReturnFromVault e d v ins s = (Inr u, t)" and ok: "txouts_ok s" and bp: "unat (withdrawalFeeBp s) \<le> 10000"
  obtains fee where "fp_TotalCollectedSats (GetFeePool t) = fp_TotalCollectedSats (GetFeePool s) + fee" "unat fee = unat (dr_AmountSats d)"
    "k_txouts t = k_txouts s"
  | fee item s1 where "fp_TotalCollectedSats (GetFeePool t) = fp_TotalCollectedSats (GetFeePool s) + fee" "k_txouts t = k_txouts s1"
    "queued item s s1" "to_ToAddress item = dr_ReturnAddress d" "to_InHash item = dr_DepositID d" "to_TxType item = TxOutTypeRefund"
    "co_Amount (to_Coin item) + unat fee = unat (dr_AmountSats d)" "unat fee = unat (dr_AmountSats d) * unat (withdrawalFeeBp s) div 10000"
proof -
  obtain fee where fee: "withdrawalFeeSats (dr_AmountSats d) s = Inr fee"
    "unat fee = unat (dr_AmountSats d) * unat (withdrawalFeeBp s) div 10000" "fee \<le> dr_AmountSats d"
    using withdrawalFee_exact [OF bp, of "dr_AmountSats d"] by (auto simp: withdrawalFeeSats_def)
  show thesis
  proof (cases "fee \<ge> dr_AmountSats d")
    case True
    then have add: "addWithdrawalFee (dr_AmountSats d) s = (Inr u, t)"
      using run fee(1) by (simp add: queueDepositReturnFromVault_def act_run)
    have "same k_txouts (addWithdrawalFee (dr_AmountSats d))" by (auto intro!: act_keeps)
    from sameD [OF this add] show thesis using addWithdrawalFee_frame(1) [OF add] by (intro that(1)) simp_all
  next
    case False
    obtain gasRate s1 where app: "appendBTCExactTxOut e (k_height s) (TxOutItem_zero\<lparr>to_Chain := BTCChain, to_ToAddress := dr_ReturnAddress d,
          to_VaultPubKey := va_PubKey v, to_VaultPathIndex := MainVaultPathIndex,
          to_Coin := NewCoin BTCAsset (unat (dr_AmountSats d - fee)), to_GasRate := gasRate, to_InHash := dr_DepositID d,
          to_ModuleName := BaseName, to_TxType := TxOutTypeRefund, to_SourceInputs := ins\<rparr>) s = (Inr (), s1)"
      and add: "addWithdrawalFee fee s1 = (Inr u, t)"
      using run fee(1) False by (auto simp: queueDepositReturnFromVault_def act_run)
    have q: "queued (TxOutItem_zero\<lparr>to_Chain := BTCChain, to_ToAddress := dr_ReturnAddress d,
          to_VaultPubKey := va_PubKey v, to_VaultPathIndex := MainVaultPathIndex,
          to_Coin := NewCoin BTCAsset (unat (dr_AmountSats d - fee)), to_GasRate := gasRate, to_InHash := dr_DepositID d,
          to_ModuleName := BaseName, to_TxType := TxOutTypeRefund, to_SourceInputs := ins\<rparr>) s s1" by (rule append_queued [OF app ok])
    then have "GetFeePool s1 = GetFeePool s" by (auto simp: queued_def GetFeePool_def)
    moreover have "same k_txouts (addWithdrawalFee fee)" by (auto intro!: act_keeps)
    note sameD [OF this add]
    moreover have "unat (dr_AmountSats d - fee) + unat fee = unat (dr_AmountSats d)" using fee(3) by (simp add: unat_sub word_le_nat_alt)
    ultimately show thesis using addWithdrawalFee_frame(1) [OF add] fee(2)
      by (intro that(2) [OF _ _ q]) (simp_all add: NewCoin_def)
  qed
qed

section \<open>Which deposits the return pass touches\<close>

text \<open>The part of the state the pass decides from, beside the outbound queue.\<close>

definition deposit_view :: "env \<Rightarrow> kstate \<Rightarrow> (string, DepositRecord) kv \<times> int \<times> Vault list result" where
  "deposit_view e s = (k_deposits s, k_height s, GetBaseVaultsByStatus e ActiveVault s)"

lemma base_vaults_cong:
  assumes "k_vaults t = k_vaults s" "k_vault_eddsa t = k_vault_eddsa s" "k_vault_index t = k_vault_index s" "k_height t = k_height s"
  shows "GetBaseVaultsByStatus e st t = GetBaseVaultsByStatus e st s"
proof -
  have ed: "getBaseEDDSAIndex pk t = getBaseEDDSAIndex pk s" for pk using assms by (simp add: getBaseEDDSAIndex_def)
  have rec: "getVault_rec n pk t = getVault_rec n pk s" for n pk
    by (induction n arbitrary: pk) (simp_all add: ed assms split: option.split)
  have "get_vaults pks t = get_vaults pks s" for pks
    using assms by (induction pks) (simp_all add: GetVault_def rec del: getVault_rec.simps split: sum.split)
  then show ?thesis using assms by (simp add: GetBaseVaultsByStatus_def GetBaseVaults_def getBaseIndex_def split: sum.split)
qed

lemma base_vaults_outside:
  "GetBaseVaultsByStatus e st (s\<lparr>k_txouts := q\<rparr>) = GetBaseVaultsByStatus e st s"
  "GetBaseVaultsByStatus e st (s\<lparr>k_fee_pool := p\<rparr>) = GetBaseVaultsByStatus e st s"
  "GetBaseVaultsByStatus e st (s\<lparr>k_deposits := ds\<rparr>) = GetBaseVaultsByStatus e st s"
  by (rule base_vaults_cong; simp)+

lemma view_outside [simp]:
  "deposit_view e (s\<lparr>k_txouts := q\<rparr>) = deposit_view e s" "deposit_view e (s\<lparr>k_fee_pool := p\<rparr>) = deposit_view e s"
  by (simp_all add: deposit_view_def base_vaults_outside)

text \<open>A deposit is due when its payment arrived after the address expired, it was not settled, and
  the height of its refund has come.\<close>

definition return_due :: "env \<Rightarrow> DepositRecord \<Rightarrow> kstate \<Rightarrow> bool" where
  "return_due e d s \<longleftrightarrow> dr_Settlement d = [] \<and> depositMatchedAfterAddressExpiry e d s \<and>
     0 < dr_RefundEligibleHeight d \<and> dr_RefundEligibleHeight d \<le> k_height s"

lemma return_due_view: "deposit_view e t = deposit_view e s \<Longrightarrow> return_due e d t = return_due e d s"
  by (simp add: return_due_def depositMatchedAfterAddressExpiry_def vaultPubKeyNoLongerActive_def deposit_view_def)

definition return_step :: "env \<Rightarrow> kstate \<Rightarrow> DepositRecord \<Rightarrow> DepositRecord \<Rightarrow> bool" where
  "return_step e s d d' \<longleftrightarrow> d' = d \<or> dr_Status d \<in> {DepositStatusDepositMatched, DepositStatusReturnQueued} \<and>
     (\<exists>st elig h. d' = d\<lparr>dr_Status := st, dr_RefundEligibleHeight := elig, dr_RefundQueuedHeight := h\<rparr> \<and>
       (st = DepositStatusDepositMatched \<or> st = DepositStatusReturnQueued \<and> return_due e d s))"

lemma return_stepI:
  assumes "dr_Status d \<in> {DepositStatusDepositMatched, DepositStatusReturnQueued}"
  shows "return_step e s d (d\<lparr>dr_Status := DepositStatusDepositMatched, dr_RefundEligibleHeight := r, dr_RefundQueuedHeight := q\<rparr>)"
    and "return_step e s d (d\<lparr>dr_Status := DepositStatusDepositMatched, dr_RefundQueuedHeight := q\<rparr>)"
    and "return_due e d s \<Longrightarrow> return_step e s d (d\<lparr>dr_Status := DepositStatusReturnQueued, dr_RefundQueuedHeight := q\<rparr>)"
proof -
  have "d\<lparr>dr_Status := st, dr_RefundQueuedHeight := q\<rparr>
    = d\<lparr>dr_Status := st, dr_RefundEligibleHeight := dr_RefundEligibleHeight d, dr_RefundQueuedHeight := q\<rparr>" for st by simp
  then show "return_step e s d (d\<lparr>dr_Status := DepositStatusDepositMatched, dr_RefundEligibleHeight := r, dr_RefundQueuedHeight := q\<rparr>)"
    "return_step e s d (d\<lparr>dr_Status := DepositStatusDepositMatched, dr_RefundQueuedHeight := q\<rparr>)"
    "return_due e d s \<Longrightarrow> return_step e s d (d\<lparr>dr_Status := DepositStatusReturnQueued, dr_RefundQueuedHeight := q\<rparr>)"
    using assms unfolding return_step_def by metis+
qed

definition deposits_ok :: "kstate \<Rightarrow> bool" where
  "deposits_ok s \<longleftrightarrow> kv_ordered (k_deposits s) \<and> (\<forall>k d. kv_get (k_deposits s) k = Some d \<longrightarrow> k = skey (dr_DepositID d))"

text \<open>Every record of \<open>s\<close> has taken such a step in \<open>t\<close>, no record is new, and the view is else the same.\<close>

definition return_inv :: "env \<Rightarrow> kstate \<Rightarrow> kstate \<Rightarrow> bool" where
  "return_inv e s t \<longleftrightarrow> snd (deposit_view e t) = snd (deposit_view e s) \<and>
     (\<forall>k. rel_option (return_step e s) (kv_get (k_deposits s) k) (kv_get (k_deposits t) k))"

lemma return_inv_refl: "return_inv e s s"
  by (auto simp: return_inv_def return_step_def intro!: option.rel_refl)

lemma keeps_view: "same (deposit_view e) m \<Longrightarrow> keeps (return_inv e s) m"
  unfolding keeps_def same_def return_inv_def by (auto simp: deposit_view_def)

lemma keeps_return_record:
  assumes d: "kv_get (k_deposits s) (skey (dr_DepositID d)) = Some d" and st: "return_step e s d d'"
  shows "keeps (return_inv e s) (SetDepositRecord d')"
proof -
  have k: "dr_DepositID d' = dr_DepositID d" using st by (auto simp: return_step_def)
  show ?thesis
    using d st by (cases "DepositRecord_Valid d'")
      (auto simp: keeps_def SetDepositRecord_def act_defs return_inv_def deposit_view_def base_vaults_outside DepositRecord_Key_def k)
qed

text \<open>A deposit the first loop collects: it is in the store, matched and due.\<close>

lemma expired_run:
  assumes "expiredDeposit e d s = (Inr (Some x), t)"
  shows "x = d" and "dr_Status d = DepositStatusDepositMatched" and "return_due e d s"
proof -
  define m where "m = (if \<not> depositSweepCompleted d s then bindA (logged (purgeLegacyRefundTxOutForDeposit d)) (\<lambda>_. ret ()) else ret ())"
  have same: "same (deposit_view e) m" unfolding m_def purgeLegacyRefundTxOutForDeposit_def Let_def by (auto intro!: act_keeps)
  from assms have a: "x = d \<and> dr_Status d = DepositStatusDepositMatched \<and> (\<exists>s1. m s = (Inr (), s1) \<and> return_due e d s1)"
    unfolding expiredDeposit_def m_def return_due_def by (auto simp: act_run not_le split: if_splits)
  then obtain s1 where "m s = (Inr (), s1)" "return_due e d s1" by blast
  then show "return_due e d s" using sameD [OF same] return_due_view by metis
  from a show "x = d" "dr_Status d = DepositStatusDepositMatched" by auto
qed

definition collected :: "env \<Rightarrow> kstate \<Rightarrow> DepositRecord \<Rightarrow> bool" where
  "collected e s x \<longleftrightarrow> (\<exists>d. kv_get (k_deposits s) (skey (dr_DepositID d)) = Some d \<and>
     (\<forall>h. return_step e s d (x\<lparr>dr_Status := DepositStatusReturnQueued, dr_RefundQueuedHeight := h\<rparr>)))"

lemma keeps_expired: "keeps (return_inv e s) (expiredDeposit e d)"
  unfolding expiredDeposit_def purgeLegacyRefundTxOutForDeposit_def Let_def by (auto intro!: keeps_view act_keeps)

lemma keeps_purges:
  "keeps (return_inv e s) (purgeTxOutItemsForDeposit i ts)" "keeps (return_inv e s) (purge_heights i hs)"
  by (auto intro!: keeps_view act_keeps)

lemma keeps_checkExpired:
  assumes "kv_get (k_deposits s) (skey (dr_DepositID d)) = Some d"
  shows "keeps (return_inv e s) (checkExpiredDeposit e acc d)"
  unfolding checkExpiredDeposit_def Let_def purgeRefundTxOutItems_def purgeRefundTxOutItemAtHeight_def
  by (intro keeps_pure keeps_bindA keeps_if keeps_logged keeps_expired keeps_purges keeps_return_record [OF assms] return_stepI) auto

lemma view_inv_due: "return_inv e s t \<Longrightarrow> return_due e d t = return_due e d s"
  by (simp add: return_inv_def return_due_def depositMatchedAfterAddressExpiry_def vaultPubKeyNoLongerActive_def deposit_view_def)

lemma gives_expired:
  "gives (return_inv e s) (\<lambda>r. r \<noteq> None \<longrightarrow> r = Some d \<and> dr_Status d = DepositStatusDepositMatched \<and> return_due e d s) (expiredDeposit e d)"
  unfolding gives_def using expired_run view_inv_due by (metis not_None_eq)

lemma collectedI:
  assumes "kv_get (k_deposits s) (skey (dr_DepositID d)) = Some d" "return_due e d s"
  shows "dr_Status d = DepositStatusDepositMatched \<Longrightarrow> collected e s d"
    and "dr_Status d = DepositStatusReturnQueued \<Longrightarrow> collected e s (d\<lparr>dr_Status := DepositStatusDepositMatched, dr_RefundQueuedHeight := 0\<rparr>)"
  using assms return_stepI(3) [of d e s] unfolding collected_def by (intro exI [of _ d]; simp)+

lemma gives_checkExpired:
  assumes stored: "kv_get (k_deposits s) (skey (dr_DepositID d)) = Some d" and acc: "\<forall>x \<in> set acc. collected e s x"
  shows "gives (return_inv e s) (\<lambda>xs. \<forall>x \<in> set xs. collected e s x) (checkExpiredDeposit e acc d)"
proof -
  let ?d1 = "d\<lparr>dr_Status := DepositStatusDepositMatched, dr_RefundQueuedHeight := 0\<rparr>"
  have d1: "return_due e ?d1 s = return_due e d s" by (simp add: return_due_def depositMatchedAfterAddressExpiry_def)
  have due: "gives (return_inv e s) (\<lambda>xs. \<forall>x \<in> set xs. collected e s x)
      (bindA (expiredDeposit e x) (\<lambda>r. ret (case r of None \<Rightarrow> acc | Some x \<Rightarrow> acc @ [x])))"
    if "x = d \<or> x = ?d1 \<and> dr_Status d = DepositStatusReturnQueued" for x
    using acc that stored d1
    by (intro gives_bindA_value [OF keeps_expired gives_expired] gives_ret) (auto intro: collectedI split: option.split)
  have set1: "keeps (return_inv e s) (SetDepositRecord ?d1)" if "dr_Status d = DepositStatusReturnQueued"
    using that by (intro keeps_return_record [OF stored] return_stepI) simp
  show ?thesis
    unfolding checkExpiredDeposit_def Let_def purgeRefundTxOutItems_def purgeRefundTxOutItemAtHeight_def
    using acc
    by (intro due gives_if gives_ret gives_bindA keeps_pure keeps_if keeps_logged keeps_purges keeps_return_record [OF stored] return_stepI)
      auto
qed

lemma keeps_returnExpired:
  assumes "collected e s x" shows "keeps (return_inv e s) (returnExpiredDeposit e x)"
proof -
  obtain d where d: "kv_get (k_deposits s) (skey (dr_DepositID d)) = Some d"
    "\<And>h. return_step e s d (x\<lparr>dr_Status := DepositStatusReturnQueued, dr_RefundQueuedHeight := h\<rparr>)"
    using assms by (auto simp: collected_def)
  have "same (deposit_view e) (queueExpiredDepositReturn e x)"
    unfolding queueExpiredDepositReturn_def by (auto intro!: act_keeps split: prod.split)
  then show ?thesis unfolding returnExpiredDeposit_def
    by (intro keeps_pure keeps_bindA keeps_if keeps_logged keeps_return_record [OF d] keeps_view)
qed

lemma returns_run:
  assumes ok: "deposits_ok s" and run: "ProcessExpiredDepositAddressReturns e s = (r, t)"
  shows "return_inv e s t"
proof -
  have stored: "kv_get (k_deposits s) (skey (dr_DepositID d)) = Some d" if "d \<in> set (kv_values (k_deposits s))" for d
    using that ok kv_values_mem unfolding deposits_ok_def by fastforce
  let ?loop = "foldA (checkExpiredDeposit e) [] (kv_values (k_deposits s))"
  have g: "gives (return_inv e s) (\<lambda>xs. \<forall>x \<in> set xs. collected e s x) ?loop"
    by (rule gives_foldA) (auto intro: gives_checkExpired keeps_checkExpired stored)
  have "keeps (return_inv e s) ?loop" by (rule keeps_foldA_set) (auto intro: keeps_checkExpired stored)
  then have "keeps (return_inv e s) (bindA ?loop (\<lambda>xs. forA (returnExpiredDeposit e) xs))"
    using g by (rule keeps_bindA_value) (auto intro: keeps_forA_set keeps_returnExpired)
  note keepsD [OF this return_inv_refl]
  then show ?thesis using run by (simp add: ProcessExpiredDepositAddressReturns_def bindA_def gets_def)
qed

lemma returns_record:
  fixes e s assumes ok: "deposits_ok s"
  defines "t \<equiv> snd (ProcessExpiredDepositAddressReturns e s)"
  shows "return_step e s (GetDepositRecord i s) (GetDepositRecord i t)"
proof -
  have "return_inv e s t" using returns_run [OF ok] unfolding t_def by (metis surj_pair snd_conv)
  then have "rel_option (return_step e s) (kv_get (k_deposits s) (skey i)) (kv_get (k_deposits t) (skey i))"
    by (simp add: return_inv_def)
  then show ?thesis by (cases rule: option.rel_cases) (auto simp: GetDepositRecord_def return_step_def)
qed

section \<open>A deposit is shielded or returned, not both\<close>

lemma deposits_ok_same: "same k_deposits m \<Longrightarrow> keeps deposits_ok m"
  unfolding deposits_ok_def by (rule same_keeps [where f = k_deposits])

lemma deposits_ok_set: "keeps deposits_ok (SetDepositRecord d)"
  by (auto simp: keeps_def SetDepositRecord_def act_defs deposits_ok_def kv_ordered_set DepositRecord_Key_def split: sum.split if_splits)

lemma deposits_ok_shield: "keeps deposits_ok (PostShielderShield e owner did cs)"
proof -
  have "keeps deposits_ok (addWithdrawalFee a)" "keeps deposits_ok (insertShielderCommitments e nts)" for a nts
    by (intro deposits_ok_same; auto intro!: act_keeps)+
  then show ?thesis
    unfolding PostShielderShield_def ShieldUserDepositIntoPool_def shieldUserNotes_def postShieldNotes_def Let_def
    by (auto intro!: act_keeps deposits_ok_set split: prod.split)
qed

lemma shielded_stays:
  assumes run: "PostShielderShield e owner did cs s = (Inr d, t)" and ok: "deposits_ok s"
  shows "GetDepositRecord (dr_DepositID d) (snd (ProcessExpiredDepositAddressReturns e t)) = d"
proof -
  from PostShield_run(1) [OF run] have d: "GetDepositRecord (dr_DepositID d) t = d" "dr_Status d = DepositStatusCommitted"
    by (auto simp: shielded_by_def GetDepositRecord_def)
  have "deposits_ok t" using keepsD [OF deposits_ok_shield ok run] .
  from returns_record [OF this, of e "dr_DepositID d"] d show ?thesis by (auto simp: return_step_def status_defs)
qed

lemma returned_not_shielded:
  "dr_Status (GetDepositRecord did s) = DepositStatusReturnQueued \<Longrightarrow> \<exists>err. PostShielderShield e owner did cs s = (Inl err, s)"
  by (auto simp: PostShielderShield_def act_defs status_defs)

section \<open>Issuing an address\<close>

lemma register_run:
  assumes "RegisterDepositPowToken e owner token dur s = (Inr ses, t)"
  obtains s1 s2 s3 m pt n i v root addr where "TrimSpace token \<noteq> []" "validateDepositPowToken e owner (TrimSpace token) s = Inr ()"
    "currentBTCVaultAddress e s = Inr (v, root)" "AllocateVaultDepositPathIndex (va_PubKey v) VaultDepositPathUser s = (Inr (n, i), s1)"
    "DeriveBTCAddress e v i = Inr addr"
    "SetDepositAddress m s1 = (Inr (), s2)" "SetDepositPowTiming pt s2 = (Inr (), s3)" "SetDepositSession e ses s3 = (Inr (), t)"
    "da_Address m = addr" "da_Owner m = owner" "da_VaultPubKey m = va_PubKey v" "da_PathIndex m = i" "da_PowToken m = TrimSpace token"
    "ds_Owner ses = owner" "ds_PowToken ses = TrimSpace token" "ds_DepositAddress ses = addr" "ds_CreatedHeight ses = k_height s"
    "ds_VaultPubKey ses = va_PubKey v" "ds_DepositPathIndex ses = i" "ds_Status ses = DepositStatusAddressIssued"
  using assms unfolding RegisterDepositPowToken_def Let_def
  by (clarsimp simp: act_run split_paired_Ex)

text \<open>A token that was registered is refused while it has not expired, whoever brings it.\<close>

lemma register_refused:
  assumes "GetDepositSessionByPowToken e (TrimSpace token) s = Inr ses" "\<not> Address_IsEmpty (ds_DepositAddress ses)"
    and "getConfigDurationBlocks Deposit_PowExpiryMinutes s \<le> 0 \<or>
      k_height s \<le> wrap64 (ds_CreatedHeight ses + getConfigDurationBlocks Deposit_PowExpiryMinutes s)"
  shows "\<exists>err. RegisterDepositPowToken e owner token dur s = (Inl err, s)"
  using assms by (cases "validateDepositPowToken e owner (TrimSpace token) s")
    (auto simp: RegisterDepositPowToken_def act_defs Let_def)

lemma SetSession_run:
  assumes "SetDepositSession e ses s = (Inr u, t)" and "e_acc_from_bech32 e (e_acc_string e (ds_Owner ses)) = Inr (ds_Owner ses)"
    and "e_acc_string e (ds_Owner ses) \<noteq> []"
  shows "skey (TrimSpace tok) = skey (ds_PowToken ses) \<Longrightarrow> GetDepositSessionByPowToken e tok (t\<lparr>k_height := h\<rparr>) = Inr ses"
    and "\<not> Address_IsEmpty (ds_DepositAddress ses)"
  using assms by (auto simp: SetDepositSession_def act_run GetDepositSessionByPowToken_def GetDepositSession_def DepositSession_Key_def
    DepositSession_Valid_def checks_ok simp del: checks.simps)

lemma register_issues:
  assumes run: "RegisterDepositPowToken e owner token dur s = (Inr ses, t)"
    and acc: "e_acc_from_bech32 e (e_acc_string e owner) = Inr owner" "e_acc_string e owner \<noteq> []"
  defines "m \<equiv> GetDepositAddress (ds_DepositAddress ses) t" and "i \<equiv> GetNextVaultDepositPathIndex (ds_VaultPubKey ses)"
  shows "da_Owner m = owner" "da_PowToken m = TrimSpace token" "da_VaultPubKey m = ds_VaultPubKey ses" "da_PathIndex m = ds_DepositPathIndex ses"
    and "ds_DepositPathIndex ses \<noteq> MainVaultPathIndex"
    and "\<exists>n. i s = Inr n \<and> i t = Inr (n + 1) \<and> VaultDepositPathIndex VaultDepositPathUser n DepositPathCommitmentRoot = Inr (ds_DepositPathIndex ses)"
    and "validateDepositPowToken e owner (TrimSpace token) s = Inr ()"
    and "getConfigDurationBlocks Deposit_PowExpiryMinutes t \<le> 0 \<or>
        h \<le> wrap64 (k_height s + getConfigDurationBlocks Deposit_PowExpiryMinutes t) \<Longrightarrow>
      \<exists>err. RegisterDepositPowToken e owner' token dur' (t\<lparr>k_height := h\<rparr>) = (Inl err, t\<lparr>k_height := h\<rparr>)"
proof -
  obtain s1 s2 s3 m1 pt n j v root addr where pow: "validateDepositPowToken e owner (TrimSpace token) s = Inr ()"
    and cur: "currentBTCVaultAddress e s = Inr (v, root)" and alloc: "AllocateVaultDepositPathIndex (va_PubKey v) VaultDepositPathUser s = (Inr (n, j), s1)"
    and set: "SetDepositAddress m1 s1 = (Inr (), s2)" "SetDepositPowTiming pt s2 = (Inr (), s3)" "SetDepositSession e ses s3 = (Inr (), t)"
    and m1: "da_Address m1 = addr" "da_Owner m1 = owner" "da_VaultPubKey m1 = va_PubKey v" "da_PathIndex m1 = j" "da_PowToken m1 = TrimSpace token"
    and ses: "ds_Owner ses = owner" "ds_PowToken ses = TrimSpace token" "ds_DepositAddress ses = addr" "ds_CreatedHeight ses = k_height s"
      "ds_VaultPubKey ses = va_PubKey v" "ds_DepositPathIndex ses = j"
    by (rule register_run [OF run], rule that, assumption+)
  have fr: "same k_addresses (SetDepositPowTiming pt)" "same k_addresses (SetDepositSession e ses)" "same k_path_cursor (SetDepositAddress m1)"
    "same k_path_cursor (SetDepositPowTiming pt)" "same k_path_cursor (SetDepositSession e ses)" by (auto intro!: act_keeps)
  have "GetDepositAddress addr s2 = m1" using address_store.get_put [OF set(1)] m1(1) by simp
  then have m: "m = m1" using sameD [OF fr(1) set(2)] sameD [OF fr(2) set(3)] by (simp add: m_def ses GetDepositAddress_def)
  show "da_Owner m = owner" "da_PowToken m = TrimSpace token" "da_VaultPubKey m = ds_VaultPubKey ses" "da_PathIndex m = ds_DepositPathIndex ses"
    by (simp_all add: m m1 ses)
  show "ds_DepositPathIndex ses \<noteq> MainVaultPathIndex"
    using address_store.put_run [OF set(1)] by (simp add: ses m1 DepositAddress_Valid_def checks_ok del: checks.simps)
  have "k_path_cursor t = k_path_cursor s1" using sameD [OF fr(3) set(1)] sameD [OF fr(4) set(2)] sameD [OF fr(5) set(3)] by simp
  then show "\<exists>n. i s = Inr n \<and> i t = Inr (n + 1) \<and> VaultDepositPathIndex VaultDepositPathUser n DepositPathCommitmentRoot = Inr (ds_DepositPathIndex ses)"
    using alloc by (auto simp: i_def ses AllocateVaultDepositPathIndex_def SetNextVaultDepositPathIndex_def act_run GetNextVaultDepositPathIndex_def split: if_splits)
  show "validateDepositPowToken e owner (TrimSpace token) s = Inr ()" by (rule pow)
  note g = SetSession_run [OF set(3), unfolded ses, OF acc]
  have cfg: "getConfigDurationBlocks k (t\<lparr>k_height := h\<rparr>) = getConfigDurationBlocks k t" for k
    by (simp add: getConfigDurationBlocks_def GetConfigInt64_def GetConfig_def)
  show "\<exists>err. RegisterDepositPowToken e owner' token dur' (t\<lparr>k_height := h\<rparr>) = (Inl err, t\<lparr>k_height := h\<rparr>)"
    if "getConfigDurationBlocks Deposit_PowExpiryMinutes t \<le> 0 \<or> h \<le> wrap64 (k_height s + getConfigDurationBlocks Deposit_PowExpiryMinutes t)"
    using g that by (intro register_refused [of _ _ _ ses]) (simp_all add: ses cfg)
qed

end
