(* ===== verification/Demo.thy ===== *)
theory Demo
  imports Keeper
begin

text \<open>
  A concrete environment and small states on which the theorems are applied. The codecs are the
  simplest functions of their type: addresses and keys are their own encodings, a digest is the
  reversed input cut or padded to 32 bytes, every proof and signature verifies. The JSON of public inputs
  is the nullifier hash, preceded by \<^verbatim>\<open>B\<close> when the note pays a bond.
\<close>

definition demo_env :: env where
  "demo_env = \<lparr>
     e_sha256 = (\<lambda>x. take 32 (rev x @ replicate 32 (CHR ''0''))),
     e_acc_string = (\<lambda>a. a),
     e_acc_from_bech32 = Inr,
     e_bech32_hrp = (\<lambda>a. if HasPrefix a ''bc1'' then Some ''bc'' else Some ''tnd''),
     e_btc_decode = (\<lambda>net a. Some AddressTaproot),
     e_pubkey_from_bech32 = (\<lambda>t p. Inr p),
     e_pubkey_address = (\<lambda>p. p),
     e_taproot = (\<lambda>p i. Inr (''bc1'' @ p)),
     e_json_note = (\<lambda>j. Inr \<lparr>nc_DenominationSats = 100000, nc_Commitment = j\<rparr>),
     e_json_notes = (\<lambda>ns. concat (map nc_Commitment ns)),
     e_json_public = (\<lambda>j. Inr (if HasPrefix j ''B''
        then \<lparr>pi_NullifierHash = tl j, pi_MerkleRoot = ''1'', pi_DenominationSats = 100000, pi_Recipient = ''bond_escrow'',
          pi_FeeSats = 0, pi_RecipientPolicy = ''bond_escrow'', pi_NodePubKey = ''N'', pi_BidID = []\<rparr>
        else \<lparr>pi_NullifierHash = j, pi_MerkleRoot = ''1'', pi_DenominationSats = 100000, pi_Recipient = ''bc1q'',
          pi_FeeSats = 0, pi_RecipientPolicy = [], pi_NodePubKey = [], pi_BidID = []\<rparr>)),
     e_json_bond_public = (\<lambda>j. Inr \<lparr>bp_RecipientPolicy = ''bond_escrow'', bp_NodePubKey = ''N'',
        bp_Recipient = ''bond_escrow'', bp_FeeSats = 0\<rparr>),
     e_json_withdrawal = (\<lambda>j. Inr \<lparr>wi_NullifierHash = (if HasPrefix j ''B'' then tl j else j), wi_MerkleRoot = ''1'', wi_DenominationSats = 100000,
        wi_Recipient = (if HasPrefix j ''B'' then ''bond_escrow'' else ''bc1q''), wi_FeeSats = 0, wi_RecipientField = ''1'', wi_RelayerField = ''0'',
        wi_RefundField = ''0'', wi_NoteCommitment = []\<rparr>),
     e_json_valid = (\<lambda>j. True),
     e_json_proof = (\<lambda>j. Inr (\<lparr>pf_Nullifier = [], pf_Secret = [], pf_Commitment = [], pf_MerkleRoot = []\<rparr>, False)),
     e_recipient_binding = (\<lambda>r d f. Inr ''1''),
     e_validate_withdrawal_public = (\<lambda>j. Inr ()),
     e_verify_withdrawal = (\<lambda>p j. Inr ()),
     e_append_leaf = (\<lambda>fs i c. if unat i < 1048576 then Inr (c, [c]) else Inl (Errorf ''full'')),
     e_parse_der = (\<lambda>x. Inr (x, False)),
     e_verify_sig = (\<lambda>k sg m. True),
     e_taproot_pubkey = (\<lambda>p i. Inr p),
     e_hash_from_str = (\<lambda>h. True),
     e_tx_sizes = (\<lambda>ws ss. (100, 200))\<rparr>"

end
