(* ===== verification/Demo_Runs.thy ===== *)
theory Demo_Runs
  imports Ledger Demo
begin

text \<open>
  Concrete runs on the demonstration environment: one vault, one known root, a network fee. They
  are the inputs on which the theorems about handlers are applied.
\<close>

definition demo_vault :: Vault where
  "demo_vault = Vault_zero\<lparr>va_PubKey := ''V'', va_Type := BaseVault, va_Status := ActiveVault, va_Chains := [''BTC'']\<rparr>"

definition demo_state :: kstate where
  "demo_state = empty_kstate\<lparr>k_height := 10, k_vaults := [(''V'', demo_vault)], k_vault_index := [''V''],
     k_roots := kv_set (shielderMerkleRootKey 100000 ''1'') True [],
     k_network_fees := [(''BTC'', \<lparr>nf_Chain = ''BTC'', nf_TransactionSize = 250, nf_TransactionFeeRate = 2\<rparr>)]\<rparr>"

text \<open>What the runs need of the state they start in.\<close>

definition demo_ready :: "kstate \<Rightarrow> bool" where
  "demo_ready s \<longleftrightarrow> k_height s = 10 \<and> k_vaults s = [(''V'', demo_vault)] \<and> k_vault_index s = [''V''] \<and> k_vault_eddsa s = [] \<and>
     kv_has (k_roots s) (shielderMerkleRootKey 100000 ''1'') \<and> k_config s = (\<lambda>_. None) \<and>
     k_network_fees s = [(''BTC'', \<lparr>nf_Chain = ''BTC'', nf_TransactionSize = 250, nf_TransactionFeeRate = 2\<rparr>)]"

lemma demo_state_ready: "demo_ready demo_state"
  by (simp add: demo_ready_def demo_state_def empty_kstate_def kv_has_def kv_get_def)

lemmas text_defs = TrimSpace_def is_space_def ToUpper_def upper_char_def digit_value_def HasPrefix_iff
  Address_IsEmpty_def TxID_IsEmpty_def NoAddress_def

lemma demo_current_vault:
  assumes "demo_ready s"
  shows "currentBTCVaultAddress demo_env s = Inr (demo_vault\<lparr>va_BlockHeight := 10\<rparr>, ''bc1V'')"
  using assms
  by (simp add: currentBTCVaultAddress_def GetBaseVaultsByStatus_def GetBaseVaults_def getBaseIndex_def demo_ready_def
      demo_env_def NewPubKey_def GetVault_def kv_get_def skey_def demo_vault_def zero_defs
      Vault_IsBase_def Vault_IsEmpty_def DeriveBTCAddress_def text_defs)

lemma demo_public:
  "ValidateRedeemPublicJSON demo_env ''7'' = Inr ()" "ValidateRedeemPublicJSON demo_env ''8'' = Inr ()"
  "ValidateRedeemPublicJSON demo_env ''07'' = Inr ()" "ValidateRedeemPublicJSON demo_env ''B7'' = Inr ()"
  "ValidateRedeemPublicJSON demo_env ''B8'' = Inr ()" "ValidateRedeemPublicJSON demo_env ''B07'' = Inr ()"
  by (simp_all add: ValidateRedeemPublicJSON_def demo_env_def checks_ok validateFieldElementInRange_def
      validateZeroBindingField_def SetString10_def Let_def bn254ScalarFieldModulus_def text_defs)

definition demo_redeem :: "string \<Rightarrow> string \<Rightarrow> string \<Rightarrow> string \<Rightarrow> u64 \<Rightarrow> string \<Rightarrow> ShielderRedeem" where
  "demo_redeem n recipient policy node fee i = \<lparr>rd_WithdrawalID = i, rd_NullifierHash = n, rd_MerkleRoot = ''1'',
     rd_Recipient = recipient, rd_RecipientPolicy = policy, rd_BidID = [], rd_NodePubKey = node, rd_AmountSats = 100000,
     rd_FeeSats = fee, rd_InHash = i, rd_OutHash = [], rd_VaultPubKey = ''V'', rd_RequestedHeight = 10,
     rd_Status = ShielderRedeemStatusAuthorized\<rparr>"

abbreviation spent_state :: "ShielderRedeem \<Rightarrow> kstate \<Rightarrow> kstate" where
  "spent_state w s \<equiv> s\<lparr>k_redeems := kv_set (skey (rd_WithdrawalID w)) w (k_redeems s),
     k_nullifiers := kv_set (skey (rd_NullifierHash w)) (NullifierRecord \<lparr>nl_NullifierHash = rd_NullifierHash w,
       nl_WithdrawalID = rd_WithdrawalID w, nl_CreatedHeight = 10\<rparr>) (k_nullifiers s)\<rparr>"

lemma demo_id:
  "NewTxID (shielderRedeemID demo_env ps) = Inr (shielderRedeemID demo_env ps)"
  "TrimSpace (shielderRedeemID demo_env ps) = shielderRedeemID demo_env ps"
  "skey (shielderRedeemID demo_env ps) = shielderRedeemID demo_env ps" "shielderRedeemID demo_env ps \<noteq> []"
proof -
  have "length (e_sha256 demo_env x) = 32" for x by (simp add: demo_env_def)
  then have len: "length (shielderRedeemID demo_env ps) = 64" by (simp add: shielderRedeemID_def length_EncodeUpper)
  then show "NewTxID (shielderRedeemID demo_env ps) = Inr (shielderRedeemID demo_env ps)"
    by (simp add: NewTxID_64) (simp add: shielderRedeemID_def EncodeUpper_simps)
  show "TrimSpace (shielderRedeemID demo_env ps) = shielderRedeemID demo_env ps" "skey (shielderRedeemID demo_env ps) = shielderRedeemID demo_env ps"
    by (simp_all add: shielderRedeemID_def EncodeUpper_simps skey_def)
  show "shielderRedeemID demo_env ps \<noteq> []" using len by auto
qed

lemma demo_config: "demo_ready s \<Longrightarrow> ConfigUint64 key s = u64_of_int (GetInt64Value key)"
  by (simp add: demo_ready_def ConfigUint64_def GetConfigInt64_def GetConfig_def GetInt64Value_def split: ConfigName.split)

lemma demo_fee: "demo_ready s \<Longrightarrow> withdrawalFeeSats 100000 s = Inr 1000"
  by (simp add: withdrawalFeeSats_def withdrawalFee_value withdrawalFeeBp_def demo_config GetInt64Value_def u64_of_int_def)

abbreviation btc_redeem :: "string \<Rightarrow> ShielderRedeem" where
  "btc_redeem n \<equiv> demo_redeem n ''bc1q'' ''user_btc'' [] 1000 (shielderRedeemID demo_env [n, ''bc1q'', ''user_btc''])"

abbreviation bond_redeem :: "string \<Rightarrow> ShielderRedeem" where
  "bond_redeem n \<equiv> demo_redeem n ''bond_escrow'' ''bond_escrow'' ''N'' 0 (shielderRedeemID demo_env [n, ''bond_escrow'', ''bond_escrow''])"

lemmas redeem_defs = AuthorizeShielderRedeem_def parseShielderRedeemPublicInputs_def normalizeShielderRedeemPolicy_def
  validateShielderRedeemPolicy_def validateShielderRedeemPublicFee_def RejectLeakyShielderRedeemProof_def
  VerifyShielderRedeemJSON_def shielderRedeemRecipient_def shielderRedeemFeeSats_def SetShielderRedeem_def
  SetShielderNullifierSpent_def GetShielderRedeem_def seqR_def ShielderRedeemPolicyUserBTC_def
  ShielderRedeemPolicyBondEscrow_def ShielderRedeemPolicyBidDeposit_def

lemmas address_defs = NewAddress_def IsBondEscrow_def Address_Equals_def EqualFold_def GetChain_def IsChain_def
  Chain_Equals_def BTCChain_def BondEscrowAddress_def NoopAddress_def alphaNum_char_def is_digit_def

lemma demo_addresses:
  "NewAddress demo_env ''bc1q'' = Inr ''bc1q''" "NewAddress demo_env ''bond_escrow'' = Inr ''bond_escrow''"
  "GetChain demo_env x = BTCChain" "Chain_Equals BTCChain BTCChain" "IsBondEscrow ''bond_escrow''" "\<not> IsBondEscrow ''bc1q''"
  by (simp_all add: address_defs demo_env_def text_defs ToLower_def lower_char_def)

lemma demo_names: "TrimSpace ''7'' = ''7''" "TrimSpace ''8'' = ''8''" "TrimSpace ''07'' = ''07''" "TrimSpace ''N'' = ''N''"
  "va_PubKey demo_vault = ''V''"
  by (simp_all add: text_defs demo_vault_def zero_defs)

lemma demo_valid:
  assumes "TrimSpace n \<noteq> []"
  shows "ShielderRedeem_Valid demo_env (demo_redeem n ''bc1q'' pol node 1000 (shielderRedeemID demo_env ps)) = Inr ()"
    "ShielderRedeem_Valid demo_env (demo_redeem n ''bond_escrow'' pol node 0 (shielderRedeemID demo_env ps)) = Inr ()"
  using assms by (simp_all add: ShielderRedeem_Valid_def checks_ok demo_redeem_def demo_id TxID_IsEmpty_def demo_addresses)
    (simp_all add: text_defs)

lemma demo_proofs:
  "e_json_valid demo_env x" "e_verify_withdrawal demo_env x y = Inr ()"
  "e_json_proof demo_env x = Inr (\<lparr>pf_Nullifier = [], pf_Secret = [], pf_Commitment = [], pf_MerkleRoot = []\<rparr>, False)"
  "e_pubkey_from_bech32 demo_env ty x = Inr x"
  by (simp_all add: demo_env_def)

lemma demo_authorize:
  assumes ok: "demo_ready s" and fresh: "\<not> ShielderNullifierSpent n s" and n: "n \<in> {''7'', ''8'', ''07''}"
  shows "AuthorizeShielderRedeem demo_env \<lparr>rq_Proof = ''p'', rq_Public = n\<rparr> s = (Inr (btc_redeem n), spent_state (btc_redeem n) s)"
proof -
  have j: "e_json_public demo_env n = Inr \<lparr>pi_NullifierHash = n, pi_MerkleRoot = ''1'', pi_DenominationSats = 100000,
      pi_Recipient = ''bc1q'', pi_FeeSats = 0, pi_RecipientPolicy = [], pi_NodePubKey = [], pi_BidID = []\<rparr>"
    using n by (auto simp: demo_env_def HasPrefix_iff)
  have v: "ValidateRedeemPublicJSON demo_env n = Inr ()" "TrimSpace n = n" "n \<noteq> []"
    using n demo_public demo_names by auto
  have r: "ShielderMerkleRootExists 100000 ''1'' s" "k_height s = 10"
    using ok by (simp_all add: demo_ready_def ShielderMerkleRootExists_def text_defs)
  show ?thesis
    using fresh demo_valid(1) [of n, unfolded demo_redeem_def]
    by (simp add: redeem_defs act_defs Let_def v j r demo_current_vault [OF ok] demo_id demo_fee [OF ok]
        demo_addresses demo_names demo_proofs demo_redeem_def)
qed

lemma demo_parse_bond:
  assumes "n \<in> {''7'', ''8'', ''07''}"
  shows "parseShielderRedeemPublicInputs demo_env (CHR ''B'' # n) = Inr \<lparr>pi_NullifierHash = n, pi_MerkleRoot = ''1'', pi_DenominationSats = 100000,
      pi_Recipient = ''bond_escrow'', pi_FeeSats = 0, pi_RecipientPolicy = ''bond_escrow'', pi_NodePubKey = ''N'', pi_BidID = []\<rparr>"
    and "VerifyShielderRedeemJSON demo_env ''p'' (CHR ''B'' # n) = Inr ()"
  using assms demo_public demo_proofs
  by (auto simp: parseShielderRedeemPublicInputs_def VerifyShielderRedeemJSON_def seqR_def demo_env_def HasPrefix_iff)

lemma demo_authorize_bond:
  assumes ok: "demo_ready s" and fresh: "\<not> ShielderNullifierSpent n s" and n: "n \<in> {''7'', ''8'', ''07''}"
  shows "AuthorizeShielderRedeem demo_env \<lparr>rq_Proof = ''p'', rq_Public = CHR ''B'' # n\<rparr> s = (Inr (bond_redeem n), spent_state (bond_redeem n) s)"
proof -
  have r: "ShielderMerkleRootExists 100000 ''1'' s" "k_height s = 10"
    using ok by (simp_all add: demo_ready_def ShielderMerkleRootExists_def text_defs)
  have tr: "TrimSpace ''bond_escrow'' = ''bond_escrow''" "TrimSpace n = n" "n \<noteq> []" using n demo_names by (auto simp: text_defs)
  show ?thesis
    using fresh demo_valid(2) [of n, unfolded demo_redeem_def] tr
    unfolding AuthorizeShielderRedeem_def demo_parse_bond(1) [OF n] ShielderRedeemRequest.simps demo_parse_bond(2) [OF n]
    by (simp add: redeem_defs act_defs Let_def r demo_current_vault [OF ok] demo_id
        demo_addresses demo_names demo_proofs demo_redeem_def)
qed

text \<open>Bonds below the requirement of the slot: they stay pending.\<close>

definition demo_bond :: "u64 \<Rightarrow> ShielderNodeBond" where
  "demo_bond p = ShielderNodeBond_zero\<lparr>nb_NodePubKey := ''N'', nb_OperatorPubKey := ''op'', nb_NodeAddress := ''op'', nb_Slot := 1,
     nb_PendingSats := p, nb_Bonders := [''op''], nb_CreatedHeight := 10, nb_UpdatedHeight := 10\<rparr>"

definition demo_bonder :: "u64 \<Rightarrow> ShielderNodeBonder" where
  "demo_bonder p = ShielderNodeBonder_zero\<lparr>br_NodePubKey := ''N'', br_Bonder := ''op'', br_PendingSats := p, br_UpdatedHeight := 10\<rparr>"

abbreviation bonded_state :: "u64 \<Rightarrow> kstate \<Rightarrow> kstate" where
  "bonded_state p s \<equiv> s\<lparr>k_bonds := [(''N'', demo_bond p)], k_bonders := [(''N/OP'', demo_bonder p)], k_bond_slot := Some 2\<rparr>"

lemma demo_keys: "skey ''N'' = ''N''" "skey (ShielderNodeBonderKey demo_env ''N'' ''op'') = ''N/OP''"
  "ShielderNodeBond_Valid (demo_bond p) = Inr ()" "ShielderNodeBonder_Valid (demo_bonder p) = Inr ()" "e_acc_string demo_env x = x"
  "GetThorAddress demo_env ''op'' = Inr ''op''"
  by (simp_all add: ShielderNodeBonderKey_def demo_names)
    (simp_all add: skey_def text_defs ShielderNodeBond_Valid_def checks_ok ShielderNodeBonder_Valid_def demo_bond_def demo_bonder_def zero_defs
      demo_env_def GetThorAddress_def char_of_def bit_0)

lemma demo_bond_fields [simp]: "nb_NodeAddress (demo_bond p) = ''op''" "nb_PendingSats (demo_bond p) = p" "nb_BondSats (demo_bond p) = 0"
    "\<not> nb_FeeShareActive (demo_bond p)" "nb_Slot (demo_bond p) = 1" "(demo_bond p)\<lparr>nb_UpdatedHeight := 10\<rparr> = demo_bond p"
    "nb_NodePubKey (demo_bond p) = ''N''" "(demo_bond p)\<lparr>nb_PendingSats := q, nb_UpdatedHeight := 10\<rparr> = demo_bond q"
    "nb_OperatorPubKey (demo_bond p) = ''op''"
    "br_Bonder (demo_bonder p) = ''op''" "br_PendingSats (demo_bonder p) = p" "br_NodePubKey (demo_bonder p) = ''N''"
    "(demo_bonder p)\<lparr>br_PendingSats := q, br_UpdatedHeight := 10\<rparr> = demo_bonder q"
  by (simp_all add: demo_bond_def demo_bonder_def zero_defs)

lemmas bond_access_defs = GetShielderNodeBond_def GetShielderNodeBonder_def AllocateShielderNodeBondSlot_def GetNextShielderNodeBondSlot_def
  SetNextShielderNodeBondSlot_def SetShielderNodeBonder_def SetShielderNodeBond_def ShielderNodeBond_Key_def ShielderNodeBonder_Key_def

abbreviation demo_session :: DepositSession where
  "demo_session \<equiv> DepositSession_zero\<lparr>ds_Owner := ''op'', ds_OperatorPubKey := ''op'', ds_NodePubKey := ''N''\<rparr>"

lemma demo_record_first:
  assumes h: "k_height s = 10" and new: "k_bonds s = []" "k_bonders s = []" "k_bond_slot s = None"
  shows "recordPendingShielderNodeBond demo_env demo_session 100000 s = (Inr 1, bonded_state 100000 s)"
  using new h demo_keys(3,4) [of 100000] unfolding demo_bond_def demo_bonder_def
  by (simp add: recordPendingShielderNodeBond_def act_defs Let_def demo_names demo_keys demo_proofs bond_access_defs zero_defs)

lemma demo_record_next:
  assumes h: "k_height s = 10" and old: "k_bonds s = [(''N'', demo_bond p)]" "k_bonders s = [(''N/OP'', demo_bonder p)]" "k_bond_slot s = Some 2"
  shows "recordPendingShielderNodeBond demo_env demo_session 100000 s = (Inr 1, bonded_state (p + 100000) s)"
  using old h
  by (simp add: recordPendingShielderNodeBond_def act_defs Let_def demo_names demo_keys demo_proofs bond_access_defs DepositSession_zero_def kv_get_def)

lemma demo_confirm:
  assumes ok: "demo_ready s" and b: "k_bonds s = [(''N'', demo_bond p)]" and p: "100000 \<le> p" "p < 200000000"
  shows "confirmShielderNodeBond demo_env (DepositRecord_zero\<lparr>dr_Owner := ''op'', dr_AmountSats := 100000,
       dr_OperatorPubKey := ''op'', dr_NodePubKey := ''N'', dr_NodeSlot := 1, dr_Settlement := DepositSettlementOperatorBond\<rparr>) s
     = (Inr (), s)"
proof -
  have g: "GetShielderNodeBond ''N'' s = demo_bond p" by (simp add: GetShielderNodeBond_def b demo_names demo_keys kv_get_def)
  have r: "shielderBondRequiredSats 1 s = 200000000" "k_height s = 10"
    using ok by (simp_all add: shielderBondRequiredSats_def demo_config GetInt64Value_def u64_of_int_def) (simp add: demo_ready_def)
  have q: "(p < 100000) = False" "(p < 200000000) = True" using p by (metis leD, metis)
  show ?thesis
    by (simp only: confirmShielderNodeBond_def IsNodeBond_def)
      (simp add: act_defs Let_def DepositRecord_zero_def g r q SetShielderNodeBond_def demo_keys demo_names ShielderNodeBond_Key_def b)
qed

lemma demo_spend:
  assumes ok: "demo_ready s" and p: "p < 100000000"
    and rec: "recordPendingShielderNodeBond demo_env demo_session 100000 s = (Inr 1, bonded_state (p + 100000) s)"
  shows "confirmBondFromNoteSpend demo_env ''op'' ''N'' ''op'' 100000 s = (Inr (demo_bond (p + 100000)), bonded_state (p + 100000) s)"
proof -
  have r: "demo_ready (bonded_state (p + 100000) s)" using ok by (simp add: demo_ready_def)
  have "unat p < 100000000" using p by (simp add: word_less_nat_alt)
  then have u: "unat (p + 100000) = unat p + 100000" by (subst unat_add_u64) simp_all
  have q: "100000 \<le> p + 100000" "p + 100000 < 200000000"
    using \<open>unat p < 100000000\<close> by (simp_all add: word_le_nat_alt word_less_nat_alt u)
  show ?thesis
    by (simp add: confirmBondFromNoteSpend_def act_defs rec demo_confirm [OF r _ q])
      (simp add: GetShielderNodeBond_def demo_names demo_keys kv_get_def)
qed

section \<open>Two messages\<close>

definition bond_msg :: "string \<Rightarrow> msg" where
  "bond_msg n = BondFromNotes \<lparr>mn_NodePubKey = ''N'', mn_OperatorPubKey = ''op'', mn_Proof = ''p'', mn_Public = CHR ''B'' # n, mn_Signer = ''op''\<rparr>"

lemma demo_basic:
  assumes "n \<in> {''7'', ''8'', ''07''}"
  shows "MsgBondFromNotes_ValidateBasic demo_env \<lparr>mn_NodePubKey = ''N'', mn_OperatorPubKey = ''op'', mn_Proof = ''p'',
    mn_Public = CHR ''B'' # n, mn_Signer = ''op''\<rparr> = Inr ()"
proof -
  have v: "ValidateRedeemPublicJSON demo_env (CHR ''B'' # n) = Inr ()" "length n \<le> 2" using assms demo_public by auto
  have j: "e_json_bond_public demo_env x = Inr \<lparr>bp_RecipientPolicy = ''bond_escrow'', bp_NodePubKey = ''N'',
        bp_Recipient = ''bond_escrow'', bp_FeeSats = 0\<rparr>" for x by (simp add: demo_env_def)
  have tr: "TrimSpace ''bond_escrow'' = ''bond_escrow''" "TrimSpace ''op'' = ''op''" by (simp_all add: text_defs)
  show ?thesis using v
    by (simp add: MsgBondFromNotes_ValidateBasic_def assertR_def wrapR_def seqR_def demo_names demo_proofs NewPubKey_def
        validateShielderRedeemJSON_def j tr normalizeBondPublicPolicy_def ShielderRedeemPolicyBondEscrow_def BondEscrowAddress_def
        ShielderRedeemPolicyUserBTC_def MaxShielderProofJSONLength_def MaxShielderPublicJSONLength_def)
qed

lemma demo_handle:
  assumes ok: "demo_ready s" and fresh: "\<not> ShielderNullifierSpent n s" and n: "n \<in> {''7'', ''8'', ''07''}" and p: "p < 100000000"
    and rec: "recordPendingShielderNodeBond demo_env demo_session 100000 (spent_state (bond_redeem n) s)
       = (Inr 1, bonded_state (p + 100000) (spent_state (bond_redeem n) s))"
  shows "handle demo_env (bond_msg n) s = (Inr (), bonded_state (p + 100000) (spent_state (bond_redeem n) s))"
proof -
  have r: "demo_ready (spent_state (bond_redeem n) s)" using ok by (simp add: demo_ready_def)
  have amt: "rd_AmountSats (bond_redeem n) = 100000" by (simp add: demo_redeem_def)
  have tr: "TrimSpace ''bond_escrow'' = ''bond_escrow''" by (simp add: text_defs)
  show ?thesis
    by (simp only: bond_msg_def handle.simps discard_def msgServer_BondFromNotes_def BondFromShieldedNotes_def MsgBondFromNotes.simps
        demo_basic [OF n] Let_def demo_names ShielderRedeemRequest.simps demo_parse_bond(1) [OF n])
      (simp only: act_defs NewPubKey_def demo_proofs sum.simps prod.simps demo_authorize_bond [OF ok fresh n] amt
        demo_spend [OF r p rec] shielderRedeemPublicInputs.simps normalizeShielderRedeemPolicy_def Let_def tr demo_names
        ShielderRedeemPolicyBondEscrow_def ShielderRedeemPolicyUserBTC_def if_False list.simps simp_thms refl if_True)
qed

definition demo_state1 :: kstate where
  "demo_state1 = bonded_state 100000 (spent_state (bond_redeem ''7'') demo_state)"

lemma demo_first: "handle demo_env (bond_msg ''7'') demo_state = (Inr (), demo_state1)"
proof -
  let ?s = "spent_state (bond_redeem ''7'') demo_state"
  have "recordPendingShielderNodeBond demo_env demo_session 100000 ?s = (Inr 1, bonded_state (0 + 100000) ?s)"
    using demo_record_first [of ?s] by (simp add: demo_state_def empty_kstate_def)
  then have "handle demo_env (bond_msg ''7'') demo_state = (Inr (), bonded_state (0 + 100000) ?s)"
    by (intro demo_handle demo_state_ready) (simp_all add: ShielderNullifierSpent_def demo_state_def empty_kstate_def)
  then show ?thesis by (simp add: demo_state1_def)
qed

lemma demo_second:
  assumes "n \<in> {''8'', ''07''}"
  shows "\<exists>t. handle demo_env (bond_msg n) demo_state1 = (Inr (), t)"
proof -
  let ?s = "spent_state (bond_redeem n) demo_state1"
  have ready: "demo_ready demo_state1" using demo_state_ready by (simp add: demo_state1_def demo_ready_def)
  have "recordPendingShielderNodeBond demo_env demo_session 100000 ?s = (Inr 1, bonded_state (100000 + 100000) ?s)"
    by (rule demo_record_next) (simp_all add: demo_state1_def demo_state_def)
  moreover have "\<not> ShielderNullifierSpent n demo_state1"
    using assms by (auto simp: ShielderNullifierSpent_def demo_state1_def demo_redeem_def demo_names demo_state_def empty_kstate_def
        skey_def text_defs kv_has_def kv_get_def)
  ultimately show ?thesis using demo_handle [OF ready, of n 100000] assms by auto
qed

section \<open>A withdrawal\<close>

text \<open>Without a vault to select inputs from, the withdrawal is queued all the same and its inputs
  are chosen by a later refresh.\<close>

definition queue_state :: kstate where
  "queue_state = empty_kstate\<lparr>k_height := 10, k_redeems := kv_set (skey (rd_WithdrawalID (btc_redeem ''7''))) (btc_redeem ''7'') [],
     k_network_fees := [(''BTC'', \<lparr>nf_Chain = ''BTC'', nf_TransactionSize = 250, nf_TransactionFeeRate = 2\<rparr>)]\<rparr>"

abbreviation queued_item :: TxOutItem where
  "queued_item \<equiv> withdrawal_item (btc_redeem ''7'') 2"

lemma queue_config: "ConfigUint64 key queue_state = u64_of_int (GetInt64Value key)" "GetConfigInt64 key queue_state = GetInt64Value key"
  by (simp_all add: queue_state_def empty_kstate_def ConfigUint64_def GetConfigInt64_def GetConfig_def GetInt64Value_def split: ConfigName.split)

lemma queue_gas: "btcGasRateFromKeeper queue_state = Inr 2"
  by (simp add: btcGasRateFromKeeper_def GetNetworkFee_def queue_state_def kv_get_def skey_def text_defs BTCChain_def NetworkFee_Valid_def
      Let_def Chain_IsEmpty_def)

lemma queue_item:
  "GetTxType queued_item = ''out''" "queued_item\<lparr>to_TxType := ''out''\<rparr> = queued_item" "btcEpochBatchItem queued_item"
  "to_VaultPubKey queued_item = ''V''"
  by (simp_all add: withdrawal_item_def GetTxType_def NormalizeTxOutType_def txout_string_defs text_defs btcEpochBatchItem_def zero_defs BTCChain_def Let_def
    Chain_Equals_def EqualFold_def ToLower_def lower_char_def demo_redeem_def MainVaultPathIndex_def)

definition queued_block :: TxOut where
  "queued_block = TxOut_zero\<lparr>tx_Height := 110, tx_Status := TxOutStatusPendingBatch, tx_TxArray := [queued_item]\<rparr>"

lemma next_empty_free: "TxOut_IsEmpty (GetTxOut h s) \<Longrightarrow> 0 < n \<Longrightarrow> next_empty n h s = Inr h"
  by (cases n) simp_all

lemma queue_block: "btcVaultBatchTxOut queued_item queue_state = Inr (TxOut_zero\<lparr>tx_Height := 110, tx_Status := TxOutStatusPendingBatch\<rparr>)"
proof -
  have q: "k_txouts queue_state = []" "k_height queue_state = 10" by (simp_all add: queue_state_def empty_kstate_def)
  have g: "GetTxOut h queue_state = TxOut_zero\<lparr>tx_Height := h\<rparr>" for h by (simp add: GetTxOut_def q NewTxOut_def)
  have "MinutesToBlocks 10 6 = 100" by (simp add: MinutesToBlocks_def wrap64_id go_div_pos Let_def)
  then have w: "MinutesToBlocks (GetConfigInt64 Withdrawal_BatchWindowMinutes queue_state) (GetConfigInt64 Chain_BlockTimeSeconds queue_state) = 100"
    by (simp add: queue_config GetInt64Value_def)
  have "nextEmptyTxOutHeight 110 queue_state = Inr 110"
    unfolding nextEmptyTxOutHeight_def by (rule next_empty_free) (simp_all add: g TxOut_IsEmpty_def zero_defs)
  then show ?thesis by (simp add: btcVaultBatchTxOut_def kv_values_def q w wrap64_id g zero_defs)
qed

lemma queue_append: "appendBTCExactTxOut demo_env 10 queued_item queue_state
    = (Inr (), queue_state\<lparr>k_txouts := [(txout_key 110, queued_block)]\<rparr>)"
proof -
  have "GetVault ''V'' queue_state = Inl (Errorf ''vault not found'')"
    by (simp add: GetVault_def getBaseEDDSAIndex_def queue_state_def empty_kstate_def)
  note vault = this
  have b: "tx_TxArray queued_block = [queued_item]" "tx_Status queued_block = TxOutStatusPendingBatch" by (simp_all add: queued_block_def)
  have need: "btcTxOutItemNeedsExactRefresh queued_block queued_item"
    by (simp add: btcTxOutItemNeedsExactRefresh_def b withdrawal_item_def zero_defs TxID_IsEmpty_def demo_addresses)
  from vault have "refreshBTCExactTxOutGroup demo_env queued_block [0] queue_state
      = Inl (Wrapf ''fail to get bitcoin txout vault'' (Errorf ''vault not found''))"
    using queue_item by (simp add: refreshBTCExactTxOutGroup_def b refreshBTCEpochBatchGroup_def)
  then have "refreshBTCExactTxOutBlock demo_env queued_block queue_state
      = (Inl (Wrapf ''fail to get bitcoin txout vault'' (Errorf ''vault not found'')), queued_block)"
    using need queue_item by (simp add: refreshBTCExactTxOutBlock_def refresh_group_def b Let_def)
  moreover have "k_txouts queue_state = []" "tx_TxArray TxOut_zero = []" by (simp_all add: queue_state_def empty_kstate_def zero_defs)
  moreover have "\<not> txOutComplete queued_block"
    by (simp add: txOutComplete_def queued_block_def withdrawal_item_def zero_defs TxID_IsEmpty_def)
  ultimately show ?thesis
    using queue_item queue_block
    by (simp add: appendBTCExactTxOut_def act_defs after_log_def SetTxOut_def TxOut_IsEmpty_def queued_block_def Let_def txout_string_defs)
qed

lemma queue_fee: "withdrawalFeeSats 100000 queue_state = Inr 1000" "withdrawalFeeBp queue_state = 100"
  by (simp_all add: withdrawalFeeSats_def withdrawalFee_value withdrawalFeeBp_def queue_config GetInt64Value_def u64_of_int_def)

lemma queue_total: "\<exists>p. queueAuthorizedWithdrawalTxOut demo_env (btc_redeem ''7'') True queue_state
    = (Inr ((btc_redeem ''7'')\<lparr>rd_Status := DepositStatusKeysignQueued\<rparr>),
       queue_state\<lparr>k_txouts := [(txout_key 110, queued_block)], k_fee_pool := Some p,
         k_redeems := kv_set (skey (rd_WithdrawalID (btc_redeem ''7''))) ((btc_redeem ''7'')\<lparr>rd_Status := DepositStatusKeysignQueued\<rparr>) (k_redeems queue_state)\<rparr>)"
proof -
  let ?w = "btc_redeem ''7''" and ?s = "queue_state\<lparr>k_txouts := [(txout_key 110, queued_block)]\<rparr>"
  obtain p where p: "addWithdrawalFee 1000 ?s = (Inr (), ?s\<lparr>k_fee_pool := Some p\<rparr>)"
    using setDistributed_total by (fastforce simp: addWithdrawalFee_def act_defs)
  have v: "ShielderRedeem_Valid demo_env ?w = Inr ()" using demo_valid(1) by (simp add: demo_names)
  have v': "ShielderRedeem_Valid demo_env (?w\<lparr>rd_Status := st\<rparr>) = Inr ()" for st
    using v by (simp add: ShielderRedeem_Valid_def)
  have w: "rd_Status ?w = ShielderRedeemStatusAuthorized" "rd_AmountSats ?w = 100000" "?w\<lparr>rd_FeeSats := 1000\<rparr> = ?w" "rd_FeeSats ?w = 1000"
    by (simp_all add: demo_redeem_def)
  have i: "k_height queue_state = 10" by (simp add: queue_state_def)
  show ?thesis using queue_append
    by (intro exI [of _ p]) (simp add: queueAuthorizedWithdrawalTxOut_def act_defs v v' w queue_fee queue_gas i p withdrawal_item_def Let_def
      SetShielderRedeem_def)
qed

end
