(* ===== verification/Demo_Sales.thy ===== *)
theory Demo_Sales
  imports Demo_Runs
begin

text \<open>
  A concrete sale of a node slot: the node N with a bond of 1000 sats of its operator, an open
  auction with a reserve of 500 and a bid of 100000 sats for the node M.
\<close>

definition sale_bond :: ShielderNodeBond where
  "sale_bond = ShielderNodeBond_zero\<lparr>nb_NodePubKey := ''N'', nb_OperatorPubKey := ''op'', nb_NodeAddress := ''op'', nb_Slot := 1,
     nb_BondSats := 1000, nb_Bonders := [''op''], nb_FeeShareActive := True\<rparr>"

definition sale_bonder :: ShielderNodeBonder where
  "sale_bonder = ShielderNodeBonder_zero\<lparr>br_NodePubKey := ''N'', br_Bonder := ''op'', br_PrincipalSats := 1000\<rparr>"

definition sale_auction :: NodeSlotAuction where
  "sale_auction = \<lparr>au_AuctionID = ''A'', au_Seller = ''op'', au_SellerOperatorPubKey = ''op'', au_SellerNodePubKey = ''N'',
     au_Slot = 1, au_OriginalBondSats = 1000, au_ReserveSats = 500, au_ExpiryHeight = 100, au_SelectedBidID = [],
     au_Status = NodeSlotAuctionOpen, au_CreatedHeight = 1, au_UpdatedHeight = 1\<rparr>"

definition sale_bid :: NodeSlotBid where
  "sale_bid = NodeSlotBid_zero\<lparr>bd_BidID := ''B'', bd_AuctionID := ''A'', bd_Bidder := ''x'', bd_OperatorPubKey := ''x'',
     bd_NodePubKey := ''M'', bd_AmountSats := 100000, bd_DepositAddress := BondEscrowAddress\<rparr>"

definition sale_node :: NodeAccount where
  "sale_node = NodeAccount_zero\<lparr>na_NodeAddress := ''op'', na_Status := NodeStandby\<rparr>"

definition sale_state :: kstate where
  "sale_state = demo_state\<lparr>k_bonds := [(''N'', sale_bond)], k_bonders := [(''N/OP'', sale_bonder)],
     k_auctions := [(''A'', sale_auction)], k_bids := [(''B'', sale_bid)], k_node_accounts := [(''OP'', sale_node)]\<rparr>"

definition sold_auction :: NodeSlotAuction where
  "sold_auction = sale_auction\<lparr>au_SelectedBidID := ''B'', au_Status := NodeSlotAuctionSettled, au_UpdatedHeight := 10\<rparr>"

definition sold_bid :: NodeSlotBid where
  "sold_bid = sale_bid\<lparr>bd_Selected := True, bd_Settled := True, bd_UpdatedHeight := 10\<rparr>"

lemma sale_names: "skey ''N'' = ''N''" "skey ''M'' = ''M''" "skey ''A'' = ''A''" "skey ''B'' = ''B''" "skey ''op'' = ''OP''" "skey ''x'' = ''X''"
  "skey (ShielderNodeBonderKey demo_env ''N'' ''op'') = ''N/OP''" "skey (ShielderNodeBonderKey demo_env ''M'' ''x'') = ''M/X''"
  "TrimSpace ''N'' = ''N''" "TrimSpace ''M'' = ''M''" "TrimSpace ''A'' = ''A''" "TrimSpace ''B'' = ''B''" "TrimSpace ''op'' = ''op''" "TrimSpace ''x'' = ''x''"
  by (simp_all add: ShielderNodeBonderKey_def skey_def text_defs char_of_def bit_0 demo_env_def)

lemma sale_addresses: "GetThorAddress demo_env ''x'' = Inr ''x''" "GetThorAddress demo_env ''op'' = Inr ''op''" "NewAddress demo_env ''x'' = Inr ''x''"
  by (simp_all add: GetThorAddress_def demo_env_def address_defs text_defs ToLower_def lower_char_def)

lemma sale_ready: "demo_ready sale_state"
  using demo_state_ready by (simp add: demo_ready_def sale_state_def)

lemma sale_reads: "GetNodeSlotAuction ''A'' sale_state = sale_auction" "GetNodeSlotBid ''B'' sale_state = sale_bid" "k_height sale_state = 10"
  "GetShielderNodeBond ''N'' sale_state = sale_bond"
  by (simp_all add: GetNodeSlotAuction_def GetNodeSlotBid_def GetShielderNodeBond_def sale_names sale_state_def demo_state_def kv_get_def)

lemma sale_validated: "validateNodeSlotBidSelection ''op'' ''A'' ''B'' sale_state = (Inr (sale_auction, sale_bid), sale_state)"
  by (simp add: validateNodeSlotBidSelection_def act_defs sale_reads)
    (simp add: sale_auction_def sale_bid_def zero_defs demo_config [OF sale_ready] GetInt64Value_def u64_of_int_def TxID_IsEmpty_def)

lemmas sale_defs = sale_bond_def sale_bonder_def sale_auction_def sale_bid_def sale_node_def sold_auction_def sold_bid_def

lemmas access_defs = bond_access_defs GetNodeAccount_def SetNodeAccount_def NodeAccount_IsEmpty_def NodeAccount_UpdateStatus_def
  SetFeePool_def GetFeePool_def ShielderNodeBond_Valid_def ShielderNodeBonder_Valid_def checks_ok

definition dust_pool :: FeePool where
  "dust_pool = FeePool_zero\<lparr>fp_PendingSats := 99000, fp_TotalCollectedSats := 99000\<rparr>"

definition fee_state :: kstate where
  "fee_state = sale_state\<lparr>k_fee_pool := Some dust_pool\<rparr>"

lemma sale_fee: "addWithdrawalFee 99000 sale_state = (Inr (), fee_state)" "distributeFeePool fee_state = (Inr dust_pool, fee_state)"
  by (simp_all add: addWithdrawalFee_def distributeFeePool_def setDistributedFeePool_def act_defs GetFeePool_def SetFeePool_def
      fee_state_def dust_pool_def)
    (simp_all add: sale_state_def demo_state_def empty_kstate_def zero_defs)

lemma sale_transfer: "\<exists>t. transferNodeSlotSaleBond demo_env sold_auction sold_bid 100000 fee_state = (Inr (), t)"
  by (simp add: transferNodeSlotSaleBond_def act_defs sale_fee demo_proofs sale_addresses demo_keys sale_defs sale_names Let_def
      access_defs zero_defs)
    (simp add: fee_state_def sale_state_def demo_state_def empty_kstate_def sale_names sale_defs kv_get_def zero_defs NewNodeAccount_def)

lemma same_transfer:
  assumes "\<And>s x. f (s\<lparr>k_bonders := x\<rparr>) = f s" "\<And>s x. f (s\<lparr>k_bonds := x\<rparr>) = f s" "\<And>s x. f (s\<lparr>k_node_accounts := x\<rparr>) = f s"
    "\<And>s x. f (s\<lparr>k_fee_pool := x\<rparr>) = f s" "\<And>s x. f (s\<lparr>k_penalties := x\<rparr>) = f s"
  shows "same f (transferNodeSlotSaleBond e a b amt)"
  using assms by (auto simp: transferNodeSlotSaleBond_def SetFeePool_def Let_def intro!: act_keeps same_modify)

lemma transfer_bonders:
  assumes "transferNodeSlotSaleBond e a b amt s = (Inr u, t)"
  shows "\<exists>br. br_NodePubKey br = bd_NodePubKey b \<and> k_bonders t = kv_set (skey (ShielderNodeBonder_Key e br)) br (k_bonders s)"
proof -
  from assms obtain p s1 ob s2 nb s3 br s4 na s5 lv oa s6 where
      dist: "distributeFeePool s = (Inr p, s1)"
    and w1: "SetShielderNodeBond ob s1 = (Inr (), s2)" and w2: "SetShielderNodeBond nb s2 = (Inr (), s3)"
    and w3: "SetShielderNodeBonder e br s3 = (Inr (), s4)" and br: "br_NodePubKey br = bd_NodePubKey b"
    and w4: "SetNodeAccount e na s4 = (Inr (), s5)" and w5: "(if lv then SetNodeAccount e oa else ret ()) s5 = (Inr (), s6)"
    and t: "t = s6\<lparr>k_fee_pool := Some p\<rparr>"
    unfolding transferNodeSlotSaleBond_def Let_def by (clarsimp simp: act_run SetFeePool_def)
  have "same k_bonders distributeFeePool" "same k_bonders (SetShielderNodeBond ob)" "same k_bonders (SetShielderNodeBond nb)"
    "same k_bonders (SetNodeAccount e na)" "same k_bonders (if lv then SetNodeAccount e oa else ret ())"
    by (auto intro!: act_keeps)
  from sameD [OF this(1) dist] sameD [OF this(2) w1] sameD [OF this(3) w2] sameD [OF this(4) w4] sameD [OF this(5) w5] w3 br t
  show ?thesis by (auto simp: SetShielderNodeBonder_def act_run)
qed

lemma sale_moved:
  assumes run: "transferNodeSlotSaleBond demo_env sold_auction sold_bid 100000 fee_state = (Inr (), t)"
  shows "demo_ready t" and "getNodeBonders ''N'' t = [sale_bonder]"
proof -
  have "demo_ready fee_state" using sale_ready by (simp add: demo_ready_def fee_state_def)
  moreover have "same demo_ready (transferNodeSlotSaleBond demo_env sold_auction sold_bid 100000)"
    by (rule same_transfer) (simp_all add: demo_ready_def)
  from sameD [OF this run] have "demo_ready t = demo_ready fee_state" .
  ultimately show "demo_ready t" by simp
  from transfer_bonders [OF run] obtain br k where br: "br_NodePubKey br = ''M''" "k_bonders t = kv_set k br [(''N/OP'', sale_bonder)]"
    and k: "k = skey (ShielderNodeBonder_Key demo_env br)"
    by (auto simp: fee_state_def sale_state_def sold_bid_def sale_bid_def)
  have "k \<noteq> ''N/OP''"
    by (simp add: k ShielderNodeBonder_Key_def ShielderNodeBonderKey_def br sale_names skey_def ToUpper_def upper_char_def)
  with br show "getNodeBonders ''N'' t = [sale_bonder]"
    by (simp add: getNodeBonders_def kv_values_def sale_bonder_def sale_names)
qed

text \<open>The only bonder takes the whole recoverable bond.\<close>

lemma sale_dust: "shielderDustRemainder 99000 sale_state = 99000"
  by (simp add: shielderDustRemainder_def demo_config [OF sale_ready] GetInt64Value_def u64_of_int_def Let_def)

lemma sale_entitlement:
  obtains i where "nodeSlotSaleEntitlementID demo_env x y z = Inr i" "\<not> TxID_IsEmpty i"
proof -
  let ?h = "EncodeUpper (e_sha256 demo_env (''thornado:node-sale-entitlement:v2|'' @ TrimSpace x @ ''|'' @ TrimSpace y @ ''|'' @ e_acc_string demo_env z))"
  have "length (e_sha256 demo_env v) = 32" for v by (simp add: demo_env_def)
  then have len: "length ?h = 64" by (simp add: length_EncodeUpper)
  then have "nodeSlotSaleEntitlementID demo_env x y z = Inr ?h"
    by (simp add: nodeSlotSaleEntitlementID_def NewTxID_64 EncodeUpper_simps del: append_assoc append_Cons append_Nil)
  moreover have "?h \<noteq> []" using len by force
  ultimately show ?thesis using that by (simp add: TxID_IsEmpty_def EncodeUpper_simps)
qed

lemma sale_payout: "salePayout 1000 1000 1000 1000 1000 = 1000"
  by (simp add: salePayout_def)

lemma sale_paid: "\<exists>t'. foldA (paySaleBonder demo_env sold_auction sold_bid ''V'' 1000 1000 0) (1000, 1000) [sale_bonder] t = (Inr (0, 0), t')"
proof -
  obtain i where i: "nodeSlotSaleEntitlementID demo_env (au_AuctionID sold_auction) (bd_BidID sold_bid) ''op'' = Inr i"
    "\<not> TxID_IsEmpty i" by (rule sale_entitlement)
  have b: "br_PrincipalSats sale_bonder = 1000" "br_Bonder sale_bonder = ''op''" "br_NodePubKey sale_bonder = ''N''"
    by (simp_all add: sale_bonder_def zero_defs)
  have a: "\<not> Address_IsEmpty NoopAddress" by (simp add: Address_IsEmpty_def NoopAddress_def text_defs)
  show ?thesis using i(2)
    by (simp add: paySaleBonder_def b sale_payout i(1) act_defs Let_def SetDepositRecord_def SetShielderNodeBonder_def
        DepositRecord_Valid_def ShielderNodeBonder_Valid_def checks_ok zero_defs a sale_names)
qed

lemma sale_settled: "\<exists>t. settleNodeSlotSale demo_env sold_auction sold_bid sale_state = (Inr (), t)"
proof -
  obtain t where tr: "transferNodeSlotSaleBond demo_env sold_auction sold_bid 100000 fee_state = (Inr (), t)" using sale_transfer by blast
  note m = sale_moved [OF tr]
  obtain t' where pay: "foldA (paySaleBonder demo_env sold_auction sold_bid ''V'' 1000 1000 0) (1000, 1000) [sale_bonder] t = (Inr (0, 0), t')"
    using sale_paid by blast
  have f: "au_SellerNodePubKey sold_auction = ''N''" "bd_AmountSats sold_bid = 100000" "nb_NodePubKey sale_bond = ''N''" "nb_BondSats sale_bond = 1000"
    by (simp_all add: sale_defs)
  show ?thesis
    by (simp add: settleNodeSlotSale_def act_defs f sale_reads sale_dust Let_def sale_fee tr demo_current_vault [OF m(1)] m(2) pay demo_names
      del: foldA.simps)
qed

lemma sale_selected: "\<exists>t. SelectNodeSlotBid demo_env ''op'' ''A'' ''B'' sale_state = (Inr (sold_auction, sold_bid), t)"
proof -
  obtain t where t: "settleNodeSlotSale demo_env sold_auction sold_bid sale_state = (Inr (), t)" using sale_settled by blast
  have v: "NodeSlotAuction_Valid sold_auction = Inr ()" "NodeSlotBid_Valid sold_bid = Inr ()"
    by (simp_all add: NodeSlotAuction_Valid_def NodeSlotBid_Valid_def checks_ok sale_defs zero_defs sale_names)
      (simp add: text_defs NodeSlotAuctionSettled_def)
  have s: "sale_auction\<lparr>au_SelectedBidID := bd_BidID sale_bid, au_Status := NodeSlotAuctionSettled, au_UpdatedHeight := 10\<rparr> = sold_auction"
    "sale_bid\<lparr>bd_Selected := True, bd_Settled := True, bd_UpdatedHeight := 10\<rparr> = sold_bid"
    by (simp_all add: sold_auction_def sold_bid_def) (simp add: sale_bid_def)
  show ?thesis
    using t by (simp add: SelectNodeSlotBid_def act_defs sale_validated sale_reads v SetNodeSlotAuction_def SetNodeSlotBid_def s Let_def)
qed

text \<open>Without an auction the same node opens one.\<close>

lemma sale_created: "\<exists>a t. CreateNodeSlotAuction demo_env ''op'' ''N'' 500 1100 (sale_state\<lparr>k_auctions := []\<rparr>) = (Inr a, t)"
proof -
  let ?s = "sale_state\<lparr>k_auctions := []\<rparr>"
  have r: "demo_ready ?s" "GetShielderNodeBond ''N'' ?s = sale_bond" "k_height ?s = 10" "k_auctions ?s = []"
    using sale_ready sale_reads by (simp_all add: demo_ready_def GetShielderNodeBond_def)
  have b: "nb_NodePubKey sale_bond = ''N''" "nb_OperatorPubKey sale_bond = ''op''" "nb_NodeAddress sale_bond = ''op''"
    "nb_Slot sale_bond = 1" "nb_BondSats sale_bond = 1000" "nb_FeeShareActive sale_bond" "\<not> nb_Sold sale_bond"
    by (simp_all add: sale_bond_def zero_defs)
  have cfg: "GetConfigInt64 k ?s = GetInt64Value k" for k
    using r(1) by (simp add: demo_ready_def GetConfigInt64_def GetConfig_def GetInt64Value_def split: ConfigName.split)
  have d: "getConfigDurationBlocks NodeSale_AuctionExpiryMinMinutes ?s = 10" "getConfigDurationBlocks NodeSale_AuctionExpiryMaxMinutes ?s = 43200"
    by (simp_all add: getConfigDurationBlocks_def cfg GetInt64Value_def MinutesToBlocks_def wrap64_id go_div_pos Let_def)
  have na: "na_Status (GetNodeAccount demo_env ''op'' ?s) = NodeStandby"
    by (simp add: GetNodeAccount_def sale_state_def kv_get_def sale_names sale_node_def demo_keys)
  have i: "TrimSpace (nodeSlotAuctionID demo_env x y z) \<noteq> []" "TrimSpace NodeSlotAuctionOpen \<noteq> []" for x y z
  proof -
    have "length (e_sha256 demo_env v) = 32" for v by (simp add: demo_env_def)
    then have "length (nodeSlotAuctionID demo_env x y z) = 64" by (simp add: nodeSlotAuctionID_def length_EncodeUpper)
    then show "TrimSpace (nodeSlotAuctionID demo_env x y z) \<noteq> []"
      by (auto simp: nodeSlotAuctionID_def EncodeUpper_simps)
    show "TrimSpace NodeSlotAuctionOpen \<noteq> []" by (simp add: NodeSlotAuctionOpen_def text_defs)
  qed
  show ?thesis
    by (simp add: d na i wrap64_id CreateNodeSlotAuction_def validateNodeSlotAuctionCreate_def act_defs r b sale_addresses sale_names demo_proofs Let_def
      kv_values_def SetNodeSlotAuction_def NodeSlotAuction_Valid_def checks_ok)
qed

end
