(* ===== verification/Demo_Claims.thy ===== *)
theory Demo_Claims
  imports Demo_Sales
begin

text \<open>
  Two runs in which a note takes most of an amount and the rest goes to the fee pool: an operator
  claims 100005 sats of fees into one note of 100000 sats, and a deposit of 100005 sats is shielded
  into one.
\<close>

abbreviation round_note :: shielderNoteCommitment where
  "round_note \<equiv> \<lparr>nc_DenominationSats = 100000, nc_Commitment = ''{c''\<rparr>"

lemma round_parse: "parseShielderNoteCommitments demo_env [''{c''] amount False = Inr [round_note]"
  by (simp add: parseShielderNoteCommitments_def is_object_def text_defs demo_env_def Let_def)

lemma round_floor: "demo_ready s \<Longrightarrow> applyShielderNoteFloor [round_note] 100005 False s = Inr ([round_note], 5)"
  by (simp add: applyShielderNoteFloor_def demo_config GetInt64Value_def u64_of_int_def Let_def)

lemma round_total: "shielderNoteCommitmentTotal [round_note] = 100000"
  by (simp add: shielderNoteCommitmentTotal_def)

lemma round_fee: "\<exists>p. \<forall>u. addWithdrawalFee 5 u = (Inr (), u\<lparr>k_fee_pool := Some (p u)\<rparr>)"
  using setDistributed_total by (intro choice allI) (simp add: addWithdrawalFee_def act_defs)

lemma round_name: "TrimSpace ''{c'' = ''{c''"
  by (simp add: text_defs)

lemmas insert_defs = act_defs Let_def round_name ShielderCommitmentExists_def loadShielderTreeState_def GetShielderTreeState_def
  AppendShielderMerkleLeaf_def SetShielderCommitment_def SetShielderDenominationLeaf_def SetShielderNoteRecord_def
  SetShielderTreeState_def SetShielderMerkleRoot_def StoredShielderTreeState_Valid_def StoredShielderNoteRecord_Valid_def
  StoredShielderNoteRecord_Key_def

section \<open>A fee claim\<close>

definition claim_bond :: ShielderNodeBond where
  "claim_bond = sale_bond\<lparr>nb_OperatorFeeAccruedSats := 100005\<rparr>"

definition claim_pool :: FeePool where
  "claim_pool = FeePool_zero\<lparr>fp_TotalCollectedSats := 200000\<rparr>"

definition claim_state :: kstate where
  "claim_state = sale_state\<lparr>k_bonds := [(''N'', claim_bond)], k_fee_pool := Some claim_pool\<rparr>"

lemma claim_ready: "demo_ready claim_state"
  using sale_ready by (simp add: demo_ready_def claim_state_def)

lemma claim_fee: "feeClaim demo_env ''op'' ''N'' claim_state = (Inr (claim_bond, claim_pool, sale_bonder, True, 0, 100005), claim_state)"
proof -
  have d: "distributeFeePool claim_state = (Inr claim_pool, claim_state)"
    by (simp add: distributeFeePool_def setDistributedFeePool_def act_defs GetFeePool_def SetFeePool_def claim_state_def claim_pool_def zero_defs)
  have b: "GetShielderNodeBond ''N'' claim_state = claim_bond" "GetShielderNodeBonder demo_env ''N'' ''op'' claim_state = sale_bonder"
    by (simp_all add: GetShielderNodeBond_def GetShielderNodeBonder_def claim_state_def sale_names demo_keys kv_get_def)
      (simp add: sale_state_def kv_get_def sale_bonder_def)
  have f: "nb_NodePubKey claim_bond = ''N''" "nb_FeeShareActive claim_bond" "nodeBondOperatorAddress demo_env claim_bond = Inr ''op''"
    "nb_PendingOperatorFeeDepositID claim_bond = []" "nb_OperatorFeeAccruedSats claim_bond = 100005" "nb_FeePerBondShare claim_bond = 0"
    "settleNodeFeeShare claim_bond claim_pool claim_state = claim_bond"
    by (simp_all add: claim_bond_def sale_bond_def zero_defs nodeBondOperatorAddress_def sale_addresses settleNodeFeeShare_def claim_pool_def)
  have c: "br_PendingFeeDepositID sale_bonder = []" "nodeBonderClaimableSats claim_bond sale_bonder claim_state = 0" "TxID_IsEmpty []"
    "br_Bonder sale_bonder = ''op''" "br_PrincipalSats sale_bonder = 1000"
    "fp_TotalCollectedSats claim_pool = 200000" "fp_TotalClaimedSats claim_pool = 0"
    by (simp_all add: sale_bonder_def zero_defs claim_pool_def TxID_IsEmpty_def text_defs nodeBonderClaimableSats_def f)
  show ?thesis by (simp add: feeClaim_def act_defs d b f c Let_def)
qed

lemma claim_id:
  obtains i where "shielderFeeDepositID demo_env x y z h = Inr i" "\<not> TxID_IsEmpty i"
proof -
  let ?h = "EncodeUpper (e_sha256 demo_env (''thornado:fee-shield:v1|'' @ x @ ''|'' @ e_acc_string demo_env y
       @ ''|'' @ show_u64 z @ ''|'' @ show_int h))"
  have "length (e_sha256 demo_env v) = 32" for v by (simp add: demo_env_def)
  then have len: "length ?h = 64" by (simp add: length_EncodeUpper)
  then have "shielderFeeDepositID demo_env x y z h = Inr ?h"
    by (simp add: shielderFeeDepositID_def NewTxID_64 EncodeUpper_simps del: append_assoc append_Cons append_Nil)
  moreover have "?h \<noteq> []" using len by force
  ultimately show ?thesis using that by (simp add: TxID_IsEmpty_def EncodeUpper_simps)
qed

abbreviation claim_key :: string where
  "claim_key \<equiv> EncodeUpper (replicate 33 (CHR ''k''))"

lemma claim_keys: "parseShielderFeeNotePubKeys [claim_key] (length [round_note]) = Inr [claim_key]"
  by (simp add: parseShielderFeeNotePubKeys_def EncodeUpper_simps EncodeUpper_Nil DecodeString_EncodeUpper length_EncodeUpper)

lemma claim_insert: "\<exists>t. insertFeeNotes demo_env [(round_note, claim_key)] claim_state = (Inr (), t)"
  by (simp add: insertFeeNotes_def insertFeeNote_def insert_defs ShielderFeeNotePubKeyUsed_def SetShielderFeeNotePubKey_def
      claim_state_def sale_state_def demo_state_def empty_kstate_def demo_env_def zero_defs EncodeUpper_simps EncodeUpper_Nil)

lemma claim_total: "\<exists>dep t. ShieldShielderFees demo_env ''op'' ''N'' [] [''{c''] [claim_key] claim_state = (Inr dep, t) \<and> dr_AmountSats dep = 100000"
proof -
  obtain i where i: "shielderFeeDepositID demo_env ''N'' ''op'' (fp_FeePerSlotShare claim_pool) 10 = Inr i" "\<not> TxID_IsEmpty i" by (rule claim_id)
  obtain t where t: "insertFeeNotes demo_env [(round_note, claim_key)] claim_state = (Inr (), t)" using claim_insert by blast
  have h: "k_height claim_state = 10" by (simp add: claim_state_def sale_reads)
  have a: "\<not> Address_IsEmpty NoopAddress" "IsNoop NoopAddress"
    by (simp_all add: Address_IsEmpty_def NoopAddress_def IsNoop_def text_defs address_defs ToLower_def lower_char_def)
  have v: "ShielderNodeBond_Valid (claim_bond\<lparr>nb_OperatorFeeAccruedSats := 0, nb_UpdatedHeight := 10\<rparr>) = Inr ()"
    by (simp add: claim_bond_def sale_bond_def ShielderNodeBond_Valid_def checks_ok zero_defs sale_names)
  have b: "nb_OperatorFeeAccruedSats claim_bond = 100005" by (simp add: claim_bond_def)
  obtain p where p: "addWithdrawalFee 5 u = (Inr (), u\<lparr>k_fee_pool := Some (p u)\<rparr>)" for u using round_fee by metis
  show ?thesis using i(2)
    by (simp add: ShieldShielderFees_def act_defs Let_def claim_fee h i(1) round_parse round_floor [OF claim_ready] claim_keys [simplified]
      round_total t b SetDepositRecord_def DepositRecord_Valid_def checks_ok zero_defs a SetShielderNodeBond_def v SetFeePool_def p
      del: One_nat_def)
qed

section \<open>A shield\<close>

definition matched_deposit :: DepositRecord where
  "matched_deposit = DepositRecord_zero\<lparr>dr_DepositID := ''D'', dr_Owner := ''o'', dr_AmountSats := 100005, dr_DepositAddress := ''bc1d'',
     dr_VaultPubKey := ''V'', dr_Status := DepositStatusDepositMatched\<rparr>"

definition shield_state :: kstate where
  "shield_state = demo_state\<lparr>k_deposits := [(''D'', matched_deposit)]\<rparr>"

lemma shield_read: "GetDepositRecord ''D'' shield_state = matched_deposit"
  by (simp add: GetDepositRecord_def shield_state_def kv_get_def skey_def text_defs)

lemma shield_ready: "demo_ready shield_state"
  using demo_state_ready by (simp add: demo_ready_def shield_state_def)

lemma shield_insert: "\<exists>t. insertShielderCommitments demo_env [round_note] (shield_state\<lparr>k_fee_pool := p\<rparr>) = (Inr (), t)"
  by (simp add: insertShielderCommitments_def insertNote_def insert_defs shield_state_def demo_state_def empty_kstate_def demo_env_def zero_defs)

lemma shield_total: "\<exists>d t. PostShielderShield demo_env ''o'' ''D'' [''{c''] shield_state = (Inr d, t)"
proof -
  obtain p where p: "addWithdrawalFee 5 u = (Inr (), u\<lparr>k_fee_pool := Some (p u)\<rparr>)" for u using round_fee by metis
  obtain t where t: "insertShielderCommitments demo_env [round_note] (shield_state\<lparr>k_fee_pool := Some (p shield_state)\<rparr>) = (Inr (), t)"
    using shield_insert by blast
  have d: "dr_DepositID matched_deposit = ''D''" "dr_Owner matched_deposit = ''o''" "dr_Status matched_deposit = DepositStatusDepositMatched"
    "dr_AmountSats matched_deposit = 100005" "dr_ShieldedSats matched_deposit = 0" "dr_NodePubKey matched_deposit = []"
    "dr_OperatorPubKey matched_deposit = []" "dr_AuctionID matched_deposit = []" "dr_Settlement matched_deposit = []"
    "dr_DepositAddress matched_deposit = ''bc1d''" "dr_VaultPubKey matched_deposit = ''V''"
    by (simp_all add: matched_deposit_def zero_defs)
  have n: "\<not> TxID_IsEmpty ''D''" "\<not> Address_IsEmpty ''bc1d''" by (simp_all add: text_defs)
  show ?thesis
    by (simp add: PostShielderShield_def ShieldUserDepositIntoPool_def shieldUserNotes_def act_defs Let_def shield_read d n IsNodeBond_def
      round_parse round_floor [OF shield_ready] round_total p t SetDepositRecord_def DepositRecord_Valid_def checks_ok DepositSettlementUser_def
      DepositSettlementOperatorBond_def)
qed

end
