(* ===== verification/Demo_Batch.thy ===== *)
theory Demo_Batch
  imports Demo_Claims
begin

text \<open>
  A batch of two items of the vault V: a payment of 30000 sats, and a sweep that pins a deposit
  output of 100000 sats.
\<close>

definition pinned_input :: TxOutInput where
  "pinned_input = TxOutInput_zero\<lparr>ti_TxId := ''d'', ti_Vout := 0, ti_AmountSats := 100000, ti_PathIndex := 5\<rparr>"

definition pay_item :: TxOutItem where
  "pay_item = TxOutItem_zero\<lparr>to_Chain := BTCChain, to_ToAddress := ''bc1q'', to_VaultPubKey := ''V'', to_TxType := ''out'',
     to_Coin := NewCoin BTCAsset 30000\<rparr>"

definition sweep_item :: TxOutItem where
  "sweep_item = TxOutItem_zero\<lparr>to_Chain := BTCChain, to_ToAddress := ''bc1V'', to_VaultPubKey := ''V'', to_VaultPathIndex := 5,
     to_InHash := ''d'', to_TxType := ''sweep'', to_Coin := NewCoin BTCAsset 100000, to_SourceInputs := [pinned_input]\<rparr>"

definition batch_block :: TxOut where
  "batch_block = TxOut_zero\<lparr>tx_Height := 20, tx_Status := TxOutStatusPendingBatch, tx_TxArray := [pay_item, sweep_item]\<rparr>"

lemma batch_kinds: "btcEpochBatchItem pay_item" "btcEpochBatchItem sweep_item" "btcBatchVinOnlyItem sweep_item" "\<not> btcBatchVinOnlyItem pay_item"
  "\<not> btcBatchRemainderItem pay_item" "\<not> btcPinnedSourceInputs pay_item"
  by (simp_all add: btcEpochBatchItem_def btcBatchVinOnlyItem_def btcBatchRemainderItem_def btcPinnedSourceInputs_def pay_item_def sweep_item_def
      GetTxType_def NormalizeTxOutType_def txout_string_defs text_defs zero_defs BTCChain_def Chain_Equals_def EqualFold_def ToLower_def
      lower_char_def MainVaultPathIndex_def IsInternalTxOutType_def Let_def TxID_Equals_def)

lemma batch_pins: "btcItemPinnedInputs sweep_item = [pinned_input]"
  by (simp add: btcItemPinnedInputs_def sweep_item_def pinned_input_def zero_defs MainVaultPathIndex_def)

lemma batch_gas: "btcExactGasCoin demo_env x y z [pinned_input] 2 c = Inr (btcGasCoinFromNativeSats 250)"
proof -
  have "collectR (btcOutputScript demo_env MainNetParams) z = Inr (map (\<lambda>_. 34) z)" for z
    by (induction z) (simp_all add: btcOutputScript_def demo_env_def)
  then show ?thesis
    by (simp add: btcExactGasCoin_def btcEstimatedVSize_def btcVaultOutputScript_def) (simp add: demo_env_def u64_of_int_def)
qed

lemma batch_rate: "demo_ready s \<Longrightarrow> btcGasRateFromKeeper s = Inr 2"
  by (simp add: btcGasRateFromKeeper_def GetNetworkFee_def demo_ready_def kv_get_def skey_def text_defs BTCChain_def NetworkFee_Valid_def
      Let_def Chain_IsEmpty_def)

lemma batch_vault: "GetVault ''V'' demo_state = Inr (demo_vault\<lparr>va_BlockHeight := 10\<rparr>)"
  using demo_state_ready by (simp add: GetVault_def demo_ready_def kv_get_def skey_def text_defs demo_vault_def zero_defs)

lemma batch_refreshed: "\<exists>b. refreshBTCEpochBatchGroup demo_env batch_block [0, 1] demo_state = Inr b"
proof -
  have i: "to_VaultPubKey pay_item = ''V''" "co_Amount (to_Coin pay_item) = 30000" "co_Amount (to_Coin sweep_item) = 100000"
    "co_Asset (to_Coin pay_item) = BTCAsset" "co_Asset (to_Coin sweep_item) = BTCAsset" "tx_TxArray batch_block = [pay_item, sweep_item]"
    "va_PubKey (demo_vault\<lparr>va_BlockHeight := 10\<rparr>) = ''V''"
    by (simp_all add: pay_item_def sweep_item_def zero_defs NewCoin_def batch_block_def demo_names)
  have a: "Asset_Equals BTCAsset BTCAsset" by (simp add: Asset_Equals_def Chain_Equals_def EqualFold_def)
  have tap: "\<exists>x. e_taproot demo_env p k = Inr x" for p k by (simp add: demo_env_def)
  then obtain addr where addr: "e_taproot demo_env ''V'' MainVaultPathIndex = Inr addr" by blast
  have p: "group_pins [pay_item, sweep_item] = Inr [pinned_input]"
    by (simp add: group_pins_def batch_kinds batch_pins Let_def)
  have v: "btcSourceInputsAmount [pinned_input] = 100000" by (simp add: btcSourceInputsAmount_def pinned_input_def)
  have g: "co_Amount (btcGasCoinFromNativeSats 250) = 250" by (simp add: btcGasCoinFromNativeSats_def NewCoin_def NativeGasToThornado_def GetGasUnitsPerOne_def One_def BTCChain_def)
  obtain cs where cs: "btcSplitGasCoin (btcGasCoinFromNativeSats 250) 2 = Inr cs"
    using g by (simp add: btcSplitGasCoin_def Uint64_def)
  show ?thesis
    by (simp add: refreshBTCEpochBatchGroup_def i batch_vault addr batch_rate [OF demo_state_ready] a batch_kinds p Let_def
      numeral_3_eq_3 batch_gas v g finishBTCEpochBatch_def cs [unfolded numeral_2_eq_2])
qed

section \<open>Unspent outputs\<close>

text \<open>Two deposits seen at the vault address, the second spent by a queued payment.\<close>

definition seen :: "string \<Rightarrow> nat \<Rightarrow> ObservedTxVoter" where
  "seen i amount = ObservedTxVoter_zero\<lparr>vo_TxID := i, vo_Height := 3, vo_Tx := ObservedTx_zero\<lparr>ob_Tx := Tx_zero\<lparr>t_ID := i,
     t_Chain := BTCChain, t_ToAddress := ''bc1V'', t_Coins := [NewCoin BTCAsset amount]\<rparr>\<rparr>\<rparr>"

abbreviation out_of :: "string \<Rightarrow> u64 \<Rightarrow> TxOutInput" where
  "out_of i amount \<equiv> \<lparr>ti_TxId = i, ti_Vout = 0, ti_AmountSats = amount, ti_PathIndex = 0\<rparr>"

definition utxo_state :: kstate where
  "utxo_state = demo_state\<lparr>k_txin_voters := [(''a'', seen ''a'' 60000), (''b'', seen ''b'' 50000)],
     k_txouts := [(txout_key 5, TxOut_zero\<lparr>tx_Height := 5, tx_TxArray := [pay_item\<lparr>to_SourceInputs := [out_of ''b'' 50000]\<rparr>]\<rparr>)]\<rparr>"

lemma utxo_names: "btcSourceInputKey ''a'' 0 = ''a:0''" "btcSourceInputKey ''b'' 0 = ''b:0''"
  by (simp_all add: btcSourceInputKey_def ToLower_def lower_char_def show_nat.simps [of 0])

lemma utxo_coin: "Uint64 60000 = Inr 60000" "Uint64 50000 = Inr 50000" "Asset_Equals BTCAsset BTCAsset" "co_Asset (NewCoin BTCAsset n) = BTCAsset"
  "co_Amount (NewCoin BTCAsset n) = n" "n \<noteq> 0 \<Longrightarrow> \<not> Coin_IsEmpty (NewCoin BTCAsset n)"
  by (simp_all add: Uint64_def NewCoin_def Asset_Equals_def Chain_Equals_def EqualFold_def Coin_IsEmpty_def)
    (simp add: BTCAsset_def BTCChain_def Asset_IsEmpty_def Chain_IsEmpty_def text_defs)

lemma utxo_addr: "Address_Equals ''bc1V'' ''bc1V''" "Chain_Equals BTCChain BTCChain" "\<not> TxID_IsEmpty ''a''" "\<not> TxID_IsEmpty ''b''"
  by (simp_all add: Address_Equals_def Chain_Equals_def EqualFold_def text_defs)

lemma utxo_mark: "scanTxOutBlock demo_vault ''bc1V'' 20 utxo_state b (TxOut_zero\<lparr>tx_Height := 5, tx_TxArray := [pay_item\<lparr>to_SourceInputs := [out_of ''b'' 50000]\<rparr>]\<rparr>)
    = Inr (b\<lparr>bs_spent := ''b:0'' # bs_spent b\<rparr>)"
  by (simp add: scanTxOutBlock_def scanTxOutItem_def markTxOutItem_def Let_def pay_item_def zero_defs utxo_addr utxo_names)
    (simp add: text_defs)

lemma utxo_candidates: "btcVaultSourceCandidates demo_vault ''bc1V'' 20 utxo_state
    = Inr [\<lparr>sc_input = out_of ''a'' 60000, sc_height = 3\<rparr>]"
proof -
  have k: "txOutsAscending 10 True utxo_state
      = [TxOut_zero\<lparr>tx_Height := 5, tx_TxArray := [pay_item\<lparr>to_SourceInputs := [out_of ''b'' 50000]\<rparr>]\<rparr>]"
    "kv_values (k_txout_voters utxo_state) = []" "kv_values (k_txin_voters utxo_state) = [seen ''a'' 60000, seen ''b'' 50000]" "k_height utxo_state = 10"
    by (simp_all add: txOutsAscending_def utxo_state_def kv_values_def demo_state_def empty_kstate_def TxOut_zero_def)
  have v: "scanVoterIn ''bc1V'' b (seen ''a'' 60000) = Inr (addCandidate ''a:0'' \<lparr>sc_input = out_of ''a'' 60000, sc_height = 3\<rparr> b)"
    "scanVoterIn ''bc1V'' b (seen ''b'' 50000) = Inr (addCandidate ''b:0'' \<lparr>sc_input = out_of ''b'' 50000, sc_height = 3\<rparr> b)" for b
    by (simp_all add: scanVoterIn_def seen_def Let_def utxo_addr utxo_coin zero_defs Tx_zero_def ObservedTx_zero_def utxo_names addCandidate_def)
  show ?thesis
    by (simp add: btcVaultSourceCandidates_def k utxo_mark v addCandidate_def sortCandidates_def)
qed

lemma utxo_selected: "btcSelectVaultSourceInputs demo_vault ''bc1V'' 40000 20 utxo_state = Inr [out_of ''a'' 60000]"
proof -
  have "GetConfigInt64 UTXO_MaxSpendCount utxo_state = GetInt64Value UTXO_MaxSpendCount"
    by (simp add: utxo_state_def demo_state_def empty_kstate_def GetConfigInt64_def GetConfig_def GetInt64Value_def)
  then show ?thesis by (simp add: btcSelectVaultSourceInputs_def utxo_candidates GetInt64Value_def Let_def)
qed

end
