(* ===== verification/Demo_Deposits.thy ===== *)
theory Demo_Deposits
  imports Deposit_Laws Demo_Batch
begin

text \<open>
  Runs of the deposit flow: an address issued for a token, a payment to it matched and swept, and a
  late deposit returned. The vault of the payments is not in the store, so their inputs are chosen by
  a later refresh.
\<close>

section \<open>An address for a token\<close>

text \<open>The digest of the demonstration environment begins with the end of the token: three zero bytes
  are more than the difficulty of 20 asks for.\<close>

definition demo_token :: string where
  "demo_token = [CHR ''t'', CHR 0x00, CHR 0x00, CHR 0x00]"

lemma demo_difficulty: "demo_ready s \<Longrightarrow> k_pow_difficulty s = None \<Longrightarrow> currentDepositPowDifficulty s = 20"
  by (simp add: currentDepositPowDifficulty_def GetDepositPowDifficultyState_def zero_defs GetConfigInt64_def GetConfig_def demo_ready_def
    GetInt64Value_def Let_def)

lemma token_trim: "TrimSpace demo_token = demo_token"
  by (simp add: demo_token_def text_defs)

lemma token_digest: "\<exists>r. e_sha256 demo_env (e_acc_string demo_env ''o'' @ '':'' @ demo_token) = CHR 0x00 # CHR 0x00 # CHR 0x00 # r"
proof -
  have "take 32 (CHR 0x00 # CHR 0x00 # CHR 0x00 # xs) = CHR 0x00 # CHR 0x00 # CHR 0x00 # take 29 xs" for xs
    by (simp add: take_Cons')
  then show ?thesis by (simp add: demo_env_def demo_token_def)
qed

lemma pow_scan_take: "list_all Not (take 20 bs) \<Longrightarrow> pow_scan 20 0 bs = Inr ()"
  using pow_scan_zeros [of 0 20 bs] by simp

lemma token_valid:
  assumes "demo_ready s" "k_pow_difficulty s = None"
  shows "validateDepositPowToken demo_env ''o'' demo_token s = Inr ()"
proof -
  obtain r where r: "e_sha256 demo_env (e_acc_string demo_env ''o'' @ '':'' @ demo_token) = CHR 0x00 # CHR 0x00 # CHR 0x00 # r"
    using token_digest by blast
  have "digest_bits (CHR 0x00 # CHR 0x00 # CHR 0x00 # r) = replicate 24 False @ digest_bits r"
    by (simp add: digest_bits_def eval_nat_numeral)
  then show ?thesis using demo_difficulty [OF assms]
    unfolding validateDepositPowToken_def Let_def r by (simp add: pow_scan_take list_all_iff)
qed

lemma demo_register: "\<exists>ses t. RegisterDepositPowToken demo_env ''o'' demo_token 5 demo_state = (Inr ses, t)"
proof -
  have s: "demo_ready demo_state" "k_pow_difficulty demo_state = None" "k_pow_tokens demo_state = []" "k_path_cursor demo_state = []"
    "k_height demo_state = 10" using demo_state_ready by (simp_all add: demo_state_def empty_kstate_def)
  have v: "va_PubKey demo_vault = ''V''" by (simp add: demo_vault_def)
  have a: "DeriveBTCAddress demo_env (demo_vault\<lparr>va_BlockHeight := 10\<rparr>) i = Inr ''bc1V''" for i
    by (simp add: DeriveBTCAddress_def demo_env_def demo_vault_def zero_defs Vault_IsEmpty_def)
  have n: "MainVaultPathIndex \<noteq> 1" "\<not> Address_IsEmpty ''bc1V''" "demo_token \<noteq> []"
    by (simp_all add: MainVaultPathIndex_def text_defs demo_token_def)
  show ?thesis
    by (simp add: RegisterDepositPowToken_def act_defs Let_def token_trim token_valid s demo_current_vault a v
      GetDepositSessionByPowToken_def AllocateVaultDepositPathIndex_def GetNextVaultDepositPathIndex_def VaultDepositPathIndex_def
      SetNextVaultDepositPathIndex_def SetDepositAddress_def DepositAddress_Valid_def checks_ok SetDepositPowTiming_def
      DepositPowTiming_Valid_def SetDepositSession_def DepositSession_Valid_def demo_difficulty n)
qed

section \<open>A payment matched\<close>

text \<open>An item for a vault that is not in the store is queued, its refresh only logged.\<close>

lemma append_without_vault:
  assumes s: "k_txouts s = []" "k_height s = 10" "k_config s = (\<lambda>_. None)"
    and vault: "GetVault (to_VaultPubKey item) s = Inl (Errorf m)" "to_VaultPubKey item \<noteq> []"
    and item: "item\<lparr>to_TxType := GetTxType item\<rparr> = item" "btcEpochBatchItem item" "to_OutHash item = []"
  shows "\<exists>t. appendBTCExactTxOut demo_env h item s = (Inr (), t)"
proof -
  let ?blk = "TxOut_zero\<lparr>tx_Height := 110, tx_Status := TxOutStatusPendingBatch\<rparr>"
  let ?b = "?blk\<lparr>tx_TxArray := [item]\<rparr>"
  have c: "GetConfigInt64 key s = GetInt64Value key" for key
    using s(3) by (simp add: GetConfigInt64_def GetConfig_def GetInt64Value_def split: ConfigName.split)
  have g: "GetTxOut h s = TxOut_zero\<lparr>tx_Height := h\<rparr>" for h by (simp add: GetTxOut_def s NewTxOut_def)
  have "MinutesToBlocks 10 6 = 100" by (simp add: MinutesToBlocks_def wrap64_id go_div_pos Let_def)
  then have w: "MinutesToBlocks (GetConfigInt64 Withdrawal_BatchWindowMinutes s) (GetConfigInt64 Chain_BlockTimeSeconds s) = 100"
    by (simp add: c GetInt64Value_def)
  have "nextEmptyTxOutHeight 110 s = Inr 110"
    unfolding nextEmptyTxOutHeight_def by (rule next_empty_free) (simp_all add: g TxOut_IsEmpty_def zero_defs)
  then have blk: "btcVaultBatchTxOut item s = Inr ?blk"
    by (simp add: btcVaultBatchTxOut_def kv_values_def s w wrap64_id g zero_defs)
  have "refreshBTCExactTxOutGroup demo_env ?b [0] s = Inl (Wrapf ''fail to get bitcoin txout vault'' (Errorf m))"
    using vault(1) item(2) by (simp add: refreshBTCExactTxOutGroup_def refreshBTCEpochBatchGroup_def)
  then have "\<exists>r b1. refreshBTCExactTxOutBlock demo_env ?b s = (r, b1) \<and> (\<forall>p. r \<noteq> Inl (Panic p))"
    using item(2) by (auto simp: refreshBTCExactTxOutBlock_def refresh_group_def Let_def)
  then obtain r b1 where r: "refreshBTCExactTxOutBlock demo_env ?b s = (r, b1)" "\<And>p. r \<noteq> Inl (Panic p)" by blast
  have "after_log r (SetTxOut b1) s = SetTxOut b1 s"
    using r(2) by (auto simp: after_log_def split: sum.split error.split)
  then show ?thesis
    using item(1,2) vault(2) blk r(1) by (simp add: appendBTCExactTxOut_def act_defs SetTxOut_def zero_defs Let_def)
qed

definition paid_address :: DepositAddress where
  "paid_address = DepositAddress_zero\<lparr>da_Address := ''bc1W'', da_VaultPubKey := ''W'', da_PathIndex := 1, da_Owner := ''o''\<rparr>"

definition paid_state :: kstate where
  "paid_state = demo_state\<lparr>k_addresses := [(''BC1W'', paid_address)]\<rparr>"

definition paid_tx :: ObservedTx where
  "paid_tx = ObservedTx_zero\<lparr>ob_Tx := Tx_zero\<lparr>t_ID := ''a'', t_Chain := BTCChain, t_FromAddress := ''bc1f'', t_ToAddress := ''bc1W'',
     t_Coins := [NewCoin BTCAsset 60000]\<rparr>\<rparr>"

lemma paid_fields: "t_ID (ob_Tx paid_tx) = ''a''" "t_Chain (ob_Tx paid_tx) = BTCChain" "t_ToAddress (ob_Tx paid_tx) = ''bc1W''"
  "t_SourceVout (ob_Tx paid_tx) = 0" "GetCoin (t_Coins (ob_Tx paid_tx)) BTCAsset = NewCoin BTCAsset 60000" "ob_BlockHeight paid_tx = 0"
  by (simp_all add: paid_tx_def zero_defs utxo_coin)

lemma paid_ready: "demo_ready paid_state" "k_deposits paid_state = []" "k_txouts paid_state = []" "k_pow_timings paid_state = []" "k_sessions paid_state = []"
  using demo_state_ready by (simp_all add: paid_state_def demo_ready_def) (simp_all add: demo_state_def empty_kstate_def)

lemma paid_mapping: "GetDepositAddress ''bc1W'' paid_state = paid_address" "da_VaultPubKey paid_address = ''W''" "da_PathIndex paid_address = 1"
  "da_PurgeAtHeight paid_address = 0" "da_Owner paid_address = ''o''" "da_PowToken paid_address = []" "da_ExpiresAtHeight paid_address = 0"
  by (simp_all add: GetDepositAddress_def paid_state_def kv_get_def skey_def paid_address_def zero_defs)
    (simp add: ToUpper_def upper_char_def char_of_def bit_0)

lemma demo_gas:
  assumes "k_network_fees s = [(''BTC'', \<lparr>nf_Chain = ''BTC'', nf_TransactionSize = 250, nf_TransactionFeeRate = 2\<rparr>)]"
  shows "\<exists>c. GetMaxGas BTCChain s = Inr c \<and> co_Amount c = 500"
  using assms by (simp add: GetMaxGas_def GetGasDetails_def GetNetworkFee_def kv_get_def skey_def text_defs BTCChain_def NetworkFee_Valid_def Chain_IsEmpty_def
    Chain_Equals_def EqualFold_def ToLower_def lower_char_def RoundToDecimal_def DefaultCoinDecimals_def GetGasUnitsPerOne_def One_def Uint64_def NewCoin_def
    checks_ok)

lemma paid_sweep_item: "path_sweep_item tx ''W'' 1 i root amt gas rate sats\<lparr>to_TxType := GetTxType (path_sweep_item tx ''W'' 1 i root amt gas rate sats)\<rparr>
    = path_sweep_item tx ''W'' 1 i root amt gas rate sats" "btcEpochBatchItem (path_sweep_item tx ''W'' 1 i root amt gas rate sats)"
  "to_OutHash (path_sweep_item tx ''W'' 1 i root amt gas rate sats) = []" "to_VaultPubKey (path_sweep_item tx ''W'' 1 i root amt gas rate sats) = ''W''"
  by (simp_all add: path_sweep_item_def GetTxType_def NormalizeTxOutType_def txout_string_defs text_defs btcEpochBatchItem_def zero_defs BTCChain_def Let_def
    Chain_Equals_def EqualFold_def ToLower_def lower_char_def MainVaultPathIndex_def)

lemma demo_sweep:
  assumes s: "demo_ready s" "k_txouts s = []"
  shows "\<exists>t. queueVaultPathSweepWithInHash demo_env paid_tx ''W'' 1 ''a'' s = (Inr (), t)"
proof -
  obtain gas where gas: "GetMaxGas BTCChain s = Inr gas" "co_Amount gas = 500" using demo_gas s by (auto simp: demo_ready_def)
  let ?rate = "if 0 < nf_TransactionFeeRate (GetNetworkFee BTCChain s) then sint (nf_TransactionFeeRate (GetNetworkFee BTCChain s))
    else GetConfigInt64 BTC_DefaultSatsPerVByte s"
  let ?item = "path_sweep_item (ob_Tx paid_tx) ''W'' 1 ''a'' ''bc1V'' 60000 gas ?rate 60000"
  have "GetVault ''W'' s = Inl (Errorf ''vault not found'')"
    using s by (simp add: GetVault_def getBaseEDDSAIndex_def demo_ready_def kv_get_def skey_def text_defs)
  then obtain t where t: "appendBTCExactTxOut demo_env 10 ?item s = (Inr (), t)"
    using append_without_vault [of s ?item] s by (auto simp: paid_sweep_item demo_ready_def)
  have n: "\<not> TxID_IsEmpty ''a''" "va_PubKey demo_vault = ''V''" "MainVaultPathIndex \<noteq> 1" "k_height s = 10" "e_taproot demo_env ''W'' 1 = Inr ''bc1W''"
    using s by (simp_all add: text_defs demo_vault_def MainVaultPathIndex_def demo_ready_def demo_env_def)
  show ?thesis
    using t unfolding path_sweep_item_def
    by (simp add: queueVaultPathSweepWithInHash_def act_defs Let_def n paid_fields utxo_coin demo_current_vault [OF s(1)] gas del: One_nat_def)
qed

lemma demo_match: "\<exists>d t. MatchCoreDeposit demo_env paid_tx paid_state = (Inr d, t)"
proof -
  let ?d = "newMatchedDeposit demo_env paid_tx paid_address 60000 paid_state"
  let ?s = "paid_state\<lparr>k_deposits := kv_set (skey ''a'') ?d []\<rparr>"
  have r: "demo_ready ?s" "k_txouts ?s = []" using paid_ready by (simp_all add: demo_ready_def)
  have i: "BTCOutpointScopedTxID demo_env (ob_Tx paid_tx) = ''a''" by (simp add: BTCOutpointScopedTxID_def paid_fields)
  have v: "DepositRecord_Valid ?d = Inr ()"
    by (simp add: DepositRecord_Valid_def checks_ok newMatched_fields i paid_mapping utxo_addr del: checks.simps)
      (simp add: newMatchedDeposit_def Let_def paid_fields text_defs)
  have none: "TxID_IsEmpty []" by (simp add: text_defs)
  obtain t where t: "queueVaultPathSweepWithInHash demo_env paid_tx ''W'' 1 ''a'' ?s = (Inr (), t)" using demo_sweep [OF r] by blast
  have "noteMatchedDeposit demo_env (ob_Tx paid_tx) paid_address ?d ?s = (Inr (), ?s)"
    using paid_ready by (simp add: noteMatchedDeposit_def act_defs GetDepositPowTiming_def GetDepositSession_def paid_mapping zero_defs
      paid_fields Address_Equals_def EqualFold_def ToLower_def)
  then show ?thesis
    using t paid_ready v
    by (simp add: MatchCoreDeposit_def act_defs Let_def paid_fields paid_mapping utxo_addr utxo_coin findDepositRecordByInboundOutpoint_def
      kv_values_def i GetDepositRecord_def zero_defs none demo_config GetInt64Value_def u64_of_int_def
      SetDepositRecord_def newMatched_fields DepositRecord_Key_def del: One_nat_def)
qed

section \<open>A deposit returned\<close>

definition late_deposit :: DepositRecord where
  "late_deposit = DepositRecord_zero\<lparr>dr_DepositID := ''a'', dr_AmountSats := 100000, dr_ReturnAddress := ''bc1f''\<rparr>"

abbreviation late_vault :: Vault where
  "late_vault \<equiv> Vault_zero\<lparr>va_PubKey := ''W''\<rparr>"

lemma demo_return: "\<exists>t. queueDepositReturnFromVault demo_env late_deposit late_vault [] queue_state = (Inr (), t)"
proof -
  have d: "dr_DepositID late_deposit = ''a''" "dr_AmountSats late_deposit = 100000" "dr_ReturnAddress late_deposit = ''bc1f''"
    by (simp_all add: late_deposit_def)
  let ?item = "TxOutItem_zero\<lparr>to_Chain := BTCChain, to_ToAddress := ''bc1f'', to_VaultPubKey := ''W'',
    to_VaultPathIndex := MainVaultPathIndex, to_Coin := NewCoin BTCAsset 99000, to_GasRate := 2, to_InHash := ''a'',
    to_ModuleName := BaseName, to_TxType := TxOutTypeRefund, to_SourceInputs := []\<rparr>"
  have q: "k_txouts queue_state = []" "k_height queue_state = 10" "k_config queue_state = (\<lambda>_. None)"
    by (simp_all add: queue_state_def empty_kstate_def)
  have v: "GetVault (to_VaultPubKey ?item) queue_state = Inl (Errorf ''vault not found'')" "to_VaultPubKey ?item \<noteq> []"
    by (simp_all add: GetVault_def getBaseEDDSAIndex_def queue_state_def empty_kstate_def)
  have i: "?item\<lparr>to_TxType := GetTxType ?item\<rparr> = ?item" "btcEpochBatchItem ?item" "to_OutHash ?item = []"
    by (simp_all add: GetTxType_def NormalizeTxOutType_def txout_string_defs text_defs btcEpochBatchItem_def zero_defs BTCChain_def Let_def
      Chain_Equals_def EqualFold_def ToLower_def lower_char_def MainVaultPathIndex_def)
  obtain t where t: "appendBTCExactTxOut demo_env 10 ?item queue_state = (Inr (), t)"
    using append_without_vault [OF q v i] by blast
  have p: "\<exists>p. addWithdrawalFee 1000 t = (Inr (), t\<lparr>k_fee_pool := Some p\<rparr>)"
    using setDistributed_total by (fastforce simp: addWithdrawalFee_def act_defs)
  have n: "\<not> TxID_IsEmpty ''a''" "\<not> Address_IsEmpty ''bc1f''" "va_PubKey late_vault = ''W''" by (simp_all add: text_defs)
  show ?thesis
    using t p by (auto simp: queueDepositReturnFromVault_def on_error_def act_defs d n queue_fee queue_gas q)
qed

lemma late_bp: "unat (withdrawalFeeBp queue_state) \<le> 10000" "txouts_ok queue_state"
  by (simp add: queue_fee) (simp add: txouts_ok_def queue_state_def empty_kstate_def)

end
