(* ===== verification/Deposit_Theorems.thy ===== *)
theory Deposit_Theorems
  imports Demo_Deposits
begin

text \<open>
  The properties of the deposit flow: proof of work, issued addresses, matched payments, returns, and
  the block a payment is queued to.
\<close>

section \<open>Proof of work\<close>

text \<open>C33. The loop that counts leading zero bits accepts a token exactly when the digest, read as a
  number, is below two to the power of 256 less the difficulty.\<close>

theorem pow_token_threshold:
  assumes "0 < currentDepositPowDifficulty s" "currentDepositPowDifficulty s \<le> 256" "\<And>x. length (e_sha256 e x) = 32"
  shows "validateDepositPowToken e owner token s = Inr () \<longleftrightarrow>
    be_value (e_sha256 e (e_acc_string e owner @ '':'' @ token)) < 2 ^ nat (256 - currentDepositPowDifficulty s)"
  by (rule pow_token_bound [OF assms])

theorem pow_token_threshold_witness:
  "be_value (e_sha256 demo_env (e_acc_string demo_env ''o'' @ '':'' @ demo_token)) < 2 ^ 236"
proof -
  have "k_pow_difficulty demo_state = None" by (simp add: demo_state_def empty_kstate_def)
  note d = demo_difficulty [OF demo_state_ready this] and v = token_valid [OF demo_state_ready this]
  have "length (e_sha256 demo_env x) = 32" for x by (simp add: demo_env_def)
  from pow_token_threshold [OF _ _ this, of demo_state "''o''" demo_token] show ?thesis using d v by simp
qed

section \<open>Addresses\<close>

text \<open>C34. Registering a token issues an address on a path of its own: the address maps back to its owner,
  vault and path, the path is not the vault's own and the cursor moves past it, the token met the
  difficulty, and while it has not expired nobody can register it again.\<close>

theorem deposit_address_issued:
  assumes "RegisterDepositPowToken e owner token dur s = (Inr ses, t)"
    "e_acc_from_bech32 e (e_acc_string e owner) = Inr owner" "e_acc_string e owner \<noteq> []"
  shows "da_Owner (GetDepositAddress (ds_DepositAddress ses) t) = owner \<and>
    da_VaultPubKey (GetDepositAddress (ds_DepositAddress ses) t) = ds_VaultPubKey ses \<and>
    da_PathIndex (GetDepositAddress (ds_DepositAddress ses) t) = ds_DepositPathIndex ses \<and>
    ds_DepositPathIndex ses \<noteq> MainVaultPathIndex \<and>
    (\<exists>n. GetNextVaultDepositPathIndex (ds_VaultPubKey ses) s = Inr n \<and> GetNextVaultDepositPathIndex (ds_VaultPubKey ses) t = Inr (n + 1) \<and>
      VaultDepositPathIndex VaultDepositPathUser n DepositPathCommitmentRoot = Inr (ds_DepositPathIndex ses)) \<and>
    validateDepositPowToken e owner (TrimSpace token) s = Inr () \<and>
    (\<forall>h owner' dur'. getConfigDurationBlocks Deposit_PowExpiryMinutes t \<le> 0 \<or>
        h \<le> wrap64 (k_height s + getConfigDurationBlocks Deposit_PowExpiryMinutes t) \<longrightarrow>
      (\<exists>err. RegisterDepositPowToken e owner' token dur' (t\<lparr>k_height := h\<rparr>) = (Inl err, t\<lparr>k_height := h\<rparr>)))"
  using register_issues [OF assms] by blast

theorem deposit_address_issued_witness:
  "\<exists>ses t. RegisterDepositPowToken demo_env ''o'' demo_token 5 demo_state = (Inr ses, t) \<and>
    da_Owner (GetDepositAddress (ds_DepositAddress ses) t) = ''o''"
proof -
  obtain ses t where t: "RegisterDepositPowToken demo_env ''o'' demo_token 5 demo_state = (Inr ses, t)" using demo_register by blast
  from deposit_address_issued [OF t] t show ?thesis by (simp add: demo_env_def)
qed

section \<open>Payments\<close>






lemma shield_deposits_ok: "deposits_ok shield_state"
  by (simp add: deposits_ok_def shield_state_def kv_get_def kv_ordered_def matched_deposit_def skey_def text_defs)


text \<open>C38. A deposit is shielded or returned, not both: a shielded deposit keeps its record through the
  return pass, and a deposit queued for return cannot be shielded.\<close>

theorem shield_or_return:
  assumes "PostShielderShield e owner did cs s = (Inr d, t)" "deposits_ok s"
  shows "GetDepositRecord (dr_DepositID d) (snd (ProcessExpiredDepositAddressReturns e t)) = d \<and>
    (\<forall>u did'. dr_Status (GetDepositRecord did' u) = DepositStatusReturnQueued \<longrightarrow>
      (\<exists>err. PostShielderShield e owner did' cs u = (Inl err, u)))"
  using shielded_stays [OF assms] returned_not_shielded by blast

theorem shield_or_return_witness:
  "\<exists>d t. PostShielderShield demo_env ''o'' ''D'' [''{c''] shield_state = (Inr d, t) \<and>
    GetDepositRecord (dr_DepositID d) (snd (ProcessExpiredDepositAddressReturns demo_env t)) = d"
proof -
  obtain d t where t: "PostShielderShield demo_env ''o'' ''D'' [''{c''] shield_state = (Inr d, t)" using shield_total by blast
  from shield_or_return [OF t shield_deposits_ok] t show ?thesis by blast
qed

section \<open>Progress\<close>

text \<open>C39. While fewer than a thousand outbound blocks are stored, every payment finds a block to be queued to:
  the search over heights does not run out.\<close>

theorem batch_block_always_found:
  assumes "length (k_txouts s) < 1000" "0 \<le> k_height s"
    "k_height s + max 0 (MinutesToBlocks (GetConfigInt64 Withdrawal_BatchWindowMinutes s) (GetConfigInt64 Chain_BlockTimeSeconds s)) < 2 ^ 63"
  shows "\<exists>b. btcVaultBatchTxOut item s = Inr b"
  by (rule batch_block_found [OF assms refl])

theorem batch_block_always_found_witness: "\<exists>b. btcVaultBatchTxOut TxOutItem_zero queue_state = Inr b"
proof -
  have "MinutesToBlocks 10 6 = 100" by (simp add: MinutesToBlocks_def wrap64_id go_div_pos Let_def)
  moreover have "length (k_txouts queue_state) < 1000" "k_height queue_state = 10" by (simp_all add: queue_state_def empty_kstate_def)
  ultimately show ?thesis using batch_block_always_found [of queue_state TxOutItem_zero] by (simp add: queue_config GetInt64Value_def)
qed

end
