(* ===== verification/Observed.thy ===== *)
theory Observed
  imports Keeper_Laws
begin

text \<open>
  Observed transactions and the votes on them: \<^verbatim>\<open>common/tx.go\<close>, \<^verbatim>\<open>common/type_observed_tx.go\<close>,
  \<^verbatim>\<open>types/type_observed_tx.go\<close>, the majorities of \<^verbatim>\<open>types/types.go\<close>, and the attestation of an
  inbound transaction by a node (\<^verbatim>\<open>processTxInAttestation\<close>). \<^verbatim>\<open>Gas.Equals\<close> sorts its operands in place;
  the order of gas coins is not read anywhere else, and the model compares sorted copies.
  \<^verbatim>\<open>sort.Slice\<close> is taken as stable, which matters only for two coins of one asset.
\<close>

section \<open>Transactions\<close>

definition Asset_String :: "Asset \<Rightarrow> string" where
  "Asset_String a = as_Chain a @ (if as_Secured a then ''-'' else ''.'') @ as_Symbol a"

definition Coins_EqualsEx :: "Coins \<Rightarrow> Coins \<Rightarrow> bool" where
  "Coins_EqualsEx cs cs2 \<longleftrightarrow> length cs = length cs2 \<and>
     list_all2 Coin_Equals (sort_key (\<lambda>c. Asset_String (co_Asset c)) cs) (sort_key (\<lambda>c. Asset_String (co_Asset c)) cs2)"

definition Gas_Equals :: "Coins \<Rightarrow> Coins \<Rightarrow> bool" where
  "Gas_Equals g g2 \<longleftrightarrow> length g = length g2 \<and>
     list_all2 Coin_Equals (sort_key (\<lambda>c. Asset_String (co_Asset c)) g) (sort_key (\<lambda>c. Asset_String (co_Asset c)) g2)"

definition Tx_IsEmpty :: "Tx \<Rightarrow> bool" where
  "Tx_IsEmpty tx \<longleftrightarrow> TxID_IsEmpty (t_ID tx)"

definition EqualsExIgnoreGas :: "Tx \<Rightarrow> Tx \<Rightarrow> bool" where
  "EqualsExIgnoreGas tx tx2 \<longleftrightarrow> TxID_Equals (t_ID tx) (t_ID tx2) \<and> Chain_Equals (t_Chain tx) (t_Chain tx2) \<and>
     Address_Equals (t_FromAddress tx) (t_FromAddress tx2) \<and> Address_Equals (t_ToAddress tx) (t_ToAddress tx2) \<and>
     Coins_EqualsEx (t_Coins tx) (t_Coins tx2) \<and> t_SourceVout tx = t_SourceVout tx2"

definition EqualsEx :: "Tx \<Rightarrow> Tx \<Rightarrow> bool" where
  "EqualsEx tx tx2 \<longleftrightarrow> TxID_Equals (t_ID tx) (t_ID tx2) \<and> Chain_Equals (t_Chain tx) (t_Chain tx2) \<and>
     Address_Equals (t_FromAddress tx) (t_FromAddress tx2) \<and> Address_Equals (t_ToAddress tx) (t_ToAddress tx2) \<and>
     Coins_EqualsEx (t_Coins tx) (t_Coins tx2) \<and> Gas_Equals (t_Gas tx) (t_Gas tx2) \<and> t_SourceVout tx = t_SourceVout tx2"

definition Tx_Valid :: "Tx \<Rightarrow> unit result" where
  "Tx_Valid tx =
     (case checks
        [(TxID_IsEmpty (t_ID tx), ''Tx ID cannot be empty''),
         (Address_IsEmpty (t_FromAddress tx), ''from address cannot be empty''),
         (Address_IsEmpty (t_ToAddress tx), ''to address cannot be empty''),
         (Chain_IsEmpty (t_Chain tx), ''chain cannot be empty''),
         (t_Coins tx = [], ''must have at least 1 coin'')] of
        Inl err \<Rightarrow> Inl err
      | Inr _ \<Rightarrow>
          (case Coins_Valid (t_Coins tx) of
             Inl err \<Rightarrow> Inl err
           | Inr _ \<Rightarrow> if \<not> Chain_Equals (t_Chain tx) BTCChain \<and> t_Gas tx = [] then Inl (Errorf ''must have at least 1 gas coin'')
               else Coins_Valid (t_Gas tx)))"

definition ObservedTx_Valid :: "ObservedTx \<Rightarrow> unit result" where
  "ObservedTx_Valid m =
     (case Tx_Valid (ob_Tx m) of
        Inl err \<Rightarrow> Inl err
      | Inr _ \<Rightarrow> checks
          [(ob_BlockHeight m \<le> 0, ''block height can't be zero''),
           (ob_ObservedPubKey m = [], ''observed vault pubkey is empty''),
           (ob_FinaliseHeight m \<le> 0, ''finalise block height can't be zero'')])"

definition ObservedTx_IsEmpty :: "ObservedTx \<Rightarrow> bool" where
  "ObservedTx_IsEmpty m \<longleftrightarrow> Tx_IsEmpty (ob_Tx m)"

definition ObservedTx_Equals :: "ObservedTx \<Rightarrow> ObservedTx \<Rightarrow> bool" where
  "ObservedTx_Equals m tx2 \<longleftrightarrow> EqualsEx (ob_Tx m) (ob_Tx tx2) \<and> ob_ObservedPubKey m = ob_ObservedPubKey tx2 \<and>
     ob_BlockHeight m = ob_BlockHeight tx2 \<and> ob_FinaliseHeight m = ob_FinaliseHeight tx2 \<and>
     EqualFold (ob_Aggregator m) (ob_Aggregator tx2) \<and> EqualFold (ob_AggregatorTarget m) (ob_AggregatorTarget tx2) \<and>
     (case ob_AggregatorTargetLimit m of None \<Rightarrow> 0 | Some l \<Rightarrow> l) = (case ob_AggregatorTargetLimit tx2 of None \<Rightarrow> 0 | Some l \<Rightarrow> l)"

definition ObservedTx_IsFinal :: "ObservedTx \<Rightarrow> bool" where
  "ObservedTx_IsFinal m \<longleftrightarrow> ob_FinaliseHeight m = ob_BlockHeight m"

definition GetOutHashes :: "ObservedTx \<Rightarrow> TxID list" where
  "GetOutHashes m = concat (map (\<lambda>h. case NewTxID h of Inr t \<Rightarrow> [t] | Inl _ \<Rightarrow> []) (ob_OutHashes m))"

definition GetSigners :: "env \<Rightarrow> ObservedTx \<Rightarrow> AccAddress list" where
  "GetSigners e m = concat (map (\<lambda>a. case e_acc_from_bech32 e a of Inr x \<Rightarrow> [x] | Inl _ \<Rightarrow> []) (ob_Signers m))"

definition HasSigned :: "env \<Rightarrow> ObservedTx \<Rightarrow> AccAddress \<Rightarrow> bool" where
  "HasSigned e m signer \<longleftrightarrow> signer \<in> set (GetSigners e m)"

definition ObservedTx_Sign :: "env \<Rightarrow> ObservedTx \<Rightarrow> AccAddress \<Rightarrow> ObservedTx \<times> bool" where
  "ObservedTx_Sign e m signer =
     (if HasSigned e m signer then (m, False) else (m\<lparr>ob_Signers := ob_Signers m @ [e_acc_string e signer]\<rparr>, True))"

definition BlankTxID :: TxID where "BlankTxID = replicate 64 CHR ''0''"

definition ObservedTx_IsDone :: "ObservedTx \<Rightarrow> nat \<Rightarrow> bool" where
  "ObservedTx_IsDone m numOuts \<longleftrightarrow> length (ob_OutHashes m) \<ge> numOuts"

definition ObservedTx_SetDone :: "ObservedTx \<Rightarrow> TxID \<Rightarrow> nat \<Rightarrow> ObservedTx" where
  "ObservedTx_SetDone m hash numOuts =
     (if \<not> TxID_Equals hash BlankTxID \<and> list_ex (\<lambda>d. TxID_Equals d hash) (GetOutHashes m) then m
      else let m1 = m\<lparr>ob_OutHashes := ob_OutHashes m @ [hash]\<rparr> in
        if ObservedTx_IsDone m1 numOuts then m1\<lparr>ob_Status := Status_done\<rparr> else m1)"

section \<open>Majorities\<close>

definition HasSuperMajority :: "nat \<Rightarrow> nat \<Rightarrow> bool" where
  "HasSuperMajority signers tot =
     (if signers > tot \<or> signers = 0 then False
      else signers \<ge> tot * 2 div 3 + (if tot * 2 mod 3 > 0 then 1 else 0))"

definition HasSimpleMajority :: "nat \<Rightarrow> nat \<Rightarrow> bool" where
  "HasSimpleMajority signers tot =
     (if signers > tot \<or> signers = 0 then False
      else signers \<ge> tot div 2 + (if tot mod 2 > 0 then 1 else 0))"

definition IsNodeKeys :: "NodeAccount list \<Rightarrow> AccAddress \<Rightarrow> bool" where
  "IsNodeKeys nas addr \<longleftrightarrow> list_ex (\<lambda>na. na_Status na = NodeActive \<and> addr = na_NodeAddress na) nas"

definition getNonSigners :: "NodeAccount list \<Rightarrow> AccAddress list \<Rightarrow> AccAddress list" where
  "getNonSigners nas signers = filter (\<lambda>a. a \<notin> set signers) (map na_NodeAddress nas)"

section \<open>The voter\<close>

fun ObservedTxs_Valid :: "ObservedTx list \<Rightarrow> unit result" where
  "ObservedTxs_Valid [] = Inr ()"
| "ObservedTxs_Valid (t # ts) = (case ObservedTx_Valid t of Inl err \<Rightarrow> Inl err | Inr _ \<Rightarrow> ObservedTxs_Valid ts)"

definition ObservedTxVoter_Valid :: "ObservedTxVoter \<Rightarrow> unit result" where
  "ObservedTxVoter_Valid m =
     (if TxID_IsEmpty (vo_TxID m) then Inl (Errorf ''cannot have an empty tx id'') else ObservedTxs_Valid (vo_Txs m))"

definition matchActionItem :: "ObservedTxVoter \<Rightarrow> Tx \<Rightarrow> bool" where
  "matchActionItem m outboundTx \<longleftrightarrow> list_ex (\<lambda>toi.
     let asset = GetGasAsset (to_Chain toi);
         matchCoin = (Coins_Contains (t_Coins outboundTx) (to_Coin toi) \<or>
           Asset_Equals (co_Asset (to_Coin toi)) asset \<and>
           co_Amount (to_Coin toi) + co_Amount (GetCoin (to_MaxGas toi) asset)
             = co_Amount (GetCoin (t_Coins outboundTx) asset) + co_Amount (GetCoin (t_Gas outboundTx) asset)) in
     Address_Equals (to_ToAddress toi) (t_ToAddress outboundTx) \<and> Chain_Equals (to_Chain toi) (t_Chain outboundTx) \<and> matchCoin) (vo_Actions m)"

definition AddOutTx :: "ObservedTxVoter \<Rightarrow> Tx \<Rightarrow> ObservedTxVoter \<times> bool" where
  "AddOutTx m tx =
     (if \<not> matchActionItem m tx then (m, False)
      else if \<not> TxID_Equals (t_ID tx) BlankTxID \<and> list_ex (\<lambda>t. TxID_Equals (t_ID tx) (t_ID t)) (vo_OutTxs m) then (m, True)
      else (m\<lparr>vo_OutTxs := vo_OutTxs m @ [tx],
          vo_Txs := map (\<lambda>o1. ObservedTx_SetDone o1 (t_ID tx) (length (vo_Actions m))) (vo_Txs m),
          vo_Tx := (if ObservedTx_IsEmpty (vo_Tx m) then vo_Tx m else ObservedTx_SetDone (vo_Tx m) (t_ID tx) (length (vo_Actions m)))\<rparr>, True))"

definition Voter_IsDone :: "ObservedTxVoter \<Rightarrow> bool" where
  "Voter_IsDone m \<longleftrightarrow> length (vo_Actions m) \<le> length (vo_OutTxs m)"

text \<open>The positions of the observations equal to the given one; the vote goes to the last of them.\<close>

definition equal_votes :: "ObservedTxVoter \<Rightarrow> ObservedTx \<Rightarrow> nat list" where
  "equal_votes m tx = filter (\<lambda>i. ObservedTx_Equals (vo_Txs m ! i) tx) [0..<length (vo_Txs m)]"

definition Voter_Add :: "env \<Rightarrow> ObservedTxVoter \<Rightarrow> ObservedTx \<Rightarrow> AccAddress \<Rightarrow> ObservedTxVoter \<times> bool" where
  "Voter_Add e m observedTx signer =
     (let votes = equal_votes m observedTx in
      if list_ex (\<lambda>i. HasSigned e (vo_Txs m ! i) signer) votes then (m, False)
      else if votes \<noteq> [] then
        (case ObservedTx_Sign e (vo_Txs m ! last votes) signer of
           (tx, added) \<Rightarrow> (m\<lparr>vo_Txs := (vo_Txs m)[last votes := tx]\<rparr>, added))
      else (m\<lparr>vo_Txs := vo_Txs m @ [observedTx\<lparr>ob_Signers := [e_acc_string e signer]\<rparr>]\<rparr>, True))"

text \<open>The keys of the map \<^verbatim>\<open>voters\<close> of \<^verbatim>\<open>getConsensusTx\<close>, in the order they are added.\<close>

definition consensusVoters :: "env \<Rightarrow> ObservedTxVoter \<Rightarrow> NodeAccount list \<Rightarrow> bool \<Rightarrow> Tx \<Rightarrow> string list" where
  "consensusVoters e m accounts final tx =
     remdups (map (e_acc_string e) (filter (IsNodeKeys accounts)
       (concat (map (GetSigners e) (filter (\<lambda>o1. ObservedTx_IsFinal o1 = final \<and> EqualsEx tx (ob_Tx o1)) (vo_Txs m))))))"

definition getConsensusTx :: "env \<Rightarrow> ObservedTxVoter \<Rightarrow> NodeAccount list \<Rightarrow> bool \<Rightarrow> ObservedTx" where
  "getConsensusTx e m accounts final =
     (case find (\<lambda>o1. ObservedTx_IsFinal o1 = final \<and>
          HasSuperMajority (length (consensusVoters e m accounts final (ob_Tx o1))) (length accounts)) (vo_Txs m) of
        Some o1 \<Rightarrow> o1 | None \<Rightarrow> ObservedTx_zero)"

definition GetTx :: "env \<Rightarrow> ObservedTxVoter \<Rightarrow> NodeAccount list \<Rightarrow> ObservedTx" where
  "GetTx e m nodeAccounts =
     (if \<not> ObservedTx_IsEmpty (vo_Tx m) \<and> ObservedTx_IsFinal (vo_Tx m) then vo_Tx m
      else let finalTx = getConsensusTx e m nodeAccounts True in
        if \<not> ObservedTx_IsEmpty finalTx then finalTx
        else let discoverTx = getConsensusTx e m nodeAccounts False in
          if \<not> ObservedTx_IsEmpty discoverTx then discoverTx else vo_Tx m)"

definition HasConsensus :: "env \<Rightarrow> ObservedTxVoter \<Rightarrow> NodeAccount list \<Rightarrow> bool" where
  "HasConsensus e m nodeAccounts \<longleftrightarrow> \<not> ObservedTx_IsEmpty (GetTx e m nodeAccounts)"

definition HasFinalised :: "env \<Rightarrow> ObservedTxVoter \<Rightarrow> NodeAccount list \<Rightarrow> bool" where
  "HasFinalised e m nodeAccounts \<longleftrightarrow>
     (let finalTx = GetTx e m nodeAccounts in \<not> ObservedTx_IsEmpty finalTx \<and> ObservedTx_IsFinal finalTx)"

definition Voter_setStatus :: "ObservedStatus \<Rightarrow> ObservedTxVoter \<Rightarrow> ObservedTxVoter" where
  "Voter_setStatus st m = m\<lparr>vo_Txs := map (\<lambda>o1. o1\<lparr>ob_Status := st\<rparr>) (vo_Txs m),
     vo_Tx := (if ObservedTx_IsEmpty (vo_Tx m) then vo_Tx m else (vo_Tx m)\<lparr>ob_Status := st\<rparr>)\<rparr>"

definition Voter_SetReverted :: "ObservedTxVoter \<Rightarrow> ObservedTxVoter" where
  "Voter_SetReverted m = (Voter_setStatus Status_reverted m)\<lparr>vo_Reverted := True\<rparr>"

definition Voter_SetDone :: "ObservedTxVoter \<Rightarrow> ObservedTxVoter" where
  "Voter_SetDone m = Voter_setStatus Status_done m"

definition GetConsensusSigners :: "env \<Rightarrow> ObservedTxVoter \<Rightarrow> AccAddress list" where
  "GetConsensusSigners e m =
     (if ObservedTx_IsEmpty (vo_Tx m) then []
      else fold (\<lambda>x acc. if e_acc_string e x \<in> set (map (e_acc_string e) acc) then acc else acc @ [x])
        (concat (map (GetSigners e) (filter (\<lambda>o1. ObservedTx_IsFinal o1 = ObservedTx_IsFinal (vo_Tx m) \<and>
           EqualsEx (ob_Tx o1) (ob_Tx (vo_Tx m))) (vo_Txs m)))) [])"

section \<open>Replays\<close>

definition btcSourceInputsEqual :: "TxInput list \<Rightarrow> TxInput list \<Rightarrow> bool" where
  "btcSourceInputsEqual existing replay \<longleftrightarrow> existing = replay"

definition matchingExactObservedTxReplay :: "env \<Rightarrow> ObservedTx \<Rightarrow> ObservedTx \<Rightarrow> AccAddress \<Rightarrow> bool" where
  "matchingExactObservedTxReplay e existing tx signer \<longleftrightarrow> \<not> ObservedTx_IsEmpty existing \<and> HasSigned e existing signer \<and>
     ObservedTx_Equals existing tx \<and> btcSourceInputsEqual (t_SourceInputs (ob_Tx existing)) (t_SourceInputs (ob_Tx tx))"

definition isExactObservedTxReplay :: "env \<Rightarrow> ObservedTxVoter \<Rightarrow> ObservedTx \<Rightarrow> AccAddress \<Rightarrow> bool" where
  "isExactObservedTxReplay e voter tx signer \<longleftrightarrow>
     list_ex (\<lambda>existing. matchingExactObservedTxReplay e existing tx signer) (vo_Tx voter # vo_Txs voter)"

definition matchingFinalBTCObservedTxReplay :: "env \<Rightarrow> ObservedTx \<Rightarrow> ObservedTx \<Rightarrow> AccAddress \<Rightarrow> bool" where
  "matchingFinalBTCObservedTxReplay e existing tx signer \<longleftrightarrow> ObservedTx_IsFinal existing \<and> HasSigned e existing signer \<and>
     ob_ObservedPubKey existing = ob_ObservedPubKey tx \<and> EqualsEx (ob_Tx existing) (ob_Tx tx) \<and>
     btcSourceInputsEqual (t_SourceInputs (ob_Tx existing)) (t_SourceInputs (ob_Tx tx))"

definition isFinalBTCObservedTxReplay :: "env \<Rightarrow> ObservedTxVoter \<Rightarrow> ObservedTx \<Rightarrow> AccAddress \<Rightarrow> bool" where
  "isFinalBTCObservedTxReplay e voter tx signer \<longleftrightarrow> ObservedTx_IsFinal tx \<and> Chain_Equals (t_Chain (ob_Tx tx)) BTCChain \<and>
     list_ex (\<lambda>existing. matchingFinalBTCObservedTxReplay e existing tx signer) (vo_Tx voter # vo_Txs voter)"

section \<open>Heights, observers and penalties\<close>

definition SetLastObserveHeight :: "env \<Rightarrow> Chain \<Rightarrow> AccAddress \<Rightarrow> int \<Rightarrow> unit kact" where
  "SetLastObserveHeight e chain address height =
     (let key = skey (e_acc_string e address @ ''/'' @ chain) in
      modify (\<lambda>s. case kv_get (k_last_observe s) key of
          Some lastHeight \<Rightarrow> if lastHeight > height then s else s\<lparr>k_last_observe := kv_set key height (k_last_observe s)\<rparr>
        | None \<Rightarrow> s\<lparr>k_last_observe := kv_set key height (k_last_observe s)\<rparr>))"

definition GetLastChainHeight :: "Chain \<Rightarrow> kstate \<Rightarrow> int" where
  "GetLastChainHeight chain s = (case kv_get (k_last_chain s) (skey chain) of Some h \<Rightarrow> h | None \<Rightarrow> 0)"

definition SetLastChainHeight :: "Chain \<Rightarrow> int \<Rightarrow> unit kact" where
  "SetLastChainHeight chain height =
     bindA (gets (GetLastChainHeight chain)) (\<lambda>lastHeight.
     err_if (lastHeight > height) ''block height can't go backward''
       (modify (\<lambda>s. s\<lparr>k_last_chain := kv_set (skey chain) height (k_last_chain s)\<rparr>)))"

text \<open>The observer manager keeps the observers of the block in memory, by chain.\<close>

definition AppendObserver :: "env \<Rightarrow> Chain \<Rightarrow> AccAddress list \<Rightarrow> unit kact" where
  "AppendObserver e chain addrs =
     modify (\<lambda>s. s\<lparr>k_observers := (k_observers s)(chain \<mapsto>
       fold (\<lambda>x acc. if e_acc_string e x \<in> set (map (e_acc_string e) acc) then acc else acc @ [x])
         ((case k_observers s chain of Some xs \<Rightarrow> xs | None \<Rightarrow> []) @ addrs) [])\<rparr>)"

definition IncPenaltyPoints :: "env \<Rightarrow> int \<Rightarrow> AccAddress list \<Rightarrow> unit kact" where
  "IncPenaltyPoints e point addresses = forA (\<lambda>addr. IncNodeAccountPenaltyPoints e addr point) addresses"

definition DecPenaltyPoints :: "env \<Rightarrow> int \<Rightarrow> AccAddress list \<Rightarrow> unit kact" where
  "DecPenaltyPoints e point addresses = forA (\<lambda>addr. DecNodeAccountPenaltyPoints e addr point) addresses"

section \<open>Attesting an inbound transaction\<close>

text \<open>A signer that brings the voter to consensus: all signers lose the points of the observation, the
  others take those of a missed one.\<close>

definition settlePenalties :: "env \<Rightarrow> int \<Rightarrow> int \<Rightarrow> NodeAccount list \<Rightarrow> ObservedTxVoter \<Rightarrow> unit kact" where
  "settlePenalties e observePenaltyPoints lackOfObservationPenalty nas voter =
     (let signers = GetConsensusSigners e voter in
      thenA (DecPenaltyPoints e observePenaltyPoints signers)
        (IncPenaltyPoints e lackOfObservationPenalty (getNonSigners nas signers)))"

definition late_signer :: "env \<Rightarrow> ObservedTxVoter \<Rightarrow> ObservedTx \<Rightarrow> AccAddress \<Rightarrow> bool" where
  "late_signer e voter tx signer \<longleftrightarrow> ObservedTx_IsFinal (vo_Tx voter) = ObservedTx_IsFinal tx \<and>
     EqualsEx (ob_Tx (vo_Tx voter)) (ob_Tx tx) \<and> \<not> HasSigned e (vo_Tx voter) signer"

definition countLateSigner :: "env \<Rightarrow> int \<Rightarrow> ObservedTxVoter \<Rightarrow> AccAddress \<Rightarrow> ObservedTxVoter kact" where
  "countLateSigner e points voter signer =
     thenA (DecPenaltyPoints e points [signer])
       (ret (voter\<lparr>vo_Tx := (vo_Tx voter)\<lparr>ob_Signers := ob_Signers (vo_Tx voter) @ [e_acc_string e signer]\<rparr>\<rparr>))"

text \<open>The branch for a final consensus, and the one for a consensus that is not final.\<close>

definition finaliseTxIn :: "env \<Rightarrow> int \<Rightarrow> int \<Rightarrow> int \<Rightarrow> ObservedTxVoter \<Rightarrow> NodeAccount list \<Rightarrow> ObservedTx \<Rightarrow> AccAddress \<Rightarrow>
    (ObservedTxVoter \<times> bool) kact" where
  "finaliseTxIn e observePts lackPts observeFlex voter nas tx signer =
     bindA (gets k_height) (\<lambda>h.
     if \<not> HasFinalised e voter nas then ret (voter, False)
     else if vo_FinalisedHeight voter = 0 then
       let v1 = voter\<lparr>vo_Height := h, vo_UnfinalizedHeight := (if vo_UnfinalizedHeight voter = 0 then h else vo_UnfinalizedHeight voter),
             vo_FinalisedHeight := h\<rparr>;
           v2 = v1\<lparr>vo_Tx := GetTx e v1 nas\<rparr> in
       thenA (settlePenalties e observePts lackPts nas v2) (ret (v2, True))
     else if h \<le> wrap64 (vo_FinalisedHeight voter + observeFlex) \<and> late_signer e voter tx signer then
       bindA (countLateSigner e (wrap64 (observePts + lackPts)) voter signer) (\<lambda>v. ret (v, False))
     else ret (voter, False))"

definition discoverTxIn :: "env \<Rightarrow> int \<Rightarrow> int \<Rightarrow> int \<Rightarrow> ObservedTxVoter \<Rightarrow> bool \<Rightarrow> NodeAccount list \<Rightarrow> ObservedTx \<Rightarrow> AccAddress \<Rightarrow>
    (ObservedTxVoter \<times> bool) kact" where
  "discoverTxIn e observePts lackPts observeFlex voter ok nas tx signer =
     bindA (gets k_height) (\<lambda>h.
     if ok \<or> \<not> HasConsensus e voter nas \<or> ObservedTx_IsFinal tx \<or> vo_FinalisedHeight voter \<noteq> 0 then ret (voter, ok)
     else if vo_Height voter = 0 then
       let v1 = voter\<lparr>vo_Height := h, vo_UnfinalizedHeight := (if vo_UnfinalizedHeight voter = 0 then h else vo_UnfinalizedHeight voter)\<rparr>;
           v2 = v1\<lparr>vo_Tx := GetTx e v1 nas\<rparr> in
       thenA (settlePenalties e observePts lackPts nas v2) (ret (v2, True))
     else if h \<le> wrap64 (vo_Height voter + observeFlex) \<and> late_signer e voter tx signer then
       bindA (countLateSigner e (wrap64 (observePts + lackPts)) voter signer) (\<lambda>v. ret (v, ok))
     else ret (voter, ok))"

definition processTxInAttestation :: "env \<Rightarrow> ObservedTxVoter \<Rightarrow> NodeAccount list \<Rightarrow> ObservedTx \<Rightarrow> AccAddress \<Rightarrow> bool \<Rightarrow>
    (ObservedTxVoter \<times> bool) kact" where
  "processTxInAttestation e voter nas tx signer shouldPenalizeForDuplicate =
     bindA (gets (GetConfigInt64 Observation_SubmitPenaltyPoints)) (\<lambda>observePts.
     bindA (gets (GetConfigInt64 Observation_MissPenaltyPoints)) (\<lambda>lackPts.
     bindA (gets (getConfigDurationBlocks Observation_DelayFlexibilityMinutes)) (\<lambda>observeFlex.
     bindA (if ob_BlockHeight tx > 0 then SetLastObserveHeight e (t_Chain (ob_Tx tx)) signer (ob_BlockHeight tx) else ret ()) (\<lambda>_.
     bindA (IncPenaltyPoints e observePts [signer]) (\<lambda>_.
     case Voter_Add e voter tx signer of (voter1, added) \<Rightarrow>
       if \<not> added then
         bindA (if \<not> shouldPenalizeForDuplicate \<or> isExactObservedTxReplay e voter1 tx signer \<or> isFinalBTCObservedTxReplay e voter1 tx signer
                then DecPenaltyPoints e observePts [signer] else ret ()) (\<lambda>_. ret (voter1, False))
       else
         bindA (finaliseTxIn e observePts lackPts observeFlex voter1 nas tx signer) (\<lambda>(voter2, ok).
         bindA (discoverTxIn e observePts lackPts observeFlex voter2 ok nas tx signer) (\<lambda>(voter3, ok3).
         bindA (SetObservedTxInVoter voter3) (\<lambda>_. ret (voter3, ok3)))))))))"

end
