(* ===== verification/Invariants.thy ===== *)
theory Invariants
  imports Batching Shield Observed
begin

text \<open>
  The invariants the chain registers with itself (\<^verbatim>\<open>x/thornado/keeper/v1/invariants.go\<close>). An invariant
  returns its messages and whether it is broken; every message sets the flag, so the model returns the
  messages, each a subject and a text without the formatted numbers, and an invariant is broken when
  there is one. Records are stored decoded, so the branches for encoding errors do not arise, but for
  the nullifiers, whose former layout is part of the state. The balances of the bank module
  (\<^verbatim>\<open>ThornadoInvariant\<close>) are not part of it.
\<close>

type_synonym report = "(string \<times> string) list"

definition faults :: "string \<Rightarrow> (bool \<times> string) list \<Rightarrow> report" where
  "faults subject cs = map (\<lambda>(_, m). (subject, m)) (filter fst cs)"

section \<open>Deposits and addresses\<close>

definition depositFaults :: "DepositRecord \<Rightarrow> report" where
  "depositFaults d = faults (dr_DepositID d)
     [(DepositRecord_Valid d \<noteq> Inr (), ''invalid deposit''),
      (dr_ShieldedSats d > dr_AmountSats d, ''shielded amount exceeds deposit amount''),
      (dr_Status d = DepositStatusDepositMatched \<and> dr_Settlement d \<noteq> [], ''matched deposit has settlement''),
      (dr_Status d = DepositStatusSettled, ''persisted transient settlement''),
      (dr_Status d = DepositStatusCommitted \<and> dr_Settlement d = [], ''committed deposit missing settlement''),
      (dr_Status d = DepositStatusReturnQueued \<and> dr_RefundQueuedHeight d \<le> 0, ''queued return missing refund queued height''),
      (dr_Status d = DepositStatusReturnComplete \<and> dr_RefundQueuedHeight d \<le> 0, ''completed return missing refund queued height''),
      (dr_Status d \<notin> {DepositStatusDepositMatched, DepositStatusSettled, DepositStatusCommitted, DepositStatusReturnQueued,
         DepositStatusReturnComplete}, ''invalid deposit status''),
      (dr_Settlement d = DepositSettlementUser \<and> (IsNodeBond d \<or> dr_AuctionID d \<noteq> []), ''user settlement has operator metadata''),
      (dr_Settlement d = DepositSettlementOperatorBond \<and> \<not> IsNodeBond d, ''bond settlement missing node pubkey''),
      (dr_Settlement d = DepositSettlementOperatorBond \<and> dr_Status d = DepositStatusCommitted \<and> \<not> dr_BondConfirmed d,
         ''committed bond deposit not confirmed''),
      (dr_Settlement d = DepositSettlementOperatorSale \<and> (dr_AuctionID d = [] \<or> dr_SellerPayoutSats d + dr_ProtocolBondSats d \<noteq> dr_AmountSats d),
         ''invalid node sale settlement amounts''),
      (dr_Settlement d = DepositSettlementOperatorFee \<and> \<not> IsNoop (dr_DepositAddress d), ''fee settlement must use noop deposit address'')]"

definition DepositRecordInvariant :: "kstate \<Rightarrow> report" where
  "DepositRecordInvariant s = concat (map depositFaults (kv_values (k_deposits s)))"

definition addressFaults :: "env \<Rightarrow> kstate \<Rightarrow> DepositAddress \<Rightarrow> report" where
  "addressFaults e s r =
     (if DepositAddress_Valid r \<noteq> Inr () then [(da_Address r, ''invalid deposit address mapping'')]
      else faults (da_Address r)
        ((\<not> Chain_Equals (GetChain e (da_Address r)) BTCChain, ''deposit address is not BTC'') #
         (case GetNextVaultDepositPathIndex (da_VaultPubKey r) s of
            Inl _ \<Rightarrow> [(True, ''missing path index cursor'')]
          | Inr nextIndex \<Rightarrow> [(da_DepositNonce r \<ge> nextIndex, ''deposit nonce not below cursor'')])))"

definition ShielderVaultAddressInvariant :: "env \<Rightarrow> kstate \<Rightarrow> report" where
  "ShielderVaultAddressInvariant e s = concat (map (addressFaults e s) (kv_values (k_addresses s)))"

section \<open>Bonds, auctions and fees\<close>

definition nodeBonderTotals :: "string \<Rightarrow> kstate \<Rightarrow> u64 \<times> u64" where
  "nodeBonderTotals nodePubKey s =
     (let bs = filter (\<lambda>b. br_NodePubKey b = nodePubKey) (kv_values (k_bonders s)) in
      (sum_list (map br_PrincipalSats bs), sum_list (map br_PendingSats bs)))"

text \<open>One round of the loop of \<^verbatim>\<open>NodeBondInvariant\<close>: messages, owners of slots and active slots so far.\<close>

definition bondRound :: "env \<Rightarrow> kstate \<Rightarrow> report \<times> (u64 \<rightharpoonup> string) \<times> u64 \<Rightarrow> ShielderNodeBond \<Rightarrow> (report \<times> (u64 \<rightharpoonup> string) \<times> u64) result" where
  "bondRound e s acc b =
     (case acc of (msg, seen, active) \<Rightarrow>
      let m1 = faults (nb_NodePubKey b)
            [(ShielderNodeBond_Valid b \<noteq> Inr (), ''invalid bond''),
             (seen (nb_Slot b) \<noteq> None \<and> \<not> nb_Sold b, ''slot already owned'')];
          seen1 = (if nb_Sold b then seen else seen(nb_Slot b \<mapsto> nb_NodePubKey b)) in
      if nb_Sold b then
        Inr (msg @ m1 @ faults (nb_NodePubKey b)
          [(nb_SoldAuctionID b = [] \<or> nb_FeeShareActive b \<or> nb_BondSats b \<noteq> 0 \<or> nb_PendingSats b \<noteq> 0, ''invalid sold bond state'')], seen1, active)
      else let node = GetNodeAccount e (nb_NodeAddress b) s in
        case (if NodeAccount_IsEmpty node then Inr (nb_BondSats b) else Uint64 (na_Bond node)) of
          Inl err \<Rightarrow> Inl err
        | Inr nodeBond \<Rightarrow>
            Inr (msg @ m1 @ faults (nb_NodePubKey b)
              [(nodeBonderTotals (nb_NodePubKey b) s \<noteq> (nb_BondSats b, nb_PendingSats b), ''bonder totals differ from bond''),
               (nb_FeeShareActive b \<and> nb_FeeDebtSats b > fp_FeePerSlotShare (GetFeePool s), ''fee debt exceeds pool share''),
               (nodeBond \<noteq> nb_BondSats b, ''node bond differs from shielder bond'')], seen1, if nb_FeeShareActive b then active + 1 else active))"

definition NodeBondInvariant :: "env \<Rightarrow> kstate \<Rightarrow> report result" where
  "NodeBondInvariant e s =
     (case foldR (bondRound e s) ([], Map.empty, 0) (kv_values (k_bonds s)) of
        Inl err \<Rightarrow> Inl err
      | Inr (msg, _, active) \<Rightarrow>
          Inr (msg @ faults [] [(active \<noteq> fp_TotalSlots (GetFeePool s), ''active fee slots differ from fee pool total slots'')]))"

definition auctionFaults :: "kstate \<Rightarrow> NodeSlotAuction \<Rightarrow> report" where
  "auctionFaults s a =
     faults (au_AuctionID a) [(NodeSlotAuction_Valid a \<noteq> Inr (), ''invalid auction'')] @
     (if au_Status a \<in> {NodeSlotAuctionOpen, NodeSlotAuctionExpired} then
        faults (au_AuctionID a) [(au_SelectedBidID a \<noteq> [], ''unselected auction has selected bid'')]
      else if au_Status a \<in> {NodeSlotAuctionSelected, NodeSlotAuctionSettled} then
        (if au_SelectedBidID a = [] then [(au_AuctionID a, ''selected auction missing bid'')]
         else let bid = GetNodeSlotBid (au_SelectedBidID a) s in
           if bd_BidID bid = [] \<or> bd_AuctionID bid \<noteq> au_AuctionID a then [(au_AuctionID a, ''selected bid not found'')]
           else faults (au_AuctionID a) [(au_Status a = NodeSlotAuctionSettled \<and> \<not> bd_Settled bid, ''settled auction has unsettled bid'')])
      else [(au_AuctionID a, ''invalid auction status'')])"

definition NodeSlotAuctionInvariant :: "kstate \<Rightarrow> report" where
  "NodeSlotAuctionInvariant s = concat (map (auctionFaults s) (kv_values (k_auctions s)))"

definition FeeInvariant :: "kstate \<Rightarrow> report" where
  "FeeInvariant s =
     (let pool = GetFeePool s in
      faults [] [(fp_TotalClaimedSats pool > fp_TotalCollectedSats pool, ''claimed fees exceed collected fees''),
        (fp_TotalSlots pool = 0 \<and> fp_FeePerSlotShare pool \<noteq> 0, ''fee pool has share accumulator without slots'')])"

section \<open>Backing\<close>

record vaultBackingTotals =
  vb_vaultSats :: u64
  vb_depositAddressSats :: u64
  vb_internalInflightSats :: u64
  vb_completedInternalOutSats :: u64
  vb_internalGasSpentSats :: u64
  vb_externalGasSpentSats :: u64
  vb_noteLiabilitySats :: u64
  vb_spentNoteSats :: u64
  vb_depositLiabilitySats :: u64
  vb_pendingExternalTxOutSats :: u64
  vb_feeLiabilitySats :: u64
  vb_nodeBondLiabilitySats :: u64
  vb_nodeBidLiabilitySats :: u64

definition controlledSats :: "vaultBackingTotals \<Rightarrow> u64" where
  "controlledSats t = vb_vaultSats t + vb_depositAddressSats t + vb_internalInflightSats t + vb_completedInternalOutSats t
     + vb_internalGasSpentSats t + vb_externalGasSpentSats t"

definition liabilitySats :: "vaultBackingTotals \<Rightarrow> u64" where
  "liabilitySats t = vb_noteLiabilitySats t + vb_depositLiabilitySats t + vb_pendingExternalTxOutSats t + vb_feeLiabilitySats t
     + vb_nodeBondLiabilitySats t + vb_nodeBidLiabilitySats t"

text \<open>\<^verbatim>\<open>total += f(x)\<close> over a list, with the panic of \<^verbatim>\<open>Uint64()\<close>.\<close>

definition sumR :: "('a \<Rightarrow> u64 result) \<Rightarrow> 'a list \<Rightarrow> u64 result" where
  "sumR f xs = foldR (\<lambda>t x. case f x of Inl err \<Rightarrow> Inl err | Inr v \<Rightarrow> Inr (t + v)) 0 xs"

definition backingVaultSats :: "kstate \<Rightarrow> u64 result" where
  "backingVaultSats s = sumR (\<lambda>v. Uint64 (co_Amount (Vault_GetCoin (va_Coins v) BTCAsset))) (filter Vault_IsBase (kv_values (k_vaults s)))"

definition backingDepositUnshieldedSats :: "DepositRecord \<Rightarrow> u64" where
  "backingDepositUnshieldedSats d = (if dr_AmountSats d \<le> dr_ShieldedSats d then 0 else dr_AmountSats d - dr_ShieldedSats d)"

definition depositOpen :: "DepositRecord \<Rightarrow> bool" where
  "depositOpen d \<longleftrightarrow> dr_Status d \<in> {DepositStatusDepositObserved, DepositStatusDepositMatched, DepositStatusSettled}"

definition depositRequiresDepositAddressBacking :: "DepositRecord \<Rightarrow> bool" where
  "depositRequiresDepositAddressBacking d \<longleftrightarrow> depositOpen d \<and>
     \<not> (IsNoop (dr_DepositAddress d) \<or> dr_DepositPathIndex d = MainVaultPathIndex) \<and> \<not> dr_SweepComplete d"

definition backingDepositSats :: "kstate \<Rightarrow> u64 \<times> u64" where
  "backingDepositSats s =
     (let ds = kv_values (k_deposits s) in
      (sum_list (map (\<lambda>d. if depositRequiresDepositAddressBacking d then backingDepositUnshieldedSats d else 0) ds),
       sum_list (map (\<lambda>d. if depositOpen d then backingDepositUnshieldedSats d else 0) ds)))"

definition observedFinalBTC :: "TxID \<Rightarrow> kstate \<Rightarrow> bool" where
  "observedFinalBTC h s \<longleftrightarrow> (let tx = vo_Tx (GetObservedTxOutVoter h s) in Chain_Equals (t_Chain (ob_Tx tx)) BTCChain \<and> ObservedTx_IsFinal tx)"

definition txOutInternalGasSpent :: "TxOutItem \<Rightarrow> u64 result" where
  "txOutInternalGasSpent item =
     (let sourceTotal = sum_list (map ti_AmountSats (to_SourceInputs item)) in
      case Uint64 (co_Amount (to_Coin item)) of
        Inl err \<Rightarrow> Inl err
      | Inr out \<Rightarrow> Inr (if sourceTotal \<le> out then 0 else sourceTotal - out))"

text \<open>The sums over the items of the outbound blocks: inflight, completed and gas of internal items, pending
  of the others, and the hashes of completed payments.\<close>

record txout_totals =
  tt_inflight :: u64
  tt_completed :: u64
  tt_gas :: u64
  tt_pending :: u64
  tt_hashes :: "TxID list"

definition addTxOutItem :: "kstate \<Rightarrow> txout_totals \<Rightarrow> TxOutItem \<Rightarrow> txout_totals result" where
  "addTxOutItem s t item =
     (if \<not> Chain_Equals (to_Chain item) BTCChain then Inr t
      else case Uint64 (co_Amount (to_Coin item)) of
        Inl err \<Rightarrow> Inl err
      | Inr amount \<Rightarrow>
          if IsInternalTxOutType (GetTxType item) then
            (if \<not> TxID_IsEmpty (to_OutHash item) \<and> observedFinalBTC (to_OutHash item) s then
               (case txOutInternalGasSpent item of
                  Inl err \<Rightarrow> Inl err
                | Inr gas \<Rightarrow> Inr (t\<lparr>tt_completed := tt_completed t + amount, tt_gas := tt_gas t + gas\<rparr>))
             else case Uint64 (co_Amount (GetCoin (to_MaxGas item) BTCAsset)) of
               Inl err \<Rightarrow> Inl err
             | Inr gas \<Rightarrow> Inr (t\<lparr>tt_inflight := tt_inflight t + (amount + gas)\<rparr>))
          else if \<not> TxID_IsEmpty (to_OutHash item) then Inr (t\<lparr>tt_hashes := List.insert (to_OutHash item) (tt_hashes t)\<rparr>)
          else Inr (t\<lparr>tt_pending := tt_pending t + amount\<rparr>))"

definition backingTxOutSats :: "kstate \<Rightarrow> (txout_totals \<times> u64) result" where
  "backingTxOutSats s =
     (case foldR (addTxOutItem s) \<lparr>tt_inflight = 0, tt_completed = 0, tt_gas = 0, tt_pending = 0, tt_hashes = []\<rparr>
        (concat (map tx_TxArray (kv_values (k_txouts s)))) of
        Inl err \<Rightarrow> Inl err
      | Inr t \<Rightarrow>
          (case sumR (\<lambda>h. if observedFinalBTC h s then Uint64 (co_Amount (GetCoin (t_Gas (ob_Tx (vo_Tx (GetObservedTxOutVoter h s)))) BTCAsset))
              else Inr 0) (tt_hashes t) of
             Inl err \<Rightarrow> Inl err
           | Inr gas \<Rightarrow> Inr (t, gas)))"

definition backingMintedNoteSats :: "kstate \<Rightarrow> u64 \<times> report" where
  "backingMintedNoteSats s =
     (let trees = kv_values (k_trees s); records = kv_values (k_notes s);
          treeTotal = (\<lambda>d. case find (\<lambda>t. ts_DenominationSats t = d) (rev trees) of Some t \<Rightarrow> ts_NextIndex t * d | None \<Rightarrow> 0);
          recordTotal = (\<lambda>d. sum_list (map nr_DenominationSats (filter (\<lambda>r. nr_DenominationSats r = d) records))) in
      (sum_list (map (\<lambda>t. ts_NextIndex t * ts_DenominationSats t) trees),
       concat (map (\<lambda>d. faults [] [(recordTotal d > treeTotal d, ''note records exceed tree-minted'')]) (sort (remdups (map nr_DenominationSats records))))))"

definition invariantNullifierWithdrawalID :: "nullifier_entry \<Rightarrow> string option" where
  "invariantNullifierWithdrawalID n =
     (case n of NullifierRecord r \<Rightarrow> if TrimSpace (nl_WithdrawalID r) \<noteq> [] then Some (TrimSpace (nl_WithdrawalID r)) else None
      | LegacyNullifier i \<Rightarrow> Some (TrimSpace i))"

definition spentNote :: "kstate \<Rightarrow> nullifier_entry \<Rightarrow> u64" where
  "spentNote s n = (case invariantNullifierWithdrawalID n of None \<Rightarrow> 0 | Some i \<Rightarrow> rd_AmountSats (GetShielderRedeem i s))"

definition spentFaults :: "kstate \<Rightarrow> nullifier_entry \<Rightarrow> report" where
  "spentFaults s n =
     (case invariantNullifierWithdrawalID n of
        None \<Rightarrow> [([], ''invalid nullifier encoding'')]
      | Some i \<Rightarrow> faults i [(rd_AmountSats (GetShielderRedeem i s) = 0, ''spent nullifier missing redeem amount'')])"

definition backingSpentNoteSats :: "kstate \<Rightarrow> u64 \<times> report" where
  "backingSpentNoteSats s =
     (let ns = kv_values (k_nullifiers s) in (sum_list (map (spentNote s) ns), concat (map (spentFaults s) ns)))"

definition backingNoteLiabilitySats :: "kstate \<Rightarrow> u64 \<times> u64 \<times> report" where
  "backingNoteLiabilitySats s =
     (let (minted, m1) = backingMintedNoteSats s; (spent, m2) = backingSpentNoteSats s in
      if spent > minted then (0, spent, m1 @ m2 @ [([], ''spent note amount exceeds minted note amount'')])
      else (minted - spent, spent, m1 @ m2))"

definition backingFeeLiabilitySats :: "kstate \<Rightarrow> u64 \<times> report" where
  "backingFeeLiabilitySats s =
     (let pool = GetFeePool s in
      if fp_TotalClaimedSats pool > fp_TotalCollectedSats pool then (0, [([], ''claimed fees exceed collected fees'')])
      else (fp_TotalCollectedSats pool - fp_TotalClaimedSats pool, []))"

definition backingNodeBondLiabilitySats :: "kstate \<Rightarrow> u64" where
  "backingNodeBondLiabilitySats s = sum_list (map (\<lambda>b. if nb_Sold b then 0 else nb_BondSats b + nb_PendingSats b) (kv_values (k_bonds s)))"

definition backingNodeBidLiabilitySats :: "kstate \<Rightarrow> u64" where
  "backingNodeBidLiabilitySats s = sum_list (map (\<lambda>b. if bd_Settled b then 0 else bd_AmountSats b) (kv_values (k_bids s)))"

definition backingTotals :: "kstate \<Rightarrow> (vaultBackingTotals \<times> report) result" where
  "backingTotals s =
     (case backingVaultSats s of
        Inl err \<Rightarrow> Inl err
      | Inr vaultSats \<Rightarrow>
          (case backingTxOutSats s of
             Inl err \<Rightarrow> Inl err
           | Inr (t, externalGas) \<Rightarrow>
               let (depositAddressSats, depositLiabilitySats) = backingDepositSats s;
                   (noteSats, spentSats, m1) = backingNoteLiabilitySats s; (feeSats, m2) = backingFeeLiabilitySats s in
               Inr (\<lparr>vb_vaultSats = vaultSats, vb_depositAddressSats = depositAddressSats, vb_internalInflightSats = tt_inflight t,
                 vb_completedInternalOutSats = tt_completed t, vb_internalGasSpentSats = tt_gas t, vb_externalGasSpentSats = externalGas,
                 vb_noteLiabilitySats = noteSats, vb_spentNoteSats = spentSats, vb_depositLiabilitySats = depositLiabilitySats,
                 vb_pendingExternalTxOutSats = tt_pending t, vb_feeLiabilitySats = feeSats,
                 vb_nodeBondLiabilitySats = backingNodeBondLiabilitySats s, vb_nodeBidLiabilitySats = backingNodeBidLiabilitySats s\<rparr>, m1 @ m2)))"

definition VaultBackingInvariant :: "kstate \<Rightarrow> report result" where
  "VaultBackingInvariant s =
     (case backingTotals s of
        Inl err \<Rightarrow> Inl err
      | Inr (totals, msg) \<Rightarrow> Inr (msg @ faults [] [(controlledSats totals < liabilitySats totals, ''vault backing deficit'')]))"

end
