(* ===== verification/Backing.thy ===== *)
theory Backing
  imports Invariants Withdraw Deposit_Laws
begin

text \<open>
  How the operations move value between the liabilities of \<^verbatim>\<open>VaultBackingInvariant\<close>. The sums are 64-bit
  words, so that value moved from one sum to another leaves the total unchanged also when a sum
  wraps; only the two differences (minted less spent notes, collected less claimed fees) need their
  order.
\<close>

section \<open>Minted notes\<close>

abbreviation minted :: "kstate \<Rightarrow> u64" where "minted s \<equiv> fst (backingMintedNoteSats s)"

abbreviation spent :: "kstate \<Rightarrow> u64" where "spent s \<equiv> fst (backingSpentNoteSats s)"

lemma minted_sum: "minted s = sum_list (map (\<lambda>t. ts_NextIndex t * ts_DenominationSats t) (kv_values (k_trees s)))"
  by (simp add: backingMintedNoteSats_def Let_def)

definition trees_ok :: "kstate \<Rightarrow> bool" where
  "trees_ok s \<longleftrightarrow> kv_ordered (k_trees s) \<and> (\<forall>d. ts_DenominationSats (tree_of s d) = d)"

lemma pool_trees_ok: "pool_ok e s L \<Longrightarrow> kv_ordered (k_trees s) \<Longrightarrow> trees_ok s"
  by (simp add: pool_ok_def pool_rep_def trees_ok_def)

lemma SetTree_minted:
  assumes run: "SetShielderTreeState st s = (Inr u, t)" and ok: "trees_ok s"
  defines "d \<equiv> ts_DenominationSats st"
  shows "trees_ok t" and "tree_of t = (tree_of s)(d := st)"
    and "minted t = minted s + (ts_NextIndex st - ts_NextIndex (tree_of s d)) * d"
proof -
  have t: "t = s\<lparr>k_trees := kv_set (shielderTreeStateKey d) st (k_trees s)\<rparr>"
    using run by (auto simp: SetShielderTreeState_def act_run d_def)
  show tr: "tree_of t = (tree_of s)(d := st)"
    by (auto simp: t tree_of_def GetShielderTreeState_def shielderTreeStateKey_def fun_eq_iff)
  then show "trees_ok t" using ok by (auto simp: trees_ok_def t kv_ordered_set d_def)
  have ord: "kv_ordered (k_trees s)" and dn: "ts_DenominationSats (tree_of s d) = d" using ok by (auto simp: trees_ok_def)
  show "minted t = minted s + (ts_NextIndex st - ts_NextIndex (tree_of s d)) * d"
  proof (cases "kv_get (k_trees s) (shielderTreeStateKey d)")
    case None
    then have "ts_NextIndex (tree_of s d) = 0" by (simp add: tree_of_def GetShielderTreeState_def zero_defs)
    then show ?thesis using kv_sum_set_new [OF ord None, of "\<lambda>t. ts_NextIndex t * ts_DenominationSats t" st]
      unfolding minted_sum t by (simp add: d_def add.commute)
  next
    case (Some v)
    then have v: "tree_of s d = v" by (simp add: tree_of_def GetShielderTreeState_def)
    show ?thesis using kv_sum_set_update [OF ord Some, of "\<lambda>t. ts_NextIndex t * ts_DenominationSats t" st] dn
      unfolding minted_sum t v by (simp add: v [symmetric] d_def algebra_simps)
  qed
qed

definition grown_by :: "(u64 \<rightharpoonup> StoredShielderTreeState) \<Rightarrow> kstate \<Rightarrow> u64 \<Rightarrow> u64" where
  "grown_by states s d = (ts_NextIndex (the (states d)) - ts_NextIndex (tree_of s d)) * d"

lemma grown_by_cong: "tree_of t d = tree_of s d \<Longrightarrow> grown_by states t d = grown_by states s d"
  by (simp add: grown_by_def)

lemma persist_minted:
  assumes "persistShielderTreeStates states ds s = (Inr u, t)" "trees_ok s" "distinct ds"
    "\<And>d. d \<in> set ds \<Longrightarrow> \<exists>st. states d = Some st \<and> ts_DenominationSats st = d"
  shows "trees_ok t \<and> minted t = minted s + sum_list (map (grown_by states s) ds)"
  using assms
proof (induction ds arbitrary: s)
  case (Cons d ds)
  obtain st where st: "states d = Some st" "ts_DenominationSats st = d" using Cons.prems(4) by auto
  from Cons.prems(1) obtain s1 s2 where set: "SetShielderTreeState st s = (Inr (), s1)"
    and root: "SetShielderMerkleRoot d (ts_Root st) s1 = (Inr (), s2)" and rest: "persistShielderTreeStates states ds s2 = (Inr u, t)"
    by (auto simp: act_run st Let_def)
  note m = SetTree_minted [OF set Cons.prems(2), unfolded st(2)]
  have tr: "k_trees s2 = k_trees s1" using root by (auto simp: SetShielderMerkleRoot_def act_run)
  then have s2: "trees_ok s2" "minted s2 = minted s1" "tree_of s2 = tree_of s1"
    using m(1) tree_of_cong [OF tr] by (simp_all add: trees_ok_def minted_sum)
  have same: "map (grown_by states s2) ds = map (grown_by states s) ds"
    using Cons.prems(3) by (intro map_cong refl grown_by_cong) (auto simp: s2 m(2))
  from Cons.IH [OF rest s2(1)] Cons.prems(3,4) show ?case
    using m(3) by (simp add: s2(2) same grown_by_def [of _ s d] st(1))
qed (simp add: act_run)

text \<open>The trees a batch has grown so far, against the stored ones.\<close>

definition batch_grown :: "kstate \<Rightarrow> (u64 \<rightharpoonup> StoredShielderTreeState) \<Rightarrow> u64 list \<Rightarrow> u64 \<Rightarrow> bool" where
  "batch_grown s states touched v \<longleftrightarrow> distinct touched \<and> dom states = set touched \<and>
     (\<forall>d st. states d = Some st \<longrightarrow> ts_DenominationSats st = d) \<and> sum_list (map (grown_by states s) touched) = v"

lemma batch_grown_load:
  assumes load: "loadShielderTreeState (states, touched) d s = (st, states1, touched1)" and ok: "trees_ok s" and g: "batch_grown s states touched v"
  shows "batch_grown s states1 touched1 v" and "states1 d = Some st"
proof -
  consider (old) "states d = Some st" "states1 = states" "touched1 = touched"
    | (new) "states d = None" "st = tree_of s d" "states1 = states(d \<mapsto> st)" "touched1 = touched @ [d]"
    using load by (auto simp: load_cases split: option.splits)
  then have "batch_grown s states1 touched1 v \<and> states1 d = Some st"
  proof cases
    case new
    have out: "d \<notin> set touched" using new(1) g by (auto simp: batch_grown_def)
    have "sum_list (map (grown_by states1 s) touched) = sum_list (map (grown_by states s) touched)"
      using out by (intro arg_cong [of _ _ sum_list] map_cong refl) (auto simp: grown_by_def new)
    moreover have "grown_by states1 s d = 0" by (simp add: grown_by_def new)
    ultimately have "sum_list (map (grown_by states1 s) touched1) = v"
      using g unfolding batch_grown_def new(4) map_append sum_list_append by simp
    then show ?thesis using g out ok new(1-3) unfolding batch_grown_def new(4) by (auto simp: trees_ok_def)
  qed (use g in simp)
  then show "batch_grown s states1 touched1 v" "states1 d = Some st" by auto
qed

lemma batch_grown_step:
  assumes g: "batch_grown s states touched v" and st: "states d = Some st"
  shows "batch_grown s (states(d \<mapsto> st\<lparr>ts_NextIndex := ts_NextIndex st + 1, ts_FilledSubtrees := f, ts_Root := r\<rparr>)) touched (v + d)"
proof -
  let ?st = "st\<lparr>ts_NextIndex := ts_NextIndex st + 1, ts_FilledSubtrees := f, ts_Root := r\<rparr>"
  have d: "d \<in> set touched" "distinct touched" using g st by (auto simp: batch_grown_def)
  then obtain xs ys where t: "touched = xs @ d # ys" by (meson split_list)
  have "sum_list (map (grown_by (states(d \<mapsto> ?st)) s) zs) = sum_list (map (grown_by states s) zs)" if "d \<notin> set zs" for zs
    using that by (intro arg_cong [of _ _ sum_list] map_cong refl) (auto simp: grown_by_def)
  moreover have "grown_by (states(d \<mapsto> ?st)) s d = grown_by states s d + d" by (simp add: grown_by_def st algebra_simps)
  ultimately have "sum_list (map (grown_by (states(d \<mapsto> ?st)) s) touched) = v + d"
    using g d unfolding batch_grown_def t by (simp add: ac_simps)
  then show ?thesis using g st by (auto simp: batch_grown_def)
qed

lemma fold_insert_grown:
  "foldA (insertNote e) (seen, states, touched) nts s1 = (Inr (seen', states', touched'), t) \<Longrightarrow> trees_ok s \<Longrightarrow> k_trees s1 = k_trees s \<Longrightarrow>
   batch_grown s states touched v \<Longrightarrow>
   batch_grown s states' touched' (v + sum_list (map nc_DenominationSats nts)) \<and> k_trees t = k_trees s"
proof (induction nts arbitrary: seen states touched s1 v)
  case (Cons n nts)
  from Cons.prems(1) obtain r s2 where one: "insertNote e (seen, states, touched) n s1 = (Inr r, s2)"
    and rest: "foldA (insertNote e) r nts s2 = (Inr (seen', states', touched'), t)" by (auto simp: bindA_run)
  from one show ?case
  proof (rule insertNote_run)
    fix st :: StoredShielderTreeState and states1 touched1 root filled
    let ?d = "nc_DenominationSats n"
    let ?states = "states1(?d \<mapsto> st\<lparr>ts_NextIndex := ts_NextIndex st + 1, ts_FilledSubtrees := filled, ts_Root := root\<rparr>)"
    assume load: "loadShielderTreeState (states, touched) ?d s1 = (st, states1, touched1)"
      and s2: "s2 = s1\<lparr>k_commitments := kv_set (note_key n) True (k_commitments s1),
           k_leaves := kv_set (shielderDenominationLeafKey ?d (ts_NextIndex st)) (LeafCommitment (TrimSpace (nc_Commitment n))) (k_leaves s1),
           k_notes := kv_set (note_key n) \<lparr>nr_Commitment = TrimSpace (nc_Commitment n), nr_DenominationSats = ?d,
              nr_CreatedHeight = k_height s1, nr_LeafIndex = ts_NextIndex st\<rparr> (k_notes s1)\<rparr>"
      and r: "r = (TrimSpace (nc_Commitment n) # seen, ?states, touched1)"
    have "loadShielderTreeState (states, touched) ?d s = (st, states1, touched1)"
      using load unfolding load_cases tree_of_cong [OF Cons.prems(3)] .
    from batch_grown_load [OF this Cons.prems(2,4)] have g: "batch_grown s states1 touched1 v" "states1 ?d = Some st" by auto
    have "k_trees s2 = k_trees s" using Cons.prems(3) by (simp add: s2)
    from Cons.IH [OF rest [unfolded r] Cons.prems(2) this batch_grown_step [OF g]] show ?thesis by (simp add: algebra_simps)
  qed
qed (auto simp: act_run)

lemma insert_minted:
  assumes run: "insertShielderCommitments e nts s = (Inr u, t)" and ok: "trees_ok s"
  shows "trees_ok t" and "minted t = minted s + sum_list (map nc_DenominationSats nts)"
proof -
  from run obtain seen states touched s1 where f: "foldA (insertNote e) ([], Map.empty, []) nts s = (Inr (seen, states, touched), s1)"
    and p: "persistShielderTreeStates states touched s1 = (Inr u, t)"
    by (auto simp: insertShielderCommitments_def act_run split: prod.splits)
  have "batch_grown s Map.empty [] 0" by (simp add: batch_grown_def)
  from fold_insert_grown [OF f ok refl this] have g: "batch_grown s states touched (sum_list (map nc_DenominationSats nts))"
    and tr: "k_trees s1 = k_trees s" by simp_all
  have s1: "trees_ok s1" "minted s1 = minted s" "grown_by states s1 = grown_by states s"
    using ok tree_of_cong [OF tr] tr by (simp_all add: trees_ok_def minted_sum fun_eq_iff grown_by_def)
  have "\<exists>st. states d = Some st \<and> ts_DenominationSats st = d" if "d \<in> set touched" for d
    using that g unfolding batch_grown_def by blast
  from persist_minted [OF p s1(1) _ this] g show "trees_ok t" "minted t = minted s + sum_list (map nc_DenominationSats nts)"
    by (auto simp: batch_grown_def s1)
qed

section \<open>Liabilities\<close>

text \<open>Neither difference of the liabilities has gone below zero.\<close>

definition backing_order :: "kstate \<Rightarrow> bool" where
  "backing_order s \<longleftrightarrow> spent s \<le> minted s \<and> fp_TotalClaimedSats (GetFeePool s) \<le> fp_TotalCollectedSats (GetFeePool s)"

abbreviation pendingExternal :: "kstate \<Rightarrow> u64" where
  "pendingExternal s \<equiv> (case backingTxOutSats s of Inr (t, g) \<Rightarrow> tt_pending t | Inl _ \<Rightarrow> 0)"

lemma backing_liabilities:
  assumes "backingTotals s = Inr (a, m)" and "backing_order s"
  shows "liabilitySats a = (minted s - spent s) + snd (backingDepositSats s) + pendingExternal s
    + (fp_TotalCollectedSats (GetFeePool s) - fp_TotalClaimedSats (GetFeePool s)) + backingNodeBondLiabilitySats s + backingNodeBidLiabilitySats s"
  using assms by (auto simp: backingTotals_def liabilitySats_def backing_order_def backingNoteLiabilitySats_def backingFeeLiabilitySats_def
      Let_def not_less case_prod_beta split: sum.splits if_splits)

text \<open>A state with the same vaults, outbound blocks and observations has totals too, with the same controlled
  value but for the deposit addresses.\<close>

lemma backing_same_vaults:
  assumes "backingTotals s = Inr (a, m)" and "backingVaultSats t = backingVaultSats s" "backingTxOutSats t = backingTxOutSats s"
  obtains b m' where "backingTotals t = Inr (b, m')" and
    "controlledSats b = controlledSats a - fst (backingDepositSats s) + fst (backingDepositSats t)"
  using assms by (auto simp: backingTotals_def controlledSats_def Let_def case_prod_beta split: sum.splits)

lemma deposit_sums:
  assumes ok: "deposits_ok s" and d: "kv_get (k_deposits s) (skey (dr_DepositID d)) = Some d"
    and t: "k_deposits t = kv_set (skey (dr_DepositID d)) d' (k_deposits s)"
  shows "fst (backingDepositSats t) = fst (backingDepositSats s) + (if depositRequiresDepositAddressBacking d' then backingDepositUnshieldedSats d' else 0)
      - (if depositRequiresDepositAddressBacking d then backingDepositUnshieldedSats d else 0)"
    and "snd (backingDepositSats t) = snd (backingDepositSats s) + (if depositOpen d' then backingDepositUnshieldedSats d' else 0)
      - (if depositOpen d then backingDepositUnshieldedSats d else 0)"
proof -
  have ord: "kv_ordered (k_deposits s)" using ok by (simp add: deposits_ok_def)
  have move: "sum_list (map f (kv_values (k_deposits t))) = sum_list (map f (kv_values (k_deposits s))) + f d' - f d" for f :: "DepositRecord \<Rightarrow> u64"
    using kv_sum_set_update [OF ord d, of f d'] unfolding t by (simp add: algebra_simps)
  show "fst (backingDepositSats t) = fst (backingDepositSats s) + (if depositRequiresDepositAddressBacking d' then backingDepositUnshieldedSats d' else 0)
      - (if depositRequiresDepositAddressBacking d then backingDepositUnshieldedSats d else 0)"
    and "snd (backingDepositSats t) = snd (backingDepositSats s) + (if depositOpen d' then backingDepositUnshieldedSats d' else 0)
      - (if depositOpen d then backingDepositUnshieldedSats d else 0)"
    by (simp_all add: backingDepositSats_def Let_def move)
qed

section \<open>Shielding\<close>

lemma note_total_sum: "shielderNoteCommitmentTotal nts = sum_list (map nc_DenominationSats nts)"
proof -
  have "foldl (\<lambda>t n. t + nc_DenominationSats n) a nts = a + sum_list (map nc_DenominationSats nts)" for a
    by (induction nts arbitrary: a) (simp_all add: ac_simps)
  then show ?thesis by (simp add: shielderNoteCommitmentTotal_def)
qed

text \<open>The stores a shield leaves alone.\<close>

lemma same_shield_backing:
  "same (\<lambda>s. (k_vaults s, k_txouts s, k_nullifiers s, k_redeems s, k_bonds s, k_bids s, k_txout_voters s)) (PostShielderShield e owner did cs)"
  unfolding PostShielderShield_def ShieldUserDepositIntoPool_def shieldUserNotes_def postShieldNotes_def Let_def
  by (auto intro!: act_keeps split: prod.split)


lemma backingTxOut_cong:
  assumes "k_txouts t = k_txouts s" "k_txout_voters t = k_txout_voters s"
  shows "backingTxOutSats t = backingTxOutSats s"
proof -
  have v: "GetObservedTxOutVoter = (\<lambda>h u. GetObservedTxOutVoter h (if u = t then s else u))"
    using assms(2) by (simp add: GetObservedTxOutVoter_def fun_eq_iff)
  have o: "GetObservedTxOutVoter h t = GetObservedTxOutVoter h s" for h using fun_cong [OF fun_cong [OF v], of h t] by simp
  have f: "observedFinalBTC h t = observedFinalBTC h s" for h by (simp add: observedFinalBTC_def o)
  have i: "addTxOutItem t = addTxOutItem s" unfolding addTxOutItem_def f by (simp add: fun_eq_iff)
  show ?thesis unfolding backingTxOutSats_def i f o assms(1) ..
qed

lemma spent_sum: "spent s = sum_list (map (spentNote s) (kv_values (k_nullifiers s)))"
  by (simp add: backingSpentNoteSats_def Let_def)

lemma spent_cong:
  assumes "k_nullifiers t = k_nullifiers s" "k_redeems t = k_redeems s"
  shows "spent t = spent s"
proof -
  have "GetShielderRedeem i t = GetShielderRedeem i s" for i by (simp add: GetShielderRedeem_def assms(2))
  then have "spentNote t = spentNote s" by (simp add: fun_eq_iff spentNote_def split: option.split)
  then show ?thesis by (simp add: spent_sum assms(1))
qed

lemma le_plus_nowrap: "unat (a :: u64) + unat b < 2 ^ 64 \<Longrightarrow> c \<le> b \<Longrightarrow> x \<le> a \<Longrightarrow> x \<le> a + c"
  by (simp add: word_le_nat_alt unat_plus_if')

lemma deposit_stored:
  assumes "deposits_ok s" and "dr_Status (GetDepositRecord did s) = DepositStatusDepositMatched \<or> dr_Status (GetDepositRecord did s) = DepositStatusSettled"
  shows "kv_get (k_deposits s) (skey (dr_DepositID (GetDepositRecord did s))) = Some (GetDepositRecord did s)"
  using assms by (auto simp: GetDepositRecord_def deposits_ok_def zero_defs status_defs split: option.splits)

lemma shield_backing:
  assumes run: "PostShielderShield e owner did cs s = (Inr d', t)" and ok: "deposits_ok s" "trees_ok s" "backing_order s"
    and tot: "backingTotals s = Inr (a, m)"
  defines "d \<equiv> GetDepositRecord did s"
  assumes room: "unat (minted s) + unat (backingDepositUnshieldedSats d) < 2 ^ 64"
      "unat (fp_TotalCollectedSats (GetFeePool s)) + unat (backingDepositUnshieldedSats d) < 2 ^ 64"
  shows "\<exists>b m'. backingTotals t = Inr (b, m') \<and> backing_order t \<and> liabilitySats b = liabilitySats a \<and>
    controlledSats b + (if depositRequiresDepositAddressBacking d then backingDepositUnshieldedSats d else 0) = controlledSats a"
proof -
  let ?un = "backingDepositUnshieldedSats d"
  note r = PostShield_run [OF run, folded d_def]
  from r(1) obtain nts f where sh: "shielded_by e cs d d' nts f s t" by blast
  have k: "k_vaults t = k_vaults s" "k_txouts t = k_txouts s" "k_nullifiers t = k_nullifiers s" "k_redeems t = k_redeems s"
    "k_bonds t = k_bonds s" "k_bids t = k_bids s" "k_txout_voters t = k_txout_voters s"
    using sameD [OF same_shield_backing run] by simp_all
  have un: "?un = dr_AmountSats d - dr_ShieldedSats d" using sh by (auto simp: backingDepositUnshieldedSats_def shielded_by_def)
  obtain u v where ins: "insertShielderCommitments e nts u = (Inr (), v)" and uv: "k_trees u = k_trees s" "k_trees t = k_trees v"
    using sh by (auto simp: shielded_by_def)
  have "trees_ok u" "minted u = minted s" "minted t = minted v"
    using ok(2) uv tree_of_cong [OF uv(1)] by (simp_all add: trees_ok_def minted_sum)
  moreover have nt: "sum_list (map nc_DenominationSats nts) = ?un - f" and "sum_list (map nc_DenominationSats nts) \<le> ?un"
    using sh by (auto simp: un shielded_by_def note_total_sum)
  ultimately have mt: "minted t = minted s + (?un - f)" and le: "?un - f \<le> ?un" using insert_minted [OF ins] by auto
  have fee: "fp_TotalCollectedSats (GetFeePool t) = fp_TotalCollectedSats (GetFeePool s) + f" "fp_TotalClaimedSats (GetFeePool t) = fp_TotalClaimedSats (GetFeePool s)"
    using sh by (simp_all add: shielded_by_def)
  have fle: "f \<le> ?un" using le by (simp add: word_sub_le_iff)
  have st: "spent t = spent s" using k by (rule_tac spent_cong)
  have ot: "backing_order t"
    using ok(3) le_plus_nowrap [OF room(1) le] le_plus_nowrap [OF room(2) fle] by (simp add: backing_order_def mt st fee)
  have out: "depositOpen d" "\<not> depositOpen d'" using r(3) sh by (auto simp: depositOpen_def shielded_by_def status_defs)
  then have nr: "\<not> depositRequiresDepositAddressBacking d'" by (simp add: depositRequiresDepositAddressBacking_def)
  have "k_deposits t = kv_set (skey (dr_DepositID d)) d' (k_deposits s)" using sh by (simp add: shielded_by_def)
  note ds = deposit_sums [OF ok(1) deposit_stored [OF ok(1) r(3) [unfolded d_def], folded d_def] this]
  have "backingVaultSats t = backingVaultSats s" by (simp add: backingVaultSats_def k)
  with tot obtain b m' where b: "backingTotals t = Inr (b, m')"
    and c: "controlledSats b = controlledSats a - fst (backingDepositSats s) + fst (backingDepositSats t)"
    by (rule backing_same_vaults) (rule backingTxOut_cong [OF k(2) k(7)])
  have "liabilitySats b = liabilitySats a"
    unfolding backing_liabilities [OF b ot] backing_liabilities [OF tot ok(3)] mt st fee backingTxOut_cong [OF k(2) k(7)] ds(2)
    using out by (simp add: backingNodeBondLiabilitySats_def backingNodeBidLiabilitySats_def k)
  moreover have "controlledSats b + (if depositRequiresDepositAddressBacking d then ?un else 0) = controlledSats a"
    unfolding c ds(1) using nr by simp
  ultimately show ?thesis using b ot by blast
qed

section \<open>Spending notes\<close>

text \<open>No nullifier refers to the redeem yet, as long as its hash is new.\<close>

definition redeem_unused :: "string \<Rightarrow> kstate \<Rightarrow> bool" where
  "redeem_unused i s \<longleftrightarrow> list_all (\<lambda>n. case invariantNullifierWithdrawalID n of None \<Rightarrow> True | Some j \<Rightarrow> skey j \<noteq> skey i) (kv_values (k_nullifiers s))"

lemma authorize_id:
  assumes "AuthorizeShielderRedeem e req s = (Inr w, t)"
  obtains parts where "rd_WithdrawalID w = shielderRedeemID e parts"
  using assms unfolding AuthorizeShielderRedeem_def Let_def by (clarsimp simp: act_run)

lemma authorize_spent:
  assumes run: "AuthorizeShielderRedeem e req s = (Inr w, t)" and ord: "kv_ordered (k_nullifiers s)" and new: "redeem_unused (rd_WithdrawalID w) s"
  shows "spent t = spent s + rd_AmountSats w"
    and "t = s\<lparr>k_redeems := k_redeems t, k_nullifiers := k_nullifiers t\<rparr>"
proof -
  let ?i = "rd_WithdrawalID w"
  obtain parts where "?i = shielderRedeemID e parts" by (rule authorize_id [OF run])
  then have trim: "TrimSpace ?i = ?i" by (simp add: shielderRedeemID_def EncodeUpper_simps)
  from authorize_inv [OF run] obtain pin u where a: "SetShielderRedeem e w s = (Inr (), u)"
    and n: "SetShielderNullifierSpent (rd_NullifierHash w) ?i u = (Inr (), t)" and c: "redeem_checked e req pin w s" by blast
  from n have ne: "?i \<noteq> []" by (auto simp: SetShielderNullifierSpent_def act_run trim)
  from n obtain h where tn: "t = u\<lparr>k_nullifiers := kv_set (skey (TrimSpace (rd_NullifierHash w)))
      (NullifierRecord \<lparr>nl_NullifierHash = TrimSpace (rd_NullifierHash w), nl_WithdrawalID = ?i, nl_CreatedHeight = h\<rparr>) (k_nullifiers u)\<rparr>"
    by (auto simp: SetShielderNullifierSpent_def act_run trim Let_def)
  have u: "u = s\<lparr>k_redeems := kv_set (skey ?i) w (k_redeems s)\<rparr>" using a by (auto simp: SetShielderRedeem_def act_run)
  show "t = s\<lparr>k_redeems := k_redeems t, k_nullifiers := k_nullifiers t\<rparr>" by (simp add: tn u)
  have get: "GetShielderRedeem j t = (if skey j = skey ?i then w else GetShielderRedeem j s)" for j
    by (simp add: GetShielderRedeem_def tn u)
  have old: "spentNote t x = spentNote s x" if "x \<in> set (kv_values (k_nullifiers s))" for x
    using that new by (auto simp: spentNote_def get redeem_unused_def list_all_iff split: option.splits)
  have "kv_get (k_nullifiers s) (skey (TrimSpace (rd_NullifierHash w))) = None"
    using c by (simp add: redeem_checked_def ShielderNullifierSpent_def kv_has_def)
  note sm = kv_sum_set_new [OF ord this, of "spentNote t"]
  have "sum_list (map (spentNote t) (kv_values (k_nullifiers s))) = spent s"
    unfolding spent_sum by (intro arg_cong [of _ _ sum_list] map_cong refl old)
  moreover have "spentNote t (NullifierRecord \<lparr>nl_NullifierHash = TrimSpace (rd_NullifierHash w), nl_WithdrawalID = ?i, nl_CreatedHeight = h\<rparr>) = rd_AmountSats w"
    using ne by (simp add: spentNote_def invariantNullifierWithdrawalID_def trim get)
  moreover have "k_nullifiers t = kv_set (skey (TrimSpace (rd_NullifierHash w)))
      (NullifierRecord \<lparr>nl_NullifierHash = TrimSpace (rd_NullifierHash w), nl_WithdrawalID = ?i, nl_CreatedHeight = h\<rparr>) (k_nullifiers s)"
    by (simp add: tn u)
  ultimately show "spent t = spent s + rd_AmountSats w"
    using sm by (simp add: spent_sum [of t] add.commute)
qed

section \<open>Bonding notes\<close>

lemma kv_sum_set_get:
  fixes f :: "'v \<Rightarrow> 'b::comm_monoid_add"
  assumes "kv_ordered m" "f z = 0"
  shows "sum_list (map f (kv_values (kv_set k v m))) + f (case kv_get m k of Some u \<Rightarrow> u | None \<Rightarrow> z) = f v + sum_list (map f (kv_values m))"
  using assms by (cases "kv_get m k") (simp_all add: kv_sum_set_new kv_sum_set_update)

definition bondLiability :: "ShielderNodeBond \<Rightarrow> u64" where
  "bondLiability b = (if nb_Sold b then 0 else nb_BondSats b + nb_PendingSats b)"

lemma bond_sum: "backingNodeBondLiabilitySats s = sum_list (map bondLiability (kv_values (k_bonds s)))"
  by (simp add: backingNodeBondLiabilitySats_def bondLiability_def [abs_def])

lemma SetBond_sum:
  assumes run: "SetShielderNodeBond b s = (Inr u, t)" and key: "skey (TrimSpace (nb_NodePubKey b)) = skey (TrimSpace n)" and ord: "kv_ordered (k_bonds s)"
  shows "backingNodeBondLiabilitySats t = backingNodeBondLiabilitySats s + bondLiability b - bondLiability (GetShielderNodeBond n s)"
    and "kv_ordered (k_bonds t)"
proof -
  have t: "k_bonds t = kv_set (skey (TrimSpace n)) b (k_bonds s)" using run key by (auto simp: SetShielderNodeBond_def act_run ShielderNodeBond_Key_def)
  then show "kv_ordered (k_bonds t)" using ord by (simp add: kv_ordered_set)
  have "bondLiability ShielderNodeBond_zero = 0" by (simp add: bondLiability_def zero_defs)
  from kv_sum_set_get [where f = bondLiability, OF ord this, of "skey (TrimSpace n)" b]
  show "backingNodeBondLiabilitySats t = backingNodeBondLiabilitySats s + bondLiability b - bondLiability (GetShielderNodeBond n s)"
    by (simp add: bond_sum t GetShielderNodeBond_def algebra_simps)
qed

lemma settle_sold [simp]: "nb_Sold (settleNodeFeeShare b p s) = nb_Sold b"
  by (simp add: settleNodeFeeShare_def Let_def)

text \<open>Recording and confirming a bond each store one bond, under the key of the node, sold or not as it was.\<close>

lemma record_stores:
  assumes run: "recordPendingShielderNodeBond e ses amt s = (Inr slot, t)" and n: "TrimSpace (ds_NodePubKey ses) \<noteq> []" and ok: "bonds_ok s"
  shows "\<exists>b u. SetShielderNodeBond b u = (Inr (), t) \<and> k_bonds u = k_bonds s \<and> nb_Sold b = nb_Sold (GetShielderNodeBond (ds_NodePubKey ses) s) \<and>
    skey (TrimSpace (nb_NodePubKey b)) = skey (TrimSpace (ds_NodePubKey ses))"
proof -
  let ?b = "GetShielderNodeBond (ds_NodePubKey ses) s"
  have bn: "GetShielderNodeBond (TrimSpace (ds_NodePubKey ses)) s = ?b" by (simp add: GetShielderNodeBond_def)
  have z: "nb_NodeAddress ?b = [] \<Longrightarrow> ?b = ShielderNodeBond_zero" using ok
    by (auto simp: GetShielderNodeBond_def bonds_ok_def split: option.splits)
  have k: "nb_NodeAddress ?b \<noteq> [] \<Longrightarrow> skey (TrimSpace (nb_NodePubKey ?b)) = skey (TrimSpace (ds_NodePubKey ses))" using ok
    by (auto simp: GetShielderNodeBond_def bonds_ok_def zero_defs split: option.splits)
  show ?thesis
  proof (cases "nb_NodeAddress ?b = []")
    case True
    with run n z show ?thesis unfolding recordPendingShielderNodeBond_def Let_def
      by (clarsimp simp: act_run bn SetShielderNodeBonder_def AllocateShielderNodeBondSlot_def SetNextShielderNodeBondSlot_def)
        (intro exI conjI, assumption, simp_all add: zero_defs)
  next
    case False
    with run n k show ?thesis unfolding recordPendingShielderNodeBond_def Let_def
      by (clarsimp simp: act_run bn SetShielderNodeBonder_def) (intro exI conjI, assumption, simp_all)
  qed
qed

lemma confirm_stores:
  assumes run: "confirmShielderNodeBond e d s = (Inr v, t)" and n: "IsNodeBond d"
  shows "\<exists>b u w. SetShielderNodeBond b u = (Inr (), w) \<and> k_bonds u = k_bonds s \<and> k_bonds t = k_bonds w \<and> nb_Sold b = nb_Sold (GetShielderNodeBond (dr_NodePubKey d) s) \<and>
    nb_NodePubKey b = nb_NodePubKey (GetShielderNodeBond (dr_NodePubKey d) s)"
proof (cases "\<not> nb_FeeShareActive (GetShielderNodeBond (dr_NodePubKey d) s) \<and> nb_BondSats (GetShielderNodeBond (dr_NodePubKey d) s)
    + nb_PendingSats (GetShielderNodeBond (dr_NodePubKey d) s) < shielderBondRequiredSats (nb_Slot (GetShielderNodeBond (dr_NodePubKey d) s)) s")
  case True
  then show ?thesis using run n
    by (clarsimp simp: confirmShielderNodeBond_def act_run) (intro exI conjI, assumption, simp_all)
next
  case False
  let ?b = "GetShielderNodeBond (dr_NodePubKey d) s"
  from run n False obtain pool s1 c s2 s3 s4 b2 b5 r where dist: "distributeFeePool s = (Inr pool, s1)"
    and act: "(if \<not> nb_FeeShareActive ?b then activatePendingNodeBonders e b2 else activatePendingNodeBonder e b2 (dr_Owner d) (dr_AmountSats d)) s1 = (Inr r, s2)"
    and acc: "confirmNodeAccount e b5 (dr_NodePubKey d) s2 = (Inr (), s3)"
    and w: "SetShielderNodeBond b5 s3 = (Inr (), s4)" and b5: "nb_Sold b5 = nb_Sold ?b" "nb_NodePubKey b5 = nb_NodePubKey ?b" and t: "k_bonds t = k_bonds s4"
    by (auto simp: confirmShielderNodeBond_def act_run Let_def SetFeePool_def split: if_splits)
  have "same k_bonds distributeFeePool" "same k_bonds (confirmNodeAccount e b5 (dr_NodePubKey d))"
    "same k_bonds (if \<not> nb_FeeShareActive ?b then activatePendingNodeBonders e b2 else activatePendingNodeBonder e b2 (dr_Owner d) (dr_AmountSats d))"
    by (auto intro!: act_keeps)
  from sameD [OF this(1) dist] sameD [OF this(2) acc] sameD [OF this(3) act] have "k_bonds s3 = k_bonds s" by simp
  with w b5 t show ?thesis by blast
qed

lemma bond_spend_backing:
  assumes run: "confirmBondFromNoteSpend e owner n oper amt s = (Inr r, t)" and n: "TrimSpace n \<noteq> []" and ok: "bonds_ok s" "kv_ordered (k_bonds s)"
  shows "backingNodeBondLiabilitySats t = backingNodeBondLiabilitySats s + (if nb_Sold (GetShielderNodeBond n s) then 0 else amt)"
proof -
  let ?ses = "DepositSession_zero\<lparr>ds_Owner := owner, ds_OperatorPubKey := oper, ds_NodePubKey := n\<rparr>"
  from run obtain slot u v where rec: "recordPendingShielderNodeBond e ?ses amt s = (Inr slot, u)"
    and con: "confirmShielderNodeBond e (DepositRecord_zero\<lparr>dr_Owner := owner, dr_AmountSats := amt, dr_OperatorPubKey := oper,
       dr_NodePubKey := n, dr_NodeSlot := slot, dr_Settlement := DepositSettlementOperatorBond\<rparr>) u = (Inr v, t)"
    by (auto simp: confirmBondFromNoteSpend_def act_run)
  from record_stores [OF rec _ ok(1)] n obtain b x where sb: "SetShielderNodeBond b x = (Inr (), u)" and x: "k_bonds x = k_bonds s"
    and b: "nb_Sold b = nb_Sold (GetShielderNodeBond n s)" "skey (TrimSpace (nb_NodePubKey b)) = skey (TrimSpace n)"
    by (auto simp: zero_defs)
  have gu: "GetShielderNodeBond n u = b" using sb b(2) by (rule SetBond_get)
  from confirm_stores [OF con] n gu obtain c y w where sc: "SetShielderNodeBond c y = (Inr (), w)" and y: "k_bonds y = k_bonds u"
    and w: "k_bonds t = k_bonds w" and c: "nb_Sold c = nb_Sold b" "nb_NodePubKey c = nb_NodePubKey b"
    by (auto simp: IsNodeBond_def zero_defs)
  have kc: "skey (TrimSpace (nb_NodePubKey c)) = skey (TrimSpace n)" using b(2) c(2) by simp
  have gt: "GetShielderNodeBond n t = c" using SetBond_get [OF sc kc] GetBond_cong [OF w] by simp
  note uu = SetBond_sum [OF sb b(2), unfolded x] and tt = SetBond_sum [OF sc kc, unfolded y]
  have sums: "backingNodeBondLiabilitySats x = backingNodeBondLiabilitySats s" "backingNodeBondLiabilitySats y = backingNodeBondLiabilitySats u"
    "backingNodeBondLiabilitySats t = backingNodeBondLiabilitySats w" by (simp_all add: bond_sum x y w)
  have "bondLiability c = bondLiability (GetShielderNodeBond n s) + (if nb_Sold (GetShielderNodeBond n s) then 0 else amt)"
    using bond_spend_run(1,2) [OF run n ok(1) refl] gt c(1) b(1) by (simp add: bondLiability_def)
  then show ?thesis
    using uu(1) tt(1) uu(2) ok(2) GetBond_cong [OF x, of n] GetBond_cong [OF y, of n] gu by (simp add: sums)
qed

text \<open>Confirming distributes the fees already collected; it collects and pays none.\<close>

abbreviation feeTotals :: "kstate \<Rightarrow> u64 \<times> u64" where
  "feeTotals s \<equiv> (fp_TotalCollectedSats (GetFeePool s), fp_TotalClaimedSats (GetFeePool s))"

lemma confirm_fee_totals:
  assumes run: "confirmShielderNodeBond e d s = (Inr v, t)"
  shows "feeTotals t = feeTotals s"
proof (cases "k_fee_pool t = k_fee_pool s")
  case False
  with run obtain pool p s1 where "distributeFeePool s = (Inr pool, s1)" "k_fee_pool t = Some p"
    "fp_TotalCollectedSats p = fp_TotalCollectedSats pool" "fp_TotalClaimedSats p = fp_TotalClaimedSats pool"
    by (auto simp: confirmShielderNodeBond_def act_run Let_def SetFeePool_def SetShielderNodeBond_def split: if_splits)
  with distributeFeePool_run show ?thesis by (simp add: GetFeePool_def)
qed (simp add: GetFeePool_def)

lemma same_record_backing:
  "same (\<lambda>s. (k_vaults s, k_txouts s, k_nullifiers s, k_redeems s, k_trees s, k_deposits s, k_bids s, k_txout_voters s, k_fee_pool s))
    (recordPendingShielderNodeBond e ses amt)"
  "same (\<lambda>s. (k_vaults s, k_txouts s, k_nullifiers s, k_redeems s, k_trees s, k_deposits s, k_bids s, k_txout_voters s))
    (confirmShielderNodeBond e d)"
  unfolding recordPendingShielderNodeBond_def confirmShielderNodeBond_def Let_def by (auto intro!: act_keeps)

lemma bond_notes_backing:
  assumes run: "BondFromShieldedNotes e owner n oper req s = (Inr b, t)" and auth: "AuthorizeShielderRedeem e req s = (Inr w, u)"
    and ok: "bonds_ok s" "kv_ordered (k_bonds s)" "kv_ordered (k_nullifiers s)" "redeem_unused (rd_WithdrawalID w) s" "backing_order s"
    and room: "unat (spent s) + unat (rd_AmountSats w) \<le> unat (minted s)" and tot: "backingTotals s = Inr (x, m)"
  shows "\<exists>y m'. backingTotals t = Inr (y, m') \<and> backing_order t \<and> controlledSats y = controlledSats x \<and>
    liabilitySats y = liabilitySats x - (if nb_Sold (GetShielderNodeBond n s) then rd_AmountSats w else 0)"
proof -
  from run auth obtain op where n: "TrimSpace n \<noteq> []"
    and con: "confirmBondFromNoteSpend e owner (TrimSpace n) op (rd_AmountSats w) u = (Inr b, t)"
    by (auto simp: BondFromShieldedNotes_def act_run Let_def)
  note au = authorize_spent [OF auth ok(3,4)]
  from con obtain slot z v ses d where rec: "recordPendingShielderNodeBond e ses (rd_AmountSats w) u = (Inr slot, z)"
    and cf: "confirmShielderNodeBond e d z = (Inr v, t)"
    by (auto simp: confirmBondFromNoteSpend_def act_run)
  have bonds: "k_bonds u = k_bonds s" by (subst au(2)) simp
  have "bonds_ok u" "kv_ordered (k_bonds u)" using ok(1,2) bonds by (simp_all add: bonds_ok_def)
  from bond_spend_backing [OF con _ this] n bonds
  have bl: "backingNodeBondLiabilitySats t = backingNodeBondLiabilitySats s + (if nb_Sold (GetShielderNodeBond n s) then 0 else rd_AmountSats w)"
    by (simp add: bond_sum GetShielderNodeBond_def)
  have k: "k_vaults t = k_vaults s" "k_txouts t = k_txouts s" "k_trees t = k_trees s" "k_deposits t = k_deposits s" "k_bids t = k_bids s"
    "k_txout_voters t = k_txout_voters s"
    using sameD [OF same_record_backing(1) rec] sameD [OF same_record_backing(2) cf] by (simp_all, (subst au(2), simp)+)
  have "spent t = spent u" using sameD [OF same_record_backing(1) rec] sameD [OF same_record_backing(2) cf] by (intro spent_cong) simp_all
  then have st: "spent t = spent s + rd_AmountSats w" using au(1) by simp
  have "k_fee_pool u = k_fee_pool s" by (subst au(2)) simp
  then have fee: "feeTotals t = feeTotals s"
    using confirm_fee_totals [OF cf] sameD [OF same_record_backing(1) rec] by (simp add: GetFeePool_def)
  have mt: "minted t = minted s" by (simp add: minted_sum k)
  have ot: "backing_order t" using ok(5) room fee by (auto simp: backing_order_def st mt word_le_nat_alt unat_plus_if')
  have dt: "backingDepositSats t = backingDepositSats s" by (simp add: backingDepositSats_def k)
  have "backingVaultSats t = backingVaultSats s" by (simp add: backingVaultSats_def k)
  with tot obtain y m' where y: "backingTotals t = Inr (y, m')"
    and c: "controlledSats y = controlledSats x - fst (backingDepositSats s) + fst (backingDepositSats t)"
    by (rule backing_same_vaults) (rule backingTxOut_cong [OF k(2) k(6)])
  have "liabilitySats y = liabilitySats x - (if nb_Sold (GetShielderNodeBond n s) then rd_AmountSats w else 0)"
    unfolding backing_liabilities [OF y ot] backing_liabilities [OF tot ok(5)] mt st bl dt backingTxOut_cong [OF k(2) k(6)]
    using fee by (simp add: backingNodeBidLiabilitySats_def k)
  with c dt y ot show ?thesis by auto
qed

section \<open>Queueing a withdrawal\<close>

text \<open>What a queued payment adds to the pending sum depends only on what it promises.\<close>

definition pendingPayment :: "Address \<times> PubKey \<times> Chain \<times> TxID \<times> TxID \<times> string \<times> u64 \<times> Coin option \<Rightarrow> u64" where
  "pendingPayment p = (case p of (_, _, chain, _, outHash, _, _, coin) \<Rightarrow>
     if Chain_Equals chain BTCChain \<and> TxID_IsEmpty outHash
     then (case coin of Some c \<Rightarrow> (case Uint64 (co_Amount c) of Inr v \<Rightarrow> v | Inl _ \<Rightarrow> 0) | None \<Rightarrow> 0) else 0)"

lemma normalized_type: "NormalizeTxOutType (NormalizeTxOutType x) = NormalizeTxOutType x"
  by (auto simp: NormalizeTxOutType_def Let_def txout_string_defs TrimSpace_def is_space_def ToLower_def lower_char_def)

lemma internal_or_batchable: "IsInternalTxOutType x \<longleftrightarrow> \<not> IsBatchableTxOutType x"
  by (auto simp: IsInternalTxOutType_def IsBatchableTxOutType_def NormalizeTxOutType_def Let_def txout_string_defs)

lemma addTxOutItem_pending: "addTxOutItem s t i = Inr t' \<Longrightarrow> tt_pending t' = tt_pending t + pendingPayment (payment i)"
  using internal_or_batchable [of "to_TxType i"]
  by (auto simp: addTxOutItem_def pendingPayment_def payment_def IsInternalTxOutType_def GetTxType_def normalized_type split: if_splits sum.splits)

lemma fold_pending: "foldR (addTxOutItem s) t is = Inr t' \<Longrightarrow> tt_pending t' = tt_pending t + sum_list (map (pendingPayment \<circ> payment) is)"
proof (induction "is" arbitrary: t)
  case (Cons i "is")
  then obtain u where u: "addTxOutItem s t i = Inr u" "foldR (addTxOutItem s) u is = Inr t'" by (auto split: sum.splits)
  show ?case using Cons.IH [OF u(2)] addTxOutItem_pending [OF u(1)] by (simp add: add.assoc)
qed simp

definition blockPending :: "TxOut \<Rightarrow> u64" where
  "blockPending b = sum_list (map pendingPayment (map payment (tx_TxArray b)))"

lemma pending_sum:
  assumes "backingTxOutSats s = Inr (t, g)"
  shows "tt_pending t = sum_list (map blockPending (kv_values (k_txouts s)))"
proof -
  have "sum_list (map (pendingPayment \<circ> payment) (concat (map tx_TxArray bs))) = sum_list (map blockPending bs)" for bs
    by (induction bs) (simp_all add: blockPending_def comp_def)
  with assms show ?thesis
    by (auto simp: backingTxOutSats_def dest!: fold_pending split: sum.splits)
qed

lemma queued_pending:
  assumes q: "queued item s t" and ok: "txouts_ok s" and s: "backingTxOutSats s = Inr (a, g)" and t: "backingTxOutSats t = Inr (b, h)"
  shows "tt_pending b = tt_pending a + pendingPayment (payment (item\<lparr>to_TxType := GetTxType item\<rparr>))"
proof -
  from q obtain blk where tt: "t = s\<lparr>k_txouts := kv_set (txout_key (tx_Height blk)) blk (k_txouts s)\<rparr>"
    and p: "map payment (tx_TxArray blk) = map payment (tx_TxArray (GetTxOut (tx_Height blk) s)) @ [payment (item\<lparr>to_TxType := GetTxType item\<rparr>)]"
    by (auto simp: queued_def)
  have "blockPending (NewTxOut (tx_Height blk)) = 0" by (simp add: blockPending_def NewTxOut_def zero_defs)
  moreover have "kv_ordered (k_txouts s)" using ok by (simp add: txouts_ok_def)
  moreover have "blockPending blk = blockPending (GetTxOut (tx_Height blk) s) + pendingPayment (payment (item\<lparr>to_TxType := GetTxType item\<rparr>))"
    by (simp add: blockPending_def p del: map_map)
  ultimately show ?thesis
    using kv_sum_set_get [where f = blockPending and z = "NewTxOut (tx_Height blk)", of "k_txouts s" "txout_key (tx_Height blk)" blk]
    by (simp add: pending_sum [OF s] pending_sum [OF t] tt GetTxOut_def algebra_simps)
qed

text \<open>Queueing keeps the redeem's amount, so that what is spent stays, and moves it to the pending
  payments and the fees.\<close>

lemma queue_backing:
  assumes run: "queueAuthorizedWithdrawalTxOut e a True s = (Inr w, t)" and ok: "txouts_ok s" "backing_order s"
    and same: "rd_AmountSats (GetShielderRedeem (rd_WithdrawalID a) s) = rd_AmountSats a"
    and room: "unat (fp_TotalCollectedSats (GetFeePool s)) + unat (rd_AmountSats a) < 2 ^ 64"
    and s: "backingTotals s = Inr (x, m)" and t: "backingTotals t = Inr (y, m')"
  shows "backing_order t \<and> liabilitySats y = liabilitySats x + rd_AmountSats a"
proof -
  obtain fee gasRate s1 s2 where fee: "fee < rd_AmountSats a" and w: "w = a\<lparr>rd_FeeSats := fee, rd_Status := DepositStatusKeysignQueued\<rparr>"
    and app: "appendBTCExactTxOut e (k_height s) (withdrawal_item (a\<lparr>rd_FeeSats := fee\<rparr>) gasRate) s = (Inr (), s1)"
    and add: "addWithdrawalFee fee s1 = (Inr (), s2)"
    and tt: "t = s2\<lparr>k_redeems := kv_set (skey (rd_WithdrawalID a)) w (k_redeems s2)\<rparr>"
    by (rule queue_run [OF run]) (simp_all add: act_run)
  let ?i = "withdrawal_item (a\<lparr>rd_FeeSats := fee\<rparr>) gasRate"
  note q = append_queued [OF app ok(1)]
  have "same (\<lambda>s. s\<lparr>k_fee_pool := None\<rparr>) (addWithdrawalFee fee)" by (auto intro!: act_keeps)
  from sameD [OF this add] obtain p where s2: "s2 = s1\<lparr>k_fee_pool := p\<rparr>" by (cases s1, cases s2) simp
  obtain blk where s1: "s1 = s\<lparr>k_txouts := blk\<rparr>" using q by (auto simp: queued_def)
  have t2: "t = s\<lparr>k_txouts := blk, k_fee_pool := p, k_redeems := kv_set (skey (rd_WithdrawalID a)) w (k_redeems s)\<rparr>"
    by (simp add: tt s1 s2)
  have pend: "pendingPayment (payment (?i\<lparr>to_TxType := GetTxType ?i\<rparr>)) = rd_AmountSats a - fee"
    by (simp add: pendingPayment_def payment_def withdrawal_item_def GetTxType_def normalized_type IsBatchableTxOutType_def NormalizeTxOutType_def
      Let_def txout_string_defs TrimSpace_def is_space_def ToLower_def lower_char_def NewCoin_def Uint64_def zero_defs TxID_IsEmpty_def Chain_Equals_def EqualFold_def)
  have get: "rd_AmountSats (GetShielderRedeem j t) = rd_AmountSats (GetShielderRedeem j s)" for j
    using same by (auto simp: GetShielderRedeem_def t2 w split: option.splits)
  then have "spentNote t = spentNote s" by (simp add: fun_eq_iff spentNote_def split: option.split)
  then have st: "spent t = spent s" by (simp add: spent_sum t2)
  have fees: "feeTotals t = (fp_TotalCollectedSats (GetFeePool s) + fee, fp_TotalClaimedSats (GetFeePool s))"
    using addWithdrawalFee_frame(1,2) [OF add] by (simp add: tt s1 GetFeePool_def)
  have mt: "minted t = minted s" by (simp add: minted_sum t2)
  have ot: "backing_order t"
    using ok(2) le_plus_nowrap [OF room less_imp_le [OF fee]] fees by (simp add: backing_order_def st mt)
  from s t obtain ta ga tb gb where ab: "backingTxOutSats s = Inr (ta, ga)" "backingTxOutSats t = Inr (tb, gb)"
    by (auto simp: backingTotals_def split: sum.splits)
  have c: "backingTxOutSats t = backingTxOutSats s1" by (rule backingTxOut_cong) (simp_all add: t2 s1)
  have "tt_pending tb = tt_pending ta + (rd_AmountSats a - fee)"
    using queued_pending [OF q ok(1) ab(1) ab(2) [unfolded c]] pend by simp
  then have "liabilitySats y = liabilitySats x + rd_AmountSats a"
    unfolding backing_liabilities [OF t ot] backing_liabilities [OF s ok(2)] st mt using fees
    by (simp add: ab) (simp add: t2 backingDepositSats_def backingNodeBondLiabilitySats_def backingNodeBidLiabilitySats_def)
  with ot show ?thesis by simp
qed

section \<open>The registered invariant of the deposits\<close>

lemma deposit_invariant: "DepositRecordInvariant s = [] \<longleftrightarrow> (\<forall>d \<in> set (kv_values (k_deposits s)). depositFaults d = [])"
  by (simp add: DepositRecordInvariant_def)

lemma invariant_set:
  assumes t: "k_deposits t = kv_set k d (k_deposits s)" and ok: "kv_ordered (k_deposits s)" "DepositRecordInvariant s = []" and d: "depositFaults d = []"
  shows "DepositRecordInvariant t = []"
proof -
  have "kv_ordered (k_deposits t)" using ok t by (simp add: kv_ordered_set)
  then show ?thesis using ok d by (auto simp: deposit_invariant kv_values_mem t split: if_splits)
qed

lemma faults_Nil: "faults x cs = [] \<longleftrightarrow> (\<forall>c \<in> set cs. \<not> fst c)"
  by (auto simp: faults_def filter_empty_conv)

lemma match_stores:
  assumes run: "MatchCoreDeposit e obs s = (Inr d, t)"
  shows "k_deposits t = kv_set (skey (dr_DepositID d)) d (k_deposits s)" and "depositFaults d = []"
proof -
  define m where "m = GetDepositAddress (t_ToAddress (ob_Tx obs)) s"
  obtain a s1 s2 where d: "d = newMatchedDeposit e obs m a s" and set: "SetDepositRecord d s = (Inr (), s1)"
    and n: "noteMatchedDeposit e (ob_Tx obs) m d s1 = (Inr (), s2)"
    and q: "queueVaultPathSweepWithInHash e obs (dr_VaultPubKey d) (dr_DepositPathIndex d) (dr_DepositID d) s2 = (Inr (), t)"
    using match_run [OF run] unfolding m_def by blast
  have "same k_deposits (noteMatchedDeposit e (ob_Tx obs) m d)"
    "same k_deposits (queueVaultPathSweepWithInHash e obs (dr_VaultPubKey d) (dr_DepositPathIndex d) (dr_DepositID d))" by (auto intro!: act_keeps)
  from sameD [OF this(1) n] sameD [OF this(2) q] SetDeposit_run [OF set]
  show "k_deposits t = kv_set (skey (dr_DepositID d)) d (k_deposits s)" by simp
  have v: "DepositRecord_Valid d = Inr ()" using set by (auto simp: SetDepositRecord_def act_run)
  have f: "dr_Settlement d = []" "dr_Status d = DepositStatusDepositMatched" "dr_ShieldedSats d = 0"
    by (simp_all add: d newMatchedDeposit_def Let_def DepositRecord_zero_def)
  show "depositFaults d = []" using v
    by (simp add: depositFaults_def faults_Nil f status_defs DepositSettlementUser_def DepositSettlementOperatorBond_def
        DepositSettlementOperatorSale_def DepositSettlementOperatorFee_def)
qed

lemma match_invariant:
  assumes run: "MatchCoreDeposit e obs s = (Inr d, t)" and ok: "deposits_ok s" "DepositRecordInvariant s = []"
  shows "DepositRecordInvariant t = []" and "deposits_ok t"
proof -
  note m = match_stores [OF run]
  show "DepositRecordInvariant t = []" using m(1) _ ok(2) m(2) by (rule invariant_set) (use ok(1) in \<open>simp add: deposits_ok_def\<close>)
  show "deposits_ok t" using ok(1) by (auto simp: deposits_ok_def m(1) kv_ordered_set split: if_splits)
qed

lemma shield_record:
  assumes run: "PostShielderShield e owner did cs s = (Inr d', t)"
    and st: "dr_Status (GetDepositRecord did s) = DepositStatusDepositMatched"
  shows "dr_Settlement d' = DepositSettlementUser \<and> \<not> IsNodeBond d' \<and> dr_AuctionID d' = [] \<and> dr_Status d' = DepositStatusCommitted
    \<and> DepositRecord_Valid d' = Inr ()"
proof -
  let ?d = "GetDepositRecord did s"
  have "ShieldUserDepositIntoPool e (?d\<lparr>dr_Settlement := DepositSettlementUser\<rparr>) cs s = (Inr d', t)"
    using run st by (auto simp: PostShielderShield_def act_run)
  then have g: "\<not> IsNodeBond ?d" "dr_AuctionID ?d = []" and n: "shieldUserNotes e (?d\<lparr>dr_Settlement := DepositSettlementUser\<rparr>) cs s = (Inr d', t)"
    using st by (auto simp: ShieldUserDepositIntoPool_def act_run IsNodeBond_def)
  from n obtain u v x where "SetDepositRecord d' u = (Inr v, t)" and "d' = ?d\<lparr>dr_Settlement := DepositSettlementUser, dr_ShieldedSats := x, dr_Status := DepositStatusCommitted\<rparr>"
    unfolding shieldUserNotes_def Let_def by (clarsimp simp: act_run)
  then show ?thesis using g by (auto simp: SetDepositRecord_def act_run IsNodeBond_def)
qed

lemma shield_invariant:
  assumes run: "PostShielderShield e owner did cs s = (Inr d', t)" and ok: "deposits_ok s" "DepositRecordInvariant s = []"
  shows "DepositRecordInvariant t = []"
proof -
  note r = PostShield_run [OF run]
  have "GetDepositRecord did s \<in> set (kv_values (k_deposits s))"
    using deposit_stored [OF ok(1) r(3)] ok(1) by (auto simp: kv_values_mem deposits_ok_def)
  then have "depositFaults (GetDepositRecord did s) = []" using ok(2) by (simp add: deposit_invariant)
  then have "dr_Status (GetDepositRecord did s) \<noteq> DepositStatusSettled" by (simp add: depositFaults_def faults_Nil)
  with r(3) have "dr_Status (GetDepositRecord did s) = DepositStatusDepositMatched" by simp
  note d = shield_record [OF run this]
  have t: "k_deposits t = kv_set (skey (dr_DepositID (GetDepositRecord did s))) d' (k_deposits s)" and sh: "dr_ShieldedSats d' = dr_AmountSats d'"
    using r(1) by (auto simp: shielded_by_def)
  have "depositFaults d' = []" using d sh
    by (simp add: depositFaults_def faults_Nil status_defs DepositSettlementUser_def DepositSettlementOperatorBond_def
        DepositSettlementOperatorSale_def DepositSettlementOperatorFee_def)
  with t ok show ?thesis by (rule_tac invariant_set) (simp_all add: deposits_ok_def)
qed

end
