(* ===== verification/Backing_Theorems.thy ===== *)
theory Backing_Theorems
  imports Backing Demo_Deposits
begin

text \<open>
  The properties of the backing: value moved between notes, deposits, payments, fees and bonds leaves
  the liabilities of \<^verbatim>\<open>VaultBackingInvariant\<close> as they were, and the deposits keep the invariant
  registered for them.
\<close>

section \<open>Shielding\<close>

text \<open>C10. Shielding a deposit leaves the liabilities unchanged: what the deposit no longer owes is owed as notes
  and fees. The value the vaults control falls by the deposit when it was still counted on its address.\<close>

theorem shield_keeps_liabilities:
  assumes "PostShielderShield e owner did cs s = (Inr d', t)" "deposits_ok s" "trees_ok s" "backing_order s" "backingTotals s = Inr (a, m)"
    "unat (fst (backingMintedNoteSats s)) + unat (backingDepositUnshieldedSats (GetDepositRecord did s)) < 2 ^ 64"
    "unat (fp_TotalCollectedSats (GetFeePool s)) + unat (backingDepositUnshieldedSats (GetDepositRecord did s)) < 2 ^ 64"
  shows "\<exists>b m'. backingTotals t = Inr (b, m') \<and> backing_order t \<and> liabilitySats b = liabilitySats a \<and>
    controlledSats b + (if depositRequiresDepositAddressBacking (GetDepositRecord did s)
      then backingDepositUnshieldedSats (GetDepositRecord did s) else 0) = controlledSats a"
  using assms by (rule shield_backing)

lemma shield_totals: "\<exists>a m. backingTotals shield_state = Inr (a, m) \<and> liabilitySats a = 100005"
  by (simp add: backingTotals_def backingVaultSats_def backingTxOutSats_def sumR_def shield_state_def demo_state_def empty_kstate_def kv_values_def
    demo_vault_def zero_defs Vault_IsBase_def Let_def backingDepositSats_def backingNoteLiabilitySats_def backingMintedNoteSats_def
    backingSpentNoteSats_def backingFeeLiabilitySats_def GetFeePool_def backingNodeBondLiabilitySats_def backingNodeBidLiabilitySats_def
    liabilitySats_def depositOpen_def backingDepositUnshieldedSats_def matched_deposit_def status_defs NewCoin_def Uint64_def)

theorem shield_keeps_liabilities_witness:
  "\<exists>d t b m. PostShielderShield demo_env ''o'' ''D'' [''{c''] shield_state = (Inr d, t) \<and> backingTotals t = Inr (b, m) \<and> liabilitySats b = 100005"
proof -
  obtain d t where run: "PostShielderShield demo_env ''o'' ''D'' [''{c''] shield_state = (Inr d, t)" using shield_total by blast
  obtain a m where tot: "backingTotals shield_state = Inr (a, m)" "liabilitySats a = 100005" using shield_totals by blast
  have s: "k_trees shield_state = []" "k_nullifiers shield_state = []" "GetFeePool shield_state = FeePool_zero" "k_deposits shield_state = [(''D'', matched_deposit)]"
    by (simp_all add: shield_state_def demo_state_def empty_kstate_def GetFeePool_def)
  have ok: "trees_ok shield_state" "backing_order shield_state" "deposits_ok shield_state"
    by (simp_all add: trees_ok_def backing_order_def deposits_ok_def kv_ordered_def s kv_values_def backingMintedNoteSats_def backingSpentNoteSats_def Let_def
      tree_of_def GetShielderTreeState_def zero_defs matched_deposit_def kv_get_def skey_def text_defs split: if_splits)
  have room: "unat (fst (backingMintedNoteSats shield_state)) + unat (backingDepositUnshieldedSats (GetDepositRecord ''D'' shield_state)) < 2 ^ 64"
    "unat (fp_TotalCollectedSats (GetFeePool shield_state)) + unat (backingDepositUnshieldedSats (GetDepositRecord ''D'' shield_state)) < 2 ^ 64"
    by (simp_all add: backingMintedNoteSats_def s kv_values_def Let_def shield_read matched_deposit_def backingDepositUnshieldedSats_def zero_defs)
  from shield_keeps_liabilities [OF run ok(3) ok(1) ok(2) tot(1) room] run tot(2) show ?thesis by auto
qed

section \<open>Spending notes\<close>

text \<open>C11. Bonding notes leaves the liabilities and the controlled value unchanged: what is no longer owed to
  the note is owed to the bond. Only when the bond of the node was sold do they fall by the amount,
  because the bond is accepted all the same and sold bonds are not counted.\<close>

theorem bonding_keeps_liabilities:
  assumes "BondFromShieldedNotes e owner n oper req s = (Inr b, t)" "AuthorizeShielderRedeem e req s = (Inr w, u)"
    "bonds_ok s" "kv_ordered (k_bonds s)" "kv_ordered (k_nullifiers s)" "redeem_unused (rd_WithdrawalID w) s" "backing_order s"
    "unat (fst (backingSpentNoteSats s)) + unat (rd_AmountSats w) \<le> unat (fst (backingMintedNoteSats s))" "backingTotals s = Inr (x, m)"
  shows "\<exists>y m'. backingTotals t = Inr (y, m') \<and> backing_order t \<and> controlledSats y = controlledSats x \<and>
    liabilitySats y = liabilitySats x - (if nb_Sold (GetShielderNodeBond n s) then rd_AmountSats w else 0)"
  using assms by (rule bond_notes_backing)

definition minted_state :: kstate where
  "minted_state = demo_state\<lparr>k_trees := [(shielderTreeStateKey 100000, StoredShielderTreeState_zero\<lparr>ts_DenominationSats := 100000, ts_NextIndex := 1\<rparr>)]\<rparr>"

lemma minted_run:
  "BondFromShieldedNotes demo_env ''op'' ''N'' ''op'' \<lparr>rq_Proof = ''p'', rq_Public = ''B7''\<rparr> minted_state
    = (Inr (demo_bond 100000), bonded_state 100000 (spent_state (bond_redeem ''7'') minted_state))"
  "AuthorizeShielderRedeem demo_env \<lparr>rq_Proof = ''p'', rq_Public = ''B7''\<rparr> minted_state = (Inr (bond_redeem ''7''), spent_state (bond_redeem ''7'') minted_state)"
proof -
  let ?s = "spent_state (bond_redeem ''7'') minted_state"
  have ok: "demo_ready minted_state" using demo_state_ready by (simp add: minted_state_def demo_ready_def)
  have fresh: "\<not> ShielderNullifierSpent ''7'' minted_state" by (simp add: ShielderNullifierSpent_def minted_state_def demo_state_def empty_kstate_def)
  show a: "AuthorizeShielderRedeem demo_env \<lparr>rq_Proof = ''p'', rq_Public = ''B7''\<rparr> minted_state = (Inr (bond_redeem ''7''), ?s)"
    using demo_authorize_bond [OF ok fresh] by simp
  have rec: "recordPendingShielderNodeBond demo_env demo_session 100000 ?s = (Inr 1, bonded_state (0 + 100000) ?s)"
    using demo_record_first [of ?s] by (simp add: minted_state_def demo_state_def empty_kstate_def)
  have r: "demo_ready ?s" using ok by (simp add: demo_ready_def)
  have amt: "rd_AmountSats (bond_redeem ''7'') = 100000" by (simp add: demo_redeem_def)
  have tr: "TrimSpace ''bond_escrow'' = ''bond_escrow''" by (simp add: text_defs)
  show "BondFromShieldedNotes demo_env ''op'' ''N'' ''op'' \<lparr>rq_Proof = ''p'', rq_Public = ''B7''\<rparr> minted_state = (Inr (demo_bond 100000), bonded_state 100000 ?s)"
    using demo_parse_bond(1) [of "''7''"] a demo_spend [OF r _ rec]
    by (simp add: BondFromShieldedNotes_def act_defs Let_def NewPubKey_def demo_proofs demo_names normalizeShielderRedeemPolicy_def tr amt
      ShielderRedeemPolicyBondEscrow_def ShielderRedeemPolicyUserBTC_def)
qed

lemma minted_totals: "\<exists>a m. backingTotals minted_state = Inr (a, m) \<and> liabilitySats a = 100000"
  by (simp add: backingTotals_def backingVaultSats_def backingTxOutSats_def sumR_def minted_state_def demo_state_def empty_kstate_def kv_values_def
    demo_vault_def zero_defs Vault_IsBase_def Let_def backingDepositSats_def backingNoteLiabilitySats_def backingMintedNoteSats_def
    backingSpentNoteSats_def backingFeeLiabilitySats_def GetFeePool_def backingNodeBondLiabilitySats_def backingNodeBidLiabilitySats_def
    liabilitySats_def NewCoin_def Uint64_def)

theorem bonding_keeps_liabilities_witness:
  "\<exists>t b m. BondFromShieldedNotes demo_env ''op'' ''N'' ''op'' \<lparr>rq_Proof = ''p'', rq_Public = ''B7''\<rparr> minted_state = (Inr (demo_bond 100000), t) \<and>
    backingTotals t = Inr (b, m) \<and> liabilitySats b = 100000"
proof -
  obtain a m where tot: "backingTotals minted_state = Inr (a, m)" "liabilitySats a = 100000" using minted_totals by blast
  have s: "k_bonds minted_state = []" "k_nullifiers minted_state = []" "GetFeePool minted_state = FeePool_zero"
    "fst (backingMintedNoteSats minted_state) = 100000"
    by (simp_all add: minted_state_def demo_state_def empty_kstate_def GetFeePool_def backingMintedNoteSats_def kv_values_def zero_defs)
  have ok: "bonds_ok minted_state" "redeem_unused i minted_state" "backing_order minted_state" for i
    by (simp_all add: bonds_ok_def redeem_unused_def backing_order_def backingSpentNoteSats_def kv_values_def s zero_defs)
  from bonding_keeps_liabilities [OF minted_run ok(1) _ _ ok(2) ok(3) _ tot(1)] minted_run(1) tot(2) show ?thesis
    by (auto simp: s backingSpentNoteSats_def kv_values_def demo_redeem_def GetShielderNodeBond_def zero_defs)
qed

text \<open>C12. Queueing an authorized withdrawal raises the liabilities by exactly the amount of its note, as a
  pending payment and a collected fee: what authorizing it took from the notes is owed again.\<close>

theorem withdrawal_keeps_liabilities:
  assumes "queueAuthorizedWithdrawalTxOut e a True s = (Inr w, t)" "txouts_ok s" "backing_order s"
    "rd_AmountSats (GetShielderRedeem (rd_WithdrawalID a) s) = rd_AmountSats a"
    "unat (fp_TotalCollectedSats (GetFeePool s)) + unat (rd_AmountSats a) < 2 ^ 64"
    "backingTotals s = Inr (x, m)" "backingTotals t = Inr (y, m')"
  shows "backing_order t \<and> liabilitySats y = liabilitySats x + rd_AmountSats a"
  using assms by (rule queue_backing)

lemma queue_redeem: "GetShielderRedeem (rd_WithdrawalID (btc_redeem ''7'')) queue_state = btc_redeem ''7''"
  by (simp add: GetShielderRedeem_def queue_state_def kv_get_def)

lemma queue_totals: "\<exists>x m. backingTotals queue_state = Inr (x, m) \<and> liabilitySats x = 0"
  by (simp add: backingTotals_def backingVaultSats_def backingTxOutSats_def sumR_def queue_state_def empty_kstate_def kv_values_def
    zero_defs Let_def backingDepositSats_def backingNoteLiabilitySats_def backingMintedNoteSats_def
    backingSpentNoteSats_def backingFeeLiabilitySats_def GetFeePool_def backingNodeBondLiabilitySats_def backingNodeBidLiabilitySats_def
    liabilitySats_def)

lemma queued_totals: "\<exists>y m. backingTotals (queue_state\<lparr>k_txouts := [(txout_key 110, queued_block)], k_fee_pool := p, k_redeems := r\<rparr>) = Inr (y, m)"
proof -
  have i: "\<exists>v. addTxOutItem s t queued_item = Inr v \<and> tt_hashes v = tt_hashes t" for s t
    using queue_item by (simp add: addTxOutItem_def withdrawal_item_def Uint64_def NewCoin_def IsInternalTxOutType_def NormalizeTxOutType_def txout_string_defs
      text_defs Let_def zero_defs ToLower_def lower_char_def)
  have b: "tx_TxArray queued_block = [queued_item]" by (simp add: queued_block_def)
  let ?s = "queue_state\<lparr>k_txouts := [(txout_key 110, queued_block)], k_fee_pool := p, k_redeems := r\<rparr>"
  obtain v where "addTxOutItem ?s \<lparr>tt_inflight = 0, tt_completed = 0, tt_gas = 0, tt_pending = 0, tt_hashes = []\<rparr> queued_item = Inr v" "tt_hashes v = []"
    using i by fastforce
  then have "backingTxOutSats ?s = Inr (v, 0)" by (simp add: backingTxOutSats_def kv_values_def b sumR_def)
  then show ?thesis by (simp add: backingTotals_def backingVaultSats_def kv_values_def queue_state_def empty_kstate_def sumR_def case_prod_beta Let_def)
qed

theorem withdrawal_keeps_liabilities_witness:
  "\<exists>w t y m. queueAuthorizedWithdrawalTxOut demo_env (btc_redeem ''7'') True queue_state = (Inr w, t) \<and> backingTotals t = Inr (y, m) \<and> liabilitySats y = 100000"
proof -
  obtain p where run: "queueAuthorizedWithdrawalTxOut demo_env (btc_redeem ''7'') True queue_state = (Inr ((btc_redeem ''7'')\<lparr>rd_Status := DepositStatusKeysignQueued\<rparr>),
      queue_state\<lparr>k_txouts := [(txout_key 110, queued_block)], k_fee_pool := Some p,
        k_redeems := kv_set (skey (rd_WithdrawalID (btc_redeem ''7''))) ((btc_redeem ''7'')\<lparr>rd_Status := DepositStatusKeysignQueued\<rparr>) (k_redeems queue_state)\<rparr>)"
    using queue_total by blast
  obtain x m where x: "backingTotals queue_state = Inr (x, m)" "liabilitySats x = 0" using queue_totals by blast
  obtain y m' where y: "backingTotals (queue_state\<lparr>k_txouts := [(txout_key 110, queued_block)], k_fee_pool := Some p,
        k_redeems := kv_set (skey (rd_WithdrawalID (btc_redeem ''7''))) ((btc_redeem ''7'')\<lparr>rd_Status := DepositStatusKeysignQueued\<rparr>) (k_redeems queue_state)\<rparr>) = Inr (y, m')"
    using queued_totals by blast
  have ok: "txouts_ok queue_state" "backing_order queue_state" "GetFeePool queue_state = FeePool_zero"
    by (simp_all add: txouts_ok_def backing_order_def queue_state_def empty_kstate_def GetFeePool_def zero_defs backingSpentNoteSats_def backingMintedNoteSats_def kv_values_def)
  have amt: "rd_AmountSats (btc_redeem ''7'') = 100000" by (simp add: demo_redeem_def)
  have "unat (fp_TotalCollectedSats (GetFeePool queue_state)) + unat (rd_AmountSats (btc_redeem ''7'')) < 2 ^ 64" by (simp add: amt ok(3) zero_defs)
  from withdrawal_keeps_liabilities [OF run ok(1,2) _ this x(1) y] run y x(2) amt queue_redeem show ?thesis by auto
qed

section \<open>The deposits\<close>

text \<open>C13. Matching and shielding keep the invariant registered for the deposits: when no record has a fault
  before, none has one after.\<close>

theorem deposit_invariant_kept:
  assumes "MatchCoreDeposit e obs s = (Inr d, t) \<or> PostShielderShield e owner did cs s = (Inr d, t)" "deposits_ok s" "DepositRecordInvariant s = []"
  shows "DepositRecordInvariant t = [] \<and> deposits_ok t"
  using assms(1)
proof
  assume "MatchCoreDeposit e obs s = (Inr d, t)"
  from match_invariant [OF this assms(2,3)] show ?thesis by simp
next
  assume run: "PostShielderShield e owner did cs s = (Inr d, t)"
  from shield_invariant [OF run assms(2,3)] keepsD [OF deposits_ok_shield assms(2) run] show ?thesis by simp
qed

theorem deposit_invariant_kept_witness:
  "\<exists>d t. PostShielderShield demo_env ''o'' ''D'' [''{c''] shield_state = (Inr d, t) \<and> DepositRecordInvariant t = []"
proof -
  obtain d t where run: "PostShielderShield demo_env ''o'' ''D'' [''{c''] shield_state = (Inr d, t)" using shield_total by blast
  have s: "k_deposits shield_state = [(''D'', matched_deposit)]" by (simp add: shield_state_def)
  have ok: "deposits_ok shield_state" by (simp add: deposits_ok_def kv_ordered_def s matched_deposit_def kv_get_def skey_def text_defs zero_defs split: if_splits)
  have "DepositRecordInvariant shield_state = []"
    by (simp add: deposit_invariant s kv_values_def depositFaults_def faults_Nil matched_deposit_def zero_defs status_defs DepositRecord_Valid_def checks_ok text_defs
      DepositSettlementUser_def DepositSettlementOperatorBond_def DepositSettlementOperatorSale_def DepositSettlementOperatorFee_def)
  from deposit_invariant_kept [OF disjI2 [OF run] ok this] run show ?thesis by blast
qed

end
