(* ===== verification/Inbound.thy ===== *)
theory Inbound
  imports Observed Deposits
begin

text \<open>
  What a quorum on an inbound transaction does (\<^verbatim>\<open>handleObservedTxInQuorum\<close>): the vault that received
  the funds is credited once, migrations between vaults are settled, and the payment is matched to a
  deposit, returned or swept. Also the handler of \<^verbatim>\<open>MsgObservedTxIn\<close> (\<^verbatim>\<open>handler_observed_txin.go\<close>).
  Everything that is only logged is left out; an error that is logged ends its step and keeps what
  the step wrote.
\<close>

section \<open>Inputs\<close>

text \<open>Each expected input takes the first observed one that is not taken yet and fits.\<close>

definition input_spent :: "TxOutInput \<Rightarrow> TxInput \<Rightarrow> bool" where
  "input_spent want got \<longleftrightarrow> TxID_Equals (ti_TxId want) (in_TxID got) \<and> ti_Vout want = in_Vout got \<and>
     (ti_AmountSats want = 0 \<or> in_AmountSats got = 0 \<or> ti_AmountSats want = in_AmountSats got)"

definition observedTxSpentTxOutInputs :: "TxInput list \<Rightarrow> TxOutInput list \<Rightarrow> bool" where
  "observedTxSpentTxOutInputs observed expected \<longleftrightarrow> expected = [] \<or> observed \<noteq> [] \<and> match_all input_spent expected observed"

section \<open>Migrations\<close>

text \<open>The heights from \<open>h\<close> down to \<open>l\<close>.\<close>

definition heights_down :: "int \<Rightarrow> int \<Rightarrow> int list" where
  "heights_down h l = map (\<lambda>i. h - int i) [0..<nat (h - l + 1)]"

definition observedBTCMigrationInbound :: "ObservedTx \<Rightarrow> kstate \<Rightarrow> bool" where
  "observedBTCMigrationInbound tx s =
     (let signingPeriod = getConfigDurationBlocks Keysign_PeriodMinutes s;
          earliest0 = wrap64 (k_height s - signingPeriod);
          earliestHeight = (if earliest0 < 1 then 1 else earliest0) in
      list_ex (\<lambda>height. list_ex (\<lambda>item. to_TxType item = TxOutTypeMigrate \<and> \<not> TxID_IsEmpty (to_OutHash item) \<and>
          TxID_Equals (to_OutHash item) (t_ID (ob_Tx tx)) \<and> Address_Equals (to_ToAddress item) (t_ToAddress (ob_Tx tx)) \<and>
          Asset_Equals (co_Asset (to_Coin item)) BTCAsset) (tx_TxArray (GetTxOut height s)))
        (heights_down (k_height s) earliestHeight))"

definition observedBTCMigrationMatchesTxOut :: "env \<Rightarrow> ObservedTx \<Rightarrow> TxOutItem \<Rightarrow> bool" where
  "observedBTCMigrationMatchesTxOut e tx item \<longleftrightarrow>
     to_TxType item = TxOutTypeMigrate \<and> \<not> TxID_IsEmpty (to_OutHash item) \<and> TxID_Equals (to_OutHash item) (t_ID (ob_Tx tx)) \<and>
     Chain_Equals (t_Chain (ob_Tx tx)) BTCChain \<and> Chain_Equals (to_Chain item) BTCChain \<and>
     Address_Equals (t_ToAddress (ob_Tx tx)) (to_ToAddress item) \<and> Asset_Equals (co_Asset (to_Coin item)) BTCAsset \<and>
     (to_SourceInputs item = [] \<or> observedTxSpentTxOutInputs (t_SourceInputs (ob_Tx tx)) (to_SourceInputs item)) \<and>
     (case e_taproot e (to_VaultPubKey item) (to_VaultPathIndex item) of
        Inl _ \<Rightarrow> False | Inr sourceAddr \<Rightarrow> Address_Equals (t_FromAddress (ob_Tx tx)) sourceAddr)"

definition findMatchingBTCMigrationTxOut :: "env \<Rightarrow> ObservedTx \<Rightarrow> kstate \<Rightarrow> (TxOutItem \<times> int) option" where
  "findMatchingBTCMigrationTxOut e tx s =
     (case concat (map (\<lambda>height. map (\<lambda>item. (item, tx_Height (GetTxOut height s)))
          (filter (\<lambda>item. to_TxType item = TxOutTypeMigrate \<and> observedBTCMigrationMatchesTxOut e tx item) (tx_TxArray (GetTxOut height s))))
        (heights_down (k_height s) 1)) of
        [] \<Rightarrow> None | r # _ \<Rightarrow> Some r)"

definition vaultHasPendingTxHeight :: "Vault \<Rightarrow> int \<Rightarrow> bool" where
  "vaultHasPendingTxHeight vault height \<longleftrightarrow> height \<in> set (va_PendingTxBlockHeights vault)"

definition settleBTCMigrationSourceVaultItem :: "env \<Rightarrow> int \<Rightarrow> TxOutItem \<Rightarrow> bool kact" where
  "settleBTCMigrationSourceVaultItem e txOutHeight item =
     (let spent = sum_list (map (\<lambda>i. unat (ti_AmountSats i)) (to_SourceInputs item)) in
      if to_TxType item \<noteq> TxOutTypeMigrate \<or> to_VaultPubKey item = [] \<or> to_SourceInputs item = [] \<or> spent = 0 then ret False
      else bindA (logged (bindA (gets (GetVault (to_VaultPubKey item))) lift_result)) (\<lambda>r.
        case r of
          None \<Rightarrow> ret False
        | Some vault \<Rightarrow>
            if \<not> vaultHasPendingTxHeight vault txOutHeight then ret False
            else bindA (gets k_height) (\<lambda>h.
              let v1 = RemovePendingTxBlockHeights (SubFunds vault [NewCoin BTCAsset spent]) txOutHeight;
                  v2 = (if \<not> HasFunds v1 \<and> va_Status v1 = RetiringVault then Vault_UpdateStatus v1 InactiveVault h else v1) in
              bindA (logged (SetVault e v2)) (\<lambda>ok. ret (ok \<noteq> None)))))"

definition settleBTCMigrationSourceVault :: "env \<Rightarrow> ObservedTx \<Rightarrow> bool kact" where
  "settleBTCMigrationSourceVault e tx =
     (if \<not> Chain_Equals (t_Chain (ob_Tx tx)) BTCChain \<or> TxID_IsEmpty (t_ID (ob_Tx tx)) \<or> \<not> ObservedTx_IsFinal tx then ret False
      else bindA (gets (findMatchingBTCMigrationTxOut e tx)) (\<lambda>r.
        case r of None \<Rightarrow> ret False | Some (item, height) \<Rightarrow> settleBTCMigrationSourceVaultItem e height item))"

definition btcMigrationDestinationCreditedByOutbound :: "ObservedTx \<Rightarrow> kstate \<Rightarrow> bool" where
  "btcMigrationDestinationCreditedByOutbound tx s \<longleftrightarrow> vo_UpdatedVault (GetObservedTxOutVoter (t_ID (ob_Tx tx)) s)"

definition creditBTCMigrationInboundDestination :: "Vault \<Rightarrow> ObservedTxVoter \<Rightarrow> ObservedTx \<Rightarrow> kstate \<Rightarrow> Vault \<times> ObservedTxVoter" where
  "creditBTCMigrationInboundDestination vault voter tx s =
     (if \<not> Chain_Equals (t_Chain (ob_Tx tx)) BTCChain \<or> \<not> Vault_IsBase vault \<or> vo_UpdatedVault voter then (vault, voter)
      else if \<not> observedBTCMigrationInbound tx s then (vault, voter)
      else if btcMigrationDestinationCreditedByOutbound tx s then (vault, voter\<lparr>vo_UpdatedVault := True\<rparr>)
      else (if Address_Equals (t_FromAddress (ob_Tx tx)) (t_ToAddress (ob_Tx tx)) then vault
            else (AddFunds vault (t_Coins (ob_Tx tx)))\<lparr>va_InboundTxCount := wrap64 (va_InboundTxCount vault + 1)\<rparr>,
            voter\<lparr>vo_UpdatedVault := True\<rparr>))"

section \<open>The quorum\<close>

definition ensureVaultAndGetTxInVoter :: "PubKey \<Rightarrow> TxID \<Rightarrow> kstate \<Rightarrow> ObservedTxVoter result" where
  "ensureVaultAndGetTxInVoter vaultPubKey txID s =
     (if \<not> VaultExists vaultPubKey s then Inl (Errorf ''vault not found for observed tx in pubkey'')
      else Inr (GetObservedTxInVoter txID s))"

text \<open>The credit of a finalised transaction to its vault.\<close>

definition creditFinalised :: "Vault \<Rightarrow> ObservedTxVoter \<Rightarrow> ObservedTx \<Rightarrow> bool \<Rightarrow> bool \<Rightarrow> Vault \<times> ObservedTxVoter" where
  "creditFinalised vault voter tx hasFinalised creditedByOutbound =
     (if hasFinalised \<and> Vault_IsBase vault \<and> \<not> vo_UpdatedVault voter then
        if creditedByOutbound then (vault, voter\<lparr>vo_UpdatedVault := True\<rparr>)
        else if \<not> Address_Equals (t_FromAddress (ob_Tx tx)) (t_ToAddress (ob_Tx tx)) then
          ((AddFunds vault (t_Coins (ob_Tx tx)))\<lparr>va_InboundTxCount := wrap64 (va_InboundTxCount vault + 1)\<rparr>, voter\<lparr>vo_UpdatedVault := True\<rparr>)
        else (vault, voter)
      else (vault, voter))"

text \<open>A payment to the root address of a live base vault is returned to its sender.\<close>

definition returnsDirectDeposit :: "env \<Rightarrow> ObservedTx \<Rightarrow> Vault \<Rightarrow> bool \<Rightarrow> kstate \<Rightarrow> bool" where
  "returnsDirectDeposit e tx vault hasFinalised s \<longleftrightarrow>
     hasFinalised \<and> Chain_Equals (t_Chain (ob_Tx tx)) BTCChain \<and> Vault_IsBase vault \<and> va_Status vault \<in> {ActiveVault, RetiringVault} \<and>
     \<not> Address_Equals (t_FromAddress (ob_Tx tx)) (t_ToAddress (ob_Tx tx)) \<and> \<not> observedBTCMigrationInbound tx s \<and>
     (case e_taproot e (ob_ObservedPubKey tx) MainVaultPathIndex of Inl _ \<Rightarrow> False | Inr rootAddr \<Rightarrow> Address_Equals (t_ToAddress (ob_Tx tx)) rootAddr)"

text \<open>A payment to the root address of a vault that is not the current one is swept.\<close>

definition sweepsOldRoot :: "env \<Rightarrow> ObservedTx \<Rightarrow> kstate \<Rightarrow> bool" where
  "sweepsOldRoot e tx s \<longleftrightarrow> Chain_Equals (t_Chain (ob_Tx tx)) BTCChain \<and>
     (case (e_taproot e (ob_ObservedPubKey tx) MainVaultPathIndex, currentBTCVaultAddress e s) of
        (Inr rootAddr, Inr (currentVault, _)) \<Rightarrow> Address_Equals (t_ToAddress (ob_Tx tx)) rootAddr \<and> ob_ObservedPubKey tx \<noteq> va_PubKey currentVault
      | _ \<Rightarrow> False)"

definition doneTxIn :: "ObservedTxVoter \<Rightarrow> unit kact" where
  "doneTxIn voter = SetObservedTxInVoter (Voter_SetDone voter)"

text \<open>After the return of a direct deposit: the match to a registered deposit, and the sweeps.\<close>

definition dispatchTxIn :: "env \<Rightarrow> ObservedTx \<Rightarrow> ObservedTxVoter \<Rightarrow> Vault \<Rightarrow> bool \<Rightarrow> unit kact" where
  "dispatchTxIn e tx voter vault hasFinalised =
     bindA (logged (RecordDepositObservation e (vo_Tx voter) hasFinalised)) (\<lambda>_.
     if \<not> hasFinalised then ret ()
     else bindA (logged (MatchCoreDeposit e (vo_Tx voter))) (\<lambda>matched.
     if matched \<noteq> None then doneTxIn voter
     else bindA (gets (sweepsOldRoot e tx)) (\<lambda>oldRoot.
     bindA (if oldRoot then logged (queueVaultPathSweep e (vo_Tx voter) (ob_ObservedPubKey tx) MainVaultPathIndex) else ret None) (\<lambda>swept.
     if swept \<noteq> None then doneTxIn voter
     else if va_Status vault = InactiveVault then
       if Chain_Equals (t_Chain (ob_Tx tx)) BTCChain then
         bindA (logged (queueVaultPathSweep e (vo_Tx voter) (ob_ObservedPubKey tx) MainVaultPathIndex)) (\<lambda>sw.
         if sw \<noteq> None then doneTxIn voter else ret ())
       else ret ()
     else doneTxIn voter))))"

definition handleObservedTxInQuorum :: "env \<Rightarrow> NodeAccount list \<Rightarrow> ObservedTx \<Rightarrow> ObservedTxVoter \<Rightarrow> AccAddress list \<Rightarrow> bool \<Rightarrow> unit kact" where
  "handleObservedTxInQuorum e activeNodeAccounts tx voter observers isQuorum =
     bindA (gets k_height) (\<lambda>h.
     if \<not> isQuorum then
       bindA (if vo_Height voter = h \<or> vo_FinalisedHeight voter = h then AppendObserver e (t_Chain (ob_Tx tx)) observers else ret ()) (\<lambda>_.
       bindA (gets (observedBTCMigrationInbound tx)) (\<lambda>migration.
       if vo_FinalisedHeight voter > 0 \<and> ObservedTx_IsFinal tx \<and> migration
       then bindA (settleBTCMigrationSourceVault e tx) (\<lambda>_. ret ()) else ret ()))
     else if vo_Reverted voter then ret ()
     else bindA (logged (bindA (gets (GetVault (ob_ObservedPubKey tx))) lift_result)) (\<lambda>r.
       case r of
         None \<Rightarrow> ret ()
       | Some vault \<Rightarrow>
           bindA (gets (observedBTCMigrationInbound tx)) (\<lambda>migration.
           bindA (gets (btcMigrationDestinationCreditedByOutbound tx)) (\<lambda>byOutbound.
           let hasFinalised = HasFinalised e voter activeNodeAccounts;
               (vault1, voter1) = creditFinalised vault voter tx hasFinalised (Chain_Equals (t_Chain (ob_Tx tx)) BTCChain \<and> migration \<and> byOutbound) in
           bindA (gets (creditBTCMigrationInboundDestination vault1 voter1 tx)) (\<lambda>(vault2, voter2).
           bindA (if hasFinalised \<and> migration then settleBTCMigrationSourceVault e tx else ret False) (\<lambda>_.
           bindA (if ob_BlockHeight tx > 0 then bindA (logged (SetLastChainHeight (t_Chain (ob_Tx tx)) (ob_BlockHeight tx))) (\<lambda>_. ret ()) else ret ()) (\<lambda>_.
           bindA (SetObservedTxInVoter voter2) (\<lambda>_.
           bindA (logged (SetVault e vault2)) (\<lambda>stored.
           if stored = None \<or> \<not> Vault_IsBase vault2 then ret ()
           else bindA (AppendObserver e (t_Chain (ob_Tx tx)) (GetSigners e (vo_Tx voter2))) (\<lambda>_.
           bindA (gets (returnsDirectDeposit e tx vault2 hasFinalised)) (\<lambda>direct.
           bindA (if direct then logged (queueDirectBaseVaultDepositReturn e (vo_Tx voter2) vault2) else ret None) (\<lambda>returned.
           if returned \<noteq> None then doneTxIn voter2
           else dispatchTxIn e tx voter2 vault2 hasFinalised))))))))))))"

text \<open>One transaction of a \<^verbatim>\<open>MsgObservedTxIn\<close>, and the loop over the message.\<close>

definition observeTxIn :: "env \<Rightarrow> NodeAccount list \<Rightarrow> AccAddress \<Rightarrow> ObservedTx \<Rightarrow> unit kact" where
  "observeTxIn e activeNodeAccounts signer tx =
     bindA (gets (ensureVaultAndGetTxInVoter (ob_ObservedPubKey tx) (BTCOutpointScopedTxID e (ob_Tx tx)))) (\<lambda>r.
     case r of
       Inl _ \<Rightarrow> ret ()
     | Inr voter \<Rightarrow>
         bindA (processTxInAttestation e voter activeNodeAccounts tx signer True) (\<lambda>(voter1, isQuorum).
         bindA (logged (handleObservedTxInQuorum e activeNodeAccounts tx voter1 (GetSigners e (vo_Tx voter1)) isQuorum)) (\<lambda>_. ret ())))"

definition ObservedTxInHandler_handle :: "env \<Rightarrow> ObservedTx list \<Rightarrow> AccAddress \<Rightarrow> unit kact" where
  "ObservedTxInHandler_handle e txs signer =
     bindA (gets ListActiveNodes) (\<lambda>activeNodeAccounts. forA (observeTxIn e activeNodeAccounts signer) txs)"

end
