(* ===== verification/Observed_Laws.thy ===== *)
theory Observed_Laws
  imports Observed
begin

text \<open>
  Votes on observed transactions. The comparisons of \<^verbatim>\<open>EqualsEx\<close> and \<^verbatim>\<open>Equals\<close> are equality of normal
  forms; a voter is then an abstract ballot box, a set of pairs of an observation's form and a signer,
  that \<^verbatim>\<open>Add\<close> extends by one pair. A consensus is a supermajority of active nodes
  in the box, and an attestation is a step on the voter that announces a quorum at most once.
\<close>

section \<open>Normal forms\<close>

definition coin_form :: "Coin \<Rightarrow> string \<times> string \<times> string \<times> bool \<times> nat" where
  "coin_form c = (ToLower (ToUpper (as_Chain (co_Asset c))), ToLower (ToUpper (as_Symbol (co_Asset c))),
     ToLower (ToUpper (as_Ticker (co_Asset c))), as_Secured (co_Asset c), co_Amount c)"

definition coins_form :: "Coins \<Rightarrow> (string \<times> string \<times> string \<times> bool \<times> nat) list" where
  "coins_form cs = map coin_form (sort_key (\<lambda>c. Asset_String (co_Asset c)) cs)"

definition tx_form :: "Tx \<Rightarrow> (string \<times> string \<times> string \<times> string) \<times> (string \<times> string \<times> string \<times> bool \<times> nat) list \<times>
    (string \<times> string \<times> string \<times> bool \<times> nat) list \<times> u32" where
  "tx_form t = ((ToLower (t_ID t), ToLower (ToUpper (t_Chain t)), ToLower (t_FromAddress t), ToLower (t_ToAddress t)),
     coins_form (t_Coins t), coins_form (t_Gas t), t_SourceVout t)"

lemma coin_form_iff: "Coin_Equals c d \<longleftrightarrow> coin_form c = coin_form d"
  by (auto simp: Coin_Equals_def Asset_Equals_def Chain_Equals_def EqualFold_def coin_form_def)

lemma coins_form_iff: "length cs = length ds \<and> list_all2 Coin_Equals (sort_key f cs) (sort_key f ds) \<longleftrightarrow>
  map coin_form (sort_key f cs) = map coin_form (sort_key f ds)"
  by (auto simp: list_all2_conv_all_nth list_eq_iff_nth_eq coin_form_iff)

lemma EqualsEx_form: "EqualsEx a b \<longleftrightarrow> tx_form a = tx_form b"
  unfolding EqualsEx_def Coins_EqualsEx_def Gas_Equals_def coins_form_iff tx_form_def coins_form_def
  by (auto simp: TxID_Equals_def Chain_Equals_def Address_Equals_def EqualFold_def)

type_synonym obs_key = "PubKey \<times> int \<times> int \<times> string \<times> string \<times> nat"

definition obs_form where
  "obs_form x = (tx_form (ob_Tx x), (ob_ObservedPubKey x, ob_BlockHeight x, ob_FinaliseHeight x, ToLower (ob_Aggregator x),
     ToLower (ob_AggregatorTarget x), case ob_AggregatorTargetLimit x of None \<Rightarrow> 0 | Some l \<Rightarrow> l))"

definition final_form :: "'f \<times> obs_key \<Rightarrow> bool" where
  "final_form x \<longleftrightarrow> (case snd x of (_, bh, fh, _) \<Rightarrow> fh = bh)"

lemma ObservedTx_Equals_form: "ObservedTx_Equals a b \<longleftrightarrow> obs_form a = obs_form b"
  by (auto simp: ObservedTx_Equals_def EqualsEx_form obs_form_def EqualFold_def)

lemma final_obs_form [simp]: "final_form (obs_form x) \<longleftrightarrow> ObservedTx_IsFinal x"
  by (simp add: final_form_def obs_form_def ObservedTx_IsFinal_def)

lemma fst_obs_form [simp]: "fst (obs_form x) = tx_form (ob_Tx x)"
  by (simp add: obs_form_def)

lemma obs_form_signers [simp]: "obs_form (x\<lparr>ob_Signers := ss\<rparr>) = obs_form x"
  by (simp add: obs_form_def)

lemma obs_signers_simps [simp]: "ObservedTx_IsEmpty (x\<lparr>ob_Signers := ss\<rparr>) = ObservedTx_IsEmpty x"
  "ObservedTx_IsFinal (x\<lparr>ob_Signers := ss\<rparr>) = ObservedTx_IsFinal x"
  by (simp_all add: ObservedTx_IsEmpty_def ObservedTx_IsFinal_def)

section \<open>Majorities\<close>

lemma HasSuperMajority_iff: "HasSuperMajority k n \<longleftrightarrow> 0 < k \<and> k \<le> n \<and> 2 * n \<le> 3 * k"
proof -
  have "n * 2 = 3 * (n * 2 div 3) + n * 2 mod 3" "n * 2 mod 3 < 3" by simp_all
  then have "n * 2 div 3 + (if n * 2 mod 3 > 0 then 1 else 0) \<le> k \<longleftrightarrow> 2 * n \<le> 3 * k" by (auto; linarith)
  then show ?thesis by (auto simp: HasSuperMajority_def)
qed

lemma quorums_meet:
  assumes "finite N" "A \<subseteq> N" "B \<subseteq> N" "2 * n \<le> 3 * card A" "2 * n \<le> 3 * card B" "card N \<le> n"
  shows "n \<le> 3 * card (A \<inter> B)"
proof -
  have fin: "finite A" "finite B" using assms(1-3) finite_subset by blast+
  have "card A + card B = card (A \<union> B) + card (A \<inter> B)" using card_Un_Int [OF fin] .
  moreover have "card (A \<union> B) \<le> n" using card_mono [of N "A \<union> B"] assms by simp
  ultimately show ?thesis using assms(4,5) by linarith
qed

section \<open>The ballot box\<close>

definition box :: "env \<Rightarrow> ObservedTxVoter \<Rightarrow> _" where
  "box e m = {(obs_form x, a) | x a. x \<in> set (vo_Txs m) \<and> HasSigned e x a}"

definition backers where
  "backers B nas final T = {a. IsNodeKeys nas a \<and> (\<exists>F. (F, a) \<in> B \<and> fst F = T \<and> final_form F = final)}"

lemma mem_box: "(F, a) \<in> box e m \<longleftrightarrow> (\<exists>x \<in> set (vo_Txs m). obs_form x = F \<and> HasSigned e x a)"
  by (auto simp: box_def)

lemma mem_box_nth: "(F, a) \<in> box e m \<longleftrightarrow> (\<exists>i < length (vo_Txs m). obs_form (vo_Txs m ! i) = F \<and> HasSigned e (vo_Txs m ! i) a)"
  unfolding mem_box by (metis in_set_conv_nth)

lemma backers_subset: "backers B nas final T \<subseteq> set (map na_NodeAddress nas)"
  by (auto simp: backers_def IsNodeKeys_def list_ex_iff)

lemma finite_backers: "finite (backers B nas final T)"
  by (rule finite_subset [OF backers_subset]) simp

lemma mem_backers: "a \<in> backers (box e m) nas final T \<longleftrightarrow>
  IsNodeKeys nas a \<and> (\<exists>x \<in> set (vo_Txs m). tx_form (ob_Tx x) = T \<and> ObservedTx_IsFinal x = final \<and> HasSigned e x a)"
proof -
  have "(\<exists>F. (F, a) \<in> box e m \<and> fst F = T \<and> final_form F = final) \<longleftrightarrow>
      (\<exists>x \<in> set (vo_Txs m). fst (obs_form x) = T \<and> final_form (obs_form x) = final \<and> HasSigned e x a)"
    unfolding mem_box by blast
  then show ?thesis by (simp add: backers_def)
qed

lemma backers_insert: "fst F \<noteq> T \<or> final_form F \<noteq> final \<Longrightarrow> backers (insert (F, a) B) nas final T = backers B nas final T"
  unfolding backers_def by (rule Collect_cong) (metis insert_iff prod.inject)

lemma backers_mono: "B \<subseteq> C \<Longrightarrow> backers B nas final T \<subseteq> backers C nas final T"
  unfolding backers_def by blast

lemma consensusVoters_set: "set (consensusVoters e m nas final t) = e_acc_string e ` backers (box e m) nas final (tx_form t)"
proof -
  have "set (filter (IsNodeKeys nas) (concat (map (GetSigners e) (filter (\<lambda>o1. ObservedTx_IsFinal o1 = final \<and> EqualsEx t (ob_Tx o1)) (vo_Txs m)))))
      = backers (box e m) nas final (tx_form t)"
    by (rule set_eqI) (auto simp: mem_backers EqualsEx_form HasSigned_def)
  then show ?thesis by (simp add: consensusVoters_def)
qed

lemma consensusVoters_card: "length (consensusVoters e m nas final t) = card (e_acc_string e ` backers (box e m) nas final (tx_form t))"
  by (metis consensusVoters_def consensusVoters_set distinct_card distinct_remdups)

definition quorum :: "env \<Rightarrow> ObservedTxVoter \<Rightarrow> NodeAccount list \<Rightarrow> bool \<Rightarrow> Tx \<Rightarrow> bool" where
  "quorum e m nas final t \<longleftrightarrow> HasSuperMajority (length (consensusVoters e m nas final t)) (length nas)"

lemma quorum_backers:
  assumes "quorum e m nas final t"
  shows "2 * length nas \<le> 3 * card (backers (box e m) nas final (tx_form t))"
  using assms card_image_le [OF finite_backers, of "e_acc_string e" "box e m" nas final "tx_form t"]
  by (auto simp: quorum_def HasSuperMajority_iff consensusVoters_card)

lemma quorum_observed:
  assumes "quorum e m nas final t"
  shows "\<exists>x \<in> set (vo_Txs m). ObservedTx_IsFinal x = final \<and> EqualsEx t (ob_Tx x)"
proof -
  have "set (consensusVoters e m nas final t) \<noteq> {}" using assms by (auto simp: quorum_def HasSuperMajority_iff)
  then obtain a where "a \<in> backers (box e m) nas final (tx_form t)" unfolding consensusVoters_set by blast
  then show ?thesis unfolding mem_backers EqualsEx_form by metis
qed

lemma quorum_cong: "box e m = box e m' \<Longrightarrow> tx_form t = tx_form t' \<Longrightarrow> quorum e m nas final t = quorum e m' nas final t'"
  by (simp add: quorum_def consensusVoters_card)

lemma quorum_mono:
  assumes "box e m \<subseteq> box e m'" "quorum e m nas final t"
  shows "quorum e m' nas final t"
proof -
  let ?B = "\<lambda>v. backers (box e v) nas final (tx_form t)"
  have "card (e_acc_string e ` ?B m) \<le> card (e_acc_string e ` ?B m')"
    by (intro card_mono image_mono backers_mono assms finite_imageI finite_backers)
  moreover have "card (?B m') \<le> length nas"
    using card_mono [OF _ backers_subset, of nas "box e m'" final "tx_form t"] card_length [of "map na_NodeAddress nas"] by simp
  then have "card (e_acc_string e ` ?B m') \<le> length nas"
    by (rule le_trans [OF card_image_le [OF finite_backers]])
  ultimately show ?thesis using assms(2) by (simp add: quorum_def HasSuperMajority_iff consensusVoters_card)
qed

lemma consensus_tx:
  assumes "\<not> ObservedTx_IsEmpty (getConsensusTx e m nas final)"
  shows "getConsensusTx e m nas final \<in> set (vo_Txs m) \<and> ObservedTx_IsFinal (getConsensusTx e m nas final) = final \<and>
    quorum e m nas final (ob_Tx (getConsensusTx e m nas final))"
proof -
  have "ObservedTx_IsEmpty ObservedTx_zero" by (simp add: ObservedTx_IsEmpty_def Tx_IsEmpty_def zero_defs TxID_IsEmpty_def)
  then obtain x where "find (\<lambda>o1. ObservedTx_IsFinal o1 = final \<and>
      HasSuperMajority (length (consensusVoters e m nas final (ob_Tx o1))) (length nas)) (vo_Txs m) = Some x"
    "getConsensusTx e m nas final = x"
    using assms by (auto simp: getConsensusTx_def split: option.splits)
  then show ?thesis by (metis (mono_tags, lifting) find_Some_iff nth_mem quorum_def)
qed

lemma no_consensus_tx:
  assumes "ObservedTx_IsEmpty (getConsensusTx e m nas final)" "\<And>x. x \<in> set (vo_Txs m) \<Longrightarrow> \<not> ObservedTx_IsEmpty x"
  shows "\<not> quorum e m nas final t"
proof
  assume q: "quorum e m nas final t"
  then obtain x where x: "x \<in> set (vo_Txs m)" "ObservedTx_IsFinal x = final" "tx_form (ob_Tx x) = tx_form t"
    using quorum_observed EqualsEx_form by metis
  then have "quorum e m nas final (ob_Tx x)" using q quorum_cong [OF refl] by metis
  with x have "find (\<lambda>o1. ObservedTx_IsFinal o1 = final \<and>
      HasSuperMajority (length (consensusVoters e m nas final (ob_Tx o1))) (length nas)) (vo_Txs m) \<noteq> None"
    by (auto simp: find_None_iff quorum_def)
  then obtain y where "getConsensusTx e m nas final = y" "y \<in> set (vo_Txs m)"
    by (force simp: getConsensusTx_def find_Some_iff)
  with assms show False by blast
qed

section \<open>Casting a vote\<close>

text \<open>An account address survives its bech32 text, as documented of \<^verbatim>\<open>AccAddress.String\<close> and \<^verbatim>\<open>AccAddressFromBech32\<close>.\<close>

definition acc_codec :: "env \<Rightarrow> bool" where
  "acc_codec e \<longleftrightarrow> (\<forall>a. e_acc_from_bech32 e (e_acc_string e a) = Inr a)"

lemma acc_string_inj: "acc_codec e \<Longrightarrow> inj (e_acc_string e)"
  unfolding acc_codec_def inj_def by (metis sum.inject(2))

lemma HasSigned_append:
  assumes "acc_codec e"
  shows "HasSigned e (x\<lparr>ob_Signers := ob_Signers x @ [e_acc_string e a]\<rparr>) b \<longleftrightarrow> HasSigned e x b \<or> b = a"
    "HasSigned e (x\<lparr>ob_Signers := [e_acc_string e a]\<rparr>) b \<longleftrightarrow> b = a"
  using assms by (auto simp: HasSigned_def GetSigners_def acc_codec_def)

lemma set_equal_votes: "set (equal_votes m tx) = {i. i < length (vo_Txs m) \<and> obs_form (vo_Txs m ! i) = obs_form tx}"
  by (auto simp: equal_votes_def ObservedTx_Equals_form)

lemma voted_iff: "list_ex (\<lambda>i. HasSigned e (vo_Txs m ! i) a) (equal_votes m tx) \<longleftrightarrow> (obs_form tx, a) \<in> box e m"
  unfolding list_ex_iff set_equal_votes mem_box_nth by blast

text \<open>What \<^verbatim>\<open>Add\<close> does: nothing for a second equal vote, otherwise it signs an equal observation or appends one.\<close>

lemma Voter_Add_cases:
  obtains (again) "(obs_form tx, a) \<in> box e m" "Voter_Add e m tx a = (m, False)"
  | (sign) i where "(obs_form tx, a) \<notin> box e m" "i < length (vo_Txs m)" "obs_form (vo_Txs m ! i) = obs_form tx"
      "Voter_Add e m tx a = (m\<lparr>vo_Txs := (vo_Txs m)[i := (vo_Txs m ! i)\<lparr>ob_Signers := ob_Signers (vo_Txs m ! i) @ [e_acc_string e a]\<rparr>]\<rparr>, True)"
  | (new) "(obs_form tx, a) \<notin> box e m" "obs_form tx \<notin> obs_form ` set (vo_Txs m)"
      "Voter_Add e m tx a = (m\<lparr>vo_Txs := vo_Txs m @ [tx\<lparr>ob_Signers := [e_acc_string e a]\<rparr>]\<rparr>, True)"
proof (cases "(obs_form tx, a) \<in> box e m")
  case True
  then show ?thesis using again by (simp add: Voter_Add_def voted_iff)
next
  case False
  show ?thesis
  proof (cases "equal_votes m tx = []")
    case True
    then have "obs_form tx \<notin> obs_form ` set (vo_Txs m)"
      using set_equal_votes [of m tx] by (auto simp: in_set_conv_nth)
    with True False show ?thesis using new by (simp add: Voter_Add_def voted_iff)
  next
    case nonempty: False
    let ?i = "last (equal_votes m tx)"
    have i: "?i < length (vo_Txs m)" "obs_form (vo_Txs m ! ?i) = obs_form tx"
      using last_in_set [OF nonempty] by (simp_all add: set_equal_votes)
    then have "\<not> HasSigned e (vo_Txs m ! ?i) a" using False by (auto simp: mem_box)
    with False nonempty i show ?thesis by (intro sign [of ?i]) (simp_all add: Voter_Add_def voted_iff ObservedTx_Sign_def Let_def)
  qed
qed

lemma box_update:
  assumes "i < length (vo_Txs m)" "obs_form y = obs_form (vo_Txs m ! i)"
    "\<And>b. HasSigned e y b \<longleftrightarrow> HasSigned e (vo_Txs m ! i) b \<or> b = a"
  shows "box e (m\<lparr>vo_Txs := (vo_Txs m)[i := y]\<rparr>) = insert (obs_form y, a) (box e m)"
proof -
  let ?m = "m\<lparr>vo_Txs := (vo_Txs m)[i := y]\<rparr>"
  have nth: "vo_Txs ?m ! j = (if j = i then y else vo_Txs m ! j)" if "j < length (vo_Txs m)" for j
    using that by simp
  have "(F, b) \<in> box e ?m \<longleftrightarrow> (F, b) \<in> insert (obs_form y, a) (box e m)" for F b
  proof -
    have "(F, b) \<in> box e ?m \<longleftrightarrow>
        (\<exists>j < length (vo_Txs m). obs_form (vo_Txs m ! j) = F \<and> (HasSigned e (vo_Txs m ! j) b \<or> j = i \<and> b = a))"
    proof -
      have j: "obs_form (vo_Txs ?m ! j) = F \<and> HasSigned e (vo_Txs ?m ! j) b \<longleftrightarrow>
          obs_form (vo_Txs m ! j) = F \<and> (HasSigned e (vo_Txs m ! j) b \<or> j = i \<and> b = a)" if "j < length (vo_Txs m)" for j
        unfolding nth [OF that] using assms(2,3) by auto
      have "length (vo_Txs ?m) = length (vo_Txs m)" by simp
      then show ?thesis unfolding mem_box_nth using j by metis
    qed
    also have "\<dots> \<longleftrightarrow> (F, b) \<in> box e m \<or> F = obs_form y \<and> b = a"
      unfolding mem_box_nth using assms(1,2) by metis
    finally show ?thesis by blast
  qed
  then show ?thesis by (meson subset_antisym subrelI)
qed

lemma box_append: "box e (m\<lparr>vo_Txs := vo_Txs m @ [x]\<rparr>) = box e m \<union> {obs_form x} \<times> {a. HasSigned e x a}"
  unfolding box_def by auto

lemma Voter_Add_box:
  assumes "acc_codec e"
  shows "box e (fst (Voter_Add e m tx a)) = insert (obs_form tx, a) (box e m)"
proof (cases rule: Voter_Add_cases [of tx a e m])
  case again
  then show ?thesis by auto
next
  case (sign i)
  then show ?thesis using box_update [OF sign(2), where a = a] HasSigned_append [OF assms] by simp
next
  case new
  then show ?thesis by (simp add: box_append HasSigned_append(2) [OF assms])
qed

lemma Voter_Add_added: "snd (Voter_Add e m tx a) \<longleftrightarrow> (obs_form tx, a) \<notin> box e m"
  by (cases rule: Voter_Add_cases [of tx a e m]) auto

lemma Voter_Add_frame: "\<exists>xs. fst (Voter_Add e m tx a) = m\<lparr>vo_Txs := xs\<rparr> \<and>
  ob_Tx ` set xs \<subseteq> insert (ob_Tx tx) (ob_Tx ` set (vo_Txs m))"
proof (cases rule: Voter_Add_cases [of tx a e m])
  case again
  then show ?thesis by (intro exI [of _ "vo_Txs m"]) auto
next
  case (sign i)
  have "ob_Tx ` set ((vo_Txs m)[i := y]) \<subseteq> insert (ob_Tx y) (ob_Tx ` set (vo_Txs m))" for y
    using set_update_subset_insert [of "vo_Txs m" i y] by blast
  from this [of "(vo_Txs m ! i)\<lparr>ob_Signers := ob_Signers (vo_Txs m ! i) @ [e_acc_string e a]\<rparr>"] nth_mem [OF sign(2)]
  have "ob_Tx ` set (vo_Txs (fst (Voter_Add e m tx a))) \<subseteq> ob_Tx ` set (vo_Txs m)" unfolding sign(4) by auto
  then show ?thesis unfolding sign(4) by auto
next
  case new
  then show ?thesis by (intro exI [of _ "vo_Txs m @ [tx\<lparr>ob_Signers := [e_acc_string e a]\<rparr>]"]) auto
qed

section \<open>An attestation as a step on the voter\<close>

text \<open>A step that only moves penalty points, heights and observers.\<close>

definition quiet :: "unit kact \<Rightarrow> bool" where
  "quiet m \<longleftrightarrow> (\<forall>s. \<exists>t. m s = (Inr (), t) \<and> k_height t = k_height s \<and> k_txin_voters t = k_txin_voters s \<and> k_vaults t = k_vaults s)"

lemma quiet_ret: "quiet (ret ())"
  by (simp add: quiet_def ret_def)

lemma quiet_if: "quiet m \<Longrightarrow> quiet n \<Longrightarrow> quiet (if c then m else n)"
  by simp

lemma quiet_bind: "quiet m \<Longrightarrow> quiet n \<Longrightarrow> quiet (bindA m (\<lambda>_. n))"
  unfolding quiet_def bindA_def by (metis (no_types, lifting) old.prod.case old.sum.simps(6))

lemma quiet_forA: "(\<And>x. quiet (f x)) \<Longrightarrow> quiet (forA f xs)"
  by (induction xs) (simp_all add: quiet_ret quiet_bind)

lemma quiet_Inc: "quiet (IncPenaltyPoints e p xs)"
  unfolding IncPenaltyPoints_def by (rule quiet_forA)
    (simp add: quiet_def act_defs IncNodeAccountPenaltyPoints_def SetNodeAccountPenaltyPoints_def)

lemma quiet_Dec: "quiet (DecPenaltyPoints e p xs)"
  unfolding DecPenaltyPoints_def by (rule quiet_forA)
    (simp add: quiet_def act_defs DecNodeAccountPenaltyPoints_def SetNodeAccountPenaltyPoints_def)

lemma quiet_settle: "quiet (settlePenalties e p q nas v)"
  unfolding settlePenalties_def Let_def thenA_def by (intro quiet_bind quiet_Inc quiet_Dec)

lemma quiet_observe: "quiet (SetLastObserveHeight e c a h)"
  by (auto simp: quiet_def SetLastObserveHeight_def act_defs Let_def split: option.split)

lemma quietD: "quiet m \<Longrightarrow> m s = (r, t) \<Longrightarrow>
  r = Inr () \<and> k_height t = k_height s \<and> k_txin_voters t = k_txin_voters s \<and> k_vaults t = k_vaults s"
  unfolding quiet_def by (metis Pair_inject)

lemma quiet_run: "quiet m \<Longrightarrow> bindA m (\<lambda>_. n) s = (r, t) \<Longrightarrow>
  \<exists>u. k_height u = k_height s \<and> k_txin_voters u = k_txin_voters s \<and> k_vaults u = k_vaults s \<and> n u = (r, t)"
  unfolding quiet_def bindA_def by (metis (no_types, lifting) old.prod.case old.sum.simps(6))

text \<open>What the two branches make of the voter.\<close>

definition finalised :: "env \<Rightarrow> NodeAccount list \<Rightarrow> int \<Rightarrow> ObservedTxVoter \<Rightarrow> ObservedTxVoter" where
  "finalised e nas h v = v\<lparr>vo_Height := h, vo_UnfinalizedHeight := (if vo_UnfinalizedHeight v = 0 then h else vo_UnfinalizedHeight v),
     vo_FinalisedHeight := h, vo_Tx := GetTx e v nas\<rparr>"

definition discovered :: "env \<Rightarrow> NodeAccount list \<Rightarrow> int \<Rightarrow> ObservedTxVoter \<Rightarrow> ObservedTxVoter" where
  "discovered e nas h v = v\<lparr>vo_Height := h, vo_UnfinalizedHeight := (if vo_UnfinalizedHeight v = 0 then h else vo_UnfinalizedHeight v),
     vo_Tx := GetTx e v nas\<rparr>"

lemma getConsensusTx_cong: "vo_Txs v = vo_Txs w \<Longrightarrow> getConsensusTx e v nas f = getConsensusTx e w nas f"
  by (simp add: getConsensusTx_def consensusVoters_def)

lemma GetTx_cong: "vo_Txs v = vo_Txs w \<Longrightarrow> vo_Tx v = vo_Tx w \<Longrightarrow> GetTx e v nas = GetTx e w nas"
  unfolding GetTx_def by (simp only: getConsensusTx_cong [of v w])

lemma GetTx_heights [simp]: "GetTx e (v\<lparr>vo_Height := a, vo_UnfinalizedHeight := b, vo_FinalisedHeight := c\<rparr>) nas = GetTx e v nas"
  "GetTx e (v\<lparr>vo_Height := a, vo_UnfinalizedHeight := b\<rparr>) nas = GetTx e v nas"
  by (rule GetTx_cong; simp)+

lemma same_signers: "\<exists>ss. v = v\<lparr>vo_Tx := (vo_Tx v)\<lparr>ob_Signers := ss\<rparr>\<rparr>"
  by (rule exI [of _ "ob_Signers (vo_Tx v)"]) simp

lemma finaliseTxIn_run:
  assumes "finaliseTxIn e p q fl v nas tx sg s = (Inr (w, ok), t)"
  shows "k_height t = k_height s \<and>
    (ok \<and> HasFinalised e v nas \<and> vo_FinalisedHeight v = 0 \<and> w = finalised e nas (k_height s) v \<or>
     \<not> ok \<and> (HasFinalised e v nas \<longrightarrow> vo_FinalisedHeight v \<noteq> 0) \<and> (\<exists>ss. w = v\<lparr>vo_Tx := (vo_Tx v)\<lparr>ob_Signers := ss\<rparr>\<rparr>) \<and>
       (vo_FinalisedHeight v = 0 \<longrightarrow> w = v))"
proof -
  consider "\<not> HasFinalised e v nas" | "HasFinalised e v nas" "vo_FinalisedHeight v = 0" | "HasFinalised e v nas" "vo_FinalisedHeight v \<noteq> 0" by blast
  then show ?thesis
  proof cases
    case 1
    then show ?thesis using assms same_signers [of v] by (simp add: finaliseTxIn_def bindA_def gets_def ret_def)
  next
    case 2
    then show ?thesis using assms
      by (auto simp: finaliseTxIn_def thenA_def finalised_def Let_def bindA_run gets_run ret_run dest!: quietD [OF quiet_settle])
  next
    case 3
    then show ?thesis using assms same_signers [of v]
      by (auto simp: finaliseTxIn_def countLateSigner_def thenA_def bindA_run gets_run ret_run split: if_splits dest!: quietD [OF quiet_Dec])
  qed
qed

lemma discoverTxIn_run:
  assumes "discoverTxIn e p q fl v ok0 nas tx sg s = (Inr (w, ok), t)"
  shows "k_height t = k_height s \<and>
    (ok0 \<and> ok \<and> w = v \<or>
     \<not> ok0 \<and> ok \<and> HasConsensus e v nas \<and> \<not> ObservedTx_IsFinal tx \<and> vo_FinalisedHeight v = 0 \<and> vo_Height v = 0 \<and> w = discovered e nas (k_height s) v \<or>
     \<not> ok0 \<and> \<not> ok \<and> (\<exists>ss. w = v\<lparr>vo_Tx := (vo_Tx v)\<lparr>ob_Signers := ss\<rparr>\<rparr>))"
proof -
  let ?idle = "ok0 \<or> \<not> HasConsensus e v nas \<or> ObservedTx_IsFinal tx \<or> vo_FinalisedHeight v \<noteq> 0"
  consider ?idle | "\<not> ?idle" "vo_Height v = 0" | "\<not> ?idle" "vo_Height v \<noteq> 0" by blast
  then show ?thesis
  proof cases
    case 1
    then have "w = v \<and> ok = ok0 \<and> t = s" using assms by (simp add: discoverTxIn_def bindA_run gets_run ret_run)
    then show ?thesis using same_signers [of v] by auto
  next
    case 2
    then show ?thesis using assms
      by (auto simp: discoverTxIn_def thenA_def discovered_def Let_def bindA_run gets_run ret_run dest!: quietD [OF quiet_settle])
  next
    case 3
    then show ?thesis using assms same_signers [of v]
      by (auto simp: discoverTxIn_def countLateSigner_def thenA_def bindA_run gets_run ret_run split: if_splits dest!: quietD [OF quiet_Dec])
  qed
qed

lemma Voter_Add_fields [simp]: "vo_FinalisedHeight (fst (Voter_Add e m tx a)) = vo_FinalisedHeight m"
  "vo_Height (fst (Voter_Add e m tx a)) = vo_Height m" "vo_Tx (fst (Voter_Add e m tx a)) = vo_Tx m"
  "vo_TxID (fst (Voter_Add e m tx a)) = vo_TxID m" "vo_UpdatedVault (fst (Voter_Add e m tx a)) = vo_UpdatedVault m"
  "vo_Reverted (fst (Voter_Add e m tx a)) = vo_Reverted m"
  using Voter_Add_frame [of e m tx a] by auto

lemma HasFinalised_signers: "HasFinalised e (v\<lparr>vo_Tx := (vo_Tx v)\<lparr>ob_Signers := ss\<rparr>\<rparr>) nas = HasFinalised e v nas"
  using getConsensusTx_cong [of "v\<lparr>vo_Tx := (vo_Tx v)\<lparr>ob_Signers := ss\<rparr>\<rparr>" v] by (simp add: HasFinalised_def GetTx_def Let_def)

lemma attest_cases:
  assumes "processTxInAttestation e v nas tx sg pen s = (Inr (w, ok), t)"
  obtains (again) "k_height t = k_height s" "(obs_form tx, sg) \<in> box e v" "\<not> ok" "w = v"
  | (final) "k_height t = k_height s" "(obs_form tx, sg) \<notin> box e v" "ok" "HasFinalised e (fst (Voter_Add e v tx sg)) nas"
      "vo_FinalisedHeight v = 0" "w = finalised e nas (k_height s) (fst (Voter_Add e v tx sg))"
  | (discover) "k_height t = k_height s" "(obs_form tx, sg) \<notin> box e v" "ok" "\<not> HasFinalised e (fst (Voter_Add e v tx sg)) nas"
      "HasConsensus e (fst (Voter_Add e v tx sg)) nas" "\<not> ObservedTx_IsFinal tx" "vo_FinalisedHeight v = 0" "vo_Height v = 0"
      "w = discovered e nas (k_height s) (fst (Voter_Add e v tx sg))"
  | (vote) ss where "k_height t = k_height s" "(obs_form tx, sg) \<notin> box e v" "\<not> ok"
      "HasFinalised e (fst (Voter_Add e v tx sg)) nas \<Longrightarrow> vo_FinalisedHeight v \<noteq> 0"
      "w = (fst (Voter_Add e v tx sg))\<lparr>vo_Tx := (vo_Tx v)\<lparr>ob_Signers := ss\<rparr>\<rparr>"
proof -
  obtain v1 added where v1: "Voter_Add e v tx sg = (v1, added)" by force
  note added = Voter_Add_added [of e v tx sg, unfolded v1 snd_conv] and fields = Voter_Add_fields [of e v tx sg, unfolded v1 fst_conv]
  obtain u where u: "k_height u = k_height s"
    "(if \<not> added then bindA (if \<not> pen \<or> isExactObservedTxReplay e v1 tx sg \<or> isFinalBTCObservedTxReplay e v1 tx sg
          then DecPenaltyPoints e (GetConfigInt64 Observation_SubmitPenaltyPoints s) [sg] else ret ()) (\<lambda>_. ret (v1, False))
      else bindA (finaliseTxIn e (GetConfigInt64 Observation_SubmitPenaltyPoints s) (GetConfigInt64 Observation_MissPenaltyPoints s)
          (getConfigDurationBlocks Observation_DelayFlexibilityMinutes s) v1 nas tx sg) (\<lambda>(voter2, ok).
         bindA (discoverTxIn e (GetConfigInt64 Observation_SubmitPenaltyPoints s) (GetConfigInt64 Observation_MissPenaltyPoints s)
          (getConfigDurationBlocks Observation_DelayFlexibilityMinutes s) voter2 ok nas tx sg) (\<lambda>(voter3, ok3).
         bindA (SetObservedTxInVoter voter3) (\<lambda>_. ret (voter3, ok3))))) u = (Inr (w, ok), t)"
    using assms unfolding processTxInAttestation_def v1 prod.case
    by (auto simp: bindA_run gets_run dest!: quietD [OF quiet_if [OF quiet_observe quiet_ret]] quietD [OF quiet_Inc])
  show thesis
  proof (cases added)
    case False
    have "v1 = v" using False v1 added by (cases rule: Voter_Add_cases [of tx sg e v]) auto
    with False u added show ?thesis
      using again by (auto simp: bindA_run ret_run dest!: quietD [OF quiet_if [OF quiet_Dec quiet_ret]])
  next
    case True
    then obtain v2 ok2 u2 u3 where
      f: "finaliseTxIn e (GetConfigInt64 Observation_SubmitPenaltyPoints s) (GetConfigInt64 Observation_MissPenaltyPoints s)
          (getConfigDurationBlocks Observation_DelayFlexibilityMinutes s) v1 nas tx sg u = (Inr (v2, ok2), u2)"
      and d: "discoverTxIn e (GetConfigInt64 Observation_SubmitPenaltyPoints s) (GetConfigInt64 Observation_MissPenaltyPoints s)
          (getConfigDurationBlocks Observation_DelayFlexibilityMinutes s) v2 ok2 nas tx sg u2 = (Inr (w, ok), u3)"
      and t: "k_height t = k_height u3"
      using u(2) by (auto simp: bindA_run ret_run SetObservedTxInVoter_def modify_run)
    note f = finaliseTxIn_run [OF f] and d = discoverTxIn_run [OF d]
    show ?thesis
    proof (cases ok2)
      case True
      with f d t u(1) \<open>added\<close> show ?thesis by (intro final) (auto simp: v1 added fields)
    next
      case False
      with f obtain ss where ss: "v2 = v1\<lparr>vo_Tx := (vo_Tx v1)\<lparr>ob_Signers := ss\<rparr>\<rparr>" "vo_FinalisedHeight v1 = 0 \<Longrightarrow> v2 = v1"
        "HasFinalised e v1 nas \<longrightarrow> vo_FinalisedHeight v1 \<noteq> 0" by blast
      show ?thesis
      proof (cases ok)
        case True
        with d False ss f t u(1) \<open>added\<close> show ?thesis by (intro discover) (auto simp: v1 added fields)
      next
        case nok: False
        with d False obtain ss' where "w = v2\<lparr>vo_Tx := (vo_Tx v2)\<lparr>ob_Signers := ss'\<rparr>\<rparr>" by blast
        with nok ss f d t u(1) \<open>added\<close> show ?thesis by (intro vote [of ss']) (auto simp: v1 added fields)
      qed
    qed
  qed
qed

text \<open>An attestation always returns.\<close>

definition returns :: "'a kact \<Rightarrow> bool" where
  "returns m \<longleftrightarrow> (\<forall>s. \<exists>x t. m s = (Inr x, t))"

lemma returns_bind: "returns m \<Longrightarrow> (\<And>x. returns (n x)) \<Longrightarrow> returns (bindA m n)"
  unfolding returns_def bindA_def by (metis (no_types, lifting) old.prod.case old.sum.simps(6))

lemma returns_basic: "returns (ret x)" "returns (gets f)" "returns (modify g)"
  by (simp_all add: returns_def ret_def gets_def modify_def)

lemma returns_quiet: "quiet m \<Longrightarrow> returns m"
  unfolding quiet_def returns_def by blast

lemma returns_case_prod: "(\<And>a b. returns (f a b)) \<Longrightarrow> returns (case x of (a, b) \<Rightarrow> f a b)"
  by (cases x) simp

lemma returns_if: "(c \<Longrightarrow> returns m) \<Longrightarrow> (\<not> c \<Longrightarrow> returns n) \<Longrightarrow> returns (if c then m else n)"
  by simp

lemmas returns_rules = returns_bind returns_case_prod returns_if returns_basic returns_quiet quiet_settle quiet_Dec quiet_Inc quiet_observe

lemma returns_finalise: "returns (finaliseTxIn e p q fl v nas tx sg)"
  unfolding finaliseTxIn_def countLateSigner_def thenA_def Let_def by (intro returns_rules)

lemma returns_discover: "returns (discoverTxIn e p q fl v ok nas tx sg)"
  unfolding discoverTxIn_def countLateSigner_def thenA_def Let_def by (intro returns_rules)

lemma attest_total: "\<exists>w ok t. processTxInAttestation e v nas tx sg pen s = (Inr (w, ok), t)"
proof -
  have "returns (processTxInAttestation e v nas tx sg pen)"
    unfolding processTxInAttestation_def SetObservedTxInVoter_def by (intro returns_rules returns_finalise returns_discover)
  then show ?thesis by (auto simp: returns_def)
qed

end
