(* ===== verification/Attestation.thy ===== *)
theory Attestation
  imports Observed_Laws
begin

text \<open>
  Runs of attestations on one voter: the invariant of a voter, what a quorum rests on, and what a
  sequence of votes over several blocks leads to.
\<close>

section \<open>The invariant of a voter\<close>

definition voter_ok :: "ObservedTxVoter \<Rightarrow> bool" where
  "voter_ok v \<longleftrightarrow> (\<forall>x \<in> set (vo_Txs v). \<not> ObservedTx_IsEmpty x) \<and> (vo_Height v = 0 \<longrightarrow> ObservedTx_IsEmpty (vo_Tx v)) \<and>
     (vo_FinalisedHeight v = 0 \<longrightarrow> ObservedTx_IsEmpty (vo_Tx v) \<or> \<not> ObservedTx_IsFinal (vo_Tx v))"

text \<open>No transaction is final with the given nodes before it is finalised.\<close>

definition undecided :: "env \<Rightarrow> NodeAccount list \<Rightarrow> ObservedTxVoter \<Rightarrow> bool" where
  "undecided e nas v \<longleftrightarrow> (vo_FinalisedHeight v = 0 \<longrightarrow> \<not> HasFinalised e v nas)"

lemma voter_ok_zero: "voter_ok (ObservedTxVoter_zero\<lparr>vo_TxID := h\<rparr>)" "undecided e nas (ObservedTxVoter_zero\<lparr>vo_TxID := h\<rparr>)"
  by (simp_all add: voter_ok_def undecided_def HasFinalised_def GetTx_def getConsensusTx_def Let_def zero_defs ObservedTx_IsEmpty_def
      Tx_IsEmpty_def TxID_IsEmpty_def)

lemma HasFinalised_quorum:
  assumes "voter_ok v" "vo_FinalisedHeight v = 0"
  shows "HasFinalised e v nas \<longleftrightarrow> (\<exists>t. quorum e v nas True t)"
proof
  assume "HasFinalised e v nas"
  then have "\<not> ObservedTx_IsEmpty (getConsensusTx e v nas True)"
    using assms consensus_tx [of e v nas False] by (auto simp: HasFinalised_def GetTx_def voter_ok_def Let_def split: if_splits)
  then show "\<exists>t. quorum e v nas True t" using consensus_tx by blast
next
  assume "\<exists>t. quorum e v nas True t"
  then have "\<not> ObservedTx_IsEmpty (getConsensusTx e v nas True)"
    using no_consensus_tx [of e v nas True] assms(1) by (auto simp: voter_ok_def)
  then show "HasFinalised e v nas" using consensus_tx assms by (auto simp: HasFinalised_def GetTx_def Let_def)
qed

lemma GetTx_final:
  assumes "voter_ok v" "vo_FinalisedHeight v = 0" "HasFinalised e v nas"
  shows "GetTx e v nas \<in> set (vo_Txs v)" "ObservedTx_IsFinal (GetTx e v nas)" "quorum e v nas True (ob_Tx (GetTx e v nas))"
proof -
  have "\<not> ObservedTx_IsEmpty (getConsensusTx e v nas True)"
    using HasFinalised_quorum [OF assms(1,2)] assms no_consensus_tx [of e v nas True] by (auto simp: voter_ok_def)
  moreover from this have "GetTx e v nas = getConsensusTx e v nas True" using assms by (auto simp: GetTx_def voter_ok_def Let_def)
  ultimately show "GetTx e v nas \<in> set (vo_Txs v)" "ObservedTx_IsFinal (GetTx e v nas)" "quorum e v nas True (ob_Tx (GetTx e v nas))"
    using consensus_tx [of e v nas True] by simp_all
qed

lemma GetTx_discovered:
  assumes "voter_ok v" "vo_Height v = 0" "HasConsensus e v nas" "\<not> HasFinalised e v nas"
  shows "GetTx e v nas \<in> set (vo_Txs v)" "\<not> ObservedTx_IsFinal (GetTx e v nas)" "quorum e v nas False (ob_Tx (GetTx e v nas))"
proof -
  have tx: "ObservedTx_IsEmpty (vo_Tx v)" using assms(1,2) by (simp add: voter_ok_def)
  then have "ObservedTx_IsEmpty (getConsensusTx e v nas True)"
    using assms(4) consensus_tx [of e v nas True] by (auto simp: HasFinalised_def GetTx_def Let_def split: if_splits)
  with tx assms(3) have "GetTx e v nas = getConsensusTx e v nas False" "\<not> ObservedTx_IsEmpty (getConsensusTx e v nas False)"
    by (auto simp: HasConsensus_def GetTx_def Let_def split: if_splits)
  then show "GetTx e v nas \<in> set (vo_Txs v)" "\<not> ObservedTx_IsFinal (GetTx e v nas)" "quorum e v nas False (ob_Tx (GetTx e v nas))"
    using consensus_tx [of e v nas False] by simp_all
qed

lemma voter_ok_add:
  assumes "voter_ok v" "\<not> ObservedTx_IsEmpty tx"
  shows "voter_ok (fst (Voter_Add e v tx a))"
proof -
  obtain xs where xs: "fst (Voter_Add e v tx a) = v\<lparr>vo_Txs := xs\<rparr>" "ob_Tx ` set xs \<subseteq> insert (ob_Tx tx) (ob_Tx ` set (vo_Txs v))"
    using Voter_Add_frame by blast
  have "\<not> ObservedTx_IsEmpty x" if "x \<in> set xs" for x
  proof -
    from that xs(2) consider "ob_Tx x = ob_Tx tx" | y where "y \<in> set (vo_Txs v)" "ob_Tx x = ob_Tx y" by blast
    then show ?thesis by cases (use assms in \<open>auto simp: ObservedTx_IsEmpty_def voter_ok_def\<close>)
  qed
  then show ?thesis using assms(1) xs(1) by (simp add: voter_ok_def)
qed

lemma attest_voter_ok:
  assumes "processTxInAttestation e v nas tx sg pen s = (Inr (w, ok), t)" "voter_ok v" "\<not> ObservedTx_IsEmpty tx" "k_height s \<noteq> 0"
  shows "voter_ok w"
proof (cases rule: attest_cases [OF assms(1)])
  case 1
  then show ?thesis using assms(2) by simp
next
  case 2
  then show ?thesis using voter_ok_add [OF assms(2,3), of e sg] assms(4) by (simp add: voter_ok_def finalised_def)
next
  case 3
  then show ?thesis using voter_ok_add [OF assms(2,3), of e sg] assms(4)
    by (simp add: voter_ok_def discovered_def HasFinalised_def Let_def)
next
  case 4
  then show ?thesis using voter_ok_add [OF assms(2,3), of e sg] by (simp add: voter_ok_def)
qed

lemma attest_undecided:
  assumes "processTxInAttestation e v nas tx sg pen s = (Inr (w, ok), t)" "voter_ok v" "\<not> ObservedTx_IsEmpty tx" "k_height s \<noteq> 0"
    "undecided e nas v"
  shows "undecided e nas w"
proof (cases rule: attest_cases [OF assms(1)])
  case 1
  then show ?thesis using assms(5) by simp
next
  case 2
  then show ?thesis using assms(4) by (simp add: undecided_def finalised_def)
next
  case 3
  let ?v = "fst (Voter_Add e v tx sg)"
  have "voter_ok w" using attest_voter_ok [OF assms(1-4)] .
  moreover have "vo_FinalisedHeight w = 0" "box e w = box e ?v" using 3 by (simp_all add: discovered_def box_def)
  ultimately show ?thesis
    using HasFinalised_quorum [OF voter_ok_add [OF assms(2,3), of e sg], of e nas] HasFinalised_quorum [of w e nas] quorum_cong [of e w ?v] 3
    by (auto simp: undecided_def)
next
  case (4 ss)
  let ?v = "fst (Voter_Add e v tx sg)"
  have "HasFinalised e w nas = HasFinalised e ?v nas"
    using HasFinalised_signers [of e ss ?v nas] 4 by simp
  then show ?thesis using 4 by (simp add: undecided_def) blast
qed

section \<open>One attestation\<close>

lemma attest_box:
  assumes "processTxInAttestation e v nas tx sg pen s = (Inr (w, ok), t)" "acc_codec e"
  shows "box e w = insert (obs_form tx, sg) (box e v)"
  using Voter_Add_box [OF assms(2), of v tx sg] by (cases rule: attest_cases [OF assms(1)]) (auto simp: box_def finalised_def discovered_def)

lemma attest_quorum:
  assumes "processTxInAttestation e v nas tx sg pen s = (Inr (w, True), t)" "voter_ok v" "\<not> ObservedTx_IsEmpty tx"
  shows "vo_Tx w \<in> set (vo_Txs w) \<and> quorum e w nas (ObservedTx_IsFinal (vo_Tx w)) (ob_Tx (vo_Tx w))"
proof (cases rule: attest_cases [OF assms(1)])
  case 2
  then show ?thesis using GetTx_final [OF voter_ok_add [OF assms(2,3), of e sg], of e nas]
    by (simp add: finalised_def quorum_def consensusVoters_def)
next
  case 3
  then show ?thesis using GetTx_discovered [OF voter_ok_add [OF assms(2,3), of e sg], of e nas]
    by (simp add: discovered_def quorum_def consensusVoters_def)
qed simp_all

lemma attest_fields:
  assumes "processTxInAttestation e v nas tx sg pen s = (Inr (w, ok), t)"
  shows "vo_TxID w = vo_TxID v" "vo_Reverted w = vo_Reverted v" "vo_UpdatedVault w = vo_UpdatedVault v"
  by (cases rule: attest_cases [OF assms]; simp add: finalised_def discovered_def)+

text \<open>A vote after which a final transaction has its majority, on a voter that is not finalised, is announced.\<close>

lemma attest_finalises:
  assumes "(obs_form tx, sg) \<notin> box e v" "vo_FinalisedHeight v = 0" "HasFinalised e (fst (Voter_Add e v tx sg)) nas"
  obtains t where "processTxInAttestation e v nas tx sg pen s = (Inr (finalised e nas (k_height s) (fst (Voter_Add e v tx sg)), True), t)"
proof -
  obtain w ok t where run: "processTxInAttestation e v nas tx sg pen s = (Inr (w, ok), t)" using attest_total by blast
  then have "ok \<and> w = finalised e nas (k_height s) (fst (Voter_Add e v tx sg))" using assms by (cases rule: attest_cases [OF run]) auto
  then show ?thesis using run that by simp
qed

lemma finalised_is_final: "HasFinalised e v nas \<Longrightarrow> HasFinalised e (finalised e nas h v) nas \<and> ObservedTx_IsFinal (vo_Tx (finalised e nas h v))"
  by (auto simp: HasFinalised_def finalised_def GetTx_def [of e "v\<lparr>vo_Tx := x\<rparr>" for x] Let_def) (simp_all add: GetTx_def Let_def)

lemma attest_final_voter:
  assumes "processTxInAttestation e v nas tx sg pen s = (Inr (w, True), t)" "ObservedTx_IsFinal (vo_Tx w)" "k_height s \<noteq> 0"
  shows "HasFinalised e w nas \<and> vo_FinalisedHeight w \<noteq> 0"
proof (cases rule: attest_cases [OF assms(1)])
  case 2
  then show ?thesis using finalised_is_final assms(3) by (simp add: finalised_def)
next
  case 3
  then show ?thesis using assms(2) by (simp add: discovered_def HasConsensus_def HasFinalised_def Let_def)
qed simp_all

lemma HasFinalised_add:
  assumes "HasFinalised e v nas" "vo_FinalisedHeight v = 0" "voter_ok v" "\<not> ObservedTx_IsEmpty tx" "acc_codec e"
  shows "HasFinalised e (fst (Voter_Add e v tx sg)) nas"
proof -
  obtain y where "quorum e v nas True y" using HasFinalised_quorum [OF assms(3,2)] assms(1) by blast
  then have "quorum e (fst (Voter_Add e v tx sg)) nas True y" using quorum_mono Voter_Add_box [OF assms(5)] by blast
  then show ?thesis using HasFinalised_quorum [OF voter_ok_add [OF assms(3,4)]] assms(2) by auto
qed

text \<open>With the nodes unchanged, the vote that finalises a transaction is a vote for it.\<close>

lemma attest_decisive:
  assumes "processTxInAttestation e v nas tx sg pen s = (Inr (w, True), t)" "voter_ok v" "\<not> ObservedTx_IsEmpty tx"
    "undecided e nas v" "acc_codec e" "ObservedTx_IsFinal (vo_Tx w)"
  shows "ObservedTx_IsFinal tx \<and> EqualsEx (ob_Tx tx) (ob_Tx (vo_Tx w))"
proof (rule ccontr)
  assume other: "\<not> ?thesis"
  have q: "quorum e w nas True (ob_Tx (vo_Tx w))" using attest_quorum [OF assms(1-3)] assms(6) by simp
  have fin: "vo_FinalisedHeight v = 0" by (cases rule: attest_cases [OF assms(1)]) auto
  have "backers (insert (obs_form tx, sg) (box e v)) nas True (tx_form (ob_Tx (vo_Tx w))) = backers (box e v) nas True (tx_form (ob_Tx (vo_Tx w)))"
    using other by (intro backers_insert) (auto simp: EqualsEx_form)
  then have "quorum e v nas True (ob_Tx (vo_Tx w))"
    using q attest_box [OF assms(1,5)] by (simp add: quorum_def consensusVoters_card)
  then show False using HasFinalised_quorum [OF assms(2) fin] assms(4) fin by (auto simp: undecided_def)
qed

section \<open>Runs\<close>

text \<open>A run of attestations of one transaction: each vote comes with the active nodes and the height of its block.\<close>

fun attest_all :: "env \<Rightarrow> (NodeAccount list \<times> int \<times> ObservedTx \<times> AccAddress) list \<Rightarrow> ObservedTxVoter \<Rightarrow> (ObservedTxVoter \<times> bool list) kact" where
  "attest_all e [] v = ret (v, [])"
| "attest_all e ((nas, h, tx, a) # vs) v =
     bindA (modify (\<lambda>s. s\<lparr>k_height := h\<rparr>)) (\<lambda>_.
     bindA (processTxInAttestation e v nas tx a True) (\<lambda>(w, ok).
     bindA (attest_all e vs w) (\<lambda>(z, oks). ret (z, ok # oks))))"

lemma attest_all_Cons:
  assumes "attest_all e ((nas, h, tx, a) # vs) v s = (Inr (z, oks), t)"
  obtains w ok oks' u where "processTxInAttestation e v nas tx a True (s\<lparr>k_height := h\<rparr>) = (Inr (w, ok), u)"
    "attest_all e vs w u = (Inr (z, oks'), t)" "oks = ok # oks'"
  using assms by (auto simp: bindA_run modify_run ret_run)

lemma attest_all_total: "\<exists>z oks t. attest_all e vs v s = (Inr (z, oks), t)"
proof (induction vs arbitrary: v s)
  case Nil
  then show ?case by (simp add: ret_def)
next
  case (Cons x vs)
  obtain nas h tx a where x: "x = (nas, h, tx, a)" by (cases x)
  obtain w ok u where w: "processTxInAttestation e v nas tx a True (s\<lparr>k_height := h\<rparr>) = (Inr (w, ok), u)" using attest_total by blast
  obtain z oks t where "attest_all e vs w u = (Inr (z, oks), t)" using Cons by blast
  with w show ?case by (simp add: x bindA_def modify_def ret_def)
qed

text \<open>How many quorums a voter can still announce.\<close>

definition quorums_left :: "ObservedTxVoter \<Rightarrow> nat" where
  "quorums_left v = (if vo_FinalisedHeight v \<noteq> 0 then 0 else if vo_Height v \<noteq> 0 then 1 else 2)"

lemma attest_quorums_left:
  assumes "processTxInAttestation e v nas tx sg pen s = (Inr (w, ok), t)" "k_height s \<noteq> 0"
  shows "quorums_left w + (if ok then 1 else 0) \<le> quorums_left v"
  using assms(2) by (cases rule: attest_cases [OF assms(1)]) (auto simp: quorums_left_def finalised_def discovered_def)

lemma attest_finalised:
  assumes "processTxInAttestation e v nas tx sg pen s = (Inr (w, ok), t)" "vo_FinalisedHeight v \<noteq> 0"
  shows "\<not> ok \<and> vo_FinalisedHeight w = vo_FinalisedHeight v \<and> (\<exists>ss. vo_Tx w = (vo_Tx v)\<lparr>ob_Signers := ss\<rparr>)"
proof -
  have "\<exists>ss. vo_Tx v = (vo_Tx v)\<lparr>ob_Signers := ss\<rparr>" by (rule exI [of _ "ob_Signers (vo_Tx v)"]) simp
  then show ?thesis using assms(2) by (cases rule: attest_cases [OF assms(1)]) auto
qed

lemma attest_all_quorums:
  assumes "attest_all e vs v s = (Inr (z, oks), t)" "\<And>nas h tx a. (nas, h, tx, a) \<in> set vs \<Longrightarrow> h \<noteq> 0"
  shows "quorums_left z + length (filter id oks) \<le> quorums_left v"
  using assms
proof (induction vs arbitrary: v s oks)
  case Nil
  then show ?case by (simp add: ret_run)
next
  case (Cons x vs)
  obtain nas h tx a where x: "x = (nas, h, tx, a)" by (cases x)
  obtain w ok oks' u where w: "processTxInAttestation e v nas tx a True (s\<lparr>k_height := h\<rparr>) = (Inr (w, ok), u)"
    "attest_all e vs w u = (Inr (z, oks'), t)" "oks = ok # oks'" using attest_all_Cons Cons.prems(1) x by metis
  have "h \<noteq> 0" using Cons.prems(2) x by auto
  then show ?case using Cons.IH [OF w(2)] Cons.prems(2) attest_quorums_left [OF w(1)] w(3) by force
qed

lemma attest_all_finalised:
  assumes "attest_all e vs v s = (Inr (z, oks), t)" "vo_FinalisedHeight v \<noteq> 0"
  shows "vo_FinalisedHeight z = vo_FinalisedHeight v \<and> (\<exists>ss. vo_Tx z = (vo_Tx v)\<lparr>ob_Signers := ss\<rparr>)"
  using assms
proof (induction vs arbitrary: v s oks)
  case Nil
  then show ?case by (auto simp: ret_run) (rule exI [of _ "ob_Signers (vo_Tx v)"], simp)
next
  case (Cons x vs)
  obtain nas h tx a where x: "x = (nas, h, tx, a)" by (cases x)
  obtain w ok oks' u where w: "processTxInAttestation e v nas tx a True (s\<lparr>k_height := h\<rparr>) = (Inr (w, ok), u)"
    "attest_all e vs w u = (Inr (z, oks'), t)" using attest_all_Cons Cons.prems(1) x by metis
  note step = attest_finalised [OF w(1) Cons.prems(2)]
  then show ?case using Cons.IH [OF w(2)] Cons.prems(2) by auto
qed

section \<open>Decisions\<close>

text \<open>A finalised transaction has two thirds of the nodes behind it.\<close>

definition decided :: "env \<Rightarrow> NodeAccount list \<Rightarrow> ObservedTxVoter \<Rightarrow> bool" where
  "decided e nas v \<longleftrightarrow> (vo_FinalisedHeight v \<noteq> 0 \<longrightarrow> ObservedTx_IsFinal (vo_Tx v) \<and>
     2 * length nas \<le> 3 * card (backers (box e v) nas True (tx_form (ob_Tx (vo_Tx v)))))"

lemma attest_decided:
  assumes run: "processTxInAttestation e v nas tx sg pen s = (Inr (w, ok), t)" "voter_ok v" "\<not> ObservedTx_IsEmpty tx"
    and "acc_codec e" "decided e nas v"
  shows "decided e nas w"
proof (cases "vo_FinalisedHeight v = 0")
  case True
  show ?thesis
  proof (cases "ok \<and> vo_FinalisedHeight w \<noteq> 0")
    case ok: True
    then have "HasFinalised e (fst (Voter_Add e v tx sg)) nas \<and> vo_Tx w = GetTx e (fst (Voter_Add e v tx sg)) nas"
      using True by (cases rule: attest_cases [OF run(1)]) (auto simp: finalised_def discovered_def)
    then have "ObservedTx_IsFinal (vo_Tx w)" by (simp add: HasFinalised_def Let_def)
    moreover have "quorum e w nas (ObservedTx_IsFinal (vo_Tx w)) (ob_Tx (vo_Tx w))"
      using attest_quorum [of e v nas tx sg pen s w t] run ok by simp
    ultimately show ?thesis using quorum_backers by (fastforce simp: decided_def)
  next
    case False
    then have "vo_FinalisedHeight w = 0" using True by (cases rule: attest_cases [OF run(1)]) (auto simp: finalised_def discovered_def)
    then show ?thesis by (simp add: decided_def)
  qed
next
  case False
  then obtain ss where w: "vo_Tx w = (vo_Tx v)\<lparr>ob_Signers := ss\<rparr>" using attest_finalised [OF run(1)] by blast
  have "card (backers (box e v) nas True T) \<le> card (backers (box e w) nas True T)" for T
    using attest_box [OF run(1) assms(4)] by (intro card_mono finite_backers backers_mono) blast
  from this [of "tx_form (ob_Tx (vo_Tx v))"] show ?thesis using assms(5) False w by (simp add: decided_def)
qed

text \<open>Votes on a transaction while the active nodes stay the same.\<close>

definition votes_ok :: "NodeAccount list \<Rightarrow> (NodeAccount list \<times> int \<times> ObservedTx \<times> AccAddress) list \<Rightarrow> bool" where
  "votes_ok nas vs \<longleftrightarrow> list_all (\<lambda>(n, h, tx, a). n = nas \<and> h \<noteq> 0 \<and> \<not> ObservedTx_IsEmpty tx) vs"

lemma attest_all_inv:
  assumes "attest_all e vs v s = (Inr (z, oks), t)" "acc_codec e" "voter_ok v" "undecided e nas v" "decided e nas v"
    "votes_ok nas vs"
  shows "voter_ok z \<and> undecided e nas z \<and> decided e nas z \<and> box e z = box e v \<union> (\<lambda>(n, h, tx, a). (obs_form tx, a)) ` set vs"
  using assms
proof (induction vs arbitrary: v s oks)
  case Nil
  then show ?case by (simp add: ret_run)
next
  case (Cons x vs)
  obtain n h tx a where x: "x = (n, h, tx, a)" by (cases x)
  have x': "n = nas" "h \<noteq> 0" "\<not> ObservedTx_IsEmpty tx" "votes_ok nas vs" using Cons.prems(6) by (simp_all add: votes_ok_def x)
  obtain w ok oks' u where w: "processTxInAttestation e v nas tx a True (s\<lparr>k_height := h\<rparr>) = (Inr (w, ok), u)"
    "attest_all e vs w u = (Inr (z, oks'), t)" using attest_all_Cons Cons.prems(1) x x'(1) by metis
  have h: "k_height (s\<lparr>k_height := h\<rparr>) \<noteq> 0" using x'(2) by simp
  have inv: "voter_ok w" "undecided e nas w" "decided e nas w"
    using attest_voter_ok [OF w(1) _ x'(3) h] attest_undecided [OF w(1) _ x'(3) h] attest_decided [OF w(1) _ x'(3)] Cons.prems by blast+
  show ?case using Cons.IH [OF w(2) Cons.prems(2) inv x'(4)] attest_box [OF w(1) Cons.prems(2)] by (simp add: x)
qed

text \<open>Votes of two thirds of the nodes for one final transaction finalise one, and that one when these
  nodes vote for no other.\<close>

lemma attest_all_decides:
  assumes run: "attest_all e vs v s = (Inr (z, oks), t)" and "acc_codec e" "voter_ok v" "undecided e nas v" "decided e nas v"
    and votes: "votes_ok nas vs"
    and honest: "\<And>a. a \<in> H \<Longrightarrow> IsNodeKeys nas a \<and> (\<exists>n h. (n, h, T, a) \<in> set vs)" "ObservedTx_IsFinal T" "HasSuperMajority (card H) (length nas)"
  shows "vo_FinalisedHeight z \<noteq> 0"
proof
  assume fin: "vo_FinalisedHeight z = 0"
  note inv = attest_all_inv [OF run assms(2-5) votes]
  let ?B = "backers (box e z) nas True (tx_form (ob_Tx T))"
  have "H \<subseteq> ?B"
  proof
    fix a assume "a \<in> H"
    then obtain n h where "IsNodeKeys nas a" "(n, h, T, a) \<in> set vs" using honest(1) by blast
    moreover from this have "(obs_form T, a) \<in> box e z" using inv by force
    ultimately show "a \<in> ?B" using honest(2) unfolding backers_def by (metis (mono_tags, lifting) final_obs_form fst_obs_form mem_Collect_eq)
  qed
  then have "card H \<le> card ?B" by (simp add: card_mono finite_backers)
  moreover have "card (e_acc_string e ` ?B) = card ?B" using acc_string_inj [OF assms(2)] by (simp add: card_image inj_on_subset)
  moreover have "card ?B \<le> length nas" using card_mono [OF _ backers_subset, of nas "box e z" True "tx_form (ob_Tx T)"] card_length [of "map na_NodeAddress nas"] by simp
  ultimately have "quorum e z nas True (ob_Tx T)" using honest(3) by (simp add: quorum_def HasSuperMajority_iff consensusVoters_card)
  then show False using HasFinalised_quorum [of z e nas] inv fin by (auto simp: undecided_def)
qed

lemma attest_all_agrees:
  assumes run: "attest_all e vs v s = (Inr (z, oks), t)" and "acc_codec e" "voter_ok v" "undecided e nas v" "decided e nas v"
    and votes: "votes_ok nas vs"
    and honest: "\<And>a. a \<in> H \<Longrightarrow> IsNodeKeys nas a" "HasSuperMajority (card H) (length nas)"
      "\<And>n h x a. (n, h, x, a) \<in> set vs \<Longrightarrow> a \<in> H \<Longrightarrow> ObservedTx_IsFinal x \<Longrightarrow> EqualsEx (ob_Tx T) (ob_Tx x)"
    and fin: "vo_FinalisedHeight z \<noteq> 0" and fresh: "vo_Txs v = []"
  shows "EqualsEx (ob_Tx T) (ob_Tx (vo_Tx z))"
proof -
  note inv = attest_all_inv [OF run assms(2-5) votes]
  let ?B = "backers (box e z) nas True (tx_form (ob_Tx (vo_Tx z)))" and ?N = "set (map na_NodeAddress nas)"
  have "H \<subseteq> ?N" using honest(1) by (auto simp: IsNodeKeys_def list_ex_iff)
  moreover have "2 * length nas \<le> 3 * card ?B" using inv fin unfolding decided_def by blast
  ultimately have "length nas \<le> 3 * card (H \<inter> ?B)"
    using quorums_meet [of ?N H ?B "length nas"] backers_subset [of "box e z" nas True "tx_form (ob_Tx (vo_Tx z))"] honest(2) card_length [of "map na_NodeAddress nas"]
    by (simp add: HasSuperMajority_iff)
  moreover have "0 < length nas" using honest(2) by (auto simp: HasSuperMajority_iff)
  ultimately have "H \<inter> ?B \<noteq> {}" by (metis card.empty le_zero_eq mult_0_right not_less_zero)
  then obtain a where a: "a \<in> H" "a \<in> ?B" by blast
  then obtain F where F: "(F, a) \<in> box e z" "fst F = tx_form (ob_Tx (vo_Tx z))" "final_form F" by (auto simp: backers_def)
  have "box e v = {}" using fresh by (simp add: box_def)
  with F(1) inv obtain n h x where x: "(n, h, x, a) \<in> set vs" "F = obs_form x" by auto
  with honest(3) [OF x(1) a(1)] F show ?thesis by (simp add: EqualsEx_form)
qed

end
