(* ===== verification/Inbound_Laws.thy ===== *)
theory Inbound_Laws
  imports Inbound Attestation Deposit_Laws
begin

text \<open>
  The quorum of an inbound transaction and the funds of its vault: the vault is credited once, with
  the coins of the observation that is handled.
\<close>

section \<open>Frames\<close>

text \<open>What lies outside the deposit flow and the outbound queue.\<close>

locale outside_deposits =
  fixes f :: "kstate \<Rightarrow> 'b"
  assumes deposit_reads: "f (s\<lparr>k_txouts := q1\<rparr>) = f s" "f (s\<lparr>k_fee_pool := q2\<rparr>) = f s" "f (s\<lparr>k_deposits := q3\<rparr>) = f s"
    "f (s\<lparr>k_sessions := q4\<rparr>) = f s" "f (s\<lparr>k_pow_timings := q5\<rparr>) = f s" "f (s\<lparr>k_pow_tokens := q6\<rparr>) = f s"
    "f (s\<lparr>k_observers := q7\<rparr>) = f s" "f (s\<lparr>k_last_chain := q8\<rparr>) = f s"
begin

lemma same_sweep: "same f (queueVaultPathSweep e tx pk i)"
  unfolding queueVaultPathSweep_def by (auto intro!: act_keeps deposit_reads)

lemma same_match: "same f (MatchCoreDeposit e tx)"
  unfolding MatchCoreDeposit_def Let_def by (auto intro!: act_keeps deposit_reads)

lemma same_recorded: "same f (RecordDepositObservation e tx fin)"
  unfolding RecordDepositObservation_def Let_def by (auto intro!: act_keeps deposit_reads split: option.split)

lemma same_direct: "same f (queueDirectBaseVaultDepositReturn e tx v)"
  unfolding queueDirectBaseVaultDepositReturn_def Let_def by (auto intro!: act_keeps deposit_reads)

lemma same_observers: "same f (AppendObserver e c as)"
  unfolding AppendObserver_def by (auto intro!: act_keeps same_modify deposit_reads)

lemma same_chain: "same f (SetLastChainHeight c h)"
  unfolding SetLastChainHeight_def by (auto intro!: act_keeps same_modify deposit_reads)

end

interpretation vaults: outside_deposits "\<lambda>s. (k_vaults s, k_vault_index s, k_vault_eddsa s)"
  by unfold_locales simp_all

interpretation voters: outside_deposits k_txin_voters
  by unfold_locales simp_all

section \<open>The credit\<close>

text \<open>The stored voter of a transaction: whether the vault was credited, and the transaction agreed on.\<close>

definition voter_noted :: "TxID \<Rightarrow> bool \<Rightarrow> int \<Rightarrow> Tx \<Rightarrow> kstate \<Rightarrow> bool" where
  "voter_noted i credited h x s \<longleftrightarrow> vo_UpdatedVault (GetObservedTxInVoter i s) = credited \<and>
     vo_FinalisedHeight (GetObservedTxInVoter i s) = h \<and> ob_Tx (vo_Tx (GetObservedTxInVoter i s)) = x"

lemma voter_noted_same: "same k_txin_voters m \<Longrightarrow> keeps (voter_noted i c h x) m"
  by (auto simp: keeps_def same_def voter_noted_def GetObservedTxInVoter_def)

lemmas noted_frames = voters.same_sweep [THEN voter_noted_same] voters.same_match [THEN voter_noted_same]
  voters.same_recorded [THEN voter_noted_same] voters.same_direct [THEN voter_noted_same] voters.same_observers [THEN voter_noted_same]

lemma SetDone_fields [simp]: "vo_TxID (Voter_SetDone v) = vo_TxID v" "vo_UpdatedVault (Voter_SetDone v) = vo_UpdatedVault v"
  "ob_Tx (vo_Tx (Voter_SetDone v)) = ob_Tx (vo_Tx v)" "vo_FinalisedHeight (Voter_SetDone v) = vo_FinalisedHeight v"
  by (simp_all add: Voter_SetDone_def Voter_setStatus_def)

lemma set_voter_noted: "SetObservedTxInVoter v s = (r, t) \<Longrightarrow> voter_noted (vo_TxID v) (vo_UpdatedVault v) (vo_FinalisedHeight v) (ob_Tx (vo_Tx v)) t"
  by (auto simp: SetObservedTxInVoter_def modify_def voter_noted_def GetObservedTxInVoter_def)

lemma keeps_done: "keeps (voter_noted (vo_TxID v) (vo_UpdatedVault v) (vo_FinalisedHeight v) (ob_Tx (vo_Tx v))) (doneTxIn v)"
  by (simp add: keeps_def doneTxIn_def SetObservedTxInVoter_def modify_def voter_noted_def GetObservedTxInVoter_def)

lemma keeps_dispatch: "keeps (voter_noted (vo_TxID v) (vo_UpdatedVault v) (vo_FinalisedHeight v) (ob_Tx (vo_Tx v))) (dispatchTxIn e tx v vault fin)"
  unfolding dispatchTxIn_def
  by (auto intro!: act_keeps keeps_done noted_frames)

lemma same_vaults_done: "same (\<lambda>s. (k_vaults s, k_vault_index s, k_vault_eddsa s)) (doneTxIn v)"
  unfolding doneTxIn_def SetObservedTxInVoter_def by (auto intro!: act_keeps same_modify)

lemma same_vaults_dispatch: "same (\<lambda>s. (k_vaults s, k_vault_index s, k_vault_eddsa s)) (dispatchTxIn e tx v vault fin)"
  unfolding dispatchTxIn_def
  by (auto intro!: act_keeps same_vaults_done vaults.same_sweep vaults.same_match vaults.same_recorded)

lemma AddFunds_fields: "va_PubKey (AddFunds v cs) = va_PubKey v" "va_Type (AddFunds v cs) = va_Type v" "va_PubKeyEddsa (AddFunds v cs) = va_PubKeyEddsa v"
  unfolding AddFunds_def by (induction cs arbitrary: v) (simp_all add: addFund_def Let_def split: option.split)

lemma creditFinalised_fields:
  assumes "creditFinalised vault v tx fin False = (vault1, v1)"
  shows "va_PubKey vault1 = va_PubKey vault" "va_Type vault1 = va_Type vault" "vo_TxID v1 = vo_TxID v" "vo_Tx v1 = vo_Tx v"
    "vo_FinalisedHeight v1 = vo_FinalisedHeight v"
  using assms by (auto simp: creditFinalised_def AddFunds_fields split: if_splits)

text \<open>What follows the stored voter and vault: observers, returns, deposits and sweeps.\<close>

definition after_credit :: "env \<Rightarrow> ObservedTx \<Rightarrow> ObservedTxVoter \<Rightarrow> Vault \<Rightarrow> bool \<Rightarrow> unit kact" where
  "after_credit e tx voter2 vault2 hasFinalised =
     bindA (AppendObserver e (t_Chain (ob_Tx tx)) (GetSigners e (vo_Tx voter2))) (\<lambda>_.
     bindA (gets (returnsDirectDeposit e tx vault2 hasFinalised)) (\<lambda>direct.
     bindA (if direct then logged (queueDirectBaseVaultDepositReturn e (vo_Tx voter2) vault2) else ret None) (\<lambda>returned.
     if returned \<noteq> None then doneTxIn voter2
     else dispatchTxIn e tx voter2 vault2 hasFinalised)))"

lemma after_credit_frames:
  "same (\<lambda>s. (k_vaults s, k_vault_index s, k_vault_eddsa s)) (after_credit e tx v vault fin)"
  "keeps (voter_noted (vo_TxID v) (vo_UpdatedVault v) (vo_FinalisedHeight v) (ob_Tx (vo_Tx v))) (after_credit e tx v vault fin)"
  unfolding after_credit_def
  by (auto intro!: act_keeps same_vaults_done same_vaults_dispatch vaults.same_observers vaults.same_direct keeps_done keeps_dispatch noted_frames)

lemma bind_eq: "m s = (Inr x, u) \<Longrightarrow> bindA m f s = f x u"
  by (simp add: bindA_def)

lemma set_chain_logged: "\<exists>q. (if c then bindA (logged (SetLastChainHeight ch h)) (\<lambda>_. ret ()) else ret ()) s = (Inr (), s\<lparr>k_last_chain := q\<rparr>)"
proof -
  have "s = s\<lparr>k_last_chain := k_last_chain s\<rparr>" by simp
  then show ?thesis by (auto simp: SetLastChainHeight_def logged_def attempt_def act_defs intro: exI [of _ "k_last_chain s"])
qed

lemma SetVault_base:
  assumes "Vault_IsBase v" "getBaseIndex e s = Inr pks"
  shows "\<exists>u. logged (SetVault e v) s = (Inr (Some ()), u) \<and> k_vaults u = kv_set (skey (va_PubKey v)) v (k_vaults s) \<and> k_txin_voters u = k_txin_voters s"
  using assms by (auto simp: SetVault_def addBaseIndex_def logged_def attempt_def act_defs)

lemma quorum_credit:
  assumes run: "handleObservedTxInQuorum e nas tx voter obs True s = (r, t)"
    and voter: "\<not> vo_Reverted voter"
    and vault: "GetVault (ob_ObservedPubKey tx) s = Inr vault" "Vault_IsBase vault" "getBaseIndex e s = Inr pks"
    and mig: "\<not> observedBTCMigrationInbound tx s"
    and credit: "creditFinalised vault voter tx (HasFinalised e voter nas) False = (vault1, voter1)"
  shows "k_vaults t = kv_set (skey (va_PubKey vault)) vault1 (k_vaults s)"
    "voter_noted (vo_TxID voter) (vo_UpdatedVault voter1) (vo_FinalisedHeight voter) (ob_Tx (vo_Tx voter)) t"
proof -
  note fields = creditFinalised_fields [OF credit]
  have base: "Vault_IsBase vault1" using vault(2) fields(2) by (simp add: Vault_IsBase_def)
  have get: "logged (bindA (gets (GetVault (ob_ObservedPubKey tx))) lift_result) s = (Inr (Some vault), s)"
    using vault(1) by (simp add: logged_def attempt_def act_defs)
  have dest: "creditBTCMigrationInboundDestination vault1 voter1 tx s = (vault1, voter1)"
    using mig by (simp add: creditBTCMigrationInboundDestination_def)
  obtain q where q: "(if ob_BlockHeight tx > 0 then bindA (logged (SetLastChainHeight (t_Chain (ob_Tx tx)) (ob_BlockHeight tx))) (\<lambda>_. ret ()) else ret ()) s
      = (Inr (), s\<lparr>k_last_chain := q\<rparr>)" using set_chain_logged by blast
  let ?u = "snd (SetObservedTxInVoter voter1 (s\<lparr>k_last_chain := q\<rparr>))"
  have set: "SetObservedTxInVoter voter1 (s\<lparr>k_last_chain := q\<rparr>) = (Inr (), ?u)" by (simp add: SetObservedTxInVoter_def modify_def)
  have "getBaseIndex e ?u = Inr pks" using vault(3) by (simp add: SetObservedTxInVoter_def modify_def getBaseIndex_def)
  then obtain u where u: "logged (SetVault e vault1) ?u = (Inr (Some ()), u)"
    "k_vaults u = kv_set (skey (va_PubKey vault1)) vault1 (k_vaults ?u)" "k_txin_voters u = k_txin_voters ?u"
    using SetVault_base [OF base] by blast
  have b1: "bindA (logged (bindA (gets (GetVault (ob_ObservedPubKey tx))) lift_result)) f s = f (Some vault) s" for f :: "_ \<Rightarrow> unit kact"
    using get by (rule bind_eq)
  have b2: "bindA (if ob_BlockHeight tx > 0 then bindA (logged (SetLastChainHeight (t_Chain (ob_Tx tx)) (ob_BlockHeight tx))) (\<lambda>_. ret ()) else ret ()) f s
      = f () (s\<lparr>k_last_chain := q\<rparr>)" for f :: "_ \<Rightarrow> unit kact" using q by (rule bind_eq)
  have b3: "bindA (SetObservedTxInVoter voter1) f (s\<lparr>k_last_chain := q\<rparr>) = f () ?u" for f :: "_ \<Rightarrow> unit kact" using set by (rule bind_eq)
  have b4: "bindA (logged (SetVault e vault1)) f ?u = f (Some ()) u" for f :: "_ \<Rightarrow> unit kact" using u(1) by (rule bind_eq)
  have b5: "bindA (gets g) f x = f (g x) x" for g and f :: "_ \<Rightarrow> unit kact" and x by (simp add: bindA_def gets_def)
  have b6: "bindA (ret y) f x = f y x" for y and f :: "_ \<Rightarrow> unit kact" and x by (simp add: bindA_def ret_def)
  have "handleObservedTxInQuorum e nas tx voter obs True s = after_credit e tx voter1 vault1 (HasFinalised e voter nas) u"
    unfolding handleObservedTxInQuorum_def after_credit_def b5 Let_def using voter mig credit base
    by (simp add: b1 b2 b3 b4 b5 b6 dest)
  with run have t: "after_credit e tx voter1 vault1 (HasFinalised e voter nas) u = (r, t)" by simp
  have "voter_noted (vo_TxID voter1) (vo_UpdatedVault voter1) (vo_FinalisedHeight voter1) (ob_Tx (vo_Tx voter1)) u"
    using set_voter_noted [OF set] u(3) by (simp add: voter_noted_def GetObservedTxInVoter_def)
  from keepsD [OF after_credit_frames(2) this t] fields(3-5)
  show "voter_noted (vo_TxID voter) (vo_UpdatedVault voter1) (vo_FinalisedHeight voter) (ob_Tx (vo_Tx voter)) t" by simp
  from sameD [OF after_credit_frames(1) t] u(2) fields(1)
  show "k_vaults t = kv_set (skey (va_PubKey vault)) vault1 (k_vaults s)" by (simp add: SetObservedTxInVoter_def modify_def)
qed

section \<open>One observation\<close>

text \<open>An attestation writes penalty points, observed heights and the voter.\<close>

definition attest_frame :: "kstate \<Rightarrow> kstate" where
  "attest_frame s = s\<lparr>k_last_observe := [], k_penalties := [], k_txin_voters := []\<rparr>"

lemma same_attest: "same attest_frame (processTxInAttestation e v nas tx sg pen)"
proof -
  have inc: "same attest_frame (IncPenaltyPoints e p xs)" and dec: "same attest_frame (DecPenaltyPoints e p xs)" for p xs
    unfolding IncPenaltyPoints_def DecPenaltyPoints_def IncNodeAccountPenaltyPoints_def DecNodeAccountPenaltyPoints_def SetNodeAccountPenaltyPoints_def
    by (auto intro!: act_keeps same_modify simp: attest_frame_def)
  have obs: "same attest_frame (SetLastObserveHeight e c a h)" for c a h
    unfolding SetLastObserveHeight_def Let_def by (auto intro!: same_modify simp: attest_frame_def split: option.split)
  have set: "same attest_frame (SetObservedTxInVoter w)" for w
    unfolding SetObservedTxInVoter_def by (auto intro!: same_modify simp: attest_frame_def)
  have settle: "same attest_frame (settlePenalties e p q nas w)" for p q w
    unfolding settlePenalties_def Let_def by (auto intro!: act_keeps inc dec)
  have fin: "same attest_frame (finaliseTxIn e p q fl w nas tx sg)" and dis: "same attest_frame (discoverTxIn e p q fl w ok nas tx sg)" for p q fl w ok
    unfolding finaliseTxIn_def discoverTxIn_def countLateSigner_def Let_def by (auto intro!: act_keeps dec settle)
  show ?thesis unfolding processTxInAttestation_def by (auto intro!: act_keeps inc dec obs set fin dis split: prod.split)
qed

lemma frame_reads:
  assumes "attest_frame u = attest_frame s"
  shows "k_vaults u = k_vaults s" "k_height u = k_height s" "GetVault pk u = GetVault pk s" "getBaseIndex e u = getBaseIndex e s"
    "observedBTCMigrationInbound tx u = observedBTCMigrationInbound tx s"
proof -
  have v: "getVault_rec n pk (attest_frame x) = getVault_rec n pk x" for n x
    by (induction n arbitrary: pk) (simp_all add: attest_frame_def getBaseEDDSAIndex_def split: option.split)
  have "k_vault_eddsa (attest_frame x) = k_vault_eddsa x" for x by (simp add: attest_frame_def)
  with v have "GetVault pk (attest_frame x) = GetVault pk x" for x by (simp add: GetVault_def)
  moreover have "observedBTCMigrationInbound tx (attest_frame x) = observedBTCMigrationInbound tx x" for x
    by (simp add: attest_frame_def observedBTCMigrationInbound_def getConfigDurationBlocks_def GetConfigInt64_def GetConfig_def GetTxOut_def Let_def)
  moreover have "getBaseIndex e (attest_frame x) = getBaseIndex e x" "k_vaults (attest_frame x) = k_vaults x" "k_height (attest_frame x) = k_height x" for x
    by (simp_all add: attest_frame_def getBaseIndex_def)
  ultimately show "k_vaults u = k_vaults s" "k_height u = k_height s" "GetVault pk u = GetVault pk s" "getBaseIndex e u = getBaseIndex e s"
    "observedBTCMigrationInbound tx u = observedBTCMigrationInbound tx s" using assms by metis+
qed

text \<open>An observation whose attestation finalises the voter credits the vault with the coins it observed.\<close>

lemma observe_credit:
  assumes run: "observeTxIn e nas sg tx s = (r, t)"
    and attest: "processTxInAttestation e (GetObservedTxInVoter (BTCOutpointScopedTxID e (ob_Tx tx)) s) nas tx sg True s = (Inr (w, True), u)"
    and w: "HasFinalised e w nas" "\<not> vo_Reverted w" "\<not> vo_UpdatedVault w"
    and vault: "VaultExists (ob_ObservedPubKey tx) s" "GetVault (ob_ObservedPubKey tx) s = Inr vault" "Vault_IsBase vault" "getBaseIndex e s = Inr pks"
    and tx: "\<not> observedBTCMigrationInbound tx s" "\<not> Address_Equals (t_FromAddress (ob_Tx tx)) (t_ToAddress (ob_Tx tx))"
  shows "k_vaults t = kv_set (skey (va_PubKey vault))
      ((AddFunds vault (t_Coins (ob_Tx tx)))\<lparr>va_InboundTxCount := wrap64 (va_InboundTxCount vault + 1)\<rparr>) (k_vaults s)"
    "voter_noted (vo_TxID w) True (vo_FinalisedHeight w) (ob_Tx (vo_Tx w)) t"
proof -
  let ?h = "handleObservedTxInQuorum e nas tx w (GetSigners e (vo_Tx w)) True"
  have ens: "ensureVaultAndGetTxInVoter (ob_ObservedPubKey tx) (BTCOutpointScopedTxID e (ob_Tx tx)) s
      = Inr (GetObservedTxInVoter (BTCOutpointScopedTxID e (ob_Tx tx)) s)" using vault(1) by (simp add: ensureVaultAndGetTxInVoter_def)
  have "observeTxIn e nas sg tx s = bindA (logged ?h) (\<lambda>_. ret ()) u"
    unfolding observeTxIn_def using attest ens by (simp add: bindA_def gets_def)
  then have "snd (?h u) = t" using run
    by (auto simp: bindA_def logged_def attempt_def ret_def fail_def split: prod.splits sum.splits error.splits)
  then obtain r' where h: "?h u = (r', t)" by (metis prod.collapse)
  note fr = frame_reads [OF sameD [OF same_attest attest]]
  have credit: "creditFinalised vault w tx (HasFinalised e w nas) False =
      ((AddFunds vault (t_Coins (ob_Tx tx)))\<lparr>va_InboundTxCount := wrap64 (va_InboundTxCount vault + 1)\<rparr>, w\<lparr>vo_UpdatedVault := True\<rparr>)"
    using w vault(3) tx(2) by (simp add: creditFinalised_def)
  note q = quorum_credit [OF h w(2) _ vault(3) _ _ credit, unfolded fr, OF vault(2,4) tx(1)]
  show "k_vaults t = kv_set (skey (va_PubKey vault))
      ((AddFunds vault (t_Coins (ob_Tx tx)))\<lparr>va_InboundTxCount := wrap64 (va_InboundTxCount vault + 1)\<rparr>) (k_vaults s)" using q(1) .
  show "voter_noted (vo_TxID w) True (vo_FinalisedHeight w) (ob_Tx (vo_Tx w)) t" using q(2) by simp
qed

text \<open>Once the voter is finalised, observations change no vault.\<close>

lemma observe_finalised:
  assumes "vo_FinalisedHeight (GetObservedTxInVoter (BTCOutpointScopedTxID e (ob_Tx tx)) s) \<noteq> 0" "\<not> observedBTCMigrationInbound tx s"
  shows "k_vaults (snd (observeTxIn e nas sg tx s)) = k_vaults s"
proof (cases "VaultExists (ob_ObservedPubKey tx) s")
  case True
  let ?v = "GetObservedTxInVoter (BTCOutpointScopedTxID e (ob_Tx tx)) s"
  obtain w ok u where attest: "processTxInAttestation e ?v nas tx sg True s = (Inr (w, ok), u)" using attest_total by blast
  note fr = frame_reads [OF sameD [OF same_attest attest]]
  have ok: "\<not> ok" using attest_finalised [OF attest assms(1)] by simp
  let ?h = "handleObservedTxInQuorum e nas tx w (GetSigners e (vo_Tx w)) False"
  obtain r t where h: "?h u = (r, t)" by (cases "?h u")
  have same: "same (\<lambda>s. (k_vaults s, k_vault_index s, k_vault_eddsa s)) (if c then AppendObserver e ch as else ret ())" for c ch as
    by (auto intro!: act_keeps vaults.same_observers)
  let ?a = "if vo_Height w = k_height u \<or> vo_FinalisedHeight w = k_height u then AppendObserver e (t_Chain (ob_Tx tx)) (GetSigners e (vo_Tx w)) else ret ()"
  have "fst (?a u) = Inr ()" by (simp add: AppendObserver_def modify_def ret_def)
  then obtain u' where u': "?a u = (Inr (), u')" by (metis prod.collapse)
  have tail: "k_vaults (snd (bindA (gets (observedBTCMigrationInbound tx)) (\<lambda>m. if c \<and> d \<and> m then bindA (settleBTCMigrationSourceVault e tx) (\<lambda>_. ret ()) else ret ()) u'))
      = k_vaults u" for c d
  proof -
    have "observedBTCMigrationInbound tx u' = observedBTCMigrationInbound tx u"
      using u' by (auto simp: AppendObserver_def modify_def ret_def observedBTCMigrationInbound_def getConfigDurationBlocks_def GetConfigInt64_def
        GetConfig_def GetTxOut_def Let_def split: if_splits)
    then show ?thesis using assms(2) fr(5) sameD [OF same u'] by (simp add: bindA_def gets_def ret_def)
  qed
  have "?h u = bindA ?a (\<lambda>_. bindA (gets (observedBTCMigrationInbound tx)) (\<lambda>m. if vo_FinalisedHeight w > 0 \<and> ObservedTx_IsFinal tx \<and> m
      then bindA (settleBTCMigrationSourceVault e tx) (\<lambda>_. ret ()) else ret ())) u"
    unfolding handleObservedTxInQuorum_def by (simp add: bindA_def gets_def)
  also have "\<dots> = bindA (gets (observedBTCMigrationInbound tx)) (\<lambda>m. if vo_FinalisedHeight w > 0 \<and> ObservedTx_IsFinal tx \<and> m
      then bindA (settleBTCMigrationSourceVault e tx) (\<lambda>_. ret ()) else ret ()) u'"
    using u' by (rule bind_eq)
  finally have "k_vaults t = k_vaults u" using tail h by (metis snd_conv)
  then show ?thesis using True attest ok h fr(1)
    by (auto simp: observeTxIn_def ensureVaultAndGetTxInVoter_def bindA_def gets_def logged_def attempt_def ret_def fail_def split: sum.split error.split)
next
  case False
  then show ?thesis by (simp add: observeTxIn_def ensureVaultAndGetTxInVoter_def bindA_def gets_def ret_def)
qed

end
