(* ===== verification/Outbound.thy ===== *)
theory Outbound
  imports Inbound Withdraw
begin

text \<open>
  Observed outbound transactions: the attestation with its gas correction, the match of a transaction to
  the queued items it pays, and what a quorum does to the vault (\<^verbatim>\<open>handler_observed_tx_helpers.go\<close>,
  \<^verbatim>\<open>handler_observed_txout.go\<close>). The gas manager's tally and the keysign metrics are part of the state.
  The local \<^verbatim>\<open>vaultPenalty\<close> is never set, and its branches are left out with the logs and events.
\<close>

section \<open>The gas manager and the unmatched outbounds\<close>

definition Gas_ToCoins :: "Coins \<Rightarrow> Coins" where
  "Gas_ToCoins g = map (\<lambda>c. NewCoin (co_Asset c) (co_Amount c)) g"

definition countGasAssets :: "Coins \<Rightarrow> (Asset \<rightharpoonup> int) \<Rightarrow> (Asset \<rightharpoonup> int)" where
  "countGasAssets gas counts =
     fold (\<lambda>a m. m(a \<mapsto> wrap64 ((case m a of None \<Rightarrow> 0 | Some n \<Rightarrow> n) + 1))) (remdups (map co_Asset gas)) counts"

fun addOutAssetGas :: "Asset \<Rightarrow> Coins \<Rightarrow> (Asset \<times> Coins) list \<Rightarrow> (Asset \<times> Coins) list" where
  "addOutAssetGas outAsset gas [] = [(outAsset, gas)]"
| "addOutAssetGas outAsset gas ((a, g) # gs) =
     (if Asset_Equals a outAsset then (a, Coins_Add g gas) # gs else (a, g) # addOutAssetGas outAsset gas gs)"

definition AddGasAsset :: "Asset \<Rightarrow> Coins \<Rightarrow> bool \<Rightarrow> unit kact" where
  "AddGasAsset outAsset gas increaseTxCount =
     modify (\<lambda>s. s\<lparr>k_out_asset_gas := addOutAssetGas outAsset gas (k_out_asset_gas s),
       k_gas_count := (if increaseTxCount then countGasAssets gas (k_gas_count s) else k_gas_count s)\<rparr>)"

definition SetUnmatchedOutboundHeight :: "TxID \<Rightarrow> int \<Rightarrow> unit kact" where
  "SetUnmatchedOutboundHeight txID height = modify (\<lambda>s. s\<lparr>k_unmatched := kv_set (skey (ToLower txID)) height (k_unmatched s)\<rparr>)"

definition GetUnmatchedOutboundHeight :: "TxID \<Rightarrow> kstate \<Rightarrow> int" where
  "GetUnmatchedOutboundHeight txID s = (case kv_get (k_unmatched s) (skey (ToLower txID)) of Some h \<Rightarrow> h | None \<Rightarrow> 0)"

definition DeleteUnmatchedOutbound :: "TxID \<Rightarrow> unit kact" where
  "DeleteUnmatchedOutbound txID = modify (\<lambda>s. s\<lparr>k_unmatched := kv_del (skey (ToLower txID)) (k_unmatched s)\<rparr>)"

text \<open>The signing of the chain and the solvency check are halted from the height on.\<close>

definition haltBTCVaultForIssue :: "unit kact" where
  "haltBTCVaultForIssue = modify (\<lambda>s. s\<lparr>k_halt_signing := Some (k_height s), k_config := (k_config s)(Halt_SolvencyCheck \<mapsto> k_height s)\<rparr>)"

definition AddNodeFrostTime :: "FrostKeysignMetric \<Rightarrow> AccAddress \<Rightarrow> int \<Rightarrow> FrostKeysignMetric" where
  "AddNodeFrostTime m addr keygenTime =
     m\<lparr>fm_NodeFrostTimes :=
       (case find (\<lambda>i. fst (fm_NodeFrostTimes m ! i) = addr) [0..<length (fm_NodeFrostTimes m)] of
          Some i \<Rightarrow> (fm_NodeFrostTimes m)[i := (fst (fm_NodeFrostTimes m ! i), keygenTime)]
        | None \<Rightarrow> fm_NodeFrostTimes m @ [(addr, keygenTime)])\<rparr>"

definition GetFrostKeysignMetric :: "TxID \<Rightarrow> kstate \<Rightarrow> FrostKeysignMetric" where
  "GetFrostKeysignMetric txID s =
     (case kv_get (k_keysign_metrics s) (skey txID) of Some m \<Rightarrow> m | None \<Rightarrow> \<lparr>fm_TxID = txID, fm_NodeFrostTimes = []\<rparr>)"

definition SetFrostKeysignMetric :: "FrostKeysignMetric \<Rightarrow> unit kact" where
  "SetFrostKeysignMetric metric = modify (\<lambda>s. s\<lparr>k_keysign_metrics := kv_set (skey (fm_TxID metric)) metric (k_keysign_metrics s),
     k_keysign_latest := Some metric\<rparr>)"

section \<open>Kinds of outbound transactions\<close>

definition isOutboundFakeGasTx :: "ObservedTx \<Rightarrow> bool" where "isOutboundFakeGasTx tx = False"
definition isTronZeroGasTx :: "ObservedTx \<Rightarrow> bool" where "isTronZeroGasTx tx = False"
definition IsEVM :: "Chain \<Rightarrow> bool" where "IsEVM c = False"

definition DustThreshold :: "Chain \<Rightarrow> nat" where
  "DustThreshold c = (if c = BTCChain then 1000 else 0)"

definition isCancelOrApprovalTx :: "ObservedTx \<Rightarrow> bool" where
  "isCancelOrApprovalTx tx =
     (case t_Coins (ob_Tx tx) of
        [c] \<Rightarrow> IsEVM (as_Chain (co_Asset c)) \<and> Asset_Equals (co_Asset c) (GetGasAsset (as_Chain (co_Asset c))) \<and>
          co_Amount c = DustThreshold (as_Chain (co_Asset c))
      | _ \<Rightarrow> False)"

definition observedOutboundRequiresTxOutMatch :: "ObservedTx \<Rightarrow> bool" where
  "observedOutboundRequiresTxOutMatch tx \<longleftrightarrow> Chain_Equals (t_Chain (ob_Tx tx)) BTCChain \<and>
     \<not> (ob_ObservedPubKey tx = [] \<or> isOutboundFakeGasTx tx \<or> isCancelOrApprovalTx tx)"

definition isBTCChildSweepToRoot :: "env \<Rightarrow> ObservedTx \<Rightarrow> PubKey \<Rightarrow> bool" where
  "isBTCChildSweepToRoot e tx pubkey =
     (let derive = (\<lambda>i. e_taproot e pubkey i);
          children = (\<lambda>ty. case VaultDepositLookaheadPathIndexes ty of Inl _ \<Rightarrow> None
            | Inr is \<Rightarrow> (let as = takeWhile (\<lambda>r. (case r of Inr a \<Rightarrow> \<not> Address_Equals (t_FromAddress (ob_Tx tx)) a | Inl _ \<Rightarrow> False)) (map derive is) in
                if length as = length is then Some False
                else (case map derive is ! length as of Inl _ \<Rightarrow> None | Inr _ \<Rightarrow> Some True))) in
      if \<not> Chain_Equals (t_Chain (ob_Tx tx)) BTCChain \<or> pubkey = [] then False
      else case derive MainVaultPathIndex of
        Inl _ \<Rightarrow> False
      | Inr rootAddr \<Rightarrow>
          if \<not> Address_Equals (t_ToAddress (ob_Tx tx)) rootAddr then False
          else case children VaultDepositPathUser of None \<Rightarrow> False | Some True \<Rightarrow> True
            | Some False \<Rightarrow> children VaultDepositPathNode = Some True)"

definition addGasFees :: "env \<Rightarrow> ObservedTx \<Rightarrow> unit kact" where
  "addGasFees e tx =
     (if Coins_IsEmpty (t_Gas (ob_Tx tx)) \<or> isTronZeroGasTx tx then ret ()
      else bindA (gets (VaultExists (ob_ObservedPubKey tx))) (\<lambda>exists.
      if \<not> exists then ret ()
      else bindA (bindA (gets (GetVault (ob_ObservedPubKey tx))) lift_result) (\<lambda>v.
      let vault = SubFunds v (Gas_ToCoins (t_Gas (ob_Tx tx))) in
      bindA (SetVault e vault) (\<lambda>_.
      if va_Status vault = InactiveVault then ret ()
      else AddGasAsset (case t_Coins (ob_Tx tx) of [] \<Rightarrow> EmptyAsset | c # _ \<Rightarrow> co_Asset c) (t_Gas (ob_Tx tx)) True))))"

section \<open>Attesting an outbound transaction\<close>

definition countMatchingSigners :: "env \<Rightarrow> ObservedTxVoter \<Rightarrow> ObservedTx \<Rightarrow> NodeAccount list \<Rightarrow> nat" where
  "countMatchingSigners e voter tx nas =
     card (set (map (e_acc_string e) (filter (IsNodeKeys nas)
       (concat (map (GetSigners e) (filter (\<lambda>o1. ObservedTx_IsFinal o1 = ObservedTx_IsFinal tx \<and> EqualsEx (ob_Tx o1) (ob_Tx tx)) (vo_Txs voter)))))))"

text \<open>One coin of the corrected gas: the vault, and the gas that was spent in addition.\<close>

definition correctGasCoin :: "Coins \<Rightarrow> Vault \<times> Coins \<Rightarrow> Coin \<Rightarrow> Vault \<times> Coins" where
  "correctGasCoin oldGas acc c =
     (case acc of (vault, additional) \<Rightarrow>
        let oldAmount = co_Amount (GetCoin (Gas_ToCoins oldGas) (co_Asset c)) in
        if co_Amount c > oldAmount then
          let delta = NewCoin (co_Asset c) (co_Amount c - oldAmount) in (SubFunds vault [delta], Coins_Add additional [delta])
        else if oldAmount > co_Amount c then (AddFunds vault [NewCoin (co_Asset c) (oldAmount - co_Amount c)], additional)
        else (vault, additional))"

definition correctOutboundGas :: "env \<Rightarrow> ObservedTx \<Rightarrow> ObservedTx \<Rightarrow> unit kact" where
  "correctOutboundGas e consensusTx correctedTx =
     bindA (logged (bindA (gets (GetVault (ob_ObservedPubKey correctedTx))) lift_result)) (\<lambda>r.
     case r of
       None \<Rightarrow> ret ()
     | Some v \<Rightarrow>
         let (vault, additionalGas) = foldl (correctGasCoin (t_Gas (ob_Tx consensusTx))) (v, []) (t_Gas (ob_Tx correctedTx)) in
         bindA (logged (SetVault e vault)) (\<lambda>ok.
         if ok = None \<or> Coins_IsEmpty additionalGas \<or> va_Status vault = InactiveVault then ret ()
         else AddGasAsset (case t_Coins (ob_Tx correctedTx) of [] \<Rightarrow> EmptyAsset | c # _ \<Rightarrow> co_Asset c) additionalGas False))"

definition gasCorrection :: "env \<Rightarrow> ObservedTxVoter \<Rightarrow> NodeAccount list \<Rightarrow> ObservedTx \<Rightarrow> ObservedTxVoter kact" where
  "gasCorrection e voter nas tx =
     (if \<not> Gas_Equals (t_Gas (ob_Tx (vo_Tx voter))) (t_Gas (ob_Tx tx)) \<and> EqualsExIgnoreGas (ob_Tx (vo_Tx voter)) (ob_Tx tx) \<and>
         HasSuperMajority (countMatchingSigners e voter tx nas) (length nas)
      then bindA (correctOutboundGas e (vo_Tx voter) tx) (\<lambda>_.
        ret (voter\<lparr>vo_Tx := (vo_Tx voter)\<lparr>ob_Tx := (ob_Tx (vo_Tx voter))\<lparr>t_Gas := t_Gas (ob_Tx tx)\<rparr>\<rparr>\<rparr>))
      else ret voter)"

text \<open>The branch for a final consensus and the one for a consensus that is not final. The quorum is
  announced only by the first of them that is reached.\<close>

definition finaliseTxOut :: "env \<Rightarrow> int \<Rightarrow> int \<Rightarrow> int \<Rightarrow> ObservedTxVoter \<Rightarrow> NodeAccount list \<Rightarrow> ObservedTx \<Rightarrow> AccAddress \<Rightarrow>
    (ObservedTxVoter \<times> bool) kact" where
  "finaliseTxOut e observePts lackPts observeFlex voter nas tx signer =
     bindA (gets k_height) (\<lambda>h.
     if \<not> HasFinalised e voter nas then ret (voter, False)
     else bindA (
       if vo_FinalisedHeight voter = 0 then
         let first = (vo_Height voter = 0);
             v1 = (if first then voter\<lparr>vo_Height := h, vo_UnfinalizedHeight := (if vo_UnfinalizedHeight voter = 0 then h else vo_UnfinalizedHeight voter)\<rparr>
               else voter);
             v2 = v1\<lparr>vo_FinalisedHeight := h\<rparr>;
             v3 = v2\<lparr>vo_Tx := GetTx e v2 nas\<rparr> in
         thenA (settlePenalties e observePts lackPts nas v3) (ret (v3, first))
       else if h \<le> wrap64 (vo_FinalisedHeight voter + observeFlex) \<and> late_signer e voter tx signer then
         bindA (countLateSigner e (wrap64 (observePts + lackPts)) voter signer) (\<lambda>v. ret (v, False))
       else ret (voter, False)) (\<lambda>(v, ok).
     if vo_FinalisedHeight v > 0 \<and> ObservedTx_IsFinal (vo_Tx v) = ObservedTx_IsFinal tx
     then bindA (gasCorrection e v nas tx) (\<lambda>v'. ret (v', ok)) else ret (v, ok)))"

definition discoverTxOut :: "env \<Rightarrow> int \<Rightarrow> int \<Rightarrow> int \<Rightarrow> ObservedTxVoter \<Rightarrow> bool \<Rightarrow> NodeAccount list \<Rightarrow> ObservedTx \<Rightarrow> AccAddress \<Rightarrow>
    (ObservedTxVoter \<times> bool) kact" where
  "discoverTxOut e observePts lackPts observeFlex voter ok nas tx signer =
     (if ok \<or> \<not> HasConsensus e voter nas \<or> ObservedTx_IsFinal tx \<or> vo_FinalisedHeight voter \<noteq> 0 then ret (voter, ok)
      else bindA (discoverTxIn e observePts lackPts observeFlex voter ok nas tx signer) (\<lambda>(v, ok').
        if vo_Height v > 0 then bindA (gasCorrection e v nas tx) (\<lambda>v'. ret (v', ok')) else ret (v, ok')))"

definition processTxOutAttestation :: "env \<Rightarrow> ObservedTxVoter \<Rightarrow> NodeAccount list \<Rightarrow> ObservedTx \<Rightarrow> AccAddress \<Rightarrow> bool \<Rightarrow>
    (ObservedTxVoter \<times> bool) kact" where
  "processTxOutAttestation e voter nas tx signer shouldPenalizeForDuplicate =
     bindA (gets (GetConfigInt64 Observation_SubmitPenaltyPoints)) (\<lambda>observePts.
     bindA (gets (GetConfigInt64 Observation_MissPenaltyPoints)) (\<lambda>lackPts.
     bindA (gets (getConfigDurationBlocks Observation_DelayFlexibilityMinutes)) (\<lambda>observeFlex.
     bindA (if ob_BlockHeight tx > 0 then SetLastObserveHeight e (t_Chain (ob_Tx tx)) signer (ob_BlockHeight tx) else ret ()) (\<lambda>_.
     bindA (IncPenaltyPoints e observePts [signer]) (\<lambda>_.
     case Voter_Add e voter tx signer of (voter1, added) \<Rightarrow>
       if \<not> added then
         bindA (if \<not> shouldPenalizeForDuplicate \<or> isExactObservedTxReplay e voter1 tx signer \<or> isFinalBTCObservedTxReplay e voter1 tx signer
                then DecPenaltyPoints e observePts [signer] else ret ()) (\<lambda>_. ret (voter1, False))
       else
         bindA (finaliseTxOut e observePts lackPts observeFlex voter1 nas tx signer) (\<lambda>(voter2, ok).
         bindA (discoverTxOut e observePts lackPts observeFlex voter2 ok nas tx signer) (\<lambda>(voter3, ok3).
         bindA (SetObservedTxOutVoter voter3) (\<lambda>_. ret (voter3, ok3)))))))))"

section \<open>Matching an observed outbound to queued items\<close>

definition observedTxInputsSubsetOfTxOut :: "TxInput list \<Rightarrow> TxOutInput list \<Rightarrow> bool" where
  "observedTxInputsSubsetOfTxOut observed expected \<longleftrightarrow>
     \<not> (observed = [] \<or> expected = [] \<or> length observed > length expected) \<and> match_all (\<lambda>got want. input_spent want got) observed expected"

definition txOutInputsFromObserved :: "TxInput list \<Rightarrow> TxOutInput list" where
  "txOutInputsFromObserved observed = map (\<lambda>i. \<lparr>ti_TxId = in_TxID i, ti_Vout = in_Vout i, ti_AmountSats = in_AmountSats i, ti_PathIndex = 0\<rparr>) observed"

definition paidFromSource :: "env \<Rightarrow> ObservedTx \<Rightarrow> TxOutItem \<Rightarrow> bool" where
  "paidFromSource e tx item \<longleftrightarrow> (case e_taproot e (to_VaultPubKey item) (to_VaultPathIndex item) of
     Inl _ \<Rightarrow> False | Inr sourceAddr \<Rightarrow> Address_Equals (t_FromAddress (ob_Tx tx)) sourceAddr)"

text \<open>The amounts of a transfer within the vaults, and of a payment to anyone else.\<close>

definition internalAmountsMatch :: "ObservedTx \<Rightarrow> TxOutItem \<Rightarrow> bool \<Rightarrow> bool" where
  "internalAmountsMatch tx item subset_only =
     (let maxGas = co_Amount (GetCoin (to_MaxGas item) BTCAsset);
          observedAmount = co_Amount (GetCoin (t_Coins (ob_Tx tx)) BTCAsset);
          observedGas = co_Amount (GetCoin (t_Gas (ob_Tx tx)) BTCAsset);
          sourceTotal = (if subset_only then sum_list (map (\<lambda>i. unat (in_AmountSats i)) (t_SourceInputs (ob_Tx tx)))
            else sum_list (map (\<lambda>i. unat (ti_AmountSats i)) (to_SourceInputs item)));
          intended = max (co_Amount (to_Coin item) + maxGas) sourceTotal;
          actual = observedAmount + observedGas in
      if subset_only then observedAmount \<noteq> 0 \<and> actual = sourceTotal \<and> maxGas \<noteq> 0 \<and> observedGas \<le> maxGas
      else actual \<le> intended \<and> observedGas \<le> maxGas \<and> co_Amount (to_Coin item) \<le> observedAmount \<and> observedAmount \<le> intended)"

definition paymentMatches :: "ObservedTx \<Rightarrow> TxOutItem \<Rightarrow> bool" where
  "paymentMatches tx item =
     (let asset = GetGasAsset (to_Chain item);
          intended = co_Amount (to_Coin item) + co_Amount (GetCoin (to_MaxGas item) asset);
          observedAmount = co_Amount (GetCoin (t_Coins (ob_Tx tx)) asset);
          actual = observedAmount + co_Amount (GetCoin (t_Gas (ob_Tx tx)) asset) in
      Coins_EqualsEx (t_Coins (ob_Tx tx)) [to_Coin item] \<or>
      Asset_Equals (co_Asset (to_Coin item)) asset \<and>
        (actual = intended \<or> Chain_Equals (t_Chain (ob_Tx tx)) BTCChain \<and> co_Amount (to_Coin item) \<le> observedAmount \<and> observedAmount \<le> intended))"

definition observedOutboundMatchesTxOut :: "env \<Rightarrow> ObservedTx \<Rightarrow> TxOutItem \<Rightarrow> bool" where
  "observedOutboundMatchesTxOut e tx item =
     (let btcInternal = (Chain_Equals (t_Chain (ob_Tx tx)) BTCChain \<and> (IsInternalTxOutType (to_TxType item) \<or> to_VaultPathIndex item \<noteq> 0));
          exact = observedTxSpentTxOutInputs (t_SourceInputs (ob_Tx tx)) (to_SourceInputs item);
          subset = (to_TxType item = TxOutTypeConsolidate \<and> observedTxInputsSubsetOfTxOut (t_SourceInputs (ob_Tx tx)) (to_SourceInputs item)) in
      if \<not> TxID_IsEmpty (to_OutHash item) \<or> \<not> Chain_Equals (t_Chain (ob_Tx tx)) (to_Chain item) \<or>
         \<not> Address_Equals (t_ToAddress (ob_Tx tx)) (to_ToAddress item) then False
      else if ob_ObservedPubKey tx \<noteq> to_VaultPubKey item \<and> (\<not> btcInternal \<or> \<not> paidFromSource e tx item) then False
      else if btcInternal \<and> (to_SourceInputs item \<noteq> [] \<and> \<not> exact \<and> \<not> subset \<or> \<not> paidFromSource e tx item) then False
      else if btcInternal \<and> Asset_Equals (co_Asset (to_Coin item)) BTCAsset then internalAmountsMatch tx item (subset \<and> \<not> exact)
      else paymentMatches tx item)"

definition observedOutboundMatchesTxOutExact :: "env \<Rightarrow> ObservedTx \<Rightarrow> TxOutItem \<Rightarrow> bool" where
  "observedOutboundMatchesTxOutExact e tx item \<longleftrightarrow>
     \<not> (to_SourceInputs item = [] \<or> length (t_SourceInputs (ob_Tx tx)) \<noteq> length (to_SourceInputs item)) \<and>
     observedTxSpentTxOutInputs (t_SourceInputs (ob_Tx tx)) (to_SourceInputs item) \<and> observedOutboundMatchesTxOut e tx item"

definition observedOutboundMatchesSettledTxOut :: "env \<Rightarrow> ObservedTx \<Rightarrow> TxOutItem \<Rightarrow> bool" where
  "observedOutboundMatchesSettledTxOut e tx item =
     (if TxID_IsEmpty (to_OutHash item) \<or> \<not> TxID_Equals (to_OutHash item) (t_ID (ob_Tx tx)) \<or> \<not> Chain_Equals (t_Chain (ob_Tx tx)) (to_Chain item) \<or>
         \<not> Address_Equals (t_ToAddress (ob_Tx tx)) (to_ToAddress item) \<or> ob_ObservedPubKey tx \<noteq> to_VaultPubKey item then False
      else if Chain_Equals (t_Chain (ob_Tx tx)) BTCChain \<and> IsInternalTxOutType (to_TxType item) then
        (to_SourceInputs item = [] \<or> observedTxSpentTxOutInputs (t_SourceInputs (ob_Tx tx)) (to_SourceInputs item)) \<and> paidFromSource e tx item \<and>
        co_Amount (GetCoin (t_Coins (ob_Tx tx)) BTCAsset) = co_Amount (to_Coin item)
      else observedOutboundMatchesTxOut e tx
        (TxOutItem_zero\<lparr>to_Chain := to_Chain item, to_ToAddress := to_ToAddress item, to_VaultPubKey := to_VaultPubKey item, to_Coin := to_Coin item,
           to_MaxGas := to_MaxGas item, to_GasRate := to_GasRate item, to_InHash := to_InHash item, to_ModuleName := to_ModuleName item,
           to_TxType := to_TxType item, to_VaultPathIndex := to_VaultPathIndex item, to_SourceInputs := to_SourceInputs item\<rparr>))"

section \<open>Batches\<close>

record btcEpochBatchExpectations =
  be_externalTotal :: nat
  be_selfTotal :: nat
  be_unionValue :: nat
  be_totalMaxGas :: nat
  be_inputs :: "TxOutInput list"
  be_items :: nat
  be_vinOnly :: nat

definition expectItem :: "ObservedTx \<Rightarrow> Address \<Rightarrow> bool \<Rightarrow> btcEpochBatchExpectations \<Rightarrow> TxOutItem \<Rightarrow> btcEpochBatchExpectations option" where
  "expectItem tx rootAddr requireOutHash ex item =
     (if (if requireOutHash then TxID_IsEmpty (to_OutHash item) \<or> \<not> TxID_Equals (to_OutHash item) (t_ID (ob_Tx tx)) else \<not> TxID_IsEmpty (to_OutHash item)) \<or>
         \<not> Chain_Equals (to_Chain item) BTCChain \<or> to_VaultPubKey item \<noteq> ob_ObservedPubKey tx \<or> \<not> btcEpochBatchItem item \<or>
         \<not> Asset_Equals (co_Asset (to_Coin item)) BTCAsset \<or> to_SourceInputs item = [] \<or>
         be_inputs ex \<noteq> [] \<and> \<not> btcTxOutInputsEqual (be_inputs ex) (to_SourceInputs item) then None
      else
        let ex1 = (if be_inputs ex = [] then ex\<lparr>be_inputs := to_SourceInputs item\<rparr> else ex);
            ex2 = (if btcBatchVinOnlyItem item then ex1\<lparr>be_vinOnly := be_vinOnly ex1 + 1\<rparr>
              else if Address_Equals (to_ToAddress item) rootAddr then ex1\<lparr>be_selfTotal := be_selfTotal ex1 + co_Amount (to_Coin item)\<rparr>
              else ex1\<lparr>be_externalTotal := be_externalTotal ex1 + co_Amount (to_Coin item)\<rparr>) in
        Some (ex2\<lparr>be_totalMaxGas := be_totalMaxGas ex2 + co_Amount (GetCoin (to_MaxGas item) BTCAsset), be_items := be_items ex2 + 1\<rparr>))"

fun expectItems :: "ObservedTx \<Rightarrow> Address \<Rightarrow> bool \<Rightarrow> btcEpochBatchExpectations \<Rightarrow> TxOutItem list \<Rightarrow> btcEpochBatchExpectations option" where
  "expectItems tx rootAddr req ex [] = Some ex"
| "expectItems tx rootAddr req ex (i # is) = (case expectItem tx rootAddr req ex i of None \<Rightarrow> None | Some ex' \<Rightarrow> expectItems tx rootAddr req ex' is)"

definition btcEpochBatchExpectationsFor :: "TxOut \<Rightarrow> ObservedTx \<Rightarrow> Address \<Rightarrow> bool \<Rightarrow> btcEpochBatchExpectations option" where
  "btcEpochBatchExpectationsFor txOut tx rootAddr requireOutHash =
     (case expectItems tx rootAddr requireOutHash
        \<lparr>be_externalTotal = 0, be_selfTotal = 0, be_unionValue = 0, be_totalMaxGas = 0, be_inputs = [], be_items = 0, be_vinOnly = 0\<rparr> (tx_TxArray txOut) of
        None \<Rightarrow> None
      | Some ex \<Rightarrow> if be_items ex > 0 then Some (ex\<lparr>be_unionValue := btcSourceInputsAmount (be_inputs ex)\<rparr>) else None)"

definition btcEpochBatchAmountMatches :: "btcEpochBatchExpectations \<Rightarrow> nat \<Rightarrow> nat \<Rightarrow> bool" where
  "btcEpochBatchAmountMatches ex observedAmount observedGas =
     (if be_externalTotal ex \<noteq> 0 then observedAmount = be_externalTotal ex
      else if be_selfTotal ex \<noteq> 0 then observedAmount = be_selfTotal ex
      else if be_unionValue ex \<le> observedGas then False
      else observedAmount = be_unionValue ex - observedGas)"

text \<open>The checks shared by the match of an open batch and of one that is already settled.\<close>

definition batchMatches :: "env \<Rightarrow> TxOut \<Rightarrow> ObservedTx \<Rightarrow> bool \<Rightarrow> bool" where
  "batchMatches e txOut tx requireOutHash =
     (if \<not> Chain_Equals (t_Chain (ob_Tx tx)) BTCChain \<or> tx_TxArray txOut = [] then False
      else case e_taproot e (ob_ObservedPubKey tx) MainVaultPathIndex of
        Inl _ \<Rightarrow> False
      | Inr rootAddr \<Rightarrow>
          (case btcEpochBatchExpectationsFor txOut tx rootAddr requireOutHash of
             None \<Rightarrow> False
           | Some ex \<Rightarrow>
               \<not> (be_items ex < 2 \<and> \<not> (be_vinOnly ex = be_items ex \<and> be_items ex = 1 \<and> co_Amount (to_Coin (hd (tx_TxArray txOut))) = 0)) \<and>
               \<not> (\<not> Address_Equals (t_FromAddress (ob_Tx tx)) rootAddr \<and> be_vinOnly ex = 0) \<and>
               btcEpochBatchAmountMatches ex (co_Amount (GetCoin (t_Coins (ob_Tx tx)) BTCAsset)) (co_Amount (GetCoin (t_Gas (ob_Tx tx)) BTCAsset)) \<and>
               observedTxSpentTxOutInputs (t_SourceInputs (ob_Tx tx)) (be_inputs ex) \<and> be_totalMaxGas ex \<noteq> 0))"

definition observedOutboundAlreadyMatchedTxOutBatch :: "env \<Rightarrow> TxOut \<Rightarrow> ObservedTx \<Rightarrow> bool" where
  "observedOutboundAlreadyMatchedTxOutBatch e txOut tx \<longleftrightarrow> \<not> TxID_IsEmpty (t_ID (ob_Tx tx)) \<and> batchMatches e txOut tx True"

definition observedOutboundAlreadyMatchedTxOut :: "env \<Rightarrow> TxOut \<Rightarrow> ObservedTx \<Rightarrow> bool" where
  "observedOutboundAlreadyMatchedTxOut e txOut tx \<longleftrightarrow> observedOutboundAlreadyMatchedTxOutBatch e txOut tx \<or>
     \<not> TxID_IsEmpty (t_ID (ob_Tx tx)) \<and>
     list_ex (\<lambda>item. \<not> TxID_IsEmpty (to_OutHash item) \<and> TxID_Equals (to_OutHash item) (t_ID (ob_Tx tx)) \<and>
       (observedOutboundMatchesSettledTxOut e tx item \<or> observedOutboundMatchesTxOut e tx (item\<lparr>to_OutHash := []\<rparr>))) (tx_TxArray txOut)"

definition observedOutboundAlreadySettledAnyTxOut :: "env \<Rightarrow> ObservedTx \<Rightarrow> kstate \<Rightarrow> bool" where
  "observedOutboundAlreadySettledAnyTxOut e tx s \<longleftrightarrow> \<not> TxID_IsEmpty (t_ID (ob_Tx tx)) \<and>
     list_ex (\<lambda>b. observedOutboundAlreadyMatchedTxOut e b tx) (kv_values (k_txouts s))"

definition observedOutboundAlreadyMatchedHistoricalTxOut :: "env \<Rightarrow> ObservedTx \<Rightarrow> kstate \<Rightarrow> bool" where
  "observedOutboundAlreadyMatchedHistoricalTxOut e tx s \<longleftrightarrow>
     \<not> (\<not> ObservedTx_IsFinal tx \<or> TxID_IsEmpty (t_ID (ob_Tx tx)) \<or> \<not> observedOutboundRequiresTxOutMatch tx) \<and>
     list_ex (\<lambda>b. observedOutboundAlreadyMatchedTxOut e b tx) (kv_values (k_txouts s))"

definition markMatchedTxOutItemSettled :: "env \<Rightarrow> TxOutItem \<Rightarrow> ObservedTx \<Rightarrow> unit kact" where
  "markMatchedTxOutItemSettled e item tx =
     bindA (if to_TxType item = TxOutTypeSweep \<and> \<not> TxID_IsEmpty (to_InHash item) then markDepositSweepComplete item else ret ()) (\<lambda>_.
     bindA (if to_TxType item = TxOutTypeRefund \<and> \<not> TxID_IsEmpty (to_InHash item) then
         bindA (gets (GetDepositRecord (to_InHash item))) (\<lambda>deposit.
         if dr_Status deposit = DepositStatusReturnQueued
         then bindA (logged (SetDepositRecord (deposit\<lparr>dr_Status := DepositStatusReturnComplete\<rparr>))) (\<lambda>_. ret ()) else ret ())
       else ret ()) (\<lambda>_.
     if to_TxType item = TxOutTypeOut \<and> \<not> TxID_IsEmpty (to_InHash item) then
       bindA (gets (GetShielderRedeem (to_InHash item))) (\<lambda>redeem.
       if rd_Status redeem = DepositStatusKeysignQueued then
         bindA (logged (SetShielderRedeem e (redeem\<lparr>rd_Status := ShielderRedeemStatusSettled, rd_OutHash := t_ID (ob_Tx tx)\<rparr>))) (\<lambda>_.
         if \<not> TxID_IsEmpty (t_ID (ob_Tx tx))
         then bindA (logged (SetShielderRedeemOutHash (t_ID (ob_Tx tx)) (rd_WithdrawalID redeem))) (\<lambda>_. ret ()) else ret ())
       else ret ())
     else ret ()))"

fun stampBatch :: "TxID \<Rightarrow> u32 \<Rightarrow> TxOutItem list \<Rightarrow> TxOutItem list" where
  "stampBatch i vout [] = []"
| "stampBatch i vout (item # items) =
     (if btcBatchVinOnlyItem item then item\<lparr>to_OutHash := i, to_OutVout := 0\<rparr> # stampBatch i vout items
      else item\<lparr>to_OutHash := i, to_OutVout := vout\<rparr> # stampBatch i (vout + 1) items)"

definition markObservedOutboundTxOutBatch :: "env \<Rightarrow> TxOut \<Rightarrow> ObservedTx \<Rightarrow> bool kact" where
  "markObservedOutboundTxOutBatch e txOut tx =
     (if \<not> batchMatches e txOut tx False then ret False
      else let b = txOut\<lparr>tx_TxArray := stampBatch (t_ID (ob_Tx tx)) 0 (tx_TxArray txOut)\<rparr> in
        bindA (SetTxOut b) (\<lambda>_. bindA (forA (\<lambda>item. markMatchedTxOutItemSettled e item tx) (tx_TxArray b)) (\<lambda>_. ret True)))"

section \<open>Settling items\<close>

text \<open>The first item of the blocks at the given heights that satisfies the condition, with its block and index.\<close>

definition first_item :: "(TxOutItem \<Rightarrow> bool) \<Rightarrow> int list \<Rightarrow> kstate \<Rightarrow> (TxOut \<times> nat) option" where
  "first_item P hs s =
     (case concat (map (\<lambda>h. map (\<lambda>i. (GetTxOut h s, i)) (filter (\<lambda>i. P (tx_TxArray (GetTxOut h s) ! i)) [0..<length (tx_TxArray (GetTxOut h s))])) hs) of
        [] \<Rightarrow> None | r # _ \<Rightarrow> Some r)"

definition heights_up :: "int \<Rightarrow> int \<Rightarrow> int list" where
  "heights_up l h = map (\<lambda>i. l + int i) [0..<nat (h - l + 1)]"

definition settleItem :: "env \<Rightarrow> ObservedTx \<Rightarrow> TxOut \<Rightarrow> nat \<Rightarrow> TxOutItem \<Rightarrow> unit kact" where
  "settleItem e tx txOut i item =
     bindA (SetTxOut (txOut\<lparr>tx_TxArray := (tx_TxArray txOut)[i := item]\<rparr>)) (\<lambda>_. markMatchedTxOutItemSettled e item tx)"

text \<open>An internal item takes over the coin, the inputs and the gas that were observed.\<close>

definition adoptObserved :: "ObservedTx \<Rightarrow> TxOutItem \<Rightarrow> TxOutItem" where
  "adoptObserved tx item =
     (let observedCoin = GetCoin (t_Coins (ob_Tx tx)) BTCAsset; observedGas = GetCoin (Gas_ToCoins (t_Gas (ob_Tx tx))) BTCAsset;
          i1 = (if \<not> Coin_IsEmpty observedCoin \<and> co_Amount observedCoin \<noteq> 0 then item\<lparr>to_Coin := observedCoin\<rparr> else item);
          i2 = (if t_SourceInputs (ob_Tx tx) \<noteq> [] then i1\<lparr>to_SourceInputs := txOutInputsFromObserved (t_SourceInputs (ob_Tx tx))\<rparr> else i1) in
      if \<not> Coin_IsEmpty observedGas then i2\<lparr>to_MaxGas := [observedGas]\<rparr> else i2)"

definition stampItem :: "ObservedTx \<Rightarrow> TxOutItem \<Rightarrow> TxOutItem" where
  "stampItem tx item = item\<lparr>to_OutHash := t_ID (ob_Tx tx), to_OutVout := 0\<rparr>"

fun markFirstBatch :: "env \<Rightarrow> ObservedTx \<Rightarrow> int list \<Rightarrow> bool kact" where
  "markFirstBatch e tx [] = ret False"
| "markFirstBatch e tx (h # hs) =
     bindA (gets (GetTxOut h)) (\<lambda>b. bindA (markObservedOutboundTxOutBatch e b tx) (\<lambda>m. if m then ret True else markFirstBatch e tx hs))"

definition findMatchingBTCInternalTxOut :: "env \<Rightarrow> ObservedTx \<Rightarrow> kstate \<Rightarrow> (TxOutItem \<times> int) option" where
  "findMatchingBTCInternalTxOut e tx s =
     map_option (\<lambda>(b, i). (tx_TxArray b ! i, tx_Height b))
       (first_item (\<lambda>item. IsInternalTxOutType (to_TxType item) \<and> \<not> TxID_IsEmpty (to_OutHash item) \<and> TxID_Equals (to_OutHash item) (t_ID (ob_Tx tx)) \<and>
          observedOutboundMatchesSettledTxOut e tx item) (heights_down (k_height s) 1) s)"

definition markObservedBTCInternalHistoricalTxOutPass :: "env \<Rightarrow> ObservedTx \<Rightarrow> int \<Rightarrow> bool \<Rightarrow> bool kact" where
  "markObservedBTCInternalHistoricalTxOutPass e tx latestHeight exact =
     bindA (gets (first_item (\<lambda>item. IsInternalTxOutType (to_TxType item) \<and> TxID_IsEmpty (to_OutHash item) \<and>
         (if exact then observedOutboundMatchesTxOutExact e tx item else observedOutboundMatchesTxOut e tx item)) (heights_down latestHeight 1))) (\<lambda>r.
     case r of None \<Rightarrow> ret False
     | Some (b, i) \<Rightarrow> bindA (settleItem e tx b i (adoptObserved tx (stampItem tx (tx_TxArray b ! i)))) (\<lambda>_. ret True))"

definition markObservedBTCInternalHistoricalTxOut :: "env \<Rightarrow> ObservedTx \<Rightarrow> int \<Rightarrow> bool kact" where
  "markObservedBTCInternalHistoricalTxOut e tx latestHeight =
     (if latestHeight < 1 \<or> \<not> ObservedTx_IsFinal tx \<or> \<not> Chain_Equals (t_Chain (ob_Tx tx)) BTCChain \<or> t_SourceInputs (ob_Tx tx) = [] then ret False
      else bindA (markObservedBTCInternalHistoricalTxOutPass e tx latestHeight True) (\<lambda>m.
        if m then ret True else markObservedBTCInternalHistoricalTxOutPass e tx latestHeight False))"

definition txOutHasPendingItems :: "TxOut \<Rightarrow> bool" where
  "txOutHasPendingItems txOut \<longleftrightarrow> list_ex (\<lambda>item. TxID_IsEmpty (to_OutHash item)) (tx_TxArray txOut)"

text \<open>The better of two open items: one with exactly the observed inputs, then one of a later block.\<close>

definition betterOpen :: "env \<Rightarrow> ObservedTx \<Rightarrow> (TxOut \<times> nat) option \<Rightarrow> TxOut \<times> nat \<Rightarrow> (TxOut \<times> nat) option" where
  "betterOpen e tx best c =
     (let exact = (\<lambda>(b, i). observedOutboundMatchesTxOutExact e tx (tx_TxArray b ! i)) in
      case best of
        None \<Rightarrow> Some c
      | Some c0 \<Rightarrow> if exact c \<and> \<not> exact c0 \<or> exact c = exact c0 \<and> tx_Height (fst c) > tx_Height (fst c0) then Some c else best)"

definition openCandidates :: "env \<Rightarrow> ObservedTx \<Rightarrow> TxOut list \<Rightarrow> (TxOut \<times> nat) list" where
  "openCandidates e tx bs = concat (map (\<lambda>b. map (Pair b) (filter (\<lambda>i. TxID_IsEmpty (to_OutHash (tx_TxArray b ! i)) \<and>
     observedOutboundMatchesTxOut e tx (tx_TxArray b ! i)) [0..<length (tx_TxArray b)])) bs)"

definition markObservedOpenBTCOutboundOutsideSigningWindow :: "env \<Rightarrow> ObservedTx \<Rightarrow> int \<Rightarrow> bool kact" where
  "markObservedOpenBTCOutboundOutsideSigningWindow e tx latestHeight =
     (if latestHeight < 1 \<or> \<not> ObservedTx_IsFinal tx \<or> \<not> Chain_Equals (t_Chain (ob_Tx tx)) BTCChain \<or> \<not> observedOutboundRequiresTxOutMatch tx then ret False
      else bindA (gets (\<lambda>s. \<not> observedOutboundAlreadySettledAnyTxOut e tx s)) (\<lambda>batchEligible.
      bindA (gets (\<lambda>s. filter (\<lambda>b. \<not> (tx_Height b > latestHeight \<or> TxOut_IsEmpty b \<or> \<not> txOutHasPendingItems b)) (kv_values (k_txouts s)))) (\<lambda>open_blocks.
      case (if batchEligible then find (\<lambda>b. batchMatches e b tx False) open_blocks else None) of
        Some b \<Rightarrow> markObservedOutboundTxOutBatch e b tx
      | None \<Rightarrow>
          (case foldl (betterOpen e tx) None (openCandidates e tx open_blocks) of
             None \<Rightarrow> ret False
           | Some (b, i) \<Rightarrow> bindA (settleItem e tx b i (stampItem tx (tx_TxArray b ! i))) (\<lambda>_. ret True)))))"

definition signingWindowStart :: "kstate \<Rightarrow> int" where
  "signingWindowStart s =
     (let earliest = wrap64 (k_height s - getConfigDurationBlocks Keysign_PeriodMinutes s) in if earliest < 1 then 1 else earliest)"

definition markObservedOutboundTxOutStatus :: "env \<Rightarrow> ObservedTx \<Rightarrow> (bool \<times> bool) kact" where
  "markObservedOutboundTxOutStatus e tx =
     bindA (gets k_height) (\<lambda>h. bindA (gets signingWindowStart) (\<lambda>earliestHeight.
     bindA (gets (\<lambda>s. list_ex (\<lambda>height. observedOutboundAlreadyMatchedTxOut e (GetTxOut height s) tx) (heights_up earliestHeight h))) (\<lambda>already.
     if already then ret (True, False)
     else bindA (gets (observedOutboundAlreadySettledAnyTxOut e tx)) (\<lambda>settled.
     bindA (if settled then ret False else markFirstBatch e tx (heights_up earliestHeight h)) (\<lambda>batch.
     if batch then ret (True, True)
     else bindA (gets (first_item (observedOutboundMatchesTxOut e tx) (heights_down h earliestHeight))) (\<lambda>r.
     case r of
       Some (b, i) \<Rightarrow>
         let item = tx_TxArray b ! i; stamped = stampItem tx item;
             item' = (if Chain_Equals (t_Chain (ob_Tx tx)) BTCChain \<and> IsInternalTxOutType (to_TxType item) \<and> Asset_Equals (co_Asset (to_Coin item)) BTCAsset
               then adoptObserved tx stamped else stamped) in
         bindA (settleItem e tx b i item') (\<lambda>_. ret (True, True))
     | None \<Rightarrow>
         bindA (markObservedBTCInternalHistoricalTxOut e tx (earliestHeight - 1)) (\<lambda>m1.
         if m1 then ret (True, True)
         else bindA (markObservedOpenBTCOutboundOutsideSigningWindow e tx (earliestHeight - 1)) (\<lambda>m2.
         if m2 then ret (True, True)
         else bindA (gets (findMatchingBTCInternalTxOut e tx)) (\<lambda>f. ret (f \<noteq> None, False))))))))))"

definition markObservedOutboundTxOut :: "env \<Rightarrow> ObservedTx \<Rightarrow> bool kact" where
  "markObservedOutboundTxOut e tx = bindA (markObservedOutboundTxOutStatus e tx) (\<lambda>(matched, _). ret matched)"

section \<open>Repairs and migrations\<close>

definition retireIfEmpty :: "Vault \<Rightarrow> int \<Rightarrow> Vault" where
  "retireIfEmpty vault h = (if \<not> HasFunds vault \<and> va_Status vault = RetiringVault then Vault_UpdateStatus vault InactiveVault h else vault)"

definition repairRevertedObservedOutbound :: "env \<Rightarrow> ObservedTxVoter \<Rightarrow> ObservedTx \<Rightarrow> bool kact" where
  "repairRevertedObservedOutbound e voter tx =
     (if \<not> vo_Reverted voter \<or> \<not> ObservedTx_IsFinal tx \<or> TxID_IsEmpty (t_ID (ob_Tx tx)) \<or> \<not> Chain_Equals (t_Chain (ob_Tx tx)) BTCChain \<or>
         \<not> observedOutboundRequiresTxOutMatch tx \<or>
         ObservedTx_IsEmpty (vo_Tx voter) \<or> \<not> TxID_Equals (t_ID (ob_Tx (vo_Tx voter))) (t_ID (ob_Tx tx)) \<or>
         ob_ObservedPubKey (vo_Tx voter) \<noteq> ob_ObservedPubKey tx \<or> \<not> EqualsEx (ob_Tx (vo_Tx voter)) (ob_Tx tx) then ret False
      else bindA (markObservedOutboundTxOut e tx) (\<lambda>marked.
      bindA (gets (observedOutboundAlreadyMatchedHistoricalTxOut e tx)) (\<lambda>historical.
      if \<not> marked \<and> \<not> historical then ret False
      else bindA (logged (bindA (gets (GetVault (ob_ObservedPubKey tx))) lift_result)) (\<lambda>r.
      case r of
        None \<Rightarrow> ret False
      | Some vault \<Rightarrow>
          bindA (gets k_height) (\<lambda>h.
          let v1 = (if \<not> Address_Equals (t_FromAddress (ob_Tx tx)) (t_ToAddress (ob_Tx tx)) \<and> \<not> isBTCChildSweepToRoot e tx (va_PubKey vault) \<and> \<not> isOutboundFakeGasTx tx
                then SubFunds vault (t_Coins (ob_Tx tx)) else vault) in
          bindA (logged (SetVault e (retireIfEmpty v1 h))) (\<lambda>ok.
          if ok = None then ret False
          else bindA (SetObservedTxOutVoter (Voter_SetDone (voter\<lparr>vo_Reverted := False\<rparr>))) (\<lambda>_. ret True)))))))"

definition btcMigrationDestinationCreditedByInbound :: "ObservedTx \<Rightarrow> kstate \<Rightarrow> bool" where
  "btcMigrationDestinationCreditedByInbound tx s \<longleftrightarrow> vo_UpdatedVault (GetObservedTxInVoter (t_ID (ob_Tx tx)) s)"

definition btcMigrationDestinationAlreadyCredited :: "ObservedTx \<Rightarrow> kstate \<Rightarrow> bool" where
  "btcMigrationDestinationAlreadyCredited tx s \<longleftrightarrow> btcMigrationDestinationCreditedByInbound tx s \<or> btcMigrationDestinationCreditedByOutbound tx s"

definition btcMigrationDestinationVault :: "env \<Rightarrow> TxOutItem \<Rightarrow> kstate \<Rightarrow> Vault option" where
  "btcMigrationDestinationVault e item s =
     (if to_TxType item \<noteq> TxOutTypeMigrate \<or> \<not> Chain_Equals (to_Chain item) BTCChain \<or> \<not> Asset_Equals (co_Asset (to_Coin item)) BTCAsset \<or>
         Address_IsEmpty (to_ToAddress item) then None
      else case GetBaseVaults e s of
        Inl _ \<Rightarrow> None
      | Inr vaults \<Rightarrow> find (\<lambda>v. case DeriveBTCAddress e v MainVaultPathIndex of Inl _ \<Rightarrow> False | Inr addr \<Rightarrow> Address_Equals addr (to_ToAddress item)) vaults)"

definition creditBTCMigrationDestination :: "env \<Rightarrow> ObservedTxVoter \<Rightarrow> ObservedTx \<Rightarrow> ObservedTxVoter kact" where
  "creditBTCMigrationDestination e voter tx =
     (if \<not> Chain_Equals (t_Chain (ob_Tx tx)) BTCChain \<or> TxID_IsEmpty (t_ID (ob_Tx tx)) \<or> \<not> ObservedTx_IsFinal tx \<or> vo_UpdatedVault voter then ret voter
      else bindA (gets (btcMigrationDestinationAlreadyCredited tx)) (\<lambda>credited.
      if credited then ret (voter\<lparr>vo_UpdatedVault := True\<rparr>)
      else bindA (gets (findMatchingBTCMigrationTxOut e tx)) (\<lambda>f.
      case f of
        None \<Rightarrow> ret voter
      | Some (item, _) \<Rightarrow>
          bindA (gets (btcMigrationDestinationVault e item)) (\<lambda>d.
          case d of
            None \<Rightarrow> ret voter
          | Some destVault \<Rightarrow>
              let v1 = (if \<not> Address_Equals (t_FromAddress (ob_Tx tx)) (t_ToAddress (ob_Tx tx))
                    then (AddFunds destVault (t_Coins (ob_Tx tx)))\<lparr>va_InboundTxCount := wrap64 (va_InboundTxCount destVault + 1)\<rparr> else destVault) in
              bindA (logged (SetVault e v1)) (\<lambda>ok. ret (if ok = None then voter else voter\<lparr>vo_UpdatedVault := True\<rparr>))))))"

definition observedTxOutVoterDone :: "ObservedTxVoter \<Rightarrow> bool" where
  "observedTxOutVoterDone voter \<longleftrightarrow> ob_Status (vo_Tx voter) = Status_done \<or> list_ex (\<lambda>o1. ob_Status o1 = Status_done) (vo_Txs voter)"

definition shouldSkipAlreadyProcessedObservedOutbound :: "ObservedTxVoter \<Rightarrow> bool \<Rightarrow> ObservedTx \<Rightarrow> bool" where
  "shouldSkipAlreadyProcessedObservedOutbound voter matchedTxOut tx \<longleftrightarrow> matchedTxOut \<and> observedOutboundRequiresTxOutMatch tx \<and>
     (ob_Status (vo_Tx voter) = Status_done \<or> list_ex (\<lambda>o1. ob_Status o1 = Status_done) (vo_Txs voter))"

definition txForOutboundReplayMatch :: "ObservedTxVoter \<Rightarrow> ObservedTx \<Rightarrow> ObservedTx" where
  "txForOutboundReplayMatch voter tx =
     (if ObservedTx_IsFinal tx \<and> t_SourceInputs (ob_Tx tx) \<noteq> [] \<and> ObservedTx_IsFinal (vo_Tx voter) = ObservedTx_IsFinal tx \<and>
         ob_ObservedPubKey (vo_Tx voter) = ob_ObservedPubKey tx \<and> EqualsEx (ob_Tx (vo_Tx voter)) (ob_Tx tx) then tx else vo_Tx voter)"

text \<open>What leaves a vault with an outbound transaction.\<close>

definition debitOutbound :: "env \<Rightarrow> ObservedTx \<Rightarrow> Vault \<Rightarrow> Vault" where
  "debitOutbound e tx vault =
     (if \<not> Address_Equals (t_FromAddress (ob_Tx tx)) (t_ToAddress (ob_Tx tx)) \<and> \<not> isBTCChildSweepToRoot e tx (va_PubKey vault)
      then (if isOutboundFakeGasTx tx then vault else SubFunds vault (t_Coins (ob_Tx tx)))\<lparr>va_OutboundTxCount := wrap64 (va_OutboundTxCount vault + 1)\<rparr>
      else vault)"

definition repairBTCInternalOutboundReplay :: "env \<Rightarrow> ObservedTx \<Rightarrow> unit kact" where
  "repairBTCInternalOutboundReplay e tx =
     (if \<not> ObservedTx_IsFinal tx \<or> \<not> Chain_Equals (t_Chain (ob_Tx tx)) BTCChain \<or> t_SourceInputs (ob_Tx tx) = [] then ret ()
      else bindA (gets (findMatchingBTCInternalTxOut e tx)) (\<lambda>f.
      case f of
        None \<Rightarrow> ret ()
      | Some (item, _) \<Rightarrow>
          bindA (gets (GetObservedTxOutVoter (t_ID (ob_Tx tx)))) (\<lambda>voter.
          if observedTxOutVoterDone voter then ret ()
          else if IsInternalTxOutType (to_TxType item) \<and> to_TxType item = TxOutTypeMigrate then bindA (settleBTCMigrationSourceVault e tx) (\<lambda>_. ret ())
          else if \<not> IsInternalTxOutType (to_TxType item) then ret ()
          else bindA (logged (bindA (gets (GetVault (ob_ObservedPubKey tx))) lift_result)) (\<lambda>r.
          case r of
            None \<Rightarrow> ret ()
          | Some vault \<Rightarrow>
              bindA (gets k_height) (\<lambda>h.
              bindA (logged (SetVault e (retireIfEmpty (debitOutbound e tx vault) h))) (\<lambda>ok.
              if ok = None then ret ()
              else SetObservedTxOutVoter (Voter_SetDone (if ObservedTx_IsEmpty (vo_Tx voter) then voter\<lparr>vo_Tx := tx\<rparr> else voter))))))))"

section \<open>The quorum\<close>

definition btcUnmatchedOutboundGraceBlocks :: int where "btcUnmatchedOutboundGraceBlocks = 1"

definition ensureVaultAndGetTxOutVoter :: "PubKey \<Rightarrow> TxID \<Rightarrow> AccAddress list \<Rightarrow> int \<Rightarrow> ObservedTxVoter kact" where
  "ensureVaultAndGetTxOutVoter vaultPubKey txID observers keysignMs =
     bindA (gets (VaultExists vaultPubKey)) (\<lambda>exists.
     err_if (\<not> exists) ''vault not found for observed tx out pubkey''
     (bindA (if keysignMs > 0 then
          bindA (gets (GetFrostKeysignMetric txID)) (\<lambda>metric. SetFrostKeysignMetric (fold (\<lambda>a m. AddNodeFrostTime m a keysignMs) observers metric))
        else ret ()) (\<lambda>_. gets (GetObservedTxOutVoter txID))))"

fun remove_frozen :: "string list \<Rightarrow> Chain \<Rightarrow> string list" where
  "remove_frozen [] c = []"
| "remove_frozen (f # fs) c = (if EqualFold c f then fs else f # remove_frozen fs c)"

text \<open>The final outbound that matches no item: noted first, and the vault halted when it is seen again.\<close>

definition unmatchedOutbound :: "ObservedTx \<Rightarrow> unit kact" where
  "unmatchedOutbound tx =
     bindA (gets k_height) (\<lambda>h.
     bindA (gets (GetUnmatchedOutboundHeight (t_ID (ob_Tx tx)))) (\<lambda>firstUnmatched.
     if firstUnmatched = 0 then SetUnmatchedOutboundHeight (t_ID (ob_Tx tx)) h
     else if h > wrap64 (firstUnmatched + btcUnmatchedOutboundGraceBlocks) then haltBTCVaultForIssue
     else ret ()))"

definition accountOutbound :: "env \<Rightarrow> ObservedTx \<Rightarrow> unit kact" where
  "accountOutbound e tx =
     bindA (logged (bindA (gets (GetVault (ob_ObservedPubKey tx))) lift_result)) (\<lambda>r.
     case r of
       None \<Rightarrow> ret ()
     | Some vault \<Rightarrow>
         bindA (gets k_height) (\<lambda>h.
         let v1 = retireIfEmpty (debitOutbound e tx vault) h;
             v2 = v1\<lparr>va_Frozen := foldl (\<lambda>fs c. remove_frozen fs (as_Chain (co_Asset c))) (va_Frozen v1) (t_Coins (ob_Tx tx))\<rparr> in
         bindA (logged (SetVault e v2)) (\<lambda>_. ret ())))"

definition handleObservedTxOutQuorum :: "env \<Rightarrow> NodeAccount list \<Rightarrow> ObservedTx \<Rightarrow> ObservedTxVoter \<Rightarrow> AccAddress list \<Rightarrow> bool \<Rightarrow> unit kact" where
  "handleObservedTxOutQuorum e activeNodeAccounts tx voter observers isQuorum =
     bindA (gets k_height) (\<lambda>h.
     if \<not> isQuorum then
       bindA (if vo_Height voter = h \<or> vo_FinalisedHeight voter = h then AppendObserver e (t_Chain (ob_Tx tx)) observers else ret ()) (\<lambda>_.
       bindA (repairRevertedObservedOutbound e voter tx) (\<lambda>repaired.
       if repaired then ret ()
       else if vo_FinalisedHeight voter > 0 then
         let replayTx = txForOutboundReplayMatch voter tx in
         bindA (markObservedOutboundTxOut e replayTx) (\<lambda>marked.
         if marked \<or> t_SourceInputs (ob_Tx replayTx) \<noteq> [] then repairBTCInternalOutboundReplay e replayTx else ret ())
       else if ObservedTx_IsFinal tx then bindA (markObservedOutboundTxOut e tx) (\<lambda>_. ret ())
       else ret ()))
     else bindA (repairRevertedObservedOutbound e voter tx) (\<lambda>repaired.
       if repaired then ret ()
       else if isCancelOrApprovalTx tx then bindA (logged (addGasFees e tx)) (\<lambda>_. ret ())
       else
         let txOut = GetTx e voter activeNodeAccounts in
         bindA (if \<not> ObservedTx_IsEmpty txOut \<and> \<not> Chain_IsEmpty (t_Chain (ob_Tx tx))
            then AppendObserver e (t_Chain (ob_Tx tx)) (GetSigners e txOut) else ret ()) (\<lambda>_.
         bindA (markObservedOutboundTxOutStatus e tx) (\<lambda>(matchedTxOut, _).
         bindA (if matchedTxOut then
             bindA (DeleteUnmatchedOutbound (t_ID (ob_Tx tx))) (\<lambda>_.
             bindA (creditBTCMigrationDestination e voter tx) (\<lambda>voter1.
             bindA (settleBTCMigrationSourceVault e tx) (\<lambda>settled. ret (voter1, settled))))
           else ret (voter, False)) (\<lambda>(voter1, migrationSourceSettled).
         if shouldSkipAlreadyProcessedObservedOutbound voter1 matchedTxOut tx then ret ()
         else
           bindA (if \<not> matchedTxOut \<and> ObservedTx_IsFinal tx \<and> observedOutboundRequiresTxOutMatch tx then unmatchedOutbound tx else ret ()) (\<lambda>_.
           bindA (if \<not> migrationSourceSettled then bindA (logged (addGasFees e tx)) (\<lambda>_. ret ()) else ret ()) (\<lambda>_.
           bindA (if \<not> migrationSourceSettled then accountOutbound e tx else ret ()) (\<lambda>_.
           SetObservedTxOutVoter (Voter_SetDone voter1)))))))))"

text \<open>One transaction of a \<^verbatim>\<open>MsgObservedTxOut\<close>, and the loop over the message.\<close>

definition observeTxOut :: "env \<Rightarrow> NodeAccount list \<Rightarrow> AccAddress \<Rightarrow> ObservedTx \<Rightarrow> unit kact" where
  "observeTxOut e activeNodeAccounts signer tx =
     bindA (logged (ensureVaultAndGetTxOutVoter (ob_ObservedPubKey tx) (t_ID (ob_Tx tx)) [signer] (ob_KeysignMs tx))) (\<lambda>r.
     case r of
       None \<Rightarrow> ret ()
     | Some voter \<Rightarrow>
         bindA (processTxOutAttestation e voter activeNodeAccounts tx signer True) (\<lambda>(voter1, isQuorum).
         bindA (logged (handleObservedTxOutQuorum e activeNodeAccounts tx voter1 [signer] isQuorum)) (\<lambda>_. ret ())))"

definition ObservedTxOutHandler_handle :: "env \<Rightarrow> ObservedTx list \<Rightarrow> AccAddress \<Rightarrow> unit kact" where
  "ObservedTxOutHandler_handle e txs signer =
     bindA (gets ListActiveNodes) (\<lambda>activeNodeAccounts. forA (observeTxOut e activeNodeAccounts signer) txs)"

end
