(* ===== verification/Errata.thy ===== *)
theory Errata
  imports Outbound
begin

text \<open>
  Votes that a transaction was dropped from its chain (\<^verbatim>\<open>type_errata.go\<close>, \<^verbatim>\<open>keeper_errata.go\<close>,
  \<^verbatim>\<open>handler_errata_tx_helpers.go\<close>), and the messages that carry the signed attestations of many nodes at
  once (\<^verbatim>\<open>handler_quorum_helpers.go\<close>, \<^verbatim>\<open>handler_observed_tx_quorum.go\<close>, \<^verbatim>\<open>handler_errata_tx_quorum.go\<close>).
  The pointer to the voter is returned beside the result, since the handlers store it on every path.
  Keys and signatures are those of the Cosmos SDK, and the signed payloads the protobuf encodings: they are the
  fields of a record \<open>crypto\<close>.
\<close>

section \<open>The voter of an errata\<close>

record ErrataTx =
  er_Id :: TxID
  er_Chain :: Chain

definition NewErrataTxVoter :: "TxID \<Rightarrow> Chain \<Rightarrow> ErrataTxVoter" where
  "NewErrataTxVoter txID chain = \<lparr>ev_TxID = txID, ev_Chain = chain, ev_BlockHeight = 0, ev_Signers = []\<rparr>"

definition ErrataTxVoter_GetSigners :: "env \<Rightarrow> ErrataTxVoter \<Rightarrow> AccAddress list" where
  "ErrataTxVoter_GetSigners e m = concat (map (\<lambda>a. case e_acc_from_bech32 e a of Inr x \<Rightarrow> [x] | Inl _ \<Rightarrow> []) (ev_Signers m))"

definition ErrataTxVoter_HasSigned :: "env \<Rightarrow> ErrataTxVoter \<Rightarrow> AccAddress \<Rightarrow> bool" where
  "ErrataTxVoter_HasSigned e m signer \<longleftrightarrow> signer \<in> set (ErrataTxVoter_GetSigners e m)"

definition ErrataTxVoter_Sign :: "env \<Rightarrow> ErrataTxVoter \<Rightarrow> AccAddress \<Rightarrow> ErrataTxVoter \<times> bool" where
  "ErrataTxVoter_Sign e m signer =
     (if ErrataTxVoter_HasSigned e m signer then (m, False) else (m\<lparr>ev_Signers := ev_Signers m @ [e_acc_string e signer]\<rparr>, True))"

definition ErrataTxVoter_HasConsensus :: "env \<Rightarrow> ErrataTxVoter \<Rightarrow> NodeAccount list \<Rightarrow> bool" where
  "ErrataTxVoter_HasConsensus e m nas = HasSuperMajority (length (filter (IsNodeKeys nas) (ErrataTxVoter_GetSigners e m))) (length nas)"

definition ErrataTxVoter_Empty :: "ErrataTxVoter \<Rightarrow> bool" where
  "ErrataTxVoter_Empty m \<longleftrightarrow> TxID_IsEmpty (ev_TxID m) \<or> Chain_IsEmpty (ev_Chain m)"

definition ErrataTxVoter_String :: "ErrataTxVoter \<Rightarrow> string" where
  "ErrataTxVoter_String m = ev_Chain m @ ''-'' @ ev_TxID m"

definition SetErrataTxVoter :: "ErrataTxVoter \<Rightarrow> unit kact" where
  "SetErrataTxVoter errata = modify (\<lambda>s. s\<lparr>k_errata_voters := kv_set (skey (ErrataTxVoter_String errata)) errata (k_errata_voters s)\<rparr>)"

definition GetErrataTxVoter :: "TxID \<Rightarrow> Chain \<Rightarrow> kstate \<Rightarrow> ErrataTxVoter" where
  "GetErrataTxVoter txID chain s =
     (let record = NewErrataTxVoter txID chain in
      case kv_get (k_errata_voters s) (skey (ErrataTxVoter_String record)) of Some r \<Rightarrow> r | None \<Rightarrow> record)"

section \<open>What an errata changes\<close>

definition processErrataDepositRecord :: "env \<Rightarrow> ErrataTx \<Rightarrow> bool kact" where
  "processErrataDepositRecord e er =
     (if \<not> Chain_Equals (er_Chain er) BTCChain \<or> TxID_IsEmpty (er_Id er) then ret False
      else bindA (gets (GetDepositRecord (er_Id er))) (\<lambda>deposit.
      if TxID_IsEmpty (dr_DepositID deposit) then ret False
      else bindA (SetDepositRecord (deposit\<lparr>dr_Status := DepositStatusErrata, dr_BTCConfirmations := 0, dr_BTCObservedHeight := 0\<rparr>)) (\<lambda>_.
      bindA (purgeTxOutItemsForDeposit (dr_DepositID deposit) [TxOutTypeSweep, TxOutTypeRefund]) (\<lambda>_.
      bindA (gets (GetDepositSession e (dr_Owner deposit))) (\<lambda>session.
      bindA (if TxID_Equals (ds_InboundTxID session) (er_Id er) then
          SetDepositSession e (session\<lparr>ds_InboundTxID := [], ds_DepositID := [], ds_BTCConfirmations := 0, ds_BTCObservedHeight := 0,
            ds_Status := (if ds_Status session = DepositStatusDepositObserved \<or> ds_Status session = DepositStatusDepositMatched
              then DepositStatusAddressIssued else ds_Status session)\<rparr>)
        else ret ()) (\<lambda>_. ret True))))))"

text \<open>A settled redeem whose payout was dropped is queued again.\<close>

definition requeueRedeem :: "env \<Rightarrow> ErrataTx \<Rightarrow> unit kact" where
  "requeueRedeem e er =
     bindA (gets (GetShielderRedeemByOutHash (er_Id er))) (\<lambda>(redeem, found).
     if found \<and> rd_Status redeem = ShielderRedeemStatusSettled then
       bindA (DeleteShielderRedeemOutHash (er_Id er)) (\<lambda>_.
       bindA (gets k_height) (\<lambda>h.
       bindA (gets (currentBTCVaultAddress e)) (\<lambda>current.
       let r1 = redeem\<lparr>rd_OutHash := [], rd_Status := ShielderRedeemStatusAuthorized, rd_RequestedHeight := h\<rparr>;
           r2 = (case current of Inr (vault, _) \<Rightarrow> r1\<lparr>rd_VaultPubKey := va_PubKey vault\<rparr> | Inl _ \<Rightarrow> r1) in
       bindA (logged (ReQueueAuthorizedWithdrawalTxOut e r2)) (\<lambda>_. ret ()))))
     else ret ())"

definition processErrataOutboundTx :: "env \<Rightarrow> ErrataTx \<Rightarrow> bool kact" where
  "processErrataOutboundTx e er =
     bindA (gets (GetObservedTxOutVoter (er_Id er))) (\<lambda>txOutVoter.
     if vo_Txs txOutVoter = [] then ret False
     else if vo_Reverted txOutVoter then ret True
     else if ObservedTx_IsEmpty (vo_Tx txOutVoter) then fail (Errorf ''tx out voter is not finalised'')
     else
       let tx = ob_Tx (vo_Tx txOutVoter); vaultPubKey = ob_ObservedPubKey (vo_Tx txOutVoter) in
       if \<not> Chain_Equals (t_Chain tx) (er_Chain er) \<or> Coins_IsEmpty (t_Coins tx) then ret True
       else bindA (if vaultPubKey \<noteq> [] then
           bindA (gets (GetVault vaultPubKey)) (\<lambda>r.
           bindA (lift_wrap ''fail to get vault with pubkey'' r) (\<lambda>v0.
           let v = AddFunds v0 (t_Coins tx) in
           if \<not> Vault_IsEmpty v then on_error ''fail to save vault'' (SetVault e v) else ret ()))
         else ret ()) (\<lambda>_.
       bindA (requeueRedeem e er) (\<lambda>_.
       bindA (SetObservedTxOutVoter (Voter_SetReverted txOutVoter)) (\<lambda>_. ret True))))"

definition processErrataState :: "env \<Rightarrow> ErrataTx \<Rightarrow> unit kact" where
  "processErrataState e er =
     bindA (processErrataDepositRecord e er) (\<lambda>_.
     bindA (gets (GetObservedTxInVoter (er_Id er))) (\<lambda>observedVoter.
     if vo_Txs observedVoter = [] then bindA (processErrataOutboundTx e er) (\<lambda>_. ret ())
     else if ObservedTx_IsEmpty (vo_Tx observedVoter) then SetObservedTxInVoter (Voter_SetReverted observedVoter)
     else
       let tx = ob_Tx (vo_Tx observedVoter); vaultPubKey = ob_ObservedPubKey (vo_Tx observedVoter) in
       if \<not> Chain_Equals (t_Chain tx) (er_Chain er) then ret ()
       else bindA (SetObservedTxInVoter (Voter_SetReverted observedVoter)) (\<lambda>_.
         if vo_UpdatedVault observedVoter \<and> vaultPubKey \<noteq> [] then
           bindA (gets (GetVault vaultPubKey)) (\<lambda>r.
           bindA (lift_wrap ''fail to get active base vaults'' r) (\<lambda>vault.
           on_error ''fail to save vault, err'' (SetVault e (SubFunds vault (t_Coins tx)))))
         else ret ())))"

text \<open>One attestation: the voter it leaves, and whether an error was returned.\<close>

definition processErrataTxAttestation :: "env \<Rightarrow> ErrataTxVoter \<Rightarrow> AccAddress \<Rightarrow> NodeAccount list \<Rightarrow> ErrataTx \<Rightarrow> bool \<Rightarrow>
    (ErrataTxVoter \<times> unit result) kact" where
  "processErrataTxAttestation e voter attester active er shouldPenalizeForDuplicate =
     bindA (gets (GetConfigInt64 Observation_SubmitPenaltyPoints)) (\<lambda>observePts.
     bindA (gets (GetConfigInt64 Observation_MissPenaltyPoints)) (\<lambda>lackPts.
     bindA (gets (getConfigDurationBlocks Observation_DelayFlexibilityMinutes)) (\<lambda>observeFlex.
     bindA (gets k_height) (\<lambda>h.
     let process = (\<lambda>v. bindA (attempt (processErrataState e er)) (\<lambda>r. ret (v, r))) in
     case ErrataTxVoter_Sign e voter attester of (v1, signed_now) \<Rightarrow>
       if \<not> signed_now then
         bindA (if shouldPenalizeForDuplicate then IncPenaltyPoints e observePts [attester] else ret ()) (\<lambda>_.
         if ev_BlockHeight v1 > 0 \<or> ErrataTxVoter_HasConsensus e v1 active then process v1 else ret (v1, Inr ()))
       else if \<not> ErrataTxVoter_HasConsensus e v1 active then
         bindA (IncPenaltyPoints e observePts [attester]) (\<lambda>_. ret (v1, Inr ()))
       else if ev_BlockHeight v1 > 0 then
         bindA (if wrap64 (ev_BlockHeight v1 + observeFlex) \<ge> h then DecPenaltyPoints e lackPts [attester] else ret ()) (\<lambda>_. process v1)
       else
         let v2 = v1\<lparr>ev_BlockHeight := h\<rparr>; signers = ErrataTxVoter_GetSigners e v2 in
         bindA (IncPenaltyPoints e observePts [attester]) (\<lambda>_.
         bindA (DecPenaltyPoints e observePts signers) (\<lambda>_.
         bindA (IncPenaltyPoints e lackPts (getNonSigners active signers)) (\<lambda>_. process v2)))))))"

definition ErrataTxHandler_handle :: "env \<Rightarrow> TxID \<Rightarrow> Chain \<Rightarrow> AccAddress \<Rightarrow> unit kact" where
  "ErrataTxHandler_handle e txID chain signer =
     bindA (gets ListActiveNodes) (\<lambda>active.
     bindA (gets (GetErrataTxVoter txID chain)) (\<lambda>voter.
     bindA (processErrataTxAttestation e voter signer active \<lparr>er_Id = txID, er_Chain = chain\<rparr> True) (\<lambda>(voter1, r).
     bindA (SetErrataTxVoter voter1) (\<lambda>_. lift_result r))))"

section \<open>Messages with many attestations\<close>

record Attestation_msg =
  at_PubKey :: string
  at_Signature :: string

record QuorumTx =
  qt_ObsTx :: ObservedTx
  qt_Attestations :: "Attestation_msg option list"
  qt_Inbound :: bool

record crypto =
  cr_bech32 :: "string \<Rightarrow> string result"
  cr_verify :: "string \<Rightarrow> string \<Rightarrow> string \<Rightarrow> bool"
  cr_address :: "string \<Rightarrow> AccAddress"
  cr_tx_payload :: "ObservedTx \<Rightarrow> bool \<Rightarrow> string result"
  cr_errata_payload :: "ErrataTx \<Rightarrow> string result"

text \<open>The loop of \<^verbatim>\<open>deduplicateAttestations\<close>, with the keys seen and the attestations kept.\<close>

fun dedup_loop :: "nat \<Rightarrow> string list \<Rightarrow> Attestation_msg list \<Rightarrow> Attestation_msg option list \<Rightarrow> Attestation_msg list" where
  "dedup_loop maxCount seen result [] = result"
| "dedup_loop maxCount seen result (None # atts) = dedup_loop maxCount seen result atts"
| "dedup_loop maxCount seen result (Some att # atts) =
     (if at_PubKey att \<in> set seen then dedup_loop maxCount seen result atts
      else if length (result @ [att]) \<ge> maxCount then result @ [att]
      else dedup_loop maxCount (at_PubKey att # seen) (result @ [att]) atts)"

definition deduplicateAttestations :: "Attestation_msg option list \<Rightarrow> nat \<Rightarrow> Attestation_msg list" where
  "deduplicateAttestations attestations maxCount = dedup_loop maxCount [] [] attestations"

definition verifyQuorumAttestation :: "crypto \<Rightarrow> NodeAccount list \<Rightarrow> string \<Rightarrow> Attestation_msg \<Rightarrow> AccAddress result" where
  "verifyQuorumAttestation c activeNodeAccounts signBz att =
     (if at_PubKey att = [] then Inl (Errorf ''pubkey is empty'')
      else if at_Signature att = [] then Inl (Errorf ''signature is empty'')
      else case cr_bech32 c (at_PubKey att) of
        Inl err \<Rightarrow> wrap_error ''fail to get bech32 pub key'' (Inl err)
      | Inr bech32Pub \<Rightarrow>
          if \<not> list_ex (\<lambda>node. bech32Pub = ps_Secp256k1 (na_PubKeySet node)) activeNodeAccounts then Inl (Errorf ''signer is not an active node account'')
          else if \<not> cr_verify c (at_PubKey att) signBz (at_Signature att) then Inl (Errorf ''failed to verify signature'')
          else Inr (cr_address c (at_PubKey att)))"

text \<open>The signers whose attestations are counted, in order.\<close>

definition verifiedAttesters :: "crypto \<Rightarrow> NodeAccount list \<Rightarrow> string \<Rightarrow> Attestation_msg option list \<Rightarrow> AccAddress list" where
  "verifiedAttesters c nas signBz atts =
     concat (map (\<lambda>att. case verifyQuorumAttestation c nas signBz att of Inr a \<Rightarrow> [a] | Inl _ \<Rightarrow> []) (deduplicateAttestations atts (length nas)))"

fun attestEach :: "(ObservedTxVoter \<Rightarrow> AccAddress \<Rightarrow> (ObservedTxVoter \<times> bool) kact) \<Rightarrow> ObservedTxVoter \<Rightarrow> bool \<Rightarrow> AccAddress list \<Rightarrow>
    (ObservedTxVoter \<times> bool) kact" where
  "attestEach f voter crossed [] = ret (voter, crossed)"
| "attestEach f voter crossed (a # as) = bindA (f voter a) (\<lambda>(v, isQuorum). attestEach f v (crossed \<or> isQuorum) as)"

definition ObservedTxQuorumHandler_handle :: "env \<Rightarrow> crypto \<Rightarrow> QuorumTx option \<Rightarrow> AccAddress \<Rightarrow> unit kact" where
  "ObservedTxQuorumHandler_handle e c quoTx signer =
     bindA (gets ListActiveNodes) (\<lambda>nas.
     case quoTx of
       None \<Rightarrow> fail (Errorf ''QuoTx cannot be nil'')
     | Some q \<Rightarrow>
         let obsTx = qt_ObsTx q; inbound = qt_Inbound q in
         bindA (if inbound then gets (\<lambda>s. case ensureVaultAndGetTxInVoter (ob_ObservedPubKey obsTx) (BTCOutpointScopedTxID e (ob_Tx obsTx)) s of
               Inl _ \<Rightarrow> None | Inr v \<Rightarrow> Some v)
            else logged (ensureVaultAndGetTxOutVoter (ob_ObservedPubKey obsTx) (t_ID (ob_Tx obsTx)) [signer] (ob_KeysignMs obsTx))) (\<lambda>r.
         case (r, cr_tx_payload c obsTx inbound) of
           (Some voter, Inr signBz) \<Rightarrow>
             let accAddrs = verifiedAttesters c nas signBz (qt_Attestations q) in
             bindA (attestEach (\<lambda>v a. if inbound then processTxInAttestation e v nas obsTx a False
                 else processTxOutAttestation e v nas obsTx a False) voter False accAddrs) (\<lambda>(voter1, crossedQuorum).
             if inbound then on_error ''fail to handle observed tx in quorum'' (handleObservedTxInQuorum e nas obsTx voter1 accAddrs crossedQuorum)
             else on_error ''fail to handle observed tx out quorum'' (handleObservedTxOutQuorum e nas obsTx voter1 accAddrs crossedQuorum))
         | _ \<Rightarrow> ret ()))"

fun errataEach :: "env \<Rightarrow> NodeAccount list \<Rightarrow> ErrataTx \<Rightarrow> ErrataTxVoter \<Rightarrow> AccAddress list \<Rightarrow> (ErrataTxVoter \<times> unit result) kact" where
  "errataEach e active er voter [] = ret (voter, Inr ())"
| "errataEach e active er voter (a # as) =
     bindA (processErrataTxAttestation e voter a active er False) (\<lambda>(v, r).
     case r of Inl err \<Rightarrow> ret (v, wrap_error ''fail to process errata tx attestation'' (Inl err)) | Inr _ \<Rightarrow> errataEach e active er v as)"

definition ErrataTxQuorumHandler_handle :: "env \<Rightarrow> crypto \<Rightarrow> ErrataTx \<Rightarrow> Attestation_msg option list \<Rightarrow> unit kact" where
  "ErrataTxQuorumHandler_handle e c er atts =
     bindA (gets ListActiveNodes) (\<lambda>active.
     bindA (gets (GetErrataTxVoter (er_Id er) (er_Chain er))) (\<lambda>voter.
     case cr_errata_payload c er of
       Inl _ \<Rightarrow> SetErrataTxVoter voter
     | Inr signBz \<Rightarrow>
         bindA (errataEach e active er voter (verifiedAttesters c active signBz atts)) (\<lambda>(voter1, r).
         bindA (SetErrataTxVoter voter1) (\<lambda>_. lift_result r))))"

end
