(* ===== verification/Outbound_Laws.thy ===== *)
theory Outbound_Laws
  imports Inbound_Laws Errata
begin

text \<open>
  What the outbound, quorum and errata handlers leave alone, and the invariant that ties the record of an
  unmatched outbound to the height of its voter.
\<close>

section \<open>Frames\<close>

text \<open>Parts of the state that neither the settlement of outbounds nor the credit of vaults writes.\<close>

locale outside_outbound = outside_deposits f for f :: "kstate \<Rightarrow> 'b" +
  assumes outbound_reads: "f (s\<lparr>k_vaults := q1\<rparr>) = f s" "f (s\<lparr>k_vault_index := q2\<rparr>) = f s" "f (s\<lparr>k_vault_eddsa := q3\<rparr>) = f s"
    "f (s\<lparr>k_redeems := q4\<rparr>) = f s" "f (s\<lparr>k_outhashes := q5\<rparr>) = f s" "f (s\<lparr>k_penalties := q6\<rparr>) = f s" "f (s\<lparr>k_last_observe := q7\<rparr>) = f s"
    "f (s\<lparr>k_keysign_metrics := q8, k_keysign_latest := q9\<rparr>) = f s" "f (s\<lparr>k_out_asset_gas := q10, k_gas_count := q11\<rparr>) = f s"
    "f (s\<lparr>k_txin_voters := q12\<rparr>) = f s" "f (s\<lparr>k_errata_voters := q13\<rparr>) = f s"
begin

lemmas reads = deposit_reads outbound_reads

lemma same_vault: "same f (SetVault e v)"
  by (auto intro!: act_keeps reads)

lemma same_txout: "same f (SetTxOut b)"
  by (auto intro!: act_keeps reads)

lemma same_marked: "same f (markMatchedTxOutItemSettled e item tx)"
  unfolding markMatchedTxOutItemSettled_def markDepositSweepComplete_def by (auto intro!: act_keeps reads)

lemma same_batch: "same f (markObservedOutboundTxOutBatch e b tx)"
  unfolding markObservedOutboundTxOutBatch_def Let_def by (auto intro!: act_keeps same_txout same_marked)

lemma same_first_batch: "same f (markFirstBatch e tx hs)"
  by (induction hs) (auto intro!: act_keeps same_batch)

lemma same_settle_item: "same f (settleItem e tx b i item)"
  unfolding settleItem_def by (auto intro!: act_keeps same_txout same_marked)

lemma same_pass: "same f (markObservedBTCInternalHistoricalTxOutPass e tx l exact)"
  unfolding markObservedBTCInternalHistoricalTxOutPass_def
  by (auto intro!: act_keeps same_settle_item split: option.split prod.split)

lemma same_historical: "same f (markObservedBTCInternalHistoricalTxOut e tx l)"
  unfolding markObservedBTCInternalHistoricalTxOut_def by (auto intro!: act_keeps same_pass)

lemma same_open: "same f (markObservedOpenBTCOutboundOutsideSigningWindow e tx l)"
  unfolding markObservedOpenBTCOutboundOutsideSigningWindow_def
  by (auto intro!: act_keeps same_settle_item same_batch split: option.split prod.split)

lemma same_status: "same f (markObservedOutboundTxOutStatus e tx)"
  unfolding markObservedOutboundTxOutStatus_def Let_def
  by (auto intro!: act_keeps same_settle_item same_first_batch same_historical same_open split: option.split prod.split)

lemma same_mark: "same f (markObservedOutboundTxOut e tx)"
  unfolding markObservedOutboundTxOut_def by (auto intro!: act_keeps same_status split: prod.split)

lemma same_source: "same f (settleBTCMigrationSourceVault e tx)"
  unfolding settleBTCMigrationSourceVault_def settleBTCMigrationSourceVaultItem_def Let_def
  by (auto intro!: act_keeps same_vault split: option.split prod.split)

lemma same_destination: "same f (creditBTCMigrationDestination e v tx)"
  unfolding creditBTCMigrationDestination_def Let_def by (auto intro!: act_keeps same_vault split: option.split prod.split)

lemma same_gas_asset: "same f (AddGasAsset a g b)"
  unfolding AddGasAsset_def by (auto intro!: same_modify reads)

lemma same_gas_fees: "same f (addGasFees e tx)"
  unfolding addGasFees_def Let_def by (auto intro!: act_keeps same_vault same_gas_asset)

lemma same_account: "same f (accountOutbound e tx)"
  unfolding accountOutbound_def Let_def by (auto intro!: act_keeps same_vault split: option.split)

lemma same_metric: "same f (ensureVaultAndGetTxOutVoter pk i obs ms)"
  unfolding ensureVaultAndGetTxOutVoter_def SetFrostKeysignMetric_def by (auto intro!: act_keeps same_modify reads)

lemma same_penalties: "same f (IncPenaltyPoints e p xs)" "same f (DecPenaltyPoints e p xs)"
  unfolding IncPenaltyPoints_def DecPenaltyPoints_def IncNodeAccountPenaltyPoints_def DecNodeAccountPenaltyPoints_def SetNodeAccountPenaltyPoints_def
  by (auto intro!: act_keeps same_modify reads)

lemma same_observe: "same f (SetLastObserveHeight e c a h)"
  unfolding SetLastObserveHeight_def Let_def by (auto intro!: same_modify reads split: option.split)

lemma same_settle: "same f (settlePenalties e p q nas w)"
  unfolding settlePenalties_def Let_def by (auto intro!: act_keeps same_penalties)

lemma same_late: "same f (countLateSigner e p v a)"
  unfolding countLateSigner_def by (auto intro!: act_keeps same_penalties)

lemma same_txin_phases: "same f (finaliseTxIn e p q fl w nas tx sg)" "same f (discoverTxIn e p q fl w ok nas tx sg)"
  unfolding finaliseTxIn_def discoverTxIn_def Let_def by (auto intro!: act_keeps same_settle same_late)

lemma same_correction: "same f (gasCorrection e v nas tx)"
  unfolding gasCorrection_def correctOutboundGas_def
  by (auto intro!: act_keeps same_vault same_gas_asset split: option.split prod.split)

lemma same_txout_phases: "same f (finaliseTxOut e p q fl w nas tx sg)" "same f (discoverTxOut e p q fl w ok nas tx sg)"
  unfolding finaliseTxOut_def discoverTxOut_def Let_def
  by (auto intro!: act_keeps same_settle same_late same_correction same_txin_phases split: prod.split)

lemma same_txin_voter: "same f (SetObservedTxInVoter w)"
  unfolding SetObservedTxInVoter_def by (auto intro!: same_modify reads)

lemma same_txin_attest: "same f (processTxInAttestation e v nas tx sg pen)"
  unfolding processTxInAttestation_def
  by (auto intro!: act_keeps same_penalties same_observe same_txin_phases same_txin_voter split: prod.split)

lemma same_dispatched: "same f (dispatchTxIn e tx v vault fin)"
  unfolding dispatchTxIn_def doneTxIn_def by (auto intro!: act_keeps same_txin_voter same_sweep same_match same_recorded)

lemma same_txin_quorum: "same f (handleObservedTxInQuorum e nas tx v obs quo)"
  unfolding handleObservedTxInQuorum_def doneTxIn_def Let_def
  by (auto intro!: act_keeps same_observers same_source same_vault same_txin_voter same_chain same_direct same_dispatched split: option.split prod.split)

lemma same_observe_txin: "same f (observeTxIn e nas sg tx)"
  unfolding observeTxIn_def by (auto intro!: act_keeps same_txin_attest same_txin_quorum split: sum.split prod.split)

lemma same_txin_handler: "same f (ObservedTxInHandler_handle e txs sg)"
  unfolding ObservedTxInHandler_handle_def by (auto intro!: act_keeps same_observe_txin)

lemma same_errata_deposit: "same f (processErrataDepositRecord e er)"
  unfolding processErrataDepositRecord_def by (auto intro!: act_keeps reads)

lemma same_requeue: "same f (requeueRedeem e er)"
  unfolding requeueRedeem_def ReQueueAuthorizedWithdrawalTxOut_def queueAuthorizedWithdrawalTxOut_def Let_def
  by (auto intro!: act_keeps reads split: prod.split)

lemma same_errata_voter: "same f (SetErrataTxVoter v)"
  unfolding SetErrataTxVoter_def by (auto intro!: same_modify reads)

end

text \<open>The height, the unmatched records, the outbound voters and the halt.\<close>

interpretation watch: outside_outbound "\<lambda>s. (k_height s, k_unmatched s, k_txout_voters s, k_halt_signing s)"
  by unfold_locales simp_all

section \<open>The unmatched outbounds\<close>

lemma upper_lower: "upper_char (lower_char c) = upper_char c"
proof (cases "CHR ''A'' \<le> c \<and> c \<le> CHR ''Z''")
  case True
  let ?n = "of_char c :: nat"
  from True have n: "65 \<le> ?n" "?n \<le> 90" by (simp_all add: less_eq_char_def)
  have o: "of_char (char_of (?n + 32) :: char) = ?n + 32" using n by simp
  have a: "CHR ''a'' \<le> (char_of (?n + 32) :: char) \<and> (char_of (?n + 32) :: char) \<le> CHR ''z''" unfolding less_eq_char_def o using n by simp
  have "\<not> CHR ''a'' \<le> c" unfolding less_eq_char_def using n by simp
  then show ?thesis using True a by (simp add: upper_char_def lower_char_def o del: of_char_of)
qed (auto simp: lower_char_def)

lemma skey_lower [simp]: "skey (ToLower x) = skey x"
  by (simp add: skey_def ToUpper_def ToLower_def upper_lower)

lemma GetUnmatched_skey: "skey i = skey j \<Longrightarrow> GetUnmatchedOutboundHeight i s = GetUnmatchedOutboundHeight j s"
  by (simp add: GetUnmatchedOutboundHeight_def)

lemma unmatched_set: "SetUnmatchedOutboundHeight i h s = (Inr (), t) \<Longrightarrow>
    GetUnmatchedOutboundHeight j t = (if skey j = skey i then h else GetUnmatchedOutboundHeight j s)"
  by (auto simp: SetUnmatchedOutboundHeight_def GetUnmatchedOutboundHeight_def modify_def)

lemma voter_set: "GetObservedTxOutVoter j (s\<lparr>k_txout_voters := kv_set (skey (vo_TxID w)) w (k_txout_voters s)\<rparr>)
    = (if skey j = skey (vo_TxID w) then w else GetObservedTxOutVoter j s)"
  by (simp add: GetObservedTxOutVoter_def)

text \<open>A voter is stored under its transaction, and one whose transaction is recorded as unmatched has a height.\<close>

definition watched :: "kstate \<Rightarrow> bool" where
  "watched s \<longleftrightarrow> k_height s \<noteq> 0 \<and>
     (\<forall>i v. kv_get (k_txout_voters s) (skey i) = Some v \<longrightarrow> skey (vo_TxID v) = skey i) \<and>
     (\<forall>i. GetUnmatchedOutboundHeight i s \<noteq> 0 \<longrightarrow> vo_Height (GetObservedTxOutVoter i s) \<noteq> 0)"

text \<open>A voter that may be stored.\<close>

definition storable :: "ObservedTxVoter \<Rightarrow> kstate \<Rightarrow> bool" where
  "storable w s \<longleftrightarrow> vo_Height w = 0 \<longrightarrow> GetUnmatchedOutboundHeight (vo_TxID w) s = 0"

definition watching :: "int option \<Rightarrow> kstate \<Rightarrow> bool" where
  "watching h s \<longleftrightarrow> watched s \<and> k_halt_signing s = h"

lemma stored_key: "watched s \<Longrightarrow> skey (vo_TxID (GetObservedTxOutVoter i s)) = skey i"
  by (auto simp: watched_def GetObservedTxOutVoter_def split: option.split)

lemma stored_storable: "watched s \<Longrightarrow> storable (GetObservedTxOutVoter i s) s"
  using GetUnmatched_skey [OF stored_key, of s i s] by (auto simp: storable_def watched_def)

lemma watching_cong: "(k_height t, k_unmatched t, k_txout_voters t, k_halt_signing t) = (k_height s, k_unmatched s, k_txout_voters s, k_halt_signing s) \<Longrightarrow>
    watching h t = watching h s \<and> storable w t = storable w s \<and> GetUnmatchedOutboundHeight i t = GetUnmatchedOutboundHeight i s \<and>
    GetObservedTxOutVoter i t = GetObservedTxOutVoter i s"
  by (simp add: watching_def watched_def storable_def GetUnmatchedOutboundHeight_def GetObservedTxOutVoter_def)

lemma store_voter:
  assumes "watching h s" "storable w s" "SetObservedTxOutVoter w s = (r, t)"
  shows "watching h t \<and> (\<forall>v. storable v t = storable v s) \<and> k_height t = k_height s \<and> GetUnmatchedOutboundHeight i t = GetUnmatchedOutboundHeight i s \<and>
    GetObservedTxOutVoter i t = (if skey i = skey (vo_TxID w) then w else GetObservedTxOutVoter i s)"
proof -
  have t: "t = s\<lparr>k_txout_voters := kv_set (skey (vo_TxID w)) w (k_txout_voters s)\<rparr>" using assms(3) by (simp add: SetObservedTxOutVoter_def modify_def)
  have u: "GetUnmatchedOutboundHeight j t = GetUnmatchedOutboundHeight j s" for j by (simp add: t GetUnmatchedOutboundHeight_def)
  have "vo_Height w \<noteq> 0" if "GetUnmatchedOutboundHeight j s \<noteq> 0" "skey j = skey (vo_TxID w)" for j
    using that assms(2) GetUnmatched_skey [of j "vo_TxID w" s] by (auto simp: storable_def)
  with assms(1) have "watching h t" by (auto simp: watching_def watched_def u t voter_set split: if_splits) (auto simp: GetUnmatchedOutboundHeight_def)
  then show ?thesis by (simp add: u storable_def) (simp add: t voter_set)
qed

section \<open>The height of an outbound voter\<close>

text \<open>A vote keeps the voter's transaction and height, and announces a quorum only when it sets the height.\<close>

definition advanced :: "ObservedTxVoter \<Rightarrow> ObservedTxVoter \<times> bool \<Rightarrow> bool" where
  "advanced v r \<longleftrightarrow> vo_TxID (fst r) = vo_TxID v \<and> (vo_Height v \<noteq> 0 \<longrightarrow> vo_Height (fst r) = vo_Height v) \<and>
     (snd r \<longrightarrow> vo_Height v = 0 \<and> vo_Height (fst r) \<noteq> 0)"

abbreviation started :: "kstate \<Rightarrow> bool" where
  "started s \<equiv> k_height s \<noteq> 0"

interpretation clock: outside_outbound k_height
  by unfold_locales simp_all

lemma keeps_started: "same k_height m \<Longrightarrow> keeps started m"
  by (rule same_keeps)

lemma gives_prod: "(\<And>a b. x = (a, b) \<Longrightarrow> gives P Q (f a b)) \<Longrightarrow> gives P Q (case x of (a, b) \<Rightarrow> f a b)"
  by (cases x) simp

lemma gives_height: "gives started (\<lambda>h. h \<noteq> 0) (gets k_height)"
  by (simp add: gives_def act_run)

lemma gives_const: "gives P Q (ret x) \<longleftrightarrow> (\<exists>s. P s) \<longrightarrow> Q x"
  by (auto simp: gives_def act_run)

lemma correction_gives: "gives started (\<lambda>w. vo_TxID w = vo_TxID v \<and> vo_Height w = vo_Height v) (gasCorrection e v nas tx)"
  unfolding gasCorrection_def by (simp add: gives_def act_run)

lemma late_gives: "gives started (\<lambda>w. vo_TxID w = vo_TxID v \<and> vo_Height w = vo_Height v) (countLateSigner e p v a)"
  unfolding countLateSigner_def by (auto simp: gives_def act_run)

lemma corrected:
  "advanced v (w, ok) \<Longrightarrow> gives started (advanced v) (bindA (gasCorrection e w nas tx) (\<lambda>w'. ret (w', ok)))"
  by (rule gives_bindA_value [OF keeps_started [OF clock.same_correction] correction_gives]) (auto simp: gives_const advanced_def)

lemma finalise_advances: "gives started (advanced v) (finaliseTxOut e p q fl v nas tx sg)"
proof -
  have late: "gives started (advanced v) (bindA (countLateSigner e c v sg) (\<lambda>v. ret (v, False)))" for c
    by (rule gives_bindA_value [OF keeps_started [OF clock.same_late] late_gives]) (auto simp: gives_const advanced_def)
  have settle: "advanced v (w, ok) \<Longrightarrow> gives started (advanced v) (thenA (settlePenalties e p q nas w) (ret (w, ok)))" for w ok
    unfolding thenA_def by (rule gives_bindA [OF keeps_started [OF clock.same_settle]]) (simp add: gives_const)
  show ?thesis
    unfolding finaliseTxOut_def Let_def
    by (rule gives_bindA_value [OF keeps_pure(5) gives_height], rule gives_if, simp add: gives_const advanced_def,
        rule gives_bindA_value [where R = "advanced v"])
      (auto intro!: act_keeps keeps_started clock.same_settle clock.same_late gives_if late settle gives_prod corrected simp: gives_const, simp_all add: advanced_def)
qed

lemma discover_advances:
  assumes "advanced v (u, ok)"
  shows "gives started (advanced v) (discoverTxOut e p q fl u ok nas tx sg)"
proof (cases ok)
  case True
  then show ?thesis using assms by (simp add: discoverTxOut_def gives_const)
next
  case False
  have late: "gives started (advanced v) (bindA (countLateSigner e c u sg) (\<lambda>v. ret (v, False)))" for c
    using assms False by (intro gives_bindA_value [OF keeps_started [OF clock.same_late] late_gives]) (auto simp: gives_const advanced_def)
  have settle: "advanced v (w, ok) \<Longrightarrow> gives started (advanced v) (thenA (settlePenalties e p q nas w) (ret (w, ok)))" for w ok
    unfolding thenA_def by (rule gives_bindA [OF keeps_started [OF clock.same_settle]]) (simp add: gives_const)
  have "gives started (advanced v) (discoverTxIn e p q fl u False nas tx sg)"
    unfolding discoverTxIn_def Let_def using assms False
    by (intro gives_bindA_value [OF keeps_pure(5) gives_height]) (auto intro!: gives_if settle late simp: gives_const, simp_all add: advanced_def)
  then show ?thesis using assms False unfolding discoverTxOut_def
    by (auto intro!: gives_if gives_bindA_value [OF keeps_started [OF clock.same_txin_phases(2)]] gives_prod corrected simp: gives_const)
qed

subsection \<open>Postconditions\<close>

text \<open>\<open>runs P m Q\<close>: from a state with \<open>P\<close>, the outcome of \<open>m\<close> and the state it leaves have \<open>Q\<close>.\<close>

definition runs :: "('s \<Rightarrow> bool) \<Rightarrow> ('s, 'a) act \<Rightarrow> ('a result \<Rightarrow> 's \<Rightarrow> bool) \<Rightarrow> bool" where
  "runs P m Q \<longleftrightarrow> (\<forall>s. P s \<longrightarrow> Q (fst (m s)) (snd (m s)))"

lemma runsD: "runs P m Q \<Longrightarrow> P s \<Longrightarrow> m s = (r, t) \<Longrightarrow> Q r t"
  unfolding runs_def by (metis fst_conv snd_conv)

lemma runsI: "(\<And>s r t. P s \<Longrightarrow> m s = (r, t) \<Longrightarrow> Q r t) \<Longrightarrow> runs P m Q"
  by (simp add: runs_def)

lemma runs_ret: "(\<And>s. P s \<Longrightarrow> Q (Inr x) s) \<Longrightarrow> runs P (ret x) Q"
  by (simp add: runs_def ret_def)

lemma runs_if: "(c \<Longrightarrow> runs P m Q) \<Longrightarrow> (\<not> c \<Longrightarrow> runs P n Q) \<Longrightarrow> runs P (if c then m else n) Q"
  by simp

lemma runs_prod: "(\<And>a b. x = (a, b) \<Longrightarrow> runs P (f a b) Q) \<Longrightarrow> runs P (case x of (a, b) \<Rightarrow> f a b) Q"
  by (cases x) simp

lemma runs_bind: "runs P m R \<Longrightarrow> (\<And>x. runs (R (Inr x)) (n x) Q) \<Longrightarrow> (\<And>err s. R (Inl err) s \<Longrightarrow> Q (Inl err) s) \<Longrightarrow> runs P (bindA m n) Q"
  unfolding runs_def bindA_def by (auto split: prod.split sum.split)

lemma runs_bind_keeps: "keeps P m \<Longrightarrow> gives P V m \<Longrightarrow> (\<And>x. V x \<Longrightarrow> runs P (n x) Q) \<Longrightarrow> (\<And>err s. P s \<Longrightarrow> Q (Inl err) s) \<Longrightarrow> runs P (bindA m n) Q"
  by (rule runs_bind [where R = "\<lambda>r s. P s \<and> (\<forall>x. r = Inr x \<longrightarrow> V x)"]) (auto simp: runs_def keeps_def gives_def prod_eq_iff)

lemma gives_any: "gives P (\<lambda>_. True) m"
  by (simp add: gives_def)

lemma keeps_runs: "keeps P m \<Longrightarrow> (\<And>r s. P s \<Longrightarrow> Q r s) \<Longrightarrow> runs P m Q"
  by (auto simp: keeps_def runs_def)

lemma runs_keeps: "runs P m (\<lambda>_. P) \<longleftrightarrow> keeps P m"
  by (simp add: keeps_def runs_def)

lemma runs_weaken: "runs P m Q \<Longrightarrow> (\<And>r s. Q r s \<Longrightarrow> R r s) \<Longrightarrow> runs P m R"
  by (simp add: runs_def)

lemma runs_pre: "runs P m Q \<Longrightarrow> (\<And>s. R s \<Longrightarrow> P s) \<Longrightarrow> runs R m Q"
  by (simp add: runs_def)

lemma gives_weaken: "gives P Q m \<Longrightarrow> (\<And>s. R s \<Longrightarrow> P s) \<Longrightarrow> gives R Q m"
  by (auto simp: gives_def)

subsection \<open>Attestations of outbounds\<close>

abbreviation watch_view :: "kstate \<Rightarrow> int \<times> (string, int) kv \<times> (string, ObservedTxVoter) kv \<times> int option" where
  "watch_view s \<equiv> (k_height s, k_unmatched s, k_txout_voters s, k_halt_signing s)"

lemma keeps_watch_view: "same watch_view m \<Longrightarrow> keeps (\<lambda>s. watch_view s = F) m"
  by (rule same_keeps)

text \<open>The votes leave the voter they return in the store, or, for a vote that was cast before, nothing.\<close>

lemma txout_attest_runs:
  assumes "fst F \<noteq> 0"
  shows "runs (\<lambda>s. watch_view s = F) (processTxOutAttestation e v nas tx sg pen)
    (\<lambda>r t. (\<exists>w ok. r = Inr (w, ok) \<and> advanced v (w, ok) \<and>
        watch_view t = (fst F, fst (snd F), kv_set (skey (vo_TxID w)) w (fst (snd (snd F))), snd (snd (snd F)))) \<or>
      watch_view t = F \<and> (\<forall>w ok. r = Inr (w, ok) \<longrightarrow> \<not> ok \<and> vo_TxID w = vo_TxID v \<and> vo_Height w = vo_Height v))"
    (is "runs ?P _ ?Q")
proof -
  have weak: "gives ?P Q m" if "gives started Q m" for Q and m :: "'b kact" using that assms by (auto elim: gives_weaken)
  have err: "?Q (Inl x) s" if "?P s" for x s using that by simp
  obtain v1 added where add: "Voter_Add e v tx sg = (v1, added)" by fastforce
  have v1: "vo_TxID v1 = vo_TxID v" "vo_Height v1 = vo_Height v" using Voter_Add_fields [of e v tx sg] add by simp_all
  have store: "runs ?P (bindA (SetObservedTxOutVoter w) (\<lambda>_. ret (w, ok))) ?Q" if "advanced v1 (w, ok)" for w ok
    using that v1 by (auto simp: runs_def SetObservedTxOutVoter_def act_defs advanced_def)
  have again: "runs ?P (bindA (if c then DecPenaltyPoints e p [sg] else ret ()) (\<lambda>_. ret (v1, False))) ?Q" for c p
    by (intro runs_bind_keeps [OF _ gives_any] keeps_watch_view act_keeps watch.same_penalties runs_ret) (simp_all add: v1)
  have vote: "runs ?P (bindA (finaliseTxOut e p q fl v1 nas tx sg) (\<lambda>(voter2, ok). bindA (discoverTxOut e p q fl voter2 ok nas tx sg) (\<lambda>(voter3, ok3).
      bindA (SetObservedTxOutVoter voter3) (\<lambda>_. ret (voter3, ok3))))) ?Q" for p q fl
    by (intro runs_bind_keeps [OF keeps_watch_view [OF watch.same_txout_phases(1)] weak [OF finalise_advances]]
        runs_bind_keeps [OF keeps_watch_view [OF watch.same_txout_phases(2)] weak [OF discover_advances]] runs_prod store) simp_all
  have seen: "keeps ?P (if ob_BlockHeight tx > 0 then SetLastObserveHeight e (t_Chain (ob_Tx tx)) sg (ob_BlockHeight tx) else ret ())"
    by (intro keeps_watch_view act_keeps watch.same_observe)
  show ?thesis
    unfolding processTxOutAttestation_def add prod.case
    by (intro runs_bind_keeps [OF keeps_pure(5) gives_any] runs_bind_keeps [OF seen gives_any]
        runs_bind_keeps [OF keeps_watch_view [OF watch.same_penalties(1)] gives_any] runs_if again vote err)
qed

text \<open>In terms of the invariant: the votes keep it, and a quorum is announced for a transaction that is not recorded as unmatched.\<close>

lemma watching_started: "watching h s \<Longrightarrow> started s"
  by (simp add: watching_def watched_def)

text \<open>The transaction of a quorum is not recorded as unmatched, and its voter has a height.\<close>

definition announced :: "int option \<Rightarrow> TxID \<Rightarrow> kstate \<Rightarrow> bool" where
  "announced h i s \<longleftrightarrow> watching h s \<and> GetUnmatchedOutboundHeight i s = 0 \<and> vo_Height (GetObservedTxOutVoter i s) \<noteq> 0"

definition ready :: "int option \<Rightarrow> TxID \<Rightarrow> bool \<Rightarrow> ObservedTxVoter \<Rightarrow> kstate \<Rightarrow> bool" where
  "ready h i c v s \<longleftrightarrow> watching h s \<and> storable v s \<and> skey (vo_TxID v) = skey i \<and> (c \<longrightarrow> vo_Height v \<noteq> 0 \<and> announced h i s)"

lemma ready_stored:
  assumes s: "ready h i c v s" and a: "advanced v (w, ok)"
    and t: "watch_view t = watch_view (s\<lparr>k_txout_voters := kv_set (skey (vo_TxID w)) w (k_txout_voters s)\<rparr>)" (is "_ = watch_view ?u")
  shows "ready h i (c \<or> ok) w t"
proof -
  have w: "storable w s" using s a by (auto simp: ready_def storable_def advanced_def)
  have set: "SetObservedTxOutVoter w s = (Inr (), ?u)" by (simp add: SetObservedTxOutVoter_def modify_def)
  have key: "skey i = skey (vo_TxID w)" using s a by (simp add: ready_def advanced_def)
  have h: "watching h s" using s by (simp add: ready_def)
  note st = store_voter [OF h w set, where i = i] and c = watching_cong [OF t, where h = h and w = w and i = i]
  have r: "watching h t" "storable w t" "GetUnmatchedOutboundHeight i t = GetUnmatchedOutboundHeight i s" "GetObservedTxOutVoter i t = w"
    using st c w key by simp_all
  have "vo_Height w \<noteq> 0 \<and> GetUnmatchedOutboundHeight i s = 0" if "c \<or> ok"
    using that s a GetUnmatched_skey [OF key, of s] by (auto simp: ready_def announced_def advanced_def storable_def)
  then show ?thesis using r key by (auto simp: ready_def announced_def)
qed

lemma ready_cong: "watch_view t = watch_view s \<Longrightarrow> vo_TxID w = vo_TxID v \<Longrightarrow> vo_Height w = vo_Height v \<Longrightarrow> ready h i c w t = ready h i c v s"
  using watching_cong [of t s h w i] by (simp add: ready_def announced_def storable_def GetUnmatchedOutboundHeight_def)

lemma txout_attest_ready:
  "runs (ready h i c v) (processTxOutAttestation e v nas tx sg pen) (\<lambda>r t. watching h t \<and> (\<forall>w ok. r = Inr (w, ok) \<longrightarrow> ready h i (c \<or> ok) w t))"
    (is "runs _ _ ?Q")
proof (rule runsI)
  fix s r t assume s: "ready h i c v s" and run: "processTxOutAttestation e v nas tx sg pen s = (r, t)"
  have "fst (watch_view s) \<noteq> 0" using s watching_started [of h s] by (simp add: ready_def)
  from runsD [OF txout_attest_runs [OF this] refl run] show "?Q r t"
  proof (elim disjE exE conjE)
    fix w ok assume r: "r = Inr (w, ok)" and a: "advanced v (w, ok)" and t: "watch_view t = (fst (watch_view s), fst (snd (watch_view s)),
      kv_set (skey (vo_TxID w)) w (fst (snd (snd (watch_view s)))), snd (snd (snd (watch_view s))))"
    have "ready h i (c \<or> ok) w t" by (rule ready_stored [OF s a]) (simp add: t)
    then show "?Q r t" by (simp add: r ready_def)
  next
    assume same: "watch_view t = watch_view s" and w: "\<forall>w ok. r = Inr (w, ok) \<longrightarrow> \<not> ok \<and> vo_TxID w = vo_TxID v \<and> vo_Height w = vo_Height v"
    have "ready h i (c \<or> ok) x t" if "r = Inr (x, ok)" for x ok
    proof -
      from w that have "\<not> ok" "vo_TxID x = vo_TxID v" "vo_Height x = vo_Height v" by blast+
      with s show ?thesis using ready_cong [OF same, of x v h i c] by simp
    qed
    moreover have "watching h t" using watching_cong [OF same, where h = h] s by (simp add: ready_def)
    ultimately show "?Q r t" by blast
  qed
qed

section \<open>The quorum of an outbound\<close>

definition guarded :: "int option \<Rightarrow> ObservedTxVoter set \<Rightarrow> kstate \<Rightarrow> bool" where
  "guarded h W s \<longleftrightarrow> watching h s \<and> (\<forall>w \<in> W. storable w s)"

lemma keeps_guarded: "same watch_view m \<Longrightarrow> keeps (guarded h W) m"
  unfolding keeps_def same_def guarded_def using watching_cong by metis

lemmas guarded_frames = watch.same_mark [THEN keeps_guarded] watch.same_vault [THEN keeps_guarded] watch.same_source [THEN keeps_guarded]
  watch.same_observers [THEN keeps_guarded]

lemma keeps_option: "(x = None \<Longrightarrow> keeps P m) \<Longrightarrow> (\<And>y. x = Some y \<Longrightarrow> keeps P (f y)) \<Longrightarrow> keeps P (case x of None \<Rightarrow> m | Some y \<Rightarrow> f y)"
  by (cases x) simp_all

lemma keeps_store: "w \<in> W \<Longrightarrow> vo_TxID w' = vo_TxID w \<Longrightarrow> vo_Height w' = vo_Height w \<Longrightarrow> keeps (guarded h W) (SetObservedTxOutVoter w')"
  unfolding keeps_def guarded_def using store_voter [of h _ w'] by (metis prod.collapse storable_def)

lemma keeps_gets: "(\<And>x. keeps (\<lambda>s. P s \<and> R x s) (n x)) \<Longrightarrow> (\<And>s. P s \<Longrightarrow> R (g s) s) \<Longrightarrow> keeps P (bindA (gets g) n)"
  by (simp add: keeps_def bindA_def gets_def)

lemma keeps_stored: "(\<And>v. keeps (guarded h (insert v W)) (n v)) \<Longrightarrow> keeps (guarded h W) (bindA (gets (GetObservedTxOutVoter i)) n)"
  by (rule keeps_gets [where R = storable]) (auto simp: keeps_def guarded_def watching_def intro: stored_storable)

lemma SetDone_height [simp]: "vo_Height (Voter_SetDone v) = vo_Height v"
  by (simp add: Voter_SetDone_def Voter_setStatus_def)

lemma keeps_reverted: "v \<in> W \<Longrightarrow> keeps (guarded h W) (repairRevertedObservedOutbound e v tx)"
  unfolding repairRevertedObservedOutbound_def Let_def
  by (auto intro!: act_keeps guarded_frames keeps_option keeps_store)

lemma keeps_replay: "keeps (guarded h W) (repairBTCInternalOutboundReplay e tx)"
  unfolding repairBTCInternalOutboundReplay_def
  by (intro keeps_if keeps_pure keeps_bindA)
    (auto intro!: act_keeps keeps_stored guarded_frames keeps_option keeps_store split: prod.split)

lemma keeps_straggler: "v \<in> W \<Longrightarrow> keeps (guarded h W) (handleObservedTxOutQuorum e nas tx v obs False)"
  unfolding handleObservedTxOutQuorum_def Let_def
  by (auto intro!: act_keeps keeps_reverted keeps_replay guarded_frames)

lemma keeps_announced: "same watch_view m \<Longrightarrow> keeps (announced h i) m"
  unfolding keeps_def same_def announced_def using watching_cong by metis

lemmas announced_frames = watch.same_mark [THEN keeps_announced] watch.same_vault [THEN keeps_announced] watch.same_source [THEN keeps_announced]
  watch.same_observers [THEN keeps_announced] watch.same_status [THEN keeps_announced] watch.same_destination [THEN keeps_announced]
  watch.same_gas_fees [THEN keeps_announced] watch.same_account [THEN keeps_announced]

lemma keeps_announced_store:
  assumes "vo_Height w \<noteq> 0"
  shows "keeps (announced h i) (SetObservedTxOutVoter w)"
  unfolding keeps_def announced_def
proof (intro allI impI, elim conjE)
  fix s assume s: "watching h s" "GetUnmatchedOutboundHeight i s = 0" "vo_Height (GetObservedTxOutVoter i s) \<noteq> 0"
  have "storable w s" using assms by (simp add: storable_def)
  from store_voter [OF s(1) this prod.collapse [symmetric], where i = i] s(2,3) assms
  show "watching h (snd (SetObservedTxOutVoter w s)) \<and> GetUnmatchedOutboundHeight i (snd (SetObservedTxOutVoter w s)) = 0 \<and>
    vo_Height (GetObservedTxOutVoter i (snd (SetObservedTxOutVoter w s))) \<noteq> 0" by simp
qed

lemma keeps_announced_reverted: "vo_Height v \<noteq> 0 \<Longrightarrow> keeps (announced h i) (repairRevertedObservedOutbound e v tx)"
  unfolding repairRevertedObservedOutbound_def Let_def
  by (auto intro!: act_keeps announced_frames keeps_option keeps_announced_store)

lemma keeps_announced_delete: "keeps (announced h i) (DeleteUnmatchedOutbound j)"
  by (auto simp: keeps_def announced_def watching_def watched_def DeleteUnmatchedOutbound_def modify_def GetUnmatchedOutboundHeight_def
      GetObservedTxOutVoter_def split: option.splits)

text \<open>The first time an outbound is unmatched, only its height is recorded.\<close>

lemma unmatched_runs: "runs (announced h (t_ID (ob_Tx tx))) (unmatchedOutbound tx) (\<lambda>_. watching h)"
proof (rule runsI)
  fix s r t assume s: "announced h (t_ID (ob_Tx tx)) s" and run: "unmatchedOutbound tx s = (r, t)"
  then have t: "SetUnmatchedOutboundHeight (t_ID (ob_Tx tx)) (k_height s) s = (r, t)"
    by (simp add: unmatchedOutbound_def bindA_def gets_def announced_def)
  then have r: "r = Inr ()" by (simp add: SetUnmatchedOutboundHeight_def modify_def)
  have v: "GetObservedTxOutVoter j t = GetObservedTxOutVoter j s" for j
    using t by (auto simp: SetUnmatchedOutboundHeight_def modify_def GetObservedTxOutVoter_def)
  have k: "skey j = skey i \<Longrightarrow> vo_Height (GetObservedTxOutVoter j s) = vo_Height (GetObservedTxOutVoter i s)" for i j
    by (auto simp: GetObservedTxOutVoter_def zero_defs split: option.split)
  have "vo_Height (GetObservedTxOutVoter j t) \<noteq> 0" if "GetUnmatchedOutboundHeight j t \<noteq> 0" for j
  proof (cases "skey j = skey (t_ID (ob_Tx tx))")
    case True
    then show ?thesis using s k [OF True] by (simp add: v announced_def)
  next
    case False
    then show ?thesis using s that unmatched_set [OF t [unfolded r], of j] by (simp add: v announced_def watching_def watched_def)
  qed
  moreover have "k_height t = k_height s" "k_txout_voters t = k_txout_voters s" "k_halt_signing t = k_halt_signing s"
    using t by (auto simp: SetUnmatchedOutboundHeight_def modify_def)
  ultimately show "watching h t" using s by (simp add: announced_def watching_def watched_def)
qed

text \<open>A destination that is credited marks the voter only.\<close>

lemma destination_gives: "gives P (\<lambda>w. vo_TxID w = vo_TxID v \<and> vo_Height w = vo_Height v) (creditBTCMigrationDestination e v tx)"
  unfolding creditBTCMigrationDestination_def Let_def
  by (auto simp: gives_def act_run split: if_splits option.splits prod.splits)

lemma keeps_watching_store: "vo_Height w \<noteq> 0 \<Longrightarrow> keeps (watching h) (SetObservedTxOutVoter w)"
  using keeps_store [of w "{w}" w h] by (auto simp: keeps_def guarded_def storable_def)

lemma keeps_watching: "same watch_view m \<Longrightarrow> keeps (watching h) m"
  unfolding keeps_def same_def using watching_cong by metis

lemma quorum_runs:
  assumes "vo_Height v \<noteq> 0"
  shows "runs (announced h (t_ID (ob_Tx tx))) (handleObservedTxOutQuorum e nas tx v obs True) (\<lambda>_. watching h)"
    (is "runs ?P _ ?Q")
proof -
  have weak: "watching h s" if "?P s" for s using that by (simp add: announced_def)
  let ?matched = "\<lambda>m. if m then bindA (DeleteUnmatchedOutbound (t_ID (ob_Tx tx))) (\<lambda>_. bindA (creditBTCMigrationDestination e v tx) (\<lambda>voter1.
      bindA (settleBTCMigrationSourceVault e tx) (\<lambda>settled. ret (voter1, settled)))) else ret (v, False)"
  have matched: "keeps ?P (?matched m)" "gives ?P (\<lambda>x. vo_Height (fst x) \<noteq> 0) (?matched m)" for m
  proof -
    show "keeps ?P (?matched m)" by (intro act_keeps keeps_announced_delete announced_frames)
    show "gives ?P (\<lambda>x. vo_Height (fst x) \<noteq> 0) (?matched m)"
      by (intro gives_if gives_bindA [OF keeps_announced_delete] gives_bindA_value [OF _ destination_gives] gives_bindA announced_frames gives_ret)
        (use assms in simp_all)
  qed
  have last: "keeps (watching h) (bindA (if c then bindA (logged (addGasFees e tx)) (\<lambda>_. ret ()) else ret ()) (\<lambda>_.
      bindA (if c then accountOutbound e tx else ret ()) (\<lambda>_. SetObservedTxOutVoter (Voter_SetDone w))))" if "vo_Height w \<noteq> 0" for c w
    by (intro act_keeps keeps_watching_store keeps_watching watch.same_gas_fees watch.same_account) (use that in simp)
  have settled: "runs ?P (bindA (if c then unmatchedOutbound tx else ret ()) (\<lambda>_. bindA (if d then bindA (logged (addGasFees e tx)) (\<lambda>_. ret ()) else ret ())
      (\<lambda>_. bindA (if d then accountOutbound e tx else ret ()) (\<lambda>_. SetObservedTxOutVoter (Voter_SetDone w))))) ?Q" if "vo_Height w \<noteq> 0" for c d w
    by (rule runs_bind [where R = "\<lambda>_. watching h"], intro runs_if unmatched_runs runs_ret weak, assumption,
        rule keeps_runs [OF last [OF that]], assumption+)
  have observers: "keeps ?P (if c then AppendObserver e ch as else ret ())" for c ch as
    by (intro act_keeps announced_frames)
  have cancelled: "runs ?P (bindA (logged (addGasFees e tx)) (\<lambda>_. ret ())) ?Q"
    by (intro keeps_runs [where P = ?P] act_keeps announced_frames weak)
  show ?thesis
    unfolding handleObservedTxOutQuorum_def Let_def
    apply (simp only: not_True_eq_False if_False)
    apply (rule runs_bind_keeps [OF keeps_pure(5) gives_any])
    apply (rule runs_bind_keeps [OF keeps_announced_reverted [OF assms] gives_any])
    apply (rule runs_if, rule runs_ret, erule weak)
    apply (rule runs_if, rule cancelled)
    apply (rule runs_bind_keeps [OF observers gives_any])
    apply (rule runs_bind_keeps [OF announced_frames(5) gives_any])
    apply (rule runs_prod)
    apply (rule runs_bind_keeps [OF matched])
    apply (rule runs_prod)
    apply (rule runs_if, rule runs_ret, erule weak)
    apply (rule settled)
    apply simp
    apply (erule weak)+
    done
qed

lemma handled_runs: "runs (ready h (t_ID (ob_Tx tx)) q v) (handleObservedTxOutQuorum e nas tx v obs q) (\<lambda>_. watching h)"
proof (cases q)
  case True
  then show ?thesis using quorum_runs [of v h tx e nas obs] by (auto simp: runs_def ready_def)
next
  case False
  then show ?thesis using keeps_straggler [of v "{v}" h e nas tx obs] by (auto simp: runs_def keeps_def ready_def guarded_def)
qed

section \<open>Messages\<close>

lemma attest_each_ready:
  "runs (ready h i c v) (attestEach (\<lambda>v a. processTxOutAttestation e v nas tx a pen) v c as)
    (\<lambda>r t. watching h t \<and> (\<forall>w ok. r = Inr (w, ok) \<longrightarrow> ready h i ok w t))"
proof (induction as arbitrary: v c)
  case Nil
  then show ?case by (auto intro!: runs_ret simp: ready_def)
next
  case (Cons a as)
  show ?case
    by (simp, rule runs_bind [OF txout_attest_ready], rule runs_prod) (auto intro!: runs_pre [OF Cons.IH])
qed

lemma logged_value: "logged m s = (Inr (Some v), t) \<Longrightarrow> m s = (Inr v, t)"
  unfolding logged_run by (elim exE conjE) (simp split: sum.splits)

lemma ensure_runs:
  "runs (watching h) (logged (ensureVaultAndGetTxOutVoter pk i obs ms)) (\<lambda>r t. watching h t \<and> (\<forall>v. r = Inr (Some v) \<longrightarrow> ready h i False v t))"
proof (rule runsI, intro conjI allI impI)
  fix s r t assume s: "watching h s" and run: "logged (ensureVaultAndGetTxOutVoter pk i obs ms) s = (r, t)"
  show t: "watching h t" using keepsD [OF keeps_logged [OF keeps_watching [OF watch.same_metric]] s run] .
  fix v assume "r = Inr (Some v)"
  with run have "ensureVaultAndGetTxOutVoter pk i obs ms s = (Inr v, t)" by (auto intro: logged_value)
  then have "v = GetObservedTxOutVoter i t" by (auto simp: act_run ensureVaultAndGetTxOutVoter_def)
  then show "ready h i False v t" using t by (simp add: ready_def watching_def stored_key stored_storable)
qed

text \<open>The handlers keep the invariant.\<close>

lemma keeps_observe_txout: "keeps (watching h) (observeTxOut e nas sg tx)"
proof -
  have handled: "runs (ready h (t_ID (ob_Tx tx)) q v) (bindA (logged (handleObservedTxOutQuorum e nas tx v obs q)) (\<lambda>_. ret ())) (\<lambda>_. watching h)" for q v obs
    unfolding logged_def using handled_runs [of h tx q v e nas obs]
    by (auto simp: runs_def bindA_def attempt_def ret_def fail_def split: prod.split sum.split error.split)
  have vote: "runs (ready h (t_ID (ob_Tx tx)) False v) (bindA (processTxOutAttestation e v nas tx sg True) (\<lambda>(voter1, isQuorum).
      bindA (logged (handleObservedTxOutQuorum e nas tx voter1 [sg] isQuorum)) (\<lambda>_. ret ()))) (\<lambda>_. watching h)" for v
    by (rule runs_bind [OF txout_attest_ready], rule runs_prod, rule runs_pre [OF handled]) auto
  have "runs (watching h) (observeTxOut e nas sg tx) (\<lambda>_. watching h)"
    unfolding observeTxOut_def
    by (intro runs_bind [OF ensure_runs]) (auto split: option.split intro!: runs_ret runs_pre [OF vote])
  then show ?thesis by (simp add: runs_keeps)
qed

lemma keeps_txout_handler: "keeps (watching h) (ObservedTxOutHandler_handle e txs sg)"
  unfolding ObservedTxOutHandler_handle_def by (intro act_keeps keeps_observe_txout)

lemma keeps_on_error: "keeps P m \<Longrightarrow> keeps P (on_error msg m)"
  unfolding on_error_def by (rule keeps_bindA [OF keeps_attempt]) (auto intro: act_keeps split: sum.split error.split)

lemma same_attest_each: "(\<And>v a. same f (g v a)) \<Longrightarrow> same f (attestEach g v c as)"
  by (induction g v c as rule: attestEach.induct) (auto intro!: act_keeps split: prod.split)

lemma keeps_quorum_handler: "keeps (watching h) (ObservedTxQuorumHandler_handle e c q sg)"
proof -
  have inbound: "keeps (watching h) (bindA (attestEach (\<lambda>v a. processTxInAttestation e v nas tx a False) v False as) (\<lambda>(voter1, crossed).
      on_error msg (handleObservedTxInQuorum e nas tx voter1 as crossed)))" for nas tx v as msg
    by (auto intro!: keeps_watching act_keeps same_attest_each watch.same_txin_attest watch.same_txin_quorum split: prod.split)
  have handled: "runs (ready h (t_ID (ob_Tx tx)) q v) (on_error msg (handleObservedTxOutQuorum e nas tx v obs q)) (\<lambda>_. watching h)" for nas tx q v obs msg
    unfolding on_error_def using handled_runs [of h tx q v e nas obs]
    by (auto simp: runs_def bindA_def attempt_def ret_def fail_def split: prod.split sum.split error.split)
  have outbound: "runs (ready h (t_ID (ob_Tx tx)) False v) (bindA (attestEach (\<lambda>v a. processTxOutAttestation e v nas tx a False) v False as) (\<lambda>(voter1, crossed).
      on_error msg (handleObservedTxOutQuorum e nas tx voter1 as crossed))) (\<lambda>_. watching h)" for nas tx v as msg
    by (rule runs_bind [OF attest_each_ready], rule runs_prod, rule runs_pre [OF handled]) auto
  have message: "keeps (watching h) (bindA (logged (ensureVaultAndGetTxOutVoter pk (t_ID (ob_Tx tx)) obs ms)) (\<lambda>r.
      case (r, p) of (Some voter, Inr b) \<Rightarrow> bindA (attestEach (\<lambda>v a. processTxOutAttestation e v nas tx a False) voter False (as b)) (\<lambda>(voter1, crossed).
        on_error msg (handleObservedTxOutQuorum e nas tx voter1 (as b) crossed)) | _ \<Rightarrow> ret ()))" for pk tx obs ms nas as msg and p :: "string result"
    unfolding runs_keeps [symmetric]
    by (intro runs_bind [OF ensure_runs]) (auto split: option.split sum.split intro!: runs_ret runs_pre [OF outbound])
  consider "q = None" | x where "q = Some x" "qt_Inbound x" | x where "q = Some x" "\<not> qt_Inbound x" by (cases q) auto
  then show ?thesis
  proof cases
    case 3
    show ?thesis unfolding ObservedTxQuorumHandler_handle_def 3(1) option.case Let_def
      by (rule keeps_bindA [OF keeps_pure(5)]) (simp only: 3(2) if_False message)
  qed (auto simp: ObservedTxQuorumHandler_handle_def Let_def intro!: act_keeps inbound split: option.split sum.split)
qed

lemma keeps_errata_outbound: "keeps (guarded h W) (processErrataOutboundTx e er)"
  unfolding processErrataOutboundTx_def Let_def
  by (auto intro!: keeps_stored act_keeps keeps_on_error guarded_frames keeps_guarded [OF watch.same_requeue] keeps_store
      simp: Voter_SetReverted_def Voter_setStatus_def)

lemma guarded_empty: "guarded h {} = watching h"
  by (auto simp: guarded_def fun_eq_iff)

lemma keeps_errata_state: "keeps (watching h) (processErrataState e er)"
  unfolding processErrataState_def Let_def
  by (auto intro!: act_keeps keeps_on_error keeps_watching [OF watch.same_errata_deposit] keeps_watching [OF watch.same_txin_voter]
      keeps_watching [OF watch.same_vault] keeps_errata_outbound [where W = "{}", unfolded guarded_empty])

lemma keeps_errata_attest: "keeps (watching h) (processErrataTxAttestation e v a nas er pen)"
  unfolding processErrataTxAttestation_def Let_def
  by (auto intro!: act_keeps keeps_errata_state keeps_watching [OF watch.same_penalties(1)] keeps_watching [OF watch.same_penalties(2)] split: prod.split)

lemma keeps_errata_each: "keeps (watching h) (errataEach e nas er v as)"
  by (induction as arbitrary: v) (auto intro!: act_keeps keeps_errata_attest split: prod.split sum.split)

lemma keeps_errata_handlers:
  "keeps (watching h) (ErrataTxHandler_handle e i ch sg)" "keeps (watching h) (ErrataTxQuorumHandler_handle e c er atts)"
  unfolding ErrataTxHandler_handle_def ErrataTxQuorumHandler_handle_def
  by (auto intro!: act_keeps keeps_errata_attest keeps_errata_each keeps_watching [OF watch.same_errata_voter] split: prod.split sum.split)

end
