(* ===== verification/Errata_Laws.thy ===== *)
theory Errata_Laws
  imports Outbound_Laws
begin

text \<open>
  What the votes on a dropped transaction do to the vaults: the run of one vote, and of a vote for a
  transaction nothing is stored under.
\<close>

section \<open>One vote after the majority was reached\<close>

lemma SubFunds_fields: "va_PubKey (SubFunds v cs) = va_PubKey v" "va_Type (SubFunds v cs) = va_Type v" "va_BlockHeight (SubFunds v cs) = va_BlockHeight v"
  unfolding SubFunds_def by (induction cs arbitrary: v) simp_all

text \<open>A transaction whose vault was credited, an errata of it that has its majority, and a node that voted for it.\<close>

definition errata_settled :: "env \<Rightarrow> ErrataTx \<Rightarrow> AccAddress \<Rightarrow> PubKey \<Rightarrow> Coins \<Rightarrow> Vault \<Rightarrow> kstate \<Rightarrow> bool" where
  "errata_settled e er sg pk cs vault s \<longleftrightarrow>
     (let ev = GetErrataTxVoter (er_Id er) (er_Chain er) s; v = GetObservedTxInVoter (er_Id er) s in
      ev_BlockHeight ev > 0 \<and> ErrataTxVoter_HasSigned e ev sg \<and> ev_TxID ev = er_Id er \<and> ev_Chain ev = er_Chain er \<and>
      skey (vo_TxID v) = skey (er_Id er) \<and> vo_Txs v \<noteq> [] \<and> \<not> ObservedTx_IsEmpty (vo_Tx v) \<and> vo_UpdatedVault v \<and>
      Chain_Equals (t_Chain (ob_Tx (vo_Tx v))) (er_Chain er) \<and> ob_ObservedPubKey (vo_Tx v) = pk \<and> t_Coins (ob_Tx (vo_Tx v)) = cs \<and>
      TxID_IsEmpty (dr_DepositID (GetDepositRecord (er_Id er) s)) \<and>
      pk \<noteq> [] \<and> kv_get (k_vaults s) (skey pk) = Some vault \<and> va_PubKey vault = pk \<and> va_BlockHeight vault \<noteq> 0 \<and> Vault_IsBase vault \<and>
      (\<exists>pks. getBaseIndex e s = Inr pks \<and> pk \<in> set pks))"

lemma GetVault_stored: "kv_get (k_vaults s) (skey pk) = Some v \<Longrightarrow> va_PubKey v = pk \<Longrightarrow> pk \<noteq> [] \<Longrightarrow> va_BlockHeight v \<noteq> 0 \<Longrightarrow> GetVault pk s = Inr v"
  by (simp add: GetVault_def)

lemma SetVault_known:
  assumes "Vault_IsBase v" "getBaseIndex e s = Inr pks" "va_PubKey v \<in> set pks"
  obtains q where "SetVault e v s = (Inr (), s\<lparr>k_vault_eddsa := q, k_vaults := kv_set (skey (va_PubKey v)) v (k_vaults s)\<rparr>)"
proof -
  have "\<exists>q. SetVault e v s = (Inr (), s\<lparr>k_vault_eddsa := q, k_vaults := kv_set (skey (va_PubKey v)) v (k_vaults s)\<rparr>)"
    using assms by (auto simp: SetVault_def addBaseIndex_def act_defs intro: exI [of _ "k_vault_eddsa s"])
  then show thesis using that by blast
qed

lemma errata_state_run:
  assumes "errata_settled e er sg pk cs vault s"
  obtains q where "processErrataState e er s = (Inr (), s\<lparr>k_txin_voters := kv_set (skey (er_Id er)) (Voter_SetReverted (GetObservedTxInVoter (er_Id er) s)) (k_txin_voters s),
      k_vault_eddsa := q, k_vaults := kv_set (skey pk) (SubFunds vault cs) (k_vaults s)\<rparr>)"
proof -
  let ?v = "GetObservedTxInVoter (er_Id er) s"
  let ?u = "s\<lparr>k_txin_voters := kv_set (skey (er_Id er)) (Voter_SetReverted ?v) (k_txin_voters s)\<rparr>"
  note A = assms [unfolded errata_settled_def Let_def]
  have dep: "processErrataDepositRecord e er s = (Inr False, s)"
    using A by (simp add: processErrataDepositRecord_def act_defs)
  have key: "skey (vo_TxID (Voter_SetReverted ?v)) = skey (er_Id er)" using A by (simp add: Voter_SetReverted_def Voter_setStatus_def)
  have set: "SetObservedTxInVoter (Voter_SetReverted ?v) s = (Inr (), ?u)" by (simp add: SetObservedTxInVoter_def modify_def key)
  have get: "GetVault pk ?u = Inr vault" by (rule GetVault_stored) (use A in simp_all)
  have base: "Vault_IsBase (SubFunds vault cs)" using A by (simp add: Vault_IsBase_def SubFunds_fields)
  obtain pks where pks: "getBaseIndex e ?u = Inr pks" "va_PubKey (SubFunds vault cs) \<in> set pks"
    using A by (auto simp: getBaseIndex_def SubFunds_fields)
  obtain q where "SetVault e (SubFunds vault cs) ?u = (Inr (), ?u\<lparr>k_vault_eddsa := q, k_vaults := kv_set (skey (va_PubKey (SubFunds vault cs))) (SubFunds vault cs) (k_vaults ?u)\<rparr>)"
    using SetVault_known [OF base pks] by blast
  then have vault: "SetVault e (SubFunds vault cs) ?u = (Inr (), ?u\<lparr>k_vault_eddsa := q, k_vaults := kv_set (skey pk) (SubFunds vault cs) (k_vaults s)\<rparr>)"
    using A by (simp add: SubFunds_fields)
  show thesis
    by (rule that [of q]) (use A in \<open>simp add: processErrataState_def bindA_def dep set gets_def Let_def get lift_wrap_def wrap_error_def lift_result_def
      on_error_def attempt_def vault ret_def\<close>)
qed

lemma Inc_penalties: "\<exists>p. IncPenaltyPoints e pts [a] s = (Inr (), s\<lparr>k_penalties := p\<rparr>)"
  by (simp add: IncPenaltyPoints_def IncNodeAccountPenaltyPoints_def SetNodeAccountPenaltyPoints_def act_defs) blast

lemmas errata_reads = errata_settled_def GetErrataTxVoter_def GetObservedTxInVoter_def GetDepositRecord_def getBaseIndex_def

text \<open>A repeated message: the vote is not counted again, but the errata is applied again.\<close>

lemma errata_message_run:
  assumes s: "errata_settled e \<lparr>er_Id = i, er_Chain = ch\<rparr> sg pk cs vault s"
  obtains p q where "ErrataTxHandler_handle e i ch sg s = (Inr (), s\<lparr>k_penalties := p,
      k_txin_voters := kv_set (skey i) (Voter_SetReverted (GetObservedTxInVoter i s)) (k_txin_voters s), k_vault_eddsa := q,
      k_vaults := kv_set (skey pk) (SubFunds vault cs) (k_vaults s),
      k_errata_voters := kv_set (skey (ch @ ''-'' @ i)) (GetErrataTxVoter i ch s) (k_errata_voters s)\<rparr>)"
proof -
  let ?er = "\<lparr>er_Id = i, er_Chain = ch\<rparr>" and ?ev = "GetErrataTxVoter i ch s"
  have ev: "ev_BlockHeight ?ev > 0" "ErrataTxVoter_Sign e ?ev sg = (?ev, False)" "ErrataTxVoter_String ?ev = ch @ ''-'' @ i"
    using s by (simp_all add: errata_settled_def Let_def ErrataTxVoter_Sign_def ErrataTxVoter_String_def)
  obtain p where p: "IncPenaltyPoints e (GetConfigInt64 Observation_SubmitPenaltyPoints s) [sg] s = (Inr (), s\<lparr>k_penalties := p\<rparr>)"
    using Inc_penalties by blast
  have "errata_settled e ?er sg pk cs vault (s\<lparr>k_penalties := p\<rparr>)" using s by (simp add: errata_reads)
  then obtain q where q: "processErrataState e ?er (s\<lparr>k_penalties := p\<rparr>) = (Inr (), s\<lparr>k_penalties := p,
      k_txin_voters := kv_set (skey i) (Voter_SetReverted (GetObservedTxInVoter i s)) (k_txin_voters s), k_vault_eddsa := q,
      k_vaults := kv_set (skey pk) (SubFunds vault cs) (k_vaults s)\<rparr>)"
    by (rule errata_state_run) (simp add: GetObservedTxInVoter_def)
  show thesis
    by (rule that [of q p]) (use ev in \<open>simp add: ErrataTxHandler_handle_def processErrataTxAttestation_def bindA_def gets_def Let_def p attempt_def q ret_def
      SetErrataTxVoter_def modify_def lift_result_def\<close>)
qed

lemma errata_message:
  assumes "errata_settled e \<lparr>er_Id = i, er_Chain = ch\<rparr> sg pk cs vault s"
  shows "errata_settled e \<lparr>er_Id = i, er_Chain = ch\<rparr> sg pk cs (SubFunds vault cs) (snd (ErrataTxHandler_handle e i ch sg s))"
proof -
  obtain p q t where t: "t = s\<lparr>k_penalties := p,
      k_txin_voters := kv_set (skey i) (Voter_SetReverted (GetObservedTxInVoter i s)) (k_txin_voters s), k_vault_eddsa := q,
      k_vaults := kv_set (skey pk) (SubFunds vault cs) (k_vaults s),
      k_errata_voters := kv_set (skey (ch @ ''-'' @ i)) (GetErrataTxVoter i ch s) (k_errata_voters s)\<rparr>"
    and run: "ErrataTxHandler_handle e i ch sg s = (Inr (), t)" using errata_message_run [OF assms] by metis
  have ev: "GetErrataTxVoter i ch t = GetErrataTxVoter i ch s" by (simp add: t GetErrataTxVoter_def NewErrataTxVoter_def ErrataTxVoter_String_def)
  have v: "GetObservedTxInVoter i t = Voter_SetReverted (GetObservedTxInVoter i s)" by (simp add: t GetObservedTxInVoter_def)
  have r: "GetDepositRecord i t = GetDepositRecord i s" "getBaseIndex e t = getBaseIndex e s" "k_vaults t = kv_set (skey pk) (SubFunds vault cs) (k_vaults s)"
    by (simp_all add: t GetDepositRecord_def getBaseIndex_def)
  have w: "ObservedTx_IsEmpty (vo_Tx w) \<longleftrightarrow> ObservedTx_IsEmpty (vo_Tx v)" "ob_Tx (vo_Tx w) = ob_Tx (vo_Tx v)" "ob_ObservedPubKey (vo_Tx w) = ob_ObservedPubKey (vo_Tx v)"
    "vo_Txs w = [] \<longleftrightarrow> vo_Txs v = []" "vo_TxID w = vo_TxID v" "vo_UpdatedVault w = vo_UpdatedVault v" if "w = Voter_SetReverted v" for v w
    by (simp_all add: that Voter_SetReverted_def Voter_setStatus_def ObservedTx_IsEmpty_def Tx_IsEmpty_def)
  show ?thesis using assms w [OF v] by (simp add: run errata_settled_def Let_def ev r SubFunds_fields Vault_IsBase_def)
qed

section \<open>Votes for a transaction that is not known\<close>

text \<open>Nothing is stored under the identifier of the errata.\<close>

definition errata_unknown :: "TxID \<Rightarrow> kstate \<Rightarrow> bool" where
  "errata_unknown i s \<longleftrightarrow> kv_get (k_txin_voters s) (skey i) = None \<and> kv_get (k_txout_voters s) (skey i) = None \<and> kv_get (k_deposits s) (skey i) = None"

lemma errata_state_unknown: "errata_unknown (er_Id er) s \<Longrightarrow> processErrataState e er s = (Inr (), s)"
  by (simp add: errata_unknown_def processErrataState_def processErrataDepositRecord_def processErrataOutboundTx_def act_defs GetObservedTxInVoter_def
      GetObservedTxOutVoter_def GetDepositRecord_def zero_defs TxID_IsEmpty_def)

text \<open>Penalty points and the votes themselves are all that changes.\<close>

definition errata_frame :: "kstate \<Rightarrow> kstate" where
  "errata_frame s = s\<lparr>k_penalties := [], k_errata_voters := []\<rparr>"

lemma errata_unknown_frame: "errata_frame t = errata_frame s \<Longrightarrow> errata_unknown i t = errata_unknown i s"
proof -
  have "errata_unknown i (errata_frame x) = errata_unknown i x" for x by (simp add: errata_unknown_def errata_frame_def)
  then show "errata_frame t = errata_frame s \<Longrightarrow> ?thesis" by metis
qed

lemma same_errata_pieces: "same errata_frame (IncPenaltyPoints e p xs)" "same errata_frame (DecPenaltyPoints e p xs)" "same errata_frame (SetErrataTxVoter v)"
  unfolding IncPenaltyPoints_def DecPenaltyPoints_def IncNodeAccountPenaltyPoints_def DecNodeAccountPenaltyPoints_def SetNodeAccountPenaltyPoints_def
    SetErrataTxVoter_def by (auto intro!: act_keeps same_modify simp: errata_frame_def)

lemma keeps_errata_unknown:
  assumes "errata_unknown i s0"
  shows "keeps (\<lambda>s. errata_frame s = errata_frame s0) (ErrataTxHandler_handle e i ch sg)"
proof -
  let ?P = "\<lambda>s. errata_frame s = errata_frame s0"
  have state: "keeps ?P (processErrataState e \<lparr>er_Id = i, er_Chain = ch\<rparr>)"
    using errata_state_unknown [of "\<lparr>er_Id = i, er_Chain = ch\<rparr>"] errata_unknown_frame [of _ s0 i] assms by (auto simp: keeps_def)
  have frames: "same errata_frame m \<Longrightarrow> keeps ?P m" for m :: "unit kact" by (rule same_keeps)
  show ?thesis unfolding ErrataTxHandler_handle_def processErrataTxAttestation_def Let_def
    by (auto intro!: act_keeps state frames [OF same_errata_pieces(1)] frames [OF same_errata_pieces(2)] frames [OF same_errata_pieces(3)] split: prod.split)
qed

lemma errata_votes_unknown:
  assumes "errata_unknown i s"
  shows "errata_frame (fold (\<lambda>sg u. snd (ErrataTxHandler_handle e i ch sg u)) sgs s) = errata_frame s"
proof -
  have "errata_frame (fold (\<lambda>sg u. snd (ErrataTxHandler_handle e i ch sg u)) sgs u) = errata_frame s" if "errata_frame u = errata_frame s" for u
    using that
  proof (induction sgs arbitrary: u)
    case (Cons a sgs)
    then show ?case using keepsD [OF keeps_errata_unknown [OF assms] Cons.prems prod.collapse [symmetric]] by simp
  qed simp
  then show ?thesis by simp
qed

end
