(* ===== verification/Observed_Theorems.thy ===== *)
theory Observed_Theorems
  imports Inbound_Laws Demo_Deposits
begin

text \<open>
  The properties of observations: what a quorum rests on, how often it is announced, that an honest
  supermajority decides, and which coins a vault is credited with.
\<close>

section \<open>A small network\<close>

definition vote_node :: "string \<Rightarrow> NodeAccount" where
  "vote_node a = NodeAccount_zero\<lparr>na_NodeAddress := a, na_Status := NodeActive\<rparr>"

definition vote_nodes :: "NodeAccount list" where
  "vote_nodes = [vote_node ''a'', vote_node ''b'', vote_node ''c'']"

definition vote_tx :: "nat \<Rightarrow> string list \<Rightarrow> ObservedTx" where
  "vote_tx amt sgs = ObservedTx_zero\<lparr>ob_Tx := Tx_zero\<lparr>t_ID := ''x'', t_Chain := BTCChain, t_FromAddress := ''bc1from'', t_ToAddress := ''bc1x'',
     t_Coins := [NewCoin BTCAsset amt]\<rparr>, ob_ObservedPubKey := ''V'', ob_BlockHeight := 7, ob_FinaliseHeight := 7, ob_Signers := sgs\<rparr>"

definition vote_voter :: "string list \<Rightarrow> ObservedTxVoter" where
  "vote_voter sgs = ObservedTxVoter_zero\<lparr>vo_TxID := ''x'', vo_Txs := [vote_tx 1000 sgs]\<rparr>"

definition vote_state :: "string list \<Rightarrow> kstate" where
  "vote_state sgs = demo_state\<lparr>k_txin_voters := [(''X'', vote_voter sgs)]\<rparr>"

lemma demo_codec: "acc_codec demo_env"
  by (simp add: acc_codec_def demo_env_def)

lemma vote_tx_fields [simp]: "ObservedTx_IsFinal (vote_tx n sgs)" "\<not> ObservedTx_IsEmpty (vote_tx n sgs)"
  "t_Coins (ob_Tx (vote_tx n sgs)) = [NewCoin BTCAsset n]" "ob_ObservedPubKey (vote_tx n sgs) = ''V''"
  "GetSigners demo_env (vote_tx n sgs) = sgs" "HasSigned demo_env (vote_tx n sgs) a \<longleftrightarrow> a \<in> set sgs"
  by (simp_all add: vote_tx_def ObservedTx_IsFinal_def ObservedTx_IsEmpty_def Tx_IsEmpty_def zero_defs text_defs GetSigners_def HasSigned_def
      demo_env_def concat_map_singleton TxID_IsEmpty_def)

lemma vote_node_keys [simp]: "IsNodeKeys vote_nodes a \<longleftrightarrow> a = ''a'' \<or> a = ''b'' \<or> a = ''c''" "length vote_nodes = 3"
  "set (map na_NodeAddress vote_nodes) = {''a'', ''b'', ''c''}"
  by (auto simp: vote_nodes_def vote_node_def IsNodeKeys_def NodeAccount_zero_def)

lemma vote_equal: "tx_form (ob_Tx (vote_tx n sgs)) = tx_form (ob_Tx (vote_tx m sgs')) \<longleftrightarrow> n = m"
  "obs_form (vote_tx n sgs) = obs_form (vote_tx m sgs') \<longleftrightarrow> n = m"
  by (auto simp: vote_tx_def obs_form_def tx_form_def coins_form_def coin_form_def NewCoin_def zero_defs)

lemma vote_box: "box demo_env (vote_voter sgs) = {obs_form (vote_tx 1000 [])} \<times> set sgs"
proof -
  have "obs_form (vote_tx 1000 sgs) = obs_form (vote_tx 1000 [])" by (simp add: vote_equal)
  then show ?thesis by (auto simp: box_def vote_voter_def)
qed

lemma vote_voter_ok: "voter_ok (vote_voter sgs)" "vo_FinalisedHeight (vote_voter sgs) = 0" "vo_TxID (vote_voter sgs) = ''x''"
  "\<not> vo_Reverted (vote_voter sgs)" "\<not> vo_UpdatedVault (vote_voter sgs)"
  by (simp_all add: voter_ok_def vote_voter_def zero_defs ObservedTx_IsEmpty_def Tx_IsEmpty_def TxID_IsEmpty_def) (use vote_tx_fields(2) in \<open>simp add: ObservedTx_IsEmpty_def Tx_IsEmpty_def TxID_IsEmpty_def\<close>)

lemma backers_single: "backers ({F} \<times> S) nas final T = (if fst F = T \<and> final_form F = final then {a \<in> S. IsNodeKeys nas a} else {})"
  unfolding backers_def by (auto simp del: split_paired_Ex)

lemma vote_quorum:
  assumes "box demo_env v = {obs_form (vote_tx 1000 [])} \<times> S"
  shows "quorum demo_env v vote_nodes True t \<longleftrightarrow> tx_form (ob_Tx (vote_tx 1000 [])) = tx_form t \<and> 2 \<le> card (S \<inter> {''a'', ''b'', ''c''})"
proof -
  let ?N = "{''a'', ''b'', ''c'' :: string}" and ?F = "obs_form (vote_tx 1000 [])"
  have "{a \<in> S. IsNodeKeys vote_nodes a} = S \<inter> ?N" by auto
  then have B: "backers (box demo_env v) vote_nodes True (tx_form t) = (if tx_form (ob_Tx (vote_tx 1000 [])) = tx_form t then S \<inter> ?N else {})"
    unfolding assms backers_single by simp
  have "card (S \<inter> ?N) \<le> card ?N" by (rule card_mono) auto
  then have le: "card (S \<inter> ?N) \<le> 3" by simp
  have "e_acc_string demo_env ` X = X" for X by (simp add: demo_env_def)
  then show ?thesis using le unfolding quorum_def consensusVoters_card B HasSuperMajority_iff by simp linarith
qed

lemma vote_finalised: "HasFinalised demo_env (vote_voter sgs) vote_nodes \<longleftrightarrow> 2 \<le> card (set sgs \<inter> {''a'', ''b'', ''c''})"
  unfolding HasFinalised_quorum [OF vote_voter_ok(1,2)] vote_quorum [OF vote_box] by blast

text \<open>The vote of a second node out of three.\<close>

lemma second_vote:
  obtains w u where "processTxInAttestation demo_env (vote_voter [''a'']) vote_nodes (vote_tx 1000 []) ''b'' True s = (Inr (w, True), u)"
    "HasFinalised demo_env w vote_nodes" "ObservedTx_IsFinal (vo_Tx w)"
proof -
  let ?v = "fst (Voter_Add demo_env (vote_voter [''a'']) (vote_tx 1000 []) ''b'')"
  have box: "box demo_env ?v = {obs_form (vote_tx 1000 [])} \<times> {''a'', ''b''}"
    unfolding Voter_Add_box [OF demo_codec] vote_box by (simp add: insert_commute)
  have "{''a'', ''b''} \<inter> {''a'', ''b'', ''c''} = {''a'', ''b'' :: string}" by auto
  then have "quorum demo_env ?v vote_nodes True (ob_Tx (vote_tx 1000 []))" unfolding vote_quorum [OF box] by simp
  then have fin: "HasFinalised demo_env ?v vote_nodes"
    using HasFinalised_quorum [OF voter_ok_add [OF vote_voter_ok(1)]] vote_voter_ok(2) by auto
  have "(obs_form (vote_tx 1000 []), ''b'') \<notin> box demo_env (vote_voter [''a''])" by (simp add: vote_box)
  from attest_finalises [OF this vote_voter_ok(2) fin] finalised_is_final [OF fin] that show ?thesis by metis
qed

section \<open>Quorums\<close>

text \<open>C14. When an attestation announces a quorum, the transaction of the voter is one of the observations, at least
  two thirds of the active nodes signed observations of it with the same finality, and every signature
  in the voter was there before or is the one of this attestation.\<close>

theorem quorum_sound:
  assumes "voter_ok v" "\<not> ObservedTx_IsEmpty tx" "acc_codec e" "processTxInAttestation e v nas tx sg pen s = (Inr (w, True), t)"
  shows "vo_Tx w \<in> set (vo_Txs w) \<and>
    (\<exists>Q. Q \<subseteq> set (map na_NodeAddress nas) \<and> 2 * length nas \<le> 3 * card Q \<and>
      (\<forall>a \<in> Q. \<exists>x \<in> set (vo_Txs w). EqualsEx (ob_Tx (vo_Tx w)) (ob_Tx x) \<and> ObservedTx_IsFinal x = ObservedTx_IsFinal (vo_Tx w) \<and> HasSigned e x a)) \<and>
    (\<forall>x \<in> set (vo_Txs w). \<forall>a. HasSigned e x a \<longrightarrow>
      a = sg \<and> ObservedTx_Equals x tx \<or> (\<exists>y \<in> set (vo_Txs v). ObservedTx_Equals x y \<and> HasSigned e y a))"
proof -
  note q = attest_quorum [OF assms(4,1,2)]
  let ?Q = "backers (box e w) nas (ObservedTx_IsFinal (vo_Tx w)) (tx_form (ob_Tx (vo_Tx w)))"
  have "\<forall>a \<in> ?Q. \<exists>x \<in> set (vo_Txs w). EqualsEx (ob_Tx (vo_Tx w)) (ob_Tx x) \<and> ObservedTx_IsFinal x = ObservedTx_IsFinal (vo_Tx w) \<and> HasSigned e x a"
    by (metis EqualsEx_form mem_backers)
  moreover have "?Q \<subseteq> set (map na_NodeAddress nas)" by (rule backers_subset)
  moreover have "2 * length nas \<le> 3 * card ?Q" using q by (intro quorum_backers) simp
  moreover have "a = sg \<and> ObservedTx_Equals x tx \<or> (\<exists>y \<in> set (vo_Txs v). ObservedTx_Equals x y \<and> HasSigned e y a)"
    if "x \<in> set (vo_Txs w)" "HasSigned e x a" for x a
  proof -
    have "(obs_form x, a) \<in> insert (obs_form tx, sg) (box e v)" using that attest_box [OF assms(4,3)] mem_box by blast
    then show ?thesis unfolding ObservedTx_Equals_form by (metis insert_iff mem_box prod.inject)
  qed
  ultimately show ?thesis using q by blast
qed

theorem quorum_sound_witness: "\<exists>w t. processTxInAttestation demo_env (vote_voter [''a'']) vote_nodes (vote_tx 1000 []) ''b'' True demo_state = (Inr (w, True), t) \<and>
  (\<exists>Q \<subseteq> {''a'', ''b'', ''c''}. 2 \<le> card Q)"
proof -
  obtain w t where t: "processTxInAttestation demo_env (vote_voter [''a'']) vote_nodes (vote_tx 1000 []) ''b'' True demo_state = (Inr (w, True), t)"
    by (rule second_vote)
  obtain Q where "Q \<subseteq> set (map na_NodeAddress vote_nodes)" "2 * length vote_nodes \<le> 3 * card Q"
    using quorum_sound [OF vote_voter_ok(1) vote_tx_fields(2) demo_codec t] by blast
  then have "\<exists>Q \<subseteq> {''a'', ''b'', ''c''}. 2 \<le> card Q" unfolding vote_node_keys by (intro exI [of _ Q]) simp
  with t show ?thesis by blast
qed

text \<open>C16. Over any sequence of votes, in any blocks and with any active nodes, a voter announces at most two quorums,
  one of a transaction seen and one of a final one; once finalised it announces none and keeps its
  transaction.\<close>

theorem quorum_announced_once:
  assumes "attest_all e vs v s = (Inr (z, oks), t)" "list_all (\<lambda>(nas, h, tx, a). h \<noteq> 0) vs"
  shows "length (filter id oks) \<le> 2 \<and> (vo_Height v \<noteq> 0 \<longrightarrow> length (filter id oks) \<le> 1) \<and>
    (vo_FinalisedHeight v \<noteq> 0 \<longrightarrow> True \<notin> set oks \<and> vo_FinalisedHeight z = vo_FinalisedHeight v \<and> ob_Tx (vo_Tx z) = ob_Tx (vo_Tx v))"
proof -
  have "quorums_left z + length (filter id oks) \<le> quorums_left v"
    using assms(2) by (intro attest_all_quorums [OF assms(1)]) (auto simp: list_all_iff)
  moreover have "length (filter id oks) = 0 \<Longrightarrow> True \<notin> set oks" by (auto simp: filter_empty_conv)
  ultimately show ?thesis using attest_all_finalised [OF assms(1)] by (auto simp: quorums_left_def split: if_splits)
qed

theorem quorum_announced_once_witness:
  "\<exists>z oks t. attest_all demo_env [(vote_nodes, 5, vote_tx 1000 [], ''a''), (vote_nodes, 6, vote_tx 1000 [], ''b''), (vote_nodes, 7, vote_tx 1000 [], ''c'')]
    (ObservedTxVoter_zero\<lparr>vo_TxID := ''x''\<rparr>) demo_state = (Inr (z, oks), t) \<and> length (filter id oks) \<le> 2"
proof -
  let ?vs = "[(vote_nodes, 5, vote_tx 1000 [], ''a''), (vote_nodes, 6, vote_tx 1000 [], ''b''), (vote_nodes, 7, vote_tx 1000 [], ''c'')]"
  obtain z oks t where t: "attest_all demo_env ?vs (ObservedTxVoter_zero\<lparr>vo_TxID := ''x''\<rparr>) demo_state = (Inr (z, oks), t)"
    using attest_all_total by blast
  have "list_all (\<lambda>(nas, h :: int, tx, a). h \<noteq> 0) ?vs" by simp
  from quorum_announced_once [OF t this] t show ?thesis by blast
qed

text \<open>C15. Whatever the other nodes vote and however the votes interleave over the blocks: when two thirds of the active
  nodes vote for a final transaction and for no other, the votes are processed and that transaction is
  finalised.\<close>

theorem honest_supermajority_decides:
  assumes "acc_codec e" "votes_ok nas vs" "H \<subseteq> {a. IsNodeKeys nas a}" "HasSuperMajority (card H) (length nas)" "ObservedTx_IsFinal T"
    "\<forall>a \<in> H. \<exists>h. (nas, h, T, a) \<in> set vs"
    "\<forall>(n, h, x, a) \<in> set vs. a \<in> H \<longrightarrow> ObservedTx_IsFinal x \<longrightarrow> EqualsEx (ob_Tx T) (ob_Tx x)"
  shows "\<exists>z oks t. attest_all e vs (ObservedTxVoter_zero\<lparr>vo_TxID := i\<rparr>) s = (Inr (z, oks), t) \<and> vo_FinalisedHeight z \<noteq> 0 \<and>
    EqualsEx (ob_Tx T) (ob_Tx (vo_Tx z))"
proof -
  let ?v = "ObservedTxVoter_zero\<lparr>vo_TxID := i\<rparr>"
  obtain z oks t where t: "attest_all e vs ?v s = (Inr (z, oks), t)" using attest_all_total by blast
  have d: "decided e nas ?v" "vo_Txs ?v = []" by (simp_all add: decided_def zero_defs)
  note run = t assms(1) voter_ok_zero d(1) assms(2)
  have h: "IsNodeKeys nas a \<and> (\<exists>n h. (n, h, T, a) \<in> set vs)" "IsNodeKeys nas a" if "a \<in> H" for a using that assms(3,6) by blast+
  have "vo_FinalisedHeight z \<noteq> 0" using attest_all_decides [OF run h(1) assms(5,4)] by blast
  moreover from this have "EqualsEx (ob_Tx T) (ob_Tx (vo_Tx z))"
    using assms(7) by (intro attest_all_agrees [OF run h(2) assms(4) _ _ d(2)]) auto
  ultimately show ?thesis using t by blast
qed

theorem honest_supermajority_decides_witness:
  "\<exists>z oks t. attest_all demo_env [(vote_nodes, 5, vote_tx 1000 [], ''a''), (vote_nodes, 5, vote_tx 900000 [], ''c''), (vote_nodes, 6, vote_tx 1000 [], ''b'')]
    (ObservedTxVoter_zero\<lparr>vo_TxID := ''x''\<rparr>) demo_state = (Inr (z, oks), t) \<and> vo_FinalisedHeight z \<noteq> 0"
  using honest_supermajority_decides [of demo_env vote_nodes
      "[(vote_nodes, 5, vote_tx 1000 [], ''a''), (vote_nodes, 5, vote_tx 900000 [], ''c''), (vote_nodes, 6, vote_tx 1000 [], ''b'')]"
      "{''a'', ''b''}" "vote_tx 1000 []" "''x''" demo_state]
  by (auto simp: demo_codec votes_ok_def HasSuperMajority_iff EqualsEx_form)

section \<open>Credits\<close>

lemma vote_state_reads: "GetObservedTxInVoter (BTCOutpointScopedTxID demo_env (ob_Tx (vote_tx n ys))) (vote_state sgs) = vote_voter sgs"
  "BTCOutpointScopedTxID demo_env (ob_Tx (vote_tx n ys)) = ''x''"
  "VaultExists ''V'' (vote_state sgs)" "GetVault ''V'' (vote_state sgs) = Inr (demo_vault\<lparr>va_BlockHeight := 10\<rparr>)"
  "Vault_IsBase (demo_vault\<lparr>va_BlockHeight := 10\<rparr>)" "getBaseIndex demo_env (vote_state sgs) = Inr [''V'']"
  "\<not> observedBTCMigrationInbound (vote_tx n ys) (vote_state sgs)" "k_height (vote_state sgs) = 10"
  "\<not> Address_Equals (t_FromAddress (ob_Tx (vote_tx n ys))) (t_ToAddress (ob_Tx (vote_tx n ys)))"
proof -
  show x: "BTCOutpointScopedTxID demo_env (ob_Tx (vote_tx n ys)) = ''x''" by (simp add: BTCOutpointScopedTxID_def vote_tx_def zero_defs)
  show "GetObservedTxInVoter (BTCOutpointScopedTxID demo_env (ob_Tx (vote_tx n ys))) (vote_state sgs) = vote_voter sgs"
    unfolding x by (simp add: GetObservedTxInVoter_def vote_state_def kv_get_def skey_def) (simp add: ToUpper_def upper_char_def char_of_def bit_0)
  show "VaultExists ''V'' (vote_state sgs)"
    by (simp add: VaultExists_def vote_state_def demo_state_def kv_has_def kv_get_def skey_def text_defs)
  show "GetVault ''V'' (vote_state sgs) = Inr (demo_vault\<lparr>va_BlockHeight := 10\<rparr>)"
    using frame_reads(3) [of "vote_state sgs" demo_state "''V''"] batch_vault by (simp add: attest_frame_def vote_state_def)
  show "Vault_IsBase (demo_vault\<lparr>va_BlockHeight := 10\<rparr>)" by (simp add: Vault_IsBase_def demo_vault_def)
  show "getBaseIndex demo_env (vote_state sgs) = Inr [''V'']"
    by (simp add: getBaseIndex_def vote_state_def demo_state_def NewPubKey_def) (simp add: demo_env_def)
  show "\<not> observedBTCMigrationInbound (vote_tx n ys) (vote_state sgs)"
    by (simp add: observedBTCMigrationInbound_def GetTxOut_def vote_state_def demo_state_def empty_kstate_def NewTxOut_def zero_defs Let_def list_ex_iff)
  show "k_height (vote_state sgs) = 10" by (simp add: vote_state_def demo_state_def)
  show "\<not> Address_Equals (t_FromAddress (ob_Tx (vote_tx n ys))) (t_ToAddress (ob_Tx (vote_tx n ys)))"
    by (auto simp: Address_Equals_def EqualFold_def vote_tx_def ToLower_def dest: arg_cong [where f = length])
qed



text \<open>C18. When the stored votes reach the majority because the set of active nodes became smaller, any further observation,
  whatever it says, is handled as the quorum: the vault is credited with its coins, while the voter
  records the transaction of the majority. In the example two of three nodes saw 1000 sats and the third
  reports 900000.\<close>

theorem late_quorum_credits_last_vote:
  assumes "observeTxIn e nas sg tx s = (r, t)" "acc_codec e" "\<not> ObservedTx_IsEmpty tx"
    and v: "v = GetObservedTxInVoter (BTCOutpointScopedTxID e (ob_Tx tx)) s" "voter_ok v" "vo_FinalisedHeight v = 0" "HasFinalised e v nas"
      "\<not> vo_Reverted v" "\<not> vo_UpdatedVault v" "vo_TxID v = BTCOutpointScopedTxID e (ob_Tx tx)"
      "\<forall>x \<in> set (vo_Txs v). ObservedTx_Equals x tx \<longrightarrow> \<not> HasSigned e x sg"
    and vault: "VaultExists (ob_ObservedPubKey tx) s" "GetVault (ob_ObservedPubKey tx) s = Inr vault" "Vault_IsBase vault" "getBaseIndex e s = Inr pks"
      "\<not> observedBTCMigrationInbound tx s" "\<not> Address_Equals (t_FromAddress (ob_Tx tx)) (t_ToAddress (ob_Tx tx))"
  shows "k_vaults t = kv_set (skey (va_PubKey vault))
      ((AddFunds vault (t_Coins (ob_Tx tx)))\<lparr>va_InboundTxCount := wrap64 (va_InboundTxCount vault + 1)\<rparr>) (k_vaults s) \<and>
    ob_Tx (vo_Tx (GetObservedTxInVoter (BTCOutpointScopedTxID e (ob_Tx tx)) t)) = ob_Tx (GetTx e (fst (Voter_Add e v tx sg)) nas)"
proof -
  have fin: "HasFinalised e (fst (Voter_Add e v tx sg)) nas" using HasFinalised_add [OF v(4,3,2) assms(3,2)] .
  have new: "(obs_form tx, sg) \<notin> box e v" using v(8) by (auto simp: mem_box ObservedTx_Equals_form)
  obtain u where attest: "processTxInAttestation e v nas tx sg True s = (Inr (finalised e nas (k_height s) (fst (Voter_Add e v tx sg)), True), u)"
    by (rule attest_finalises [OF new v(3) fin])
  let ?w = "finalised e nas (k_height s) (fst (Voter_Add e v tx sg))"
  have w: "\<not> vo_Reverted ?w" "\<not> vo_UpdatedVault ?w" "vo_TxID ?w = BTCOutpointScopedTxID e (ob_Tx tx)" "vo_Tx ?w = GetTx e (fst (Voter_Add e v tx sg)) nas"
    using v by (simp_all add: finalised_def)
  from observe_credit [OF assms(1) attest [unfolded v(1)], folded v(1), OF _ w(1,2) vault] finalised_is_final [OF fin] w(3,4)
  show ?thesis by (simp add: voter_noted_def)
qed

theorem late_quorum_credits_last_vote_witness:
  "\<exists>r t. observeTxIn demo_env vote_nodes ''c'' (vote_tx 900000 []) (vote_state [''a'', ''b'']) = (r, t) \<and>
    map (\<lambda>(k, v). va_Coins v) (k_vaults t) = [[NewCoin BTCAsset 900000]] \<and>
    t_Coins (ob_Tx (vo_Tx (GetObservedTxInVoter ''x'' t))) = [NewCoin BTCAsset 1000]"
proof -
  obtain r t where t: "observeTxIn demo_env vote_nodes ''c'' (vote_tx 900000 []) (vote_state [''a'', ''b'']) = (r, t)" by fastforce
  have ab: "set [''a'', ''b''] \<inter> {''a'', ''b'', ''c''} = {''a'', ''b'' :: string}" by auto
  have f: "HasFinalised demo_env (vote_voter [''a'', ''b'']) vote_nodes" unfolding vote_finalised ab by simp
  have new: "\<forall>x \<in> set (vo_Txs (vote_voter [''a'', ''b''])). ObservedTx_Equals x (vote_tx 900000 []) \<longrightarrow> \<not> HasSigned demo_env x ''c''"
    by (simp add: vote_voter_def)
  let ?v = "fst (Voter_Add demo_env (vote_voter [''a'', ''b'']) (vote_tx 900000 []) ''c'')"
  have zero: "ObservedTx_IsEmpty ObservedTx_zero" by (simp add: ObservedTx_IsEmpty_def Tx_IsEmpty_def TxID_IsEmpty_def zero_defs)
  have txs: "vo_Txs ?v = [vote_tx 1000 [''a'', ''b''], vote_tx 900000 [''c'']]" "vo_Tx ?v = ObservedTx_zero"
    by (simp_all add: Voter_Add_def equal_votes_def ObservedTx_Equals_form vote_voter_def vote_equal) (simp_all add: vote_tx_def demo_env_def zero_defs)
  have "quorum demo_env (vote_voter [''a'', ''b'']) vote_nodes True (ob_Tx (vote_tx 1000 [''a'', ''b'']))"
    unfolding vote_quorum [OF vote_box] ab by (simp add: vote_equal)
  then have "quorum demo_env ?v vote_nodes True (ob_Tx (vote_tx 1000 [''a'', ''b'']))"
    by (rule quorum_mono [rotated]) (auto simp: Voter_Add_box [OF demo_codec])
  then have "getConsensusTx demo_env ?v vote_nodes True = vote_tx 1000 [''a'', ''b'']"
    unfolding getConsensusTx_def txs quorum_def by simp
  then have tx: "GetTx demo_env ?v vote_nodes = vote_tx 1000 [''a'', ''b'']"
    unfolding GetTx_def txs(2) by (simp add: zero)
  from late_quorum_credits_last_vote [OF t demo_codec vote_tx_fields(2) vote_state_reads(1) [symmetric] vote_voter_ok(1,2) f vote_voter_ok(4,5) _ new]
  show ?thesis using t
    by (simp add: vote_state_reads vote_voter_ok tx) (simp add: vote_state_def demo_state_def demo_vault_def zero_defs AddFunds_def addFund_def skey_def text_defs)
qed

end
