(* ===== verification/Outbound_Theorems.thy ===== *)
theory Outbound_Theorems
  imports Errata_Laws Observed_Theorems
begin

text \<open>
  The properties of outbound settlement and of erratas: which transaction settles a batch, what becomes of an
  outbound that matches nothing, and how often an errata is applied.
\<close>

section \<open>Observations as a state machine\<close>

text \<open>Blocks follow each other, and every message that reports a transaction is a step.\<close>

inductive observation_step :: "env \<Rightarrow> crypto \<Rightarrow> kstate \<Rightarrow> kstate \<Rightarrow> bool" for e c where
  next_block: "k_height s < h \<Longrightarrow> 0 < h \<Longrightarrow> observation_step e c s (s\<lparr>k_height := h\<rparr>)"
| observed_in: "observation_step e c s (snd (ObservedTxInHandler_handle e txs signer s))"
| observed_out: "observation_step e c s (snd (ObservedTxOutHandler_handle e txs signer s))"
| observed_quorum: "observation_step e c s (snd (ObservedTxQuorumHandler_handle e c quoTx signer s))"
| errata: "observation_step e c s (snd (ErrataTxHandler_handle e txID chain signer s))"
| errata_quorum: "observation_step e c s (snd (ErrataTxQuorumHandler_handle e c er atts s))"

inductive_cases observation_stepE: "observation_step e c s t"

lemma watching_step: "observation_step e c s t \<Longrightarrow> watching h s \<Longrightarrow> watching h t"
proof (induction rule: observation_step.induct)
  case (next_block s h')
  then show ?case by (auto simp: watching_def watched_def GetUnmatchedOutboundHeight_def GetObservedTxOutVoter_def)
next
  case (observed_in s txs signer)
  then show ?case using keeps_watching [OF watch.same_txin_handler] by (auto simp: keeps_def)
qed (use keeps_txout_handler keeps_quorum_handler keeps_errata_handlers in \<open>auto simp: keeps_def\<close>)

lemma watching_steps: "(observation_step e c)\<^sup>*\<^sup>* s t \<Longrightarrow> watching h s \<Longrightarrow> watching h t"
  by (induction rule: rtranclp_induct) (auto intro: watching_step)

text \<open>C19. A final outbound that pays nothing the queue asked for is recorded at the quorum, and the source means
  a later vote to find the record and halt the signing. No sequence of blocks, observations, quorum messages and
  erratas ever does: the branch that halts runs only when a quorum is announced, which happens once per transaction.\<close>

theorem unmatched_outbound_never_halts:
  assumes "(observation_step e c)\<^sup>*\<^sup>* s t" "watched s"
  shows "k_halt_signing t = k_halt_signing s \<and>
    (\<forall>i. GetUnmatchedOutboundHeight i t \<noteq> 0 \<longrightarrow> vo_Height (GetObservedTxOutVoter i t) \<noteq> 0)"
proof -
  have "watching (k_halt_signing s) t" by (rule watching_steps [OF assms(1)]) (simp add: watching_def assms(2))
  then show ?thesis unfolding watching_def watched_def by blast
qed

definition no_crypto :: crypto where
  "no_crypto = \<lparr>cr_bech32 = Inr, cr_verify = (\<lambda>_ _ _. True), cr_address = (\<lambda>p. p), cr_tx_payload = (\<lambda>_ _. Inr []), cr_errata_payload = (\<lambda>_. Inr [])\<rparr>"

definition stolen_state :: kstate where
  "stolen_state = demo_state\<lparr>k_unmatched := [(''X'', 4)], k_txout_voters := [(''X'', (vote_voter [''a'', ''b''])\<lparr>vo_Height := 4\<rparr>)]\<rparr>"

theorem unmatched_outbound_never_halts_witness:
  "GetUnmatchedOutboundHeight ''x'' stolen_state = 4 \<and>
    k_halt_signing (snd (ObservedTxOutHandler_handle demo_env [vote_tx 1000 []] ''c'' (stolen_state\<lparr>k_height := 11\<rparr>))) = None"
proof -
  have s: "k_height stolen_state = 10" "k_halt_signing stolen_state = None" by (simp_all add: stolen_state_def demo_state_def empty_kstate_def)
  have x: "skey ''x'' = ''X''" by (simp add: skey_def ToUpper_def upper_char_def char_of_def bit_0)
  have u: "GetUnmatchedOutboundHeight i stolen_state = (if skey i = ''X'' then 4 else 0)"
    "GetObservedTxOutVoter i stolen_state = (if skey i = ''X'' then (vote_voter [''a'', ''b''])\<lparr>vo_Height := 4\<rparr> else ObservedTxVoter_zero\<lparr>vo_TxID := i\<rparr>)" for i
    by (simp_all add: stolen_state_def GetUnmatchedOutboundHeight_def GetObservedTxOutVoter_def kv_get_def)
  have w: "watched stolen_state" unfolding watched_def by (simp add: s u) (simp add: stolen_state_def kv_get_def vote_voter_ok x)
  have "observation_step demo_env no_crypto stolen_state (stolen_state\<lparr>k_height := 11\<rparr>)" by (rule next_block) (simp_all add: s)
  then have "(observation_step demo_env no_crypto)\<^sup>*\<^sup>* stolen_state
      (snd (ObservedTxOutHandler_handle demo_env [vote_tx 1000 []] ''c'' (stolen_state\<lparr>k_height := 11\<rparr>)))"
    by (rule converse_rtranclp_into_rtranclp) (rule r_into_rtranclp, rule observed_out)
  from unmatched_outbound_never_halts [OF this w] show ?thesis using s(2) u(1) [of "''x''"] x by simp
qed

section \<open>Erratas\<close>

text \<open>C21. The errata of an inbound transaction whose vault was credited takes the coins from the vault, and it does so
  again for every message a node repeats: after \<open>n\<close> copies the vault is debited \<open>n\<close> times. The flag that marks the transaction
  as reverted is set but not read.\<close>

theorem errata_debits_every_message:
  assumes "errata_settled e \<lparr>er_Id = i, er_Chain = ch\<rparr> sg pk cs vault s"
  shows "kv_get (k_vaults (((\<lambda>u. snd (ErrataTxHandler_handle e i ch sg u)) ^^ n) s)) (skey pk) = Some (((\<lambda>v. SubFunds v cs) ^^ n) vault)"
proof -
  have "errata_settled e \<lparr>er_Id = i, er_Chain = ch\<rparr> sg pk cs (((\<lambda>v. SubFunds v cs) ^^ n) vault) (((\<lambda>u. snd (ErrataTxHandler_handle e i ch sg u)) ^^ n) s)"
    by (induction n) (use assms errata_message in auto)
  then show ?thesis by (simp add: errata_settled_def Let_def)
qed

definition rich_vault :: Vault where
  "rich_vault = demo_vault\<lparr>va_BlockHeight := 3, va_Coins := [NewCoin BTCAsset 5000]\<rparr>"

definition dropped_state :: kstate where
  "dropped_state = demo_state\<lparr>k_vaults := [(''V'', rich_vault)], k_txin_voters := [(''X'', (vote_voter [''a''])\<lparr>vo_Tx := vote_tx 1000 [''a''], vo_UpdatedVault := True\<rparr>)],
     k_errata_voters := [(skey (BTCChain @ ''-'' @ ''x''), \<lparr>ev_TxID = ''x'', ev_Chain = BTCChain, ev_BlockHeight = 9, ev_Signers = [''a'', ''b'']\<rparr>)]\<rparr>"

theorem errata_debits_every_message_witness:
  "va_Coins (the (kv_get (k_vaults (((\<lambda>u. snd (ErrataTxHandler_handle demo_env ''x'' BTCChain ''a'' u)) ^^ 3) dropped_state)) ''V'')) = [NewCoin BTCAsset 2000]"
proof -
  have x: "skey ''x'' = ''X''" "skey ''V'' = ''V''" by (simp_all add: skey_def ToUpper_def upper_char_def char_of_def bit_0)
  have v: "GetObservedTxInVoter ''x'' dropped_state = (vote_voter [''a''])\<lparr>vo_Tx := vote_tx 1000 [''a''], vo_UpdatedVault := True\<rparr>"
    by (simp add: GetObservedTxInVoter_def dropped_state_def kv_get_def x)
  have ev: "GetErrataTxVoter ''x'' BTCChain dropped_state = \<lparr>ev_TxID = ''x'', ev_Chain = BTCChain, ev_BlockHeight = 9, ev_Signers = [''a'', ''b'']\<rparr>"
    by (simp add: GetErrataTxVoter_def dropped_state_def kv_get_def NewErrataTxVoter_def ErrataTxVoter_String_def)
  have d: "TxID_IsEmpty (dr_DepositID (GetDepositRecord ''x'' dropped_state))"
    by (simp add: GetDepositRecord_def dropped_state_def demo_state_def empty_kstate_def zero_defs TxID_IsEmpty_def)
  have b: "getBaseIndex demo_env dropped_state = Inr [''V'']"
    by (simp add: getBaseIndex_def dropped_state_def demo_state_def NewPubKey_def) (simp add: demo_env_def)
  have tx: "t_Chain (ob_Tx (vote_tx 1000 [''a''])) = BTCChain" "vo_Txs (vote_voter [''a'']) \<noteq> []" by (simp_all add: vote_tx_def vote_voter_def)
  have "errata_settled demo_env \<lparr>er_Id = ''x'', er_Chain = BTCChain\<rparr> ''a'' ''V'' [NewCoin BTCAsset 1000] rich_vault dropped_state"
    unfolding errata_settled_def Let_def using tx
    by (simp add: v ev d b x vote_voter_ok ErrataTxVoter_HasSigned_def ErrataTxVoter_GetSigners_def Chain_Equals_def EqualFold_def)
      (simp add: demo_env_def dropped_state_def kv_get_def rich_vault_def demo_vault_def Vault_IsBase_def)
  from errata_debits_every_message [OF this, of 3] show ?thesis
    by (simp add: x numeral_3_eq_3) (simp add: SubFunds_def rich_vault_def NewCoin_def Asset_Equals_def Chain_Equals_def EqualFold_def SafeSub_def)
qed

text \<open>C22. The observation of a Bitcoin output other than the first is stored under an identifier of its own, while an errata names
  the transaction. When nothing else is stored under the transaction, no number of votes for its errata changes a vault, a
  deposit or the observation: a credit that the chain dropped stays.\<close>

theorem errata_misses_outpoint:
  assumes "errata_unknown (t_ID tx) s" and "t = fold (\<lambda>sg u. snd (ErrataTxHandler_handle e (t_ID tx) ch sg u)) sgs s"
  shows "k_vaults t = k_vaults s \<and> k_deposits t = k_deposits s \<and> k_txouts t = k_txouts s \<and>
    GetObservedTxInVoter (BTCOutpointScopedTxID e tx) t = GetObservedTxInVoter (BTCOutpointScopedTxID e tx) s"
proof -
  have "errata_frame t = errata_frame s" unfolding assms(2) by (rule errata_votes_unknown [OF assms(1)])
  moreover have "k_vaults (errata_frame x) = k_vaults x" "k_deposits (errata_frame x) = k_deposits x" "k_txouts (errata_frame x) = k_txouts x"
    "GetObservedTxInVoter j (errata_frame x) = GetObservedTxInVoter j x" for x j
    by (simp_all add: errata_frame_def GetObservedTxInVoter_def)
  ultimately show ?thesis by metis
qed

definition second_output :: Tx where
  "second_output = (ob_Tx (vote_tx 1000 []))\<lparr>t_SourceVout := 1\<rparr>"

definition second_voter :: ObservedTxVoter where
  "second_voter = (vote_voter [''a''])\<lparr>vo_TxID := BTCOutpointScopedTxID demo_env second_output, vo_UpdatedVault := True\<rparr>"

definition second_state :: kstate where
  "second_state = demo_state\<lparr>k_vaults := [(''V'', rich_vault)], k_txin_voters := [(skey (BTCOutpointScopedTxID demo_env second_output), second_voter)]\<rparr>"

theorem errata_misses_outpoint_witness:
  "t_SourceVout second_output = 1 \<and> vo_UpdatedVault (GetObservedTxInVoter (BTCOutpointScopedTxID demo_env second_output) second_state) \<and>
   (let t = fold (\<lambda>sg u. snd (ErrataTxHandler_handle demo_env ''x'' BTCChain sg u)) [''a'', ''b'', ''c''] second_state in
    k_vaults t = [(''V'', rich_vault)] \<and> \<not> vo_Reverted (GetObservedTxInVoter (BTCOutpointScopedTxID demo_env second_output) t))"
proof -
  have i: "t_ID second_output = ''x''" "t_SourceVout second_output = 1" "t_Chain second_output = BTCChain"
    by (simp_all add: second_output_def vote_tx_def)
  have "length (e_sha256 demo_env x) = 32" for x by (simp add: demo_env_def)
  then have "NewTxID (EncodeUpper (e_sha256 demo_env x)) = Inr (ToUpper (EncodeUpper (e_sha256 demo_env x)))"
    "length (ToUpper (EncodeUpper (e_sha256 demo_env x))) = 64" for x by (simp_all add: NewTxID_64 length_EncodeUpper ToUpper_def)
  then have len: "length (BTCOutpointScopedTxID demo_env second_output) = 64"
    by (simp add: BTCOutpointScopedTxID_def i Chain_Equals_def EqualFold_def TxID_IsEmpty_def TrimSpace_def is_space_def)
  then have n: "skey (BTCOutpointScopedTxID demo_env second_output) \<noteq> skey ''x''"
    by (auto simp: skey_def ToUpper_def dest: arg_cong [where f = length])
  have v: "GetObservedTxInVoter (BTCOutpointScopedTxID demo_env second_output) second_state = second_voter"
    by (simp add: GetObservedTxInVoter_def second_state_def kv_get_def)
  have "errata_unknown (t_ID second_output) second_state"
    using n by (auto simp: errata_unknown_def i second_state_def kv_get_def demo_state_def empty_kstate_def)
  from errata_misses_outpoint [OF this refl, where e = demo_env and ch = BTCChain and sgs = "[''a'', ''b'', ''c'']"]
  show ?thesis unfolding Let_def by (simp add: i v) (simp add: second_state_def second_voter_def vote_voter_ok)
qed

section \<open>Batches\<close>

text \<open>The sum of the items of a batch that pay an address, by whether it is the vault's own.\<close>

definition batch_paid :: "Address \<Rightarrow> bool \<Rightarrow> TxOutItem list \<Rightarrow> nat" where
  "batch_paid root own items = sum_list (map (\<lambda>i. co_Amount (to_Coin i))
     (filter (\<lambda>i. \<not> btcBatchVinOnlyItem i \<and> Address_Equals (to_ToAddress i) root = own) items))"

lemma expectItem_Some:
  assumes "expectItem tx root False ex i = Some ex'"
  shows "TxID_IsEmpty (to_OutHash i) \<and> to_VaultPubKey i = ob_ObservedPubKey tx \<and> Asset_Equals (co_Asset (to_Coin i)) BTCAsset \<and> to_SourceInputs i \<noteq> []"
    "be_externalTotal ex' = be_externalTotal ex + batch_paid root False [i]" "be_selfTotal ex' = be_selfTotal ex + batch_paid root True [i]"
    "be_inputs ex' = (if be_inputs ex = [] then to_SourceInputs i else be_inputs ex)"
    "be_inputs ex = [] \<or> btcTxOutInputsEqual (be_inputs ex) (to_SourceInputs i)"
  using assms by (auto simp: expectItem_def Let_def batch_paid_def split: if_splits)

lemma expectItems_Some:
  assumes "expectItems tx root False ex items = Some ex'" "be_inputs ex \<noteq> [] \<or> items \<noteq> []"
  shows "(\<forall>i \<in> set items. TxID_IsEmpty (to_OutHash i) \<and> to_VaultPubKey i = ob_ObservedPubKey tx \<and> Asset_Equals (co_Asset (to_Coin i)) BTCAsset) \<and>
    be_externalTotal ex' = be_externalTotal ex + batch_paid root False items \<and> be_selfTotal ex' = be_selfTotal ex + batch_paid root True items \<and>
    be_inputs ex' = (if be_inputs ex = [] then to_SourceInputs (hd items) else be_inputs ex) \<and>
    (\<forall>i \<in> set (if be_inputs ex = [] then tl items else items). btcTxOutInputsEqual (be_inputs ex') (to_SourceInputs i))"
  using assms
proof (induction items arbitrary: ex)
  case Nil
  then show ?case by (auto simp: batch_paid_def)
next
  case (Cons i items)
  then obtain ex1 where one: "expectItem tx root False ex i = Some ex1" and rest: "expectItems tx root False ex1 items = Some ex'"
    by (auto split: option.splits)
  note o = expectItem_Some [OF one]
  have ne: "be_inputs ex1 \<noteq> []" using o(1,4) by auto
  have p: "batch_paid root own (i # items) = batch_paid root own [i] + batch_paid root own items" for own by (simp add: batch_paid_def)
  from Cons.IH [OF rest] ne have IH: "\<forall>i \<in> set items. TxID_IsEmpty (to_OutHash i) \<and> to_VaultPubKey i = ob_ObservedPubKey tx \<and> Asset_Equals (co_Asset (to_Coin i)) BTCAsset"
    "be_externalTotal ex' = be_externalTotal ex1 + batch_paid root False items" "be_selfTotal ex' = be_selfTotal ex1 + batch_paid root True items"
    "be_inputs ex' = be_inputs ex1" "\<forall>i \<in> set items. btcTxOutInputsEqual (be_inputs ex') (to_SourceInputs i)" by auto
  show ?case using IH o p [of False] p [of True] by auto
qed

lemma stamp_hash: "i \<in> set (stampBatch h v items) \<Longrightarrow> to_OutHash i = h"
  by (induction h v items rule: stampBatch.induct) (auto split: if_splits)

lemma vin_only_stamp [simp]: "btcBatchVinOnlyItem (i\<lparr>to_OutHash := h, to_OutVout := v\<rparr>) = btcBatchVinOnlyItem i"
  by (simp add: btcBatchVinOnlyItem_def btcEpochBatchItem_def btcPinnedSourceInputs_def GetTxType_def)

lemma stamp_vouts: "map to_OutVout (filter (\<lambda>i. \<not> btcBatchVinOnlyItem i) (stampBatch h v items)) =
    map (\<lambda>k. v + of_nat k) [0..<length (filter (\<lambda>i. \<not> btcBatchVinOnlyItem i) items)]"
proof (induction h v items rule: stampBatch.induct)
  case (2 h v i items)
  then show ?case by (simp add: upt_conv_Cons map_Suc_upt [symmetric] o_def add.assoc del: upt_Suc)
qed simp

lemma SetTxOut_array:
  assumes "tx_TxArray b \<noteq> []" "SetTxOut b s = (r, t)"
  shows "r = Inr () \<and> tx_TxArray (GetTxOut (tx_Height b) t) = tx_TxArray b"
  using assms by (auto simp: SetTxOut_def TxOut_IsEmpty_def Let_def modify_def GetTxOut_def)

lemma same_txouts_marked: "same k_txouts (markMatchedTxOutItemSettled e item tx)"
  unfolding markMatchedTxOutItemSettled_def markDepositSweepComplete_def by (auto intro!: act_keeps)

text \<open>C20. A transaction settles a batch only when every item of the block is open and belongs to the observed vault, all items
  were planned with the same inputs and the transaction spends them, and the amount is exactly the sum owed to the recipients, or,
  without recipients, what the batch returns to the vault. Every item of the block then carries the transaction, and the paying ones
  its outputs 0, 1, and so on in their order.\<close>

theorem batch_settled_exactly:
  assumes run: "markObservedOutboundTxOutBatch e b tx s = (Inr True, t)"
    and root: "e_taproot e (ob_ObservedPubKey tx) MainVaultPathIndex = Inr root"
    and items: "items = tx_TxArray b" "settled = tx_TxArray (GetTxOut (tx_Height b) t)"
  shows "(\<forall>i \<in> set items. TxID_IsEmpty (to_OutHash i) \<and> to_VaultPubKey i = ob_ObservedPubKey tx) \<and>
    (\<forall>i \<in> set (tl items). btcTxOutInputsEqual (to_SourceInputs (hd items)) (to_SourceInputs i)) \<and>
    observedTxSpentTxOutInputs (t_SourceInputs (ob_Tx tx)) (to_SourceInputs (hd items)) \<and>
    co_Amount (GetCoin (t_Coins (ob_Tx tx)) BTCAsset) =
      (if batch_paid root False items \<noteq> 0 then batch_paid root False items
       else if batch_paid root True items \<noteq> 0 then batch_paid root True items
       else btcSourceInputsAmount (to_SourceInputs (hd items)) - co_Amount (GetCoin (t_Gas (ob_Tx tx)) BTCAsset)) \<and>
    length settled = length items \<and> (\<forall>i \<in> set settled. to_OutHash i = t_ID (ob_Tx tx)) \<and>
    map to_OutVout (filter (\<lambda>i. \<not> btcBatchVinOnlyItem i) settled) = map of_nat [0..<length (filter (\<lambda>i. \<not> btcBatchVinOnlyItem i) items)]"
proof -
  let ?b = "b\<lparr>tx_TxArray := stampBatch (t_ID (ob_Tx tx)) 0 items\<rparr>"
  have m: "batchMatches e b tx False" using run by (auto simp: markObservedOutboundTxOutBatch_def act_run split: if_splits)
  then have ne: "items \<noteq> []" by (auto simp: batchMatches_def items split: if_splits)
  have len: "length (stampBatch h v xs) = length xs" for h v xs by (induction h v xs rule: stampBatch.induct) simp_all
  obtain u where u: "SetTxOut ?b s = (Inr (), u)" and rest: "forA (\<lambda>item. markMatchedTxOutItemSettled e item tx) (tx_TxArray ?b) u = (Inr (), t)"
    using run m by (auto simp: markObservedOutboundTxOutBatch_def act_run items Let_def)
  have "k_txouts t = k_txouts u" using sameD [OF same_forA [OF same_txouts_marked] rest] .
  moreover have "tx_TxArray ?b \<noteq> []" using len [of "t_ID (ob_Tx tx)" 0 items] ne by auto
  ultimately have st: "settled = stampBatch (t_ID (ob_Tx tx)) 0 items"
    using SetTxOut_array [OF _ u] by (simp add: items(2) GetTxOut_def)
  let ?z = "\<lparr>be_externalTotal = 0, be_selfTotal = 0, be_unionValue = 0, be_totalMaxGas = 0, be_inputs = [], be_items = 0, be_vinOnly = 0\<rparr>"
  obtain ex where ex: "expectItems tx root False ?z items = Some ex"
    and amt: "btcEpochBatchAmountMatches (ex\<lparr>be_unionValue := btcSourceInputsAmount (be_inputs ex)\<rparr>) (co_Amount (GetCoin (t_Coins (ob_Tx tx)) BTCAsset))
      (co_Amount (GetCoin (t_Gas (ob_Tx tx)) BTCAsset))" and sp: "observedTxSpentTxOutInputs (t_SourceInputs (ob_Tx tx)) (be_inputs ex)"
    using m by (auto simp: batchMatches_def root btcEpochBatchExpectationsFor_def items split: if_splits option.splits)
  from expectItems_Some [OF ex] ne have i: "\<forall>i \<in> set items. TxID_IsEmpty (to_OutHash i) \<and> to_VaultPubKey i = ob_ObservedPubKey tx"
    "be_externalTotal ex = batch_paid root False items" "be_selfTotal ex = batch_paid root True items" "be_inputs ex = to_SourceInputs (hd items)"
    "\<forall>i \<in> set (tl items). btcTxOutInputsEqual (to_SourceInputs (hd items)) (to_SourceInputs i)" by auto
  have "co_Amount (GetCoin (t_Coins (ob_Tx tx)) BTCAsset) = (if batch_paid root False items \<noteq> 0 then batch_paid root False items
      else if batch_paid root True items \<noteq> 0 then batch_paid root True items
      else btcSourceInputsAmount (to_SourceInputs (hd items)) - co_Amount (GetCoin (t_Gas (ob_Tx tx)) BTCAsset))"
    using amt by (simp add: btcEpochBatchAmountMatches_def i(2-4) split: if_splits)
  then show ?thesis using i(1,5) sp stamp_hash stamp_vouts [of "t_ID (ob_Tx tx)" 0 items] by (simp add: st i(4) len)
qed

definition owed :: "Address \<Rightarrow> nat \<Rightarrow> TxOutItem" where
  "owed addr n = pay_item\<lparr>to_ToAddress := addr, to_Coin := NewCoin BTCAsset n, to_MaxGas := [NewCoin BTCAsset 250], to_SourceInputs := [out_of ''u'' 60000]\<rparr>"

definition owed_block :: TxOut where
  "owed_block = TxOut_zero\<lparr>tx_Height := 8, tx_Status := TxOutStatusPendingSign, tx_TxArray := [owed ''bc1q'' 30000, owed ''bc1p'' 20000]\<rparr>"

definition paying_tx :: ObservedTx where
  "paying_tx = (vote_tx 50000 [])\<lparr>ob_Tx := (ob_Tx (vote_tx 50000 []))\<lparr>t_FromAddress := ''bc1V'', t_Gas := [NewCoin BTCAsset 400],
     t_SourceInputs := [\<lparr>in_TxID = ''u'', in_Vout = 0, in_AmountSats = 60000\<rparr>]\<rparr>\<rparr>"

theorem batch_settled_exactly_witness:
  "\<exists>t. markObservedOutboundTxOutBatch demo_env owed_block paying_tx demo_state = (Inr True, t) \<and>
    map to_OutVout (filter (\<lambda>i. \<not> btcBatchVinOnlyItem i) (tx_TxArray (GetTxOut 8 t))) = [0, 1]"
proof -
  have k: "btcEpochBatchItem (owed x n)" "\<not> btcBatchVinOnlyItem (owed x n)" for x n
    by (simp_all add: btcEpochBatchItem_def btcBatchVinOnlyItem_def btcPinnedSourceInputs_def owed_def pay_item_def GetTxType_def NormalizeTxOutType_def
        txout_string_defs text_defs zero_defs BTCChain_def Chain_Equals_def EqualFold_def ToLower_def lower_char_def MainVaultPathIndex_def Let_def)
  have o: "to_OutHash (owed x n) = []" "Chain_Equals (to_Chain (owed x n)) BTCChain" "to_VaultPubKey (owed x n) = ''V''" "to_Coin (owed x n) = NewCoin BTCAsset n"
    "to_SourceInputs (owed x n) = [out_of ''u'' 60000]" "to_ToAddress (owed x n) = x" "to_MaxGas (owed x n) = [NewCoin BTCAsset 250]"
    "to_InHash (owed x n) = []" for x n
    by (simp_all add: owed_def pay_item_def zero_defs Chain_Equals_def EqualFold_def)
  have a: "Asset_Equals BTCAsset BTCAsset" by (simp add: Asset_Equals_def Chain_Equals_def EqualFold_def)
  have p: "t_Chain (ob_Tx paying_tx) = BTCChain" "ob_ObservedPubKey paying_tx = ''V''" "t_FromAddress (ob_Tx paying_tx) = ''bc1V''"
    "t_Coins (ob_Tx paying_tx) = [NewCoin BTCAsset 50000]" "t_Gas (ob_Tx paying_tx) = [NewCoin BTCAsset 400]"
    "t_SourceInputs (ob_Tx paying_tx) = [\<lparr>in_TxID = ''u'', in_Vout = 0, in_AmountSats = 60000\<rparr>]"
    by (simp_all add: paying_tx_def vote_tx_def)
  have root: "e_taproot demo_env ''V'' MainVaultPathIndex = Inr ''bc1V''" by (simp add: demo_env_def)
  have e: "\<not> Address_Equals ''bc1q'' ''bc1V''" "\<not> Address_Equals ''bc1p'' ''bc1V''" "Address_Equals ''bc1V'' ''bc1V''" "Chain_Equals BTCChain BTCChain"
    by (simp_all add: Address_Equals_def Chain_Equals_def EqualFold_def ToLower_def lower_char_def char_of_def bit_0)
  have m: "batchMatches demo_env owed_block paying_tx False"
    by (simp add: batchMatches_def p root e a k o owed_block_def btcEpochBatchExpectationsFor_def expectItem_def Let_def TxID_IsEmpty_def TrimSpace_def
        btcTxOutInputsEqual_def TxID_Equals_def EqualFold_def btcEpochBatchAmountMatches_def NewCoin_def observedTxSpentTxOutInputs_def input_spent_def)
  have "\<exists>t. markObservedOutboundTxOutBatch demo_env owed_block paying_tx demo_state = (Inr True, t)"
    using m by (simp add: markObservedOutboundTxOutBatch_def Let_def act_defs SetTxOut_def owed_block_def k o markMatchedTxOutItemSettled_def TxID_IsEmpty_def TxOut_IsEmpty_def)
  then obtain t where t: "markObservedOutboundTxOutBatch demo_env owed_block paying_tx demo_state = (Inr True, t)" by blast
  from batch_settled_exactly [OF t _ refl refl, of "''bc1V''"] t show ?thesis by (intro exI [of _ t]) (simp add: p root owed_block_def k)
qed

end
