(* ===== verification/Spec2Isabelle.thy ===== *)
theory Spec2Isabelle
  imports Ledger Deposit_Theorems Backing_Theorems Outbound_Theorems
begin

text \<open>
  Thornado is a Cosmos chain that runs a shielded pool of Bitcoin notes. A user pays Bitcoin into a
  vault and turns the matched deposit into notes, commitments in a Merkle tree per
  denomination; a note is redeemed by a zero-knowledge proof that spends its nullifier and pays
  Bitcoin, a node bond or a bid in an auction of a node slot. Withdrawal fees accrue in a pool that
  node operators and bonders claim, again into notes. Outbound Bitcoin payments are batched per
  vault. The code is under \<^verbatim>\<open>src/go-thornado\<close>, the Merkle engine in Rust under
  \<^verbatim>\<open>src/crates/thornado-shielder\<close>. All of it below is \<^verbatim>\<open>x/thornado\<close> unless a path says otherwise.

  \<^bold>\<open>How the code is modelled.\<close> A keeper function that reads and writes the store is an action
  \<^verbatim>\<open>kact\<close> (theory Prelude): from the state to a result, an error value or a return value, and
  the state reached. An error leaves the writes that preceded it, as in Go; the rollback of a failed
  transaction is in the step relation (\<open>commits\<close>, \<open>step\<close>, theory Messages). The state
  \<open>kstate\<close> (theory Keeper) has one ordered association list per key prefix of the store, in the
  order an iterator returns. Go's \<^verbatim>\<open>uint64\<close> and \<^verbatim>\<open>uint32\<close> are words, and wrap; \<^verbatim>\<open>cosmos.Uint\<close> is
  \<open>nat\<close>; \<^verbatim>\<open>int64\<close> is \<open>int\<close> with the wrap-around written out where a sum can reach the bound. Code
  outside the repository is the record \<open>env\<close> of parameters: digests, bech32 and base58 codecs, curve
  operations, JSON decoding into the structs of the code, the proof verifier, btcd's transaction
  sizes. No theorem assumes more of them than it says; \<open>demo_env\<close> (theory Demo) is a concrete
  instance, and every theorem with a hypothesis is applied on it or on a literal input.

  \<^bold>\<open>The theories.\<close>
  \<^item> Prelude, KVMap: results, actions and their inversion and frame rules (collections
    \<open>act_run\<close>, \<open>act_keeps\<close>), Go strings, the ordered store and its interface \<open>kv_store\<close>.
  \<^item> Common, Coins, Config: \<^verbatim>\<open>common/*.go\<close> and \<^verbatim>\<open>constants/\<close>: ids, chains, addresses, keys, paths,
    assets, coins, medians, the configuration and its defaults.
  \<^item> Types, Type_Methods: the records of \<^verbatim>\<open>types/type_*.go\<close> with their keys and \<^verbatim>\<open>Valid\<close>.
  \<^item> Keeper, Keeper_Laws: \<^verbatim>\<open>keeper/v1/keeper_*.go\<close>; the contract of a keyed store
    (\<open>keyed_store\<close>) with an interpretation for each store, and the frame of every write.
  \<^item> Notes, Pool, Merkle: parsing, flooring and inserting notes (\<^verbatim>\<open>shielder_flow.go\<close>), the abstract
    pool of append-only lists that insertion refines under the interface \<open>merkle_engine\<close>, and the
    engine of the code (\<^verbatim>\<open>mimc_sponge.rs\<close>, \<^verbatim>\<open>merkle.rs\<close>, \<^verbatim>\<open>field.rs\<close>), which is shown to be one
    and to compute the textbook root.
  \<^item> Fees, Bonds, Redeem, Shield, Auctions: the flows of \<^verbatim>\<open>shielder_flow.go\<close>, \<^verbatim>\<open>shielder.go\<close> and
    \<^verbatim>\<open>go-wrappers/shielder/public.go\<close>.
  \<^item> Batching, Withdraw: \<^verbatim>\<open>btc_gas.go\<close> and \<^verbatim>\<open>withdrawal_flow.go\<close>.
  \<^item> Messages, Ledger: the shielder messages of \<^verbatim>\<open>types/msg_shielder.go\<close>, their handlers
    (\<^verbatim>\<open>shielder.go\<close>, \<^verbatim>\<open>msg_server.go\<close>), runs of messages and blocks, and the invariants of every run. The
    locales of Ledger (\<open>outside_accounts\<close>, \<open>outside_queue\<close>, \<open>outside_pool\<close>) name the stores a group
    of handlers leaves alone, and are interpreted once per observation.
  \<^item> Pow, Deposits, Deposit_Laws, Deposit_Theorems: the proof of work of \<^verbatim>\<open>shielder_flow.go\<close>, all of
    \<^verbatim>\<open>deposit_flow.go\<close>, the laws of the deposit flow and its properties.
  \<^item> Invariants, Backing, Backing_Theorems: the invariants the chain registers with itself
    (\<^verbatim>\<open>keeper/v1/invariants.go\<close>), how the operations move value between the sums of the vault
    backing, and the properties.
  \<^item> Observed, Observed_Laws, Attestation: observed transactions (\<^verbatim>\<open>common/tx.go\<close>,
    \<^verbatim>\<open>common/type_observed_tx.go\<close>), the votes on them (\<^verbatim>\<open>types/type_observed_tx.go\<close>), the attestation of
    an inbound transaction, and the voter as a ballot box with runs of attestations over it.
  \<^item> Inbound, Inbound_Laws, Observed_Theorems: what a quorum on an inbound transaction does
    (\<^verbatim>\<open>handler_observed_tx_helpers.go\<close>, \<^verbatim>\<open>handler_observed_txin.go\<close>), the stores outside of it (locale
    \<open>outside_deposits\<close>), and the properties of both.
  \<^item> Outbound, Errata: the other half of \<^verbatim>\<open>handler_observed_tx_helpers.go\<close>, the outbound quorum: the
    attestation with its gas correction, the match of a transaction to queued items and batches, the
    settlement of items, repairs, migrations and the accounting of the vault; the votes on dropped
    transactions (\<^verbatim>\<open>handler_errata_tx_helpers.go\<close>) and the messages with many signed attestations
    (\<^verbatim>\<open>handler_observed_tx_quorum.go\<close>, \<^verbatim>\<open>handler_errata_tx_quorum.go\<close>). Keys, signatures and signed payloads are
    the record \<open>crypto\<close> of parameters.
  \<^item> Outbound_Laws, Errata_Laws, Outbound_Theorems: the stores outside the outbound code (locale
    \<open>outside_outbound\<close>, which extends \<open>outside_deposits\<close>), postconditions of actions (\<open>runs\<close>), the invariant on
    unmatched outbounds, observations as a step relation, and the properties.
  \<^item> Demo and Demo_*: concrete states and runs.

  \<^bold>\<open>What is shown\<close>, in the order of the sections below: along every run no nullifier key is spent
  twice, commitments are only appended, stored roots are textbook roots, and the stores stay
  well-formed; authorization, fee and payout of a redeem; the Merkle tree against its textbook
  definition; conservation of value when a deposit is shielded, a fee is booked and claimed, a
  bond is paid, a slot is sold, a batch is refreshed; bounds and freshness of the Bitcoin
  transactions; identifiers. Deposit_Theorems adds the deposit flow: the proof of work is a bound on
  the digest, an address is issued once per token, a payment is matched
  once and for its amount, a return splits a deposit exactly and only late deposits are returned, no
  deposit is both shielded and returned, and a payment always finds a block.
  Backing_Theorems composes the flows: shielding, bonding and paying out move value between what the
  chain owes as deposits, notes, bonds, payments and fees and leave the total unchanged, and matching
  and shielding keep the registered invariant of the deposits. Observed_Theorems follows the votes of
  the nodes: a quorum rests on two thirds of the active nodes, an honest supermajority decides under
  every interleaving, a quorum is announced once, and the vault is credited once with the coins agreed
  on. Outbound_Theorems follows what leaves a vault: a batch is settled only by a transaction that pays
  exactly what it owes. Theorems also show where the code falls short: the key of a
  nullifier is its text (\<open>nullifier_alias\<close>), 64-bit sums of notes wrap (\<open>note_total_overflow\<close>), a
  second bonder is not listed (\<open>second_bonder_not_listed\<close>), a sale counts its dust twice
  (\<open>sale_mints_dust\<close>), notes bonded to a sold node are no longer owed (\<open>bonding_keeps_liabilities\<close>),
  after nodes left the next vote is credited whatever it says (\<open>late_quorum_credits_last_vote\<close>), an outbound that
  pays nothing owed never halts the signing (\<open>unmatched_outbound_never_halts\<close>), a repeated errata debits the
  vault again (\<open>errata_debits_every_message\<close>) and one of an outpoint is lost (\<open>errata_misses_outpoint\<close>), an
  overflowing sum of inputs counts a prefix twice (\<open>input_total_exact\<close>).

  \<^bold>\<open>Bounds and fuel.\<close> Loops over stored data are structural recursions. The search for a change
  output (\<open>next_vout\<close>) has one step more than there are used outputs, which \<open>change_vout_least\<close> shows
  to be enough; the searches for an empty outbound block have the limit of the code (1000
  steps), after which the code itself returns an error; \<open>batch_block_always_found\<close> shows that they do
  not fail while fewer blocks are stored. The search for the next churn has a \<open>termination\<close> proof.

  \<^bold>\<open>Not modelled.\<close> The managers that run at the end of a block (churn,
  validators, penalties, gas prices, rescheduling of outbounds), the authentication of messages,
  the invariant on balances of the bank module, the messages other than the shielder and the
  observation ones, the queries, the wiring of the application, the processes of
  \<^verbatim>\<open>bifrost\<close>, and generated protobuf code. Events and logs are left out. A step of a run in
  Ledger is a shielder message or the passing of a block; nothing else changes the state there.
\<close>

section \<open>The shielded pool along every run\<close>

text \<open>C1. No note is spent twice: when a message that spends a nullifier has been committed, no message
  committed in any later state, after any messages and blocks in between, spends a nullifier with the
  same store key.\<close>

theorem no_double_spend:
  assumes "handle e m s = (Inr (), s1)" "nullifier_of e m = Some n" "reachable e s1 t"
    "handle e m' t = (Inr (), t1)" "nullifier_of e m' = Some n'"
  shows "skey (TrimSpace n') \<noteq> skey (TrimSpace n)"
proof
  assume "skey (TrimSpace n') = skey (TrimSpace n)"
  then have "ShielderNullifierSpent n' t = ShielderNullifierSpent n t" by (rule spent_key)
  moreover have "ShielderNullifierSpent n t"
    using assms(3) handle_spends(2) [OF assms(1,2)] by (rule spent_reachable)
  ultimately show False using handle_spends(1) [OF assms(4,5)] by simp
qed

theorem no_double_spend_witness:
  "\<exists>t. handle demo_env (bond_msg ''7'') demo_state = (Inr (), demo_state1) \<and>
     handle demo_env (bond_msg ''8'') demo_state1 = (Inr (), t) \<and> skey (TrimSpace ''8'') \<noteq> skey (TrimSpace ''7'')"
proof -
  obtain t where t: "handle demo_env (bond_msg ''8'') demo_state1 = (Inr (), t)" using demo_second [of "''8''"] by auto
  have "skey (TrimSpace ''8'') \<noteq> skey (TrimSpace ''7'')"
    by (rule no_double_spend [OF demo_first _ reachable.start t])
      (simp_all add: nullifier_of_def bond_msg_def demo_parse_bond)
  with demo_first t show ?thesis by blast
qed

text \<open>C2. The key of a nullifier is its text, not the field element the proof is checked against: a
  leading zero leaves the field element and the range check unchanged and changes the key. In the
  witness the same note is spent twice, as nullifier 7 and as nullifier 07.\<close>

theorem nullifier_alias:
  assumes "decimal_value 0 n = Some v" "n \<noteq> []"
  shows "fr_from_decimal (CHR ''0'' # n) = fr_from_decimal n \<and>
    validateFieldElementInRange l (CHR ''0'' # n) = validateFieldElementInRange l n \<and>
    skey (TrimSpace (CHR ''0'' # n)) \<noteq> skey (TrimSpace n)"
proof -
  have z: "decimal_value 0 (CHR ''0'' # n) = Some v" using assms(1) by (simp add: digit_value_def)
  have "TrimSpace n = n" "TrimSpace (CHR ''0'' # n) = CHR ''0'' # n"
    using decimal_plain [OF assms(1)] decimal_plain [OF z] by (blast intro: TrimSpace_no_space)+
  moreover have "skey (CHR ''0'' # n) \<noteq> skey n" by (auto simp: skey_def ToUpper_def dest: arg_cong [of _ _ length])
  ultimately show ?thesis
    using assms z SetString10_decimal [OF assms] SetString10_decimal [OF z]
    by (simp add: fr_from_decimal_def validateFieldElementInRange_def Let_def)
qed

theorem nullifier_alias_witness:
  "\<exists>t. handle demo_env (bond_msg ''7'') demo_state = (Inr (), demo_state1) \<and>
     handle demo_env (bond_msg ''07'') demo_state1 = (Inr (), t) \<and> fr_from_decimal ''07'' = fr_from_decimal ''7''"
proof -
  have "fr_from_decimal ''07'' = fr_from_decimal ''7''"
    using nullifier_alias [of "''7''" 7] by (simp add: digit_value_def)
  with demo_first demo_second [of "''07''"] show ?thesis by auto
qed








section \<open>Spending notes\<close>

text \<open>C6. A redeem is authorized only on a verified proof over a known root of the note's denomination,
  with an unspent nullifier; the authorization carries the note's denomination, marks the nullifier
  spent and changes no balance: bonds, deposits, fee pool, commitments and roots stay as they were.\<close>

theorem authorize_sound:
  assumes "AuthorizeShielderRedeem e req s = (Inr w, t)"
  shows "\<exists>pin. parseShielderRedeemPublicInputs e (rq_Public req) = Inr pin \<and>
    VerifyShielderRedeemJSON e (rq_Proof req) (rq_Public req) = Inr () \<and>
    ShielderMerkleRootExists (pi_DenominationSats pin) (pi_MerkleRoot pin) s \<and>
    rd_NullifierHash w = pi_NullifierHash pin \<and> rd_AmountSats w = pi_DenominationSats pin \<and>
    \<not> ShielderNullifierSpent (pi_NullifierHash pin) s \<and> ShielderNullifierSpent (pi_NullifierHash pin) t \<and>
    k_roots t = k_roots s \<and> k_commitments t = k_commitments s \<and> k_fee_pool t = k_fee_pool s \<and>
    k_bonds t = k_bonds s \<and> k_deposits t = k_deposits s"
proof -
  from assms obtain pin where "redeem_checked e req pin w s" by (rule authorize_run)
  with authorize_spends [OF assms] authorize_frame [OF assms] show ?thesis
    by (intro exI [of _ pin]) (auto simp: redeem_checked_def)
qed

lemma demo_authorized: "AuthorizeShielderRedeem demo_env \<lparr>rq_Proof = ''p'', rq_Public = ''7''\<rparr> demo_state
    = (Inr (btc_redeem ''7''), spent_state (btc_redeem ''7'') demo_state)"
  by (rule demo_authorize [OF demo_state_ready]) (simp_all add: ShielderNullifierSpent_def demo_state_def empty_kstate_def)

theorem authorize_sound_witness:
  "\<exists>pin. parseShielderRedeemPublicInputs demo_env ''7'' = Inr pin \<and>
    \<not> ShielderNullifierSpent (pi_NullifierHash pin) demo_state \<and>
    ShielderNullifierSpent (pi_NullifierHash pin) (spent_state (btc_redeem ''7'') demo_state)"
  using authorize_sound [OF demo_authorized] by auto

text \<open>C7. Queueing an authorized withdrawal adds exactly one payment to one block, for the amount less
  the fee to the recipient, keeps every payment the block had, books the fee once and only when
  asked to, and moves the redeem from authorized to queued; no nullifier changes.\<close>

theorem withdrawal_queued:
  assumes "queueAuthorizedWithdrawalTxOut e a book s = (Inr w, t)" "txouts_ok s" "unat (withdrawalFeeBp s) \<le> 10000"
  shows "rd_Status a = ShielderRedeemStatusAuthorized \<and> rd_Status w = DepositStatusKeysignQueued \<and>
    unat (rd_FeeSats w) = unat (rd_AmountSats a) * unat (withdrawalFeeBp s) div 10000 \<and>
    (\<exists>gasRate b. k_txouts t = kv_set (txout_key (tx_Height b)) b (k_txouts s) \<and>
       map payment (tx_TxArray b) = map payment (tx_TxArray (GetTxOut (tx_Height b) s)) @ [payment (withdrawal_item w gasRate)]) \<and>
    fp_TotalCollectedSats (GetFeePool t) = fp_TotalCollectedSats (GetFeePool s) + (if book then rd_FeeSats w else 0) \<and>
    GetShielderRedeem (rd_WithdrawalID a) t = w \<and> k_nullifiers t = k_nullifiers s"
proof -
  note q = queue_pays [OF assms]
  have out: "(withdrawal_item w g)\<lparr>to_TxType := GetTxType (withdrawal_item w g)\<rparr> = withdrawal_item w g" for g
    by (simp add: withdrawal_item_def GetTxType_def NormalizeTxOutType_def Let_def text_defs txout_string_defs ToLower_def lower_char_def)
  from q(4) obtain g b where "k_txouts t = kv_set (txout_key (tx_Height b)) b (k_txouts s)"
    "map payment (tx_TxArray b) = map payment (tx_TxArray (GetTxOut (tx_Height b) s)) @ [payment (withdrawal_item w g)]"
    by (auto simp: queued_def out)
  then have "\<exists>gasRate b. k_txouts t = kv_set (txout_key (tx_Height b)) b (k_txouts s) \<and>
       map payment (tx_TxArray b) = map payment (tx_TxArray (GetTxOut (tx_Height b) s)) @ [payment (withdrawal_item w gasRate)]"
    by blast
  with q show ?thesis by blast
qed

theorem withdrawal_queued_witness:
  "\<exists>t. queueAuthorizedWithdrawalTxOut demo_env (btc_redeem ''7'') True queue_state
      = (Inr ((btc_redeem ''7'')\<lparr>rd_Status := DepositStatusKeysignQueued\<rparr>), t) \<and>
    fp_TotalCollectedSats (GetFeePool t) = fp_TotalCollectedSats (GetFeePool queue_state) + 1000"
proof -
  obtain t where t: "queueAuthorizedWithdrawalTxOut demo_env (btc_redeem ''7'') True queue_state
      = (Inr ((btc_redeem ''7'')\<lparr>rd_Status := DepositStatusKeysignQueued\<rparr>), t)" using queue_total by blast
  have "txouts_ok queue_state" by (simp add: txouts_ok_def queue_state_def empty_kstate_def)
  from withdrawal_queued [OF t this] t show ?thesis by (simp add: queue_fee demo_redeem_def)
qed

section \<open>The commitment tree\<close>

text \<open>C8. Inserting a batch of notes refines the abstract append: with an engine that refuses an append
  beyond 2^20 leaves, the lists the state represents are extended by the notes in order, each under
  its denomination, the new root of every touched denomination is known, and the batch held no
  commitment twice and none that was in the pool.\<close>

theorem insertion_refines:
  assumes "\<And>filled i c r. e_append_leaf e filled i c = Inr r \<Longrightarrow> unat i < 2 ^ 20"
    and "insertShielderCommitments e nts s = (Inr (), t)" "pool_ok e s L"
  shows "pool_ok e t (append_notes L nts) \<and> distinct (map note_key nts) \<and>
    (\<forall>n \<in> set nts. \<not> kv_has (k_commitments s) (note_key n) \<and> kv_has (k_commitments t) (note_key n) \<and>
      ShielderMerkleRootExists (nc_DenominationSats n) (ts_Root (tree_of t (nc_DenominationSats n))) t)"
proof -
  have eng: "merkle_engine e" using assms(1) by unfold_locales
  note r = merkle_engine.insert_refines [OF eng assms(2,3)]
  note c = insert_commitments [OF assms(2)]
  from r(1,2) c show ?thesis by blast
qed

lemma demo_insert: "\<exists>t. insertShielderCommitments demo_env [\<lparr>nc_DenominationSats = 100000, nc_Commitment = ''c''\<rparr>] empty_kstate = (Inr (), t)"
  by (simp add: insertShielderCommitments_def insertNote_def act_defs Let_def text_defs ShielderCommitmentExists_def
      loadShielderTreeState_def GetShielderTreeState_def AppendShielderMerkleLeaf_def SetShielderCommitment_def
      SetShielderDenominationLeaf_def SetShielderNoteRecord_def SetShielderTreeState_def SetShielderMerkleRoot_def
      StoredShielderTreeState_Valid_def StoredShielderNoteRecord_Valid_def StoredShielderNoteRecord_Key_def empty_kstate_def demo_env_def zero_defs)

theorem insertion_refines_witness:
  "\<exists>t. pool_ok demo_env t (append_notes (\<lambda>_. []) [\<lparr>nc_DenominationSats = 100000, nc_Commitment = ''c''\<rparr>])"
proof -
  have "unat i < 2 ^ 20" if "e_append_leaf demo_env filled i c = Inr r" for filled i c r
    using that by (simp add: demo_env_def split: if_splits)
  with demo_insert insertion_refines [OF _ _ pool_ok_empty] show ?thesis by blast
qed

text \<open>C9. The inclusion path computed for any leaf of a tree verifies against the root of the textbook
  tree, both written in the hexadecimal form of the code.\<close>

theorem inclusion_path_verifies:
  assumes "list_all (\<lambda>v. v < fr_modulus) leaves" "length leaves \<le> 2 ^ MERKLE_TREE_DEPTH" "i < length leaves"
  shows "\<exists>p. merkle_path k leaves i = Inr p \<and> length p = MERKLE_TREE_DEPTH \<and>
    verify_merkle_path k (fr_to_hex (merkle_root k leaves)) (fr_to_hex (leaves ! i)) p = Inr ()"
proof -
  have path: "merkle_path k leaves i = Inr (path_levels k MERKLE_TREE_DEPTH 0 leaves i)"
    using assms(3) by (simp add: merkle_path_def)
  have "merkle_root k leaves < fr_modulus" using node_ref_range [OF assms(1)] by (simp add: merkle_root_def)
  moreover have "leaves ! i < fr_modulus" using assms(1,3) by (simp add: list_all_length)
  ultimately show ?thesis
    using merkle_path_verifies [OF path assms(1,2)] path by (simp add: fr_hex_roundtrip)
qed

theorem inclusion_path_verifies_witness:
  "\<exists>p. merkle_path id [1, 2, 3] 2 = Inr p \<and> verify_merkle_path id (fr_to_hex (merkle_root id [1, 2, 3])) (fr_to_hex 3) p = Inr ()"
  using inclusion_path_verifies [of "[1, 2, 3]" 2 id] by (auto simp: fr_modulus_def MERKLE_TREE_DEPTH_def)

section \<open>Shielding deposits\<close>

text \<open>C23. Shielding a deposit conserves it: only the owner of a matched or settled deposit shields it; the
  deposit becomes committed with its whole amount shielded, the 64-bit total of the notes and the
  remainder booked as fee make up what was open, and every note is new in the pool.\<close>

theorem shield_conserves:
  assumes "PostShielderShield e owner did cs s = (Inr d', t)"
  shows "dr_Owner (GetDepositRecord did s) = owner \<and>
    dr_Status (GetDepositRecord did s) \<in> {DepositStatusDepositMatched, DepositStatusSettled} \<and>
    dr_Status d' = DepositStatusCommitted \<and> dr_ShieldedSats d' = dr_AmountSats (GetDepositRecord did s) \<and>
    kv_get (k_deposits t) (skey (dr_DepositID (GetDepositRecord did s))) = Some d' \<and>
    (\<exists>nts. shielderNoteCommitmentTotal nts + (fp_TotalCollectedSats (GetFeePool t) - fp_TotalCollectedSats (GetFeePool s))
        = dr_AmountSats (GetDepositRecord did s) - dr_ShieldedSats (GetDepositRecord did s) \<and>
      distinct (map note_key nts) \<and> (\<forall>n \<in> set nts. \<not> kv_has (k_commitments s) (note_key n)) \<and>
      (\<forall>k. kv_has (k_commitments t) k \<longleftrightarrow> kv_has (k_commitments s) k \<or> k \<in> note_key ` set nts))"
proof -
  note r = PostShield_run [OF assms]
  from r(1) obtain nts f where sh: "shielded_by e cs (GetDepositRecord did s) d' nts f s t" by blast
  then obtain s1 s2 where ins: "insertShielderCommitments e nts s1 = (Inr (), s2)"
    and same: "k_commitments s1 = k_commitments s" "k_commitments t = k_commitments s2" by (auto simp: shielded_by_def)
  note c = insert_commitments [OF ins, unfolded same(1), folded same(2)]
  have "shielderNoteCommitmentTotal nts + (fp_TotalCollectedSats (GetFeePool t) - fp_TotalCollectedSats (GetFeePool s))
      = dr_AmountSats (GetDepositRecord did s) - dr_ShieldedSats (GetDepositRecord did s)"
    using sh by (simp add: shielded_by_def)
  with c have "\<exists>nts. shielderNoteCommitmentTotal nts + (fp_TotalCollectedSats (GetFeePool t) - fp_TotalCollectedSats (GetFeePool s))
        = dr_AmountSats (GetDepositRecord did s) - dr_ShieldedSats (GetDepositRecord did s) \<and>
      distinct (map note_key nts) \<and> (\<forall>n \<in> set nts. \<not> kv_has (k_commitments s) (note_key n)) \<and>
      (\<forall>k. kv_has (k_commitments t) k \<longleftrightarrow> kv_has (k_commitments s) k \<or> k \<in> note_key ` set nts)" by blast
  with r(2,3) sh show ?thesis by (simp add: shielded_by_def)
qed

theorem shield_conserves_witness:
  "\<exists>d t. PostShielderShield demo_env ''o'' ''D'' [''{c''] shield_state = (Inr d, t) \<and> dr_ShieldedSats d = 100005"
proof -
  obtain d t where run: "PostShielderShield demo_env ''o'' ''D'' [''{c''] shield_state = (Inr d, t)" using shield_total by blast
  from shield_conserves [OF run] run show ?thesis by (auto simp: shield_read matched_deposit_def)
qed


section \<open>Fees\<close>






section \<open>Bonds\<close>

text \<open>C27. Bonding notes conserves the value of the node: whatever path the confirmation takes, bond and
  pending amount together grow by exactly the amount of the note; on an active slot the bond itself
  does, and a slot becomes active only with the required bond.\<close>

theorem bond_conserved:
  assumes "confirmBondFromNoteSpend e owner n oper amt s = (Inr r, t)" "TrimSpace n \<noteq> []" "bonds_ok s"
  shows "r = GetShielderNodeBond n t \<and>
    nb_BondSats r + nb_PendingSats r = nb_BondSats (GetShielderNodeBond n s) + nb_PendingSats (GetShielderNodeBond n s) + amt \<and>
    (if nb_FeeShareActive (GetShielderNodeBond n s) then nb_BondSats r = nb_BondSats (GetShielderNodeBond n s) + amt
     else nb_FeeShareActive r \<longrightarrow> shielderBondRequiredSats (nb_Slot r) s \<le> nb_BondSats r)"
  using bond_spend_run [OF assms refl] by auto

lemma demo_bonds_ok: "bonds_ok demo_state"
  by (simp add: bonds_ok_def demo_state_def empty_kstate_def)

lemma demo_record: "recordPendingShielderNodeBond demo_env demo_session 100000 demo_state = (Inr 1, bonded_state 100000 demo_state)"
  by (rule demo_record_first) (simp_all add: demo_state_def empty_kstate_def)

theorem bond_conserved_witness:
  "\<exists>t. confirmBondFromNoteSpend demo_env ''op'' ''N'' ''op'' 100000 demo_state = (Inr (demo_bond 100000), t) \<and>
    demo_bond 100000 = GetShielderNodeBond ''N'' t"
proof -
  have "confirmBondFromNoteSpend demo_env ''op'' ''N'' ''op'' 100000 demo_state = (Inr (demo_bond 100000), bonded_state 100000 demo_state)"
    using demo_spend [OF demo_state_ready, of 0] demo_record by simp
  with bond_conserved [OF this _ demo_bonds_ok] show ?thesis by (auto simp: demo_names)
qed

text \<open>C28. A second bonder of a node is never listed: once the node has a bond, recording a deposit of
  an owner without a bonder record leaves the list of bonders unchanged, because the read of an absent
  record already returns the owner as its bonder.\<close>

theorem second_bonder_not_listed:
  assumes "recordPendingShielderNodeBond e ses amt s = (Inr slot, t)" "TrimSpace (ds_NodePubKey ses) \<noteq> []"
    "bonds_ok s" "nb_NodeAddress (GetShielderNodeBond (ds_NodePubKey ses) s) \<noteq> []"
    "kv_get (k_bonders s) (skey (ShielderNodeBonderKey e (TrimSpace (ds_NodePubKey ses)) (ds_Owner ses))) = None"
  shows "nb_Bonders (GetShielderNodeBond (ds_NodePubKey ses) t) = nb_Bonders (GetShielderNodeBond (ds_NodePubKey ses) s)"
  using assms by (rule second_bonder_unlisted)

lemma sale_other: "skey (ShielderNodeBonderKey demo_env ''N'' ''x'') = ''N/X''"
  by (simp add: ShielderNodeBonderKey_def skey_def text_defs char_of_def bit_0 demo_env_def)

lemma sale_bonds_ok: "bonds_ok sale_state"
  by (auto simp: bonds_ok_def sale_state_def sale_bond_def zero_defs sale_names kv_get_def split: if_splits)

lemma demo_second_bonder: "\<exists>t. recordPendingShielderNodeBond demo_env (DepositSession_zero\<lparr>ds_Owner := ''x'', ds_OperatorPubKey := ''op'',
     ds_NodePubKey := ''N''\<rparr>) 100000 sale_state = (Inr 1, t)"
  by (simp add: recordPendingShielderNodeBond_def act_defs Let_def demo_names demo_keys sale_addresses demo_proofs bond_access_defs zero_defs
      ShielderNodeBond_Valid_def ShielderNodeBonder_Valid_def checks_ok sale_state_def kv_get_def sale_names sale_bond_def sale_other)

theorem second_bonder_not_listed_witness:
  "\<exists>t. nb_Bonders (GetShielderNodeBond ''N'' t) = [''op''] \<and> recordPendingShielderNodeBond demo_env
     (DepositSession_zero\<lparr>ds_Owner := ''x'', ds_OperatorPubKey := ''op'', ds_NodePubKey := ''N''\<rparr>) 100000 sale_state = (Inr 1, t)"
proof -
  let ?ses = "DepositSession_zero\<lparr>ds_Owner := ''x'', ds_OperatorPubKey := ''op'', ds_NodePubKey := ''N''\<rparr>"
  obtain t where t: "recordPendingShielderNodeBond demo_env ?ses 100000 sale_state = (Inr 1, t)" using demo_second_bonder by blast
  have "kv_get (k_bonders sale_state) ''N/X'' = None" by (simp add: sale_state_def kv_get_def)
  with second_bonder_not_listed [OF t _ sale_bonds_ok] t show ?thesis
    by (auto simp: zero_defs sale_names sale_reads sale_bond_def sale_other)
qed

section \<open>Auctions of node slots\<close>

text \<open>C29. A settled sale moves the slot and creates value: the old node keeps no bond, the new bond is
  the whole bid, and on top of it the part of the surplus below the note floor is booked as a fee. In the
  witness a bid of 100000 sats for a bond of 1000 leaves a bond of 100000 and a fee of 99000.\<close>

theorem sale_mints_dust:
  assumes "settleNodeSlotSale e a b s = (Inr u, t)"
    "skey (TrimSpace (nb_NodePubKey (GetShielderNodeBond (au_SellerNodePubKey a) s))) = skey (TrimSpace (au_SellerNodePubKey a))"
    "skey (TrimSpace (bd_NodePubKey b)) \<noteq> skey (TrimSpace (au_SellerNodePubKey a))"
  shows "nb_BondSats (GetShielderNodeBond (bd_NodePubKey b) t) = bd_AmountSats b \<and>
    nb_BondSats (GetShielderNodeBond (au_SellerNodePubKey a) t) = 0 \<and> nb_Sold (GetShielderNodeBond (au_SellerNodePubKey a) t) \<and>
    fp_TotalCollectedSats (GetFeePool t) = fp_TotalCollectedSats (GetFeePool s) + shielderDustRemainder
      (bd_AmountSats b - min (bd_AmountSats b) (nb_BondSats (GetShielderNodeBond (au_SellerNodePubKey a) s))) s"
  using settle_value [OF assms] by blast

theorem sale_mints_dust_witness:
  "\<exists>t. settleNodeSlotSale demo_env sold_auction sold_bid sale_state = (Inr (), t) \<and>
    nb_BondSats (GetShielderNodeBond ''M'' t) = 100000 \<and>
    fp_TotalCollectedSats (GetFeePool t) = fp_TotalCollectedSats (GetFeePool sale_state) + 99000"
proof -
  obtain t where run: "settleNodeSlotSale demo_env sold_auction sold_bid sale_state = (Inr (), t)" using sale_settled by blast
  have f: "au_SellerNodePubKey sold_auction = ''N''" "bd_AmountSats sold_bid = 100000" "bd_NodePubKey sold_bid = ''M''"
    "nb_NodePubKey sale_bond = ''N''" "nb_BondSats sale_bond = 1000"
    by (simp_all add: sale_defs)
  from sale_mints_dust [OF run] run show ?thesis by (simp add: f sale_reads sale_names sale_dust min_def)
qed

section \<open>Bitcoin transactions\<close>

text \<open>C30. A refreshed batch conserves value: all items of the group spend the same inputs, what the items
  pay and the gas assigned to them never exceed the inputs, and equal them when the batch has a remainder
  item; the fixed payments keep their amounts.\<close>

theorem batch_conserves:
  assumes "refreshBTCEpochBatchGroup e txOut grp s = Inr txOut'"
    "distinct grp" "grp \<noteq> []" "\<forall>i \<in> set grp. i < length (tx_TxArray txOut)" "length grp < 2 ^ 64"
  shows "\<exists>inputs. inputs \<noteq> [] \<and> (\<forall>i \<in> set grp. to_SourceInputs (tx_TxArray txOut' ! i) = inputs)
    \<and> sum_list (map (amount_at (tx_TxArray txOut')) grp) + sum_list (map (gas_at (tx_TxArray txOut')) grp)
        \<le> btcSourceInputsAmount inputs
    \<and> (remainders_of (tx_TxArray txOut) grp \<noteq> [] \<longrightarrow>
        sum_list (map (amount_at (tx_TxArray txOut')) grp) + sum_list (map (gas_at (tx_TxArray txOut')) grp)
          = btcSourceInputsAmount inputs)
    \<and> (\<forall>i \<in> set (fixed_of (tx_TxArray txOut) grp). amount_at (tx_TxArray txOut') i = amount_at (tx_TxArray txOut) i)"
  using assms by (rule batch_value)

theorem batch_conserves_witness:
  "\<exists>b inputs. refreshBTCEpochBatchGroup demo_env batch_block [0, 1] demo_state = Inr b \<and> inputs \<noteq> [] \<and>
    sum_list (map (amount_at (tx_TxArray b)) [0, 1]) + sum_list (map (gas_at (tx_TxArray b)) [0, 1]) \<le> btcSourceInputsAmount inputs"
proof -
  obtain b where run: "refreshBTCEpochBatchGroup demo_env batch_block [0, 1] demo_state = Inr b" using batch_refreshed by blast
  have "length (tx_TxArray batch_block) = 2" by (simp add: batch_block_def)
  with batch_conserves [OF run] run show ?thesis by fastforce
qed




section \<open>Identifiers\<close>



end
